(* ===== verification/Prelude.thy ===== *)
theory Prelude
  imports Main "HOL-Library.Word"
begin

unbundle bit_operations_syntax

text \<open>
  Shared vocabulary of the development: the fixed-width C integers of
  \<^verbatim>\<open>kernel/include/types.h\<close>, the search loops over fixed tables that every kernel
  component uses (\<^verbatim>\<open>for (index = 0; index < LIMIT; ++index) if (...) return &table[index]\<close>),
  occupancy counts of such tables, rights masks, and the locale that lifts an invariant of
  single operations to runs of operations.
\<close>

type_synonym u8 = "8 word"
type_synonym u16 = "16 word"
type_synonym u32 = "32 word"
type_synonym u64 = "64 word"

text \<open>
  The all-ones value the code uses as its invalid handle, pid, task, descriptor and endpoint.
\<close>

abbreviation (input) u32_max :: u32 where
  "u32_max \<equiv> 0xFFFFFFFF"

text \<open>The bytes of a C string literal.\<close>

definition bytes_of :: "string \<Rightarrow> u8 list" where
  "bytes_of = map of_char"

lemma length_bytes_of [simp]: "length (bytes_of s) = length s"
  by (simp add: bytes_of_def)

named_theorems kernel_defs \<open>definitions of the small accessors that proofs unfold together\<close>
named_theorems table_simps \<open>reading and counting in tables after one slot was written\<close>


section \<open>Word counters\<close>

lemma unat_word_inc: "(n :: u32) < u32_max \<Longrightarrow> unat (n + 1) = Suc (unat n)"
  by (simp add: word_less_nat_alt unat_word_ariths)

lemma small_of_nat_eq_0: "k \<le> 0xFFFF \<Longrightarrow> (of_nat k :: u32) = 0 \<longleftrightarrow> k = 0"
  by (simp add: word_of_nat_eq_0_iff) (auto dest: dvd_imp_le)

lemma small_of_nat_eq: "k \<le> 0xFFFF \<Longrightarrow> l \<le> 0xFFFF \<Longrightarrow> (of_nat k :: u32) = of_nat l \<longleftrightarrow> k = l"
  by (simp add: word_of_nat_eq_iff take_bit_nat_eq_self)

lemma of_nat_pred: "0 < k \<Longrightarrow> (of_nat k :: u32) - 1 = of_nat (k - 1)"
  by (cases k) simp_all

lemma unat_le_u32_max: "unat (n :: u32) \<le> 0xFFFFFFFF"
  using unsigned_less [of n, where 'a = nat] by simp

text \<open>Incrementing a counter that has not reached its last two values neither wraps nor saturates.\<close>

lemma word_inc_less:
  assumes "(n :: u32) < 0xFFFFFFFE"
  shows "n < n + 1" "n + 1 < u32_max" "n < u32_max"
proof -
  have u: "unat n < 0xFFFFFFFE" using assms by (simp add: word_less_nat_alt)
  then show "n < u32_max" by (simp add: word_less_nat_alt)
  then show "n < n + 1" "n + 1 < u32_max"
    using u by (simp_all add: word_less_nat_alt unat_word_inc)
qed


section \<open>Search loops over tables\<close>

text \<open>
  \<open>first_index P xs\<close> is the loop that returns the first slot satisfying \<open>P\<close>, or nothing.
\<close>

fun first_index :: "('a \<Rightarrow> bool) \<Rightarrow> 'a list \<Rightarrow> nat option" where
  "first_index P [] = None"
| "first_index P (x # xs) = (if P x then Some 0 else map_option Suc (first_index P xs))"

lemma first_index_Some_iff:
  "first_index P xs = Some i \<longleftrightarrow> i < length xs \<and> P (xs ! i) \<and> (\<forall>j<i. \<not> P (xs ! j))"
proof (induction xs arbitrary: i)
  case Nil
  show ?case by simp
next
  case (Cons x xs)
  show ?case
  proof (cases i)
    case 0
    then show ?thesis by auto
  next
    case (Suc k)
    have "(\<forall>j<Suc k. \<not> P ((x # xs) ! j)) \<longleftrightarrow> \<not> P x \<and> (\<forall>j<k. \<not> P (xs ! j))"
      by (auto simp: less_Suc_eq_0_disj)
    with Suc Cons.IH [of k] show ?thesis by auto
  qed
qed

lemma first_index_None_iff: "first_index P xs = None \<longleftrightarrow> (\<forall>x\<in>set xs. \<not> P x)"
  by (induction xs) auto

lemma first_index_SomeD:
  assumes "first_index P xs = Some i"
  shows "i < length xs" "P (xs ! i)" "\<And>j. j < i \<Longrightarrow> \<not> P (xs ! j)"
  using assms by (simp_all add: first_index_Some_iff)

lemma first_index_ex:
  assumes "i < length xs" and "P (xs ! i)"
  obtains k where "first_index P xs = Some k" "k \<le> i"
proof -
  have "first_index P xs \<noteq> None"
    using assms nth_mem [of i xs] by (auto simp: first_index_None_iff)
  then obtain k where k: "first_index P xs = Some k" by blast
  moreover have "k \<le> i"
    using assms(2) first_index_SomeD(3) [OF k] by (meson not_le_imp_less)
  ultimately show thesis by (rule that)
qed

text \<open>
  When at most one slot satisfies the predicate, the loop finds exactly that slot.
\<close>

lemma first_index_unique:
  assumes "i < length xs" and "P (xs ! i)"
    and "\<And>j. j < length xs \<Longrightarrow> P (xs ! j) \<Longrightarrow> j = i"
  shows "first_index P xs = Some i"
proof -
  have "\<not> P (xs ! j)" if "j < i" for j
    using assms(3) [of j] that assms(1) by fastforce
  with assms(1,2) show ?thesis by (simp add: first_index_Some_iff)
qed

lemma first_index_cong:
  assumes "length xs = length ys" and "\<And>i. i < length xs \<Longrightarrow> P (xs ! i) = Q (ys ! i)"
  shows "first_index P xs = first_index Q ys"
  using assms
proof (induction xs ys rule: list_induct2)
  case Nil
  show ?case by simp
next
  case (Cons x xs y ys)
  have "P x = Q y" using Cons.prems [of 0] by simp
  moreover have "first_index P xs = first_index Q ys"
    using Cons.IH Cons.prems by fastforce
  ultimately show ?case by simp
qed


section \<open>Occupancy of tables\<close>

text \<open>
  \<open>count_if P xs\<close> is the loop that counts the slots satisfying \<open>P\<close>.
\<close>

definition count_if :: "('a \<Rightarrow> bool) \<Rightarrow> 'a list \<Rightarrow> nat" where
  "count_if P xs = length (filter P xs)"

lemma count_if_simps [simp]:
  "count_if P [] = 0"
  "count_if P (x # xs) = (if P x then Suc (count_if P xs) else count_if P xs)"
  by (simp_all add: count_if_def)

lemma count_if_append [simp]: "count_if P (xs @ ys) = count_if P xs + count_if P ys"
  by (simp add: count_if_def)

lemma count_if_le [simp]: "count_if P xs \<le> length xs"
  by (simp add: count_if_def)

lemma count_if_replicate [simp]: "count_if P (replicate n x) = (if P x then n else 0)"
  by (simp add: count_if_def)

lemma count_if_eq_0_iff: "count_if P xs = 0 \<longleftrightarrow> (\<forall>x\<in>set xs. \<not> P x)"
  by (simp add: count_if_def filter_empty_conv)

lemma count_if_full: "count_if P xs = length xs \<longleftrightarrow> (\<forall>x\<in>set xs. P x)"
proof (induction xs)
  case Nil
  show ?case by simp
next
  case (Cons x xs)
  then show ?case using count_if_le [of P xs] by (auto simp del: count_if_le)
qed

lemma count_if_pos:
  assumes "i < length xs" and "P (xs ! i)"
  shows "0 < count_if P xs"
  using assms count_if_eq_0_iff [of P xs] by (metis gr0I nth_mem)

lemma count_if_update:
  assumes "i < length xs"
  shows "count_if P (xs[i := v]) + (if P (xs ! i) then 1 else 0)
    = count_if P xs + (if P v then 1 else 0)"
proof -
  have split: "xs = take i xs @ xs ! i # drop (Suc i) xs"
    using assms by (rule id_take_nth_drop)
  have upd: "xs[i := v] = take i xs @ v # drop (Suc i) xs"
    using assms by (rule upd_conv_take_nth_drop)
  show ?thesis
    by (subst (2) split, subst upd) simp
qed

lemma count_if_update_same [table_simps]:
  "i < length xs \<Longrightarrow> P v = P (xs ! i) \<Longrightarrow> count_if P (xs[i := v]) = count_if P xs"
  using count_if_update [of i xs P v] by (simp split: if_splits)

lemma count_if_update_add [table_simps]:
  "i < length xs \<Longrightarrow> P v \<Longrightarrow> \<not> P (xs ! i) \<Longrightarrow> count_if P (xs[i := v]) = Suc (count_if P xs)"
  using count_if_update [of i xs P v] by simp

lemma count_if_update_del [table_simps]:
  "i < length xs \<Longrightarrow> \<not> P v \<Longrightarrow> P (xs ! i) \<Longrightarrow> Suc (count_if P (xs[i := v])) = count_if P xs"
  using count_if_update [of i xs P v] by simp

lemma count_if_cong:
  assumes "length xs = length ys" and "\<And>i. i < length xs \<Longrightarrow> P (xs ! i) = Q (ys ! i)"
  shows "count_if P xs = count_if Q ys"
  using assms
proof (induction xs ys rule: list_induct2)
  case Nil
  show ?case by simp
next
  case (Cons x xs y ys)
  have "P x = Q y" using Cons.prems [of 0] by simp
  moreover have "count_if P xs = count_if Q ys"
    using Cons.IH Cons.prems by fastforce
  ultimately show ?case by simp
qed

lemma nth_update_cases:
  "i < length xs \<Longrightarrow> xs[i := v] ! j = (if j = i then v else xs ! j)"
  by simp


section \<open>Rights masks\<close>

text \<open>
  \<open>mask_within r s\<close>: every bit of \<open>r\<close> is a bit of \<open>s\<close>, the test
  \<^verbatim>\<open>(r & s) == r\<close> of the code.
\<close>

definition mask_within :: "u32 \<Rightarrow> u32 \<Rightarrow> bool" where
  "mask_within r s \<longleftrightarrow> r AND s = r"

lemma mask_within_bit: "mask_within r s \<longleftrightarrow> (\<forall>n<32. bit r n \<longrightarrow> bit s n)"
  by (auto simp: mask_within_def bit_eq_iff bit_and_iff)

lemma mask_within_refl [simp, intro]: "mask_within r r"
  by (simp add: mask_within_def)

lemma mask_within_trans [trans]: "mask_within r s \<Longrightarrow> mask_within s t \<Longrightarrow> mask_within r t"
  by (auto simp: mask_within_bit)

lemma mask_within_and_not: "mask_within (r AND NOT s) r"
  by (auto simp: mask_within_bit bit_and_iff)

lemma mask_outside_iff: "r AND NOT s = 0 \<longleftrightarrow> mask_within r (s :: u32)"
  by (auto simp: mask_within_bit bit_eq_iff bit_and_iff bit_not_iff)

lemma mask_disjoint_mono: "mask_within r s \<Longrightarrow> s AND m = 0 \<Longrightarrow> r AND (m :: u32) = 0"
  by (auto simp: mask_within_bit bit_eq_iff bit_and_iff)


section \<open>Pools of per-process contexts\<close>

text \<open>
  Persona, audit and descriptor state live in static tables of contexts with a parallel table of
  used flags; a process holds the index of its context. \<open>pool_inv\<close> says that an index held by a
  process is in range, marked used, and that the context names the process as its owner.
\<close>

definition pool_inv :: "('c \<Rightarrow> u32) \<Rightarrow> nat \<Rightarrow> (u32 \<Rightarrow> nat option) \<Rightarrow> 'c list \<Rightarrow> bool list \<Rightarrow> bool" where
  "pool_inv owner n slot cs us \<longleftrightarrow> length cs = n \<and> length us = n
     \<and> (\<forall>pid i. slot pid = Some i \<longrightarrow> i < n \<and> us ! i \<and> owner (cs ! i) = pid)"

lemma pool_invD:
  assumes "pool_inv owner n slot cs us" and "slot pid = Some i"
  shows "i < n" "i < length cs" "us ! i" "owner (cs ! i) = pid"
  using assms by (simp_all add: pool_inv_def)

lemma pool_inj:
  "pool_inv owner n slot cs us \<Longrightarrow> slot p = Some i \<Longrightarrow> slot q = Some i \<Longrightarrow> p = q"
  by (auto simp: pool_inv_def)

lemma pool_inv_attach:
  assumes "pool_inv owner n slot cs us" and "i < n" and "\<not> us ! i" and "owner c = pid"
    and "\<And>q. slot' q = (if q = pid then Some i else slot q)"
  shows "pool_inv owner n slot' (cs[i := c]) (us[i := True])"
proof -
  have "j \<noteq> i" if "slot q = Some j" for q j
    using assms(1,3) that by (auto simp: pool_inv_def)
  with assms show ?thesis by (auto simp: pool_inv_def nth_list_update)
qed

lemma pool_inv_detach:
  assumes "pool_inv owner n slot cs us" and "slot pid = Some i"
    and "\<And>q. slot' q = (if q = pid then None else slot q)"
  shows "pool_inv owner n slot' (cs[i := c]) (us[i := False])"
proof -
  have "j \<noteq> i" if "slot q = Some j" "q \<noteq> pid" for q j
    using pool_inj [OF assms(1,2), of q] that by auto
  with assms show ?thesis by (auto simp: pool_inv_def nth_list_update split: if_splits)
qed

lemma pool_inv_upd:
  assumes "pool_inv owner n slot cs us" and "owner c = owner (cs ! i)"
  shows "pool_inv owner n slot (cs[i := c]) us"
proof (cases "i < length cs")
  case True
  with assms show ?thesis by (auto simp: pool_inv_def nth_list_update)
next
  case False
  with assms show ?thesis by (simp add: list_update_beyond)
qed

lemma pool_inv_unused:
  assumes "pool_inv owner n slot cs us" and "\<not> us ! i" and "i < n"
  shows "pool_inv owner n slot (cs[i := c]) (us[i := False])"
proof -
  have "j \<noteq> i" if "slot q = Some j" for q j
    using assms(1,2) that by (auto simp: pool_inv_def)
  with assms show ?thesis by (auto simp: pool_inv_def nth_list_update)
qed


section \<open>Runs of operations\<close>

text \<open>
  An operation machine: the component's operations \<open>step\<close>, a side condition \<open>ok\<close> under which
  an operation is issued, and an invariant kept by each such operation. The locale lifts the
  invariant to every finite run of operations.
\<close>

fun run_ops :: "('o \<Rightarrow> 's \<Rightarrow> 's) \<Rightarrow> 'o list \<Rightarrow> 's \<Rightarrow> 's" where
  "run_ops f [] s = s"
| "run_ops f (x # xs) s = run_ops f xs (f x s)"

fun all_ok :: "('o \<Rightarrow> 's \<Rightarrow> bool) \<Rightarrow> ('o \<Rightarrow> 's \<Rightarrow> 's) \<Rightarrow> 'o list \<Rightarrow> 's \<Rightarrow> bool" where
  "all_ok ok f [] s = True"
| "all_ok ok f (x # xs) s = (ok x s \<and> all_ok ok f xs (f x s))"

lemma run_ops_append: "run_ops f (xs @ ys) s = run_ops f ys (run_ops f xs s)"
  by (induction xs arbitrary: s) auto

locale op_machine =
  fixes step :: "'o \<Rightarrow> 's \<Rightarrow> 's"
    and ok :: "'o \<Rightarrow> 's \<Rightarrow> bool"
    and inv :: "'s \<Rightarrow> bool"
  assumes inv_step: "inv s \<Longrightarrow> ok x s \<Longrightarrow> inv (step x s)"
begin

lemma inv_run: "inv s \<Longrightarrow> all_ok ok step xs s \<Longrightarrow> inv (run_ops step xs s)"
  by (induction xs arbitrary: s) (auto intro: inv_step)

text \<open>Every intermediate state of a run satisfies the invariant as well.\<close>

lemma inv_prefix:
  assumes "inv s" and "all_ok ok step (xs @ ys) s"
  shows "inv (run_ops step xs s)"
proof -
  have "all_ok ok step xs s"
    using assms(2) by (induction xs arbitrary: s) auto
  with assms(1) show ?thesis by (rule inv_run)
qed

end

end
