(* ===== verification/Principal.thy ===== *)
theory Principal
  imports Prelude
begin

text \<open>
  The principal directory of \<^verbatim>\<open>kernel/arch/x86_64/principal.c\<close>: a constant table of the
  identities that may own authority, with the lookups over it. Capability, process and
  descriptor code consult it through \<open>principal64_is_active\<close>.
\<close>

record principal64_record =
  pr_id :: u32
  pr_role_mask :: u32
  pr_active :: bool
  pr_name :: string

definition PRINCIPAL64_ID_SYSTEM :: u32 where "PRINCIPAL64_ID_SYSTEM = 0x0001"
definition PRINCIPAL64_ID_POLICY_CLIENT :: u32 where "PRINCIPAL64_ID_POLICY_CLIENT = 0x0101"
definition PRINCIPAL64_ID_POLICY_WORKER :: u32 where "PRINCIPAL64_ID_POLICY_WORKER = 0x0102"
definition PRINCIPAL64_ID_CONSOLE_CLIENT :: u32 where "PRINCIPAL64_ID_CONSOLE_CLIENT = 0x0201"
definition PRINCIPAL64_ID_CONSOLE_WORKER :: u32 where "PRINCIPAL64_ID_CONSOLE_WORKER = 0x0202"
definition PRINCIPAL64_ID_INIT_SUPERVISOR :: u32 where "PRINCIPAL64_ID_INIT_SUPERVISOR = 0x1001"
definition PRINCIPAL64_ID_DRIVER_HOST :: u32 where "PRINCIPAL64_ID_DRIVER_HOST = 0x1002"
definition PRINCIPAL64_ID_RAMFS_WORKER :: u32 where "PRINCIPAL64_ID_RAMFS_WORKER = 0x1003"
definition PRINCIPAL64_ID_INPUT_WORKER :: u32 where "PRINCIPAL64_ID_INPUT_WORKER = 0x1004"
definition PRINCIPAL64_ID_TELEMETRY :: u32 where "PRINCIPAL64_ID_TELEMETRY = 0x1005"
definition PRINCIPAL64_ID_BLOCK_WORKER :: u32 where "PRINCIPAL64_ID_BLOCK_WORKER = 0x1006"

lemmas principal_ids =
  PRINCIPAL64_ID_SYSTEM_def PRINCIPAL64_ID_POLICY_CLIENT_def PRINCIPAL64_ID_POLICY_WORKER_def
  PRINCIPAL64_ID_CONSOLE_CLIENT_def PRINCIPAL64_ID_CONSOLE_WORKER_def
  PRINCIPAL64_ID_INIT_SUPERVISOR_def PRINCIPAL64_ID_DRIVER_HOST_def
  PRINCIPAL64_ID_RAMFS_WORKER_def PRINCIPAL64_ID_INPUT_WORKER_def
  PRINCIPAL64_ID_TELEMETRY_def PRINCIPAL64_ID_BLOCK_WORKER_def

definition PRINCIPAL64_ROLE_SYSTEM :: u32 where "PRINCIPAL64_ROLE_SYSTEM = 0x001"
definition PRINCIPAL64_ROLE_SERVICE_CLIENT :: u32 where "PRINCIPAL64_ROLE_SERVICE_CLIENT = 0x002"
definition PRINCIPAL64_ROLE_WORKER :: u32 where "PRINCIPAL64_ROLE_WORKER = 0x004"
definition PRINCIPAL64_ROLE_INTERACTIVE :: u32 where "PRINCIPAL64_ROLE_INTERACTIVE = 0x008"
definition PRINCIPAL64_ROLE_SERVICE :: u32 where "PRINCIPAL64_ROLE_SERVICE = 0x010"
definition PRINCIPAL64_ROLE_STORAGE :: u32 where "PRINCIPAL64_ROLE_STORAGE = 0x020"
definition PRINCIPAL64_ROLE_INPUT :: u32 where "PRINCIPAL64_ROLE_INPUT = 0x040"
definition PRINCIPAL64_ROLE_DRIVER :: u32 where "PRINCIPAL64_ROLE_DRIVER = 0x080"
definition PRINCIPAL64_ROLE_TELEMETRY :: u32 where "PRINCIPAL64_ROLE_TELEMETRY = 0x100"
definition PRINCIPAL64_ROLE_POLICY :: u32 where "PRINCIPAL64_ROLE_POLICY = 0x200"
definition PRINCIPAL64_ROLE_CONSOLE :: u32 where "PRINCIPAL64_ROLE_CONSOLE = 0x400"

lemmas principal_roles =
  PRINCIPAL64_ROLE_SYSTEM_def PRINCIPAL64_ROLE_SERVICE_CLIENT_def PRINCIPAL64_ROLE_WORKER_def
  PRINCIPAL64_ROLE_INTERACTIVE_def PRINCIPAL64_ROLE_SERVICE_def PRINCIPAL64_ROLE_STORAGE_def
  PRINCIPAL64_ROLE_INPUT_def PRINCIPAL64_ROLE_DRIVER_def PRINCIPAL64_ROLE_TELEMETRY_def
  PRINCIPAL64_ROLE_POLICY_def PRINCIPAL64_ROLE_CONSOLE_def

definition mk_principal :: "u32 \<Rightarrow> u32 \<Rightarrow> string \<Rightarrow> principal64_record" where
  "mk_principal i r n = \<lparr>pr_id = i, pr_role_mask = r, pr_active = True, pr_name = n\<rparr>"

definition g_principals :: "principal64_record list" where
  "g_principals =
    [ mk_principal PRINCIPAL64_ID_SYSTEM PRINCIPAL64_ROLE_SYSTEM ''system'',
      mk_principal PRINCIPAL64_ID_POLICY_CLIENT
        (PRINCIPAL64_ROLE_SERVICE_CLIENT OR PRINCIPAL64_ROLE_INTERACTIVE OR PRINCIPAL64_ROLE_POLICY)
        ''policy-client'',
      mk_principal PRINCIPAL64_ID_POLICY_WORKER
        (PRINCIPAL64_ROLE_WORKER OR PRINCIPAL64_ROLE_SERVICE OR PRINCIPAL64_ROLE_POLICY)
        ''policy-worker'',
      mk_principal PRINCIPAL64_ID_CONSOLE_CLIENT
        (PRINCIPAL64_ROLE_SERVICE_CLIENT OR PRINCIPAL64_ROLE_INTERACTIVE OR PRINCIPAL64_ROLE_CONSOLE)
        ''console-client'',
      mk_principal PRINCIPAL64_ID_CONSOLE_WORKER
        (PRINCIPAL64_ROLE_WORKER OR PRINCIPAL64_ROLE_SERVICE OR PRINCIPAL64_ROLE_CONSOLE)
        ''console-worker'',
      mk_principal PRINCIPAL64_ID_INIT_SUPERVISOR
        (PRINCIPAL64_ROLE_SYSTEM OR PRINCIPAL64_ROLE_SERVICE) ''init-supervisor'',
      mk_principal PRINCIPAL64_ID_DRIVER_HOST
        (PRINCIPAL64_ROLE_WORKER OR PRINCIPAL64_ROLE_SERVICE OR PRINCIPAL64_ROLE_DRIVER)
        ''driver-host'',
      mk_principal PRINCIPAL64_ID_RAMFS_WORKER
        (PRINCIPAL64_ROLE_WORKER OR PRINCIPAL64_ROLE_SERVICE OR PRINCIPAL64_ROLE_STORAGE)
        ''ramfs-worker'',
      mk_principal PRINCIPAL64_ID_INPUT_WORKER
        (PRINCIPAL64_ROLE_WORKER OR PRINCIPAL64_ROLE_SERVICE OR PRINCIPAL64_ROLE_INPUT)
        ''input-worker'',
      mk_principal PRINCIPAL64_ID_TELEMETRY
        (PRINCIPAL64_ROLE_SERVICE OR PRINCIPAL64_ROLE_TELEMETRY) ''telemetry'',
      mk_principal PRINCIPAL64_ID_BLOCK_WORKER
        (PRINCIPAL64_ROLE_WORKER OR PRINCIPAL64_ROLE_SERVICE OR PRINCIPAL64_ROLE_STORAGE
          OR PRINCIPAL64_ROLE_DRIVER)
        ''block-worker'' ]"

definition principal64_count :: nat where
  "principal64_count = length g_principals"

definition principal64_is_active :: "u32 \<Rightarrow> bool" where
  "principal64_is_active principal_id =
    (case first_index (\<lambda>r. pr_id r = principal_id) g_principals of
       None \<Rightarrow> False
     | Some i \<Rightarrow> pr_active (g_principals ! i))"

definition principal64_role :: "u32 \<Rightarrow> u32" where
  "principal64_role principal_id =
    (case first_index (\<lambda>r. pr_id r = principal_id \<and> pr_active r) g_principals of
       None \<Rightarrow> 0
     | Some i \<Rightarrow> pr_role_mask (g_principals ! i))"

definition principal64_lookup_by_index :: "nat \<Rightarrow> u32" where
  "principal64_lookup_by_index index =
    (if index \<ge> length g_principals then 0 else pr_id (g_principals ! index))"

definition principal64_name :: "u32 \<Rightarrow> string" where
  "principal64_name principal_id =
    (case first_index (\<lambda>r. pr_id r = principal_id \<and> pr_active r) g_principals of
       None \<Rightarrow> ''unknown''
     | Some i \<Rightarrow> pr_name (g_principals ! i))"

lemma length_g_principals [simp]: "length g_principals = 11"
  by (simp add: g_principals_def)

lemma principal_ids_of_table:
  "map pr_id g_principals =
    [0x0001, 0x0101, 0x0102, 0x0201, 0x0202, 0x1001, 0x1002, 0x1003, 0x1004, 0x1005, 0x1006]"
  by (simp add: g_principals_def mk_principal_def principal_ids)

lemma g_principals_all_active: "r \<in> set g_principals \<Longrightarrow> pr_active r"
  by (auto simp: g_principals_def mk_principal_def)

lemma g_principals_distinct: "distinct (map pr_id g_principals)"
  by (simp add: principal_ids_of_table)

lemma principal64_is_active_iff:
  "principal64_is_active p \<longleftrightarrow> p \<in> set (map pr_id g_principals)"
proof (cases "first_index (\<lambda>r. pr_id r = p) g_principals")
  case None
  then have "p \<notin> pr_id ` set g_principals"
    by (auto simp: first_index_None_iff)
  with None show ?thesis
    by (simp add: principal64_is_active_def)
next
  case (Some i)
  then have "i < length g_principals" "pr_id (g_principals ! i) = p"
    by (simp_all add: first_index_Some_iff)
  moreover from this have "pr_active (g_principals ! i)"
    by (simp add: g_principals_all_active)
  ultimately show ?thesis
    using Some by (auto simp: principal64_is_active_def in_set_conv_nth intro!: exI [of _ i])
qed

lemma principal64_is_active_set:
  "principal64_is_active p \<longleftrightarrow>
     p \<in> {0x0001, 0x0101, 0x0102, 0x0201, 0x0202, 0x1001, 0x1002, 0x1003, 0x1004, 0x1005, 0x1006}"
  by (simp add: principal64_is_active_iff principal_ids_of_table)

lemma principal64_zero_inactive [simp]: "\<not> principal64_is_active 0"
  by (simp add: principal64_is_active_set)

lemma principal64_system_active [simp]: "principal64_is_active PRINCIPAL64_ID_SYSTEM"
  by (simp add: principal64_is_active_set principal_ids)

end
