(* ===== verification/Services.thy ===== *)
theory Services
  imports Prelude
begin

text \<open>
  The service directory of \<^verbatim>\<open>kernel/arch/x86_64/services.c\<close> (UEFI build): the constant
  table that maps an endpoint class to the endpoint a capability routes to, and says which
  endpoints may be delegated. The table is read-only; \<^verbatim>\<open>services64_ensure_init\<close>, which the
  lookups call first, only caches the package catalogue summary and does not touch it.
\<close>

record service64_record =
  sv_id :: u32
  sv_name :: string
  sv_endpoint_class :: u32
  sv_endpoint_id :: u32
  sv_delegable :: bool
  sv_capability_mask :: u32

definition SERVICE_ENDPOINT_CLASS_NONE :: u32 where "SERVICE_ENDPOINT_CLASS_NONE = 0"
definition SERVICE_ENDPOINT_CLASS_INIT :: u32 where "SERVICE_ENDPOINT_CLASS_INIT = 1"
definition SERVICE_ENDPOINT_CLASS_DRIVER_HOST :: u32 where "SERVICE_ENDPOINT_CLASS_DRIVER_HOST = 2"
definition SERVICE_ENDPOINT_CLASS_AI_POLICY :: u32 where "SERVICE_ENDPOINT_CLASS_AI_POLICY = 3"
definition SERVICE_ENDPOINT_CLASS_CONSOLE :: u32 where "SERVICE_ENDPOINT_CLASS_CONSOLE = 4"
definition SERVICE_ENDPOINT_CLASS_RAMFS :: u32 where "SERVICE_ENDPOINT_CLASS_RAMFS = 5"
definition SERVICE_ENDPOINT_CLASS_INPUT :: u32 where "SERVICE_ENDPOINT_CLASS_INPUT = 6"
definition SERVICE_ENDPOINT_CLASS_DISPLAY :: u32 where "SERVICE_ENDPOINT_CLASS_DISPLAY = 7"
definition SERVICE_ENDPOINT_CLASS_BLOCK :: u32 where "SERVICE_ENDPOINT_CLASS_BLOCK = 8"
definition SERVICE_ENDPOINT_CLASS_HARDWARE :: u32 where "SERVICE_ENDPOINT_CLASS_HARDWARE = 9"
definition SERVICE_ENDPOINT_CLASS_NETWORK :: u32 where "SERVICE_ENDPOINT_CLASS_NETWORK = 10"

lemmas endpoint_classes =
  SERVICE_ENDPOINT_CLASS_NONE_def SERVICE_ENDPOINT_CLASS_INIT_def
  SERVICE_ENDPOINT_CLASS_DRIVER_HOST_def SERVICE_ENDPOINT_CLASS_AI_POLICY_def
  SERVICE_ENDPOINT_CLASS_CONSOLE_def SERVICE_ENDPOINT_CLASS_RAMFS_def
  SERVICE_ENDPOINT_CLASS_INPUT_def SERVICE_ENDPOINT_CLASS_DISPLAY_def
  SERVICE_ENDPOINT_CLASS_BLOCK_def SERVICE_ENDPOINT_CLASS_HARDWARE_def
  SERVICE_ENDPOINT_CLASS_NETWORK_def

text \<open>
  The capability masks of the records are bit sets of \<^verbatim>\<open>enum service_capability\<close>
  (\<^verbatim>\<open>ROUTE_INIT = 1\<close>, \<^verbatim>\<open>ROUTE_DRIVER = 2\<close>, \<^verbatim>\<open>ROUTE_POLICY = 4\<close>,
  \<^verbatim>\<open>SUPERVISE = 8\<close>, \<^verbatim>\<open>READ_TELEMETRY = 0x10\<close>, \<^verbatim>\<open>AUDIT = 0x20\<close>, then one bit per service).
\<close>

definition g_service_records :: "service64_record list" where
  "g_service_records =
    [ \<lparr>sv_id = 1, sv_name = ''init-supervisor'', sv_endpoint_class = SERVICE_ENDPOINT_CLASS_INIT,
        sv_endpoint_id = 1, sv_delegable = False, sv_capability_mask = 0x4 OR 0x2 OR 0x8 OR 0x20\<rparr>,
      \<lparr>sv_id = 2, sv_name = ''driver-host'', sv_endpoint_class = SERVICE_ENDPOINT_CLASS_DRIVER_HOST,
        sv_endpoint_id = 2, sv_delegable = False, sv_capability_mask = 0x2\<rparr>,
      \<lparr>sv_id = 3, sv_name = ''ai-policy'', sv_endpoint_class = SERVICE_ENDPOINT_CLASS_AI_POLICY,
        sv_endpoint_id = 3, sv_delegable = True, sv_capability_mask = 0x4 OR 0x1 OR 0x20\<rparr>,
      \<lparr>sv_id = 4, sv_name = ''telemetry'', sv_endpoint_class = SERVICE_ENDPOINT_CLASS_NONE,
        sv_endpoint_id = 0, sv_delegable = False, sv_capability_mask = 0x10 OR 0x20\<rparr>,
      \<lparr>sv_id = 5, sv_name = ''console'', sv_endpoint_class = SERVICE_ENDPOINT_CLASS_CONSOLE,
        sv_endpoint_id = 4, sv_delegable = True, sv_capability_mask = 0x40 OR 0x20\<rparr>,
      \<lparr>sv_id = 6, sv_name = ''ramfs'', sv_endpoint_class = SERVICE_ENDPOINT_CLASS_RAMFS,
        sv_endpoint_id = 5, sv_delegable = False, sv_capability_mask = 0x80 OR 0x20\<rparr>,
      \<lparr>sv_id = 7, sv_name = ''input'', sv_endpoint_class = SERVICE_ENDPOINT_CLASS_INPUT,
        sv_endpoint_id = 6, sv_delegable = True, sv_capability_mask = 0x100 OR 0x20\<rparr>,
      \<lparr>sv_id = 8, sv_name = ''display'', sv_endpoint_class = SERVICE_ENDPOINT_CLASS_DISPLAY,
        sv_endpoint_id = 7, sv_delegable = True, sv_capability_mask = 0x200 OR 0x20\<rparr>,
      \<lparr>sv_id = 9, sv_name = ''block'', sv_endpoint_class = SERVICE_ENDPOINT_CLASS_BLOCK,
        sv_endpoint_id = 8, sv_delegable = True, sv_capability_mask = 0x400 OR 0x20\<rparr>,
      \<lparr>sv_id = 10, sv_name = ''hardware-inventory'', sv_endpoint_class = SERVICE_ENDPOINT_CLASS_HARDWARE,
        sv_endpoint_id = 9, sv_delegable = False, sv_capability_mask = 0x800 OR 0x20\<rparr>,
      \<lparr>sv_id = 11, sv_name = ''network'', sv_endpoint_class = SERVICE_ENDPOINT_CLASS_NETWORK,
        sv_endpoint_id = 10, sv_delegable = True, sv_capability_mask = 0x1000 OR 0x20\<rparr> ]"

definition services64_count :: nat where
  "services64_count = length g_service_records"

definition services64_resolve_endpoint_class :: "u32 \<Rightarrow> u32" where
  "services64_resolve_endpoint_class endpoint_class =
    (case first_index (\<lambda>r. sv_endpoint_class r = endpoint_class) g_service_records of
       None \<Rightarrow> u32_max
     | Some i \<Rightarrow> sv_endpoint_id (g_service_records ! i))"

definition services64_endpoint_name :: "u32 \<Rightarrow> string option" where
  "services64_endpoint_name endpoint_id =
    map_option (\<lambda>i. sv_name (g_service_records ! i))
      (first_index (\<lambda>r. sv_endpoint_id r = endpoint_id) g_service_records)"

definition services64_capabilities_for_endpoint :: "u32 \<Rightarrow> u32" where
  "services64_capabilities_for_endpoint endpoint_id =
    (case first_index (\<lambda>r. sv_endpoint_id r = endpoint_id) g_service_records of
       None \<Rightarrow> 0
     | Some i \<Rightarrow> sv_capability_mask (g_service_records ! i))"

definition services64_endpoint_is_delegable :: "u32 \<Rightarrow> bool" where
  "services64_endpoint_is_delegable endpoint_id =
    (case first_index (\<lambda>r. sv_endpoint_id r = endpoint_id) g_service_records of
       None \<Rightarrow> False
     | Some i \<Rightarrow> sv_delegable (g_service_records ! i))"

text \<open>The two lookups in closed form.\<close>

lemma services64_resolve_cases:
  "services64_resolve_endpoint_class c =
    (if c \<in> {0, 1, 2, 3, 4, 5, 6, 7, 8, 9, 10} then c else u32_max)"
  by (simp add: services64_resolve_endpoint_class_def g_service_records_def endpoint_classes)

lemma services64_delegable_cases:
  "services64_endpoint_is_delegable e \<longleftrightarrow> e \<in> {3, 4, 6, 7, 8, 10}"
  by (simp add: services64_endpoint_is_delegable_def g_service_records_def)

lemma services64_resolve_inj:
  assumes "services64_resolve_endpoint_class c = services64_resolve_endpoint_class d"
    and "services64_resolve_endpoint_class c \<noteq> u32_max"
  shows "c = d"
  using assms by (auto simp: services64_resolve_cases split: if_splits)

end
