(* ===== verification/Launch.thy ===== *)
theory Launch
  imports Prelude
begin

text \<open>
  The part of \<^verbatim>\<open>kernel/arch/x86_64/launch.c\<close> that other components read: the loaded manifest
  table with each service's runtime generation, runtime token and user-entry plan, and the
  accessors over it. The state is the one after \<^verbatim>\<open>launch64_init\<close> has loaded the archive, which
  every accessor of the source ensures first. Loading the archive and the service
  start/stop/restart requests, which write these fields, are not modelled here; a manifest
  table is an arbitrary value of the state and may change between operations.
\<close>

record launch64_manifest_record =
  lm_launched_endpoint_class :: u32
  lm_runtime_generation :: u32
  lm_runtime_token :: u32
  lm_user_entry_state :: u32
  lm_user_entry_token :: u32
  lm_user_entry_rip :: u32
  lm_user_entry_rsp :: u32
  lm_user_entry_selectors :: u32
  lm_user_entry_rflags :: u32

type_synonym launch_state = "launch64_manifest_record list"

abbreviation (input) LAUNCH64_INVALID_MANIFEST :: u32 where
  "LAUNCH64_INVALID_MANIFEST \<equiv> u32_max"

definition LAUNCH64_USER_ENTRY_TRANSFER_READY :: u32 where
  "LAUNCH64_USER_ENTRY_TRANSFER_READY = 0x00000008"

definition launch64_manifest_by_endpoint_class :: "launch_state \<Rightarrow> u32 \<Rightarrow> u32" where
  "launch64_manifest_by_endpoint_class ms endpoint_class =
    (case first_index (\<lambda>m. lm_launched_endpoint_class m = endpoint_class) ms of
       None \<Rightarrow> LAUNCH64_INVALID_MANIFEST
     | Some i \<Rightarrow> of_nat i)"

definition launch64_manifest :: "launch_state \<Rightarrow> u32 \<Rightarrow> launch64_manifest_record option" where
  "launch64_manifest ms manifest_index =
    (if unat manifest_index \<ge> length ms then None else Some (ms ! unat manifest_index))"

definition manifest_field :: "(launch64_manifest_record \<Rightarrow> u32) \<Rightarrow> launch_state \<Rightarrow> u32 \<Rightarrow> u32" where
  "manifest_field f ms manifest_index =
    (case launch64_manifest ms manifest_index of None \<Rightarrow> 0 | Some m \<Rightarrow> f m)"

definition launch64_manifest_runtime_generation :: "launch_state \<Rightarrow> u32 \<Rightarrow> u32" where
  "launch64_manifest_runtime_generation = manifest_field lm_runtime_generation"

definition launch64_manifest_runtime_token :: "launch_state \<Rightarrow> u32 \<Rightarrow> u32" where
  "launch64_manifest_runtime_token = manifest_field lm_runtime_token"

definition launch64_manifest_accepts_runtime_token :: "launch_state \<Rightarrow> u32 \<Rightarrow> u32 \<Rightarrow> bool" where
  "launch64_manifest_accepts_runtime_token ms manifest_index runtime_token =
    (case launch64_manifest ms manifest_index of
       None \<Rightarrow> False
     | Some m \<Rightarrow> runtime_token \<noteq> 0 \<and> lm_runtime_token m = runtime_token)"

definition launch64_manifest_runtime_user_entry_state :: "launch_state \<Rightarrow> u32 \<Rightarrow> u32" where
  "launch64_manifest_runtime_user_entry_state = manifest_field lm_user_entry_state"

definition launch64_manifest_runtime_user_entry_token :: "launch_state \<Rightarrow> u32 \<Rightarrow> u32" where
  "launch64_manifest_runtime_user_entry_token = manifest_field lm_user_entry_token"

definition launch64_manifest_runtime_user_entry_rip :: "launch_state \<Rightarrow> u32 \<Rightarrow> u32" where
  "launch64_manifest_runtime_user_entry_rip = manifest_field lm_user_entry_rip"

definition launch64_manifest_runtime_user_entry_rsp :: "launch_state \<Rightarrow> u32 \<Rightarrow> u32" where
  "launch64_manifest_runtime_user_entry_rsp = manifest_field lm_user_entry_rsp"

definition launch64_manifest_runtime_user_entry_selectors :: "launch_state \<Rightarrow> u32 \<Rightarrow> u32" where
  "launch64_manifest_runtime_user_entry_selectors = manifest_field lm_user_entry_selectors"

definition launch64_manifest_runtime_user_entry_rflags :: "launch_state \<Rightarrow> u32 \<Rightarrow> u32" where
  "launch64_manifest_runtime_user_entry_rflags = manifest_field lm_user_entry_rflags"

end
