(* ===== verification/Process.thy ===== *)
theory Process
  imports Principal Services Launch
begin

text \<open>
  The process table of \<^verbatim>\<open>kernel/arch/x86_64/process.c\<close> (UEFI build): seven seeded service
  processes, up to sixteen clone/fork children, the opaque extension slots through which the
  VMA, descriptor, persona and audit components hang their state off a process, page-table
  roots and child exit status.

  A \<^verbatim>\<open>void *\<close> slot always receives the address of an element of a static table, so it is
  modelled as the index of that element (\<open>None\<close> for the null pointer); a
  \<^verbatim>\<open>struct process64_record *\<close> is a \<open>process_ref\<close>. The operations start from a seeded
  table: \<^verbatim>\<open>process64_ensure_init\<close>, which the accessors call first, returns at once when
  \<open>process64_records_valid\<close> holds, and the invariant below keeps it true.
\<close>

abbreviation (input) PROCESS64_INVALID_PID :: u32 where
  "PROCESS64_INVALID_PID \<equiv> u32_max"

definition PROCESS64_CLONE_PID_BASE :: u32 where "PROCESS64_CLONE_PID_BASE = 0x2000"
definition PROCESS64_CLONE_RECORD_LIMIT :: nat where "PROCESS64_CLONE_RECORD_LIMIT = 16"
definition PROCESS64_NAME_BYTES :: nat where "PROCESS64_NAME_BYTES = 32"

definition PROCESS64_STATE_BOOTSTRAPPED :: u32 where "PROCESS64_STATE_BOOTSTRAPPED = 0x1"
definition PROCESS64_STATE_SERVICE :: u32 where "PROCESS64_STATE_SERVICE = 0x2"
definition PROCESS64_STATE_READY :: u32 where "PROCESS64_STATE_READY = 0x4"
definition PROCESS64_STATE_SEALED :: u32 where "PROCESS64_STATE_SEALED = 0x8"

definition PROCESS64_CLASS_SYSTEM :: u32 where "PROCESS64_CLASS_SYSTEM = 1"
definition PROCESS64_CLASS_POLICY :: u32 where "PROCESS64_CLASS_POLICY = 2"
definition PROCESS64_CLASS_INTERACTIVE :: u32 where "PROCESS64_CLASS_INTERACTIVE = 3"
definition PROCESS64_CLASS_IO :: u32 where "PROCESS64_CLASS_IO = 4"
definition PROCESS64_CLASS_BACKGROUND :: u32 where "PROCESS64_CLASS_BACKGROUND = 5"

datatype child_kind = PROCESS64_CHILD_KIND_NONE | PROCESS64_CHILD_KIND_CLONE | PROCESS64_CHILD_KIND_FORK

record process64_record =
  p_pid :: u32
  p_name :: string
  p_principal_id :: u32
  p_endpoint_class :: u32
  p_state :: u32
  p_scheduler_class :: u32
  p_capability_limit :: u32
  p_manifest_index :: u32
  p_manifest_package_id :: u32
  p_manifest_executable_id :: u32
  p_manifest_signer_id :: u32
  p_manifest_token :: u32
  p_vma_root :: "nat option"
  p_fd_table :: "nat option"
  p_persona_ctx :: "nat option"
  p_audit_ctx :: "nat option"
  p_page_root_physical :: u64
  p_page_root_index :: u32
  p_page_root_token :: u32
  p_parent_pid :: u32
  p_child_kind :: child_kind
  p_child_count :: u32
  p_waitable :: bool
  p_exited :: bool
  p_exit_code :: u32

record process_state =
  g_processes :: "process64_record list"
  g_process64_clone_records :: "process64_record list"
  g_process64_clone_count :: u32
  g_process64_next_clone_pid :: u32
  g_process64_page_root_attach_count :: u32
  g_process64_page_root_clear_count :: u32
  g_process64_page_root_denial_count :: u32

section \<open>Seeding\<close>

definition process64_copy_name :: "string \<Rightarrow> string" where
  "process64_copy_name source =
    take PROCESS64_NAME_BYTES
      (takeWhile (\<lambda>c. c \<noteq> CHR 0x00) source @ replicate PROCESS64_NAME_BYTES (CHR 0x00))"

text \<open>A byte array read as a C string.\<close>

definition c_string :: "string \<Rightarrow> string" where
  "c_string bytes = takeWhile (\<lambda>c. c \<noteq> CHR 0x00) bytes"

definition process64_clear_record :: process64_record where
  "process64_clear_record =
    \<lparr>p_pid = PROCESS64_INVALID_PID, p_name = process64_copy_name ''unknown'',
     p_principal_id = 0, p_endpoint_class = SERVICE_ENDPOINT_CLASS_NONE, p_state = 0,
     p_scheduler_class = 0, p_capability_limit = 0,
     p_manifest_index = LAUNCH64_INVALID_MANIFEST, p_manifest_package_id = 0,
     p_manifest_executable_id = 0, p_manifest_signer_id = 0, p_manifest_token = 0,
     p_vma_root = None, p_fd_table = None, p_persona_ctx = None, p_audit_ctx = None,
     p_page_root_physical = 0, p_page_root_index = u32_max, p_page_root_token = 0,
     p_parent_pid = PROCESS64_INVALID_PID, p_child_kind = PROCESS64_CHILD_KIND_NONE,
     p_child_count = 0, p_waitable = False, p_exited = False, p_exit_code = 0\<rparr>"

text \<open>The seed rows: pid, name, principal, endpoint class, scheduler class, capability limit.\<close>

definition g_process_seeds :: "(u32 \<times> string \<times> u32 \<times> u32 \<times> u32 \<times> u32) list" where
  "g_process_seeds =
    [ (1, ''init-supervisor'', PRINCIPAL64_ID_INIT_SUPERVISOR, SERVICE_ENDPOINT_CLASS_INIT,
        PROCESS64_CLASS_SYSTEM, 16),
      (2, ''ai-policy'', PRINCIPAL64_ID_POLICY_WORKER, SERVICE_ENDPOINT_CLASS_AI_POLICY,
        PROCESS64_CLASS_POLICY, 12),
      (3, ''driver-host'', PRINCIPAL64_ID_DRIVER_HOST, SERVICE_ENDPOINT_CLASS_DRIVER_HOST,
        PROCESS64_CLASS_IO, 8),
      (4, ''console'', PRINCIPAL64_ID_CONSOLE_WORKER, SERVICE_ENDPOINT_CLASS_CONSOLE,
        PROCESS64_CLASS_INTERACTIVE, 10),
      (5, ''ramfs'', PRINCIPAL64_ID_RAMFS_WORKER, SERVICE_ENDPOINT_CLASS_RAMFS,
        PROCESS64_CLASS_IO, 10),
      (6, ''input'', PRINCIPAL64_ID_INPUT_WORKER, SERVICE_ENDPOINT_CLASS_INPUT,
        PROCESS64_CLASS_INTERACTIVE, 8),
      (7, ''telemetry'', PRINCIPAL64_ID_TELEMETRY, SERVICE_ENDPOINT_CLASS_NONE,
        PROCESS64_CLASS_BACKGROUND, 4) ]"

text \<open>
  \<^verbatim>\<open>process64_seed_record\<close> with \<^verbatim>\<open>preserve_extensions = 0\<close>: every extension slot and page root
  is empty.
\<close>

fun process64_seed_record :: "u32 \<times> string \<times> u32 \<times> u32 \<times> u32 \<times> u32 \<Rightarrow> process64_record" where
  "process64_seed_record (pid, name, owner, endpoint_class, scheduler_class, limit) =
    process64_clear_record
      \<lparr>p_pid := pid, p_name := process64_copy_name name, p_principal_id := owner,
       p_endpoint_class := endpoint_class,
       p_state := PROCESS64_STATE_BOOTSTRAPPED OR PROCESS64_STATE_SERVICE
         OR PROCESS64_STATE_READY OR PROCESS64_STATE_SEALED,
       p_scheduler_class := scheduler_class, p_capability_limit := limit\<rparr>"

definition process64_seed_records :: process_state where
  "process64_seed_records =
    \<lparr>g_processes = map process64_seed_record g_process_seeds,
     g_process64_clone_records = replicate PROCESS64_CLONE_RECORD_LIMIT process64_clear_record,
     g_process64_clone_count = 0,
     g_process64_next_clone_pid = PROCESS64_CLONE_PID_BASE,
     g_process64_page_root_attach_count = 0,
     g_process64_page_root_clear_count = 0,
     g_process64_page_root_denial_count = 0\<rparr>"

definition process64_records_valid :: "process_state \<Rightarrow> bool" where
  "process64_records_valid ps \<longleftrightarrow>
     p_pid (g_processes ps ! 0) = 1
   \<and> p_principal_id (g_processes ps ! 0) = PRINCIPAL64_ID_INIT_SUPERVISOR
   \<and> p_pid (g_processes ps ! 6) = 7
   \<and> p_principal_id (g_processes ps ! 6) = PRINCIPAL64_ID_TELEMETRY"


section \<open>Lookup\<close>

datatype process_ref = Seeded nat | Child nat

definition process64_clone_record_active :: "process64_record \<Rightarrow> bool" where
  "process64_clone_record_active r \<longleftrightarrow> p_pid r \<noteq> PROCESS64_INVALID_PID \<and> p_pid r \<noteq> 0"

definition clone_has_pid :: "u32 \<Rightarrow> process64_record \<Rightarrow> bool" where
  "clone_has_pid pid r \<longleftrightarrow> process64_clone_record_active r \<and> p_pid r = pid"

definition process64_find :: "process_state \<Rightarrow> u32 \<Rightarrow> process_ref option" where
  "process64_find ps pid =
    (case first_index (\<lambda>r. p_pid r = pid) (g_processes ps) of
       Some i \<Rightarrow> Some (Seeded i)
     | None \<Rightarrow> map_option Child (first_index (clone_has_pid pid) (g_process64_clone_records ps)))"

fun proc_at :: "process_state \<Rightarrow> process_ref \<Rightarrow> process64_record" where
  "proc_at ps (Seeded i) = g_processes ps ! i"
| "proc_at ps (Child i) = g_process64_clone_records ps ! i"

fun proc_upd :: "process_ref \<Rightarrow> (process64_record \<Rightarrow> process64_record) \<Rightarrow> process_state \<Rightarrow> process_state" where
  "proc_upd (Seeded i) f ps = ps\<lparr>g_processes := (g_processes ps)[i := f (g_processes ps ! i)]\<rparr>"
| "proc_upd (Child i) f ps =
     ps\<lparr>g_process64_clone_records := (g_process64_clone_records ps)[i := f (g_process64_clone_records ps ! i)]\<rparr>"

definition process_record :: "process_state \<Rightarrow> u32 \<Rightarrow> process64_record option" where
  "process_record ps pid = map_option (proc_at ps) (process64_find ps pid)"

definition record_field :: "(process64_record \<Rightarrow> 'a) \<Rightarrow> 'a \<Rightarrow> process_state \<Rightarrow> u32 \<Rightarrow> 'a" where
  "record_field f d ps pid = (case process_record ps pid of None \<Rightarrow> d | Some r \<Rightarrow> f r)"

definition process64_principal :: "process_state \<Rightarrow> u32 \<Rightarrow> u32" where
  "process64_principal = record_field p_principal_id 0"

definition process64_endpoint_class :: "process_state \<Rightarrow> u32 \<Rightarrow> u32" where
  "process64_endpoint_class = record_field p_endpoint_class SERVICE_ENDPOINT_CLASS_NONE"

definition process64_endpoint :: "process_state \<Rightarrow> u32 \<Rightarrow> u32" where
  "process64_endpoint ps pid =
    (case process_record ps pid of
       None \<Rightarrow> u32_max
     | Some r \<Rightarrow> if p_endpoint_class r = SERVICE_ENDPOINT_CLASS_NONE then u32_max
                else services64_resolve_endpoint_class (p_endpoint_class r))"

definition process64_scheduler_class :: "process_state \<Rightarrow> u32 \<Rightarrow> u32" where
  "process64_scheduler_class = record_field p_scheduler_class 0"

definition process64_capability_limit :: "process_state \<Rightarrow> u32 \<Rightarrow> u32" where
  "process64_capability_limit = record_field p_capability_limit 0"

definition process64_manifest_index :: "process_state \<Rightarrow> u32 \<Rightarrow> u32" where
  "process64_manifest_index = record_field p_manifest_index LAUNCH64_INVALID_MANIFEST"

definition process64_name :: "process_state \<Rightarrow> u32 \<Rightarrow> string" where
  "process64_name = record_field (\<lambda>r. c_string (p_name r)) ''unknown''"

definition process64_vma_root :: "process_state \<Rightarrow> u32 \<Rightarrow> nat option" where
  "process64_vma_root = record_field p_vma_root None"

definition process64_fd_table :: "process_state \<Rightarrow> u32 \<Rightarrow> nat option" where
  "process64_fd_table = record_field p_fd_table None"

definition process64_persona_ctx :: "process_state \<Rightarrow> u32 \<Rightarrow> nat option" where
  "process64_persona_ctx = record_field p_persona_ctx None"

definition process64_audit_ctx :: "process_state \<Rightarrow> u32 \<Rightarrow> nat option" where
  "process64_audit_ctx = record_field p_audit_ctx None"

definition process64_page_root_physical :: "process_state \<Rightarrow> u32 \<Rightarrow> u64" where
  "process64_page_root_physical = record_field p_page_root_physical 0"

definition process64_page_root_index :: "process_state \<Rightarrow> u32 \<Rightarrow> u32" where
  "process64_page_root_index = record_field p_page_root_index u32_max"

definition process64_page_root_token :: "process_state \<Rightarrow> u32 \<Rightarrow> u32" where
  "process64_page_root_token = record_field p_page_root_token 0"

definition process64_parent_pid :: "process_state \<Rightarrow> u32 \<Rightarrow> u32" where
  "process64_parent_pid = record_field p_parent_pid PROCESS64_INVALID_PID"

definition process64_child_kind :: "process_state \<Rightarrow> u32 \<Rightarrow> child_kind" where
  "process64_child_kind = record_field p_child_kind PROCESS64_CHILD_KIND_NONE"

definition process64_child_count :: "process_state \<Rightarrow> u32 \<Rightarrow> u32" where
  "process64_child_count = record_field p_child_count 0"

definition process64_child_exited :: "process_state \<Rightarrow> u32 \<Rightarrow> bool" where
  "process64_child_exited = record_field p_exited False"

definition process64_child_exit_code :: "process_state \<Rightarrow> u32 \<Rightarrow> u32" where
  "process64_child_exit_code = record_field p_exit_code 0"

lemmas process_reads [kernel_defs] =
  process64_principal_def process64_endpoint_class_def process64_scheduler_class_def
  process64_capability_limit_def process64_manifest_index_def process64_name_def
  process64_vma_root_def process64_fd_table_def process64_persona_ctx_def
  process64_audit_ctx_def process64_page_root_physical_def process64_page_root_index_def
  process64_page_root_token_def process64_parent_pid_def process64_child_kind_def
  process64_child_count_def process64_child_exited_def process64_child_exit_code_def

definition process64_pid_for_principal :: "process_state \<Rightarrow> u32 \<Rightarrow> u32" where
  "process64_pid_for_principal ps principal_id =
    (if \<not> principal64_is_active principal_id then PROCESS64_INVALID_PID
     else case first_index (\<lambda>r. p_principal_id r = principal_id) (g_processes ps) of
            None \<Rightarrow> PROCESS64_INVALID_PID
          | Some i \<Rightarrow> p_pid (g_processes ps ! i))"

definition process64_count :: "process_state \<Rightarrow> u32" where
  "process64_count ps = 7 + g_process64_clone_count ps"

definition process64_pid_by_index :: "process_state \<Rightarrow> nat \<Rightarrow> u32" where
  "process64_pid_by_index ps index =
    (if index \<ge> length (g_processes ps)
     then let live = filter process64_clone_record_active (g_process64_clone_records ps);
              k = index - length (g_processes ps)
          in if k < length live then p_pid (live ! k) else PROCESS64_INVALID_PID
     else p_pid (g_processes ps ! index))"

text \<open>Runtime accessors: through the manifest the process was bound to.\<close>

definition process64_runtime_field ::
    "(launch_state \<Rightarrow> u32 \<Rightarrow> u32) \<Rightarrow> launch_state \<Rightarrow> process_state \<Rightarrow> u32 \<Rightarrow> u32" where
  "process64_runtime_field f ms ps pid =
    (case process_record ps pid of
       None \<Rightarrow> 0
     | Some r \<Rightarrow> if p_manifest_index r = LAUNCH64_INVALID_MANIFEST then 0
                else f ms (p_manifest_index r))"

definition process64_runtime_generation :: "launch_state \<Rightarrow> process_state \<Rightarrow> u32 \<Rightarrow> u32" where
  "process64_runtime_generation = process64_runtime_field launch64_manifest_runtime_generation"

definition process64_runtime_token :: "launch_state \<Rightarrow> process_state \<Rightarrow> u32 \<Rightarrow> u32" where
  "process64_runtime_token = process64_runtime_field launch64_manifest_runtime_token"

definition process64_runtime_user_entry_state :: "launch_state \<Rightarrow> process_state \<Rightarrow> u32 \<Rightarrow> u32" where
  "process64_runtime_user_entry_state = process64_runtime_field launch64_manifest_runtime_user_entry_state"

definition process64_runtime_user_entry_token :: "launch_state \<Rightarrow> process_state \<Rightarrow> u32 \<Rightarrow> u32" where
  "process64_runtime_user_entry_token = process64_runtime_field launch64_manifest_runtime_user_entry_token"

definition process64_runtime_user_entry_rip :: "launch_state \<Rightarrow> process_state \<Rightarrow> u32 \<Rightarrow> u32" where
  "process64_runtime_user_entry_rip = process64_runtime_field launch64_manifest_runtime_user_entry_rip"

definition process64_runtime_user_entry_rsp :: "launch_state \<Rightarrow> process_state \<Rightarrow> u32 \<Rightarrow> u32" where
  "process64_runtime_user_entry_rsp = process64_runtime_field launch64_manifest_runtime_user_entry_rsp"

definition process64_runtime_user_entry_selectors :: "launch_state \<Rightarrow> process_state \<Rightarrow> u32 \<Rightarrow> u32" where
  "process64_runtime_user_entry_selectors = process64_runtime_field launch64_manifest_runtime_user_entry_selectors"

definition process64_runtime_user_entry_rflags :: "launch_state \<Rightarrow> process_state \<Rightarrow> u32 \<Rightarrow> u32" where
  "process64_runtime_user_entry_rflags = process64_runtime_field launch64_manifest_runtime_user_entry_rflags"

definition process64_runtime_user_entry_ready :: "launch_state \<Rightarrow> process_state \<Rightarrow> u32 \<Rightarrow> bool" where
  "process64_runtime_user_entry_ready ms ps pid \<longleftrightarrow>
     process64_runtime_user_entry_state ms ps pid AND LAUNCH64_USER_ENTRY_TRANSFER_READY \<noteq> 0"


section \<open>Extension slots\<close>

text \<open>
  \<^verbatim>\<open>process64_attach_slot\<close> and \<^verbatim>\<open>process64_detach_slot\<close> on the slot read by \<open>get\<close> and
  written by \<open>put\<close>. Attaching the null pointer, or over an occupied slot, is refused.
\<close>

definition process64_attach_slot ::
    "(process64_record \<Rightarrow> nat option) \<Rightarrow> (nat option \<Rightarrow> process64_record \<Rightarrow> process64_record) \<Rightarrow>
     u32 \<Rightarrow> nat option \<Rightarrow> process_state \<Rightarrow> bool \<times> process_state" where
  "process64_attach_slot get put pid context ps =
    (case process64_find ps pid of
       None \<Rightarrow> (False, ps)
     | Some ref \<Rightarrow>
         if context = None \<or> get (proc_at ps ref) \<noteq> None then (False, ps)
         else (True, proc_upd ref (put context) ps))"

definition process64_detach_slot ::
    "(process64_record \<Rightarrow> nat option) \<Rightarrow> (nat option \<Rightarrow> process64_record \<Rightarrow> process64_record) \<Rightarrow>
     u32 \<Rightarrow> process_state \<Rightarrow> nat option \<times> process_state" where
  "process64_detach_slot get put pid ps =
    (case process64_find ps pid of
       None \<Rightarrow> (None, ps)
     | Some ref \<Rightarrow> (get (proc_at ps ref), proc_upd ref (put None) ps))"

definition put_vma :: "nat option \<Rightarrow> process64_record \<Rightarrow> process64_record" where
  "put_vma c r = r\<lparr>p_vma_root := c\<rparr>"
definition put_fd :: "nat option \<Rightarrow> process64_record \<Rightarrow> process64_record" where
  "put_fd c r = r\<lparr>p_fd_table := c\<rparr>"
definition put_persona :: "nat option \<Rightarrow> process64_record \<Rightarrow> process64_record" where
  "put_persona c r = r\<lparr>p_persona_ctx := c\<rparr>"
definition put_audit :: "nat option \<Rightarrow> process64_record \<Rightarrow> process64_record" where
  "put_audit c r = r\<lparr>p_audit_ctx := c\<rparr>"

lemmas put_defs = put_vma_def put_fd_def put_persona_def put_audit_def

definition process64_attach_vma :: "u32 \<Rightarrow> nat option \<Rightarrow> process_state \<Rightarrow> bool \<times> process_state" where
  "process64_attach_vma = process64_attach_slot p_vma_root put_vma"
definition process64_detach_vma :: "u32 \<Rightarrow> process_state \<Rightarrow> nat option \<times> process_state" where
  "process64_detach_vma = process64_detach_slot p_vma_root put_vma"
definition process64_attach_fd :: "u32 \<Rightarrow> nat option \<Rightarrow> process_state \<Rightarrow> bool \<times> process_state" where
  "process64_attach_fd = process64_attach_slot p_fd_table put_fd"
definition process64_detach_fd :: "u32 \<Rightarrow> process_state \<Rightarrow> nat option \<times> process_state" where
  "process64_detach_fd = process64_detach_slot p_fd_table put_fd"
definition process64_attach_persona :: "u32 \<Rightarrow> nat option \<Rightarrow> process_state \<Rightarrow> bool \<times> process_state" where
  "process64_attach_persona = process64_attach_slot p_persona_ctx put_persona"
definition process64_detach_persona :: "u32 \<Rightarrow> process_state \<Rightarrow> nat option \<times> process_state" where
  "process64_detach_persona = process64_detach_slot p_persona_ctx put_persona"
definition process64_attach_audit :: "u32 \<Rightarrow> nat option \<Rightarrow> process_state \<Rightarrow> bool \<times> process_state" where
  "process64_attach_audit = process64_attach_slot p_audit_ctx put_audit"
definition process64_detach_audit :: "u32 \<Rightarrow> process_state \<Rightarrow> nat option \<times> process_state" where
  "process64_detach_audit = process64_detach_slot p_audit_ctx put_audit"

lemmas slot_ops =
  process64_attach_vma_def process64_detach_vma_def process64_attach_fd_def process64_detach_fd_def
  process64_attach_persona_def process64_detach_persona_def
  process64_attach_audit_def process64_detach_audit_def


section \<open>Page roots\<close>

definition process64_attach_page_root ::
    "u32 \<Rightarrow> u64 \<Rightarrow> u32 \<Rightarrow> u32 \<Rightarrow> u32 \<Rightarrow> process_state \<Rightarrow> bool \<times> process_state" where
  "process64_attach_page_root pid root_physical root_index root_token authority_token ps =
    (let deny = (False, ps\<lparr>g_process64_page_root_denial_count := g_process64_page_root_denial_count ps + 1\<rparr>)
     in case process64_find ps pid of
          None \<Rightarrow> deny
        | Some ref \<Rightarrow>
            if root_physical = 0 \<or> root_token = 0 \<or> authority_token = 0
              \<or> p_page_root_physical (proc_at ps ref) \<noteq> 0 \<or> p_page_root_token (proc_at ps ref) \<noteq> 0
            then deny
            else (True,
              (proc_upd ref (\<lambda>r. r\<lparr>p_page_root_physical := root_physical, p_page_root_index := root_index,
                                   p_page_root_token := root_token\<rparr>) ps)
              \<lparr>g_process64_page_root_attach_count := g_process64_page_root_attach_count ps + 1\<rparr>))"

definition process64_clear_page_root :: "u32 \<Rightarrow> u32 \<Rightarrow> process_state \<Rightarrow> bool \<times> process_state" where
  "process64_clear_page_root pid root_token ps =
    (let deny = (False, ps\<lparr>g_process64_page_root_denial_count := g_process64_page_root_denial_count ps + 1\<rparr>)
     in case process64_find ps pid of
          None \<Rightarrow> deny
        | Some ref \<Rightarrow>
            if root_token = 0 \<or> p_page_root_token (proc_at ps ref) \<noteq> root_token then deny
            else (True,
              (proc_upd ref (\<lambda>r. r\<lparr>p_page_root_physical := 0, p_page_root_index := u32_max,
                                   p_page_root_token := 0\<rparr>) ps)
              \<lparr>g_process64_page_root_clear_count := g_process64_page_root_clear_count ps + 1\<rparr>))"


section \<open>Children\<close>

definition next_clone_pid_after :: "u32 \<Rightarrow> u32" where
  "next_clone_pid_after n =
    (if n + 1 = PROCESS64_INVALID_PID \<or> n + 1 < PROCESS64_CLONE_PID_BASE
     then PROCESS64_CLONE_PID_BASE else n + 1)"

definition spawned_record :: "process64_record \<Rightarrow> u32 \<Rightarrow> u32 \<Rightarrow> child_kind \<Rightarrow> string \<Rightarrow> process64_record" where
  "spawned_record parent parent_pid pid kind name =
    process64_clear_record
      \<lparr>p_pid := pid, p_name := process64_copy_name name,
       p_principal_id := p_principal_id parent,
       p_endpoint_class := SERVICE_ENDPOINT_CLASS_NONE,
       p_state := PROCESS64_STATE_BOOTSTRAPPED OR PROCESS64_STATE_READY,
       p_scheduler_class := p_scheduler_class parent,
       p_capability_limit := p_capability_limit parent,
       p_manifest_index := p_manifest_index parent,
       p_manifest_package_id := p_manifest_package_id parent,
       p_manifest_executable_id := p_manifest_executable_id parent,
       p_manifest_signer_id := p_manifest_signer_id parent,
       p_manifest_token := p_manifest_token parent,
       p_parent_pid := parent_pid, p_child_kind := kind,
       p_waitable := True, p_exited := False, p_exit_code := 0\<rparr>"

definition bump_child_count :: "process64_record \<Rightarrow> process64_record" where
  "bump_child_count r = r\<lparr>p_child_count := p_child_count r + 1\<rparr>"

definition drop_child_count :: "process64_record \<Rightarrow> process64_record" where
  "drop_child_count r = (if p_child_count r \<noteq> 0 then r\<lparr>p_child_count := p_child_count r - 1\<rparr> else r)"

definition process64_spawn_child ::
    "u32 \<Rightarrow> child_kind \<Rightarrow> string \<Rightarrow> process_state \<Rightarrow> u32 \<times> process_state" where
  "process64_spawn_child parent_pid kind child_name ps =
    (case process64_find ps parent_pid of
       None \<Rightarrow> (PROCESS64_INVALID_PID, ps)
     | Some parent \<Rightarrow>
         if p_principal_id (proc_at ps parent) = 0 \<or> kind = PROCESS64_CHILD_KIND_NONE
         then (PROCESS64_INVALID_PID, ps)
         else (case first_index (\<lambda>r. \<not> process64_clone_record_active r) (g_process64_clone_records ps) of
                None \<Rightarrow> (PROCESS64_INVALID_PID, ps)
              | Some c \<Rightarrow>
                  let pid = g_process64_next_clone_pid ps;
                      child = spawned_record (proc_at ps parent) parent_pid pid kind child_name;
                      ps1 = ps\<lparr>g_process64_clone_records := (g_process64_clone_records ps)[c := child],
                               g_process64_next_clone_pid := next_clone_pid_after pid\<rparr>;
                      ps2 = proc_upd parent bump_child_count ps1
                  in (pid, ps2\<lparr>g_process64_clone_count := g_process64_clone_count ps2 + 1\<rparr>)))"

definition process64_spawn_clone :: "u32 \<Rightarrow> process_state \<Rightarrow> u32 \<times> process_state" where
  "process64_spawn_clone parent_pid = process64_spawn_child parent_pid PROCESS64_CHILD_KIND_CLONE ''linux-thread''"

definition process64_spawn_fork :: "u32 \<Rightarrow> process_state \<Rightarrow> u32 \<times> process_state" where
  "process64_spawn_fork parent_pid = process64_spawn_child parent_pid PROCESS64_CHILD_KIND_FORK ''linux-fork''"

definition process64_mark_child_exited :: "u32 \<Rightarrow> u32 \<Rightarrow> process_state \<Rightarrow> bool \<times> process_state" where
  "process64_mark_child_exited pid exit_code ps =
    (case process64_find ps pid of
       None \<Rightarrow> (False, ps)
     | Some ref \<Rightarrow>
         if \<not> p_waitable (proc_at ps ref) then (False, ps)
         else (True, proc_upd ref (\<lambda>r. r\<lparr>p_exited := True, p_exit_code := exit_code\<rparr>) ps))"

definition process64_release_clone :: "u32 \<Rightarrow> process_state \<Rightarrow> bool \<times> process_state" where
  "process64_release_clone pid ps =
    (case first_index (clone_has_pid pid) (g_process64_clone_records ps) of
       None \<Rightarrow> (False, ps)
     | Some c \<Rightarrow>
         let ps1 = (case process64_find ps (p_parent_pid (g_process64_clone_records ps ! c)) of
                      None \<Rightarrow> ps
                    | Some parent \<Rightarrow> proc_upd parent drop_child_count ps);
             ps2 = ps1\<lparr>g_process64_clone_records := (g_process64_clone_records ps1)[c := process64_clear_record]\<rparr>
         in (True, ps2\<lparr>g_process64_clone_count :=
               (if g_process64_clone_count ps2 \<noteq> 0 then g_process64_clone_count ps2 - 1
                else g_process64_clone_count ps2)\<rparr>))"

definition process64_is_clone :: "process_state \<Rightarrow> u32 \<Rightarrow> bool" where
  "process64_is_clone ps pid =
    (case first_index (clone_has_pid pid) (g_process64_clone_records ps) of
       None \<Rightarrow> False
     | Some c \<Rightarrow> p_child_kind (g_process64_clone_records ps ! c) = PROCESS64_CHILD_KIND_CLONE)"

definition process64_is_fork_child :: "process_state \<Rightarrow> u32 \<Rightarrow> bool" where
  "process64_is_fork_child ps pid \<longleftrightarrow> process64_child_kind ps pid = PROCESS64_CHILD_KIND_FORK"

end
