(* ===== verification/Process_Inv.thy ===== *)
theory Process_Inv
  imports Process
begin

text \<open>
  Invariants and properties of the process table: unique pids, exact clone and child counts,
  intact seeded services, inheritance at spawn, complete release, and the contract of the
  extension slots.
\<close>

section \<open>The table invariant\<close>

definition live_refs :: "process_state \<Rightarrow> process_ref list" where
  "live_refs ps = map Seeded [0..<length (g_processes ps)]
     @ map Child (filter (\<lambda>i. process64_clone_record_active (g_process64_clone_records ps ! i))
                   [0..<length (g_process64_clone_records ps)])"

definition children_of :: "u32 \<Rightarrow> process_state \<Rightarrow> nat" where
  "children_of pid ps =
     count_if (\<lambda>r. process64_clone_record_active r \<and> p_parent_pid r = pid) (g_process64_clone_records ps)"

text \<open>
  A clone slot below the pid counter \<open>nxt\<close>: either exactly the cleared record, or a live child
  of a known principal with a clone pid.
\<close>

definition clone_ok :: "u32 \<Rightarrow> process64_record \<Rightarrow> bool" where
  "clone_ok nxt r \<longleftrightarrow>
    (if process64_clone_record_active r
     then PROCESS64_CLONE_PID_BASE \<le> p_pid r \<and> p_pid r < nxt \<and> p_parent_pid r < p_pid r
        \<and> principal64_is_active (p_principal_id r) \<and> p_child_kind r \<noteq> PROCESS64_CHILD_KIND_NONE
        \<and> p_waitable r
     else r = process64_clear_record)"

definition seeds_ok :: "process_state \<Rightarrow> bool" where
  "seeds_ok ps \<longleftrightarrow>
     map (\<lambda>r. (p_pid r, p_principal_id r)) (g_processes ps)
       = map (\<lambda>(pid, _, owner, _). (pid, owner)) g_process_seeds"

definition process_inv :: "process_state \<Rightarrow> bool" where
  "process_inv ps \<longleftrightarrow>
     seeds_ok ps
   \<and> length (g_process64_clone_records ps) = PROCESS64_CLONE_RECORD_LIMIT
   \<and> (\<forall>r\<in>set (g_process64_clone_records ps). clone_ok (g_process64_next_clone_pid ps) r)
   \<and> PROCESS64_CLONE_PID_BASE \<le> g_process64_next_clone_pid ps
   \<and> g_process64_next_clone_pid ps < PROCESS64_INVALID_PID
   \<and> inj_on (\<lambda>ref. p_pid (proc_at ps ref)) (set (live_refs ps))
   \<and> g_process64_clone_count ps
       = of_nat (count_if process64_clone_record_active (g_process64_clone_records ps))
   \<and> (\<forall>ref\<in>set (live_refs ps).
        p_child_count (proc_at ps ref) = of_nat (children_of (p_pid (proc_at ps ref)) ps))"

lemma in_live_refs [simp]:
  "Seeded i \<in> set (live_refs ps) \<longleftrightarrow> i < length (g_processes ps)"
  "Child i \<in> set (live_refs ps) \<longleftrightarrow> i < length (g_process64_clone_records ps)
     \<and> process64_clone_record_active (g_process64_clone_records ps ! i)"
  by (auto simp: live_refs_def)

lemma process_invD:
  assumes "process_inv ps"
  shows "seeds_ok ps"
    and "length (g_process64_clone_records ps) = PROCESS64_CLONE_RECORD_LIMIT"
    and "\<And>i. i < length (g_process64_clone_records ps) \<Longrightarrow>
           clone_ok (g_process64_next_clone_pid ps) (g_process64_clone_records ps ! i)"
    and "PROCESS64_CLONE_PID_BASE \<le> g_process64_next_clone_pid ps"
    and "g_process64_next_clone_pid ps < PROCESS64_INVALID_PID"
    and "\<And>a b. a \<in> set (live_refs ps) \<Longrightarrow> b \<in> set (live_refs ps) \<Longrightarrow>
           p_pid (proc_at ps a) = p_pid (proc_at ps b) \<Longrightarrow> a = b"
    and "\<And>ref. ref \<in> set (live_refs ps) \<Longrightarrow>
           p_child_count (proc_at ps ref) = of_nat (children_of (p_pid (proc_at ps ref)) ps)"
  using assms unfolding process_inv_def inj_on_def by simp_all

definition seed_ids :: "(u32 \<times> u32) list" where
  "seed_ids = map (\<lambda>(pid, _, owner, _). (pid, owner)) g_process_seeds"

lemma seed_ids_facts:
  "length seed_ids = 7"
  "map fst seed_ids = map (of_nat \<circ> Suc) [0..<7]"
  "\<forall>x\<in>set seed_ids. principal64_is_active (snd x)"
  by (simp_all add: seed_ids_def g_process_seeds_def upt_rec principal64_is_active_set principal_ids)

lemma seeds_okD:
  assumes "seeds_ok ps"
  shows "length (g_processes ps) = 7"
    and "\<And>i. i < 7 \<Longrightarrow> p_pid (g_processes ps ! i) = of_nat (Suc i)"
    and "\<And>i. i < 7 \<Longrightarrow> principal64_is_active (p_principal_id (g_processes ps ! i))"
proof -
  have eq: "map (\<lambda>r. (p_pid r, p_principal_id r)) (g_processes ps) = seed_ids"
    using assms by (simp add: seeds_ok_def seed_ids_def)
  show len: "length (g_processes ps) = 7"
    using arg_cong [OF eq, of length] by (simp add: seed_ids_facts)
  have nth: "seed_ids ! i = (p_pid (g_processes ps ! i), p_principal_id (g_processes ps ! i))"
    if "i < 7" for i
    using that len by (simp add: eq [symmetric])
  fix i :: nat assume i: "i < 7"
  have "p_pid (g_processes ps ! i) = map fst seed_ids ! i"
    using i by (simp add: nth seed_ids_facts(1))
  then show "p_pid (g_processes ps ! i) = of_nat (Suc i)"
    using i by (simp only: seed_ids_facts) simp
  have "seed_ids ! i \<in> set seed_ids" using i by (simp add: seed_ids_facts(1))
  then have "principal64_is_active (snd (seed_ids ! i))" using seed_ids_facts(3) by blast
  then show "principal64_is_active (p_principal_id (g_processes ps ! i))"
    using nth [OF i] by simp
qed

text \<open>So the re-seeding path of \<^verbatim>\<open>process64_ensure_init\<close> is never taken.\<close>

lemma process_inv_records_valid: "process_inv ps \<Longrightarrow> process64_records_valid ps"
proof -
  assume "process_inv ps"
  then have eq: "map (\<lambda>r. (p_pid r, p_principal_id r)) (g_processes ps) = seed_ids"
    and len: "length (g_processes ps) = 7"
    using seeds_okD(1) by (simp_all add: process_inv_def seeds_ok_def seed_ids_def)
  have "seed_ids ! i = (p_pid (g_processes ps ! i), p_principal_id (g_processes ps ! i))"
    if "i < 7" for i
    using that len by (simp add: eq [symmetric])
  from this [of 0] this [of 6] show ?thesis
    by (simp add: process64_records_valid_def seed_ids_def g_process_seeds_def)
qed

lemma clear_record_inactive [simp]: "\<not> process64_clone_record_active process64_clear_record"
  by (simp add: process64_clone_record_active_def process64_clear_record_def)

lemma seeded_pid:
  assumes "seeds_ok ps" and "i < 7"
  shows "unat (p_pid (g_processes ps ! i)) = Suc i"
  using assms(2) by (simp only: seeds_okD(2) [OF assms] unat_of_nat) simp

lemma seed_records_ok: "seeds_ok process64_seed_records"
  by (simp add: seeds_ok_def process64_seed_records_def g_process_seeds_def)

lemma process_inv_seed: "process_inv process64_seed_records"
proof -
  have live: "set (live_refs process64_seed_records) = Seeded ` {0..<7}"
    by (auto simp: live_refs_def process64_seed_records_def g_process_seeds_def)
  have "inj_on (\<lambda>ref. p_pid (proc_at process64_seed_records ref)) (Seeded ` {0..<7})"
    using seeded_pid [OF seed_records_ok] by (auto intro!: inj_onI) (metis Suc_inject)
  moreover have "\<forall>r\<in>set (g_processes process64_seed_records). p_child_count r = 0"
    by (simp add: process64_seed_records_def g_process_seeds_def process64_clear_record_def)
  then have "p_child_count (g_processes process64_seed_records ! i) = 0" if "i < 7" for i
    using that seeds_okD(1) [OF seed_records_ok] nth_mem by metis
  moreover have "length (g_process64_clone_records process64_seed_records) = PROCESS64_CLONE_RECORD_LIMIT"
    by (simp add: process64_seed_records_def)
  moreover have "\<forall>r\<in>set (g_process64_clone_records process64_seed_records). clone_ok n r" for n
    by (simp add: process64_seed_records_def clone_ok_def)
  moreover have "g_process64_next_clone_pid process64_seed_records = PROCESS64_CLONE_PID_BASE"
    "g_process64_clone_count process64_seed_records = 0"
    by (simp_all add: process64_seed_records_def)
  moreover have "count_if P (g_process64_clone_records process64_seed_records) = 0"
    if "\<not> P process64_clear_record" for P
    using that by (simp add: process64_seed_records_def)
  ultimately show ?thesis
    by (simp add: process_inv_def seed_records_ok live children_of_def
      PROCESS64_CLONE_PID_BASE_def)
qed


section \<open>Lookup and update through references\<close>

lemma process64_find_live:
  assumes "process64_find ps pid = Some ref"
  shows "ref \<in> set (live_refs ps)" "p_pid (proc_at ps ref) = pid"
  using assms
  by (auto simp: process64_find_def clone_has_pid_def first_index_Some_iff split: option.splits)

lemma process64_find_None:
  assumes "process64_find ps pid = None" and "ref \<in> set (live_refs ps)"
  shows "p_pid (proc_at ps ref) \<noteq> pid"
proof -
  have seeds: "\<forall>r\<in>set (g_processes ps). p_pid r \<noteq> pid"
    and clones: "\<forall>r\<in>set (g_process64_clone_records ps). \<not> clone_has_pid pid r"
    using assms(1) by (simp_all add: process64_find_def first_index_None_iff split: option.splits)
  show ?thesis
    by (cases ref; insert assms(2) seeds clones; auto simp: clone_has_pid_def)
qed

lemma process64_find_eq:
  assumes "process_inv ps" and "ref \<in> set (live_refs ps)" and "p_pid (proc_at ps ref) = pid"
  shows "process64_find ps pid = Some ref"
proof (cases "process64_find ps pid")
  case None
  with process64_find_None assms show ?thesis by blast
next
  case (Some ref')
  with process64_find_live [OF Some] process_invD(6) [OF assms(1)] assms(2,3)
  show ?thesis by blast
qed

lemma proc_at_upd:
  assumes "ref \<in> set (live_refs ps)"
  shows "proc_at (proc_upd ref f ps) ref' = (if ref' = ref then f (proc_at ps ref) else proc_at ps ref')"
  by (cases ref; cases ref'; insert assms; simp)

text \<open>An update that leaves the identity of the record alone leaves the set of live records alone.\<close>

lemma live_refs_upd:
  assumes "ref \<in> set (live_refs ps)" and "p_pid (f (proc_at ps ref)) = p_pid (proc_at ps ref)"
  shows "set (live_refs (proc_upd ref f ps)) = set (live_refs ps)"
proof (rule set_eqI)
  fix x
  show "x \<in> set (live_refs (proc_upd ref f ps)) \<longleftrightarrow> x \<in> set (live_refs ps)"
    by (cases ref; cases x; insert assms;
      auto simp: process64_clone_record_active_def nth_list_update)
qed

lemma proc_upd_rest [simp]:
  "g_process64_clone_count (proc_upd ref f ps) = g_process64_clone_count ps"
  "g_process64_next_clone_pid (proc_upd ref f ps) = g_process64_next_clone_pid ps"
  "length (g_process64_clone_records (proc_upd ref f ps)) = length (g_process64_clone_records ps)"
  "length (g_processes (proc_upd ref f ps)) = length (g_processes ps)"
  by (cases ref; simp)+

lemma count_clones_upd:
  assumes "ref \<in> set (live_refs ps)" and "P (f (proc_at ps ref)) = P (proc_at ps ref)"
  shows "count_if P (g_process64_clone_records (proc_upd ref f ps))
       = count_if P (g_process64_clone_records ps)"
  by (cases ref; insert assms; simp add: count_if_update_same)

definition keeps_identity :: "(process64_record \<Rightarrow> process64_record) \<Rightarrow> bool" where
  "keeps_identity f \<longleftrightarrow> (\<forall>r. p_pid (f r) = p_pid r \<and> p_principal_id (f r) = p_principal_id r
     \<and> p_parent_pid (f r) = p_parent_pid r \<and> p_child_kind (f r) = p_child_kind r
     \<and> p_waitable (f r) = p_waitable r)"

lemma keeps_identityD:
  assumes "keeps_identity f"
  shows "p_pid (f r) = p_pid r" "p_principal_id (f r) = p_principal_id r"
    "p_parent_pid (f r) = p_parent_pid r" "p_child_kind (f r) = p_child_kind r"
    "p_waitable (f r) = p_waitable r"
    "process64_clone_record_active (f r) = process64_clone_record_active r"
  using assms by (simp_all add: keeps_identity_def process64_clone_record_active_def)

lemma children_of_upd:
  assumes "ref \<in> set (live_refs ps)" and "keeps_identity f"
  shows "children_of pid (proc_upd ref f ps) = children_of pid ps"
  unfolding children_of_def by (rule count_clones_upd [OF assms(1)]) (simp add: keeps_identityD [OF assms(2)])

lemma seeds_ok_upd:
  assumes "ref \<in> set (live_refs ps)" and "keeps_identity f" and "seeds_ok ps"
  shows "seeds_ok (proc_upd ref f ps)"
proof -
  have "map (\<lambda>r. (p_pid r, p_principal_id r)) (g_processes (proc_upd ref f ps))
      = map (\<lambda>r. (p_pid r, p_principal_id r)) (g_processes ps)"
    by (cases ref; insert assms(1);
      simp add: map_update keeps_identityD [OF assms(2)] list_update_same_conv)
  with assms(3) show ?thesis by (simp add: seeds_ok_def)
qed

lemma clone_ok_upd:
  assumes "ref \<in> set (live_refs ps)" and "keeps_identity f"
    and "\<forall>r\<in>set (g_process64_clone_records ps). clone_ok n r"
  shows "\<forall>r\<in>set (g_process64_clone_records (proc_upd ref f ps)). clone_ok n r"
proof (cases ref)
  case (Seeded i)
  with assms show ?thesis by simp
next
  case (Child i)
  then have "clone_ok n (g_process64_clone_records ps ! i)"
    and "process64_clone_record_active (g_process64_clone_records ps ! i)"
    using assms(1,3) by auto
  then have "clone_ok n (f (g_process64_clone_records ps ! i))"
    by (simp add: clone_ok_def keeps_identityD [OF assms(2)])
  with Child assms(3) show ?thesis
    by (auto dest!: subsetD [OF set_update_subset_insert])
qed

text \<open>
  The structural part of the invariant, without the child counts, survives any update that keeps
  the identity fields; the whole of it does when the child count is kept as well.
\<close>

definition process_frame :: "process_state \<Rightarrow> bool" where
  "process_frame ps \<longleftrightarrow>
     seeds_ok ps
   \<and> length (g_process64_clone_records ps) = PROCESS64_CLONE_RECORD_LIMIT
   \<and> (\<forall>r\<in>set (g_process64_clone_records ps). clone_ok (g_process64_next_clone_pid ps) r)
   \<and> PROCESS64_CLONE_PID_BASE \<le> g_process64_next_clone_pid ps
   \<and> g_process64_next_clone_pid ps < PROCESS64_INVALID_PID
   \<and> inj_on (\<lambda>ref. p_pid (proc_at ps ref)) (set (live_refs ps))"

lemma process_inv_iff:
  "process_inv ps \<longleftrightarrow> process_frame ps
   \<and> g_process64_clone_count ps
       = of_nat (count_if process64_clone_record_active (g_process64_clone_records ps))
   \<and> (\<forall>ref\<in>set (live_refs ps).
        p_child_count (proc_at ps ref) = of_nat (children_of (p_pid (proc_at ps ref)) ps))"
  by (auto simp: process_inv_def process_frame_def)

lemma process_frame_upd:
  assumes "process_frame ps" and "ref \<in> set (live_refs ps)" and "keeps_identity f"
  shows "process_frame (proc_upd ref f ps)"
proof -
  have "p_pid (proc_at (proc_upd ref f ps) r) = p_pid (proc_at ps r)" for r
    by (simp add: proc_at_upd [OF assms(2)] keeps_identityD [OF assms(3)])
  with assms show ?thesis
    by (simp add: process_frame_def seeds_ok_upd clone_ok_upd live_refs_upd keeps_identityD)
qed

lemma process_inv_upd:
  assumes "process_inv ps" and "ref \<in> set (live_refs ps)" and "keeps_identity f"
    and "\<And>r. p_child_count (f r) = p_child_count r"
  shows "process_inv (proc_upd ref f ps)"
proof -
  have "p_pid (proc_at (proc_upd ref f ps) r) = p_pid (proc_at ps r)"
    and "p_child_count (proc_at (proc_upd ref f ps) r) = p_child_count (proc_at ps r)" for r
    by (simp_all add: proc_at_upd [OF assms(2)] keeps_identityD [OF assms(3)] assms(4))
  with assms(1-3) show ?thesis
    by (simp add: process_inv_iff process_frame_upd live_refs_upd keeps_identityD
      children_of_upd count_clones_upd)
qed


section \<open>Spawning and releasing children\<close>

lemma clone_ok_mono: "clone_ok n r \<Longrightarrow> n \<le> m \<Longrightarrow> clone_ok m r"
  by (auto simp: clone_ok_def split: if_splits)

lemma clone_ok_clear [simp]: "clone_ok n process64_clear_record"
  by (simp add: clone_ok_def)

lemma live_pid_less:
  assumes "process_frame ps" and "ref \<in> set (live_refs ps)"
  shows "p_pid (proc_at ps ref) < g_process64_next_clone_pid ps"
proof (cases ref)
  case (Seeded i)
  then have i: "i < 7" using assms seeds_okD(1) by (simp add: process_frame_def)
  then have "unat (p_pid (g_processes ps ! i)) < unat PROCESS64_CLONE_PID_BASE"
    using assms(1) by (simp add: seeded_pid process_frame_def PROCESS64_CLONE_PID_BASE_def)
  then have "p_pid (g_processes ps ! i) < PROCESS64_CLONE_PID_BASE"
    by (simp add: word_less_nat_alt)
  also have "\<dots> \<le> g_process64_next_clone_pid ps" using assms(1) by (simp add: process_frame_def)
  finally show ?thesis by (simp add: Seeded)
next
  case (Child i)
  with assms show ?thesis by (auto simp: process_frame_def clone_ok_def)
qed

lemma live_principal_active:
  assumes "process_frame ps" and "ref \<in> set (live_refs ps)"
  shows "principal64_is_active (p_principal_id (proc_at ps ref))"
proof (cases ref)
  case (Seeded i)
  with assms show ?thesis using seeds_okD(1,3) [of ps] by (simp add: process_frame_def)
next
  case (Child i)
  with assms show ?thesis by (auto simp: process_frame_def clone_ok_def)
qed

definition put_clone :: "nat \<Rightarrow> process64_record \<Rightarrow> process_state \<Rightarrow> process_state" where
  "put_clone c r ps = ps\<lparr>g_process64_clone_records := (g_process64_clone_records ps)[c := r]\<rparr>"

lemma put_clone_simps [simp]:
  "g_processes (put_clone c r ps) = g_processes ps"
  "g_process64_clone_records (put_clone c r ps) = (g_process64_clone_records ps)[c := r]"
  "g_process64_clone_count (put_clone c r ps) = g_process64_clone_count ps"
  "g_process64_next_clone_pid (put_clone c r ps) = g_process64_next_clone_pid ps"
  by (simp_all add: put_clone_def)

lemma proc_at_put_clone:
  "c < length (g_process64_clone_records ps) \<Longrightarrow>
   proc_at (put_clone c r ps) ref = (if ref = Child c then r else proc_at ps ref)"
  by (cases ref) auto

lemma live_refs_put_clone:
  "c < length (g_process64_clone_records ps) \<Longrightarrow>
   set (live_refs (put_clone c r ps)) =
     (if process64_clone_record_active r then insert (Child c) (set (live_refs ps))
      else set (live_refs ps) - {Child c})"
proof (rule set_eqI)
  fix x
  assume "c < length (g_process64_clone_records ps)"
  then show "x \<in> set (live_refs (put_clone c r ps)) \<longleftrightarrow>
     x \<in> (if process64_clone_record_active r then insert (Child c) (set (live_refs ps))
      else set (live_refs ps) - {Child c})"
    by (cases x) (auto simp: nth_list_update)
qed

lemma process_frame_put_clone:
  assumes "process_frame ps" and c: "c < length (g_process64_clone_records ps)"
    and "clone_ok (g_process64_next_clone_pid ps) r"
    and fresh: "process64_clone_record_active r \<Longrightarrow>
      (\<And>ref. ref \<in> set (live_refs ps) \<Longrightarrow> ref \<noteq> Child c \<Longrightarrow> p_pid (proc_at ps ref) \<noteq> p_pid r)"
  shows "process_frame (put_clone c r ps)"
proof -
  have "\<forall>x\<in>set ((g_process64_clone_records ps)[c := r]). clone_ok (g_process64_next_clone_pid ps) x"
    using assms(1,3) by (auto simp: process_frame_def dest!: subsetD [OF set_update_subset_insert])
  moreover have "inj_on (\<lambda>ref. p_pid (proc_at (put_clone c r ps) ref)) (set (live_refs (put_clone c r ps)))"
  proof (rule inj_onI)
    fix a b
    assume ab: "a \<in> set (live_refs (put_clone c r ps))" "b \<in> set (live_refs (put_clone c r ps))"
      and eq: "p_pid (proc_at (put_clone c r ps) a) = p_pid (proc_at (put_clone c r ps) b)"
    have inj: "inj_on (\<lambda>ref. p_pid (proc_at ps ref)) (set (live_refs ps))"
      using assms(1) by (simp add: process_frame_def)
    show "a = b"
    proof (cases "a = Child c \<or> b = Child c")
      case True
      then show ?thesis
        using ab eq fresh c
        by (auto simp: live_refs_put_clone proc_at_put_clone split: if_splits)
    next
      case False
      then show ?thesis
        using ab eq inj_onD [OF inj] c
        by (auto simp: live_refs_put_clone proc_at_put_clone split: if_splits)
    qed
  qed
  moreover have "seeds_ok (put_clone c r ps)"
    using assms(1) by (simp add: process_frame_def seeds_ok_def)
  ultimately show ?thesis
    using assms(1) by (simp add: process_frame_def)
qed


lemma bump_drop_keep [simp]: "keeps_identity bump_child_count" "keeps_identity drop_child_count"
  by (simp_all add: keeps_identity_def bump_child_count_def drop_child_count_def)

lemma children_of_put_clone:
  assumes "c < length (g_process64_clone_records ps)"
  shows "children_of q (put_clone c r ps)
      + (if process64_clone_record_active (g_process64_clone_records ps ! c)
            \<and> p_parent_pid (g_process64_clone_records ps ! c) = q then 1 else 0)
    = children_of q ps + (if process64_clone_record_active r \<and> p_parent_pid r = q then 1 else 0)"
  using count_if_update [OF assms, of "\<lambda>r. process64_clone_record_active r \<and> p_parent_pid r = q" r]
  by (simp add: children_of_def)

lemma children_of_fresh:
  assumes "process_frame ps" and "g_process64_next_clone_pid ps \<le> q"
  shows "children_of q ps = 0"
  using assms by (auto simp: children_of_def count_if_eq_0_iff process_frame_def clone_ok_def
    split: if_splits)

lemma children_of_le: "process_frame ps \<Longrightarrow> children_of q ps \<le> 16"
  using count_if_le [of "\<lambda>r. process64_clone_record_active r \<and> p_parent_pid r = q"
      "g_process64_clone_records ps"]
  by (simp add: children_of_def process_frame_def PROCESS64_CLONE_RECORD_LIMIT_def)

text \<open>
  The successful path of \<^verbatim>\<open>process64_spawn_child\<close>, as the fields of the new state.
\<close>

definition spawn_room :: "process_state \<Rightarrow> bool" where
  "spawn_room ps \<longleftrightarrow> (\<exists>r\<in>set (g_process64_clone_records ps). \<not> process64_clone_record_active r)"

definition pid_room :: "process_state \<Rightarrow> bool" where
  "pid_room ps \<longleftrightarrow> g_process64_next_clone_pid ps < PROCESS64_INVALID_PID - 1"

lemma process64_spawn_child_ok:
  assumes inv: "process_inv ps" and parent: "process64_find ps parent_pid = Some parent"
    and kind: "kind \<noteq> PROCESS64_CHILD_KIND_NONE" and room: "spawn_room ps"
  obtains c where
    "c < length (g_process64_clone_records ps)"
    "\<not> process64_clone_record_active (g_process64_clone_records ps ! c)"
    "process64_spawn_child parent_pid kind name ps =
      (g_process64_next_clone_pid ps,
       proc_upd parent bump_child_count
         (put_clone c (spawned_record (proc_at ps parent) parent_pid (g_process64_next_clone_pid ps) kind name)
           (ps\<lparr>g_process64_next_clone_pid := next_clone_pid_after (g_process64_next_clone_pid ps),
               g_process64_clone_count := g_process64_clone_count ps + 1\<rparr>)))"
proof -
  have frame: "process_frame ps" using inv by (simp add: process_inv_iff)
  have "principal64_is_active (p_principal_id (proc_at ps parent))"
    using live_principal_active [OF frame process64_find_live(1) [OF parent]] .
  then have pr: "p_principal_id (proc_at ps parent) \<noteq> 0" using principal64_zero_inactive by metis
  obtain c where c: "first_index (\<lambda>r. \<not> process64_clone_record_active r) (g_process64_clone_records ps) = Some c"
    using room by (metis first_index_None_iff option.exhaust spawn_room_def)
  show thesis
  proof (rule that)
    show "c < length (g_process64_clone_records ps)"
      "\<not> process64_clone_record_active (g_process64_clone_records ps ! c)"
      using first_index_SomeD(1,2) [OF c] by simp_all
    show "process64_spawn_child parent_pid kind name ps =
      (g_process64_next_clone_pid ps,
       proc_upd parent bump_child_count
         (put_clone c (spawned_record (proc_at ps parent) parent_pid (g_process64_next_clone_pid ps) kind name)
           (ps\<lparr>g_process64_next_clone_pid := next_clone_pid_after (g_process64_next_clone_pid ps),
               g_process64_clone_count := g_process64_clone_count ps + 1\<rparr>)))"
      using pr kind c parent
      by (cases parent) (simp_all add: process64_spawn_child_def put_clone_def Let_def)
  qed
qed

lemma process64_spawn_child_fail:
  assumes "process_inv ps"
    and "process64_find ps parent_pid = None \<or> kind = PROCESS64_CHILD_KIND_NONE \<or> \<not> spawn_room ps"
  shows "process64_spawn_child parent_pid kind name ps = (PROCESS64_INVALID_PID, ps)"
proof -
  have "first_index (\<lambda>r. \<not> process64_clone_record_active r) (g_process64_clone_records ps) = None"
    if "\<not> spawn_room ps"
    using that by (simp add: spawn_room_def first_index_None_iff)
  with assms(2) show ?thesis by (auto simp: process64_spawn_child_def split: option.splits)
qed

lemma frame_scalars [simp]:
  "live_refs (ps\<lparr>g_process64_clone_count := n\<rparr>) = live_refs ps"
  "live_refs (ps\<lparr>g_process64_next_clone_pid := p\<rparr>) = live_refs ps"
  "proc_at (ps\<lparr>g_process64_clone_count := n\<rparr>) ref = proc_at ps ref"
  "proc_at (ps\<lparr>g_process64_next_clone_pid := p\<rparr>) ref = proc_at ps ref"
  "children_of q (ps\<lparr>g_process64_clone_count := n\<rparr>) = children_of q ps"
  "children_of q (ps\<lparr>g_process64_next_clone_pid := p\<rparr>) = children_of q ps"
  "seeds_ok (ps\<lparr>g_process64_clone_count := n\<rparr>) = seeds_ok ps"
  "seeds_ok (ps\<lparr>g_process64_next_clone_pid := p\<rparr>) = seeds_ok ps"
  by (cases ref; simp add: live_refs_def children_of_def seeds_ok_def)+

lemma process_frame_next:
  assumes "process_frame ps" and "g_process64_next_clone_pid ps \<le> n" and "n < PROCESS64_INVALID_PID"
  shows "process_frame (ps\<lparr>g_process64_next_clone_pid := n, g_process64_clone_count := k\<rparr>)"
  using assms clone_ok_mono [OF _ assms(2)] by (auto simp: process_frame_def)

lemma next_clone_pid_after_room:
  assumes "pid_room ps"
  shows "PROCESS64_CLONE_PID_BASE \<le> g_process64_next_clone_pid ps \<Longrightarrow>
      next_clone_pid_after (g_process64_next_clone_pid ps) = g_process64_next_clone_pid ps + 1"
    and "g_process64_next_clone_pid ps < g_process64_next_clone_pid ps + 1"
    and "g_process64_next_clone_pid ps + 1 < PROCESS64_INVALID_PID"
proof -
  let ?n = "g_process64_next_clone_pid ps"
  have n: "?n < 0xFFFFFFFE" using assms by (simp add: pid_room_def)
  then show 1: "?n < ?n + 1" "?n + 1 < PROCESS64_INVALID_PID" by (simp_all add: word_inc_less)
  show "next_clone_pid_after ?n = ?n + 1" if "PROCESS64_CLONE_PID_BASE \<le> ?n"
    using that 1 by (auto simp: next_clone_pid_after_def)
qed


lemma spawned_record_simps [simp]:
  "p_pid (spawned_record r q pid k n) = pid"
  "p_parent_pid (spawned_record r q pid k n) = q"
  "p_principal_id (spawned_record r q pid k n) = p_principal_id r"
  "p_child_count (spawned_record r q pid k n) = 0"
  "p_child_kind (spawned_record r q pid k n) = k"
  "p_waitable (spawned_record r q pid k n)"
  by (simp_all add: spawned_record_def process64_clear_record_def)

text \<open>
  Counting one more child for the parent keeps every live child count exact.
\<close>

lemma spawn_child_counts:
  assumes inv: "process_inv ps" and live: "parent \<in> set (live_refs ps)" and notc: "parent \<noteq> Child c"
    and live1: "set (live_refs ps1) = insert (Child c) (set (live_refs ps))"
    and at1: "\<And>ref. proc_at ps1 ref = (if ref = Child c then child else proc_at ps ref)"
    and kids: "\<And>q. children_of q ps1 = children_of q ps + (if q = p_pid (proc_at ps parent) then 1 else 0)"
    and new: "p_child_count child = 0" "children_of (p_pid child) ps1 = 0"
    and ref: "ref \<in> set (live_refs ps1)"
  shows "p_child_count (proc_at (proc_upd parent bump_child_count ps1) ref)
      = of_nat (children_of (p_pid (proc_at ps1 ref)) ps1)"
proof -
  have upd: "proc_at (proc_upd parent bump_child_count ps1) ref
      = (if ref = parent then bump_child_count (proc_at ps1 parent) else proc_at ps1 ref)"
    using live live1 by (simp add: proc_at_upd)
  consider "ref = Child c" | "ref = parent" | "ref \<noteq> Child c" "ref \<noteq> parent" "ref \<in> set (live_refs ps)"
    using ref live1 by auto
  then show ?thesis
  proof cases
    case 1
    then show ?thesis using upd at1 new notc by (simp del: proc_at.simps)
  next
    case 2
    then show ?thesis
      using upd at1 notc kids process_invD(7) [OF inv live] by (simp add: bump_child_count_def)
  next
    case 3
    then have "p_pid (proc_at ps ref) \<noteq> p_pid (proc_at ps parent)"
      using process_invD(6) [OF inv _ live] by blast
    then show ?thesis using 3 upd at1 kids process_invD(7) [OF inv 3(3)] by simp
  qed
qed

lemma process_inv_spawn:
  assumes inv: "process_inv ps" and room: "pid_room ps"
  shows "process_inv (snd (process64_spawn_child parent_pid kind name ps))"
proof (cases "process64_find ps parent_pid = None \<or> kind = PROCESS64_CHILD_KIND_NONE \<or> \<not> spawn_room ps")
  case True
  with inv process64_spawn_child_fail show ?thesis by fastforce
next
  case False
  then obtain parent where parent: "process64_find ps parent_pid = Some parent" by auto
  obtain c where c: "c < length (g_process64_clone_records ps)"
      "\<not> process64_clone_record_active (g_process64_clone_records ps ! c)"
    and eq: "process64_spawn_child parent_pid kind name ps =
      (g_process64_next_clone_pid ps,
       proc_upd parent bump_child_count
         (put_clone c (spawned_record (proc_at ps parent) parent_pid (g_process64_next_clone_pid ps) kind name)
           (ps\<lparr>g_process64_next_clone_pid := next_clone_pid_after (g_process64_next_clone_pid ps),
               g_process64_clone_count := g_process64_clone_count ps + 1\<rparr>)))"
    using process64_spawn_child_ok [OF inv parent, of kind name] False by blast
  let ?n = "g_process64_next_clone_pid ps"
  let ?child = "spawned_record (proc_at ps parent) parent_pid ?n kind name"
  define ps0 where "ps0 = ps\<lparr>g_process64_next_clone_pid := ?n + 1,
     g_process64_clone_count := g_process64_clone_count ps + 1\<rparr>"
  define ps1 where "ps1 = put_clone c ?child ps0"
  note n = next_clone_pid_after_room [OF room]
  have frame: "process_frame ps" and base: "PROCESS64_CLONE_PID_BASE \<le> ?n"
    using inv by (simp_all add: process_inv_iff process_frame_def)
  have state: "snd (process64_spawn_child parent_pid kind name ps) = proc_upd parent bump_child_count ps1"
    by (simp add: eq ps1_def ps0_def n(1) [OF base])
  have live: "parent \<in> set (live_refs ps)" and pid: "p_pid (proc_at ps parent) = parent_pid"
    using process64_find_live [OF parent] by simp_all
  have less: "parent_pid < ?n" using live_pid_less [OF frame live] pid by simp
  have lens: "c < length (g_process64_clone_records ps0)" using c by (simp add: ps0_def)
  have active: "process64_clone_record_active ?child"
    using n base by (auto simp: process64_clone_record_active_def PROCESS64_CLONE_PID_BASE_def)
  have ok: "clone_ok (g_process64_next_clone_pid ps0) ?child"
    using active base n(2) less live_principal_active [OF frame live] False
    by (simp add: clone_ok_def ps0_def)
  have fresh: "p_pid (proc_at ps0 ref) \<noteq> ?n" if "ref \<in> set (live_refs ps0)" for ref
    using live_pid_less [OF frame, of ref] that by (auto simp: ps0_def)
  have frame0: "process_frame ps0"
    unfolding ps0_def using process_frame_next [OF frame] n by simp
  have frame1: "process_frame ps1"
    unfolding ps1_def using process_frame_put_clone [OF frame0 lens ok] fresh by simp
  have live1: "set (live_refs ps1) = insert (Child c) (set (live_refs ps))"
    unfolding ps1_def live_refs_put_clone [OF lens] using active by (simp add: ps0_def)
  have notc: "parent \<noteq> Child c" using live c by auto
  have kids: "children_of q ps1 = children_of q ps + (if q = parent_pid then 1 else 0)" for q
    using children_of_put_clone [OF lens, of q ?child] c active by (auto simp: ps1_def ps0_def)
  have at1: "proc_at ps1 ref = (if ref = Child c then ?child else proc_at ps ref)" for ref
    unfolding ps1_def proc_at_put_clone [OF lens] by (simp add: ps0_def)
  have counts: "p_child_count (proc_at (proc_upd parent bump_child_count ps1) ref)
      = of_nat (children_of (p_pid (proc_at ps1 ref)) ps1)" if "ref \<in> set (live_refs ps1)" for ref
    by (rule spawn_child_counts [OF inv live notc live1 at1])
      (use kids pid less that children_of_fresh [OF frame, of ?n] in simp_all)
  have "count_if process64_clone_record_active (g_process64_clone_records ps1)
      = Suc (count_if process64_clone_record_active (g_process64_clone_records ps))"
    using c active by (simp add: ps1_def ps0_def count_if_update_add)
  moreover have "g_process64_clone_count ps1 = g_process64_clone_count ps + 1"
    by (simp add: ps1_def ps0_def)
  moreover have "p_pid (proc_at (proc_upd parent bump_child_count ps1) ref) = p_pid (proc_at ps1 ref)" for ref
    using live live1 by (simp add: proc_at_upd keeps_identityD)
  ultimately show ?thesis
    unfolding state process_inv_iff
    using live live1 frame1 counts inv
    by (simp add: process_frame_upd live_refs_upd keeps_identityD count_clones_upd children_of_upd
      process_inv_iff)
qed


text \<open>
  Releasing a child: the parent, when it still exists, is another live record.
\<close>

lemma process64_release_clone_None:
  "first_index (clone_has_pid pid) (g_process64_clone_records ps) = None \<Longrightarrow>
   process64_release_clone pid ps = (False, ps)"
  by (simp add: process64_release_clone_def)

lemma process64_release_clone_parent:
  assumes "process_inv ps"
    and c: "first_index (clone_has_pid pid) (g_process64_clone_records ps) = Some c"
    and parent: "process64_find ps (p_parent_pid (g_process64_clone_records ps ! c)) = Some parent"
  shows "Child c \<in> set (live_refs ps)" "p_pid (proc_at ps (Child c)) = pid" "parent \<noteq> Child c"
    "process64_release_clone pid ps =
      (True, proc_upd parent drop_child_count (put_clone c process64_clear_record
         (ps\<lparr>g_process64_clone_count := g_process64_clone_count ps - 1\<rparr>)))"
proof -
  show live: "Child c \<in> set (live_refs ps)" and pid: "p_pid (proc_at ps (Child c)) = pid"
    using first_index_SomeD(1,2) [OF c] by (simp_all add: clone_has_pid_def)
  have ok: "clone_ok (g_process64_next_clone_pid ps) (g_process64_clone_records ps ! c)"
    using process_invD(3) [OF assms(1)] live by simp
  then show ne: "parent \<noteq> Child c"
    using process64_find_live(2) [OF parent] live by (auto simp: clone_ok_def)
  have "0 < count_if process64_clone_record_active (g_process64_clone_records ps)"
    using live count_if_pos by fastforce
  moreover have "count_if process64_clone_record_active (g_process64_clone_records ps) \<le> 16"
    using count_if_le process_invD(2) [OF assms(1)] by (metis PROCESS64_CLONE_RECORD_LIMIT_def)
  ultimately have nz: "g_process64_clone_count ps \<noteq> 0"
    using assms(1) by (simp add: process_inv_iff small_of_nat_eq_0)
  show "process64_release_clone pid ps =
      (True, proc_upd parent drop_child_count (put_clone c process64_clear_record
         (ps\<lparr>g_process64_clone_count := g_process64_clone_count ps - 1\<rparr>)))"
    using c parent ne nz
    by (cases parent) (simp_all add: process64_release_clone_def put_clone_def Let_def list_update_swap)
qed

lemma process64_release_clone_orphan:
  assumes "process_inv ps"
    and c: "first_index (clone_has_pid pid) (g_process64_clone_records ps) = Some c"
    and parent: "process64_find ps (p_parent_pid (g_process64_clone_records ps ! c)) = None"
  shows "Child c \<in> set (live_refs ps)" "p_pid (proc_at ps (Child c)) = pid"
    "process64_release_clone pid ps =
      (True, put_clone c process64_clear_record
         (ps\<lparr>g_process64_clone_count := g_process64_clone_count ps - 1\<rparr>))"
proof -
  show live: "Child c \<in> set (live_refs ps)" and "p_pid (proc_at ps (Child c)) = pid"
    using first_index_SomeD(1,2) [OF c] by (simp_all add: clone_has_pid_def)
  have "0 < count_if process64_clone_record_active (g_process64_clone_records ps)"
    using live count_if_pos by fastforce
  moreover have "count_if process64_clone_record_active (g_process64_clone_records ps) \<le> 16"
    using count_if_le process_invD(2) [OF assms(1)] by (metis PROCESS64_CLONE_RECORD_LIMIT_def)
  ultimately have "g_process64_clone_count ps \<noteq> 0"
    using assms(1) by (simp add: process_inv_iff small_of_nat_eq_0)
  then show "process64_release_clone pid ps =
      (True, put_clone c process64_clear_record
         (ps\<lparr>g_process64_clone_count := g_process64_clone_count ps - 1\<rparr>))"
    using c parent by (simp add: process64_release_clone_def put_clone_def Let_def)
qed


lemma process_frame_count [simp]:
  "process_frame (ps\<lparr>g_process64_clone_count := n\<rparr>) = process_frame ps"
  by (simp add: process_frame_def)

text \<open>What clearing a live clone slot does, whatever happens to the parent's counter.\<close>

lemma clear_clone_facts:
  fixes ps c
  defines "ps1 \<equiv> put_clone c process64_clear_record
      (ps\<lparr>g_process64_clone_count := g_process64_clone_count ps - 1\<rparr>)"
  assumes inv: "process_inv ps" and live: "Child c \<in> set (live_refs ps)"
  shows "process_frame ps1"
    and "set (live_refs ps1) = set (live_refs ps) - {Child c}"
    and "\<And>ref. ref \<noteq> Child c \<Longrightarrow> proc_at ps1 ref = proc_at ps ref"
    and "\<And>q. children_of q ps1 + (if q = p_parent_pid (g_process64_clone_records ps ! c) then 1 else 0)
           = children_of q ps"
    and "g_process64_clone_count ps1
           = of_nat (count_if process64_clone_record_active (g_process64_clone_records ps1))"
proof -
  let ?ps0 = "ps\<lparr>g_process64_clone_count := g_process64_clone_count ps - 1\<rparr>"
  have c: "c < length (g_process64_clone_records ?ps0)"
    and act: "process64_clone_record_active (g_process64_clone_records ps ! c)"
    using live by simp_all
  have frame: "process_frame ?ps0" using inv by (simp add: process_inv_iff)
  show "process_frame ps1"
    unfolding ps1_def by (rule process_frame_put_clone [OF frame c]) simp_all
  show "set (live_refs ps1) = set (live_refs ps) - {Child c}"
    unfolding ps1_def by (simp add: live_refs_put_clone [OF c])
  show "proc_at ps1 ref = proc_at ps ref" if "ref \<noteq> Child c" for ref
    unfolding ps1_def using that by (simp add: proc_at_put_clone [OF c])
  show "children_of q ps1 + (if q = p_parent_pid (g_process64_clone_records ps ! c) then 1 else 0)
      = children_of q ps" for q
    using children_of_put_clone [OF c, of q process64_clear_record] act by (auto simp: ps1_def)
  have "Suc (count_if process64_clone_record_active (g_process64_clone_records ps1))
      = count_if process64_clone_record_active (g_process64_clone_records ps)"
    using c act by (simp add: ps1_def count_if_update_del)
  moreover have "g_process64_clone_count ps
      = of_nat (count_if process64_clone_record_active (g_process64_clone_records ps))"
    using inv by (simp add: process_inv_iff)
  moreover have "g_process64_clone_count ps1 = g_process64_clone_count ps - 1"
    by (simp add: ps1_def)
  ultimately show "g_process64_clone_count ps1
      = of_nat (count_if process64_clone_record_active (g_process64_clone_records ps1))"
    by (metis add_diff_cancel_left' of_nat_Suc)
qed

lemma drop_child_count_exact:
  assumes "p_child_count r = of_nat (Suc k)" and "Suc k \<le> 16"
  shows "p_child_count (drop_child_count r) = of_nat k"
proof -
  have "(of_nat (Suc k) :: u32) \<noteq> 0"
    using assms(2) by (subst small_of_nat_eq_0) simp_all
  with assms(1) show ?thesis by (simp add: drop_child_count_def)
qed

lemma process_inv_release:
  assumes inv: "process_inv ps"
  shows "process_inv (snd (process64_release_clone pid ps))"
proof (cases "first_index (clone_has_pid pid) (g_process64_clone_records ps)")
  case None
  with inv show ?thesis by (simp add: process64_release_clone_None)
next
  case (Some c)
  let ?q = "p_parent_pid (g_process64_clone_records ps ! c)"
  let ?ps1 = "put_clone c process64_clear_record
      (ps\<lparr>g_process64_clone_count := g_process64_clone_count ps - 1\<rparr>)"
  show ?thesis
  proof (cases "process64_find ps ?q")
    case None
    note rel = process64_release_clone_orphan [OF inv Some None]
    note f = clear_clone_facts [OF inv rel(1)]
    have "p_child_count (proc_at ?ps1 ref) = of_nat (children_of (p_pid (proc_at ?ps1 ref)) ?ps1)"
      if "ref \<in> set (live_refs ?ps1)" for ref
    proof -
      have ref: "ref \<in> set (live_refs ps)" "ref \<noteq> Child c" using that f(2) by auto
      have "p_pid (proc_at ps ref) \<noteq> ?q" using process64_find_None [OF None ref(1)] .
      then show ?thesis
        using f(4) [of "p_pid (proc_at ps ref)"] process_invD(7) [OF inv ref(1)] f(3) [OF ref(2)] by simp
    qed
    then show ?thesis using rel(3) f(1,5) by (simp add: process_inv_iff)
  next
    case (Some parent)
    note rel = process64_release_clone_parent [OF inv \<open>first_index _ _ = Some c\<close> Some]
    note f = clear_clone_facts [OF inv rel(1)]
    have parent: "parent \<in> set (live_refs ps)" "p_pid (proc_at ps parent) = ?q"
      using process64_find_live [OF Some] by simp_all
    then have parent1: "parent \<in> set (live_refs ?ps1)" using f(2) rel(3) by simp
    have "p_child_count (proc_at (proc_upd parent drop_child_count ?ps1) ref)
        = of_nat (children_of (p_pid (proc_at ?ps1 ref)) ?ps1)" if "ref \<in> set (live_refs ?ps1)" for ref
    proof -
      have ref: "ref \<in> set (live_refs ps)" "ref \<noteq> Child c" using that f(2) by auto
      note kids = f(4) [of "p_pid (proc_at ps ref)"] and cnt = process_invD(7) [OF inv ref(1)]
      have le: "children_of (p_pid (proc_at ps ref)) ps \<le> 16"
        using children_of_le inv by (simp add: process_inv_iff)
      show ?thesis
      proof (cases "ref = parent")
        case True
        then have "Suc (children_of ?q ?ps1) = children_of ?q ps"
          using kids parent(2) by simp
        then have "p_child_count (drop_child_count (proc_at ps ref)) = of_nat (children_of ?q ?ps1)"
          using cnt le parent(2) True by (intro drop_child_count_exact) simp_all
        then show ?thesis
          using True f(3) [OF ref(2)] parent(2) by (simp add: proc_at_upd [OF parent1])
      next
        case False
        then have "p_pid (proc_at ps ref) \<noteq> ?q"
          using process_invD(6) [OF inv ref(1) parent(1)] parent(2) by auto
        then show ?thesis
          using kids cnt f(3) [OF ref(2)] False by (simp add: proc_at_upd [OF parent1])
      qed
    qed
    moreover have "p_pid (proc_at (proc_upd parent drop_child_count ?ps1) ref) = p_pid (proc_at ?ps1 ref)" for ref
      by (simp add: proc_at_upd [OF parent1] keeps_identityD)
    ultimately show ?thesis
      using f(1,5) parent1
      by (simp add: rel(4) process_inv_iff process_frame_upd live_refs_upd keeps_identityD
        count_clones_upd children_of_upd)
  qed
qed


section \<open>Records by pid\<close>

lemma process64_find_upd:
  assumes "ref \<in> set (live_refs ps)" and "\<And>r. p_pid (f r) = p_pid r"
  shows "process64_find (proc_upd ref f ps) q = process64_find ps q"
proof -
  have "first_index (\<lambda>r. p_pid r = q) (g_processes (proc_upd ref f ps))
      = first_index (\<lambda>r. p_pid r = q) (g_processes ps)"
    by (rule first_index_cong, simp) (cases ref; insert assms; simp add: nth_list_update)
  moreover have "first_index (clone_has_pid q) (g_process64_clone_records (proc_upd ref f ps))
      = first_index (clone_has_pid q) (g_process64_clone_records ps)"
    by (rule first_index_cong, simp) (cases ref; insert assms;
      simp add: nth_list_update clone_has_pid_def process64_clone_record_active_def)
  ultimately show ?thesis by (simp only: process64_find_def)
qed

lemma process_record_upd:
  assumes "process64_find ps pid = Some ref" and "\<And>r. p_pid (f r) = p_pid r"
  shows "process_record (proc_upd ref f ps) q =
    (if q = pid then map_option f (process_record ps q) else process_record ps q)"
proof (cases "q = pid")
  case True
  with assms show ?thesis
    using process64_find_live(1) [OF assms(1)]
    by (simp add: process_record_def process64_find_upd proc_at_upd)
next
  case False
  have "proc_at (proc_upd ref f ps) ref' = proc_at ps ref'" if "process64_find ps q = Some ref'" for ref'
    using process64_find_live(2) [OF that] process64_find_live [OF assms(1)] False
    by (auto simp: proc_at_upd)
  with False show ?thesis
    using process64_find_live(1) [OF assms(1)]
    by (cases "process64_find ps q") (simp_all add: process_record_def process64_find_upd assms(2))
qed

lemma process_record_eq:
  assumes "process_inv ps" and "ref \<in> set (live_refs ps)" and "p_pid (proc_at ps ref) = pid"
  shows "process_record ps pid = Some (proc_at ps ref)"
  using process64_find_eq [OF assms] by (simp add: process_record_def)

lemma process_record_None_iff:
  "process_inv ps \<Longrightarrow>
   process_record ps pid = None \<longleftrightarrow> (\<forall>ref\<in>set (live_refs ps). p_pid (proc_at ps ref) \<noteq> pid)"
  using process64_find_None [of ps pid] process64_find_live [of ps pid]
  by (cases "process64_find ps pid") (auto simp: process_record_def)

lemma process_record_SomeD:
  assumes "process_record ps pid = Some r"
  obtains ref where "ref \<in> set (live_refs ps)" "proc_at ps ref = r" "p_pid r = pid"
  using assms process64_find_live [of ps pid] by (auto simp: process_record_def)

text \<open>
  Two tables with invariants that agree on a live record agree on the lookup of its pid.
\<close>

lemma process_record_agree:
  assumes inv: "process_inv ps" "process_inv ps'"
    and "\<And>ref. p_pid (proc_at ps ref) = q \<Longrightarrow> ref \<in> set (live_refs ps) \<Longrightarrow>
           ref \<in> set (live_refs ps') \<and> proc_at ps' ref = g (proc_at ps ref) \<and> p_pid (g (proc_at ps ref)) = q"
    and "\<And>ref. p_pid (proc_at ps' ref) = q \<Longrightarrow> ref \<in> set (live_refs ps') \<Longrightarrow>
           ref \<in> set (live_refs ps) \<and> p_pid (proc_at ps ref) = q"
  shows "process_record ps' q = map_option g (process_record ps q)"
proof (cases "process_record ps q")
  case None
  then have "process_record ps' q = None"
    using assms(4) by (auto simp: process_record_None_iff [OF inv(1)] process_record_None_iff [OF inv(2)])
  with None show ?thesis by simp
next
  case (Some r)
  then obtain ref where "ref \<in> set (live_refs ps)" "proc_at ps ref = r" "p_pid r = q"
    by (rule process_record_SomeD)
  with assms(3) [of ref] process_record_eq [OF inv(2), of ref q] Some show ?thesis by simp
qed


section \<open>The slot contract\<close>

text \<open>
  What each of the four extension slots promises to the component that owns it. The reader and
  writer of the slot are parameters; the laws say that the slot is a field of the record that is
  independent of the identity of the process.
\<close>

locale process_slot =
  fixes get :: "process64_record \<Rightarrow> nat option"
    and put :: "nat option \<Rightarrow> process64_record \<Rightarrow> process64_record"
  assumes get_put [simp]: "get (put c r) = c"
    and put_keeps: "keeps_identity (put c)"
    and put_children: "p_child_count (put c r) = p_child_count r"
begin

lemma attach_iff:
  "fst (process64_attach_slot get put pid c ps) \<longleftrightarrow>
     (\<exists>r. process_record ps pid = Some r \<and> get r = None) \<and> c \<noteq> None"
  by (auto simp: process64_attach_slot_def process_record_def split: option.splits)

lemma attach_refused:
  "\<not> fst (process64_attach_slot get put pid c ps) \<Longrightarrow>
   snd (process64_attach_slot get put pid c ps) = ps"
  by (auto simp: process64_attach_slot_def split: option.splits)

lemma attach_record:
  assumes "fst (process64_attach_slot get put pid c ps)"
  shows "process_record (snd (process64_attach_slot get put pid c ps)) q =
    (if q = pid then map_option (put c) (process_record ps q) else process_record ps q)"
proof -
  obtain ref where "process64_find ps pid = Some ref"
    "snd (process64_attach_slot get put pid c ps) = proc_upd ref (put c) ps"
    using assms by (auto simp: process64_attach_slot_def split: option.splits if_splits)
  then show ?thesis using process_record_upd keeps_identityD(1) [OF put_keeps] by simp
qed

lemma detach_record:
  "process_record (snd (process64_detach_slot get put pid ps)) q =
    (if q = pid then map_option (put None) (process_record ps q) else process_record ps q)"
proof (cases "process64_find ps pid")
  case None
  then show ?thesis by (simp add: process64_detach_slot_def process_record_def)
next
  case (Some ref)
  then show ?thesis
    using process_record_upd [OF Some] keeps_identityD(1) [OF put_keeps]
    by (simp add: process64_detach_slot_def)
qed

lemma detach_result: "fst (process64_detach_slot get put pid ps) = record_field get None ps pid"
  by (simp add: process64_detach_slot_def record_field_def process_record_def split: option.splits)

text \<open>Attaching and detaching again hands the same context back and leaves the slot empty.\<close>

lemma attach_detach:
  assumes "fst (process64_attach_slot get put pid c ps)"
  defines "ps1 \<equiv> snd (process64_attach_slot get put pid c ps)"
  shows "record_field get None ps1 pid = c"
    and "fst (process64_detach_slot get put pid ps1) = c"
    and "record_field get None (snd (process64_detach_slot get put pid ps1)) pid = None"
    and "\<not> fst (process64_attach_slot get put pid d ps1)"
proof -
  obtain r where r: "process_record ps pid = Some r" using assms(1) attach_iff by blast
  have 1: "process_record ps1 pid = Some (put c r)"
    unfolding ps1_def using attach_record [OF assms(1), of pid] r by simp
  then show "record_field get None ps1 pid = c" by (simp add: record_field_def)
  then show "fst (process64_detach_slot get put pid ps1) = c" by (simp add: detach_result)
  show "record_field get None (snd (process64_detach_slot get put pid ps1)) pid = None"
    by (simp add: record_field_def detach_record 1)
  show "\<not> fst (process64_attach_slot get put pid d ps1)"
    using 1 assms(1) by (simp add: attach_iff)
qed

lemma attach_inv: "process_inv ps \<Longrightarrow> process_inv (snd (process64_attach_slot get put pid c ps))"
  using process_inv_upd [OF _ process64_find_live(1) put_keeps put_children]
  by (auto simp: process64_attach_slot_def split: option.splits)

lemma detach_inv: "process_inv ps \<Longrightarrow> process_inv (snd (process64_detach_slot get put pid ps))"
  using process_inv_upd [OF _ process64_find_live(1) put_keeps put_children]
  by (auto simp: process64_detach_slot_def split: option.splits)

end

interpretation vma_slot: process_slot p_vma_root put_vma
  by unfold_locales (simp_all add: put_vma_def keeps_identity_def)

interpretation fd_slot: process_slot p_fd_table put_fd
  by unfold_locales (simp_all add: put_fd_def keeps_identity_def)

interpretation persona_slot: process_slot p_persona_ctx put_persona
  by unfold_locales (simp_all add: put_persona_def keeps_identity_def)

interpretation audit_slot: process_slot p_audit_ctx put_audit
  by unfold_locales (simp_all add: put_audit_def keeps_identity_def)


section \<open>Runs of table operations\<close>

datatype process_op =
    Attach_vma u32 "nat option" | Detach_vma u32
  | Attach_fd u32 "nat option" | Detach_fd u32
  | Attach_persona u32 "nat option" | Detach_persona u32
  | Attach_audit u32 "nat option" | Detach_audit u32
  | Attach_page_root u32 u64 u32 u32 u32 | Clear_page_root u32 u32
  | Spawn_clone u32 | Spawn_fork u32 | Mark_child_exited u32 u32 | Release_clone u32

fun process_step :: "process_op \<Rightarrow> process_state \<Rightarrow> process_state" where
  "process_step (Attach_vma pid c) ps = snd (process64_attach_vma pid c ps)"
| "process_step (Detach_vma pid) ps = snd (process64_detach_vma pid ps)"
| "process_step (Attach_fd pid c) ps = snd (process64_attach_fd pid c ps)"
| "process_step (Detach_fd pid) ps = snd (process64_detach_fd pid ps)"
| "process_step (Attach_persona pid c) ps = snd (process64_attach_persona pid c ps)"
| "process_step (Detach_persona pid) ps = snd (process64_detach_persona pid ps)"
| "process_step (Attach_audit pid c) ps = snd (process64_attach_audit pid c ps)"
| "process_step (Detach_audit pid) ps = snd (process64_detach_audit pid ps)"
| "process_step (Attach_page_root pid r i t a) ps = snd (process64_attach_page_root pid r i t a ps)"
| "process_step (Clear_page_root pid t) ps = snd (process64_clear_page_root pid t ps)"
| "process_step (Spawn_clone pid) ps = snd (process64_spawn_clone pid ps)"
| "process_step (Spawn_fork pid) ps = snd (process64_spawn_fork pid ps)"
| "process_step (Mark_child_exited pid code) ps = snd (process64_mark_child_exited pid code ps)"
| "process_step (Release_clone pid) ps = snd (process64_release_clone pid ps)"

text \<open>
  The one side condition: a spawn is issued before the 32-bit pid counter wraps back to its base.
\<close>

fun process_ok :: "process_op \<Rightarrow> process_state \<Rightarrow> bool" where
  "process_ok (Spawn_clone pid) ps = pid_room ps"
| "process_ok (Spawn_fork pid) ps = pid_room ps"
| "process_ok _ ps = True"

lemma process_inv_counters [simp]:
  "process_inv (ps\<lparr>g_process64_page_root_attach_count := n\<rparr>) = process_inv ps"
  "process_inv (ps\<lparr>g_process64_page_root_clear_count := n\<rparr>) = process_inv ps"
  "process_inv (ps\<lparr>g_process64_page_root_denial_count := n\<rparr>) = process_inv ps"
proof -
  have at: "proc_at (ps\<lparr>g_process64_page_root_attach_count := n\<rparr>) = proc_at ps"
    "proc_at (ps\<lparr>g_process64_page_root_clear_count := n\<rparr>) = proc_at ps"
    "proc_at (ps\<lparr>g_process64_page_root_denial_count := n\<rparr>) = proc_at ps"
    by (rule ext, case_tac x, simp_all)+
  show "process_inv (ps\<lparr>g_process64_page_root_attach_count := n\<rparr>) = process_inv ps"
    "process_inv (ps\<lparr>g_process64_page_root_clear_count := n\<rparr>) = process_inv ps"
    "process_inv (ps\<lparr>g_process64_page_root_denial_count := n\<rparr>) = process_inv ps"
    by (simp_all add: process_inv_def seeds_ok_def live_refs_def children_of_def at)
qed

lemma process_inv_page_root:
  assumes "process_inv ps"
  shows "process_inv (snd (process64_attach_page_root pid r i t a ps))"
    and "process_inv (snd (process64_clear_page_root pid t ps))"
    and "process_inv (snd (process64_mark_child_exited pid code ps))"
  using assms process_inv_upd [OF assms process64_find_live(1)]
  by (auto simp: process64_attach_page_root_def process64_clear_page_root_def
    process64_mark_child_exited_def Let_def keeps_identity_def split: option.splits)

lemma process_inv_step: "process_inv ps \<Longrightarrow> process_ok x ps \<Longrightarrow> process_inv (process_step x ps)"
  by (cases x) (simp_all add: slot_ops vma_slot.attach_inv vma_slot.detach_inv fd_slot.attach_inv
    fd_slot.detach_inv persona_slot.attach_inv persona_slot.detach_inv audit_slot.attach_inv
    audit_slot.detach_inv process_inv_page_root process_inv_spawn process_inv_release
    process64_spawn_clone_def process64_spawn_fork_def)

interpretation process_machine: op_machine process_step process_ok process_inv
  by unfold_locales (rule process_inv_step)


section \<open>Properties\<close>

lemma spawn_room_count:
  assumes "process_inv ps"
  shows "spawn_room ps \<longleftrightarrow> g_process64_clone_count ps < 16"
proof -
  let ?xs = "g_process64_clone_records ps"
  let ?k = "count_if process64_clone_record_active ?xs"
  have len: "length ?xs = 16"
    using process_invD(2) [OF assms] by (simp add: PROCESS64_CLONE_RECORD_LIMIT_def)
  have k: "?k \<le> 16" using count_if_le [of process64_clone_record_active ?xs] len by metis
  have cnt: "g_process64_clone_count ps = of_nat ?k" using assms by (simp add: process_inv_iff)
  have "unat (g_process64_clone_count ps) = ?k"
    using k by (simp add: cnt unat_of_nat)
  then have "g_process64_clone_count ps < 16 \<longleftrightarrow> ?k < 16" by (simp add: word_less_nat_alt)
  moreover have "spawn_room ps \<longleftrightarrow> ?k \<noteq> length ?xs"
    by (simp add: spawn_room_def count_if_full)
  ultimately show ?thesis using k len by auto
qed

text \<open>The table after a successful spawn, record by record.\<close>

lemma spawn_records:
  assumes inv: "process_inv ps" and room: "pid_room ps" "g_process64_clone_count ps < 16"
    and kind: "kind \<noteq> PROCESS64_CHILD_KIND_NONE"
    and parent: "process_record ps parent_pid = Some r"
  defines "pid \<equiv> g_process64_next_clone_pid ps"
  shows "fst (process64_spawn_child parent_pid kind name ps) = pid"
    and "process_record ps pid = None"
    and "process_record (snd (process64_spawn_child parent_pid kind name ps)) q =
      (if q = pid then Some (spawned_record r parent_pid pid kind name)
       else if q = parent_pid then Some (bump_child_count r) else process_record ps q)"
proof -
  let ?ps' = "snd (process64_spawn_child parent_pid kind name ps)"
  let ?child = "spawned_record r parent_pid pid kind name"
  obtain ref where find: "process64_find ps parent_pid = Some ref" and r: "proc_at ps ref = r"
    using parent by (auto simp: process_record_def)
  have frame: "process_frame ps" and base: "PROCESS64_CLONE_PID_BASE \<le> g_process64_next_clone_pid ps"
    using inv by (simp_all add: process_inv_iff process_frame_def)
  note n = next_clone_pid_after_room [OF room(1)]
  obtain c where c: "c < length (g_process64_clone_records ps)"
      "\<not> process64_clone_record_active (g_process64_clone_records ps ! c)"
    and eq: "process64_spawn_child parent_pid kind name ps =
      (pid, proc_upd ref bump_child_count (put_clone c ?child
           (ps\<lparr>g_process64_next_clone_pid := next_clone_pid_after pid,
               g_process64_clone_count := g_process64_clone_count ps + 1\<rparr>)))"
    using process64_spawn_child_ok [OF inv find kind] room(2) spawn_room_count [OF inv] r
    unfolding pid_def by metis
  show "fst (process64_spawn_child parent_pid kind name ps) = pid" by (simp add: eq)
  have fresh: "p_pid (proc_at ps x) \<noteq> pid" if "x \<in> set (live_refs ps)" for x
    using live_pid_less [OF frame that] by (auto simp: pid_def)
  then show none: "process_record ps pid = None" by (simp add: process_record_None_iff [OF inv])
  have live: "ref \<in> set (live_refs ps)" and pp: "p_pid (proc_at ps ref) = parent_pid"
    using process64_find_live [OF find] by simp_all
  have active: "process64_clone_record_active ?child"
    using n base by (auto simp: pid_def process64_clone_record_active_def PROCESS64_CLONE_PID_BASE_def)
  let ?ps0 = "ps\<lparr>g_process64_next_clone_pid := next_clone_pid_after pid,
               g_process64_clone_count := g_process64_clone_count ps + 1\<rparr>"
  have c0: "c < length (g_process64_clone_records ?ps0)" using c by simp
  have live': "set (live_refs ?ps') = insert (Child c) (set (live_refs ps))"
    using live active by (simp add: eq live_refs_upd live_refs_put_clone [OF c0] keeps_identityD)
  have at: "proc_at ?ps' x = (if x = Child c then ?child else if x = ref then bump_child_count r else proc_at ps x)" for x
    using live active c(2) r
    by (auto simp: eq proc_at_upd live_refs_put_clone [OF c0] proc_at_put_clone [OF c0]
      simp del: proc_at.simps)
  have inv': "process_inv ?ps'" by (rule process_inv_spawn [OF inv room(1)])
  have notc: "x \<noteq> Child c" if "x \<in> set (live_refs ps)" for x using that c(2) by auto
  have pidne: "parent_pid \<noteq> pid" using fresh [OF live] pp by simp
  show "process_record ?ps' q =
      (if q = pid then Some ?child else if q = parent_pid then Some (bump_child_count r)
       else process_record ps q)"
  proof -
    consider "q = pid" | "q = parent_pid" | "q \<noteq> pid" "q \<noteq> parent_pid" by blast
    then show ?thesis
    proof cases
      case 1
      have "process_record ?ps' q = Some (proc_at ?ps' (Child c))"
        by (rule process_record_eq [OF inv']) (use 1 live' at [of "Child c"] in \<open>simp_all del: proc_at.simps\<close>)
      with 1 at [of "Child c"] show ?thesis by (simp del: proc_at.simps)
    next
      case 2
      have "process_record ?ps' q = Some (proc_at ?ps' ref)"
        by (rule process_record_eq [OF inv'])
          (use 2 live live' at [of ref] notc [OF live] pp r in \<open>simp_all add: keeps_identityD del: proc_at.simps\<close>)
      with 2 at [of ref] notc [OF live] pidne show ?thesis by (simp del: proc_at.simps)
    next
      case 3
      have "process_record ?ps' q = map_option id (process_record ps q)"
        by (rule process_record_agree [OF inv inv'])
          (use 3 live' at notc pp r in \<open>auto split: if_splits simp: keeps_identityD simp del: proc_at.simps\<close>)
      with 3 show ?thesis by (simp add: option.map_id)
    qed
  qed
qed

text \<open>The table after a successful release, record by record.\<close>

lemma release_found:
  assumes inv: "process_inv ps" and r: "process_record ps pid = Some r"
    and base: "PROCESS64_CLONE_PID_BASE \<le> pid"
  obtains c where "first_index (clone_has_pid pid) (g_process64_clone_records ps) = Some c"
    "g_process64_clone_records ps ! c = r"
proof -
  obtain ref where ref: "process64_find ps pid = Some ref" "proc_at ps ref = r"
    using r by (auto simp: process_record_def)
  note live = process64_find_live [OF ref(1)]
  show thesis
  proof (cases ref)
    case (Seeded i)
    then have "i < 7" "seeds_ok ps"
      using live(1) process_invD(1) [OF inv] seeds_okD(1) by simp_all
    then have "unat pid \<le> 7" using seeded_pid [of ps i] live(2) Seeded by simp
    then show thesis
      using base by (simp add: word_le_nat_alt PROCESS64_CLONE_PID_BASE_def)
  next
    case (Child i)
    then have "first_index (clone_has_pid pid) (g_process64_clone_records ps) = Some i"
      using ref(1) by (auto simp: process64_find_def split: option.splits)
    with Child ref(2) that show thesis by simp
  qed
qed

lemma release_records:
  assumes inv: "process_inv ps" and r: "process_record ps pid = Some r"
    and base: "PROCESS64_CLONE_PID_BASE \<le> pid"
  shows "fst (process64_release_clone pid ps)"
    and "g_process64_clone_count (snd (process64_release_clone pid ps)) = g_process64_clone_count ps - 1"
    and "process_record (snd (process64_release_clone pid ps)) q =
      (if q = pid then None
       else if q = p_parent_pid r then map_option drop_child_count (process_record ps q)
       else process_record ps q)"
proof -
  let ?ps' = "snd (process64_release_clone pid ps)"
  let ?ps1 = "\<lambda>c. put_clone c process64_clear_record
      (ps\<lparr>g_process64_clone_count := g_process64_clone_count ps - 1\<rparr>)"
  obtain c where c: "first_index (clone_has_pid pid) (g_process64_clone_records ps) = Some c"
    and rc: "g_process64_clone_records ps ! c = r"
    using release_found [OF assms] by blast
  have inv': "process_inv ?ps'" by (rule process_inv_release [OF inv])
  have live: "Child c \<in> set (live_refs ps)" "p_pid (proc_at ps (Child c)) = pid"
    using first_index_SomeD(1,2) [OF c] by (simp_all add: clone_has_pid_def)
  note f = clear_clone_facts [OF inv live(1)]
  have state: "process64_release_clone pid ps = (True,
      case process64_find ps (p_parent_pid r) of
        None \<Rightarrow> ?ps1 c | Some parent \<Rightarrow> proc_upd parent drop_child_count (?ps1 c))"
    using process64_release_clone_parent(4) [OF inv c] process64_release_clone_orphan(3) [OF inv c] rc
    by (simp split: option.splits)
  then show "fst (process64_release_clone pid ps)" by simp
  show "g_process64_clone_count ?ps' = g_process64_clone_count ps - 1"
    by (simp add: state split: option.splits)
  have pne: "parent \<noteq> Child c" "parent \<in> set (live_refs (?ps1 c))"
    if "process64_find ps (p_parent_pid r) = Some parent" for parent
    using process64_release_clone_parent(3) [OF inv c] process64_find_live(1) [OF that] that rc f(2)
    by simp_all
  have live': "set (live_refs ?ps') = set (live_refs ps) - {Child c}"
    using pne(2) by (simp add: state f(2) live_refs_upd keeps_identityD split: option.splits)
  have other: "proc_at ?ps' x = (if process64_find ps (p_parent_pid r) = Some x
      then drop_child_count (proc_at ps x) else proc_at ps x)" if "x \<noteq> Child c" for x
    using pne(2) f(3) [OF that]
    by (auto simp: state proc_at_upd split: option.splits)
  have uniq: "x = Child c" if "x \<in> set (live_refs ps)" "p_pid (proc_at ps x) = pid" for x
    using process_invD(6) [OF inv that(1) live(1)] that(2) live(2) by simp
  show "process_record ?ps' q =
      (if q = pid then None
       else if q = p_parent_pid r then map_option drop_child_count (process_record ps q)
       else process_record ps q)"
  proof (cases "q = pid")
    case True
    have "process_record ?ps' pid = None"
      unfolding process_record_None_iff [OF inv']
      using live' other uniq by (auto simp: keeps_identityD)
    with True show ?thesis by simp
  next
    case False
    have "process_record ?ps' q
        = map_option (if q = p_parent_pid r then drop_child_count else id) (process_record ps q)"
    proof (rule process_record_agree [OF inv inv'])
      fix x
      assume x: "p_pid (proc_at ps x) = q" "x \<in> set (live_refs ps)"
      then have "x \<noteq> Child c" using False live(2) by auto
      then show "x \<in> set (live_refs ?ps') \<and>
          proc_at ?ps' x = (if q = p_parent_pid r then drop_child_count else id) (proc_at ps x) \<and>
          p_pid ((if q = p_parent_pid r then drop_child_count else id) (proc_at ps x)) = q"
        using x live' other process64_find_eq [OF inv x(2,1)] process64_find_live(2) [of ps "p_parent_pid r" x]
        by (auto simp: keeps_identityD)
    next
      fix x
      assume "p_pid (proc_at ?ps' x) = q" "x \<in> set (live_refs ?ps')"
      then show "x \<in> set (live_refs ps) \<and> p_pid (proc_at ps x) = q"
        using live' other [of x] by (auto simp: keeps_identityD split: if_splits)
    qed
    with False show ?thesis by (simp add: option.map_id)
  qed
qed

lemma spawn_clone_count:
  assumes "process_inv ps" and "g_process64_clone_count ps < 16"
    and "kind \<noteq> PROCESS64_CHILD_KIND_NONE" and "process_record ps parent_pid = Some r"
  shows "g_process64_clone_count (snd (process64_spawn_child parent_pid kind name ps))
    = g_process64_clone_count ps + 1"
proof -
  obtain ref where "process64_find ps parent_pid = Some ref"
    using assms(4) by (auto simp: process_record_def)
  from process64_spawn_child_ok [OF assms(1) this assms(3)] assms(1,2) spawn_room_count
  show ?thesis by (metis (no_types, lifting) proc_upd_rest(1) put_clone_simps(3) process_state.select_convs(3)
    process_state.surjective process_state.update_convs(3) snd_conv)
qed

text \<open>
  C12: From the seeded table, any sequence of slot, page-root, spawn, exit and release operations
  (spawns issued before the pid counter wraps) keeps the table invariant: the seven service
  records keep their pids and principals, live pids are pairwise distinct, every clone slot is
  either exactly cleared or a well-formed child, and the clone count and all child counts are exact.
\<close>

theorem process_run_invariant:
  assumes "all_ok process_ok process_step ops process64_seed_records"
  shows "process_inv (run_ops process_step ops process64_seed_records)"
  by (rule process_machine.inv_run [OF process_inv_seed assms])

theorem process_run_invariant_witness:
  "process_inv (run_ops process_step
     [Spawn_fork 1, Attach_fd 0x2000 (Some 3), Spawn_clone 0x2000, Mark_child_exited 0x2001 9,
      Release_clone 0x2001, Detach_fd 0x2000, Release_clone 0x2000] process64_seed_records)"
  by (rule process_run_invariant) code_simp

text \<open>
  C18: As long as the counter of clone pids has not come to its end (\<open>pid_room\<close>: the next pid is not the
  last one before the invalid pid, at which the counter starts over), a fork on a live process with a
  free clone slot returns a pid that was not in use. The child record inherits principal, scheduler class, capability limit and manifest from its parent, but no
  endpoint, descriptor table, address space, persona, audit context or page root. The parent's
  child count grows by one and every other record is unchanged.
\<close>

theorem process64_spawn_fork_inherits:
  assumes "process_inv ps" and "pid_room ps" and "g_process64_clone_count ps < 16"
    and "process_record ps parent_pid \<noteq> None"
    and "process64_spawn_fork parent_pid ps = (pid, ps')"
  shows "process_record ps pid = None \<and> pid \<noteq> PROCESS64_INVALID_PID
    \<and> process64_principal ps' pid = process64_principal ps parent_pid
    \<and> process64_scheduler_class ps' pid = process64_scheduler_class ps parent_pid
    \<and> process64_capability_limit ps' pid = process64_capability_limit ps parent_pid
    \<and> process64_manifest_index ps' pid = process64_manifest_index ps parent_pid
    \<and> process64_parent_pid ps' pid = parent_pid
    \<and> process64_is_fork_child ps' pid \<and> \<not> process64_child_exited ps' pid
    \<and> process64_endpoint ps' pid = u32_max
    \<and> process64_vma_root ps' pid = None \<and> process64_fd_table ps' pid = None
    \<and> process64_persona_ctx ps' pid = None \<and> process64_audit_ctx ps' pid = None
    \<and> process64_page_root_token ps' pid = 0
    \<and> process64_child_count ps' parent_pid = process64_child_count ps parent_pid + 1
    \<and> (\<forall>q. q \<noteq> pid \<longrightarrow> q \<noteq> parent_pid \<longrightarrow> process_record ps' q = process_record ps q)"
proof -
  obtain r where r: "process_record ps parent_pid = Some r" using assms(4) by blast
  have spawn: "process64_spawn_child parent_pid PROCESS64_CHILD_KIND_FORK ''linux-fork'' ps = (pid, ps')"
    using assms(5) by (simp add: process64_spawn_fork_def)
  have fork: "PROCESS64_CHILD_KIND_FORK \<noteq> PROCESS64_CHILD_KIND_NONE" by simp
  note sp1 = spawn_records(1) [OF assms(1-3) fork r, of "''linux-fork''", unfolded spawn fst_conv]
    and sp2 = spawn_records(2) [OF assms(1-3) fork r]
    and sp3 = spawn_records(3) [OF assms(1-3) fork r, of "''linux-fork''", unfolded spawn snd_conv]
  have pid: "pid = g_process64_next_clone_pid ps" by (rule sp1)
  have "parent_pid \<noteq> pid" using sp2 r pid by auto
  moreover have "pid \<noteq> PROCESS64_INVALID_PID"
    using process_invD(5) [OF assms(1)] pid by auto
  ultimately show ?thesis
    using sp2 sp3 r pid
    by (simp add: kernel_defs record_field_def process64_endpoint_def process64_is_fork_child_def
      spawned_record_def process64_clear_record_def bump_child_count_def)
qed

theorem process64_spawn_fork_inherits_witness:
  "process64_principal (snd (process64_spawn_fork 4 process64_seed_records)) 0x2000
     = PRINCIPAL64_ID_CONSOLE_WORKER"
proof -
  have "process64_spawn_fork 4 process64_seed_records
      = (0x2000, snd (process64_spawn_fork 4 process64_seed_records))"
    "pid_room process64_seed_records" "g_process64_clone_count process64_seed_records < 16"
    "process_record process64_seed_records 4 \<noteq> None"
    "process64_principal process64_seed_records 4 = PRINCIPAL64_ID_CONSOLE_WORKER"
    by code_simp+
  then show ?thesis
    using process64_spawn_fork_inherits [OF process_inv_seed] by metis
qed

text \<open>
  C19: As long as the counter of clone pids has not come to its end (\<open>pid_room\<close>), releasing a child
  created by a fork on a live process with a free clone slot undoes the fork: after spawn and release
  every pid, the child's own included, looks up the same record as before the fork, and the clone count
  is back.
\<close>

theorem process64_spawn_release_roundtrip:
  assumes "process_inv ps" and "pid_room ps" and "g_process64_clone_count ps < 16"
    and "process_record ps parent_pid \<noteq> None"
    and "process64_spawn_fork parent_pid ps = (pid, ps1)"
  shows "fst (process64_release_clone pid ps1)
    \<and> process_record (snd (process64_release_clone pid ps1)) = process_record ps
    \<and> g_process64_clone_count (snd (process64_release_clone pid ps1)) = g_process64_clone_count ps"
proof -
  obtain r where r: "process_record ps parent_pid = Some r" using assms(4) by blast
  have spawn: "process64_spawn_child parent_pid PROCESS64_CHILD_KIND_FORK ''linux-fork'' ps = (pid, ps1)"
    using assms(5) by (simp add: process64_spawn_fork_def)
  have fork: "PROCESS64_CHILD_KIND_FORK \<noteq> PROCESS64_CHILD_KIND_NONE" by simp
  note sp1 = spawn_records(1) [OF assms(1-3) fork r, of "''linux-fork''", unfolded spawn fst_conv]
    and sp2 = spawn_records(2) [OF assms(1-3) fork r]
    and sp3 = spawn_records(3) [OF assms(1-3) fork r, of "''linux-fork''", unfolded spawn snd_conv]
  have inv1: "process_inv ps1"
    using process_inv_spawn [OF assms(1,2), of parent_pid PROCESS64_CHILD_KIND_FORK "''linux-fork''"]
    by (simp add: spawn)
  have base: "PROCESS64_CLONE_PID_BASE \<le> pid" using process_invD(4) [OF assms(1)] sp1 by simp
  have ne: "parent_pid \<noteq> pid" using sp1 sp2 r by auto
  have r1: "process_record ps1 pid
      = Some (spawned_record r parent_pid pid PROCESS64_CHILD_KIND_FORK ''linux-fork'')"
    using sp3 sp1 by simp
  note rel = release_records [OF inv1 r1 base]
  have "p_child_count r + 1 \<noteq> 0"
  proof -
    obtain ref where ref: "ref \<in> set (live_refs ps)" "proc_at ps ref = r"
      using r by (rule process_record_SomeD)
    have "children_of (p_pid r) ps \<le> 16"
      using children_of_le assms(1) by (simp add: process_inv_iff)
    moreover have "p_child_count r + 1 = of_nat (Suc (children_of (p_pid r) ps))"
      using process_invD(7) [OF assms(1) ref(1)] ref(2) by simp
    ultimately show ?thesis by (simp only:) (subst small_of_nat_eq_0; simp)
  qed
  then have undo: "drop_child_count (bump_child_count r) = r"
    by (simp add: drop_child_count_def bump_child_count_def)
  have "process_record (snd (process64_release_clone pid ps1)) q = process_record ps q" for q
    using rel(3) [of q] sp1 sp2 sp3 [of q] ne r undo by auto
  moreover have "g_process64_clone_count ps1 = g_process64_clone_count ps + 1"
    using spawn_clone_count [OF assms(1,3) fork r, of "''linux-fork''"] spawn by simp
  ultimately show ?thesis using rel(1,2) by (simp add: fun_eq_iff)
qed

theorem process64_spawn_release_roundtrip_witness:
  "process_record (snd (process64_release_clone 0x2000 (snd (process64_spawn_fork 4 process64_seed_records))))
     = process_record process64_seed_records"
proof -
  have "process64_spawn_fork 4 process64_seed_records
      = (0x2000, snd (process64_spawn_fork 4 process64_seed_records))"
    "pid_room process64_seed_records" "g_process64_clone_count process64_seed_records < 16"
    "process_record process64_seed_records 4 \<noteq> None"
    by code_simp+
  then show ?thesis
    using process64_spawn_release_roundtrip [OF process_inv_seed] by metis
qed

text \<open>
  C20: The descriptor-table slot of a live process: a non-null context can be attached exactly
  when the slot is empty; it is then what the slot reads, a second attach is refused, detaching
  returns it and empties the slot, and no other process's record changes.
\<close>

theorem process64_fd_slot_protocol:
  assumes "process_record ps pid \<noteq> None" and "process64_fd_table ps pid = None"
    and "process64_attach_fd pid (Some table) ps = (ok, ps1)"
    and "process64_detach_fd pid ps1 = (got, ps2)"
  shows "ok \<and> process64_fd_table ps1 pid = Some table
    \<and> process64_attach_fd pid (Some other) ps1 = (False, ps1)
    \<and> got = Some table \<and> process64_fd_table ps2 pid = None
    \<and> (\<forall>q. q \<noteq> pid \<longrightarrow> process_record ps1 q = process_record ps q
                    \<and> process_record ps2 q = process_record ps q)"
proof -
  have ok: "fst (process64_attach_slot p_fd_table put_fd pid (Some table) ps)"
    using assms(1,2) by (auto simp: fd_slot.attach_iff process64_fd_table_def record_field_def)
  have ps1: "ps1 = snd (process64_attach_slot p_fd_table put_fd pid (Some table) ps)"
    and fst: "ok = fst (process64_attach_slot p_fd_table put_fd pid (Some table) ps)"
    and ps2: "ps2 = snd (process64_detach_slot p_fd_table put_fd pid ps1)"
    and got: "got = fst (process64_detach_slot p_fd_table put_fd pid ps1)"
    using assms(3,4) by (simp_all add: slot_ops)
  note ad = fd_slot.attach_detach [OF ok, folded ps1]
  show ?thesis
    using ad(1-3) ad(4) [of "Some other"] ok fst ps2 got
      fd_slot.attach_refused [of pid "Some other" ps1]
      fd_slot.attach_record [OF ok, folded ps1] fd_slot.detach_record [of pid ps1, folded ps2]
    by (auto simp: process64_fd_table_def slot_ops prod_eq_iff)
qed

theorem process64_fd_slot_protocol_witness:
  "process64_fd_table (snd (process64_attach_fd 5 (Some 2) process64_seed_records)) 5 = Some 2"
proof -
  have "process_record process64_seed_records 5 \<noteq> None" "process64_fd_table process64_seed_records 5 = None"
    by code_simp+
  then show ?thesis
    using process64_fd_slot_protocol [of process64_seed_records 5 2] by (metis prod.collapse)
qed

text \<open>
  C21: The pid counter restarts at its base without looking at the table: there is a table with
  the invariant in which, two forks later, a fork hands out the pid of a child that is still live,
  so that two rows of the process listing carry the same pid.
\<close>

theorem process64_spawn_pid_reuse_after_wrap:
  "\<exists>ps. process_inv ps \<and> process_record ps 0x2000 \<noteq> None \<and>
     (let ps1 = snd (process64_spawn_fork 1 ps); ps2 = snd (process64_spawn_fork 1 ps1)
      in fst (process64_spawn_fork 1 ps1) = 0x2000
       \<and> process64_pid_by_index ps2 7 = 0x2000 \<and> process64_pid_by_index ps2 9 = 0x2000)"
proof -
  define ps0 where "ps0 = snd (process64_spawn_fork 1 process64_seed_records)"
  define ps where "ps = ps0\<lparr>g_process64_next_clone_pid := 0xFFFFFFFE, g_process64_clone_count := 1\<rparr>"
  have room: "pid_room process64_seed_records" by code_simp
  have inv0: "process_inv ps0"
    unfolding ps0_def process64_spawn_fork_def by (rule process_inv_spawn [OF process_inv_seed room])
  have "g_process64_next_clone_pid ps0 \<le> 0xFFFFFFFE" "g_process64_clone_count ps0 = 1"
    unfolding ps0_def by code_simp+
  then have "process_inv ps"
    using inv0 process_frame_next [of ps0 "0xFFFFFFFE" 1] by (simp add: process_inv_iff ps_def)
  moreover have "process_record ps 0x2000 \<noteq> None"
    unfolding ps_def ps0_def by code_simp
  moreover have "let ps1 = snd (process64_spawn_fork 1 ps); ps2 = snd (process64_spawn_fork 1 ps1)
      in fst (process64_spawn_fork 1 ps1) = 0x2000
       \<and> process64_pid_by_index ps2 7 = 0x2000 \<and> process64_pid_by_index ps2 9 = 0x2000"
    unfolding ps_def ps0_def by code_simp
  ultimately show ?thesis by blast
qed

end
