(* ===== verification/Persona.thy ===== *)
theory Persona
  imports Process_Inv "HOL-Library.Monad_Syntax" "HOL-Library.Sublist"
begin

text \<open>
  Persona contexts of \<^verbatim>\<open>kernel/arch/x86_64/persona.c\<close>: the 32-slot context table that binds a
  process to the native, Linux, Windows or macOS personality, its resource budgets, process groups
  and direct-signal isolation, and the executable format sniffer.

  The fields of \<^verbatim>\<open>persona_context_t\<close> are grouped: \<open>persona_windows\<close> holds the
  \<^verbatim>\<open>windows_*\<close> fields that every attach routine resets, \<open>persona_dynamic\<close> and
  \<open>persona_libc\<close> the loader fields, \<open>persona_budget\<close> and \<open>persona_isolation\<close> the O.3 and O.4
  accounting, \<open>persona_linux\<close> the working directory, command name and signal state.
  The table starts initialised: \<^verbatim>\<open>persona64_init\<close>, which each entry point calls first, is the
  identity once its flag is set (\<open>persona64_init_idem\<close>).
\<close>

definition PERSONA64_TYPE_LIMITLESS_NATIVE :: u32 where "PERSONA64_TYPE_LIMITLESS_NATIVE = 0"
definition PERSONA64_TYPE_LINUX_ELF :: u32 where "PERSONA64_TYPE_LINUX_ELF = 1"
definition PERSONA64_TYPE_WINDOWS_PE :: u32 where "PERSONA64_TYPE_WINDOWS_PE = 2"
definition PERSONA64_TYPE_MACOS_MACHO :: u32 where "PERSONA64_TYPE_MACOS_MACHO = 3"
definition PERSONA64_TYPE_COUNT :: u32 where "PERSONA64_TYPE_COUNT = 4"

lemmas persona_types = PERSONA64_TYPE_LIMITLESS_NATIVE_def PERSONA64_TYPE_LINUX_ELF_def
  PERSONA64_TYPE_WINDOWS_PE_def PERSONA64_TYPE_MACOS_MACHO_def PERSONA64_TYPE_COUNT_def

definition PERSONA64_MAX_CONTEXTS :: nat where "PERSONA64_MAX_CONTEXTS = 32"
definition PERSONA64_LINUX_CWD_MAX_BYTES :: nat where "PERSONA64_LINUX_CWD_MAX_BYTES = 128"
definition PERSONA64_LINUX_COMM_BYTES :: nat where "PERSONA64_LINUX_COMM_BYTES = 16"
definition PERSONA64_WINDOWS_IMAGE_PATH_MAX_BYTES :: nat where
  "PERSONA64_WINDOWS_IMAGE_PATH_MAX_BYTES = 96"
definition LINUX_SIGNAL64_MAX_SIGNALS :: nat where "LINUX_SIGNAL64_MAX_SIGNALS = 64"
definition PERSONA64_DEFAULT_VMA_PAGE_BUDGET :: u32 where "PERSONA64_DEFAULT_VMA_PAGE_BUDGET = 16384"
definition PERSONA64_DEFAULT_FD_BUDGET :: u32 where "PERSONA64_DEFAULT_FD_BUDGET = 1024"
definition PERSONA64_DEFAULT_PIPE_BUDGET :: u32 where "PERSONA64_DEFAULT_PIPE_BUDGET = 64"

abbreviation (input) PERSONA64_PROCESS_GROUP_NONE :: u32 where "PERSONA64_PROCESS_GROUP_NONE \<equiv> 0"
abbreviation (input) PERSONA64_MODULE_NONE :: u32 where "PERSONA64_MODULE_NONE \<equiv> u32_max"
abbreviation (input) PERSONA64_HEAP_CAP_NONE :: u32 where "PERSONA64_HEAP_CAP_NONE \<equiv> u32_max"
abbreviation (input) PERSONA64_TLS_UNSET :: u64 where "PERSONA64_TLS_UNSET \<equiv> 0"
abbreviation (input) PERSONA64_BRK_UNSET :: u64 where "PERSONA64_BRK_UNSET \<equiv> 0"

datatype budget_kind =
  PERSONA64_BUDGET_KIND_NONE | PERSONA64_BUDGET_KIND_VMA_PAGE
  | PERSONA64_BUDGET_KIND_FD | PERSONA64_BUDGET_KIND_PIPE

datatype isolation_result =
  PERSONA64_ISOLATION_RESULT_OK | PERSONA64_ISOLATION_RESULT_DENIED
  | PERSONA64_ISOLATION_RESULT_NO_SOURCE | PERSONA64_ISOLATION_RESULT_NO_TARGET

datatype persona_format =
  PERSONA64_FORMAT_UNKNOWN | PERSONA64_FORMAT_NATIVE_APP | PERSONA64_FORMAT_ELF
  | PERSONA64_FORMAT_PE | PERSONA64_FORMAT_MACHO_LE64 | PERSONA64_FORMAT_MACHO_LE32
  | PERSONA64_FORMAT_MACHO_FAT | PERSONA64_FORMAT_MACHO_FAT64 | PERSONA64_FORMAT_SHEBANG

text \<open>
  A dispatch table pointer: null, one of the kernel's own switchboards, or a table the caller injects.
\<close>

datatype dispatch_table = No_table | Native_dispatch | Windows_abi | Macos_abi | Injected u64

record persona_windows =
  windows_exception_table_base :: u64
  windows_exception_table_bytes :: u64
  windows_exception_function_count :: u32
  windows_exception_table_checksum :: u32
  windows_teb_base :: u64
  windows_peb_base :: u64
  windows_stack_base :: u64
  windows_stack_limit :: u64
  windows_tls_pointer :: u64
  windows_image_base :: u64
  windows_process_parameters :: u64
  windows_os_major :: u32
  windows_os_minor :: u32
  windows_os_build :: u32
  windows_nt_global_flag :: u32
  windows_kuser_shared_data_base :: u64
  windows_kuser_shared_data_updates :: u32
  windows_kuser_shared_data_checksum :: u32
  windows_security_cookie_address :: u64
  windows_security_cookie_value :: u64
  windows_security_cookie_checksum :: u32
  windows_entry_rip :: u64
  windows_entry_rsp :: u64
  windows_entry_arg_rcx :: u64
  windows_entry_arg_rdx :: u64
  windows_entry_arg_r8 :: u64
  windows_entry_transfer_ready :: u32
  windows_ntdll_base :: u64
  windows_ntdll_ldr_initialize_thunk :: u64
  windows_ntdll_symbol_count :: u32
  windows_ntdll_checksum :: u32
  windows_kernel32_base :: u64
  windows_kernel32_write_console_a :: u64
  windows_kernel32_symbol_count :: u32
  windows_kernel32_checksum :: u32
  windows_crt_base :: u64
  windows_crt_printf :: u64
  windows_crt_symbol_count :: u32
  windows_crt_checksum :: u32

record persona_dynamic =
  linux_dynamic_base :: u64
  linux_dynamic_dl_start :: u64
  linux_dynamic_dlsym :: u64
  linux_dynamic_dlerror :: u64
  linux_dynamic_symbol_count :: u32
  linux_dynamic_checksum :: u32
  linux_dynamic_needed_count :: u32
  linux_dynamic_missing_count :: u32

record persona_libc =
  linux_libc_base :: u64
  linux_libc_write :: u64
  linux_libc_read :: u64
  linux_libc_exit :: u64
  linux_libc_strlen :: u64
  linux_libc_envp :: u64
  linux_libc_envc :: u32
  linux_libc_environment_bound :: u32
  linux_libc_symbol_count :: u32
  linux_libc_checksum :: u32
  linux_libc_unavailable_count :: u32

record persona_budget =
  vma_page_budget :: u32
  fd_budget :: u32
  pipe_budget :: u32
  pipe_count :: u32
  budget_denial_count :: u32
  budget_last_kind :: budget_kind
  budget_last_requested :: u32
  budget_last_limit :: u32

record persona_isolation =
  process_group_id :: u32
  isolation_denial_count :: u32
  isolation_last_source_pid :: u32
  isolation_last_target_pid :: u32
  isolation_last_source_group :: u32
  isolation_last_target_group :: u32
  isolation_last_result :: isolation_result

record linux_sigaction =
  sa_handler :: u64
  sa_mask :: u64
  sa_flags :: u64
  sa_restorer :: u64

record persona_linux =
  linux_cwd_length :: u32
  linux_cwd :: "u8 list"
  linux_comm :: "u8 list"
  linux_signal_pending :: u64
  linux_signal_mask :: u64
  linux_sigactions :: "linux_sigaction list"

record persona_context =
  pc_persona_type :: u32
  pc_pid :: u32
  pc_syscall_dispatch_table :: dispatch_table
  pc_vma_root :: "nat option"
  pc_fd_table :: "nat option"
  pc_tls_base :: u64
  pc_tls_size :: u64
  pc_clear_child_tid :: u64
  pc_brk_base :: u64
  pc_brk_current :: u64
  pc_heap_cap :: u32
  pc_persona_module_handle :: u32
  pc_audit_context :: "nat option"
  pc_capability_attenuation_mask :: u32
  pc_load_bias_low :: u32
  pc_windows :: persona_windows
  pc_windows_image_path_ascii_bytes :: u32
  pc_windows_image_path_ascii :: "u8 list"
  pc_windows_handle_table :: "nat option"
  pc_dynamic :: persona_dynamic
  pc_libc :: persona_libc
  pc_budget :: persona_budget
  pc_isolation :: persona_isolation
  pc_linux :: persona_linux

record persona_state =
  g_persona64_contexts :: "persona_context list"
  g_persona64_context_used :: "bool list"
  g_persona64_initialized :: bool
  g_persona64_native_count :: u32
  g_persona64_denial_count :: u32

text \<open>
  The kernel state as the components see it: each component extends the record of the components
  it calls, and its operations leave the extensions of its clients alone.
\<close>

record kernel_proc =
  k_launch :: launch_state
  k_proc :: process_state

record kernel_persona = kernel_proc +
  k_persona :: persona_state


section \<open>Contexts\<close>

definition windows_zero :: persona_windows where
  "windows_zero =
    \<lparr>windows_exception_table_base = 0, windows_exception_table_bytes = 0,
     windows_exception_function_count = 0, windows_exception_table_checksum = 0,
     windows_teb_base = 0, windows_peb_base = 0, windows_stack_base = 0, windows_stack_limit = 0,
     windows_tls_pointer = 0, windows_image_base = 0, windows_process_parameters = 0,
     windows_os_major = 0, windows_os_minor = 0, windows_os_build = 0, windows_nt_global_flag = 0,
     windows_kuser_shared_data_base = 0, windows_kuser_shared_data_updates = 0,
     windows_kuser_shared_data_checksum = 0, windows_security_cookie_address = 0,
     windows_security_cookie_value = 0, windows_security_cookie_checksum = 0,
     windows_entry_rip = 0, windows_entry_rsp = 0, windows_entry_arg_rcx = 0,
     windows_entry_arg_rdx = 0, windows_entry_arg_r8 = 0, windows_entry_transfer_ready = 0,
     windows_ntdll_base = 0, windows_ntdll_ldr_initialize_thunk = 0, windows_ntdll_symbol_count = 0,
     windows_ntdll_checksum = 0, windows_kernel32_base = 0, windows_kernel32_write_console_a = 0,
     windows_kernel32_symbol_count = 0, windows_kernel32_checksum = 0, windows_crt_base = 0,
     windows_crt_printf = 0, windows_crt_symbol_count = 0, windows_crt_checksum = 0\<rparr>"

definition persona64_apply_default_budgets :: "persona_context \<Rightarrow> persona_context" where
  "persona64_apply_default_budgets c = c\<lparr>pc_budget :=
    \<lparr>vma_page_budget = PERSONA64_DEFAULT_VMA_PAGE_BUDGET, fd_budget = PERSONA64_DEFAULT_FD_BUDGET,
     pipe_budget = PERSONA64_DEFAULT_PIPE_BUDGET, pipe_count = 0, budget_denial_count = 0,
     budget_last_kind = PERSONA64_BUDGET_KIND_NONE, budget_last_requested = 0, budget_last_limit = 0\<rparr>\<rparr>"

definition persona64_apply_default_process_group :: "persona_context \<Rightarrow> u32 \<Rightarrow> persona_context" where
  "persona64_apply_default_process_group c pid = c\<lparr>pc_isolation :=
    \<lparr>process_group_id = (if pid \<noteq> PROCESS64_INVALID_PID then pid else PERSONA64_PROCESS_GROUP_NONE),
     isolation_denial_count = 0, isolation_last_source_pid = PROCESS64_INVALID_PID,
     isolation_last_target_pid = PROCESS64_INVALID_PID,
     isolation_last_source_group = PERSONA64_PROCESS_GROUP_NONE,
     isolation_last_target_group = PERSONA64_PROCESS_GROUP_NONE,
     isolation_last_result = PERSONA64_ISOLATION_RESULT_OK\<rparr>\<rparr>"

text \<open>
  \<^verbatim>\<open>persona64_clear_context\<close> writes every field except \<^verbatim>\<open>linux_libc_envp\<close>,
  \<^verbatim>\<open>linux_libc_envc\<close> and \<^verbatim>\<open>linux_libc_environment_bound\<close>, which keep their old values.
\<close>

definition persona64_clear_context :: "persona_context \<Rightarrow> persona_context" where
  "persona64_clear_context c =
    \<lparr>pc_persona_type = PERSONA64_TYPE_COUNT, pc_pid = PROCESS64_INVALID_PID,
     pc_syscall_dispatch_table = No_table, pc_vma_root = None, pc_fd_table = None,
     pc_tls_base = PERSONA64_TLS_UNSET, pc_tls_size = 0, pc_clear_child_tid = 0,
     pc_brk_base = PERSONA64_BRK_UNSET, pc_brk_current = PERSONA64_BRK_UNSET,
     pc_heap_cap = PERSONA64_HEAP_CAP_NONE, pc_persona_module_handle = PERSONA64_MODULE_NONE,
     pc_audit_context = None, pc_capability_attenuation_mask = 0, pc_load_bias_low = 0,
     pc_windows = windows_zero, pc_windows_image_path_ascii_bytes = 0,
     pc_windows_image_path_ascii = replicate PERSONA64_WINDOWS_IMAGE_PATH_MAX_BYTES 0,
     pc_windows_handle_table = None,
     pc_dynamic =
       \<lparr>linux_dynamic_base = 0, linux_dynamic_dl_start = 0, linux_dynamic_dlsym = 0,
        linux_dynamic_dlerror = 0, linux_dynamic_symbol_count = 0, linux_dynamic_checksum = 0,
        linux_dynamic_needed_count = 0, linux_dynamic_missing_count = 0\<rparr>,
     pc_libc = (pc_libc c)
       \<lparr>linux_libc_base := 0, linux_libc_write := 0, linux_libc_read := 0, linux_libc_exit := 0,
        linux_libc_strlen := 0, linux_libc_symbol_count := 0, linux_libc_checksum := 0,
        linux_libc_unavailable_count := 0\<rparr>,
     pc_budget =
       \<lparr>vma_page_budget = 0, fd_budget = 0, pipe_budget = 0, pipe_count = 0, budget_denial_count = 0,
        budget_last_kind = PERSONA64_BUDGET_KIND_NONE, budget_last_requested = 0, budget_last_limit = 0\<rparr>,
     pc_isolation =
       \<lparr>process_group_id = PERSONA64_PROCESS_GROUP_NONE, isolation_denial_count = 0,
        isolation_last_source_pid = PROCESS64_INVALID_PID,
        isolation_last_target_pid = PROCESS64_INVALID_PID,
        isolation_last_source_group = PERSONA64_PROCESS_GROUP_NONE,
        isolation_last_target_group = PERSONA64_PROCESS_GROUP_NONE,
        isolation_last_result = PERSONA64_ISOLATION_RESULT_OK\<rparr>,
     pc_linux =
       \<lparr>linux_cwd_length = 0, linux_cwd = replicate PERSONA64_LINUX_CWD_MAX_BYTES 0,
        linux_comm = replicate PERSONA64_LINUX_COMM_BYTES 0,
        linux_signal_pending = 0, linux_signal_mask = 0,
        linux_sigactions = replicate LINUX_SIGNAL64_MAX_SIGNALS
          \<lparr>sa_handler = 0, sa_mask = 0, sa_flags = 0, sa_restorer = 0\<rparr>\<rparr>\<rparr>"

text \<open>
  \<^verbatim>\<open>persona64_acquire_context\<close>: the index of the acquired slot, and the table in which that slot
  is taken and holds a cleared context with default budgets and process group.
\<close>

definition persona64_acquire_context :: "u32 \<Rightarrow> persona_state \<Rightarrow> nat option \<times> persona_state" where
  "persona64_acquire_context pid s =
    (case first_index (\<lambda>used. \<not> used) (g_persona64_context_used s) of
       None \<Rightarrow> (None, s)
     | Some i \<Rightarrow>
         (Some i, s\<lparr>g_persona64_context_used := (g_persona64_context_used s)[i := True],
           g_persona64_contexts := (g_persona64_contexts s)[i :=
             persona64_apply_default_process_group
               (persona64_apply_default_budgets
                 ((persona64_clear_context (g_persona64_contexts s ! i))\<lparr>pc_pid := pid\<rparr>)) pid]\<rparr>))"

definition persona64_release_context :: "nat \<Rightarrow> persona_state \<Rightarrow> persona_state" where
  "persona64_release_context i s =
    (if i < PERSONA64_MAX_CONTEXTS
     then s\<lparr>g_persona64_contexts := (g_persona64_contexts s)[i := persona64_clear_context (g_persona64_contexts s ! i)],
            g_persona64_context_used := (g_persona64_context_used s)[i := False]\<rparr>
     else s)"

definition persona64_init :: "persona_state \<Rightarrow> persona_state" where
  "persona64_init s =
    (if g_persona64_initialized s then s
     else \<lparr>g_persona64_contexts = map persona64_clear_context (g_persona64_contexts s),
           g_persona64_context_used = replicate PERSONA64_MAX_CONTEXTS False,
           g_persona64_initialized = True,
           g_persona64_native_count = 0, g_persona64_denial_count = 0\<rparr>)"

lemma persona64_init_idem [simp]: "persona64_init (persona64_init s) = persona64_init s"
  by (simp add: persona64_init_def)

definition persona64_capability_mask_for_type :: "u32 \<Rightarrow> u32" where
  "persona64_capability_mask_for_type persona_type =
    (if persona_type < PERSONA64_TYPE_COUNT then push_bit (unat persona_type) 1 else 0)"


section \<open>Attaching and releasing personas\<close>

definition persona_deny :: "'a kernel_persona_scheme \<Rightarrow> 'a kernel_persona_scheme" where
  "persona_deny k = k\<lparr>k_persona := (k_persona k)
     \<lparr>g_persona64_denial_count := g_persona64_denial_count (k_persona k) + 1\<rparr>\<rparr>"

definition persona64_context_for_process :: "'a kernel_persona_scheme \<Rightarrow> u32 \<Rightarrow> nat option" where
  "persona64_context_for_process k pid = process64_persona_ctx (k_proc k) pid"

definition ctx :: "'a kernel_persona_scheme \<Rightarrow> nat \<Rightarrow> persona_context" where
  "ctx k i = g_persona64_contexts (k_persona k) ! i"

definition upd_ctx ::
    "nat \<Rightarrow> (persona_context \<Rightarrow> persona_context) \<Rightarrow> 'a kernel_persona_scheme \<Rightarrow> 'a kernel_persona_scheme" where
  "upd_ctx i f k = k\<lparr>k_persona := (k_persona k)
     \<lparr>g_persona64_contexts := (g_persona64_contexts (k_persona k))[i := f (ctx k i)]\<rparr>\<rparr>"

text \<open>
  The shared shape of the five attach routines: refuse, acquire a slot, fill it with \<open>prep\<close>,
  attach it to the process, and give the slot back when the process refuses it.
\<close>

definition persona64_attach_with ::
    "u32 \<Rightarrow> bool \<Rightarrow> (persona_context \<Rightarrow> persona_context) \<Rightarrow> 'a kernel_persona_scheme
      \<Rightarrow> bool \<times> 'a kernel_persona_scheme" where
  "persona64_attach_with pid refuse prep k =
    (if refuse then (False, persona_deny k)
     else case persona64_acquire_context pid (k_persona k) of
            (None, _) \<Rightarrow> (False, persona_deny k)
          | (Some i, s) \<Rightarrow>
              let k1 = upd_ctx i prep (k\<lparr>k_persona := s\<rparr>);
                  (ok, ps) = process64_attach_persona pid (Some i) (k_proc k1)
              in if \<not> ok then (False, persona_deny (k1\<lparr>k_persona := persona64_release_context i (k_persona k1)\<rparr>))
                 else (True, k1\<lparr>k_proc := ps\<rparr>))"

definition persona_common ::
    "process_state \<Rightarrow> u32 \<Rightarrow> u32 \<Rightarrow> dispatch_table \<Rightarrow> persona_context \<Rightarrow> persona_context" where
  "persona_common ps pid persona_type table c =
    c\<lparr>pc_persona_type := persona_type, pc_syscall_dispatch_table := table,
      pc_vma_root := process64_vma_root ps pid, pc_fd_table := process64_fd_table ps pid,
      pc_tls_base := PERSONA64_TLS_UNSET, pc_tls_size := 0, pc_clear_child_tid := 0,
      pc_brk_base := PERSONA64_BRK_UNSET, pc_brk_current := PERSONA64_BRK_UNSET,
      pc_heap_cap := PERSONA64_HEAP_CAP_NONE, pc_persona_module_handle := PERSONA64_MODULE_NONE,
      pc_audit_context := process64_audit_ctx ps pid,
      pc_capability_attenuation_mask := persona64_capability_mask_for_type persona_type,
      pc_load_bias_low := 0\<rparr>"

definition persona_refused :: "'a kernel_persona_scheme \<Rightarrow> u32 \<Rightarrow> bool" where
  "persona_refused k pid \<longleftrightarrow> pid = PROCESS64_INVALID_PID
     \<or> process64_principal (k_proc k) pid = 0
     \<or> process64_persona_ctx (k_proc k) pid \<noteq> None"

definition persona64_init_native :: "u32 \<Rightarrow> 'a kernel_persona_scheme \<Rightarrow> bool \<times> 'a kernel_persona_scheme" where
  "persona64_init_native pid k =
    (case persona64_attach_with pid (persona_refused k pid)
       (\<lambda>c. (persona_common (k_proc k) pid PERSONA64_TYPE_LIMITLESS_NATIVE Native_dispatch c)
              \<lparr>pc_windows := windows_zero\<rparr>) k of
       (True, k1) \<Rightarrow> (True, k1\<lparr>k_persona := (k_persona k1)
          \<lparr>g_persona64_native_count := g_persona64_native_count (k_persona k1) + 1\<rparr>\<rparr>)
     | (False, k1) \<Rightarrow> (False, k1))"

definition linux_task_root :: "persona_linux \<Rightarrow> persona_linux" where
  "linux_task_root l = l
    \<lparr>linux_cwd_length := 1, linux_cwd := (linux_cwd l)[0 := 0x2F, 1 := 0],
     linux_comm := (linux_comm l)[0 := 0x65, 1 := 0x78, 2 := 0x65, 3 := 0]\<rparr>"

definition persona64_init_linux_elf ::
    "u32 \<Rightarrow> dispatch_table \<Rightarrow> 'a kernel_persona_scheme \<Rightarrow> bool \<times> 'a kernel_persona_scheme" where
  "persona64_init_linux_elf pid table k =
    persona64_attach_with pid (persona_refused k pid \<or> table = No_table)
      (\<lambda>c. (persona_common (k_proc k) pid PERSONA64_TYPE_LINUX_ELF table c)
             \<lparr>pc_windows := windows_zero, pc_linux := linux_task_root (pc_linux c)\<rparr>) k"

definition persona64_init_windows_pe ::
    "u32 \<Rightarrow> dispatch_table \<Rightarrow> 'a kernel_persona_scheme \<Rightarrow> bool \<times> 'a kernel_persona_scheme" where
  "persona64_init_windows_pe pid table k =
    persona64_attach_with pid (persona_refused k pid)
      (\<lambda>c. (persona_common (k_proc k) pid PERSONA64_TYPE_WINDOWS_PE
              (if table \<noteq> No_table then table else Windows_abi) c)
             \<lparr>pc_windows := windows_zero\<rparr>) k"

definition persona64_init_macos_macho ::
    "u32 \<Rightarrow> dispatch_table \<Rightarrow> 'a kernel_persona_scheme \<Rightarrow> bool \<times> 'a kernel_persona_scheme" where
  "persona64_init_macos_macho pid table k =
    persona64_attach_with pid (persona_refused k pid)
      (persona_common (k_proc k) pid PERSONA64_TYPE_MACOS_MACHO
         (if table \<noteq> No_table then table else Macos_abi)) k"

definition persona_fork_prep ::
    "process_state \<Rightarrow> u32 \<Rightarrow> dispatch_table \<Rightarrow> persona_context \<Rightarrow> persona_context \<Rightarrow> persona_context" where
  "persona_fork_prep ps child_pid table parent c =
    c\<lparr>pc_persona_type := PERSONA64_TYPE_LINUX_ELF, pc_syscall_dispatch_table := table,
      pc_vma_root := process64_vma_root ps child_pid, pc_fd_table := process64_fd_table ps child_pid,
      pc_tls_base := pc_tls_base parent, pc_tls_size := pc_tls_size parent, pc_clear_child_tid := 0,
      pc_brk_base := pc_brk_base parent, pc_brk_current := pc_brk_current parent,
      pc_heap_cap := pc_heap_cap parent, pc_persona_module_handle := pc_persona_module_handle parent,
      pc_audit_context := process64_audit_ctx ps child_pid,
      pc_capability_attenuation_mask := pc_capability_attenuation_mask parent,
      pc_load_bias_low := pc_load_bias_low parent,
      pc_budget := (pc_budget c)
        \<lparr>vma_page_budget := vma_page_budget (pc_budget parent), fd_budget := fd_budget (pc_budget parent),
         pipe_budget := pipe_budget (pc_budget parent), pipe_count := 0\<rparr>,
      pc_isolation := (pc_isolation c)\<lparr>process_group_id := process_group_id (pc_isolation parent)\<rparr>,
      pc_linux := (pc_linux parent)\<lparr>linux_signal_pending := 0\<rparr>\<rparr>"

definition persona64_fork_linux_elf ::
    "u32 \<Rightarrow> u32 \<Rightarrow> dispatch_table \<Rightarrow> 'a kernel_persona_scheme \<Rightarrow> bool \<times> 'a kernel_persona_scheme" where
  "persona64_fork_linux_elf parent_pid child_pid table k =
    (case persona64_context_for_process k parent_pid of
       None \<Rightarrow> (False, persona_deny k)
     | Some parent \<Rightarrow>
         persona64_attach_with child_pid
           (parent_pid = PROCESS64_INVALID_PID \<or> child_pid = PROCESS64_INVALID_PID
             \<or> parent_pid = child_pid
             \<or> process64_principal (k_proc k) parent_pid = 0 \<or> process64_principal (k_proc k) child_pid = 0
             \<or> pc_persona_type (ctx k parent) \<noteq> PERSONA64_TYPE_LINUX_ELF
             \<or> table = No_table \<or> process64_persona_ctx (k_proc k) child_pid \<noteq> None)
           (persona_fork_prep (k_proc k) child_pid table (ctx k parent)) k)"

definition persona64_release :: "u32 \<Rightarrow> 'a kernel_persona_scheme \<Rightarrow> bool \<times> 'a kernel_persona_scheme" where
  "persona64_release pid k =
    (if pid = PROCESS64_INVALID_PID \<or> process64_principal (k_proc k) pid = 0 then (False, persona_deny k)
     else case persona64_context_for_process k pid of
       None \<Rightarrow> (False, persona_deny k)
     | Some i \<Rightarrow>
         let (detached, ps) = process64_detach_persona pid (k_proc k);
             k1 = k\<lparr>k_proc := ps\<rparr>
         in if detached \<noteq> Some i then (False, persona_deny k1)
            else let s = k_persona k1;
                     s1 = (if pc_persona_type (ctx k1 i) = PERSONA64_TYPE_LIMITLESS_NATIVE
                              \<and> g_persona64_native_count s > 0
                           then s\<lparr>g_persona64_native_count := g_persona64_native_count s - 1\<rparr> else s)
                 in (True, k1\<lparr>k_persona := persona64_release_context i s1\<rparr>))"

section \<open>Readers\<close>

definition ctx_field :: "(persona_context \<Rightarrow> 'b) \<Rightarrow> 'b \<Rightarrow> 'a kernel_persona_scheme \<Rightarrow> u32 \<Rightarrow> 'b" where
  "ctx_field f d k pid = (case persona64_context_for_process k pid of None \<Rightarrow> d | Some i \<Rightarrow> f (ctx k i))"

definition persona64_type :: "'a kernel_persona_scheme \<Rightarrow> u32 \<Rightarrow> u32" where
  "persona64_type = ctx_field pc_persona_type PERSONA64_TYPE_COUNT"
definition persona64_capability_mask :: "'a kernel_persona_scheme \<Rightarrow> u32 \<Rightarrow> u32" where
  "persona64_capability_mask = ctx_field pc_capability_attenuation_mask 0"
definition persona64_context_attached :: "'a kernel_persona_scheme \<Rightarrow> u32 \<Rightarrow> bool" where
  "persona64_context_attached k pid \<longleftrightarrow> persona64_context_for_process k pid \<noteq> None"
definition persona64_vma_page_budget :: "'a kernel_persona_scheme \<Rightarrow> u32 \<Rightarrow> u32" where
  "persona64_vma_page_budget = ctx_field (\<lambda>c. vma_page_budget (pc_budget c)) 0"
definition persona64_fd_budget :: "'a kernel_persona_scheme \<Rightarrow> u32 \<Rightarrow> u32" where
  "persona64_fd_budget = ctx_field (\<lambda>c. fd_budget (pc_budget c)) 0"
definition persona64_pipe_budget :: "'a kernel_persona_scheme \<Rightarrow> u32 \<Rightarrow> u32" where
  "persona64_pipe_budget = ctx_field (\<lambda>c. pipe_budget (pc_budget c)) 0"
definition persona64_pipe_count :: "'a kernel_persona_scheme \<Rightarrow> u32 \<Rightarrow> u32" where
  "persona64_pipe_count = ctx_field (\<lambda>c. pipe_count (pc_budget c)) 0"
definition persona64_budget_denial_count :: "'a kernel_persona_scheme \<Rightarrow> u32 \<Rightarrow> u32" where
  "persona64_budget_denial_count = ctx_field (\<lambda>c. budget_denial_count (pc_budget c)) 0"
definition persona64_budget_last_kind :: "'a kernel_persona_scheme \<Rightarrow> u32 \<Rightarrow> budget_kind" where
  "persona64_budget_last_kind = ctx_field (\<lambda>c. budget_last_kind (pc_budget c)) PERSONA64_BUDGET_KIND_NONE"
definition persona64_budget_last_requested :: "'a kernel_persona_scheme \<Rightarrow> u32 \<Rightarrow> u32" where
  "persona64_budget_last_requested = ctx_field (\<lambda>c. budget_last_requested (pc_budget c)) 0"
definition persona64_budget_last_limit :: "'a kernel_persona_scheme \<Rightarrow> u32 \<Rightarrow> u32" where
  "persona64_budget_last_limit = ctx_field (\<lambda>c. budget_last_limit (pc_budget c)) 0"
definition persona64_process_group :: "'a kernel_persona_scheme \<Rightarrow> u32 \<Rightarrow> u32" where
  "persona64_process_group = ctx_field (\<lambda>c. process_group_id (pc_isolation c)) PERSONA64_PROCESS_GROUP_NONE"
definition persona64_isolation_denial_count :: "'a kernel_persona_scheme \<Rightarrow> u32 \<Rightarrow> u32" where
  "persona64_isolation_denial_count = ctx_field (\<lambda>c. isolation_denial_count (pc_isolation c)) 0"
definition persona64_isolation_last_result :: "'a kernel_persona_scheme \<Rightarrow> u32 \<Rightarrow> isolation_result" where
  "persona64_isolation_last_result =
     ctx_field (\<lambda>c. isolation_last_result (pc_isolation c)) PERSONA64_ISOLATION_RESULT_NO_SOURCE"

lemmas persona_reads [kernel_defs] =
  persona64_type_def persona64_capability_mask_def persona64_vma_page_budget_def persona64_fd_budget_def
  persona64_pipe_budget_def persona64_pipe_count_def persona64_budget_denial_count_def
  persona64_budget_last_kind_def persona64_budget_last_requested_def persona64_budget_last_limit_def
  persona64_process_group_def persona64_isolation_denial_count_def persona64_isolation_last_result_def

section \<open>Budgets\<close>

definition persona64_budget_record_denial ::
    "nat \<Rightarrow> budget_kind \<Rightarrow> u32 \<Rightarrow> u32 \<Rightarrow> 'a kernel_persona_scheme \<Rightarrow> 'a kernel_persona_scheme" where
  "persona64_budget_record_denial i kind requested limit =
    upd_ctx i (\<lambda>c. c\<lparr>pc_budget := (pc_budget c)
      \<lparr>budget_denial_count := budget_denial_count (pc_budget c) + 1, budget_last_kind := kind,
       budget_last_requested := requested, budget_last_limit := limit\<rparr>\<rparr>)"

definition persona64_budget_sum :: "u32 \<Rightarrow> u32 \<Rightarrow> u32" where
  "persona64_budget_sum current additional =
    (if 0xFFFFFFFF - current < additional then 0xFFFFFFFF else current + additional)"

definition persona64_configure_resource_budgets ::
    "u32 \<Rightarrow> u32 \<Rightarrow> u32 \<Rightarrow> u32 \<Rightarrow> 'a kernel_persona_scheme \<Rightarrow> bool \<times> 'a kernel_persona_scheme" where
  "persona64_configure_resource_budgets pid vma fd pipe k =
    (case persona64_context_for_process k pid of
       None \<Rightarrow> (False, persona_deny k)
     | Some i \<Rightarrow> (True, upd_ctx i (\<lambda>c. c\<lparr>pc_budget := (pc_budget c)
         \<lparr>vma_page_budget := vma, fd_budget := fd, pipe_budget := pipe,
          budget_last_kind := PERSONA64_BUDGET_KIND_NONE, budget_last_requested := 0,
          budget_last_limit := 0\<rparr>\<rparr>) k))"

text \<open>The check the three budget kinds share: \<open>current\<close> and \<open>limit\<close> are read from the context.\<close>

definition budget_check ::
    "budget_kind \<Rightarrow> (persona_context \<Rightarrow> u32) \<Rightarrow> (persona_context \<Rightarrow> u32) \<Rightarrow> u32 \<Rightarrow> u32
      \<Rightarrow> 'a kernel_persona_scheme \<Rightarrow> bool \<times> 'a kernel_persona_scheme" where
  "budget_check kind current limit pid additional k =
    (case persona64_context_for_process k pid of
       None \<Rightarrow> (True, k)
     | Some i \<Rightarrow>
         if additional = 0 then (True, k)
         else let requested = persona64_budget_sum (current (ctx k i)) additional
              in if requested > limit (ctx k i) \<or> current (ctx k i) > limit (ctx k i)
                 then (False, persona64_budget_record_denial i kind requested (limit (ctx k i)) k)
                 else (True, k))"

definition persona64_budget_check_vma_pages ::
    "u32 \<Rightarrow> u32 \<Rightarrow> u32 \<Rightarrow> 'a kernel_persona_scheme \<Rightarrow> bool \<times> 'a kernel_persona_scheme" where
  "persona64_budget_check_vma_pages pid current_pages additional_pages =
    budget_check PERSONA64_BUDGET_KIND_VMA_PAGE (\<lambda>_. current_pages)
      (\<lambda>c. vma_page_budget (pc_budget c)) pid additional_pages"

definition persona64_budget_check_fd ::
    "u32 \<Rightarrow> u32 \<Rightarrow> u32 \<Rightarrow> 'a kernel_persona_scheme \<Rightarrow> bool \<times> 'a kernel_persona_scheme" where
  "persona64_budget_check_fd pid current_fds additional_fds =
    budget_check PERSONA64_BUDGET_KIND_FD (\<lambda>_. current_fds)
      (\<lambda>c. fd_budget (pc_budget c)) pid additional_fds"

definition persona64_budget_check_pipe ::
    "u32 \<Rightarrow> u32 \<Rightarrow> 'a kernel_persona_scheme \<Rightarrow> bool \<times> 'a kernel_persona_scheme" where
  "persona64_budget_check_pipe pid additional_pipes =
    budget_check PERSONA64_BUDGET_KIND_PIPE (\<lambda>c. pipe_count (pc_budget c))
      (\<lambda>c. pipe_budget (pc_budget c)) pid additional_pipes"

definition persona64_budget_commit_pipe ::
    "u32 \<Rightarrow> u32 \<Rightarrow> 'a kernel_persona_scheme \<Rightarrow> bool \<times> 'a kernel_persona_scheme" where
  "persona64_budget_commit_pipe pid n k =
    (case persona64_context_for_process k pid of
       None \<Rightarrow> (True, k)
     | Some i \<Rightarrow>
         (case persona64_budget_check_pipe pid n k of
            (False, k1) \<Rightarrow> (False, k1)
          | (True, k1) \<Rightarrow> (True, upd_ctx i (\<lambda>c. c\<lparr>pc_budget := (pc_budget c)
              \<lparr>pipe_count := persona64_budget_sum (pipe_count (pc_budget c)) n\<rparr>\<rparr>) k1)))"

definition persona64_budget_release_pipe ::
    "u32 \<Rightarrow> u32 \<Rightarrow> 'a kernel_persona_scheme \<Rightarrow> 'a kernel_persona_scheme" where
  "persona64_budget_release_pipe pid n k =
    (case persona64_context_for_process k pid of
       None \<Rightarrow> k
     | Some i \<Rightarrow>
         if n = 0 then k
         else upd_ctx i (\<lambda>c. c\<lparr>pc_budget := (pc_budget c)\<lparr>pipe_count :=
           (if pipe_count (pc_budget c) \<ge> n then pipe_count (pc_budget c) - n else 0)\<rparr>\<rparr>) k)"

section \<open>Process groups and signal isolation\<close>

definition persona64_set_process_group ::
    "u32 \<Rightarrow> u32 \<Rightarrow> 'a kernel_persona_scheme \<Rightarrow> bool \<times> 'a kernel_persona_scheme" where
  "persona64_set_process_group pid process_group k =
    (case persona64_context_for_process k pid of
       None \<Rightarrow> (False, persona_deny k)
     | Some i \<Rightarrow>
         if process_group = PERSONA64_PROCESS_GROUP_NONE then (False, persona_deny k)
         else (True, upd_ctx i (\<lambda>c. c\<lparr>pc_isolation := (pc_isolation c)\<lparr>process_group_id := process_group\<rparr>\<rparr>) k))"

definition persona64_record_signal_isolation ::
    "nat \<Rightarrow> u32 \<Rightarrow> u32 \<Rightarrow> u32 \<Rightarrow> isolation_result \<Rightarrow> 'a kernel_persona_scheme \<Rightarrow> 'a kernel_persona_scheme" where
  "persona64_record_signal_isolation i source_pid target_pid target_group result =
    upd_ctx i (\<lambda>c. c\<lparr>pc_isolation := (pc_isolation c)
      \<lparr>isolation_last_source_pid := source_pid, isolation_last_target_pid := target_pid,
       isolation_last_source_group := process_group_id (pc_isolation c),
       isolation_last_target_group := target_group, isolation_last_result := result,
       isolation_denial_count := (if result \<noteq> PERSONA64_ISOLATION_RESULT_OK
         then isolation_denial_count (pc_isolation c) + 1 else isolation_denial_count (pc_isolation c))\<rparr>\<rparr>)"

definition persona64_can_signal ::
    "u32 \<Rightarrow> u32 \<Rightarrow> 'a kernel_persona_scheme \<Rightarrow> (bool \<times> isolation_result) \<times> 'a kernel_persona_scheme" where
  "persona64_can_signal source_pid target_pid k =
    (let no_source = ((False, PERSONA64_ISOLATION_RESULT_NO_SOURCE), persona_deny k) in
     case persona64_context_for_process k source_pid of
       None \<Rightarrow> no_source
     | Some s \<Rightarrow>
         if source_pid = PROCESS64_INVALID_PID \<or> process64_principal (k_proc k) source_pid = 0 then no_source
         else
           let target = persona64_context_for_process k target_pid;
               target_group = (case target of None \<Rightarrow> PERSONA64_PROCESS_GROUP_NONE
                               | Some t \<Rightarrow> process_group_id (pc_isolation (ctx k t)));
               no_target = ((False, PERSONA64_ISOLATION_RESULT_NO_TARGET),
                 persona64_record_signal_isolation s source_pid target_pid target_group
                   PERSONA64_ISOLATION_RESULT_NO_TARGET k)
           in (case target of
                None \<Rightarrow> no_target
              | Some t \<Rightarrow>
                  if target_pid = PROCESS64_INVALID_PID \<or> process64_principal (k_proc k) target_pid = 0
                  then no_target
                  else
                    let allowed = (source_pid = target_pid
                          \<or> pc_persona_type (ctx k s) = pc_persona_type (ctx k t)
                            \<and> process_group_id (pc_isolation (ctx k s)) \<noteq> PERSONA64_PROCESS_GROUP_NONE
                            \<and> process_group_id (pc_isolation (ctx k s)) = process_group_id (pc_isolation (ctx k t)));
                        result = (if allowed then PERSONA64_ISOLATION_RESULT_OK else PERSONA64_ISOLATION_RESULT_DENIED)
                    in ((allowed, result),
                        persona64_record_signal_isolation s source_pid target_pid target_group result k)))"


section \<open>Executable formats\<close>

text \<open>
  Byte reads of the sniffer: \<open>None\<close> is a read outside the buffer.
\<close>

definition byte_at :: "u8 list \<Rightarrow> nat \<Rightarrow> u8 option" where
  "byte_at data i = (if i < length data then Some (data ! i) else None)"

fun word_le :: "u8 \<Rightarrow> u8 \<Rightarrow> u8 \<Rightarrow> u8 \<Rightarrow> u32" where
  "word_le b0 b1 b2 b3 = ucast b0 OR push_bit 8 (ucast b1) OR push_bit 16 (ucast b2) OR push_bit 24 (ucast b3)"

definition persona64_read_le32 :: "u8 list \<Rightarrow> nat \<Rightarrow> u32 option" where
  "persona64_read_le32 data off = do {
     b0 \<leftarrow> byte_at data off; b1 \<leftarrow> byte_at data (off + 1);
     b2 \<leftarrow> byte_at data (off + 2); b3 \<leftarrow> byte_at data (off + 3);
     Some (word_le b0 b1 b2 b3) }"

definition persona64_read_be32 :: "u8 list \<Rightarrow> nat \<Rightarrow> u32 option" where
  "persona64_read_be32 data off = do {
     b3 \<leftarrow> byte_at data (off + 3); b2 \<leftarrow> byte_at data (off + 2);
     b1 \<leftarrow> byte_at data (off + 1); b0 \<leftarrow> byte_at data off;
     Some (word_le b3 b2 b1 b0) }"

text \<open>The inner loop: compare \<open>needle\<close> with the bytes at \<open>off\<close>, stopping at the first mismatch.\<close>

fun match_bytes :: "u8 list \<Rightarrow> nat \<Rightarrow> u8 list \<Rightarrow> bool option" where
  "match_bytes data off [] = Some True"
| "match_bytes data off (n # needle) = do {
     b \<leftarrow> byte_at data off;
     if b \<noteq> n then Some False else match_bytes data (Suc off) needle }"

text \<open>The outer loop over \<open>count\<close> offsets from \<open>off\<close>.\<close>

fun scan_bytes :: "u8 list \<Rightarrow> u8 list \<Rightarrow> nat \<Rightarrow> nat \<Rightarrow> bool option" where
  "scan_bytes data needle off 0 = Some False"
| "scan_bytes data needle off (Suc count) = do {
     m \<leftarrow> match_bytes data off needle;
     if m then Some True else scan_bytes data needle (Suc off) count }"

definition persona64_contains_bytes :: "u8 list \<Rightarrow> nat \<Rightarrow> u8 list \<Rightarrow> bool option" where
  "persona64_contains_bytes data data_size needle =
    (if needle = [] \<or> data_size < length needle then Some False
     else scan_bytes data needle 0 (data_size - length needle + 1))"

definition persona64_detect_native_app_descriptor :: "u8 list \<Rightarrow> nat \<Rightarrow> bool option" where
  "persona64_detect_native_app_descriptor data data_size = do {
     a \<leftarrow> persona64_contains_bytes data data_size (bytes_of ''name='');
     if \<not> a then Some False else do {
       b \<leftarrow> persona64_contains_bytes data data_size (bytes_of ''binary='');
       if \<not> b then Some False else persona64_contains_bytes data data_size (bytes_of ''payload-slot='') } }"

text \<open>
  The \<^verbatim>\<open>PE\<close> test of the sniffer: the 32-bit offset at \<^verbatim>\<open>0x3C\<close> must leave room for four bytes.
\<close>

definition detect_pe :: "u8 list \<Rightarrow> nat \<Rightarrow> persona_format option" where
  "detect_pe data data_size =
    (if data_size < 0x40 then Some PERSONA64_FORMAT_UNKNOWN
     else do {
       m \<leftarrow> match_bytes data 0 [0x4D, 0x5A];
       if \<not> m then Some PERSONA64_FORMAT_UNKNOWN
       else do {
         pe_offset \<leftarrow> persona64_read_le32 data 0x3C;
         if unat pe_offset > data_size - 4 then Some PERSONA64_FORMAT_UNKNOWN
         else do {
           p \<leftarrow> match_bytes data (unat pe_offset) [0x50, 0x45, 0, 0];
           Some (if p then PERSONA64_FORMAT_PE else PERSONA64_FORMAT_UNKNOWN) } } })"

definition persona64_detect_format :: "u8 list option \<Rightarrow> nat \<Rightarrow> persona_format option" where
  "persona64_detect_format binary_data data_size =
    (case binary_data of
       None \<Rightarrow> Some PERSONA64_FORMAT_UNKNOWN
     | Some data \<Rightarrow>
         if data_size < 2 then Some PERSONA64_FORMAT_UNKNOWN
         else do {
           shebang \<leftarrow> match_bytes data 0 [0x23, 0x21];
           if shebang then Some PERSONA64_FORMAT_SHEBANG
           else if data_size < 4 then detect_pe data data_size
           else do {
             elf \<leftarrow> match_bytes data 0 [0x7F, 0x45, 0x4C, 0x46];
             if elf then Some PERSONA64_FORMAT_ELF
             else do {
               app \<leftarrow> persona64_detect_native_app_descriptor data data_size;
               if app then Some PERSONA64_FORMAT_NATIVE_APP
               else do {
                 magic_le \<leftarrow> persona64_read_le32 data 0;
                 magic_be \<leftarrow> persona64_read_be32 data 0;
                 if magic_le = 0xFEEDFACF then Some PERSONA64_FORMAT_MACHO_LE64
                 else if magic_le = 0xFEEDFACE then Some PERSONA64_FORMAT_MACHO_LE32
                 else if magic_be = 0xCAFEBABE then Some PERSONA64_FORMAT_MACHO_FAT
                 else if magic_be = 0xCAFEBABF then Some PERSONA64_FORMAT_MACHO_FAT64
                 else detect_pe data data_size } } } })"

section \<open>Unavailable system calls\<close>

definition persona64_unavailable_result_for_type :: "u32 \<Rightarrow> u32" where
  "persona64_unavailable_result_for_type persona_type =
    (if persona_type = PERSONA64_TYPE_LINUX_ELF then 38
     else if persona_type = PERSONA64_TYPE_WINDOWS_PE then 0xC0000002
     else if persona_type = PERSONA64_TYPE_MACOS_MACHO then 78
     else 1)"

definition persona64_unavailable_return_for_type :: "u32 \<Rightarrow> u64" where
  "persona64_unavailable_return_for_type persona_type =
    (let result = ucast (persona64_unavailable_result_for_type persona_type) :: u64 in
     if persona_type = PERSONA64_TYPE_LINUX_ELF then 0 - result
     else if persona_type = PERSONA64_TYPE_WINDOWS_PE then result
     else if persona_type = PERSONA64_TYPE_MACOS_MACHO then 0 - result
     else result)"

end
