(* ===== verification/Persona_Format.thy ===== *)
theory Persona_Format
  imports Persona
begin

text \<open>
  The executable sniffer never reads outside the buffer it is given and classifies exactly by the
  documented magic numbers: its loops agree with a reference definition over list prefixes and
  contiguous sublists.
\<close>

section \<open>The search loops\<close>

lemma match_bytes_eq:
  "off + length needle \<le> length data \<Longrightarrow>
   match_bytes data off needle = Some (take (length needle) (drop off data) = needle)"
proof (induction needle arbitrary: off)
  case Nil
  show ?case by simp
next
  case (Cons n needle)
  then have off: "off < length data" by simp
  then have "take (length (n # needle)) (drop off data) = data ! off # take (length needle) (drop (Suc off) data)"
    by (simp add: Cons_nth_drop_Suc [symmetric])
  with Cons off show ?case by (simp add: byte_at_def)
qed

lemma scan_bytes_eq:
  "off + count + length needle \<le> Suc (length data) \<Longrightarrow>
   scan_bytes data needle off count
     = Some (\<exists>j<count. take (length needle) (drop (off + j) data) = needle)"
proof (induction count arbitrary: off)
  case 0
  show ?case by simp
next
  case (Suc count)
  have "match_bytes data off needle = Some (take (length needle) (drop off data) = needle)"
    using Suc.prems by (intro match_bytes_eq) simp
  moreover have "scan_bytes data needle (Suc off) count
      = Some (\<exists>j<count. take (length needle) (drop (Suc off + j) data) = needle)"
    using Suc.prems by (intro Suc.IH) simp
  moreover have "(\<exists>j<Suc count. P j) \<longleftrightarrow> P 0 \<or> (\<exists>j<count. P (Suc j))" for P
    by (metis less_Suc_eq_0_disj)
  ultimately show ?case by simp
qed

lemma sublist_take_iff:
  assumes "m \<le> length data" and "length needle \<le> m"
  shows "sublist needle (take m data) \<longleftrightarrow>
    (\<exists>j<m - length needle + 1. take (length needle) (drop j data) = needle)"
proof
  assume "sublist needle (take m data)"
  then obtain ps ss where eq: "take m data = ps @ needle @ ss" by (auto simp: sublist_def)
  then have len: "length ps + length needle + length ss = m"
    using assms(1) by (metis add.assoc length_append length_take min.absorb2)
  have data: "data = ps @ needle @ ss @ drop m data"
    using eq by (metis append.assoc append_take_drop_id)
  have "take (length needle) (drop (length ps) data) = needle"
    by (subst data) simp
  moreover have "length ps < m - length needle + 1" using len by simp
  ultimately show "\<exists>j<m - length needle + 1. take (length needle) (drop j data) = needle" by blast
next
  assume "\<exists>j<m - length needle + 1. take (length needle) (drop j data) = needle"
  then obtain j where "j < m - length needle + 1" and eq: "take (length needle) (drop j data) = needle"
    by blast
  then have j: "j + length needle \<le> m" using assms(2) by linarith
  have "take (j + length needle) (take m data) = take j data @ take (length needle) (drop j data)"
    using j by (simp add: take_add min_def)
  then have "take m data = take j data @ needle @ drop (j + length needle) (take m data)"
    using eq append_take_drop_id [of "j + length needle" "take m data"] by simp
  then show "sublist needle (take m data)" unfolding sublist_def by blast
qed

lemma persona64_contains_bytes_eq:
  "m \<le> length data \<Longrightarrow>
   persona64_contains_bytes data m needle = Some (needle \<noteq> [] \<and> sublist needle (take m data))"
proof -
  assume m: "m \<le> length data"
  show ?thesis
  proof (cases "needle = [] \<or> m < length needle")
    case True
    then have "\<not> (needle \<noteq> [] \<and> sublist needle (take m data))"
      using m sublist_length_le [of needle "take m data"] by auto
    with True show ?thesis by (auto simp: persona64_contains_bytes_def)
  next
    case False
    then show ?thesis
      using m sublist_take_iff [OF m, of needle] scan_bytes_eq [of 0 "m - length needle + 1" needle data]
      by (simp add: persona64_contains_bytes_def)
  qed
qed

section \<open>The magic words\<close>

lemma word_le_bytes:
  "ucast (word_le a b c d) = a"
  "ucast (drop_bit 8 (word_le a b c d)) = b"
  "ucast (drop_bit 16 (word_le a b c d)) = c"
  "ucast (drop_bit 24 (word_le a b c d)) = d"
  by (rule bit_word_eqI; auto simp: bit_simps; auto dest: bit_imp_le_length)+

lemma word_le_inj: "word_le a b c d = word_le a' b' c' d' \<longleftrightarrow> [a, b, c, d] = [a', b', c', d']"
proof
  assume "word_le a b c d = word_le a' b' c' d'"
  then show "[a, b, c, d] = [a', b', c', d']"
    using word_le_bytes [of a b c d] word_le_bytes [of a' b' c' d'] by simp
qed simp

lemma magic_words:
  "word_le a b c d = 0xFEEDFACF \<longleftrightarrow> [a, b, c, d] = [0xCF, 0xFA, 0xED, 0xFE]"
  "word_le a b c d = 0xFEEDFACE \<longleftrightarrow> [a, b, c, d] = [0xCE, 0xFA, 0xED, 0xFE]"
  "word_le a b c d = 0xCAFEBABE \<longleftrightarrow> [a, b, c, d] = [0xBE, 0xBA, 0xFE, 0xCA]"
  "word_le a b c d = 0xCAFEBABF \<longleftrightarrow> [a, b, c, d] = [0xBF, 0xBA, 0xFE, 0xCA]"
proof -
  have m: "word_le 0xCF 0xFA 0xED 0xFE = 0xFEEDFACF" "word_le 0xCE 0xFA 0xED 0xFE = 0xFEEDFACE"
    "word_le 0xBE 0xBA 0xFE 0xCA = 0xCAFEBABE" "word_le 0xBF 0xBA 0xFE 0xCA = 0xCAFEBABF"
    by code_simp+
  show
    "word_le a b c d = 0xFEEDFACF \<longleftrightarrow> [a, b, c, d] = [0xCF, 0xFA, 0xED, 0xFE]"
    "word_le a b c d = 0xFEEDFACE \<longleftrightarrow> [a, b, c, d] = [0xCE, 0xFA, 0xED, 0xFE]"
    "word_le a b c d = 0xCAFEBABE \<longleftrightarrow> [a, b, c, d] = [0xBE, 0xBA, 0xFE, 0xCA]"
    "word_le a b c d = 0xCAFEBABF \<longleftrightarrow> [a, b, c, d] = [0xBF, 0xBA, 0xFE, 0xCA]"
    by (simp_all only: m [symmetric] word_le_inj)
qed

section \<open>The reference classification\<close>

text \<open>
  What the sniffer is meant to decide, over the first \<open>size\<close> bytes of the file.
\<close>

definition native_app_bytes :: "u8 list \<Rightarrow> bool" where
  "native_app_bytes bs \<longleftrightarrow> sublist (bytes_of ''name='') bs \<and> sublist (bytes_of ''binary='') bs
     \<and> sublist (bytes_of ''payload-slot='') bs"

definition pe_bytes :: "u8 list \<Rightarrow> bool" where
  "pe_bytes bs \<longleftrightarrow> length bs \<ge> 0x40 \<and> prefix [0x4D, 0x5A] bs
     \<and> (let off = unat (word_le (bs ! 0x3C) (bs ! 0x3D) (bs ! 0x3E) (bs ! 0x3F))
        in off + 4 \<le> length bs \<and> prefix [0x50, 0x45, 0, 0] (drop off bs))"

definition format_of :: "u8 list \<Rightarrow> persona_format" where
  "format_of bs =
    (if prefix [0x23, 0x21] bs then PERSONA64_FORMAT_SHEBANG
     else if prefix [0x7F, 0x45, 0x4C, 0x46] bs then PERSONA64_FORMAT_ELF
     else if native_app_bytes bs then PERSONA64_FORMAT_NATIVE_APP
     else if prefix [0xCF, 0xFA, 0xED, 0xFE] bs then PERSONA64_FORMAT_MACHO_LE64
     else if prefix [0xCE, 0xFA, 0xED, 0xFE] bs then PERSONA64_FORMAT_MACHO_LE32
     else if prefix [0xCA, 0xFE, 0xBA, 0xBE] bs then PERSONA64_FORMAT_MACHO_FAT
     else if prefix [0xCA, 0xFE, 0xBA, 0xBF] bs then PERSONA64_FORMAT_MACHO_FAT64
     else if pe_bytes bs then PERSONA64_FORMAT_PE
     else PERSONA64_FORMAT_UNKNOWN)"

lemma take_eq_prefix:
  "off + length p \<le> m \<Longrightarrow> m \<le> length data \<Longrightarrow>
   take (length p) (drop off data) = p \<longleftrightarrow> prefix p (drop off (take m data))"
proof -
  assume "off + length p \<le> m" "m \<le> length data"
  then have "take (length p) (drop off (take m data)) = take (length p) (drop off data)"
    by (simp add: drop_take min_def)
  then show ?thesis by (metis prefix_def append_take_drop_id append_eq_conv_conj)
qed

lemma match_prefix:
  assumes "off + length p \<le> m" and "m \<le> length data"
  shows "match_bytes data off p = Some (prefix p (drop off (take m data)))"
  using assms by (simp add: match_bytes_eq take_eq_prefix)

lemma read32_eq:
  assumes "off + 4 \<le> m" and "m \<le> length data"
  shows "persona64_read_le32 data off = Some (let bs = take m data in
      word_le (bs ! off) (bs ! (off + 1)) (bs ! (off + 2)) (bs ! (off + 3)))"
    and "persona64_read_be32 data off = Some (let bs = take m data in
      word_le (bs ! (off + 3)) (bs ! (off + 2)) (bs ! (off + 1)) (bs ! off))"
  using assms by (simp_all add: persona64_read_le32_def persona64_read_be32_def byte_at_def)

lemma prefix4: "4 \<le> length bs \<Longrightarrow> prefix [a, b, c, d] bs \<longleftrightarrow> [bs ! 0, bs ! 1, bs ! 2, bs ! 3] = [a, b, c, d]"
proof -
  assume len: "4 \<le> length bs"
  then have "Suc (Suc (Suc (Suc 0))) \<le> length bs" by simp
  then obtain w x y z r where "bs = w # x # y # z # r" by (auto simp: Suc_le_length_iff)
  then show ?thesis by auto
qed

lemma magic_prefix:
  assumes "4 \<le> m" and "m \<le> length data"
  obtains le be where
    "persona64_read_le32 data 0 = Some le" "persona64_read_be32 data 0 = Some be"
    "le = 0xFEEDFACF \<longleftrightarrow> prefix [0xCF, 0xFA, 0xED, 0xFE] (take m data)"
    "le = 0xFEEDFACE \<longleftrightarrow> prefix [0xCE, 0xFA, 0xED, 0xFE] (take m data)"
    "be = 0xCAFEBABE \<longleftrightarrow> prefix [0xCA, 0xFE, 0xBA, 0xBE] (take m data)"
    "be = 0xCAFEBABF \<longleftrightarrow> prefix [0xCA, 0xFE, 0xBA, 0xBF] (take m data)"
proof -
  define bs where "bs = take m data"
  have len: "4 \<le> length bs" using assms by (simp add: bs_def)
  have "persona64_read_le32 data 0 = Some (word_le (bs ! 0) (bs ! 1) (bs ! 2) (bs ! 3))"
    "persona64_read_be32 data 0 = Some (word_le (bs ! 3) (bs ! 2) (bs ! 1) (bs ! 0))"
    using read32_eq [of 0 m data] assms by (simp_all add: Let_def bs_def numeral_2_eq_2 del: word_le.simps nth_take)
  then show thesis
    by (rule that; fold bs_def; unfold magic_words prefix4 [OF len]; auto)
qed

lemma detect_pe_eq:
  assumes "m \<le> length data" and "2 \<le> m"
  shows "detect_pe data m
    = Some (if pe_bytes (take m data) then PERSONA64_FORMAT_PE else PERSONA64_FORMAT_UNKNOWN)"
proof (cases "m < 0x40")
  case True
  with assms show ?thesis by (simp add: detect_pe_def pe_bytes_def)
next
  case False
  have mz: "match_bytes data 0 [0x4D, 0x5A] = Some (prefix [0x4D, 0x5A] (take m data))"
    using match_prefix [of 0 "[0x4D, 0x5A]" m data] assms by simp
  have rd: "persona64_read_le32 data 0x3C = Some (word_le (take m data ! 0x3C) (take m data ! 0x3D)
      (take m data ! 0x3E) (take m data ! 0x3F))"
    using read32_eq(1) [of "0x3C" m data] assms False by (simp add: Let_def)
  define off where "off = unat (word_le (take m data ! 0x3C) (take m data ! 0x3D)
      (take m data ! 0x3E) (take m data ! 0x3F))"
  have pe: "match_bytes data off [0x50, 0x45, 0, 0] = Some (prefix [0x50, 0x45, 0, 0] (drop off (take m data)))"
    if "off + 4 \<le> m"
    using match_prefix [of off "[0x50, 0x45, 0, 0]" m data] assms that by simp
  have "off > m - 4 \<longleftrightarrow> \<not> off + 4 \<le> m" using False by linarith
  moreover have "pe_bytes (take m data) \<longleftrightarrow> prefix [0x4D, 0x5A] (take m data)
      \<and> off + 4 \<le> m \<and> prefix [0x50, 0x45, 0, 0] (drop off (take m data))"
    using False assms by (simp add: pe_bytes_def Let_def off_def del: word_le.simps nth_take)
  ultimately show ?thesis
    using False mz rd pe
    by (simp add: detect_pe_def off_def [symmetric] del: word_le.simps nth_take match_bytes.simps)
qed

lemma short_formats:
  "length bs < 4 \<Longrightarrow> \<not> prefix [a, b, c, d] bs"
  "length bs < 4 \<Longrightarrow> \<not> native_app_bytes bs"
proof -
  assume len: "length bs < 4"
  show "\<not> prefix [a, b, c, d] bs" using len prefix_length_le [of "[a, b, c, d]" bs] by auto
  show "\<not> native_app_bytes bs"
    using len sublist_length_le [of "bytes_of ''name=''" bs]
    by (auto simp: native_app_bytes_def bytes_of_def)
qed

lemma native_app_eq:
  "m \<le> length data \<Longrightarrow>
   persona64_detect_native_app_descriptor data m = Some (native_app_bytes (take m data))"
  by (simp add: persona64_detect_native_app_descriptor_def persona64_contains_bytes_eq
    native_app_bytes_def bytes_of_def)

text \<open>
  C15: For every buffer and every size within it, the executable sniffer finishes without reading
  outside the buffer and answers exactly the reference classification of the first size bytes:
  the magic numbers in the documented order of precedence, the descriptor keys anywhere in the
  file, and for PE files a header offset whose four signature bytes lie inside the file.
\<close>

theorem persona64_detect_format_correct:
  assumes "data_size \<le> length data"
  shows "persona64_detect_format (Some data) data_size = Some (format_of (take data_size data))"
proof -
  let ?bs = "take data_size data"
  consider "data_size < 2" | "2 \<le> data_size" "data_size < 4" | "4 \<le> data_size" by linarith
  then show ?thesis
  proof cases
    case 1
    then have "\<not> prefix [0x23, 0x21] ?bs" using prefix_length_le [of "[0x23, 0x21]" ?bs] by auto
    with 1 short_formats [of ?bs] show ?thesis
      by (simp add: persona64_detect_format_def format_of_def pe_bytes_def)
  next
    case 2
    then have "match_bytes data 0 [0x23, 0x21] = Some (prefix [0x23, 0x21] ?bs)"
      using match_prefix [of 0 "[0x23, 0x21]" data_size data] assms by simp
    with 2 assms short_formats [of ?bs] show ?thesis
      by (simp add: persona64_detect_format_def format_of_def detect_pe_eq)
  next
    case 3
    then have m: "match_bytes data 0 [0x23, 0x21] = Some (prefix [0x23, 0x21] ?bs)"
      "match_bytes data 0 [0x7F, 0x45, 0x4C, 0x46] = Some (prefix [0x7F, 0x45, 0x4C, 0x46] ?bs)"
      using match_prefix [of 0 "[0x23, 0x21]" data_size data]
        match_prefix [of 0 "[0x7F, 0x45, 0x4C, 0x46]" data_size data] assms by simp_all
    obtain le be where magic:
      "persona64_read_le32 data 0 = Some le" "persona64_read_be32 data 0 = Some be"
      "le = 0xFEEDFACF \<longleftrightarrow> prefix [0xCF, 0xFA, 0xED, 0xFE] ?bs"
      "le = 0xFEEDFACE \<longleftrightarrow> prefix [0xCE, 0xFA, 0xED, 0xFE] ?bs"
      "be = 0xCAFEBABE \<longleftrightarrow> prefix [0xCA, 0xFE, 0xBA, 0xBE] ?bs"
      "be = 0xCAFEBABF \<longleftrightarrow> prefix [0xCA, 0xFE, 0xBA, 0xBF] ?bs"
      using magic_prefix [OF 3 assms] by blast
    show ?thesis
      using 3 assms
      by (simp add: persona64_detect_format_def format_of_def m native_app_eq detect_pe_eq magic
        del: match_bytes.simps)
  qed
qed

theorem persona64_detect_format_correct_witness:
  "persona64_detect_format (Some [0x7F, 0x45, 0x4C, 0x46, 2]) 5 = Some PERSONA64_FORMAT_ELF"
  using persona64_detect_format_correct [of 5 "[0x7F, 0x45, 0x4C, 0x46, 2]"]
  by (simp add: format_of_def)

end
