(* ===== verification/Persona_Inv.thy ===== *)
theory Persona_Inv
  imports Persona
begin

text \<open>
  Invariants and properties of persona contexts: no two processes share a context, budgets are
  never exceeded by an accepted request, and direct signals stay inside one persona and group.
\<close>

section \<open>The context table\<close>

definition persona_inv :: "'a kernel_persona_scheme \<Rightarrow> bool" where
  "persona_inv k \<longleftrightarrow>
     g_persona64_initialized (k_persona k)
   \<and> length (g_persona64_contexts (k_persona k)) = PERSONA64_MAX_CONTEXTS
   \<and> length (g_persona64_context_used (k_persona k)) = PERSONA64_MAX_CONTEXTS
   \<and> (\<forall>pid i. process64_persona_ctx (k_proc k) pid = Some i \<longrightarrow>
        i < PERSONA64_MAX_CONTEXTS \<and> g_persona64_context_used (k_persona k) ! i
        \<and> pc_pid (ctx k i) = pid)"

lemma persona_invD:
  assumes "persona_inv k" and "persona64_context_for_process k pid = Some i"
  shows "i < PERSONA64_MAX_CONTEXTS" "i < length (g_persona64_contexts (k_persona k))"
    "g_persona64_context_used (k_persona k) ! i" "pc_pid (ctx k i) = pid"
  using assms by (simp_all add: persona_inv_def persona64_context_for_process_def)

text \<open>The context carries the pid of its process, so a context belongs to one process.\<close>

lemma persona_ctx_inj:
  assumes "persona_inv k" and "persona64_context_for_process k p = Some i"
    and "persona64_context_for_process k q = Some i"
  shows "p = q"
  using persona_invD(4) [OF assms(1,2)] persona_invD(4) [OF assms(1,3)] by simp

lemma ctx_upd_ctx:
  "i < length (g_persona64_contexts (k_persona k)) \<Longrightarrow>
   ctx (upd_ctx i f k) j = (if j = i then f (ctx k i) else ctx k j)"
  by (simp add: ctx_def upd_ctx_def)

lemma upd_ctx_rest [simp]:
  "k_proc (upd_ctx i f k) = k_proc k"
  "k_launch (upd_ctx i f k) = k_launch k"
  "g_persona64_context_used (k_persona (upd_ctx i f k)) = g_persona64_context_used (k_persona k)"
  "g_persona64_initialized (k_persona (upd_ctx i f k)) = g_persona64_initialized (k_persona k)"
  "length (g_persona64_contexts (k_persona (upd_ctx i f k))) = length (g_persona64_contexts (k_persona k))"
  "persona64_context_for_process (upd_ctx i f k) = persona64_context_for_process k"
  by (simp_all add: upd_ctx_def persona64_context_for_process_def fun_eq_iff)

lemma persona_deny_rest [simp]:
  "k_proc (persona_deny k) = k_proc k"
  "k_launch (persona_deny k) = k_launch k"
  "ctx (persona_deny k) = ctx k"
  "g_persona64_context_used (k_persona (persona_deny k)) = g_persona64_context_used (k_persona k)"
  "persona64_context_for_process (persona_deny k) = persona64_context_for_process k"
  "persona_inv (persona_deny k) = persona_inv k"
  by (simp_all add: persona_deny_def persona64_context_for_process_def ctx_def fun_eq_iff persona_inv_def)

lemma persona_inv_upd:
  assumes "persona_inv k" and "\<And>c. pc_pid (f c) = pc_pid c"
  shows "persona_inv (upd_ctx i f k)"
proof (cases "i < length (g_persona64_contexts (k_persona k))")
  case True
  with assms show ?thesis by (auto simp: persona_inv_def ctx_upd_ctx)
next
  case False
  then have "ctx (upd_ctx i f k) = ctx k" by (simp add: upd_ctx_def ctx_def fun_eq_iff not_less list_update_beyond)
  with assms(1) show ?thesis by (simp add: persona_inv_def)
qed

section \<open>Attach and release\<close>

definition fresh_context :: "u32 \<Rightarrow> persona_context \<Rightarrow> persona_context" where
  "fresh_context pid old = persona64_apply_default_process_group
     (persona64_apply_default_budgets ((persona64_clear_context old)\<lparr>pc_pid := pid\<rparr>)) pid"

lemma pc_pid_fresh [simp]: "pc_pid (fresh_context pid old) = pid"
  by (simp add: fresh_context_def persona64_apply_default_process_group_def
    persona64_apply_default_budgets_def)

lemma persona64_acquire_context_eq:
  "persona64_acquire_context pid s =
    (case first_index (\<lambda>used. \<not> used) (g_persona64_context_used s) of
       None \<Rightarrow> (None, s)
     | Some i \<Rightarrow> (Some i, s\<lparr>g_persona64_context_used := (g_persona64_context_used s)[i := True],
           g_persona64_contexts := (g_persona64_contexts s)[i := fresh_context pid (g_persona64_contexts s ! i)]\<rparr>))"
  unfolding persona64_acquire_context_def fresh_context_def ..

definition persona_full :: "'a kernel_persona_scheme \<Rightarrow> bool" where
  "persona_full k \<longleftrightarrow> (\<forall>u\<in>set (g_persona64_context_used (k_persona k)). u)"

lemma persona64_attach_with_fail:
  "refuse \<or> persona_full k \<Longrightarrow> persona64_attach_with pid refuse prep k = (False, persona_deny k)"
proof (cases refuse)
  case True
  then show ?thesis by (simp add: persona64_attach_with_def)
next
  case False
  assume "refuse \<or> persona_full k"
  with False have "first_index (\<lambda>used. \<not> used) (g_persona64_context_used (k_persona k)) = None"
    by (simp add: persona_full_def first_index_None_iff)
  with False show ?thesis by (simp add: persona64_attach_with_def persona64_acquire_context_eq)
qed

lemma persona64_attach_with_ok:
  assumes "persona_inv k" and "process_record (k_proc k) pid = Some r" and "p_persona_ctx r = None"
    and "\<not> persona_full k"
  obtains i where "i < PERSONA64_MAX_CONTEXTS" "\<not> g_persona64_context_used (k_persona k) ! i"
    "fst (persona64_attach_with pid False prep k)"
    "\<And>q. persona64_context_for_process (snd (persona64_attach_with pid False prep k)) q
        = (if q = pid then Some i else persona64_context_for_process k q)"
    "\<And>j. ctx (snd (persona64_attach_with pid False prep k)) j
        = (if j = i then prep (fresh_context pid (ctx k i)) else ctx k j)"
    "g_persona64_context_used (k_persona (snd (persona64_attach_with pid False prep k)))
        = (g_persona64_context_used (k_persona k))[i := True]"
    "g_persona64_initialized (k_persona (snd (persona64_attach_with pid False prep k)))"
    "length (g_persona64_contexts (k_persona (snd (persona64_attach_with pid False prep k)))) = PERSONA64_MAX_CONTEXTS"
    "k_proc (snd (persona64_attach_with pid False prep k)) = snd (process64_attach_persona pid (Some i) (k_proc k))"
proof -
  obtain i where i: "first_index (\<lambda>used. \<not> used) (g_persona64_context_used (k_persona k)) = Some i"
    using assms(4) by (metis first_index_None_iff option.exhaust persona_full_def)
  have lens: "length (g_persona64_contexts (k_persona k)) = PERSONA64_MAX_CONTEXTS"
    "length (g_persona64_context_used (k_persona k)) = PERSONA64_MAX_CONTEXTS"
    "g_persona64_initialized (k_persona k)"
    using assms(1) by (simp_all add: persona_inv_def)
  have il: "i < PERSONA64_MAX_CONTEXTS" "\<not> g_persona64_context_used (k_persona k) ! i"
    using first_index_SomeD [OF i] lens by simp_all
  have ok: "fst (process64_attach_persona pid (Some i) (k_proc k))"
    using assms(2,3) by (simp add: slot_ops persona_slot.attach_iff)
  then obtain ps where pair: "process64_attach_persona pid (Some i) (k_proc k) = (True, ps)"
    by (metis (full_types) prod.collapse)
  let ?s = "(k_persona k)\<lparr>g_persona64_context_used := (g_persona64_context_used (k_persona k))[i := True],
     g_persona64_contexts := (g_persona64_contexts (k_persona k))[i := fresh_context pid (ctx k i)]\<rparr>"
  have eq: "persona64_attach_with pid False prep k = (True, (upd_ctx i prep (k\<lparr>k_persona := ?s\<rparr>))\<lparr>k_proc := ps\<rparr>)"
    using pair by (simp add: persona64_attach_with_def persona64_acquire_context_eq i Let_def ctx_def)
  have rec: "process_record ps q = (if q = pid then map_option (put_persona (Some i)) (process_record (k_proc k) q)
      else process_record (k_proc k) q)" for q
    using persona_slot.attach_record [OF ok [unfolded slot_ops]] pair by (simp add: slot_ops)
  show thesis
  proof (rule that [OF il])
    show "fst (persona64_attach_with pid False prep k)" by (simp add: eq)
    show "persona64_context_for_process (snd (persona64_attach_with pid False prep k)) q
        = (if q = pid then Some i else persona64_context_for_process k q)" for q
      using assms(2) by (simp add: eq persona64_context_for_process_def process64_persona_ctx_def
        record_field_def rec put_persona_def)
    show "ctx (snd (persona64_attach_with pid False prep k)) j
        = (if j = i then prep (fresh_context pid (ctx k i)) else ctx k j)" for j
      using lens il by (simp add: eq ctx_def upd_ctx_def)
  qed (simp_all add: eq lens upd_ctx_def pair)
qed

text \<open>
  The attach routines refuse whenever the process is unknown or already has a persona, which is
  all the invariant needs.
\<close>

lemma persona_ctx_None_record:
  assumes "process64_principal ps pid \<noteq> 0" and "process64_persona_ctx ps pid = None"
  obtains r where "process_record ps pid = Some r" "p_persona_ctx r = None"
  using assms by (cases "process_record ps pid")
    (simp_all add: process64_principal_def process64_persona_ctx_def record_field_def)

lemma attach_with_inv:
  assumes inv: "persona_inv k" "process_inv (k_proc k)"
    and refuse: "\<not> refuse \<Longrightarrow> process64_principal (k_proc k) pid \<noteq> 0"
      "\<not> refuse \<Longrightarrow> process64_persona_ctx (k_proc k) pid = None"
    and prep: "\<And>c. pc_pid (prep c) = pc_pid c"
  shows "persona_inv (snd (persona64_attach_with pid refuse prep k))"
    and "process_inv (k_proc (snd (persona64_attach_with pid refuse prep k)))"
proof -
  have "persona_inv (snd (persona64_attach_with pid refuse prep k))
    \<and> process_inv (k_proc (snd (persona64_attach_with pid refuse prep k)))"
  proof (cases "refuse \<or> persona_full k")
    case True
    with inv persona64_attach_with_fail [OF True] show ?thesis by simp
  next
    case False
    then obtain r where r: "process_record (k_proc k) pid = Some r" "p_persona_ctx r = None"
      using refuse persona_ctx_None_record by blast
    let ?k' = "snd (persona64_attach_with pid False prep k)"
    obtain i where i: "i < PERSONA64_MAX_CONTEXTS" "\<not> g_persona64_context_used (k_persona k) ! i"
      and cf: "\<And>q. persona64_context_for_process ?k' q = (if q = pid then Some i else persona64_context_for_process k q)"
      and cx: "\<And>j. ctx ?k' j = (if j = i then prep (fresh_context pid (ctx k i)) else ctx k j)"
      and us: "g_persona64_context_used (k_persona ?k') = (g_persona64_context_used (k_persona k))[i := True]"
      and rest: "g_persona64_initialized (k_persona ?k')"
        "length (g_persona64_contexts (k_persona ?k')) = PERSONA64_MAX_CONTEXTS"
        "k_proc ?k' = snd (process64_attach_persona pid (Some i) (k_proc k))"
      using persona64_attach_with_ok [OF inv(1) r] False by blast
    have len: "length (g_persona64_context_used (k_persona k)) = PERSONA64_MAX_CONTEXTS"
      using inv(1) by (simp add: persona_inv_def)
    have old: "j < PERSONA64_MAX_CONTEXTS \<and> j \<noteq> i \<and> g_persona64_context_used (k_persona k) ! j \<and> pc_pid (ctx k j) = q"
      if "persona64_context_for_process k q = Some j" for q j
      using persona_invD [OF inv(1) that] i(2) by auto
    have "j < PERSONA64_MAX_CONTEXTS \<and> g_persona64_context_used (k_persona ?k') ! j \<and> pc_pid (ctx ?k' j) = q"
      if "persona64_context_for_process ?k' q = Some j" for q j
    proof (cases "q = pid")
      case True
      with that i cf cx us prep len show ?thesis by simp
    next
      case False
      then have "persona64_context_for_process k q = Some j" using that cf by simp
      from old [OF this] show ?thesis using cx us len i(1) by simp
    qed
    then have "persona_inv ?k'"
      using rest us len by (simp add: persona_inv_def persona64_context_for_process_def)
    moreover have "process_inv (k_proc ?k')"
      by (simp add: rest slot_ops persona_slot.attach_inv [OF inv(2)])
    ultimately show ?thesis using False by simp
  qed
  then show "persona_inv (snd (persona64_attach_with pid refuse prep k))"
    "process_inv (k_proc (snd (persona64_attach_with pid refuse prep k)))" by simp_all
qed

lemma prep_pids [simp]:
  "pc_pid (persona_common ps pid t d c) = pc_pid c"
  "pc_pid (persona_fork_prep ps pid d p c) = pc_pid c"
  by (simp_all add: persona_common_def persona_fork_prep_def)

lemma init_inv:
  assumes "persona_inv k" "process_inv (k_proc k)"
  shows "persona_inv (snd (persona64_init_linux_elf pid d k)) \<and> process_inv (k_proc (snd (persona64_init_linux_elf pid d k)))"
    and "persona_inv (snd (persona64_init_windows_pe pid d k)) \<and> process_inv (k_proc (snd (persona64_init_windows_pe pid d k)))"
    and "persona_inv (snd (persona64_init_macos_macho pid d k)) \<and> process_inv (k_proc (snd (persona64_init_macos_macho pid d k)))"
    and "persona_inv (snd (persona64_fork_linux_elf par pid d k)) \<and> process_inv (k_proc (snd (persona64_fork_linux_elf par pid d k)))"
  unfolding persona64_init_linux_elf_def persona64_init_windows_pe_def persona64_init_macos_macho_def
    persona64_fork_linux_elf_def
  using assms
  by (auto intro!: attach_with_inv simp: persona_refused_def split: option.splits)

lemma init_native_inv:
  assumes "persona_inv k" "process_inv (k_proc k)"
  shows "persona_inv (snd (persona64_init_native pid k)) \<and> process_inv (k_proc (snd (persona64_init_native pid k)))"
proof -
  let ?a = "persona64_attach_with pid (persona_refused k pid)
       (\<lambda>c. (persona_common (k_proc k) pid PERSONA64_TYPE_LIMITLESS_NATIVE Native_dispatch c)
              \<lparr>pc_windows := windows_zero\<rparr>) k"
  have "persona_inv (snd ?a)" "process_inv (k_proc (snd ?a))"
    using assms by (auto intro!: attach_with_inv simp: persona_refused_def)
  then show ?thesis
    unfolding persona64_init_native_def
    by (auto simp: persona_inv_def ctx_def split: prod.split bool.split)
qed

lemma persona64_release_ok:
  assumes "persona_inv k" and i: "persona64_context_for_process k pid = Some i"
    and "pid \<noteq> PROCESS64_INVALID_PID" and "process64_principal (k_proc k) pid \<noteq> 0"
  shows "fst (persona64_release pid k)"
    and "k_proc (snd (persona64_release pid k)) = snd (process64_detach_persona pid (k_proc k))"
    and "persona64_context_for_process (snd (persona64_release pid k)) q
      = (if q = pid then None else persona64_context_for_process k q)"
    and "ctx (snd (persona64_release pid k)) j
      = (if j = i then persona64_clear_context (ctx k i) else ctx k j)"
    and "g_persona64_context_used (k_persona (snd (persona64_release pid k)))
      = (g_persona64_context_used (k_persona k))[i := False]"
    and "g_persona64_initialized (k_persona (snd (persona64_release pid k)))"
    and "length (g_persona64_contexts (k_persona (snd (persona64_release pid k)))) = PERSONA64_MAX_CONTEXTS"
proof -
  obtain ps where ps: "process64_detach_persona pid (k_proc k) = (Some i, ps)"
    using i persona_slot.detach_result [of pid "k_proc k"]
    by (metis slot_ops(6) persona64_context_for_process_def process64_persona_ctx_def prod.collapse)
  have lens: "length (g_persona64_contexts (k_persona k)) = PERSONA64_MAX_CONTEXTS"
    "g_persona64_initialized (k_persona k)" "i < PERSONA64_MAX_CONTEXTS"
    using assms(1) persona_invD(1) [OF assms(1) i] by (simp_all add: persona_inv_def)
  define s where "s = (if pc_persona_type (ctx k i) = PERSONA64_TYPE_LIMITLESS_NATIVE
      \<and> g_persona64_native_count (k_persona k) > 0
      then (k_persona k)\<lparr>g_persona64_native_count := g_persona64_native_count (k_persona k) - 1\<rparr>
      else k_persona k)"
  have s: "g_persona64_contexts s = g_persona64_contexts (k_persona k)"
    "g_persona64_context_used s = g_persona64_context_used (k_persona k)"
    "g_persona64_initialized s = g_persona64_initialized (k_persona k)"
    by (simp_all add: s_def)
  have eq: "persona64_release pid k = (True, k\<lparr>k_proc := ps, k_persona := persona64_release_context i s\<rparr>)"
    using assms(3,4) i ps by (simp add: persona64_release_def Let_def s_def ctx_def)
  show "fst (persona64_release pid k)" by (simp add: eq)
  show "k_proc (snd (persona64_release pid k)) = snd (process64_detach_persona pid (k_proc k))"
    by (simp add: eq ps)
  show "persona64_context_for_process (snd (persona64_release pid k)) q
      = (if q = pid then None else persona64_context_for_process k q)"
    using persona_slot.detach_record [of pid "k_proc k" q] ps
    by (cases "process_record (k_proc k) q")
      (auto simp: eq persona64_context_for_process_def slot_ops process64_persona_ctx_def
        record_field_def put_persona_def)
  show "ctx (snd (persona64_release pid k)) j
      = (if j = i then persona64_clear_context (ctx k i) else ctx k j)"
    using lens by (simp add: eq ctx_def persona64_release_context_def s)
  show "g_persona64_context_used (k_persona (snd (persona64_release pid k)))
      = (g_persona64_context_used (k_persona k))[i := False]"
    "g_persona64_initialized (k_persona (snd (persona64_release pid k)))"
    "length (g_persona64_contexts (k_persona (snd (persona64_release pid k)))) = PERSONA64_MAX_CONTEXTS"
    using lens by (simp_all add: eq persona64_release_context_def s)
qed

lemma release_inv:
  assumes "persona_inv k" "process_inv (k_proc k)"
  shows "persona_inv (snd (persona64_release pid k)) \<and> process_inv (k_proc (snd (persona64_release pid k)))"
proof (cases "pid = PROCESS64_INVALID_PID \<or> process64_principal (k_proc k) pid = 0
    \<or> persona64_context_for_process k pid = None")
  case True
  with assms show ?thesis by (auto simp: persona64_release_def split: option.splits)
next
  case False
  then obtain i where i: "persona64_context_for_process k pid = Some i" by auto
  note ok = persona64_release_ok [OF assms(1) i]
  have old: "j < PERSONA64_MAX_CONTEXTS \<and> j \<noteq> i \<and> g_persona64_context_used (k_persona k) ! j \<and> pc_pid (ctx k j) = q"
    if "persona64_context_for_process k q = Some j" "q \<noteq> pid" for q j
    using persona_invD [OF assms(1), of q j] persona_ctx_inj [OF assms(1) _ i, of q] that by auto
  have "process_inv (snd (process64_detach_persona pid (k_proc k)))"
    using persona_slot.detach_inv [OF assms(2), of pid] by (simp add: slot_ops)
  moreover have "length (g_persona64_context_used (k_persona k)) = PERSONA64_MAX_CONTEXTS"
    using assms(1) by (simp add: persona_inv_def)
  moreover have "j < PERSONA64_MAX_CONTEXTS \<and> g_persona64_context_used (k_persona (snd (persona64_release pid k))) ! j
      \<and> pc_pid (ctx (snd (persona64_release pid k)) j) = q"
    if "persona64_context_for_process (snd (persona64_release pid k)) q = Some j" for q j
  proof -
    have "q \<noteq> pid" "persona64_context_for_process k q = Some j"
      using that ok(3) [of q] False by (auto split: if_splits)
    from old [OF this(2,1)] show ?thesis using ok(4) [of j] ok(5) False by simp
  qed
  ultimately show ?thesis
    using ok(2,5-7) False by (simp add: persona_inv_def persona64_context_for_process_def)
qed

section \<open>Runs of persona and process operations\<close>

datatype persona_op =
    Proc process_op
  | Init_native u32 | Init_linux u32 dispatch_table | Init_windows u32 dispatch_table
  | Init_macos u32 dispatch_table | Fork_linux u32 u32 dispatch_table | Release_persona u32
  | Configure_budgets u32 u32 u32 u32 | Check_vma u32 u32 u32 | Check_fd u32 u32 u32
  | Commit_pipe u32 u32 | Release_pipe u32 u32 | Set_group u32 u32 | Can_signal u32 u32

fun persona_step :: "persona_op \<Rightarrow> 'a kernel_persona_scheme \<Rightarrow> 'a kernel_persona_scheme" where
  "persona_step (Proc x) k = k\<lparr>k_proc := process_step x (k_proc k)\<rparr>"
| "persona_step (Init_native pid) k = snd (persona64_init_native pid k)"
| "persona_step (Init_linux pid d) k = snd (persona64_init_linux_elf pid d k)"
| "persona_step (Init_windows pid d) k = snd (persona64_init_windows_pe pid d k)"
| "persona_step (Init_macos pid d) k = snd (persona64_init_macos_macho pid d k)"
| "persona_step (Fork_linux p c d) k = snd (persona64_fork_linux_elf p c d k)"
| "persona_step (Release_persona pid) k = snd (persona64_release pid k)"
| "persona_step (Configure_budgets pid v f p) k = snd (persona64_configure_resource_budgets pid v f p k)"
| "persona_step (Check_vma pid c a) k = snd (persona64_budget_check_vma_pages pid c a k)"
| "persona_step (Check_fd pid c a) k = snd (persona64_budget_check_fd pid c a k)"
| "persona_step (Commit_pipe pid n) k = snd (persona64_budget_commit_pipe pid n k)"
| "persona_step (Release_pipe pid n) k = persona64_budget_release_pipe pid n k"
| "persona_step (Set_group pid g) k = snd (persona64_set_process_group pid g k)"
| "persona_step (Can_signal s t) k = snd (persona64_can_signal s t k)"

text \<open>
  Persona slots are attached by the persona component only; other process operations are free.
\<close>

fun persona_ok :: "persona_op \<Rightarrow> 'a kernel_persona_scheme \<Rightarrow> bool" where
  "persona_ok (Proc (Attach_persona pid c)) k = False"
| "persona_ok (Proc x) k = process_ok x (k_proc k)"
| "persona_ok _ k = True"

lemma persona_ctx_upd:
  assumes "process64_find ps pid = Some ref" and "keeps_identity f"
    and "\<And>r. p_persona_ctx (f r) = p_persona_ctx r"
  shows "process64_persona_ctx (proc_upd ref f ps) q = process64_persona_ctx ps q"
  using process_record_upd [OF assms(1) keeps_identityD(1) [OF assms(2)], of q]
  by (simp add: process64_persona_ctx_def record_field_def assms(3) split: option.splits)

lemma persona_ctx_spawn:
  assumes "process_inv ps" and "pid_room ps"
    and "process64_persona_ctx (snd (process64_spawn_child parent kind name ps)) q = Some i"
  shows "process64_persona_ctx ps q = Some i"
proof (cases "process64_find ps parent = None \<or> kind = PROCESS64_CHILD_KIND_NONE \<or> \<not> spawn_room ps")
  case True
  with assms process64_spawn_child_fail show ?thesis by simp
next
  case False
  then obtain r where r: "process_record ps parent = Some r" by (auto simp: process_record_def)
  have cnt: "g_process64_clone_count ps < 16" using False spawn_room_count assms(1) by blast
  show ?thesis
    using spawn_records(3) [OF assms(1,2) cnt _ r, of kind name q] False assms(3) r
    by (auto simp: process64_persona_ctx_def record_field_def spawned_record_def
      process64_clear_record_def bump_child_count_def split: if_splits)
qed

lemma persona_ctx_release:
  assumes "process_inv ps"
    and "process64_persona_ctx (snd (process64_release_clone pid ps)) q = Some i"
  shows "process64_persona_ctx ps q = Some i"
proof (cases "first_index (clone_has_pid pid) (g_process64_clone_records ps)")
  case None
  with assms show ?thesis by (simp add: process64_release_clone_None)
next
  case (Some c)
  have live: "Child c \<in> set (live_refs ps)" "p_pid (proc_at ps (Child c)) = pid"
    using first_index_SomeD(1,2) [OF Some] by (simp_all add: clone_has_pid_def)
  have "process_record ps pid = Some (proc_at ps (Child c))"
    by (rule process_record_eq [OF assms(1) live])
  moreover have "PROCESS64_CLONE_PID_BASE \<le> pid"
    using process_invD(3) [OF assms(1), of c] live by (auto simp: clone_ok_def)
  ultimately show ?thesis
    using release_records(3) [OF assms(1), of pid _ q] assms(2)
    by (auto simp: process64_persona_ctx_def record_field_def drop_child_count_def
      split: if_splits option.splits)
qed

lemma persona_ctx_slot_ops:
  "process64_persona_ctx (snd (process64_attach_vma pid c ps)) q = process64_persona_ctx ps q"
  "process64_persona_ctx (snd (process64_detach_vma pid ps)) q = process64_persona_ctx ps q"
  "process64_persona_ctx (snd (process64_attach_fd pid c ps)) q = process64_persona_ctx ps q"
  "process64_persona_ctx (snd (process64_detach_fd pid ps)) q = process64_persona_ctx ps q"
  "process64_persona_ctx (snd (process64_attach_audit pid c ps)) q = process64_persona_ctx ps q"
  "process64_persona_ctx (snd (process64_detach_audit pid ps)) q = process64_persona_ctx ps q"
  by (simp_all add: slot_ops process64_attach_slot_def process64_detach_slot_def persona_ctx_upd
    keeps_identity_def put_defs split: option.split)

lemma process_record_counters [simp]:
  "process_record (ps\<lparr>g_process64_page_root_attach_count := n\<rparr>) = process_record ps"
  "process_record (ps\<lparr>g_process64_page_root_clear_count := n\<rparr>) = process_record ps"
  "process_record (ps\<lparr>g_process64_page_root_denial_count := n\<rparr>) = process_record ps"
proof -
  have at: "proc_at (ps\<lparr>g_process64_page_root_attach_count := n\<rparr>) = proc_at ps"
    "proc_at (ps\<lparr>g_process64_page_root_clear_count := n\<rparr>) = proc_at ps"
    "proc_at (ps\<lparr>g_process64_page_root_denial_count := n\<rparr>) = proc_at ps"
    by (rule ext, case_tac x, simp_all)+
  show "process_record (ps\<lparr>g_process64_page_root_attach_count := n\<rparr>) = process_record ps"
    "process_record (ps\<lparr>g_process64_page_root_clear_count := n\<rparr>) = process_record ps"
    "process_record (ps\<lparr>g_process64_page_root_denial_count := n\<rparr>) = process_record ps"
    by (rule ext; simp add: process_record_def process64_find_def at cong: option.case_cong)+
qed

lemma persona_ctx_other_ops:
  "process64_persona_ctx (snd (process64_attach_page_root pid r i t a ps)) q = process64_persona_ctx ps q"
  "process64_persona_ctx (snd (process64_clear_page_root pid t ps)) q = process64_persona_ctx ps q"
  "process64_persona_ctx (snd (process64_mark_child_exited pid code ps)) q = process64_persona_ctx ps q"
proof -
  have count: "process64_persona_ctx (ps\<lparr>g_process64_page_root_attach_count := n\<rparr>) q = process64_persona_ctx ps q"
    "process64_persona_ctx (ps\<lparr>g_process64_page_root_clear_count := n\<rparr>) q = process64_persona_ctx ps q"
    "process64_persona_ctx (ps\<lparr>g_process64_page_root_denial_count := n\<rparr>) q = process64_persona_ctx ps q" for ps n
    by (simp_all add: process64_persona_ctx_def record_field_def)
  show "process64_persona_ctx (snd (process64_attach_page_root pid r i t a ps)) q = process64_persona_ctx ps q"
    "process64_persona_ctx (snd (process64_clear_page_root pid t ps)) q = process64_persona_ctx ps q"
    "process64_persona_ctx (snd (process64_mark_child_exited pid code ps)) q = process64_persona_ctx ps q"
    by (simp_all add: process64_attach_page_root_def process64_clear_page_root_def
      process64_mark_child_exited_def Let_def count persona_ctx_upd keeps_identity_def split: option.split)
qed

lemma process_step_persona:
  assumes "process_inv (k_proc k)" and "persona_ok (Proc x) k"
    and "process64_persona_ctx (process_step x (k_proc k)) q = Some i"
  shows "process64_persona_ctx (k_proc k) q = Some i"
  using assms persona_slot.detach_record [of _ "k_proc k" q]
  by (cases x) (auto simp: persona_ctx_slot_ops persona_ctx_other_ops process64_spawn_clone_def
      process64_spawn_fork_def dest: persona_ctx_spawn persona_ctx_release, 
    auto simp: slot_ops process64_persona_ctx_def record_field_def put_persona_def
      split: if_splits option.splits)

lemma persona_ok_Proc: "persona_ok (Proc x) k \<Longrightarrow> process_ok x (k_proc k)"
  by (cases x) simp_all

lemma persona_inv_proc:
  assumes "persona_inv k" "process_inv (k_proc k)" "persona_ok (Proc x) k"
  shows "persona_inv (k\<lparr>k_proc := process_step x (k_proc k)\<rparr>)"
  using assms(1) process_step_persona [OF assms(2,3)]
  unfolding persona_inv_def by (simp add: ctx_def) blast

lemma budget_check_inv: "persona_inv k \<Longrightarrow> persona_inv (snd (budget_check kind cur lim pid n k))"
  by (auto simp: budget_check_def persona64_budget_record_denial_def Let_def intro!: persona_inv_upd
    split: option.splits)

lemma budget_check_proc [simp]: "k_proc (snd (budget_check kind cur lim pid n k)) = k_proc k"
  by (simp add: budget_check_def persona64_budget_record_denial_def Let_def split: option.splits)

lemma can_signal_inv:
  "persona_inv k \<Longrightarrow> persona_inv (snd (persona64_can_signal s t k))"
  "k_proc (snd (persona64_can_signal s t k)) = k_proc k"
  by (auto simp: persona64_can_signal_def Let_def persona64_record_signal_isolation_def
    intro!: persona_inv_upd split: option.split)

lemma commit_pipe_inv:
  assumes "persona_inv k"
  shows "persona_inv (snd (persona64_budget_commit_pipe pid n k))"
    and "k_proc (snd (persona64_budget_commit_pipe pid n k)) = k_proc k"
proof -
  obtain ok k1 where k1: "persona64_budget_check_pipe pid n k = (ok, k1)" by fastforce
  then have "persona_inv k1" "k_proc k1 = k_proc k"
    unfolding persona64_budget_check_pipe_def
    using budget_check_inv [OF assms] by (metis snd_conv, metis snd_conv budget_check_proc)
  then show "persona_inv (snd (persona64_budget_commit_pipe pid n k))"
    "k_proc (snd (persona64_budget_commit_pipe pid n k)) = k_proc k"
    using assms
    by (cases ok; auto simp: persona64_budget_commit_pipe_def k1 intro!: persona_inv_upd split: option.split)+
qed

lemma persona_inv_step:
  assumes "persona_inv k \<and> process_inv (k_proc k)" and "persona_ok x k"
  shows "persona_inv (persona_step x k) \<and> process_inv (k_proc (persona_step x k))"
proof (cases x)
  case (Proc y)
  with assms persona_inv_proc process_inv_step persona_ok_Proc show ?thesis by fastforce
next
  case (Commit_pipe pid n)
  with assms show ?thesis by (simp add: commit_pipe_inv)
next
  case (Can_signal s t)
  with assms show ?thesis by (simp add: can_signal_inv)
qed (use assms in
  \<open>auto simp: init_inv init_native_inv release_inv persona64_configure_resource_budgets_def persona64_budget_check_vma_pages_def
    persona64_budget_check_fd_def persona64_budget_release_pipe_def persona64_set_process_group_def
    split: option.split intro!: persona_inv_upd budget_check_inv\<close>)

interpretation persona_machine: op_machine persona_step persona_ok
  "\<lambda>k. persona_inv k \<and> process_inv (k_proc k)"
  by unfold_locales (rule persona_inv_step)

section \<open>Properties\<close>

text \<open>The boot state: seeded processes, and the context table that \<^verbatim>\<open>persona64_init\<close> makes of zeroed memory.\<close>

definition persona_zero :: persona_context where
  "persona_zero =
    \<lparr>pc_persona_type = 0, pc_pid = 0, pc_syscall_dispatch_table = No_table, pc_vma_root = None,
     pc_fd_table = None, pc_tls_base = 0, pc_tls_size = 0, pc_clear_child_tid = 0, pc_brk_base = 0,
     pc_brk_current = 0, pc_heap_cap = 0, pc_persona_module_handle = 0, pc_audit_context = None,
     pc_capability_attenuation_mask = 0, pc_load_bias_low = 0, pc_windows = windows_zero,
     pc_windows_image_path_ascii_bytes = 0,
     pc_windows_image_path_ascii = replicate PERSONA64_WINDOWS_IMAGE_PATH_MAX_BYTES 0,
     pc_windows_handle_table = None,
     pc_dynamic = \<lparr>linux_dynamic_base = 0, linux_dynamic_dl_start = 0, linux_dynamic_dlsym = 0,
       linux_dynamic_dlerror = 0, linux_dynamic_symbol_count = 0, linux_dynamic_checksum = 0,
       linux_dynamic_needed_count = 0, linux_dynamic_missing_count = 0\<rparr>,
     pc_libc = \<lparr>linux_libc_base = 0, linux_libc_write = 0, linux_libc_read = 0, linux_libc_exit = 0,
       linux_libc_strlen = 0, linux_libc_envp = 0, linux_libc_envc = 0, linux_libc_environment_bound = 0,
       linux_libc_symbol_count = 0, linux_libc_checksum = 0, linux_libc_unavailable_count = 0\<rparr>,
     pc_budget = \<lparr>vma_page_budget = 0, fd_budget = 0, pipe_budget = 0, pipe_count = 0,
       budget_denial_count = 0, budget_last_kind = PERSONA64_BUDGET_KIND_NONE,
       budget_last_requested = 0, budget_last_limit = 0\<rparr>,
     pc_isolation = \<lparr>process_group_id = 0, isolation_denial_count = 0, isolation_last_source_pid = 0,
       isolation_last_target_pid = 0, isolation_last_source_group = 0, isolation_last_target_group = 0,
       isolation_last_result = PERSONA64_ISOLATION_RESULT_OK\<rparr>,
     pc_linux = \<lparr>linux_cwd_length = 0, linux_cwd = replicate PERSONA64_LINUX_CWD_MAX_BYTES 0,
       linux_comm = replicate PERSONA64_LINUX_COMM_BYTES 0, linux_signal_pending = 0,
       linux_signal_mask = 0, linux_sigactions = replicate LINUX_SIGNAL64_MAX_SIGNALS
         \<lparr>sa_handler = 0, sa_mask = 0, sa_flags = 0, sa_restorer = 0\<rparr>\<rparr>\<rparr>"

definition persona_bss :: persona_state where
  "persona_bss = \<lparr>g_persona64_contexts = replicate PERSONA64_MAX_CONTEXTS persona_zero,
     g_persona64_context_used = replicate PERSONA64_MAX_CONTEXTS False,
     g_persona64_initialized = False, g_persona64_native_count = 0, g_persona64_denial_count = 0\<rparr>"

definition kernel_boot :: kernel_persona where
  "kernel_boot = \<lparr>k_launch = [], k_proc = process64_seed_records, k_persona = persona64_init persona_bss\<rparr>"

lemma seed_slots_empty: "process64_persona_ctx process64_seed_records pid = None"
proof (cases "process_record process64_seed_records pid")
  case None
  then show ?thesis by (simp add: process64_persona_ctx_def record_field_def)
next
  case (Some r)
  then have "r \<in> set (g_processes process64_seed_records) \<union> set (g_process64_clone_records process64_seed_records)"
    by (auto simp: process_record_def process64_find_def first_index_Some_iff split: option.splits)
  then have "p_persona_ctx r = None"
    by (auto simp: process64_seed_records_def g_process_seeds_def process64_clear_record_def)
  with Some show ?thesis by (simp add: process64_persona_ctx_def record_field_def)
qed

lemma kernel_boot_inv: "persona_inv kernel_boot \<and> process_inv (k_proc kernel_boot)"
  using process_inv_seed
  by (simp add: kernel_boot_def persona_inv_def persona64_init_def persona_bss_def seed_slots_empty)

text \<open>
  C11: From boot, after any sequence of process and persona operations (spawns before the pid
  counter wraps), two different processes never have the same persona context, and an attached
  context is one of the 32 table slots, is marked used, and carries the pid of its process.
\<close>

theorem persona_contexts_never_shared:
  assumes "all_ok persona_ok persona_step ops kernel_boot"
    and "persona64_context_for_process (run_ops persona_step ops kernel_boot) p = Some i"
  shows "i < 32 \<and> g_persona64_context_used (k_persona (run_ops persona_step ops kernel_boot)) ! i
    \<and> pc_pid (ctx (run_ops persona_step ops kernel_boot) i) = p
    \<and> (\<forall>q. persona64_context_for_process (run_ops persona_step ops kernel_boot) q = Some i \<longrightarrow> q = p)"
proof -
  have inv: "persona_inv (run_ops persona_step ops kernel_boot)"
    using persona_machine.inv_run [OF kernel_boot_inv assms(1)] by simp
  show ?thesis
    using persona_invD [OF inv assms(2)] persona_ctx_inj [OF inv _ assms(2)]
    by (simp add: PERSONA64_MAX_CONTEXTS_def)
qed

theorem persona_contexts_never_shared_witness:
  "pc_pid (ctx (run_ops persona_step
     [Init_native 4, Proc (Spawn_fork 4), Init_linux 0x2000 (Injected 7), Release_persona 4, Init_windows 5 No_table]
     kernel_boot) 0) = 5"
proof -
  let ?ops = "[Init_native 4, Proc (Spawn_fork 4), Init_linux 0x2000 (Injected 7), Release_persona 4,
    Init_windows 5 No_table]"
  have "all_ok persona_ok persona_step ?ops kernel_boot" by code_simp
  moreover have "persona64_context_for_process (run_ops persona_step ?ops kernel_boot) 5 = Some 0" by code_simp
  ultimately show ?thesis using persona_contexts_never_shared [of ?ops 5 0] by blast
qed

subsection \<open>Budgets\<close>

lemma persona64_budget_sum_saturates:
  "unat (persona64_budget_sum a b) = min (unat a + unat b) 0xFFFFFFFF"
proof (cases "0xFFFFFFFF - a < b")
  case True
  then have "unat (0xFFFFFFFF - a) < unat b" by (simp add: word_less_nat_alt)
  moreover have "unat (0xFFFFFFFF - a) = 0xFFFFFFFF - unat a"
    by (subst unat_sub) (simp_all add: word_le_nat_alt unat_le_u32_max)
  ultimately show ?thesis using True by (simp add: persona64_budget_sum_def)
next
  case False
  then have "unat b \<le> unat (0xFFFFFFFF - a)" by (simp add: word_less_nat_alt)
  moreover have "unat (0xFFFFFFFF - a) = 0xFFFFFFFF - unat a"
    by (subst unat_sub) (simp_all add: word_le_nat_alt unat_le_u32_max)
  ultimately have le: "unat a + unat b \<le> 0xFFFFFFFF" using unat_le_u32_max [of a] by simp
  then have "unat (a + b) = unat a + unat b" by (simp add: unat_word_ariths)
  with False le show ?thesis by (simp add: persona64_budget_sum_def)
qed

lemma budget_exceeded_iff:
  assumes "limit < u32_max"
  shows "persona64_budget_sum current n > limit \<or> current > limit \<longleftrightarrow> unat limit < unat current + unat n"
proof -
  have "unat limit < 0xFFFFFFFF" using assms by (simp add: word_less_nat_alt)
  then show ?thesis by (auto simp: word_less_nat_alt persona64_budget_sum_saturates min_def)
qed

lemma budget_exceeded_cases:
  "persona64_budget_sum current n > limit \<or> current > limit \<longleftrightarrow>
     limit \<noteq> u32_max \<and> unat limit < unat current + unat n"
proof (cases "limit = u32_max")
  case True
  then show ?thesis using unat_le_u32_max by (auto simp: word_less_nat_alt not_less)
next
  case False
  then have "limit < u32_max" using unat_le_u32_max [of limit] by (simp add: word_less_nat_alt word_unat_eq_iff)
  from budget_exceeded_iff [OF this] False show ?thesis by simp
qed

lemma budget_check_iff:
  assumes "persona64_context_for_process k pid = Some i" and "lim (ctx k i) < u32_max"
  shows "fst (budget_check kind cur lim pid n k)
    \<longleftrightarrow> n = 0 \<or> unat (cur (ctx k i)) + unat n \<le> unat (lim (ctx k i))"
  using assms budget_exceeded_iff [OF assms(2), of "cur (ctx k i)" n]
  by (auto simp: budget_check_def Let_def not_less)

text \<open>
  C22: For an attached persona whose limits are below the all-ones value, each budget check accepts
  a non-empty request exactly when the current use plus the request fits the limit, with the sum
  taken over the natural numbers: no 32-bit wrap-around lets a large request through.
\<close>

theorem persona64_budget_checks_exact:
  assumes "persona64_context_attached k pid" and "n \<noteq> 0"
    and "persona64_vma_page_budget k pid < u32_max" and "persona64_fd_budget k pid < u32_max"
    and "persona64_pipe_budget k pid < u32_max"
  shows "(fst (persona64_budget_check_vma_pages pid current n k)
        \<longleftrightarrow> unat current + unat n \<le> unat (persona64_vma_page_budget k pid))
    \<and> (fst (persona64_budget_check_fd pid current n k)
        \<longleftrightarrow> unat current + unat n \<le> unat (persona64_fd_budget k pid))
    \<and> (fst (persona64_budget_check_pipe pid n k)
        \<longleftrightarrow> unat (persona64_pipe_count k pid) + unat n \<le> unat (persona64_pipe_budget k pid))"
proof -
  obtain i where i: "persona64_context_for_process k pid = Some i"
    using assms(1) by (auto simp: persona64_context_attached_def)
  with assms(2-) show ?thesis
    by (simp add: persona64_budget_check_vma_pages_def persona64_budget_check_fd_def
      persona64_budget_check_pipe_def kernel_defs ctx_field_def budget_check_iff [OF i])
qed

theorem persona64_budget_checks_exact_witness:
  "\<not> fst (persona64_budget_check_fd 4 1020 5 (snd (persona64_init_native 4 kernel_boot)))"
proof -
  let ?k = "snd (persona64_init_native 4 kernel_boot)"
  have "persona64_context_attached ?k 4" "persona64_vma_page_budget ?k 4 < u32_max"
    "persona64_fd_budget ?k 4 < u32_max" "persona64_pipe_budget ?k 4 < u32_max"
    "\<not> unat (1020 :: u32) + unat (5 :: u32) \<le> unat (persona64_fd_budget ?k 4)"
    by code_simp+
  then show ?thesis using persona64_budget_checks_exact [of ?k 4 5 1020] by simp
qed

text \<open>
  C23: Committing \<open>n\<close> pipes against an attached persona succeeds exactly when \<open>n\<close> is zero, the pipe
  budget is the all-ones value, or the present count plus \<open>n\<close>, added without wrap-around, is within the
  budget. Success adds \<open>n\<close> to the count, which stops at the all-ones value and, unless \<open>n\<close> is zero, is
  then within the budget; a release of the same number takes it back, unless the count had stopped
  there. A refusal leaves the count alone and records one more denial of kind pipe with the limit.
\<close>

theorem persona64_budget_commit_pipe_accounts:
  assumes "persona_inv k" and "persona64_context_attached k pid"
    and "persona64_budget_commit_pipe pid n k = (ok, k1)"
  shows "(ok \<longleftrightarrow> n = 0 \<or> persona64_pipe_budget k pid = u32_max
         \<or> unat (persona64_pipe_count k pid) + unat n \<le> unat (persona64_pipe_budget k pid))
    \<and> (ok \<longrightarrow> unat (persona64_pipe_count k1 pid) = min (unat (persona64_pipe_count k pid) + unat n) (2 ^ 32 - 1)
         \<and> (n \<noteq> 0 \<longrightarrow> persona64_pipe_count k1 pid \<le> persona64_pipe_budget k pid)
         \<and> (unat (persona64_pipe_count k pid) + unat n < 2 ^ 32 \<longrightarrow>
              persona64_pipe_count (persona64_budget_release_pipe pid n k1) pid = persona64_pipe_count k pid))
    \<and> (\<not> ok \<longrightarrow> persona64_pipe_count k1 pid = persona64_pipe_count k pid
         \<and> persona64_budget_denial_count k1 pid = persona64_budget_denial_count k pid + 1
         \<and> persona64_budget_last_kind k1 pid = PERSONA64_BUDGET_KIND_PIPE
         \<and> persona64_budget_last_limit k1 pid = persona64_pipe_budget k pid)"
proof -
  obtain i where i: "persona64_context_for_process k pid = Some i"
    using assms(2) by (auto simp: persona64_context_attached_def)
  note len = persona_invD(2) [OF assms(1) i]
  let ?b = "pc_budget (ctx k i)"
  let ?sum = "persona64_budget_sum (pipe_count ?b) n"
  have rd: "persona64_pipe_count k pid = pipe_count ?b" "persona64_pipe_budget k pid = pipe_budget ?b"
    using i by (simp_all add: kernel_defs ctx_field_def)
  note sat = persona64_budget_sum_saturates [of "pipe_count ?b" n]
  have ex: "?sum > pipe_budget ?b \<or> pipe_count ?b > pipe_budget ?b \<longleftrightarrow>
      pipe_budget ?b \<noteq> u32_max \<and> unat (pipe_budget ?b) < unat (pipe_count ?b) + unat n"
    by (rule budget_exceeded_cases)
  show ?thesis
  proof (cases "n \<noteq> 0 \<and> (?sum > pipe_budget ?b \<or> pipe_count ?b > pipe_budget ?b)")
    case True
    then have "ok = False" "k1 = persona64_budget_record_denial i PERSONA64_BUDGET_KIND_PIPE ?sum (pipe_budget ?b) k"
      using assms(3) i
      by (auto simp: persona64_budget_commit_pipe_def persona64_budget_check_pipe_def budget_check_def Let_def)
    with True ex i len show ?thesis
      by (simp add: kernel_defs ctx_field_def persona64_budget_record_denial_def ctx_upd_ctx)
  next
    case False
    then have "persona64_budget_check_pipe pid n k = (True, k)"
      using i by (auto simp: persona64_budget_check_pipe_def budget_check_def Let_def)
    then have ok: "ok = True" and k1: "k1 = upd_ctx i (\<lambda>c. c\<lparr>pc_budget := (pc_budget c)
              \<lparr>pipe_count := persona64_budget_sum (pipe_count (pc_budget c)) n\<rparr>\<rparr>) k"
      using assms(3) i by (simp_all add: persona64_budget_commit_pipe_def)
    have within: "n = 0 \<or> pipe_budget ?b = u32_max \<or> unat (pipe_count ?b) + unat n \<le> unat (pipe_budget ?b)"
      using False ex by auto
    have stored: "persona64_pipe_count k1 pid = ?sum"
      using i len by (simp add: k1 kernel_defs ctx_field_def ctx_upd_ctx)
    have undo: "persona64_pipe_count (persona64_budget_release_pipe pid n k1) pid = pipe_count ?b"
      if "unat (pipe_count ?b) + unat n < 2 ^ 32"
    proof -
      have "unat ?sum = unat (pipe_count ?b) + unat n" using that sat by simp
      then have "?sum - n = pipe_count ?b" "n \<le> ?sum"
        by (simp_all add: word_le_nat_alt word_unat_eq_iff unat_sub_if')
      moreover have "?sum = pipe_count ?b" if "n = 0" using that by (simp add: persona64_budget_sum_def)
      ultimately show ?thesis
        using i len by (simp add: k1 kernel_defs ctx_field_def ctx_upd_ctx persona64_budget_release_pipe_def)
    qed
    have "n \<noteq> 0 \<longrightarrow> ?sum \<le> pipe_budget ?b" using False by auto
    with ok within stored undo sat show ?thesis by (simp add: rd)
  qed
qed

theorem persona64_budget_commit_pipe_accounts_witness:
  "persona64_pipe_count (snd (persona64_budget_commit_pipe 4 3 (snd (persona64_init_native 4 kernel_boot)))) 4 = 3"
proof -
  let ?k = "snd (persona64_init_native 4 kernel_boot)"
  have inv: "persona_inv ?k" using init_native_inv kernel_boot_inv by blast
  have "persona64_context_attached ?k 4"
    "fst (persona64_budget_commit_pipe 4 3 ?k)" "unat (persona64_pipe_count ?k 4) + unat (3 :: u32) = 3"
    by code_simp+
  moreover obtain ok k1 where e: "persona64_budget_commit_pipe 4 3 ?k = (ok, k1)" by fastforce
  ultimately have "unat (persona64_pipe_count k1 4) = 3"
    using persona64_budget_commit_pipe_accounts [OF inv, of 4 3 ok k1] by simp
  then show ?thesis by (simp add: e word_unat_eq_iff)
qed

subsection \<open>Signal isolation\<close>

lemma upd_isolation_frame:
  assumes "persona_inv k" and "persona64_context_for_process k source = Some i"
  shows "ctx_field f d (upd_ctx i (\<lambda>c. c\<lparr>pc_isolation := g c\<rparr>) k) q =
    (if q = source then f ((ctx k i)\<lparr>pc_isolation := g (ctx k i)\<rparr>) else ctx_field f d k q)"
proof (cases "persona64_context_for_process k q")
  case None
  with assms show ?thesis by (auto simp: ctx_field_def)
next
  case (Some j)
  have "q = source" if "j = i"
    using persona_ctx_inj [OF assms(1), of q i source] Some assms(2) that by simp
  moreover have "j = i" if "q = source" using Some assms(2) that by simp
  ultimately have "(j = i) = (q = source)" by blast
  then show ?thesis
    using Some persona_invD(2) [OF assms] by (cases "q = source") (simp_all add: ctx_field_def ctx_upd_ctx)
qed

lemma record_isolation_frame:
  assumes "persona_inv k" and "persona64_context_for_process k source = Some i"
  shows "persona64_type (persona64_record_signal_isolation i source target g result k) = persona64_type k"
    and "persona64_process_group (persona64_record_signal_isolation i source target g result k)
      = persona64_process_group k"
    and "persona64_isolation_denial_count (persona64_record_signal_isolation i source target g result k) q
      = persona64_isolation_denial_count k q
        + (if q = source \<and> result \<noteq> PERSONA64_ISOLATION_RESULT_OK then 1 else 0)"
proof -
  have srcw: "ctx_field f d k source = f (ctx k i)" for f :: "persona_context \<Rightarrow> u32" and d
    using assms(2) by (simp add: ctx_field_def)
  note frame = upd_isolation_frame [OF assms]
  show "persona64_type (persona64_record_signal_isolation i source target g result k) = persona64_type k"
    "persona64_process_group (persona64_record_signal_isolation i source target g result k)
      = persona64_process_group k"
    "persona64_isolation_denial_count (persona64_record_signal_isolation i source target g result k) q
      = persona64_isolation_denial_count k q
        + (if q = source \<and> result \<noteq> PERSONA64_ISOLATION_RESULT_OK then 1 else 0)"
    by (auto simp: fun_eq_iff persona64_record_signal_isolation_def kernel_defs frame srcw)
qed

definition signal_allowed :: "'a kernel_persona_scheme \<Rightarrow> u32 \<Rightarrow> u32 \<Rightarrow> bool" where
  "signal_allowed k source target \<longleftrightarrow>
     persona64_context_attached k source \<and> persona64_context_attached k target
   \<and> (source = target
      \<or> persona64_type k source = persona64_type k target
        \<and> persona64_process_group k source \<noteq> PERSONA64_PROCESS_GROUP_NONE
        \<and> persona64_process_group k source = persona64_process_group k target)"

text \<open>
  C24: Between live processes the direct-signal check allows a signal exactly when both ends have
  a persona and are the same process, or have the same persona type and the same non-empty process
  group, and the answer is symmetric. Asking changes no type and no process group, and leaves the whole
  context of every process other than the source as it was. In the context of the source only the
  isolation record changes: it names both ends with their groups and the result, and counts one more
  denial on refusal.
\<close>

theorem persona64_can_signal_isolates:
  assumes "persona_inv k" and "process64_principal (k_proc k) source \<noteq> 0"
    and "process64_principal (k_proc k) target \<noteq> 0"
    and "source \<noteq> PROCESS64_INVALID_PID" and "target \<noteq> PROCESS64_INVALID_PID"
    and "persona64_can_signal source target k = ((allowed, result), k1)"
  shows "(allowed \<longleftrightarrow> signal_allowed k source target)
    \<and> (allowed \<longleftrightarrow> result = PERSONA64_ISOLATION_RESULT_OK)
    \<and> (allowed \<longleftrightarrow> fst (fst (persona64_can_signal target source k)))
    \<and> persona64_type k1 = persona64_type k \<and> persona64_process_group k1 = persona64_process_group k
    \<and> persona64_context_for_process k1 = persona64_context_for_process k
    \<and> (\<forall>q j. q \<noteq> source \<and> persona64_context_for_process k q = Some j \<longrightarrow> ctx k1 j = ctx k j)
    \<and> (\<forall>i. persona64_context_for_process k source = Some i \<longrightarrow>
         ctx k1 i = (ctx k i)\<lparr>pc_isolation := (pc_isolation (ctx k i))
           \<lparr>isolation_last_source_pid := source, isolation_last_target_pid := target,
            isolation_last_source_group := persona64_process_group k source,
            isolation_last_target_group := persona64_process_group k target,
            isolation_last_result := result,
            isolation_denial_count := persona64_isolation_denial_count k source + (if allowed then 0 else 1)\<rparr>\<rparr>)"
proof (cases "persona64_context_for_process k source")
  case None
  with assms show ?thesis
    by (auto simp: persona64_can_signal_def signal_allowed_def persona64_context_attached_def kernel_defs
      ctx_field_def Let_def split: option.splits)
next
  case (Some s)
  let ?group = "case persona64_context_for_process k target of None \<Rightarrow> PERSONA64_PROCESS_GROUP_NONE
    | Some t \<Rightarrow> process_group_id (pc_isolation (ctx k t))"
  have eq: "allowed = signal_allowed k source target" "(allowed \<longleftrightarrow> result = PERSONA64_ISOLATION_RESULT_OK)"
      "k1 = persona64_record_signal_isolation s source target ?group result k"
    using assms(2-) Some
    by (auto simp: persona64_can_signal_def signal_allowed_def persona64_context_attached_def kernel_defs
      ctx_field_def Let_def split: option.splits if_splits)
  have sym: "fst (fst (persona64_can_signal target source k)) = signal_allowed k target source"
    using assms(2-5) Some
    by (auto simp: persona64_can_signal_def signal_allowed_def persona64_context_attached_def kernel_defs
      ctx_field_def Let_def split: option.splits)
  then have sym': "allowed \<longleftrightarrow> fst (fst (persona64_can_signal target source k))"
    using eq(1) by (auto simp: signal_allowed_def)
  have frame: "persona64_type k1 = persona64_type k" "persona64_process_group k1 = persona64_process_group k"
    "persona64_context_for_process k1 = persona64_context_for_process k"
    by (simp_all add: eq(3) record_isolation_frame [OF assms(1) Some])
      (simp add: persona64_record_signal_isolation_def fun_eq_iff)
  have c: "ctx k1 j = (if j = s then (ctx k s)\<lparr>pc_isolation := (pc_isolation (ctx k s))
           \<lparr>isolation_last_source_pid := source, isolation_last_target_pid := target,
            isolation_last_source_group := persona64_process_group k source,
            isolation_last_target_group := persona64_process_group k target,
            isolation_last_result := result,
            isolation_denial_count := persona64_isolation_denial_count k source + (if allowed then 0 else 1)\<rparr>\<rparr>
      else ctx k j)" for j
    using eq(2) Some persona_invD(2) [OF assms(1) Some]
    by (simp add: eq(3) persona64_record_signal_isolation_def ctx_upd_ctx kernel_defs ctx_field_def)
  have "j \<noteq> s" if "q \<noteq> source" "persona64_context_for_process k q = Some j" for q j
    using persona_ctx_inj [OF assms(1), of q s source] that Some by auto
  then have other: "\<forall>q j. q \<noteq> source \<and> persona64_context_for_process k q = Some j \<longrightarrow> ctx k1 j = ctx k j"
    using c by metis
  show ?thesis
    by (rule conjI [OF eq(1)]) (use eq(2) sym' frame other c [of s] Some in simp)
qed

theorem persona64_can_signal_isolates_witness:
  "\<not> fst (fst (persona64_can_signal 4 5 (run_ops persona_step
      [Init_linux 4 (Injected 1), Init_windows 5 No_table, Set_group 4 9, Set_group 5 9] kernel_boot)))"
proof -
  let ?ops = "[Init_linux 4 (Injected 1), Init_windows 5 No_table, Set_group 4 9, Set_group 5 9]"
  let ?k = "run_ops persona_step ?ops kernel_boot"
  have "all_ok persona_ok persona_step ?ops kernel_boot" by code_simp
  then have inv: "persona_inv ?k" using persona_machine.inv_run [OF kernel_boot_inv] by blast
  have facts: "process64_principal (k_proc ?k) 4 \<noteq> 0" "process64_principal (k_proc ?k) 5 \<noteq> 0"
    "\<not> signal_allowed ?k 4 5"
    by code_simp+
  obtain a r k1 where e: "persona64_can_signal 4 5 ?k = ((a, r), k1)" by (metis prod.collapse)
  have "a = signal_allowed ?k 4 5"
    using persona64_can_signal_isolates [OF inv facts(1,2) _ _ e] by simp
  with facts(3) e show ?thesis by simp
qed

subsection \<open>Reuse of contexts\<close>

text \<open>
  C25: Clearing a context leaves the environment fields of its libc block in place. Whatever environment
  the Linux library layer has bound in the context of a process, when the process releases its persona
  and another process then attaches a Linux persona and is given the same context, the new process starts
  with the old environment pointer, count and bound flag, though every address of the library in the
  block has been cleared.
\<close>

theorem persona64_context_reuse_keeps_environment:
  assumes inv: "persona_inv k" "process_inv (k_proc k)"
    and old: "persona64_context_for_process k pid = Some i"
    and released: "persona64_release pid k = (True, k1)"
    and attached: "persona64_init_linux_elf pid' table k1 = (True, k2)"
    and reused: "persona64_context_for_process k2 pid' = Some i"
  shows "\<not> persona64_context_attached k1 pid \<and> \<not> persona64_context_attached k1 pid'
    \<and> persona64_type k2 pid' = PERSONA64_TYPE_LINUX_ELF
    \<and> pc_libc (ctx k2 i) = (pc_libc (ctx k i))
       \<lparr>linux_libc_base := 0, linux_libc_write := 0, linux_libc_read := 0, linux_libc_exit := 0,
        linux_libc_strlen := 0, linux_libc_symbol_count := 0, linux_libc_checksum := 0,
        linux_libc_unavailable_count := 0\<rparr>
    \<and> linux_libc_envp (pc_libc (ctx k2 i)) = linux_libc_envp (pc_libc (ctx k i))
    \<and> linux_libc_envc (pc_libc (ctx k2 i)) = linux_libc_envc (pc_libc (ctx k i))
    \<and> linux_libc_environment_bound (pc_libc (ctx k2 i)) = linux_libc_environment_bound (pc_libc (ctx k i))"
proof -
  have live: "pid \<noteq> PROCESS64_INVALID_PID" "process64_principal (k_proc k) pid \<noteq> 0"
    using released by (auto simp: persona64_release_def split: if_splits)
  note rel = persona64_release_ok [OF inv(1) old live, unfolded released snd_conv]
  have inv1: "persona_inv k1" using release_inv [OF inv, of pid] released by simp
  define prep where "prep = (\<lambda>c. (persona_common (k_proc k1) pid' PERSONA64_TYPE_LINUX_ELF table c)
             \<lparr>pc_windows := windows_zero, pc_linux := linux_task_root (pc_linux c)\<rparr>)"
  have att: "persona64_attach_with pid' (persona_refused k1 pid' \<or> table = No_table) prep k1 = (True, k2)"
    using attached by (simp add: persona64_init_linux_elf_def prep_def)
  have room: "\<not> persona_full k1" "\<not> persona_refused k1 pid'" "table \<noteq> No_table"
    using persona64_attach_with_fail [of "persona_refused k1 pid' \<or> table = No_table" k1 pid' prep] att by auto
  then have att': "persona64_attach_with pid' False prep k1 = (True, k2)" using att by simp
  obtain r where r: "process_record (k_proc k1) pid' = Some r" "p_persona_ctx r = None"
    using room(2) persona_ctx_None_record [of "k_proc k1" pid'] by (auto simp: persona_refused_def)
  obtain j where j: "persona64_context_for_process k2 pid' = Some j"
    "ctx k2 j = prep (fresh_context pid' (ctx k1 j))"
    using persona64_attach_with_ok [OF inv1 r room(1), of prep, unfolded att' snd_conv] by metis
  then have c: "ctx k2 i = prep (fresh_context pid' (persona64_clear_context (ctx k i)))"
    using reused rel(4) [of i] by simp
  have "pc_libc (ctx k2 i) = (pc_libc (ctx k i))
       \<lparr>linux_libc_base := 0, linux_libc_write := 0, linux_libc_read := 0, linux_libc_exit := 0,
        linux_libc_strlen := 0, linux_libc_symbol_count := 0, linux_libc_checksum := 0,
        linux_libc_unavailable_count := 0\<rparr>"
    by (simp add: c prep_def persona_common_def fresh_context_def persona64_apply_default_process_group_def
      persona64_apply_default_budgets_def persona64_clear_context_def)
  moreover have "persona64_type k2 pid' = PERSONA64_TYPE_LINUX_ELF"
    using reused c by (simp add: kernel_defs ctx_field_def prep_def persona_common_def)
  moreover have "persona64_context_for_process k1 pid' = None"
    using r by (simp add: persona64_context_for_process_def process64_persona_ctx_def record_field_def)
  ultimately show ?thesis using rel(3) [of pid] by (simp add: persona64_context_attached_def)
qed

theorem persona64_context_reuse_keeps_environment_witness:
  "\<exists>k1 k2 :: kernel_persona. persona64_release 4 k1 = (True, k2)
    \<and> ctx_field (\<lambda>c. linux_libc_envp (pc_libc c)) 0 (snd (persona64_init_linux_elf 5 (Injected 1) k2)) 5 = 0x7FFF00"
proof -
  define k where "k = upd_ctx 0 (\<lambda>c. c\<lparr>pc_libc := (pc_libc c)\<lparr>linux_libc_envp := 0x7FFF00,
      linux_libc_envc := 3, linux_libc_environment_bound := 1\<rparr>\<rparr>)
      (run_ops persona_step [Init_linux 4 (Injected 1)] kernel_boot)"
  let ?k0 = "run_ops persona_step [Init_linux 4 (Injected 1)] kernel_boot"
  have "all_ok persona_ok persona_step [Init_linux 4 (Injected 1)] kernel_boot" by code_simp
  then have "persona_inv ?k0 \<and> process_inv (k_proc ?k0)" using persona_machine.inv_run [OF kernel_boot_inv] by blast
  then have inv: "persona_inv k" "process_inv (k_proc k)"
    by (simp_all add: k_def persona_inv_upd del: run_ops.simps)
  define k1 where "k1 = snd (persona64_release 4 k)"
  define k2 where "k2 = snd (persona64_init_linux_elf 5 (Injected 1) k1)"
  have facts: "persona64_context_for_process k 4 = Some 0" "fst (persona64_release 4 k)"
    "fst (persona64_init_linux_elf 5 (Injected 1) k1)" "persona64_context_for_process k2 5 = Some 0"
    "linux_libc_envp (pc_libc (ctx k 0)) = 0x7FFF00"
    unfolding k2_def k1_def k_def by code_simp+
  have rel: "persona64_release 4 k = (True, k1)" "persona64_init_linux_elf 5 (Injected 1) k1 = (True, k2)"
    using facts(2,3) by (simp_all add: k1_def k2_def prod_eq_iff)
  have "linux_libc_envp (pc_libc (ctx k2 0)) = 0x7FFF00"
    using persona64_context_reuse_keeps_environment [OF inv facts(1) rel facts(4)] unfolding facts(5) by blast
  then have "ctx_field (\<lambda>c. linux_libc_envp (pc_libc c)) 0 k2 5 = 0x7FFF00"
    by (simp add: ctx_field_def facts(4))
  with rel(1) show ?thesis unfolding k2_def by (intro exI conjI)
qed

end
