(* ===== verification/Persona_Audit.thy ===== *)
theory Persona_Audit
  imports Persona_Inv
begin

text \<open>
  The persona audit log of \<^verbatim>\<open>kernel/arch/x86_64/persona_audit.c\<close>: sixteen contexts, each with a
  ring of 256 records and the last crash report, the syscall name and operation tables, and the
  entry point of \<^verbatim>\<open>persona.c\<close> that reports unavailable system calls to it.

  \<^verbatim>\<open>pit_get_ticks\<close> is the field \<open>k_ticks\<close> of the kernel state. The ring indices are natural
  numbers below 257 and keep the code's arithmetic modulo the capacity. The address-space queries
  of a crash report (\<^verbatim>\<open>vma.c\<close>) are the argument \<open>vma_view\<close>.
\<close>

definition PERSONA_AUDIT64_RING_CAPACITY :: nat where "PERSONA_AUDIT64_RING_CAPACITY = 256"
definition PERSONA_AUDIT64_MAX_CONTEXTS :: nat where "PERSONA_AUDIT64_MAX_CONTEXTS = 16"
definition PERSONA_AUDIT64_EVENT_SYSCALL_UNIMPLEMENTED :: u8 where
  "PERSONA_AUDIT64_EVENT_SYSCALL_UNIMPLEMENTED = 2"
definition PERSONA_AUDIT64_EVENT_SYSCALL_TRANSLATED :: u8 where
  "PERSONA_AUDIT64_EVENT_SYSCALL_TRANSLATED = 3"
definition PERSONA_AUDIT64_EVENT_CAPABILITY_DENIED :: u8 where
  "PERSONA_AUDIT64_EVENT_CAPABILITY_DENIED = 4"
definition PERSONA_AUDIT64_EVENT_CRASH :: u8 where "PERSONA_AUDIT64_EVENT_CRASH = 5"
definition PERSONA_AUDIT64_RESULT_DENY :: u32 where "PERSONA_AUDIT64_RESULT_DENY = 1"

lemmas audit_events = PERSONA_AUDIT64_EVENT_SYSCALL_UNIMPLEMENTED_def
  PERSONA_AUDIT64_EVENT_SYSCALL_TRANSLATED_def PERSONA_AUDIT64_EVENT_CAPABILITY_DENIED_def
  PERSONA_AUDIT64_EVENT_CRASH_def

datatype audit_operation =
    PERSONA_AUDIT64_OP_NONE | PERSONA_AUDIT64_OP_FILE_IO | PERSONA_AUDIT64_OP_MEMORY
  | PERSONA_AUDIT64_OP_PROCESS | PERSONA_AUDIT64_OP_TIME | PERSONA_AUDIT64_OP_FD
  | PERSONA_AUDIT64_OP_IPC | PERSONA_AUDIT64_OP_SIGNAL | PERSONA_AUDIT64_OP_RANDOM
  | PERSONA_AUDIT64_OP_SCHEDULER | PERSONA_AUDIT64_OP_VFS | PERSONA_AUDIT64_OP_REGISTRY
  | PERSONA_AUDIT64_OP_NT_OBJECT | PERSONA_AUDIT64_OP_MACH_PORT | PERSONA_AUDIT64_OP_UNAVAILABLE

record persona_audit64_record =
  ar_timestamp :: u64
  ar_pid :: u32
  ar_persona_type :: u8
  ar_event_type :: u8
  ar_event_code :: u16
  ar_result :: u32
  ar_syscall_name_token :: u32
  ar_translated_operation :: audit_operation
  ar_rip :: u64

record persona_audit64_crash_report =
  cr_timestamp :: u64
  cr_pid :: u32
  cr_persona_type :: u8
  cr_vector :: u16
  cr_abi_code :: u32
  cr_result :: u32
  cr_rip :: u64
  cr_rsp :: u64
  cr_error_code :: u64
  cr_fault_address :: u64
  cr_vma_region_count :: u32
  cr_vma_mapped_bytes :: u64
  cr_vma_first :: "(u64 \<times> u64 \<times> u32) option"
  cr_fault_region :: "(u64 \<times> u64 \<times> u32) option"

text \<open>
  The pairs of fields \<^verbatim>\<open>vma_dump_count\<close>/\<^verbatim>\<open>vma_first_*\<close> and
  \<^verbatim>\<open>fault_region_present\<close>/\<^verbatim>\<open>fault_region_*\<close> are the options \<open>cr_vma_first\<close> and
  \<open>cr_fault_region\<close>: base, end and protection when the count or flag is one.
\<close>

record persona_audit64_context =
  ac_pid :: u32
  ac_write_index :: nat
  ac_count :: nat
  ac_dropped_count :: u32
  ac_crash_count :: u32
  ac_last_crash :: persona_audit64_crash_report
  ac_records :: "persona_audit64_record list"

record audit_state =
  g_persona_audit64_contexts :: "persona_audit64_context list"
  g_persona_audit64_context_used :: "bool list"
  g_persona_audit64_initialized :: bool
  g_persona_audit64_sequence :: u32

record kernel_audit = kernel_persona +
  k_ticks :: u32
  k_audit :: audit_state

text \<open>What \<^verbatim>\<open>vma.c\<close> answers about one process when a crash is recorded.\<close>

record vma_view =
  vma64_region_count :: u32
  vma64_mapped_bytes :: u64
  vma64_first_region :: "(u64 \<times> u64 \<times> u32) option"
  vma64_find :: "u64 \<Rightarrow> (u64 \<times> u64 \<times> u32) option"

section \<open>System call names and operations\<close>

definition linux_syscall_names :: "(u32 \<times> string) list" where
  "linux_syscall_names =
    [ (0, ''linux.read''), (1, ''linux.write''), (2, ''linux.open''), (3, ''linux.close''),
      (4, ''linux.stat''), (5, ''linux.fstat''), (7, ''linux.poll''), (8, ''linux.lseek''),
      (9, ''linux.mmap''), (10, ''linux.mprotect''), (11, ''linux.munmap''), (12, ''linux.brk''),
      (13, ''linux.rt_sigaction''), (14, ''linux.rt_sigprocmask''), (15, ''linux.rt_sigreturn''),
      (17, ''linux.pread64''), (18, ''linux.pwrite64''), (19, ''linux.readv''),
      (20, ''linux.writev''), (22, ''linux.pipe''), (32, ''linux.dup''), (33, ''linux.dup2''),
      (35, ''linux.nanosleep''), (39, ''linux.getpid''), (56, ''linux.clone''), (57, ''linux.fork''),
      (59, ''linux.execve''), (60, ''linux.exit''), (61, ''linux.wait4''), (62, ''linux.kill''),
      (72, ''linux.fcntl''), (79, ''linux.getcwd''), (80, ''linux.chdir''), (81, ''linux.fchdir''),
      (97, ''linux.getrlimit''), (157, ''linux.prctl''), (158, ''linux.arch_prctl''),
      (160, ''linux.setrlimit''), (186, ''linux.gettid''), (200, ''linux.tkill''),
      (202, ''linux.futex''), (217, ''linux.getdents64''), (218, ''linux.set_tid_address''),
      (228, ''linux.clock_gettime''), (231, ''linux.exit_group''), (257, ''linux.openat''),
      (262, ''linux.newfstatat''), (271, ''linux.ppoll''), (292, ''linux.dup3''),
      (293, ''linux.pipe2''), (318, ''linux.getrandom''), (322, ''linux.execveat'') ]"

definition persona_audit64_linux_syscall_name :: "u32 \<Rightarrow> string" where
  "persona_audit64_linux_syscall_name n =
    (case map_of linux_syscall_names n of Some name \<Rightarrow> name | None \<Rightarrow> ''linux.unknown'')"

definition windows_syscall_names :: "(u32 \<times> string) list" where
  "windows_syscall_names =
    [ (0x00000004, ''windows.NtWaitForSingleObject''), (0x00000006, ''windows.NtReadFile''),
      (0x00000008, ''windows.NtWriteFile''), (0x00000012, ''windows.NtOpenKey''),
      (0x00000017, ''windows.NtQueryValueKey''), (0x00000018, ''windows.NtAllocateVirtualMemory''),
      (0x00000019, ''windows.NtQueryInformationProcess''), (0x0000001D, ''windows.NtCreateKey''),
      (0x0000001E, ''windows.NtFreeVirtualMemory''),
      (0x00000036, ''windows.NtQuerySystemInformation''),
      (0x00000050, ''windows.NtProtectVirtualMemory''), (0x00000055, ''windows.NtCreateFile''),
      (0x00000057, ''windows.NtCreateMutant''), (0x000000AC, ''windows.NtReleaseMutant''),
      (0x00000048, ''windows.NtCreateEvent''), (0x000000E2, ''windows.NtSetEvent'') ]"

definition persona_audit64_windows_syscall_name :: "u32 \<Rightarrow> string" where
  "persona_audit64_windows_syscall_name n =
    (case map_of windows_syscall_names n of Some name \<Rightarrow> name | None \<Rightarrow> ''windows.unknown'')"

definition macos_syscall_names :: "(u32 \<times> string) list" where
  "macos_syscall_names =
    [ (1, ''macos.exit''), (3, ''macos.read''), (4, ''macos.write''), (5, ''macos.open''),
      (6, ''macos.close''), (20, ''macos.getpid''), (73, ''macos.munmap''), (74, ''macos.mprotect''),
      (116, ''macos.clock_gettime''), (188, ''macos.stat''), (189, ''macos.fstat''),
      (197, ''macos.mmap''), (202, ''macos.sysctl'') ]"

definition persona_audit64_macos_syscall_name :: "u32 \<Rightarrow> string" where
  "persona_audit64_macos_syscall_name n =
    (case map_of macos_syscall_names n of Some name \<Rightarrow> name | None \<Rightarrow> ''macos.unknown'')"

definition linux_operations :: "(u32 \<times> audit_operation) list" where
  "linux_operations =
    [ (0, PERSONA_AUDIT64_OP_FILE_IO), (1, PERSONA_AUDIT64_OP_FILE_IO),
      (2, PERSONA_AUDIT64_OP_FILE_IO), (4, PERSONA_AUDIT64_OP_FILE_IO),
      (5, PERSONA_AUDIT64_OP_FILE_IO), (8, PERSONA_AUDIT64_OP_FILE_IO),
      (17, PERSONA_AUDIT64_OP_FILE_IO), (18, PERSONA_AUDIT64_OP_FILE_IO),
      (19, PERSONA_AUDIT64_OP_FILE_IO), (20, PERSONA_AUDIT64_OP_FILE_IO),
      (257, PERSONA_AUDIT64_OP_FILE_IO), (262, PERSONA_AUDIT64_OP_FILE_IO),
      (217, PERSONA_AUDIT64_OP_FILE_IO), (9, PERSONA_AUDIT64_OP_MEMORY),
      (10, PERSONA_AUDIT64_OP_MEMORY), (11, PERSONA_AUDIT64_OP_MEMORY),
      (12, PERSONA_AUDIT64_OP_MEMORY), (39, PERSONA_AUDIT64_OP_PROCESS),
      (186, PERSONA_AUDIT64_OP_PROCESS), (56, PERSONA_AUDIT64_OP_PROCESS),
      (57, PERSONA_AUDIT64_OP_PROCESS), (59, PERSONA_AUDIT64_OP_PROCESS),
      (60, PERSONA_AUDIT64_OP_PROCESS), (61, PERSONA_AUDIT64_OP_PROCESS),
      (157, PERSONA_AUDIT64_OP_PROCESS), (158, PERSONA_AUDIT64_OP_PROCESS),
      (218, PERSONA_AUDIT64_OP_PROCESS), (231, PERSONA_AUDIT64_OP_PROCESS),
      (322, PERSONA_AUDIT64_OP_PROCESS), (97, PERSONA_AUDIT64_OP_PROCESS),
      (160, PERSONA_AUDIT64_OP_PROCESS), (35, PERSONA_AUDIT64_OP_TIME),
      (228, PERSONA_AUDIT64_OP_TIME), (3, PERSONA_AUDIT64_OP_FD), (32, PERSONA_AUDIT64_OP_FD),
      (33, PERSONA_AUDIT64_OP_FD), (72, PERSONA_AUDIT64_OP_FD), (292, PERSONA_AUDIT64_OP_FD),
      (7, PERSONA_AUDIT64_OP_IPC), (202, PERSONA_AUDIT64_OP_IPC), (22, PERSONA_AUDIT64_OP_IPC),
      (293, PERSONA_AUDIT64_OP_IPC), (271, PERSONA_AUDIT64_OP_IPC), (13, PERSONA_AUDIT64_OP_SIGNAL),
      (14, PERSONA_AUDIT64_OP_SIGNAL), (15, PERSONA_AUDIT64_OP_SIGNAL),
      (62, PERSONA_AUDIT64_OP_SIGNAL), (200, PERSONA_AUDIT64_OP_SIGNAL),
      (318, PERSONA_AUDIT64_OP_RANDOM), (79, PERSONA_AUDIT64_OP_VFS), (80, PERSONA_AUDIT64_OP_VFS),
      (81, PERSONA_AUDIT64_OP_VFS) ]"

definition persona_audit64_linux_operation :: "u32 \<Rightarrow> audit_operation" where
  "persona_audit64_linux_operation n =
    (case map_of linux_operations n of Some op \<Rightarrow> op | None \<Rightarrow> PERSONA_AUDIT64_OP_UNAVAILABLE)"

definition windows_operations :: "(u32 \<times> audit_operation) list" where
  "windows_operations =
    [ (0x00000006, PERSONA_AUDIT64_OP_FILE_IO), (0x00000008, PERSONA_AUDIT64_OP_FILE_IO),
      (0x00000055, PERSONA_AUDIT64_OP_FILE_IO), (0x00000018, PERSONA_AUDIT64_OP_MEMORY),
      (0x0000001E, PERSONA_AUDIT64_OP_MEMORY), (0x00000050, PERSONA_AUDIT64_OP_MEMORY),
      (0x00000019, PERSONA_AUDIT64_OP_PROCESS), (0x00000036, PERSONA_AUDIT64_OP_PROCESS),
      (0x00000004, PERSONA_AUDIT64_OP_NT_OBJECT), (0x00000057, PERSONA_AUDIT64_OP_NT_OBJECT),
      (0x000000AC, PERSONA_AUDIT64_OP_NT_OBJECT), (0x00000048, PERSONA_AUDIT64_OP_NT_OBJECT),
      (0x000000E2, PERSONA_AUDIT64_OP_NT_OBJECT), (0x00000012, PERSONA_AUDIT64_OP_REGISTRY),
      (0x00000017, PERSONA_AUDIT64_OP_REGISTRY), (0x0000001D, PERSONA_AUDIT64_OP_REGISTRY) ]"

definition persona_audit64_windows_operation :: "u32 \<Rightarrow> audit_operation" where
  "persona_audit64_windows_operation n =
    (case map_of windows_operations n of Some op \<Rightarrow> op | None \<Rightarrow> PERSONA_AUDIT64_OP_UNAVAILABLE)"

definition macos_operations :: "(u32 \<times> audit_operation) list" where
  "macos_operations =
    [ (3, PERSONA_AUDIT64_OP_FILE_IO), (4, PERSONA_AUDIT64_OP_FILE_IO),
      (5, PERSONA_AUDIT64_OP_FILE_IO), (6, PERSONA_AUDIT64_OP_FILE_IO),
      (188, PERSONA_AUDIT64_OP_FILE_IO), (189, PERSONA_AUDIT64_OP_FILE_IO),
      (197, PERSONA_AUDIT64_OP_MEMORY), (73, PERSONA_AUDIT64_OP_MEMORY),
      (74, PERSONA_AUDIT64_OP_MEMORY), (1, PERSONA_AUDIT64_OP_PROCESS),
      (20, PERSONA_AUDIT64_OP_PROCESS), (202, PERSONA_AUDIT64_OP_PROCESS),
      (116, PERSONA_AUDIT64_OP_TIME) ]"

definition persona_audit64_macos_operation :: "u32 \<Rightarrow> audit_operation" where
  "persona_audit64_macos_operation n =
    (case map_of macos_operations n of Some op \<Rightarrow> op | None \<Rightarrow> PERSONA_AUDIT64_OP_UNAVAILABLE)"

definition persona_audit64_syscall_name :: "u32 \<Rightarrow> u32 \<Rightarrow> string" where
  "persona_audit64_syscall_name persona_type n =
    (if persona_type = PERSONA64_TYPE_LINUX_ELF then persona_audit64_linux_syscall_name n
     else if persona_type = PERSONA64_TYPE_WINDOWS_PE then persona_audit64_windows_syscall_name n
     else if persona_type = PERSONA64_TYPE_MACOS_MACHO then persona_audit64_macos_syscall_name n
     else ''native.unknown'')"

text \<open>The FNV-1a hash of a C string, with zero mapped to one.\<close>

definition fnv_step :: "u32 \<Rightarrow> char \<Rightarrow> u32" where
  "fnv_step hash c = (hash XOR of_char c) * 16777619"

definition persona_audit64_hash_text :: "string \<Rightarrow> u32" where
  "persona_audit64_hash_text text =
    (let hash = foldl fnv_step 2166136261 text in if hash \<noteq> 0 then hash else 1)"

definition persona_audit64_syscall_name_token :: "u32 \<Rightarrow> u32 \<Rightarrow> u32" where
  "persona_audit64_syscall_name_token persona_type n =
    persona_audit64_hash_text (persona_audit64_syscall_name persona_type n)"

definition persona_audit64_translated_operation :: "u32 \<Rightarrow> u32 \<Rightarrow> audit_operation" where
  "persona_audit64_translated_operation persona_type n =
    (if persona_type = PERSONA64_TYPE_LINUX_ELF then persona_audit64_linux_operation n
     else if persona_type = PERSONA64_TYPE_WINDOWS_PE then persona_audit64_windows_operation n
     else if persona_type = PERSONA64_TYPE_MACOS_MACHO then persona_audit64_macos_operation n
     else PERSONA_AUDIT64_OP_UNAVAILABLE)"

fun persona_audit64_operation_name :: "audit_operation \<Rightarrow> string" where
  "persona_audit64_operation_name PERSONA_AUDIT64_OP_NONE = ''none''"
| "persona_audit64_operation_name PERSONA_AUDIT64_OP_FILE_IO = ''file-io''"
| "persona_audit64_operation_name PERSONA_AUDIT64_OP_MEMORY = ''memory''"
| "persona_audit64_operation_name PERSONA_AUDIT64_OP_PROCESS = ''process''"
| "persona_audit64_operation_name PERSONA_AUDIT64_OP_TIME = ''time''"
| "persona_audit64_operation_name PERSONA_AUDIT64_OP_FD = ''fd''"
| "persona_audit64_operation_name PERSONA_AUDIT64_OP_IPC = ''ipc''"
| "persona_audit64_operation_name PERSONA_AUDIT64_OP_SIGNAL = ''signal''"
| "persona_audit64_operation_name PERSONA_AUDIT64_OP_RANDOM = ''random''"
| "persona_audit64_operation_name PERSONA_AUDIT64_OP_SCHEDULER = ''scheduler''"
| "persona_audit64_operation_name PERSONA_AUDIT64_OP_VFS = ''vfs''"
| "persona_audit64_operation_name PERSONA_AUDIT64_OP_REGISTRY = ''registry''"
| "persona_audit64_operation_name PERSONA_AUDIT64_OP_NT_OBJECT = ''nt-object''"
| "persona_audit64_operation_name PERSONA_AUDIT64_OP_MACH_PORT = ''mach-port''"
| "persona_audit64_operation_name PERSONA_AUDIT64_OP_UNAVAILABLE = ''unavailable''"

section \<open>Contexts\<close>

definition persona_audit64_clear_record :: persona_audit64_record where
  "persona_audit64_clear_record =
    \<lparr>ar_timestamp = 0, ar_pid = PROCESS64_INVALID_PID, ar_persona_type = ucast PERSONA64_TYPE_COUNT,
     ar_event_type = 0, ar_event_code = 0, ar_result = 0, ar_syscall_name_token = 0,
     ar_translated_operation = PERSONA_AUDIT64_OP_NONE, ar_rip = 0\<rparr>"

definition persona_audit64_clear_crash_report :: persona_audit64_crash_report where
  "persona_audit64_clear_crash_report =
    \<lparr>cr_timestamp = 0, cr_pid = PROCESS64_INVALID_PID, cr_persona_type = ucast PERSONA64_TYPE_COUNT,
     cr_vector = 0, cr_abi_code = 0, cr_result = 0, cr_rip = 0, cr_rsp = 0, cr_error_code = 0,
     cr_fault_address = 0, cr_vma_region_count = 0, cr_vma_mapped_bytes = 0,
     cr_vma_first = None, cr_fault_region = None\<rparr>"

definition persona_audit64_clear_context :: persona_audit64_context where
  "persona_audit64_clear_context =
    \<lparr>ac_pid = PROCESS64_INVALID_PID, ac_write_index = 0, ac_count = 0, ac_dropped_count = 0,
     ac_crash_count = 0, ac_last_crash = persona_audit64_clear_crash_report,
     ac_records = replicate PERSONA_AUDIT64_RING_CAPACITY persona_audit64_clear_record\<rparr>"

definition persona_audit64_acquire_context :: "u32 \<Rightarrow> audit_state \<Rightarrow> nat option \<times> audit_state" where
  "persona_audit64_acquire_context pid s =
    (case first_index (\<lambda>used. \<not> used) (g_persona_audit64_context_used s) of
       None \<Rightarrow> (None, s)
     | Some i \<Rightarrow>
         (Some i, s\<lparr>g_persona_audit64_context_used := (g_persona_audit64_context_used s)[i := True],
           g_persona_audit64_contexts := (g_persona_audit64_contexts s)
             [i := persona_audit64_clear_context\<lparr>ac_pid := pid\<rparr>]\<rparr>))"

definition persona_audit64_release_context :: "nat \<Rightarrow> audit_state \<Rightarrow> audit_state" where
  "persona_audit64_release_context i s =
    (if i < PERSONA_AUDIT64_MAX_CONTEXTS
     then s\<lparr>g_persona_audit64_contexts := (g_persona_audit64_contexts s)[i := persona_audit64_clear_context],
            g_persona_audit64_context_used := (g_persona_audit64_context_used s)[i := False]\<rparr>
     else s)"

definition persona_audit64_init :: "audit_state \<Rightarrow> audit_state" where
  "persona_audit64_init s =
    (if g_persona_audit64_initialized s then s
     else \<lparr>g_persona_audit64_contexts = replicate PERSONA_AUDIT64_MAX_CONTEXTS persona_audit64_clear_context,
           g_persona_audit64_context_used = replicate PERSONA_AUDIT64_MAX_CONTEXTS False,
           g_persona_audit64_initialized = True, g_persona_audit64_sequence = 1\<rparr>)"

definition persona_audit64_context_for_process :: "'a kernel_audit_scheme \<Rightarrow> u32 \<Rightarrow> nat option" where
  "persona_audit64_context_for_process k pid = process64_audit_ctx (k_proc k) pid"

definition persona_audit64_attach :: "u32 \<Rightarrow> 'a kernel_audit_scheme \<Rightarrow> bool \<times> 'a kernel_audit_scheme" where
  "persona_audit64_attach pid k =
    (if pid = PROCESS64_INVALID_PID \<or> process64_principal (k_proc k) pid = 0
        \<or> process64_audit_ctx (k_proc k) pid \<noteq> None
     then (False, k)
     else case persona_audit64_acquire_context pid (k_audit k) of
            (None, _) \<Rightarrow> (False, k)
          | (Some i, s) \<Rightarrow>
              (case process64_attach_audit pid (Some i) (k_proc k) of
                 (False, ps) \<Rightarrow> (False, k\<lparr>k_audit := persona_audit64_release_context i s\<rparr>)
               | (True, ps) \<Rightarrow> (True, k\<lparr>k_audit := s, k_proc := ps\<rparr>)))"

definition persona_audit64_release :: "u32 \<Rightarrow> 'a kernel_audit_scheme \<Rightarrow> bool \<times> 'a kernel_audit_scheme" where
  "persona_audit64_release pid k =
    (if pid = PROCESS64_INVALID_PID \<or> process64_principal (k_proc k) pid = 0 then (False, k)
     else case persona_audit64_context_for_process k pid of
            None \<Rightarrow> (False, k)
          | Some i \<Rightarrow>
              let (detached, ps) = process64_detach_audit pid (k_proc k);
                  k1 = k\<lparr>k_proc := ps\<rparr>
              in if detached \<noteq> Some i then (False, k1)
                 else (True, k1\<lparr>k_audit := persona_audit64_release_context i (k_audit k1)\<rparr>))"

section \<open>Recording\<close>

definition persona_audit64_timestamp :: "'a kernel_audit_scheme \<Rightarrow> u64 \<times> 'a kernel_audit_scheme" where
  "persona_audit64_timestamp k =
    (let sequence = g_persona_audit64_sequence (k_audit k);
         next_sequence = (if sequence + 1 = 0 then 1 else sequence + 1)
     in (push_bit 32 (ucast (k_ticks k)) OR ucast sequence,
         k\<lparr>k_audit := (k_audit k)\<lparr>g_persona_audit64_sequence := next_sequence\<rparr>\<rparr>))"

definition audit_persona_type :: "'a kernel_audit_scheme \<Rightarrow> u32 \<Rightarrow> u32" where
  "audit_persona_type k pid =
    (if persona64_type k pid \<ge> PERSONA64_TYPE_COUNT then PERSONA64_TYPE_LIMITLESS_NATIVE
     else persona64_type k pid)"

definition audit_record ::
    "u64 \<Rightarrow> u32 \<Rightarrow> u32 \<Rightarrow> u8 \<Rightarrow> u16 \<Rightarrow> u32 \<Rightarrow> u64 \<Rightarrow> persona_audit64_record" where
  "audit_record timestamp pid persona_type event_type event_code result rip =
    (let syscall = (event_type = PERSONA_AUDIT64_EVENT_SYSCALL_TRANSLATED
                    \<or> event_type = PERSONA_AUDIT64_EVENT_SYSCALL_UNIMPLEMENTED)
     in \<lparr>ar_timestamp = timestamp, ar_pid = pid, ar_persona_type = ucast persona_type,
         ar_event_type = event_type, ar_event_code = event_code, ar_result = result,
         ar_syscall_name_token =
           (if syscall then persona_audit64_syscall_name_token persona_type (ucast event_code) else 0),
         ar_translated_operation =
           (if syscall
            then if event_type = PERSONA_AUDIT64_EVENT_SYSCALL_UNIMPLEMENTED
                 then PERSONA_AUDIT64_OP_UNAVAILABLE
                 else persona_audit64_translated_operation persona_type (ucast event_code)
            else PERSONA_AUDIT64_OP_NONE),
         ar_rip = rip\<rparr>)"

text \<open>Storing a record in the ring of a context.\<close>

definition ring_push :: "persona_audit64_record \<Rightarrow> persona_audit64_context \<Rightarrow> persona_audit64_context" where
  "ring_push r c =
    c\<lparr>ac_records := (ac_records c)[ac_write_index c := r],
      ac_write_index := (ac_write_index c + 1) mod PERSONA_AUDIT64_RING_CAPACITY,
      ac_count := (if ac_count c < PERSONA_AUDIT64_RING_CAPACITY then ac_count c + 1 else ac_count c),
      ac_dropped_count := (if ac_count c < PERSONA_AUDIT64_RING_CAPACITY then ac_dropped_count c
                           else ac_dropped_count c + 1)\<rparr>"

definition actx :: "'a kernel_audit_scheme \<Rightarrow> nat \<Rightarrow> persona_audit64_context" where
  "actx k i = g_persona_audit64_contexts (k_audit k) ! i"

definition upd_actx ::
    "nat \<Rightarrow> (persona_audit64_context \<Rightarrow> persona_audit64_context) \<Rightarrow> 'a kernel_audit_scheme \<Rightarrow> 'a kernel_audit_scheme" where
  "upd_actx i f k = k\<lparr>k_audit := (k_audit k)
     \<lparr>g_persona_audit64_contexts := (g_persona_audit64_contexts (k_audit k))[i := f (actx k i)]\<rparr>\<rparr>"

definition persona_audit64_record ::
    "u32 \<Rightarrow> u8 \<Rightarrow> u16 \<Rightarrow> u32 \<Rightarrow> u64 \<Rightarrow> 'a kernel_audit_scheme \<Rightarrow> bool \<times> 'a kernel_audit_scheme" where
  "persona_audit64_record pid event_type event_code result rip k =
    (case persona_audit64_context_for_process k pid of
       None \<Rightarrow> (False, k)
     | Some i \<Rightarrow>
         let persona_type = audit_persona_type k pid;
             (timestamp, k1) = persona_audit64_timestamp k
         in (True, upd_actx i
               (ring_push (audit_record timestamp pid persona_type event_type event_code result rip)) k1))"

definition persona_audit64_count :: "'a kernel_audit_scheme \<Rightarrow> u32 \<Rightarrow> nat" where
  "persona_audit64_count k pid =
    (case persona_audit64_context_for_process k pid of None \<Rightarrow> 0 | Some i \<Rightarrow> ac_count (actx k i))"

definition persona_audit64_dropped_count :: "'a kernel_audit_scheme \<Rightarrow> u32 \<Rightarrow> u32" where
  "persona_audit64_dropped_count k pid =
    (case persona_audit64_context_for_process k pid of None \<Rightarrow> 0 | Some i \<Rightarrow> ac_dropped_count (actx k i))"

definition ring_read :: "persona_audit64_context \<Rightarrow> nat \<Rightarrow> persona_audit64_record option" where
  "ring_read c index =
    (if index \<ge> ac_count c then None
     else let start = (ac_write_index c + PERSONA_AUDIT64_RING_CAPACITY - ac_count c)
                        mod PERSONA_AUDIT64_RING_CAPACITY;
              physical_index = (start + index) mod PERSONA_AUDIT64_RING_CAPACITY
          in Some (ac_records c ! physical_index))"

definition persona_audit64_read :: "'a kernel_audit_scheme \<Rightarrow> u32 \<Rightarrow> nat \<Rightarrow> persona_audit64_record option" where
  "persona_audit64_read k pid index =
    (case persona_audit64_context_for_process k pid of
       None \<Rightarrow> None
     | Some i \<Rightarrow> ring_read (actx k i) index)"

definition last_record :: "'a kernel_audit_scheme \<Rightarrow> u32 \<Rightarrow> persona_audit64_record option" where
  "last_record k pid =
    (let count = persona_audit64_count k pid
     in if count \<noteq> 0 then persona_audit64_read k pid (count - 1) else None)"

definition last_field :: "(persona_audit64_record \<Rightarrow> 'b) \<Rightarrow> 'b \<Rightarrow> 'a kernel_audit_scheme \<Rightarrow> u32 \<Rightarrow> 'b" where
  "last_field f d k pid = (case last_record k pid of None \<Rightarrow> d | Some r \<Rightarrow> f r)"

definition persona_audit64_last_event_type :: "'a kernel_audit_scheme \<Rightarrow> u32 \<Rightarrow> u32" where
  "persona_audit64_last_event_type = last_field (\<lambda>r. ucast (ar_event_type r)) 0"
definition persona_audit64_last_event_code :: "'a kernel_audit_scheme \<Rightarrow> u32 \<Rightarrow> u32" where
  "persona_audit64_last_event_code = last_field (\<lambda>r. ucast (ar_event_code r)) 0"
definition persona_audit64_last_result :: "'a kernel_audit_scheme \<Rightarrow> u32 \<Rightarrow> u32" where
  "persona_audit64_last_result = last_field ar_result 0"
definition persona_audit64_last_persona_type :: "'a kernel_audit_scheme \<Rightarrow> u32 \<Rightarrow> u32" where
  "persona_audit64_last_persona_type = last_field (\<lambda>r. ucast (ar_persona_type r)) PERSONA64_TYPE_COUNT"
definition persona_audit64_last_syscall_name_token :: "'a kernel_audit_scheme \<Rightarrow> u32 \<Rightarrow> u32" where
  "persona_audit64_last_syscall_name_token = last_field ar_syscall_name_token 0"
definition persona_audit64_last_translated_operation :: "'a kernel_audit_scheme \<Rightarrow> u32 \<Rightarrow> audit_operation" where
  "persona_audit64_last_translated_operation = last_field ar_translated_operation PERSONA_AUDIT64_OP_NONE"

section \<open>Crashes and unavailable system calls\<close>

definition persona_audit64_crash_result_for_persona :: "u32 \<Rightarrow> u32 \<Rightarrow> u32" where
  "persona_audit64_crash_result_for_persona persona_type vector =
    (if persona_type = PERSONA64_TYPE_LINUX_ELF \<or> persona_type = PERSONA64_TYPE_MACOS_MACHO
     then if vector = 6 then 4 else if vector = 0 then 8 else 11
     else if persona_type = PERSONA64_TYPE_WINDOWS_PE
     then if vector = 6 then 0xC000001D else if vector = 0 then 0xC0000094 else 0xC0000005
     else PERSONA_AUDIT64_RESULT_DENY)"

definition persona_audit64_crash_event_code :: "u32 \<Rightarrow> u32 \<Rightarrow> u32 \<Rightarrow> u16" where
  "persona_audit64_crash_event_code persona_type vector abi_code =
    (if persona_type = PERSONA64_TYPE_LINUX_ELF \<or> persona_type = PERSONA64_TYPE_MACOS_MACHO
     then ucast abi_code else ucast vector)"

text \<open>The report assembled from the arguments, the memory view and the timestamp of the record just written.\<close>

definition crash_report ::
    "vma_view \<Rightarrow> u64 \<Rightarrow> u32 \<Rightarrow> u32 \<Rightarrow> u32 \<Rightarrow> u32 \<Rightarrow> u64 \<Rightarrow> u64 \<Rightarrow> u64 \<Rightarrow> u64 \<Rightarrow> persona_audit64_crash_report" where
  "crash_report vma timestamp pid persona_type vector abi_code error_code rip rsp fault_address =
    \<lparr>cr_timestamp = timestamp, cr_pid = pid, cr_persona_type = ucast persona_type,
     cr_vector = ucast vector, cr_abi_code = abi_code, cr_result = abi_code,
     cr_rip = rip, cr_rsp = rsp, cr_error_code = error_code, cr_fault_address = fault_address,
     cr_vma_region_count = vma64_region_count vma, cr_vma_mapped_bytes = vma64_mapped_bytes vma,
     cr_vma_first = vma64_first_region vma, cr_fault_region = vma64_find vma fault_address\<rparr>"

definition store_crash :: "persona_audit64_crash_report \<Rightarrow> persona_audit64_context \<Rightarrow> persona_audit64_context" where
  "store_crash report c = c\<lparr>ac_last_crash := report, ac_crash_count := ac_crash_count c + 1\<rparr>"

definition persona_audit64_record_crash ::
    "vma_view \<Rightarrow> u32 \<Rightarrow> u32 \<Rightarrow> u64 \<Rightarrow> u64 \<Rightarrow> u64 \<Rightarrow> u64 \<Rightarrow> 'a kernel_audit_scheme
      \<Rightarrow> bool \<times> 'a kernel_audit_scheme" where
  "persona_audit64_record_crash vma pid vector error_code rip rsp fault_address k =
    (case persona_audit64_context_for_process k pid of
       None \<Rightarrow> (False, k)
     | Some i \<Rightarrow>
         if pid = PROCESS64_INVALID_PID then (False, k)
         else
           let persona_type = persona64_type k pid in
           if persona_type \<noteq> PERSONA64_TYPE_LINUX_ELF \<and> persona_type \<noteq> PERSONA64_TYPE_WINDOWS_PE
              \<and> persona_type \<noteq> PERSONA64_TYPE_MACOS_MACHO
           then (False, k)
           else
             let abi_code = persona_audit64_crash_result_for_persona persona_type vector in
             (case persona_audit64_record pid PERSONA_AUDIT64_EVENT_CRASH
                     (persona_audit64_crash_event_code persona_type vector abi_code) abi_code rip k of
                (False, k1) \<Rightarrow> (False, k1)
              | (True, k1) \<Rightarrow>
                  let timestamp = (case last_record k1 pid of None \<Rightarrow> 0 | Some r \<Rightarrow> ar_timestamp r)
                  in (True, upd_actx i (store_crash (crash_report vma timestamp pid persona_type vector abi_code
                        error_code rip rsp fault_address)) k1)))"

definition persona_audit64_read_last_crash ::
    "'a kernel_audit_scheme \<Rightarrow> u32 \<Rightarrow> persona_audit64_crash_report option" where
  "persona_audit64_read_last_crash k pid =
    (case persona_audit64_context_for_process k pid of
       None \<Rightarrow> None
     | Some i \<Rightarrow> if ac_crash_count (actx k i) = 0 then None else Some (ac_last_crash (actx k i)))"

definition persona_audit64_crash_count :: "'a kernel_audit_scheme \<Rightarrow> u32 \<Rightarrow> u32" where
  "persona_audit64_crash_count k pid =
    (case persona_audit64_context_for_process k pid of None \<Rightarrow> 0 | Some i \<Rightarrow> ac_crash_count (actx k i))"

text \<open>The result: whether the event was recorded, the ABI result and the value to return.\<close>

definition persona64_record_unavailable_syscall ::
    "u32 \<Rightarrow> u32 \<Rightarrow> u16 \<Rightarrow> u64 \<Rightarrow> 'a kernel_audit_scheme \<Rightarrow> (bool \<times> u32 \<times> u64) \<times> 'a kernel_audit_scheme" where
  "persona64_record_unavailable_syscall pid persona_type syscall_number rip k =
    (let abi_result = persona64_unavailable_result_for_type persona_type;
         return_value = persona64_unavailable_return_for_type persona_type
     in if persona_type \<noteq> PERSONA64_TYPE_LINUX_ELF \<and> persona_type \<noteq> PERSONA64_TYPE_WINDOWS_PE
           \<and> persona_type \<noteq> PERSONA64_TYPE_MACOS_MACHO
        then ((False, abi_result, return_value), persona_deny k)
        else case persona_audit64_record pid PERSONA_AUDIT64_EVENT_SYSCALL_UNIMPLEMENTED
                    syscall_number abi_result rip k of
               (ok, k1) \<Rightarrow> ((ok, abi_result, return_value), k1))"

end
