(* ===== verification/Handle_Table.thy ===== *)
theory Handle_Table
  imports Prelude
begin

text \<open>
  Fixed tables of records that are looked up by a handle: a record is in use when \<open>act\<close> holds and
  \<open>key\<close> is its handle. \<open>table_map\<close> is the finite map such a table represents; inserting in a free
  slot, rewriting a slot, clearing a slot and a clearing sweep over the whole table are update,
  update, deletion and restriction of that map. The capability and pipe tables are instances.
\<close>

definition slot_of :: "('r \<Rightarrow> bool) \<Rightarrow> ('r \<Rightarrow> 'k) \<Rightarrow> 'r list \<Rightarrow> 'k \<Rightarrow> nat option" where
  "slot_of act key xs k = first_index (\<lambda>r. act r \<and> key r = k) xs"

definition table_map :: "('r \<Rightarrow> bool) \<Rightarrow> ('r \<Rightarrow> 'k) \<Rightarrow> 'r list \<Rightarrow> 'k \<Rightarrow> 'r option" where
  "table_map act key xs k = map_option (\<lambda>i. xs ! i) (slot_of act key xs k)"

definition keys_distinct :: "('r \<Rightarrow> bool) \<Rightarrow> ('r \<Rightarrow> 'k) \<Rightarrow> 'r list \<Rightarrow> bool" where
  "keys_distinct act key xs \<longleftrightarrow>
     (\<forall>i<length xs. \<forall>j<length xs. act (xs ! i) \<and> act (xs ! j) \<and> key (xs ! i) = key (xs ! j) \<longrightarrow> i = j)"

lemma keys_distinctD:
  "keys_distinct act key xs \<Longrightarrow> i < length xs \<Longrightarrow> j < length xs \<Longrightarrow> act (xs ! i) \<Longrightarrow> act (xs ! j)
   \<Longrightarrow> key (xs ! i) = key (xs ! j) \<Longrightarrow> i = j"
  by (auto simp: keys_distinct_def)

lemma slot_ofD:
  assumes "slot_of act key xs k = Some i"
  shows "i < length xs" "act (xs ! i)" "key (xs ! i) = k" "table_map act key xs k = Some (xs ! i)"
  using assms by (auto simp: slot_of_def table_map_def dest: first_index_SomeD)

lemma slot_of_None_iff: "slot_of act key xs k = None \<longleftrightarrow> table_map act key xs k = None"
  by (simp add: table_map_def)

lemma table_map_SomeD:
  assumes "table_map act key xs k = Some r"
  shows "r \<in> set xs" "act r" "key r = k"
  using assms by (auto simp: table_map_def dest: slot_ofD)

lemma table_map_SomeE:
  assumes "table_map act key xs k = Some r"
  obtains i where "slot_of act key xs k = Some i" "i < length xs" "xs ! i = r"
  using assms by (auto simp: table_map_def dest: slot_ofD)

lemma slot_of_eq:
  assumes "keys_distinct act key xs" and "i < length xs" and "act (xs ! i)"
  shows "slot_of act key xs (key (xs ! i)) = Some i"
  unfolding slot_of_def using assms keys_distinctD [OF assms(1)]
  by (intro first_index_unique) blast+

lemma table_map_nth:
  "keys_distinct act key xs \<Longrightarrow> i < length xs \<Longrightarrow> act (xs ! i) \<Longrightarrow> table_map act key xs (key (xs ! i)) = Some (xs ! i)"
  by (simp add: table_map_def slot_of_eq)

lemma table_map_iff:
  assumes "keys_distinct act key xs"
  shows "table_map act key xs k = Some r \<longleftrightarrow> r \<in> set xs \<and> act r \<and> key r = k"
  using table_map_SomeD [of act key xs k r] table_map_nth [OF assms]
  by (auto simp: in_set_conv_nth)

lemma table_map_None_iff: "table_map act key xs k = None \<longleftrightarrow> (\<forall>r\<in>set xs. act r \<longrightarrow> key r \<noteq> k)"
  by (auto simp: table_map_def slot_of_def first_index_None_iff)

text \<open>Two maps are equal when they have the same entries.\<close>

lemma map_entries_eqI: "(\<And>k r. m k = Some r \<longleftrightarrow> n k = Some r) \<Longrightarrow> m = n"
proof
  fix k
  assume a: "\<And>k r. m k = Some r \<longleftrightarrow> n k = Some r"
  show "m k = n k"
    using a [of k "the (m k)"] a [of k "the (n k)"] by (cases "m k"; cases "n k") simp_all
qed

lemma in_set_update_iff:
  assumes "i < length xs"
  shows "s \<in> set (xs[i := r]) \<longleftrightarrow> s = r \<or> (\<exists>j<length xs. j \<noteq> i \<and> xs ! j = s)"
proof
  assume "s \<in> set (xs[i := r])"
  then obtain j where "j < length xs" "xs[i := r] ! j = s" by (auto simp: in_set_conv_nth)
  then show "s = r \<or> (\<exists>j<length xs. j \<noteq> i \<and> xs ! j = s)"
    using assms by (cases "j = i") auto
next
  assume "s = r \<or> (\<exists>j<length xs. j \<noteq> i \<and> xs ! j = s)"
  then show "s \<in> set (xs[i := r])"
  proof
    assume "s = r"
    then show ?thesis using assms by (simp add: set_update_memI)
  next
    assume "\<exists>j<length xs. j \<noteq> i \<and> xs ! j = s"
    then obtain j where "j < length xs" "j \<noteq> i" "xs ! j = s" by blast
    then have "j < length (xs[i := r])" "xs[i := r] ! j = s" by simp_all
    then show ?thesis by (metis nth_mem)
  qed
qed

lemma keys_distinct_insert:
  assumes "keys_distinct act key xs" and "i < length xs" and "\<And>s. s \<in> set xs \<Longrightarrow> act s \<Longrightarrow> key s \<noteq> key r"
  shows "keys_distinct act key (xs[i := r])"
proof -
  have "key (xs ! j) \<noteq> key r" if "j < length xs" "act (xs ! j)" for j
    using assms(3) [OF nth_mem] that by simp
  then show ?thesis
    using keys_distinctD [OF assms(1)] assms(2)
    unfolding keys_distinct_def by (simp add: nth_list_update) metis
qed

lemma table_map_insert:
  assumes "keys_distinct act key xs" and "i < length xs" and "\<not> act (xs ! i)" and "act r"
    and "table_map act key xs (key r) = None"
  shows "keys_distinct act key (xs[i := r])"
    and "table_map act key (xs[i := r]) = (table_map act key xs)(key r \<mapsto> r)"
proof -
  have fresh: "key s \<noteq> key r" if "s \<in> set xs" "act s" for s
    using assms(5) that by (simp add: table_map_None_iff)
  show d: "keys_distinct act key (xs[i := r])"
    using assms(1,2) fresh by (rule keys_distinct_insert)
  show "table_map act key (xs[i := r]) = (table_map act key xs)(key r \<mapsto> r)"
  proof (rule map_entries_eqI)
    fix k s
    have "s \<in> set (xs[i := r]) \<and> act s \<longleftrightarrow> s = r \<or> s \<in> set xs \<and> act s"
      unfolding in_set_update_iff [OF assms(2)] in_set_conv_nth [of s xs] using assms(3,4) by auto
    then show "table_map act key (xs[i := r]) k = Some s \<longleftrightarrow> ((table_map act key xs)(key r \<mapsto> r)) k = Some s"
      using fresh by (auto simp: table_map_iff [OF d] table_map_iff [OF assms(1)])
  qed
qed

lemma table_map_clear:
  assumes "keys_distinct act key xs" and "i < length xs" and "act (xs ! i)" and "\<not> act c"
  shows "keys_distinct act key (xs[i := c])"
    and "table_map act key (xs[i := c]) = (table_map act key xs)(key (xs ! i) := None)"
proof -
  show d: "keys_distinct act key (xs[i := c])"
    using assms by (auto simp: keys_distinct_def nth_list_update)
  show "table_map act key (xs[i := c]) = (table_map act key xs)(key (xs ! i) := None)"
  proof (rule map_entries_eqI)
    fix k s
    have "s \<in> set (xs[i := c]) \<and> act s \<longleftrightarrow> s \<in> set xs \<and> act s \<and> key s \<noteq> key (xs ! i)"
      unfolding in_set_update_iff [OF assms(2)] in_set_conv_nth [of s xs]
      using assms(3,4) keys_distinctD [OF assms(1) _ assms(2) _ assms(3)]  by auto
    then show "table_map act key (xs[i := c]) k = Some s \<longleftrightarrow> ((table_map act key xs)(key (xs ! i) := None)) k = Some s"
      by (auto simp: table_map_iff [OF d] table_map_iff [OF assms(1)])
  qed
qed

lemma table_map_write:
  assumes "keys_distinct act key xs" and "i < length xs" and "act (xs ! i)" and "act r" and "key r = key (xs ! i)"
  shows "keys_distinct act key (xs[i := r])"
    and "table_map act key (xs[i := r]) = (table_map act key xs)(key r \<mapsto> r)"
proof -
  have same: "act (xs[i := r] ! j) = act (xs ! j)" "key (xs[i := r] ! j) = key (xs ! j)" if "j < length xs" for j
    using assms(2-5) that by (cases "j = i"; simp)+
  show d: "keys_distinct act key (xs[i := r])"
    using assms(1) same unfolding keys_distinct_def by simp
  show "table_map act key (xs[i := r]) = (table_map act key xs)(key r \<mapsto> r)"
  proof (rule map_entries_eqI)
    fix k s
    have "s \<in> set (xs[i := r]) \<and> act s \<longleftrightarrow> s = r \<or> s \<in> set xs \<and> act s \<and> key s \<noteq> key r"
      unfolding in_set_update_iff [OF assms(2)] in_set_conv_nth [of s xs]
      using assms(3,4) keys_distinctD [OF assms(1) _ assms(2) _ assms(3)] assms(5) by auto
    then show "table_map act key (xs[i := r]) k = Some s \<longleftrightarrow> ((table_map act key xs)(key r \<mapsto> r)) k = Some s"
      using assms(4) by (auto simp: table_map_iff [OF d] table_map_iff [OF assms(1)])
  qed
qed

text \<open>A sweep that rewrites every record, keeping the handles of the records that stay in use.\<close>

lemma table_map_sweep:
  assumes "keys_distinct act key xs" and "\<And>r. act (f r) \<Longrightarrow> act r" and "\<And>r. act (f r) \<Longrightarrow> key (f r) = key r"
  shows "keys_distinct act key (map f xs)"
    and "table_map act key (map f xs) k
      = (case table_map act key xs k of None \<Rightarrow> None | Some r \<Rightarrow> if act (f r) then Some (f r) else None)"
proof -
  show d: "keys_distinct act key (map f xs)"
    using assms by (auto simp: keys_distinct_def)
  have "table_map act key (map f xs) = (\<lambda>k. case table_map act key xs k of None \<Rightarrow> None
      | Some r \<Rightarrow> if act (f r) then Some (f r) else None)"
  proof (rule map_entries_eqI)
    fix k s
    show "table_map act key (map f xs) k = Some s \<longleftrightarrow> (case table_map act key xs k of None \<Rightarrow> None
      | Some r \<Rightarrow> if act (f r) then Some (f r) else None) = Some s"
    proof
      assume "table_map act key (map f xs) k = Some s"
      then obtain r where r: "r \<in> set xs" "s = f r" "act (f r)" "key (f r) = k"
        by (auto simp: table_map_iff [OF d])
      then have "table_map act key xs k = Some r"
        using assms(2,3) by (simp add: table_map_iff [OF assms(1)])
      with r show "(case table_map act key xs k of None \<Rightarrow> None
          | Some r \<Rightarrow> if act (f r) then Some (f r) else None) = Some s" by simp
    qed (auto simp: table_map_iff [OF d] assms(3) dest: table_map_SomeD split: option.splits if_splits)
  qed
  then show "table_map act key (map f xs) k
      = (case table_map act key xs k of None \<Rightarrow> None | Some r \<Rightarrow> if act (f r) then Some (f r) else None)"
    by simp
qed

text \<open>A free slot exists exactly when the table is not full of records in use.\<close>

lemma free_slot_None: "first_index (\<lambda>r. \<not> act r) xs = None \<longleftrightarrow> count_if act xs = length xs"
  by (simp add: first_index_None_iff count_if_full)

end
