(* ===== verification/Capability.thy ===== *)
theory Capability
  imports Persona_Audit Handle_Table
begin

text \<open>
  The capability broker of \<^verbatim>\<open>kernel/arch/x86_64/capability.c\<close> (UEFI build): a table of 64 records
  that name a service endpoint, the rights over it, the owner, the lease and the runtime of the
  service the capability was minted for. Grants, delegation with attenuation and leases, routing,
  cascading revocation and the owner-checked readers are functions on the kernel state.

  \<^verbatim>\<open>pit_get_ticks\<close> is \<open>k_ticks\<close>; a \<^verbatim>\<open>struct capability64_record *\<close> is the index of its slot.
  The tables of principals, services and launch manifests are those of the other theories.
\<close>

definition CAPABILITY64_TABLE_LIMIT :: nat where "CAPABILITY64_TABLE_LIMIT = 64"
definition CAPABILITY64_HANDLE_BASE :: u32 where "CAPABILITY64_HANDLE_BASE = 0x6400"
abbreviation (input) CAPABILITY64_INVALID_HANDLE :: u32 where "CAPABILITY64_INVALID_HANDLE \<equiv> u32_max"
abbreviation (input) CAPABILITY64_LEASE_PERMANENT :: u32 where "CAPABILITY64_LEASE_PERMANENT \<equiv> u32_max"
definition CAPABILITY64_RIGHT_SEND :: u32 where "CAPABILITY64_RIGHT_SEND = 0x1"
definition CAPABILITY64_RIGHT_DELEGATE :: u32 where "CAPABILITY64_RIGHT_DELEGATE = 0x2"
definition CAPABILITY64_RIGHT_QUERY :: u32 where "CAPABILITY64_RIGHT_QUERY = 0x4"
definition CAPABILITY64_OWNER_SYSTEM :: u32 where "CAPABILITY64_OWNER_SYSTEM = PRINCIPAL64_ID_SYSTEM"
definition CAPABILITY64_DELEGATE_LEASE_TICKS :: u32 where "CAPABILITY64_DELEGATE_LEASE_TICKS = 2"
definition CAPABILITY64_PERSONA_UNTAGGED :: u32 where "CAPABILITY64_PERSONA_UNTAGGED = 0xFF"

lemmas cap_rights_defs = CAPABILITY64_RIGHT_SEND_def CAPABILITY64_RIGHT_DELEGATE_def CAPABILITY64_RIGHT_QUERY_def

definition CAPABILITY64_CONTEXT :: "u32 \<Rightarrow> u32 \<Rightarrow> u32" where
  "CAPABILITY64_CONTEXT caller recipient = push_bit 16 (caller AND 0xFFFF) OR (recipient AND 0xFFFF)"

record capability64_record =
  cap_active :: bool
  cap_handle :: u32
  cap_endpoint_class :: u32
  cap_endpoint_id :: u32
  cap_rights :: u32
  cap_parent_handle :: u32
  cap_owner_id :: u32
  cap_expiry_tick :: u32
  cap_runtime_generation :: u32
  cap_runtime_token :: u32
  cap_persona_type :: u32
  cap_persona_mask :: u32

record cap_state =
  g_capabilities :: "capability64_record list"
  g_next_handle :: u32
  g_grant_count :: u32
  g_delegate_count :: u32
  g_route_count :: u32
  g_revoke_count :: u32
  g_cascade_revoke_count :: u32
  g_expiration_count :: u32
  g_owner_denial_count :: u32
  g_principal_denial_count :: u32
  g_runtime_stale_denial_count :: u32
  g_persona_denial_count :: u32
  g_persona_transfer_denial_count :: u32
  g_denial_count :: u32

record kernel_cap = kernel_audit +
  k_cap :: cap_state

text \<open>Reading and rewriting the broker's globals.\<close>

definition cap_at :: "'a kernel_cap_scheme \<Rightarrow> nat \<Rightarrow> capability64_record" where
  "cap_at k i = g_capabilities (k_cap k) ! i"

definition upd_cap :: "(cap_state \<Rightarrow> cap_state) \<Rightarrow> 'a kernel_cap_scheme \<Rightarrow> 'a kernel_cap_scheme" where
  "upd_cap f k = k\<lparr>k_cap := f (k_cap k)\<rparr>"

definition put_cap :: "nat \<Rightarrow> capability64_record \<Rightarrow> cap_state \<Rightarrow> cap_state" where
  "put_cap i r s = s\<lparr>g_capabilities := (g_capabilities s)[i := r]\<rparr>"

definition count_denial :: "cap_state \<Rightarrow> cap_state" where
  "count_denial s = s\<lparr>g_denial_count := g_denial_count s + 1\<rparr>"


section \<open>Checks\<close>

definition capability64_normalize_owner :: "u32 \<Rightarrow> u32" where
  "capability64_normalize_owner owner_id = (if owner_id \<noteq> 0 then owner_id else CAPABILITY64_OWNER_SYSTEM)"

definition capability64_principal_is_valid :: "u32 \<Rightarrow> 'a kernel_cap_scheme \<Rightarrow> bool \<times> 'a kernel_cap_scheme" where
  "capability64_principal_is_valid owner_id k =
    (if principal64_is_active (capability64_normalize_owner owner_id) then (True, k)
     else (False, upd_cap (\<lambda>s. count_denial
            (s\<lparr>g_principal_denial_count := g_principal_denial_count s + 1\<rparr>)) k))"

definition capability64_context_caller :: "u32 \<Rightarrow> u32" where
  "capability64_context_caller owner_context =
    capability64_normalize_owner (drop_bit 16 owner_context AND 0xFFFF)"

definition capability64_context_recipient :: "u32 \<Rightarrow> u32" where
  "capability64_context_recipient owner_context =
    (let recipient = owner_context AND 0xFFFF
     in if recipient \<noteq> 0 then recipient else capability64_context_caller owner_context)"

definition capability64_clear :: "capability64_record \<Rightarrow> capability64_record" where
  "capability64_clear record = record
    \<lparr>cap_active := False, cap_endpoint_class := 0, cap_endpoint_id := 0, cap_rights := 0,
     cap_parent_handle := 0, cap_owner_id := 0, cap_expiry_tick := 0, cap_runtime_generation := 0,
     cap_runtime_token := 0, cap_persona_type := CAPABILITY64_PERSONA_UNTAGGED, cap_persona_mask := 0\<rparr>"

definition clear_cap :: "nat \<Rightarrow> cap_state \<Rightarrow> cap_state" where
  "clear_cap i s = put_cap i (capability64_clear (g_capabilities s ! i)) s"

definition capability64_record_expired :: "u32 \<Rightarrow> capability64_record \<Rightarrow> bool" where
  "capability64_record_expired ticks record \<longleftrightarrow>
     cap_expiry_tick record \<noteq> CAPABILITY64_LEASE_PERMANENT \<and> ticks \<ge> cap_expiry_tick record"

definition expire_cap :: "nat \<Rightarrow> cap_state \<Rightarrow> cap_state" where
  "expire_cap i s = (clear_cap i s)\<lparr>g_expiration_count := g_expiration_count s + 1\<rparr>"

definition capability64_find_live :: "u32 \<Rightarrow> 'a kernel_cap_scheme \<Rightarrow> nat option \<times> 'a kernel_cap_scheme" where
  "capability64_find_live handle k =
    (case slot_of cap_active cap_handle (g_capabilities (k_cap k)) handle of
       None \<Rightarrow> (None, k)
     | Some i \<Rightarrow> if capability64_record_expired (k_ticks k) (cap_at k i)
                then (None, upd_cap (expire_cap i) k)
                else (Some i, k))"

definition capability64_find_free :: "'a kernel_cap_scheme \<Rightarrow> nat option" where
  "capability64_find_free k = first_index (\<lambda>r. \<not> cap_active r) (g_capabilities (k_cap k))"

definition capability64_record_is_owned_by ::
    "nat \<Rightarrow> u32 \<Rightarrow> 'a kernel_cap_scheme \<Rightarrow> bool \<times> 'a kernel_cap_scheme" where
  "capability64_record_is_owned_by i caller_owner_id k =
    (if cap_owner_id (cap_at k i) = capability64_normalize_owner caller_owner_id then (True, k)
     else (False, upd_cap (\<lambda>s. count_denial (s\<lparr>g_owner_denial_count := g_owner_denial_count s + 1\<rparr>)) k))"

text \<open>\<^verbatim>\<open>capability64_bind_runtime\<close>: generation and token of the service that is launched for the class.\<close>

definition capability64_bind_runtime :: "launch_state \<Rightarrow> u32 \<Rightarrow> capability64_record \<Rightarrow> capability64_record" where
  "capability64_bind_runtime ms endpoint_class record =
    (let manifest_index = launch64_manifest_by_endpoint_class ms endpoint_class
     in if manifest_index = LAUNCH64_INVALID_MANIFEST
        then record\<lparr>cap_runtime_generation := 0, cap_runtime_token := 0\<rparr>
        else record\<lparr>cap_runtime_generation := launch64_manifest_runtime_generation ms manifest_index,
                    cap_runtime_token := launch64_manifest_runtime_token ms manifest_index\<rparr>)"

definition runtime_current :: "launch_state \<Rightarrow> capability64_record \<Rightarrow> bool" where
  "runtime_current ms record \<longleftrightarrow>
     cap_runtime_token record = 0
   \<or> (let manifest_index = launch64_manifest_by_endpoint_class ms (cap_endpoint_class record)
      in manifest_index \<noteq> LAUNCH64_INVALID_MANIFEST
       \<and> launch64_manifest_runtime_generation ms manifest_index = cap_runtime_generation record
       \<and> launch64_manifest_accepts_runtime_token ms manifest_index (cap_runtime_token record))"

definition capability64_record_runtime_is_current ::
    "nat \<Rightarrow> 'a kernel_cap_scheme \<Rightarrow> bool \<times> 'a kernel_cap_scheme" where
  "capability64_record_runtime_is_current i k =
    (if runtime_current (k_launch k) (cap_at k i) then (True, k)
     else (False, upd_cap (\<lambda>s. count_denial ((clear_cap i s)
            \<lparr>g_runtime_stale_denial_count := g_runtime_stale_denial_count s + 1\<rparr>)) k))"

definition capability64_persona_pid_for_owner :: "'a kernel_cap_scheme \<Rightarrow> u32 \<Rightarrow> u32" where
  "capability64_persona_pid_for_owner k owner_id =
    process64_pid_for_principal (k_proc k) (capability64_normalize_owner owner_id)"

definition capability64_audit_persona_denial :: "u32 \<Rightarrow> u32 \<Rightarrow> 'a kernel_cap_scheme \<Rightarrow> 'a kernel_cap_scheme" where
  "capability64_audit_persona_denial recipient_owner_id endpoint_class k =
    (let recipient_pid = capability64_persona_pid_for_owner k recipient_owner_id
     in if recipient_pid = PROCESS64_INVALID_PID then k
        else snd (persona_audit64_record recipient_pid PERSONA_AUDIT64_EVENT_CAPABILITY_DENIED
               (ucast endpoint_class) PERSONA_AUDIT64_RESULT_DENY 0 k))"

text \<open>Whether the mask of a capability and the persona of the recipient's process overlap.\<close>

definition persona_admits :: "'a kernel_cap_scheme \<Rightarrow> capability64_record \<Rightarrow> u32 \<Rightarrow> bool" where
  "persona_admits k record recipient_owner_id \<longleftrightarrow>
     cap_persona_mask record = 0
   \<or> (let recipient_pid = capability64_persona_pid_for_owner k recipient_owner_id;
          recipient_mask = (if recipient_pid \<noteq> PROCESS64_INVALID_PID
                            then persona64_capability_mask k recipient_pid else 0)
      in recipient_mask \<noteq> 0 \<and> cap_persona_mask record AND recipient_mask \<noteq> 0)"

definition capability64_record_allows_recipient_persona ::
    "nat \<Rightarrow> u32 \<Rightarrow> 'a kernel_cap_scheme \<Rightarrow> bool \<times> 'a kernel_cap_scheme" where
  "capability64_record_allows_recipient_persona i recipient_owner_id k =
    (if persona_admits k (cap_at k i) recipient_owner_id then (True, k)
     else (False, capability64_audit_persona_denial recipient_owner_id (cap_endpoint_class (cap_at k i))
            (upd_cap (\<lambda>s. count_denial (s\<lparr>g_persona_denial_count := g_persona_denial_count s + 1,
               g_persona_transfer_denial_count := g_persona_transfer_denial_count s + 1\<rparr>)) k)))"


section \<open>Minting\<close>

definition cap_zero :: capability64_record where
  "cap_zero = \<lparr>cap_active = False, cap_handle = 0, cap_endpoint_class = 0, cap_endpoint_id = 0,
     cap_rights = 0, cap_parent_handle = 0, cap_owner_id = 0, cap_expiry_tick = 0,
     cap_runtime_generation = 0, cap_runtime_token = 0,
     cap_persona_type = CAPABILITY64_PERSONA_UNTAGGED, cap_persona_mask = 0\<rparr>"

definition capability64_init :: cap_state where
  "capability64_init =
    \<lparr>g_capabilities = replicate CAPABILITY64_TABLE_LIMIT cap_zero, g_next_handle = CAPABILITY64_HANDLE_BASE,
     g_grant_count = 0, g_delegate_count = 0, g_route_count = 0, g_revoke_count = 0,
     g_cascade_revoke_count = 0, g_expiration_count = 0, g_owner_denial_count = 0,
     g_principal_denial_count = 0, g_runtime_stale_denial_count = 0, g_persona_denial_count = 0,
     g_persona_transfer_denial_count = 0, g_denial_count = 0\<rparr>"

definition allowed_rights :: "u32 \<Rightarrow> u32" where
  "allowed_rights endpoint_id =
    (if services64_endpoint_is_delegable endpoint_id
     then CAPABILITY64_RIGHT_SEND OR CAPABILITY64_RIGHT_QUERY OR CAPABILITY64_RIGHT_DELEGATE
     else CAPABILITY64_RIGHT_SEND OR CAPABILITY64_RIGHT_QUERY)"

text \<open>A record as the grant path fills it, and as the delegation path derives it from its source.\<close>

definition granted_record :: "launch_state \<Rightarrow> u32 \<Rightarrow> u32 \<Rightarrow> u32 \<Rightarrow> u32 \<Rightarrow> u32 \<Rightarrow> u32 \<Rightarrow> capability64_record" where
  "granted_record ms handle endpoint_class rights owner_id persona_type persona_mask =
    (capability64_bind_runtime ms endpoint_class
      \<lparr>cap_active = True, cap_handle = handle, cap_endpoint_class = endpoint_class,
       cap_endpoint_id = services64_resolve_endpoint_class endpoint_class, cap_rights = rights,
       cap_parent_handle = 0, cap_owner_id = owner_id, cap_expiry_tick = CAPABILITY64_LEASE_PERMANENT,
       cap_runtime_generation = 0, cap_runtime_token = 0,
       cap_persona_type = persona_type, cap_persona_mask = persona_mask\<rparr>)"

definition delegated_record :: "capability64_record \<Rightarrow> u32 \<Rightarrow> u32 \<Rightarrow> u32 \<Rightarrow> u32 \<Rightarrow> capability64_record" where
  "delegated_record source handle rights owner_id expiry_tick = source
    \<lparr>cap_active := True, cap_handle := handle, cap_rights := rights,
     cap_parent_handle := cap_handle source, cap_owner_id := owner_id, cap_expiry_tick := expiry_tick\<rparr>"

definition capability64_grant_service_tagged ::
    "u32 \<Rightarrow> u32 \<Rightarrow> u32 \<Rightarrow> u32 \<Rightarrow> u32 \<Rightarrow> 'a kernel_cap_scheme \<Rightarrow> u32 \<times> 'a kernel_cap_scheme" where
  "capability64_grant_service_tagged endpoint_class requested_rights owner_id persona_type persona_mask k =
    (let endpoint_id = services64_resolve_endpoint_class endpoint_class;
         owner_id = capability64_normalize_owner owner_id;
         deny = (\<lambda>k. (CAPABILITY64_INVALID_HANDLE, upd_cap count_denial k));
         (valid, k) = capability64_principal_is_valid owner_id k
     in if \<not> valid then (CAPABILITY64_INVALID_HANDLE, k)
        else if endpoint_id = u32_max then deny k
        else
          let requested_rights = (if requested_rights = 0 then CAPABILITY64_RIGHT_SEND else requested_rights)
          in if requested_rights AND NOT (allowed_rights endpoint_id) \<noteq> 0 then deny k
             else case capability64_find_free k of
                    None \<Rightarrow> deny k
                  | Some i \<Rightarrow>
                      let handle = g_next_handle (k_cap k);
                          record = granted_record (k_launch k) handle endpoint_class requested_rights
                                     owner_id persona_type persona_mask
                      in (handle, upd_cap (\<lambda>s. (put_cap i record s)
                            \<lparr>g_next_handle := handle + 1, g_grant_count := g_grant_count s + 1\<rparr>) k))"

definition capability64_grant_service ::
    "u32 \<Rightarrow> u32 \<Rightarrow> u32 \<Rightarrow> 'a kernel_cap_scheme \<Rightarrow> u32 \<times> 'a kernel_cap_scheme" where
  "capability64_grant_service endpoint_class requested_rights owner_id =
    capability64_grant_service_tagged endpoint_class requested_rights owner_id CAPABILITY64_PERSONA_UNTAGGED 0"

definition capability64_grant_service_for_process ::
    "u32 \<Rightarrow> u32 \<Rightarrow> u32 \<Rightarrow> 'a kernel_cap_scheme \<Rightarrow> u32 \<times> 'a kernel_cap_scheme" where
  "capability64_grant_service_for_process endpoint_class requested_rights pid k =
    (let owner_id = process64_principal (k_proc k) pid;
         persona_type = persona64_type k pid;
         persona_mask = persona64_capability_mask k pid
     in if owner_id = 0 \<or> persona_type \<ge> PERSONA64_TYPE_COUNT \<or> persona_mask = 0
        then (CAPABILITY64_INVALID_HANDLE, upd_cap (\<lambda>s. count_denial
               (s\<lparr>g_persona_denial_count := g_persona_denial_count s + 1\<rparr>)) k)
        else capability64_grant_service_tagged endpoint_class requested_rights owner_id
               persona_type persona_mask k)"

text \<open>
  The checks of a delegation after the source was found and the two principals accepted; \<open>i\<close> is the
  slot of the source.
\<close>

definition delegate_from ::
    "nat \<Rightarrow> u32 \<Rightarrow> u32 \<Rightarrow> u32 \<Rightarrow> u32 \<Rightarrow> 'a kernel_cap_scheme \<Rightarrow> u32 \<times> 'a kernel_cap_scheme" where
  "delegate_from i requested_rights caller_owner_id recipient_owner_id expiry_tick k =
    (let deny = (\<lambda>k. (CAPABILITY64_INVALID_HANDLE, upd_cap count_denial k));
         (owned, k) = capability64_record_is_owned_by i caller_owner_id k;
         source_rights = cap_rights (cap_at k i);
         requested = (if requested_rights = 0 then source_rights AND NOT CAPABILITY64_RIGHT_DELEGATE
                      else requested_rights);
         delegated = requested AND NOT CAPABILITY64_RIGHT_DELEGATE
     in if \<not> owned then (CAPABILITY64_INVALID_HANDLE, k)
        else if source_rights AND CAPABILITY64_RIGHT_DELEGATE = 0 then deny k
        else if requested = 0 \<or> requested AND CAPABILITY64_RIGHT_DELEGATE \<noteq> 0
                \<or> requested AND source_rights \<noteq> requested then deny k
        else if delegated = 0 then deny k
        else
          let (allowed, k) = capability64_record_allows_recipient_persona i recipient_owner_id k
          in if \<not> allowed then (CAPABILITY64_INVALID_HANDLE, k)
             else case capability64_find_free k of
                    None \<Rightarrow> deny k
                  | Some j \<Rightarrow>
                      let handle = g_next_handle (k_cap k);
                          record = delegated_record (cap_at k i) handle delegated recipient_owner_id expiry_tick
                      in (handle, upd_cap (\<lambda>s. (put_cap j record s)
                            \<lparr>g_next_handle := handle + 1, g_grant_count := g_grant_count s + 1,
                             g_delegate_count := g_delegate_count s + 1\<rparr>) k))"

definition capability64_delegate_with_expiry ::
    "u32 \<Rightarrow> u32 \<Rightarrow> u32 \<Rightarrow> u32 \<Rightarrow> 'a kernel_cap_scheme \<Rightarrow> u32 \<times> 'a kernel_cap_scheme" where
  "capability64_delegate_with_expiry source_handle requested_rights owner_context expiry_tick k =
    (let (source, k) = capability64_find_live source_handle k;
         caller_owner_id = capability64_context_caller owner_context;
         recipient_owner_id = capability64_context_recipient owner_context;
         (caller_valid, k) = capability64_principal_is_valid caller_owner_id k
     in if \<not> caller_valid then (CAPABILITY64_INVALID_HANDLE, k)
        else
          let (recipient_valid, k) = capability64_principal_is_valid recipient_owner_id k
          in if \<not> recipient_valid then (CAPABILITY64_INVALID_HANDLE, k)
             else case source of
                    None \<Rightarrow> (CAPABILITY64_INVALID_HANDLE, upd_cap count_denial k)
                  | Some i \<Rightarrow> delegate_from i requested_rights caller_owner_id recipient_owner_id expiry_tick k)"

definition capability64_delegate ::
    "u32 \<Rightarrow> u32 \<Rightarrow> u32 \<Rightarrow> 'a kernel_cap_scheme \<Rightarrow> u32 \<times> 'a kernel_cap_scheme" where
  "capability64_delegate source_handle requested_rights owner_context k =
    capability64_delegate_with_expiry source_handle requested_rights owner_context
      (k_ticks k + CAPABILITY64_DELEGATE_LEASE_TICKS) k"

definition capability64_delegate_persistent ::
    "u32 \<Rightarrow> u32 \<Rightarrow> u32 \<Rightarrow> 'a kernel_cap_scheme \<Rightarrow> u32 \<times> 'a kernel_cap_scheme" where
  "capability64_delegate_persistent source_handle requested_rights owner_context k =
    capability64_delegate_with_expiry source_handle requested_rights owner_context CAPABILITY64_LEASE_PERMANENT k"


section \<open>Use\<close>

text \<open>
  The checks every use of a handle begins with: the live record is found (and expired on the way),
  the caller is an active principal, the record exists and belongs to the caller.
\<close>

definition owned_cap :: "u32 \<Rightarrow> u32 \<Rightarrow> 'a kernel_cap_scheme \<Rightarrow> nat option \<times> 'a kernel_cap_scheme" where
  "owned_cap handle caller_owner_id k =
    (let (found, k) = capability64_find_live handle k;
         (valid, k) = capability64_principal_is_valid caller_owner_id k
     in if \<not> valid then (None, k)
        else case found of
               None \<Rightarrow> (None, upd_cap count_denial k)
             | Some i \<Rightarrow>
                 let (owned, k) = capability64_record_is_owned_by i caller_owner_id k
                 in (if owned then Some i else None, k))"

definition capability64_route :: "u32 \<Rightarrow> u32 \<Rightarrow> u32 \<Rightarrow> 'a kernel_cap_scheme \<Rightarrow> u32 \<times> 'a kernel_cap_scheme" where
  "capability64_route handle required_rights caller_owner_id k =
    (let (found, k) = capability64_find_live handle k;
         (valid, k) = capability64_principal_is_valid caller_owner_id k;
         required_rights = (if required_rights = 0 then CAPABILITY64_RIGHT_SEND else required_rights)
     in if \<not> valid then (u32_max, k)
        else case found of
               None \<Rightarrow> (u32_max, upd_cap count_denial k)
             | Some i \<Rightarrow>
                 if cap_rights (cap_at k i) AND required_rights \<noteq> required_rights
                 then (u32_max, upd_cap count_denial k)
                 else
                   let (owned, k) = capability64_record_is_owned_by i caller_owner_id k
                   in if \<not> owned then (u32_max, k)
                      else
                        let (current, k) = capability64_record_runtime_is_current i k
                        in if \<not> current then (u32_max, k)
                           else (cap_endpoint_id (cap_at k i),
                                 upd_cap (\<lambda>s. s\<lparr>g_route_count := g_route_count s + 1\<rparr>) k))"

definition revoke_child :: "u32 \<Rightarrow> capability64_record \<Rightarrow> capability64_record" where
  "revoke_child handle r =
    (if cap_active r \<and> cap_parent_handle r = handle then capability64_clear r else r)"

text \<open>The loop that clears every active record whose parent is \<open>handle\<close>, with its two counters.\<close>

definition revoke_children :: "u32 \<Rightarrow> cap_state \<Rightarrow> cap_state" where
  "revoke_children handle s =
    (let n = of_nat (count_if (\<lambda>r. cap_active r \<and> cap_parent_handle r = handle) (g_capabilities s))
     in s\<lparr>g_capabilities := map (revoke_child handle) (g_capabilities s),
          g_revoke_count := g_revoke_count s + n,
          g_cascade_revoke_count := g_cascade_revoke_count s + n\<rparr>)"

definition revoke_slot :: "nat \<Rightarrow> cap_state \<Rightarrow> cap_state" where
  "revoke_slot i s = (clear_cap i s)\<lparr>g_revoke_count := g_revoke_count s + 1\<rparr>"

definition capability64_revoke :: "u32 \<Rightarrow> u32 \<Rightarrow> 'a kernel_cap_scheme \<Rightarrow> bool \<times> 'a kernel_cap_scheme" where
  "capability64_revoke handle caller_owner_id k =
    (case owned_cap handle caller_owner_id k of
       (None, k) \<Rightarrow> (False, k)
     | (Some i, k) \<Rightarrow> (True, upd_cap (\<lambda>s. revoke_children handle (revoke_slot i s)) k))"


section \<open>Readers\<close>

text \<open>The two shapes of reader: owner-checked, and owner- and runtime-checked.\<close>

definition read_owned ::
    "(capability64_record \<Rightarrow> u32) \<Rightarrow> u32 \<Rightarrow> u32 \<Rightarrow> u32 \<Rightarrow> 'a kernel_cap_scheme \<Rightarrow> u32 \<times> 'a kernel_cap_scheme" where
  "read_owned f d handle caller_owner_id k =
    (case owned_cap handle caller_owner_id k of
       (None, k) \<Rightarrow> (d, k)
     | (Some i, k) \<Rightarrow> (f (cap_at k i), k))"

definition read_current ::
    "(capability64_record \<Rightarrow> u32) \<Rightarrow> u32 \<Rightarrow> u32 \<Rightarrow> u32 \<Rightarrow> 'a kernel_cap_scheme \<Rightarrow> u32 \<times> 'a kernel_cap_scheme" where
  "read_current f d handle caller_owner_id k =
    (case owned_cap handle caller_owner_id k of
       (None, k) \<Rightarrow> (d, k)
     | (Some i, k) \<Rightarrow>
         (case capability64_record_runtime_is_current i k of
            (False, k) \<Rightarrow> (d, k)
          | (True, k) \<Rightarrow> (f (cap_at k i), k)))"

definition capability64_target_endpoint :: "u32 \<Rightarrow> u32 \<Rightarrow> 'a kernel_cap_scheme \<Rightarrow> u32 \<times> 'a kernel_cap_scheme" where
  "capability64_target_endpoint = read_current cap_endpoint_id u32_max"
definition capability64_rights :: "u32 \<Rightarrow> u32 \<Rightarrow> 'a kernel_cap_scheme \<Rightarrow> u32 \<times> 'a kernel_cap_scheme" where
  "capability64_rights = read_owned cap_rights 0"
definition capability64_parent :: "u32 \<Rightarrow> u32 \<Rightarrow> 'a kernel_cap_scheme \<Rightarrow> u32 \<times> 'a kernel_cap_scheme" where
  "capability64_parent = read_owned cap_parent_handle 0"
definition capability64_owner :: "u32 \<Rightarrow> u32 \<Rightarrow> 'a kernel_cap_scheme \<Rightarrow> u32 \<times> 'a kernel_cap_scheme" where
  "capability64_owner = read_owned cap_owner_id 0"
definition capability64_expiry_tick :: "u32 \<Rightarrow> u32 \<Rightarrow> 'a kernel_cap_scheme \<Rightarrow> u32 \<times> 'a kernel_cap_scheme" where
  "capability64_expiry_tick = read_owned cap_expiry_tick 0"
definition capability64_runtime_generation :: "u32 \<Rightarrow> u32 \<Rightarrow> 'a kernel_cap_scheme \<Rightarrow> u32 \<times> 'a kernel_cap_scheme" where
  "capability64_runtime_generation = read_current cap_runtime_generation 0"
definition capability64_runtime_token :: "u32 \<Rightarrow> u32 \<Rightarrow> 'a kernel_cap_scheme \<Rightarrow> u32 \<times> 'a kernel_cap_scheme" where
  "capability64_runtime_token = read_current cap_runtime_token 0"
definition capability64_persona_tag :: "u32 \<Rightarrow> u32 \<Rightarrow> 'a kernel_cap_scheme \<Rightarrow> u32 \<times> 'a kernel_cap_scheme" where
  "capability64_persona_tag = read_owned cap_persona_type CAPABILITY64_PERSONA_UNTAGGED"
definition capability64_persona_mask :: "u32 \<Rightarrow> u32 \<Rightarrow> 'a kernel_cap_scheme \<Rightarrow> u32 \<times> 'a kernel_cap_scheme" where
  "capability64_persona_mask = read_owned cap_persona_mask 0"

lemmas cap_readers = capability64_target_endpoint_def capability64_rights_def capability64_parent_def
  capability64_owner_def capability64_expiry_tick_def capability64_runtime_generation_def
  capability64_runtime_token_def capability64_persona_tag_def capability64_persona_mask_def

definition capability64_live_count :: "'a kernel_cap_scheme \<Rightarrow> u32" where
  "capability64_live_count k = of_nat (count_if cap_active (g_capabilities (k_cap k)))"


section \<open>Endpoint classes\<close>

definition cap_lapsed :: "u32 \<Rightarrow> capability64_record \<Rightarrow> bool" where
  "cap_lapsed ticks r \<longleftrightarrow> cap_active r \<and> capability64_record_expired ticks r"

text \<open>The counting loop: every lapsed record on the way is cleared and counted as expired.\<close>

definition capability64_live_for_endpoint_class :: "u32 \<Rightarrow> 'a kernel_cap_scheme \<Rightarrow> u32 \<times> 'a kernel_cap_scheme" where
  "capability64_live_for_endpoint_class endpoint_class k =
    (let endpoint_id = services64_resolve_endpoint_class endpoint_class;
         table = g_capabilities (k_cap k);
         ticks = k_ticks k
     in if endpoint_id = u32_max then (0, k)
        else (of_nat (count_if (\<lambda>r. cap_active r \<and> \<not> capability64_record_expired ticks r
                                   \<and> cap_endpoint_id r = endpoint_id) table),
              upd_cap (\<lambda>s. s\<lparr>g_capabilities := map (\<lambda>r. if cap_lapsed ticks r then capability64_clear r else r) table,
                g_expiration_count := g_expiration_count s + of_nat (count_if (cap_lapsed ticks) table)\<rparr>) k))"

text \<open>The outer loop of \<^verbatim>\<open>capability64_revoke_endpoint_class\<close> over the remaining slots.\<close>

fun revoke_class_loop :: "nat list \<Rightarrow> u32 \<Rightarrow> u32 \<Rightarrow> u32 \<Rightarrow> cap_state \<Rightarrow> u32 \<times> cap_state" where
  "revoke_class_loop [] endpoint_id ticks revoked s = (revoked, s)"
| "revoke_class_loop (i # slots) endpoint_id ticks revoked s =
    (let r = g_capabilities s ! i
     in if \<not> cap_active r then revoke_class_loop slots endpoint_id ticks revoked s
        else if capability64_record_expired ticks r
        then revoke_class_loop slots endpoint_id ticks revoked (expire_cap i s)
        else if cap_endpoint_id r \<noteq> endpoint_id then revoke_class_loop slots endpoint_id ticks revoked s
        else
          let handle = cap_handle r;
              s1 = revoke_slot i s;
              children = of_nat (count_if (\<lambda>c. cap_active c \<and> cap_parent_handle c = handle) (g_capabilities s1))
          in revoke_class_loop slots endpoint_id ticks (revoked + 1 + children) (revoke_children handle s1))"

definition capability64_revoke_endpoint_class :: "u32 \<Rightarrow> 'a kernel_cap_scheme \<Rightarrow> u32 \<times> 'a kernel_cap_scheme" where
  "capability64_revoke_endpoint_class endpoint_class k =
    (let endpoint_id = services64_resolve_endpoint_class endpoint_class
     in if endpoint_id = u32_max then (0, k)
        else let (revoked, s) = revoke_class_loop [0..<CAPABILITY64_TABLE_LIMIT] endpoint_id (k_ticks k) 0 (k_cap k)
             in (revoked, k\<lparr>k_cap := s\<rparr>))"


section \<open>Counters\<close>

definition capability64_grant_count :: "'a kernel_cap_scheme \<Rightarrow> u32" where
  "capability64_grant_count k = g_grant_count (k_cap k)"
definition capability64_delegate_count :: "'a kernel_cap_scheme \<Rightarrow> u32" where
  "capability64_delegate_count k = g_delegate_count (k_cap k)"
definition capability64_route_count :: "'a kernel_cap_scheme \<Rightarrow> u32" where
  "capability64_route_count k = g_route_count (k_cap k)"
definition capability64_revoke_count :: "'a kernel_cap_scheme \<Rightarrow> u32" where
  "capability64_revoke_count k = g_revoke_count (k_cap k)"
definition capability64_cascade_revoke_count :: "'a kernel_cap_scheme \<Rightarrow> u32" where
  "capability64_cascade_revoke_count k = g_cascade_revoke_count (k_cap k)"
definition capability64_expiration_count :: "'a kernel_cap_scheme \<Rightarrow> u32" where
  "capability64_expiration_count k = g_expiration_count (k_cap k)"
definition capability64_owner_denial_count :: "'a kernel_cap_scheme \<Rightarrow> u32" where
  "capability64_owner_denial_count k = g_owner_denial_count (k_cap k)"
definition capability64_principal_denial_count :: "'a kernel_cap_scheme \<Rightarrow> u32" where
  "capability64_principal_denial_count k = g_principal_denial_count (k_cap k)"
definition capability64_runtime_stale_denial_count :: "'a kernel_cap_scheme \<Rightarrow> u32" where
  "capability64_runtime_stale_denial_count k = g_runtime_stale_denial_count (k_cap k)"
definition capability64_persona_denial_count :: "'a kernel_cap_scheme \<Rightarrow> u32" where
  "capability64_persona_denial_count k = g_persona_denial_count (k_cap k)"
definition capability64_persona_transfer_denial_count :: "'a kernel_cap_scheme \<Rightarrow> u32" where
  "capability64_persona_transfer_denial_count k = g_persona_transfer_denial_count (k_cap k)"
definition capability64_denial_count :: "'a kernel_cap_scheme \<Rightarrow> u32" where
  "capability64_denial_count k = g_denial_count (k_cap k)"

end
