(* ===== verification/Persona_Audit_Inv.thy ===== *)
theory Persona_Audit_Inv
  imports Persona_Audit
begin

text \<open>
  The audit ring refines a list that keeps the last 256 records in chronological order; recording
  for one process leaves every other log alone; the name tokens identify the translated calls.
\<close>

section \<open>The ring as a list\<close>

definition ring_ok :: "persona_audit64_context \<Rightarrow> bool" where
  "ring_ok c \<longleftrightarrow> length (ac_records c) = PERSONA_AUDIT64_RING_CAPACITY
     \<and> ac_write_index c < PERSONA_AUDIT64_RING_CAPACITY
     \<and> ac_count c \<le> PERSONA_AUDIT64_RING_CAPACITY"

text \<open>The records of a context from the oldest to the newest.\<close>

definition ring_log :: "persona_audit64_context \<Rightarrow> persona_audit64_record list" where
  "ring_log c = map (\<lambda>i. ac_records c !
     ((ac_write_index c + PERSONA_AUDIT64_RING_CAPACITY - ac_count c + i) mod PERSONA_AUDIT64_RING_CAPACITY))
     [0..<ac_count c]"

text \<open>The abstract log: append, and forget the oldest entries beyond the capacity.\<close>

definition bounded_append :: "nat \<Rightarrow> 'a list \<Rightarrow> 'a \<Rightarrow> 'a list" where
  "bounded_append cap xs x = drop (Suc (length xs) - cap) (xs @ [x])"

lemma length_ring_log [simp]: "length (ring_log c) = ac_count c"
  by (simp add: ring_log_def)

lemma ring_log_nth:
  "i < ac_count c \<Longrightarrow> ring_log c ! i = ac_records c !
     ((ac_write_index c + PERSONA_AUDIT64_RING_CAPACITY - ac_count c + i) mod PERSONA_AUDIT64_RING_CAPACITY)"
  by (simp add: ring_log_def)

lemma ring_read_log:
  "ring_read c i = (if i < ac_count c then Some (ring_log c ! i) else None)"
  by (simp add: ring_read_def ring_log_def Let_def mod_add_left_eq)

lemma ring_push_ok: "ring_ok c \<Longrightarrow> ring_ok (ring_push r c)"
  by (simp add: ring_ok_def ring_push_def PERSONA_AUDIT64_RING_CAPACITY_def)

text \<open>A slot at distance \<open>d\<close> before the write index is another slot.\<close>

lemma mod_256_distinct:
  assumes "w < 256" and "0 < d" and "d < 256"
  shows "(w + 256 - d) mod 256 \<noteq> (w :: nat)"
proof (cases "d \<le> w")
  case True
  then have "(w + 256 - d) mod 256 = w - d"
    using assms by (simp add: mod_if)
  with assms True show ?thesis by simp
next
  case False
  then have "(w + 256 - d) mod 256 = w + 256 - d" using assms by simp
  with assms show ?thesis by simp
qed

lemma ring_start_shift:
  assumes "n < 256"
  shows "(Suc w mod 256 + 256 - Suc n + i) mod 256 = (w + 256 - n + i) mod (256 :: nat)"
proof -
  obtain m where m: "256 = Suc n + m" using assms by (metis Suc_leI le_Suc_ex)
  have "(Suc w mod 256 + 256 - Suc n + i) = Suc w mod 256 + (m + i)"
    "w + 256 - n + i = Suc w + (m + i)" using m by linarith+
  then show ?thesis by (simp only: mod_add_left_eq)
qed

lemma ring_push_log:
  assumes "ring_ok c"
  shows "ring_log (ring_push r c) = bounded_append PERSONA_AUDIT64_RING_CAPACITY (ring_log c) r"
proof (rule nth_equalityI)
  have len: "length (ac_records c) = 256" and w: "ac_write_index c < 256" and n: "ac_count c \<le> 256"
    using assms by (simp_all add: ring_ok_def PERSONA_AUDIT64_RING_CAPACITY_def)
  show "length (ring_log (ring_push r c)) = length (bounded_append PERSONA_AUDIT64_RING_CAPACITY (ring_log c) r)"
    using n by (auto simp: bounded_append_def ring_push_def PERSONA_AUDIT64_RING_CAPACITY_def)
  fix i
  assume i: "i < length (ring_log (ring_push r c))"
  show "ring_log (ring_push r c) ! i = bounded_append PERSONA_AUDIT64_RING_CAPACITY (ring_log c) r ! i"
  proof (cases "ac_count c < 256")
    case True
    have idx: "(Suc (ac_write_index c) mod 256 + 256 - Suc (ac_count c) + i) mod 256
        = (ac_write_index c + 256 - ac_count c + i) mod 256"
      by (rule ring_start_shift [OF True])
    show ?thesis
    proof (cases "i = ac_count c")
      case eq: True
      have "(ac_write_index c + 256) mod 256 = ac_write_index c" using w by simp
      with True eq idx w len n show ?thesis
        by (simp add: ring_log_nth ring_push_def bounded_append_def PERSONA_AUDIT64_RING_CAPACITY_def nth_append)
    next
      case False
      then have less: "i < ac_count c" using i True by (simp add: ring_push_def PERSONA_AUDIT64_RING_CAPACITY_def)
      have "(ac_write_index c + 256 - ac_count c + i) mod 256 \<noteq> ac_write_index c"
        using mod_256_distinct [OF w, of "ac_count c - i"] less True by simp
      with True less idx len show ?thesis
        by (simp add: ring_log_nth ring_push_def bounded_append_def PERSONA_AUDIT64_RING_CAPACITY_def nth_append)
    qed
  next
    case False
    then have full: "ac_count c = 256" using n by simp
    have i256: "i < 256" using i full by (simp add: ring_push_def PERSONA_AUDIT64_RING_CAPACITY_def)
    show ?thesis
    proof (cases "i = 255")
      case True
      have "(Suc (ac_write_index c) mod 256 + 255) mod 256 = (Suc (ac_write_index c) + 255) mod 256"
        by (simp only: mod_add_left_eq)
      also have "\<dots> = ac_write_index c" using w by simp
      finally show ?thesis
        using True full w len
        by (simp add: ring_log_nth ring_push_def bounded_append_def PERSONA_AUDIT64_RING_CAPACITY_def nth_append)
    next
      case neq: False
      have shift: "(Suc (ac_write_index c) mod 256 + i) mod 256 = (ac_write_index c + Suc i) mod 256"
        by (simp add: mod_add_left_eq)
      have "(ac_write_index c + Suc i) mod 256 \<noteq> ac_write_index c"
        using mod_256_distinct [OF w, of "256 - Suc i"] i256 neq by simp
      then show ?thesis
        using neq i256 full len shift
        by (simp add: ring_log_nth ring_push_def bounded_append_def PERSONA_AUDIT64_RING_CAPACITY_def nth_append)
    qed
  qed
qed


section \<open>The audit sink contract\<close>

text \<open>
  What a component that reports events may rely on: an event for an attached process is appended
  to that process's bounded log with the reported fields, nothing else changes in any log, and an
  event for a process without a context changes nothing.
\<close>

definition event_of :: "persona_audit64_record \<Rightarrow> u8 \<times> u16 \<times> u32 \<times> u64" where
  "event_of r = (ar_event_type r, ar_event_code r, ar_result r, ar_rip r)"

locale audit_sink =
  fixes emit :: "u32 \<Rightarrow> u8 \<times> u16 \<times> u32 \<times> u64 \<Rightarrow> 's \<Rightarrow> 's"
    and log :: "'s \<Rightarrow> u32 \<Rightarrow> persona_audit64_record list"
    and attached :: "'s \<Rightarrow> u32 \<Rightarrow> bool"
    and inv :: "'s \<Rightarrow> bool"
  assumes emit_inv: "inv s \<Longrightarrow> inv (emit pid ev s)"
    and emit_attached: "inv s \<Longrightarrow> attached (emit pid ev s) q = attached s q"
    and emit_log: "inv s \<Longrightarrow> attached s pid \<Longrightarrow>
      \<exists>r. log (emit pid ev s) pid = bounded_append PERSONA_AUDIT64_RING_CAPACITY (log s pid) r
        \<and> event_of r = ev \<and> ar_pid r = pid"
    and emit_other: "inv s \<Longrightarrow> q \<noteq> pid \<Longrightarrow> log (emit pid ev s) q = log s q"
    and emit_detached: "\<not> attached s pid \<Longrightarrow> emit pid ev s = s"
begin

lemma emit_last:
  assumes "inv s" and "attached s pid"
  shows "log (emit pid ev s) pid \<noteq> []" "event_of (last (log (emit pid ev s) pid)) = ev"
    "ar_pid (last (log (emit pid ev s) pid)) = pid"
  using emit_log [OF assms, of ev]
  by (auto simp: bounded_append_def PERSONA_AUDIT64_RING_CAPACITY_def)

lemma emit_all_inv: "inv s \<Longrightarrow> inv (run_ops (emit pid) evs s)"
  by (induction evs arbitrary: s) (simp_all add: emit_inv)

lemma emit_all_other:
  "inv s \<Longrightarrow> q \<noteq> pid \<Longrightarrow> log (run_ops (emit pid) evs s) q = log s q"
  by (induction evs arbitrary: s) (simp_all add: emit_inv emit_other)

text \<open>A run of events leaves the last 256 of old and new events, in order.\<close>

lemma emit_all_log:
  assumes "inv s" and "attached s pid" and "length (log s pid) \<le> 256"
  shows "map event_of (log (run_ops (emit pid) evs s) pid)
    = drop (length (log s pid) + length evs - 256) (map event_of (log s pid) @ evs)"
  using assms
proof (induction evs arbitrary: s)
  case Nil
  then show ?case by simp
next
  case (Cons ev evs)
  let ?s = "emit pid ev s"
  obtain r where r: "log ?s pid = drop (Suc (length (log s pid)) - 256) (log s pid @ [r])" "event_of r = ev"
    using emit_log [OF Cons.prems(1,2), of ev]
    by (auto simp: bounded_append_def PERSONA_AUDIT64_RING_CAPACITY_def)
  have "map event_of (log (run_ops (emit pid) evs ?s) pid)
      = drop (length (log ?s pid) + length evs - 256) (map event_of (log ?s pid) @ evs)"
    using Cons.prems r by (intro Cons.IH) (auto simp: emit_inv emit_attached)
  also have "map event_of (log ?s pid) = drop (Suc (length (log s pid)) - 256) (map event_of (log s pid) @ [ev])"
    using r by (simp add: drop_map [symmetric])
  finally show ?case
    using r(1) Cons.prems(3)
    by (cases "length (log s pid) = 256") auto
qed

end

section \<open>The kernel's audit log\<close>

definition audit_inv :: "'a kernel_audit_scheme \<Rightarrow> bool" where
  "audit_inv k \<longleftrightarrow> g_persona_audit64_initialized (k_audit k)
     \<and> pool_inv ac_pid PERSONA_AUDIT64_MAX_CONTEXTS (process64_audit_ctx (k_proc k))
         (g_persona_audit64_contexts (k_audit k)) (g_persona_audit64_context_used (k_audit k))
     \<and> (\<forall>c\<in>set (g_persona_audit64_contexts (k_audit k)). ring_ok c)
     \<and> g_persona_audit64_sequence (k_audit k) \<noteq> 0"

definition audit_log :: "'a kernel_audit_scheme \<Rightarrow> u32 \<Rightarrow> persona_audit64_record list" where
  "audit_log k pid = (case persona_audit64_context_for_process k pid of
     None \<Rightarrow> [] | Some i \<Rightarrow> ring_log (actx k i))"

definition audit_attached :: "'a kernel_audit_scheme \<Rightarrow> u32 \<Rightarrow> bool" where
  "audit_attached k pid \<longleftrightarrow> persona_audit64_context_for_process k pid \<noteq> None"

lemma audit_invD:
  assumes "audit_inv k" and "persona_audit64_context_for_process k pid = Some i"
  shows "i < length (g_persona_audit64_contexts (k_audit k))" "ring_ok (actx k i)"
proof -
  show i: "i < length (g_persona_audit64_contexts (k_audit k))"
    using assms pool_invD(2) unfolding audit_inv_def persona_audit64_context_for_process_def by blast
  show "ring_ok (actx k i)" using assms(1) i by (simp add: audit_inv_def actx_def)
qed

lemma audit_ctx_inj:
  assumes "audit_inv k" and "persona_audit64_context_for_process k p = Some i"
    and "persona_audit64_context_for_process k q = Some i"
  shows "p = q"
  using assms pool_inj [of ac_pid PERSONA_AUDIT64_MAX_CONTEXTS "process64_audit_ctx (k_proc k)"]
  unfolding audit_inv_def persona_audit64_context_for_process_def by blast

lemma audit_read_log: "persona_audit64_read k pid i
    = (if i < length (audit_log k pid) then Some (audit_log k pid ! i) else None)"
  by (simp add: persona_audit64_read_def audit_log_def ring_read_log split: option.split)

lemma audit_count_log: "persona_audit64_count k pid = length (audit_log k pid)"
  by (simp add: persona_audit64_count_def audit_log_def split: option.split)

lemma audit_log_le: "audit_inv k \<Longrightarrow> length (audit_log k pid) \<le> 256"
  using audit_invD(2) [of k pid]
  by (auto simp: audit_log_def ring_ok_def PERSONA_AUDIT64_RING_CAPACITY_def split: option.split)

lemma upd_actx_simps [simp]:
  "k_proc (upd_actx i f k) = k_proc k" "k_persona (upd_actx i f k) = k_persona k"
  "k_launch (upd_actx i f k) = k_launch k" "k_ticks (upd_actx i f k) = k_ticks k"
  "persona_audit64_context_for_process (upd_actx i f k) = persona_audit64_context_for_process k"
  "g_persona_audit64_sequence (k_audit (upd_actx i f k)) = g_persona_audit64_sequence (k_audit k)"
  by (simp_all add: upd_actx_def persona_audit64_context_for_process_def fun_eq_iff)

lemma actx_upd:
  "i < length (g_persona_audit64_contexts (k_audit k)) \<Longrightarrow>
   actx (upd_actx i f k) j = (if j = i then f (actx k i) else actx k j)"
  by (simp add: actx_def upd_actx_def)

lemma audit_inv_upd:
  assumes "audit_inv k" and "\<And>c. ac_pid (f c) = ac_pid c" and "\<And>c. ring_ok c \<Longrightarrow> ring_ok (f c)"
  shows "audit_inv (upd_actx i f k)"
proof -
  have "ring_ok x" if "x \<in> set ((g_persona_audit64_contexts (k_audit k))[i := f (actx k i)])" for x
  proof (cases "i < length (g_persona_audit64_contexts (k_audit k))")
    case True
    then show ?thesis
      using that assms(1,3) set_update_subset_insert [of "g_persona_audit64_contexts (k_audit k)" i]
      by (auto simp: audit_inv_def actx_def dest!: subsetD [OF set_update_subset_insert])
  next
    case False
    then show ?thesis using that assms(1) by (simp add: audit_inv_def list_update_beyond)
  qed
  then show ?thesis
    using assms(1,2) pool_inv_upd [where owner = ac_pid and i = i and c = "f (actx k i)"]
    by (simp add: audit_inv_def upd_actx_def actx_def)
qed

definition set_sequence :: "u32 \<Rightarrow> 'a kernel_audit_scheme \<Rightarrow> 'a kernel_audit_scheme" where
  "set_sequence n k = k\<lparr>k_audit := (k_audit k)\<lparr>g_persona_audit64_sequence := n\<rparr>\<rparr>"

lemma set_sequence_simps [simp]:
  "actx (set_sequence n k) = actx k" "k_proc (set_sequence n k) = k_proc k"
  "persona_audit64_context_for_process (set_sequence n k) = persona_audit64_context_for_process k"
  "g_persona_audit64_contexts (k_audit (set_sequence n k)) = g_persona_audit64_contexts (k_audit k)"
  "n \<noteq> 0 \<Longrightarrow> audit_inv k \<Longrightarrow> audit_inv (set_sequence n k)"
  by (simp_all add: set_sequence_def actx_def persona_audit64_context_for_process_def fun_eq_iff audit_inv_def)

text \<open>The whole effect of a successful recording.\<close>

lemma persona_audit64_record_Some:
  assumes "persona_audit64_context_for_process k pid = Some i"
  obtains n where "n \<noteq> 0" "persona_audit64_record pid e c r rip k = (True,
    upd_actx i (ring_push (audit_record (fst (persona_audit64_timestamp k)) pid
      (audit_persona_type k pid) e c r rip)) (set_sequence n k))"
proof (rule that)
  let ?n = "if g_persona_audit64_sequence (k_audit k) + 1 = 0 then 1 else g_persona_audit64_sequence (k_audit k) + 1"
  show "?n \<noteq> 0" by simp
  show "persona_audit64_record pid e c r rip k = (True,
    upd_actx i (ring_push (audit_record (fst (persona_audit64_timestamp k)) pid
      (audit_persona_type k pid) e c r rip)) (set_sequence ?n k))"
    using assms by (simp add: persona_audit64_record_def persona_audit64_timestamp_def set_sequence_def Let_def)
qed

definition emit_audit :: "u32 \<Rightarrow> u8 \<times> u16 \<times> u32 \<times> u64 \<Rightarrow> 'a kernel_audit_scheme \<Rightarrow> 'a kernel_audit_scheme" where
  "emit_audit pid ev k = (case ev of (e, c, r, rip) \<Rightarrow> snd (persona_audit64_record pid e c r rip k))"

lemma event_of_record [simp]:
  "event_of (audit_record t pid p e c r rip) = (e, c, r, rip)" "ar_pid (audit_record t pid p e c r rip) = pid"
  by (simp_all add: event_of_def audit_record_def Let_def)

lemma ring_push_pid [simp]: "ac_pid (ring_push r c) = ac_pid c"
  by (simp add: ring_push_def)

lemma emit_audit_cases:
  assumes "audit_inv k"
  shows "audit_inv (emit_audit pid ev k)"
    and "persona_audit64_context_for_process (emit_audit pid ev k) = persona_audit64_context_for_process k"
    and "audit_attached k pid \<Longrightarrow>
      \<exists>r. audit_log (emit_audit pid ev k) pid
            = bounded_append PERSONA_AUDIT64_RING_CAPACITY (audit_log k pid) r \<and> event_of r = ev \<and> ar_pid r = pid"
    and "q \<noteq> pid \<Longrightarrow> audit_log (emit_audit pid ev k) q = audit_log k q"
proof -
  obtain e c r rip where ev: "ev = (e, c, r, rip)" by (cases ev) auto
  have "audit_inv (emit_audit pid ev k)
    \<and> persona_audit64_context_for_process (emit_audit pid ev k) = persona_audit64_context_for_process k
    \<and> (audit_attached k pid \<longrightarrow> (\<exists>r. audit_log (emit_audit pid ev k) pid
         = bounded_append PERSONA_AUDIT64_RING_CAPACITY (audit_log k pid) r \<and> event_of r = ev \<and> ar_pid r = pid))
    \<and> (q \<noteq> pid \<longrightarrow> audit_log (emit_audit pid ev k) q = audit_log k q)"
  proof (cases "persona_audit64_context_for_process k pid")
    case None
    with assms show ?thesis
      by (simp add: emit_audit_def ev persona_audit64_record_def audit_attached_def)
  next
    case (Some i)
    define rec where "rec = audit_record (fst (persona_audit64_timestamp k)) pid
        (audit_persona_type k pid) e c r rip"
    obtain n where n: "n \<noteq> 0" and "persona_audit64_record pid e c r rip k
        = (True, upd_actx i (ring_push rec) (set_sequence n k))"
      unfolding rec_def by (rule persona_audit64_record_Some [OF Some])
    then have eq: "emit_audit pid ev k = upd_actx i (ring_push rec) (set_sequence n k)"
      by (simp add: emit_audit_def ev)
    note d = audit_invD [OF assms Some]
    have rec: "event_of rec = ev" "ar_pid rec = pid" by (simp_all add: rec_def ev)
    have inv: "audit_inv (emit_audit pid ev k)"
      unfolding eq by (rule audit_inv_upd) (simp_all add: n assms ring_push_ok)
    have ctx: "persona_audit64_context_for_process (emit_audit pid ev k) = persona_audit64_context_for_process k"
      by (simp add: eq)
    have at: "actx (emit_audit pid ev k) j = (if j = i then ring_push rec (actx k i) else actx k j)" for j
      unfolding eq by (subst actx_upd) (simp_all add: d)
    have log: "audit_log (emit_audit pid ev k) pid
        = bounded_append PERSONA_AUDIT64_RING_CAPACITY (audit_log k pid) rec"
      by (simp add: audit_log_def ctx Some at ring_push_log [OF d(2)])
    have other: "audit_log (emit_audit pid ev k) q = audit_log k q" if "q \<noteq> pid"
    proof (cases "persona_audit64_context_for_process k q")
      case None
      then show ?thesis by (simp add: audit_log_def ctx)
    next
      case j: (Some j)
      then have "j \<noteq> i" using audit_ctx_inj [OF assms j, of pid] Some that by auto
      with j show ?thesis by (simp add: audit_log_def ctx at)
    qed
    show ?thesis using inv ctx log other rec by blast
  qed
  then show "audit_inv (emit_audit pid ev k)"
    "persona_audit64_context_for_process (emit_audit pid ev k) = persona_audit64_context_for_process k"
    "audit_attached k pid \<Longrightarrow>
      \<exists>r. audit_log (emit_audit pid ev k) pid
            = bounded_append PERSONA_AUDIT64_RING_CAPACITY (audit_log k pid) r \<and> event_of r = ev \<and> ar_pid r = pid"
    "q \<noteq> pid \<Longrightarrow> audit_log (emit_audit pid ev k) q = audit_log k q" by blast+
qed

interpretation sink: audit_sink emit_audit audit_log audit_attached audit_inv
proof unfold_locales
  fix k :: "'a kernel_audit_scheme" and pid ev
  assume "\<not> audit_attached k pid"
  then show "emit_audit pid ev k = k"
    by (cases ev) (simp add: emit_audit_def audit_attached_def persona_audit64_record_def)
qed (simp_all add: emit_audit_cases audit_attached_def)


section \<open>Attaching and releasing a log\<close>

lemma audit_ctx_attach:
  assumes "fst (process64_attach_audit pid c ps)"
  shows "process64_audit_ctx (snd (process64_attach_audit pid c ps)) q
    = (if q = pid then c else process64_audit_ctx ps q)"
proof -
  have ok: "fst (process64_attach_slot p_audit_ctx put_audit pid c ps)"
    using assms by (simp add: process64_attach_audit_def)
  then obtain r where "process_record ps pid = Some r" using audit_slot.attach_iff by blast
  then show ?thesis
    using audit_slot.attach_record [OF ok, of q]
    by (simp add: process64_audit_ctx_def record_field_def process64_attach_audit_def put_audit_def)
qed

lemma audit_ctx_detach:
  "process64_audit_ctx (snd (process64_detach_audit pid ps)) q
    = (if q = pid then None else process64_audit_ctx ps q)"
  by (simp add: process64_audit_ctx_def record_field_def process64_detach_audit_def
      audit_slot.detach_record put_audit_def split: option.split)

lemma clear_context_ring [simp]:
  "ring_ok persona_audit64_clear_context" "ring_ok (persona_audit64_clear_context\<lparr>ac_pid := pid\<rparr>)"
  "ac_count (persona_audit64_clear_context\<lparr>ac_pid := pid\<rparr>) = 0"
  by (simp_all add: ring_ok_def persona_audit64_clear_context_def PERSONA_AUDIT64_RING_CAPACITY_def)

lemma audit_attach_ok:
  assumes "fst (persona_audit64_attach pid k)"
  obtains i ps where "first_index (\<lambda>used. \<not> used) (g_persona_audit64_context_used (k_audit k)) = Some i"
    "process64_attach_audit pid (Some i) (k_proc k) = (True, ps)"
    "snd (persona_audit64_attach pid k) = k\<lparr>k_audit := (k_audit k)
       \<lparr>g_persona_audit64_context_used := (g_persona_audit64_context_used (k_audit k))[i := True],
        g_persona_audit64_contexts := (g_persona_audit64_contexts (k_audit k))
          [i := persona_audit64_clear_context\<lparr>ac_pid := pid\<rparr>]\<rparr>, k_proc := ps\<rparr>"
  using assms that
  by (auto simp: persona_audit64_attach_def persona_audit64_acquire_context_def
      split: if_splits option.splits prod.splits bool.splits)

lemma audit_attach_log:
  assumes inv: "audit_inv k" and ok: "fst (persona_audit64_attach pid k)"
  defines "k' \<equiv> snd (persona_audit64_attach pid k)"
  shows "audit_inv k'" and "persona_audit64_context_for_process k' pid \<noteq> None"
    and "audit_log k' pid = []" and "q \<noteq> pid \<Longrightarrow> audit_log k' q = audit_log k q"
    and "persona_audit64_dropped_count k' pid = 0"
proof -
  let ?s = "k_audit k"
  obtain i ps where i: "first_index (\<lambda>used. \<not> used) (g_persona_audit64_context_used ?s) = Some i"
    and at: "process64_attach_audit pid (Some i) (k_proc k) = (True, ps)"
    and k': "k' = k\<lparr>k_audit := ?s\<lparr>g_persona_audit64_context_used := (g_persona_audit64_context_used ?s)[i := True],
        g_persona_audit64_contexts := (g_persona_audit64_contexts ?s)
          [i := persona_audit64_clear_context\<lparr>ac_pid := pid\<rparr>]\<rparr>, k_proc := ps\<rparr>"
    unfolding k'_def by (rule audit_attach_ok [OF ok])
  have slot: "process64_audit_ctx ps q = (if q = pid then Some i else process64_audit_ctx (k_proc k) q)" for q
    using audit_ctx_attach [of pid "Some i" "k_proc k" q] at by simp
  note free = first_index_SomeD(1,2) [OF i]
  have pool: "pool_inv ac_pid PERSONA_AUDIT64_MAX_CONTEXTS (process64_audit_ctx (k_proc k))
      (g_persona_audit64_contexts ?s) (g_persona_audit64_context_used ?s)"
    using inv by (simp add: audit_inv_def)
  then have len: "length (g_persona_audit64_contexts ?s) = PERSONA_AUDIT64_MAX_CONTEXTS"
    "length (g_persona_audit64_context_used ?s) = PERSONA_AUDIT64_MAX_CONTEXTS" by (simp_all add: pool_inv_def)
  have "pool_inv ac_pid PERSONA_AUDIT64_MAX_CONTEXTS (process64_audit_ctx ps)
      ((g_persona_audit64_contexts ?s)[i := persona_audit64_clear_context\<lparr>ac_pid := pid\<rparr>])
      ((g_persona_audit64_context_used ?s)[i := True])"
    by (rule pool_inv_attach [OF pool _ _ _ slot]) (use free len in simp_all)
  then show "audit_inv k'"
    using inv by (auto simp: audit_inv_def k' dest!: subsetD [OF set_update_subset_insert])
  show "persona_audit64_context_for_process k' pid \<noteq> None"
    by (simp add: persona_audit64_context_for_process_def k' slot)
  show "audit_log k' pid = []"
    using free len by (simp add: audit_log_def persona_audit64_context_for_process_def k' slot actx_def ring_log_def)
  show "persona_audit64_dropped_count k' pid = 0"
    using free len
    by (simp add: persona_audit64_dropped_count_def persona_audit64_context_for_process_def k' slot actx_def
        persona_audit64_clear_context_def)
  show "audit_log k' q = audit_log k q" if "q \<noteq> pid"
  proof (cases "process64_audit_ctx (k_proc k) q")
    case None
    with that show ?thesis by (simp add: audit_log_def persona_audit64_context_for_process_def k' slot)
  next
    case (Some j)
    then have "i \<noteq> j" using pool_invD(3) [OF pool Some] free by auto
    with Some that show ?thesis
      by (simp add: audit_log_def persona_audit64_context_for_process_def k' slot actx_def)
  qed
qed

lemma audit_release_ok:
  assumes "fst (persona_audit64_release pid k)"
  obtains i where "process64_audit_ctx (k_proc k) pid = Some i"
    "snd (persona_audit64_release pid k) = k\<lparr>k_proc := snd (process64_detach_audit pid (k_proc k)),
       k_audit := persona_audit64_release_context i (k_audit k)\<rparr>"
  using assms that
  by (auto simp: persona_audit64_release_def persona_audit64_context_for_process_def Let_def
      split: if_splits option.splits prod.splits)

lemma audit_release_log:
  assumes inv: "audit_inv k" and ok: "fst (persona_audit64_release pid k)"
  defines "k' \<equiv> snd (persona_audit64_release pid k)"
  shows "audit_inv k'" and "persona_audit64_context_for_process k' pid = None"
    and "q \<noteq> pid \<Longrightarrow> audit_log k' q = audit_log k q"
proof -
  let ?s = "k_audit k" and ?ps = "snd (process64_detach_audit pid (k_proc k))"
  obtain i where i: "process64_audit_ctx (k_proc k) pid = Some i"
    and k': "k' = k\<lparr>k_proc := ?ps, k_audit := persona_audit64_release_context i ?s\<rparr>"
    unfolding k'_def by (rule audit_release_ok [OF ok])
  have pool: "pool_inv ac_pid PERSONA_AUDIT64_MAX_CONTEXTS (process64_audit_ctx (k_proc k))
      (g_persona_audit64_contexts ?s) (g_persona_audit64_context_used ?s)"
    using inv by (simp add: audit_inv_def)
  note less = pool_invD(1) [OF pool i]
  have rel: "g_persona_audit64_contexts (persona_audit64_release_context i ?s)
      = (g_persona_audit64_contexts ?s)[i := persona_audit64_clear_context]"
    "g_persona_audit64_context_used (persona_audit64_release_context i ?s)
      = (g_persona_audit64_context_used ?s)[i := False]"
    "g_persona_audit64_initialized (persona_audit64_release_context i ?s) = g_persona_audit64_initialized ?s"
    "g_persona_audit64_sequence (persona_audit64_release_context i ?s) = g_persona_audit64_sequence ?s"
    using less by (simp_all add: persona_audit64_release_context_def)
  have "pool_inv ac_pid PERSONA_AUDIT64_MAX_CONTEXTS (process64_audit_ctx ?ps)
      ((g_persona_audit64_contexts ?s)[i := persona_audit64_clear_context])
      ((g_persona_audit64_context_used ?s)[i := False])"
    by (rule pool_inv_detach [OF pool i audit_ctx_detach])
  then show "audit_inv k'"
    using inv by (auto simp: audit_inv_def k' rel dest!: subsetD [OF set_update_subset_insert])
  show "persona_audit64_context_for_process k' pid = None"
    by (simp add: persona_audit64_context_for_process_def k' audit_ctx_detach)
  show "audit_log k' q = audit_log k q" if "q \<noteq> pid"
  proof (cases "process64_audit_ctx (k_proc k) q")
    case None
    with that show ?thesis by (simp add: audit_log_def persona_audit64_context_for_process_def k' audit_ctx_detach)
  next
    case (Some j)
    then have "i \<noteq> j" using pool_inj [OF pool i, of q] that by auto
    with Some that show ?thesis
      by (simp add: audit_log_def persona_audit64_context_for_process_def k' audit_ctx_detach actx_def rel)
  qed
qed


section \<open>Properties\<close>

text \<open>The boot state of the audited kernel: the log contexts \<^verbatim>\<open>persona_audit64_init\<close> makes of zeroed memory.\<close>

definition audit_bss :: audit_state where
  "audit_bss = \<lparr>g_persona_audit64_contexts = [], g_persona_audit64_context_used = [],
     g_persona_audit64_initialized = False, g_persona_audit64_sequence = 0\<rparr>"

definition kernel_audit_boot :: kernel_audit where
  "kernel_audit_boot = kernel_persona.extend kernel_boot
     \<lparr>k_ticks = 0, k_audit = persona_audit64_init audit_bss\<rparr>"

lemma seed_audit_empty: "process64_audit_ctx process64_seed_records pid = None"
proof (cases "process_record process64_seed_records pid")
  case None
  then show ?thesis by (simp add: process64_audit_ctx_def record_field_def)
next
  case (Some r)
  then have "r \<in> set (g_processes process64_seed_records) \<union> set (g_process64_clone_records process64_seed_records)"
    by (auto simp: process_record_def process64_find_def first_index_Some_iff split: option.splits)
  then have "p_audit_ctx r = None"
    by (auto simp: process64_seed_records_def g_process_seeds_def process64_clear_record_def)
  with Some show ?thesis by (simp add: process64_audit_ctx_def record_field_def)
qed

lemma kernel_audit_boot_inv: "audit_inv kernel_audit_boot"
  by (simp add: audit_inv_def kernel_audit_boot_def kernel_persona.extend_def kernel_boot_def pool_inv_def
      seed_audit_empty persona_audit64_init_def audit_bss_def)

lemma dropped_count_emit:
  assumes "audit_inv k" and "audit_attached k pid"
  shows "persona_audit64_dropped_count (emit_audit pid ev k) pid
    = persona_audit64_dropped_count k pid + (if persona_audit64_count k pid < 256 then 0 else 1)"
proof -
  obtain e c r rip where ev: "ev = (e, c, r, rip)" by (cases ev) auto
  obtain i where i: "persona_audit64_context_for_process k pid = Some i"
    using assms(2) by (auto simp: audit_attached_def)
  obtain n where "persona_audit64_record pid e c r rip k = (True,
    upd_actx i (ring_push (audit_record (fst (persona_audit64_timestamp k)) pid
      (audit_persona_type k pid) e c r rip)) (set_sequence n k))"
    by (rule persona_audit64_record_Some [OF i])
  then show ?thesis
    using audit_invD [OF assms(1) i]
    by (simp add: emit_audit_def ev persona_audit64_dropped_count_def persona_audit64_count_def i actx_upd
        ring_push_def PERSONA_AUDIT64_RING_CAPACITY_def)
qed

lemma dropped_count_run:
  assumes "audit_inv k" and "audit_attached k pid"
  shows "persona_audit64_dropped_count (run_ops (emit_audit pid) evs k) pid
    = persona_audit64_dropped_count k pid + of_nat (length (audit_log k pid) + length evs - 256)"
  using assms
proof (induction evs arbitrary: k)
  case Nil
  then show ?case using audit_log_le [of k pid] by simp
next
  case (Cons ev evs)
  let ?k = "emit_audit pid ev k"
  have len: "length (audit_log ?k pid) = min 256 (Suc (length (audit_log k pid)))"
    using sink.emit_log [OF Cons.prems, of ev] audit_log_le [OF Cons.prems(1), of pid]
    by (auto simp: bounded_append_def PERSONA_AUDIT64_RING_CAPACITY_def)
  have "persona_audit64_dropped_count (run_ops (emit_audit pid) evs ?k) pid
    = persona_audit64_dropped_count ?k pid + of_nat (length (audit_log ?k pid) + length evs - 256)"
    using Cons.prems by (intro Cons.IH) (simp_all add: sink.emit_inv sink.emit_attached)
  then show ?case
    using audit_log_le [OF Cons.prems(1), of pid]
    by (cases "length (audit_log k pid) = 256")
       (simp_all add: dropped_count_emit [OF Cons.prems] len audit_count_log)
qed

text \<open>
  C7: A process that gets its log and then reports any sequence of events can read back exactly
  the last 256 of them, oldest first, and nothing beyond; the number of forgotten events is the
  dropped count; and what every other process reads from its own log is unchanged.
\<close>

theorem persona_audit64_log_refines_bounded_list:
  assumes "audit_inv k" and "fst (persona_audit64_attach pid k)"
    and k1_def: "k1 = run_ops (emit_audit pid) evs (snd (persona_audit64_attach pid k))"
  shows "map_option event_of (persona_audit64_read k1 pid i)
      = (if i < length (drop (length evs - 256) evs) then Some (drop (length evs - 256) evs ! i) else None)
    \<and> persona_audit64_count k1 pid = min (length evs) 256
    \<and> persona_audit64_dropped_count k1 pid = of_nat (length evs - 256)
    \<and> (q \<noteq> pid \<longrightarrow> persona_audit64_read k1 q i = persona_audit64_read k q i)"
proof (intro conjI impI)
  let ?k0 = "snd (persona_audit64_attach pid k)"
  note a = audit_attach_log [OF assms(1,2)]
  have at: "audit_attached ?k0 pid" using a(2) by (simp add: audit_attached_def)
  have log: "map event_of (audit_log k1 pid) = drop (length evs - 256) evs"
    unfolding k1_def using sink.emit_all_log [OF a(1) at, of evs] a(3) by simp
  then have len: "length (audit_log k1 pid) = length (drop (length evs - 256) evs)"
    by (metis length_map)
  have "map_option event_of (persona_audit64_read k1 pid i)
      = (if i < length (audit_log k1 pid) then Some (map event_of (audit_log k1 pid) ! i) else None)"
    by (simp add: audit_read_log)
  then show "map_option event_of (persona_audit64_read k1 pid i)
      = (if i < length (drop (length evs - 256) evs) then Some (drop (length evs - 256) evs ! i) else None)"
    unfolding log len .
  show "persona_audit64_count k1 pid = min (length evs) 256" using len by (auto simp: audit_count_log)
  show "persona_audit64_dropped_count k1 pid = of_nat (length evs - 256)"
    unfolding k1_def using dropped_count_run [OF a(1) at, of evs] a(3,5) by simp
  assume that: "q \<noteq> pid"
  show "persona_audit64_read k1 q i = persona_audit64_read k q i"
    using sink.emit_all_other [OF a(1) that, of evs] a(4) [OF that] by (simp add: k1_def audit_read_log)
qed

theorem persona_audit64_log_refines_bounded_list_witness:
  "persona_audit64_count (run_ops (emit_audit 5) (replicate 300 (3, 9, 0, 0x400000))
     (snd (persona_audit64_attach 5 kernel_audit_boot))) 5 = 256"
proof -
  have "fst (persona_audit64_attach 5 kernel_audit_boot)" by code_simp
  then show ?thesis
    using persona_audit64_log_refines_bounded_list [OF kernel_audit_boot_inv _ refl, of 5] by simp
qed

subsection \<open>System call tables\<close>

definition foreign_persona :: "u32 \<Rightarrow> bool" where
  "foreign_persona t \<longleftrightarrow> t = PERSONA64_TYPE_LINUX_ELF \<or> t = PERSONA64_TYPE_WINDOWS_PE
     \<or> t = PERSONA64_TYPE_MACOS_MACHO"

definition unknown_names :: "string list" where
  "unknown_names = [''linux.unknown'', ''windows.unknown'', ''macos.unknown'', ''native.unknown'']"

lemma table_dom:
  "set (map fst names) = set (map fst ops) \<Longrightarrow> map_of names n = None \<longleftrightarrow> map_of ops n = None"
  by (simp add: map_of_eq_None_iff)

lemma map_of_all: "list_all P (map snd xs) \<Longrightarrow> map_of xs n = Some y \<Longrightarrow> P y"
  by (auto simp: list_all_iff dest!: map_of_SomeD)

text \<open>One name table and one operation table with the same numbers agree on which calls are known.\<close>

lemma tables_agree:
  assumes "set (map fst names) = set (map fst ops)"
    and "list_all (\<lambda>s. s \<notin> set unknown_names) (map snd names)"
    and "list_all (\<lambda>x. x \<noteq> PERSONA_AUDIT64_OP_UNAVAILABLE) (map snd ops)" and "u \<in> set unknown_names"
  shows "(case map_of ops n of Some x \<Rightarrow> x | None \<Rightarrow> PERSONA_AUDIT64_OP_UNAVAILABLE) = PERSONA_AUDIT64_OP_UNAVAILABLE
    \<longleftrightarrow> (case map_of names n of Some s \<Rightarrow> s | None \<Rightarrow> u) \<in> set unknown_names"
  using table_dom [OF assms(1), of n] map_of_all [OF assms(2), of n] map_of_all [OF assms(3), of n] assms(4)
  by (auto split: option.split)

lemma table_numbers:
  "set (map fst linux_syscall_names) = set (map fst linux_operations)"
  "set (map fst windows_syscall_names) = set (map fst windows_operations)"
  "set (map fst macos_syscall_names) = set (map fst macos_operations)"
  by code_simp+

lemma table_values:
  "list_all (\<lambda>s. s \<notin> set unknown_names) (map snd linux_syscall_names)"
  "list_all (\<lambda>s. s \<notin> set unknown_names) (map snd windows_syscall_names)"
  "list_all (\<lambda>s. s \<notin> set unknown_names) (map snd macos_syscall_names)"
  "list_all (\<lambda>x. x \<noteq> PERSONA_AUDIT64_OP_UNAVAILABLE) (map snd linux_operations)"
  "list_all (\<lambda>x. x \<noteq> PERSONA_AUDIT64_OP_UNAVAILABLE) (map snd windows_operations)"
  "list_all (\<lambda>x. x \<noteq> PERSONA_AUDIT64_OP_UNAVAILABLE) (map snd macos_operations)"
  by code_simp+

text \<open>
  C26: The two switch tables of the audit log agree: for every persona type and call number, the
  call has a translated operation exactly when it has a name, and its name token is never zero,
  the value that means that a record has no token.
\<close>

theorem persona_audit64_tables_agree:
  "(persona_audit64_translated_operation t n = PERSONA_AUDIT64_OP_UNAVAILABLE
     \<longleftrightarrow> persona_audit64_syscall_name t n \<in> set unknown_names)
   \<and> persona_audit64_syscall_name_token t n \<noteq> 0"
proof
  show "persona_audit64_translated_operation t n = PERSONA_AUDIT64_OP_UNAVAILABLE
     \<longleftrightarrow> persona_audit64_syscall_name t n \<in> set unknown_names"
    using tables_agree [OF table_numbers(1) table_values(1,4), of "''linux.unknown''" n]
      tables_agree [OF table_numbers(2) table_values(2,5), of "''windows.unknown''" n]
      tables_agree [OF table_numbers(3) table_values(3,6), of "''macos.unknown''" n]
    by (simp add: persona_audit64_translated_operation_def persona_audit64_syscall_name_def
        persona_audit64_linux_operation_def persona_audit64_windows_operation_def persona_audit64_macos_operation_def
        persona_audit64_linux_syscall_name_def persona_audit64_windows_syscall_name_def
        persona_audit64_macos_syscall_name_def unknown_names_def)
  show "persona_audit64_syscall_name_token t n \<noteq> 0"
    by (simp add: persona_audit64_syscall_name_token_def persona_audit64_hash_text_def Let_def)
qed

subsection \<open>Unavailable calls and crashes\<close>

text \<open>What recording one event leaves behind: the record at the end of the log, the invariant, the other logs.\<close>

lemma record_effect:
  assumes "audit_inv k" and "audit_attached k pid"
    and "persona_audit64_record pid e c r rip k = (ok, k1)"
  shows "ok" and "last_record k1 pid = Some (audit_record (fst (persona_audit64_timestamp k)) pid
      (audit_persona_type k pid) e c r rip)"
    and "audit_inv k1" and "persona_audit64_context_for_process k1 = persona_audit64_context_for_process k"
    and "q \<noteq> pid \<Longrightarrow> audit_log k1 q = audit_log k q"
    and "k_proc k1 = k_proc k" "k_persona k1 = k_persona k"
    and "persona_audit64_crash_count k1 pid = persona_audit64_crash_count k pid"
proof -
  define rec where "rec = audit_record (fst (persona_audit64_timestamp k)) pid (audit_persona_type k pid) e c r rip"
  obtain i where i: "persona_audit64_context_for_process k pid = Some i"
    using assms(2) by (auto simp: audit_attached_def)
  obtain n where n: "n \<noteq> 0" and some: "persona_audit64_record pid e c r rip k
      = (True, upd_actx i (ring_push rec) (set_sequence n k))"
    unfolding rec_def by (rule persona_audit64_record_Some [OF i])
  then show ok: "ok" and k1: "k_proc k1 = k_proc k" "k_persona k1 = k_persona k"
    and "persona_audit64_context_for_process k1 = persona_audit64_context_for_process k"
    using assms(3) by (auto simp: set_sequence_def persona_audit64_context_for_process_def)
  have eq: "k1 = upd_actx i (ring_push rec) (set_sequence n k)"
    using assms(3) some by simp
  show "persona_audit64_crash_count k1 pid = persona_audit64_crash_count k pid"
    using audit_invD(1) [OF assms(1) i] i
    by (simp add: persona_audit64_crash_count_def eq actx_upd ring_push_def)
  have em: "k1 = emit_audit pid (e, c, r, rip) k" using assms(3) by (simp add: emit_audit_def)
  show "audit_inv k1" "q \<noteq> pid \<Longrightarrow> audit_log k1 q = audit_log k q"
    unfolding em by (simp_all add: emit_audit_cases(1,4) [OF assms(1)])
  have "audit_log k1 pid = bounded_append PERSONA_AUDIT64_RING_CAPACITY (audit_log k pid) rec"
    using audit_invD [OF assms(1) i] i
    by (simp add: audit_log_def eq actx_upd ring_push_log)
  then have "audit_log k1 pid \<noteq> []" "last (audit_log k1 pid) = rec"
    by (auto simp: bounded_append_def PERSONA_AUDIT64_RING_CAPACITY_def)
  then show "last_record k1 pid = Some (audit_record (fst (persona_audit64_timestamp k)) pid
      (audit_persona_type k pid) e c r rip)"
    by (simp add: last_record_def Let_def audit_count_log audit_read_log rec_def last_conv_nth)
qed

lemmas last_fields = persona_audit64_last_event_type_def persona_audit64_last_event_code_def
  persona_audit64_last_result_def persona_audit64_last_syscall_name_token_def
  persona_audit64_last_translated_operation_def last_field_def

text \<open>
  C27: A system call the personas do not provide returns the error of its ABI (ENOSYS 38, negated,
  on Linux; 78, negated, on macOS; STATUS_NOT_IMPLEMENTED on Windows) and leaves a matching record
  at the end of the log of the calling process only; a native or unknown persona type is refused
  without a record.
\<close>

theorem persona64_unavailable_syscall_audited:
  assumes "audit_inv k" and "audit_attached k pid"
    and "persona64_record_unavailable_syscall pid t n rip k = ((ok, abi, ret), k1)"
  shows "(ok \<longleftrightarrow> foreign_persona t)
    \<and> (t = PERSONA64_TYPE_LINUX_ELF \<longrightarrow> abi = 38 \<and> sint ret = -38)
    \<and> (t = PERSONA64_TYPE_MACOS_MACHO \<longrightarrow> abi = 78 \<and> sint ret = -78)
    \<and> (t = PERSONA64_TYPE_WINDOWS_PE \<longrightarrow> abi = 0xC0000002 \<and> ret = 0xC0000002)
    \<and> (ok \<longrightarrow> persona_audit64_last_event_type k1 pid = ucast PERSONA_AUDIT64_EVENT_SYSCALL_UNIMPLEMENTED
         \<and> persona_audit64_last_event_code k1 pid = ucast n \<and> persona_audit64_last_result k1 pid = abi
         \<and> persona_audit64_last_translated_operation k1 pid = PERSONA_AUDIT64_OP_UNAVAILABLE)
    \<and> (\<not> ok \<longrightarrow> k_audit k1 = k_audit k)
    \<and> (q \<noteq> pid \<longrightarrow> audit_log k1 q = audit_log k q)"
proof (cases "foreign_persona t")
  case False
  then have "ok = False" "k1 = persona_deny k"
    using assms(3) by (auto simp: persona64_record_unavailable_syscall_def Let_def foreign_persona_def)
  moreover have "audit_log (persona_deny k) q = audit_log k q"
    by (simp add: persona_deny_def audit_log_def persona_audit64_context_for_process_def actx_def
        split: option.split)
  ultimately show ?thesis using False by (simp add: foreign_persona_def persona_deny_def)
next
  case True
  obtain ok' k' where r: "persona_audit64_record pid PERSONA_AUDIT64_EVENT_SYSCALL_UNIMPLEMENTED n
      (persona64_unavailable_result_for_type t) rip k = (ok', k')" by (rule prod.exhaust)
  then have eq: "ok = ok'" "k1 = k'" "abi = persona64_unavailable_result_for_type t"
    "ret = persona64_unavailable_return_for_type t"
    using assms(3) True
    by (auto simp: persona64_record_unavailable_syscall_def Let_def foreign_persona_def split: if_splits)
  note e = record_effect [OF assms(1,2) r]
  show ?thesis
    using e(1,2) e(5) [of q] True
    by (simp add: eq last_fields audit_record_def Let_def persona64_unavailable_result_for_type_def
        persona64_unavailable_return_for_type_def foreign_persona_def persona_types)
qed

theorem persona64_unavailable_syscall_audited_witness:
  "\<exists>k1. persona64_record_unavailable_syscall 5 PERSONA64_TYPE_LINUX_ELF 999 0
      (snd (persona_audit64_attach 5 kernel_audit_boot)) = ((True, 38, -38), k1)
    \<and> persona_audit64_last_event_code k1 5 = 999"
proof -
  let ?k = "snd (persona_audit64_attach 5 kernel_audit_boot)"
  have at: "fst (persona_audit64_attach 5 kernel_audit_boot)" by code_simp
  note a = audit_attach_log(1,2) [OF kernel_audit_boot_inv at]
  obtain ok abi ret k1 where r: "persona64_record_unavailable_syscall 5 PERSONA64_TYPE_LINUX_ELF 999 0 ?k
      = ((ok, abi, ret), k1)" by (metis prod.exhaust)
  have "ret = persona64_unavailable_return_for_type PERSONA64_TYPE_LINUX_ELF"
    using r by (auto simp: persona64_record_unavailable_syscall_def Let_def split: if_splits prod.splits)
  then have "ret = -38" by (simp add: persona64_unavailable_return_for_type_def persona64_unavailable_result_for_type_def)
  with r show ?thesis
    using persona64_unavailable_syscall_audited [OF a(1) _ r] a(2)
    by (simp add: audit_attached_def foreign_persona_def)
qed

text \<open>
  C28: Recording the crash of a process with a log and a foreign persona succeeds and counts one more
  crash. Unless the 32-bit count has thereby wrapped to zero, the crash report can be read back: it holds
  the persona type and vector cut to the width of their fields, the error code, registers and fault
  address that were passed; of the memory view the number of regions, the mapped bytes, the first region
  and the region of the fault address; the timestamp of the record just appended to the log; and, as
  code and as result, the signal number or NTSTATUS of the exception (invalid opcode, divide error, else
  access violation). For every other process the crash is refused and changes nothing.
\<close>

theorem persona_audit64_record_crash_truthful:
  assumes "audit_inv k"
    and "persona_audit64_record_crash vma pid vector err rip rsp fault k = (ok, k1)"
  shows "(ok \<longleftrightarrow> audit_attached k pid \<and> pid \<noteq> PROCESS64_INVALID_PID \<and> foreign_persona (persona64_type k pid))
    \<and> (\<not> ok \<longrightarrow> k1 = k)
    \<and> (ok \<longrightarrow> persona_audit64_crash_count k1 pid = persona_audit64_crash_count k pid + 1
        \<and> (persona_audit64_crash_count k1 pid \<noteq> 0 \<longrightarrow> (\<exists>report. persona_audit64_read_last_crash k1 pid = Some report
             \<and> cr_pid report = pid \<and> cr_rip report = rip \<and> cr_rsp report = rsp \<and> cr_error_code report = err
             \<and> cr_persona_type report = ucast (persona64_type k pid) \<and> cr_vector report = ucast vector
             \<and> cr_fault_address report = fault \<and> cr_fault_region report = vma64_find vma fault
             \<and> cr_vma_region_count report = vma64_region_count vma
             \<and> cr_vma_mapped_bytes report = vma64_mapped_bytes vma
             \<and> cr_vma_first report = vma64_first_region vma
             \<and> cr_abi_code report = cr_result report
             \<and> Some (cr_timestamp report) = map_option ar_timestamp (last_record k1 pid)
             \<and> cr_result report = persona_audit64_last_result k1 pid
             \<and> cr_result report = (if persona64_type k pid = PERSONA64_TYPE_WINDOWS_PE
                 then if vector = 6 then 0xC000001D else if vector = 0 then 0xC0000094 else 0xC0000005
                 else if vector = 6 then 4 else if vector = 0 then 8 else 11))))"
proof (cases "audit_attached k pid \<and> pid \<noteq> PROCESS64_INVALID_PID \<and> foreign_persona (persona64_type k pid)")
  case False
  then have "persona_audit64_record_crash vma pid vector err rip rsp fault k = (False, k)"
    by (auto simp: persona_audit64_record_crash_def audit_attached_def foreign_persona_def split: option.split)
  with False assms(2) show ?thesis by simp
next
  case True
  let ?t = "persona64_type k pid"
  let ?abi = "persona_audit64_crash_result_for_persona ?t vector"
  obtain i where i: "persona_audit64_context_for_process k pid = Some i"
    using True by (auto simp: audit_attached_def)
  obtain ok' k' where r: "persona_audit64_record pid PERSONA_AUDIT64_EVENT_CRASH
      (persona_audit64_crash_event_code ?t vector ?abi) ?abi rip k = (ok', k')" by (rule prod.exhaust)
  note e = record_effect [OF assms(1) _ r]
  have at: "audit_attached k pid" using True by simp
  have ok': "ok'" using e(1) [OF at] .
  have i': "persona_audit64_context_for_process k' pid = Some i" using e(4) [OF at] i by simp
  note d = audit_invD(1) [OF e(3) [OF at] i']
  define report where "report = crash_report vma (case last_record k' pid of None \<Rightarrow> 0 | Some r \<Rightarrow> ar_timestamp r)
    pid ?t vector ?abi err rip rsp fault"
  have k1: "ok" "k1 = upd_actx i (store_crash report) k'"
    using assms(2) True r ok' i
    by (auto simp: persona_audit64_record_crash_def foreign_persona_def Let_def report_def split: if_splits)
  have actx: "actx k1 j = (if j = i then store_crash report (actx k' i) else actx k' j)" for j
    unfolding k1(2) by (rule actx_upd [OF d])
  have same: "ac_count (store_crash report c) = ac_count c" "ring_log (store_crash report c) = ring_log c" for c
    by (simp_all add: store_crash_def ring_log_def)
  have ctx: "persona_audit64_context_for_process k1 pid = Some i" using i' by (simp add: k1(2))
  have "audit_log k1 pid = audit_log k' pid" by (simp add: audit_log_def ctx i' actx same)
  then have last: "last_record k1 pid = last_record k' pid"
    by (simp add: last_record_def audit_count_log audit_read_log)
  have count: "ac_crash_count (actx k' i) = ac_crash_count (actx k i)"
    using e(8) [OF at] i i' by (simp add: persona_audit64_crash_count_def)
  have abi: "?abi = (if ?t = PERSONA64_TYPE_WINDOWS_PE
      then if vector = 6 then 0xC000001D else if vector = 0 then 0xC0000094 else 0xC0000005
      else if vector = 6 then 4 else if vector = 0 then 8 else 11)"
    using True by (auto simp: persona_audit64_crash_result_for_persona_def foreign_persona_def persona_types)
  show ?thesis
    unfolding abi [symmetric] using True e(2) [OF at]
    by (simp add: k1(1) persona_audit64_crash_count_def ctx i actx store_crash_def count
        persona_audit64_read_last_crash_def report_def crash_report_def last last_fields audit_record_def Let_def)
qed

text \<open>Attaching a persona does not touch the logs.\<close>

lemma attach_with_audit:
  "k_audit (snd (persona64_attach_with pid ref prep k)) = k_audit k"
  "process64_audit_ctx (k_proc (snd (persona64_attach_with pid ref prep k))) = process64_audit_ctx (k_proc k)"
proof -
  have slot: "process64_audit_ctx ps = process64_audit_ctx (k_proc k)"
    if "process64_attach_persona pid (Some i) (k_proc k) = (True, ps)" for i ps
    using that persona_slot.attach_record [of pid "Some i" "k_proc k"]
    by (auto simp: fun_eq_iff process64_audit_ctx_def record_field_def process64_attach_persona_def put_persona_def
        split: option.split)
  show "k_audit (snd (persona64_attach_with pid ref prep k)) = k_audit k"
    "process64_audit_ctx (k_proc (snd (persona64_attach_with pid ref prep k))) = process64_audit_ctx (k_proc k)"
    by (auto simp: persona64_attach_with_def Let_def persona_deny_def upd_ctx_def slot
        split: option.split prod.split bool.split)
qed

lemma audit_inv_attach_with: "audit_inv k \<Longrightarrow> audit_inv (snd (persona64_attach_with pid ref prep k))"
  by (simp add: audit_inv_def attach_with_audit)

definition linux_kernel :: kernel_audit where
  "linux_kernel = snd (persona64_init_linux_elf 5 (Injected 7) (snd (persona_audit64_attach 5 kernel_audit_boot)))"

lemma linux_kernel_inv: "audit_inv linux_kernel"
proof -
  have "fst (persona_audit64_attach 5 kernel_audit_boot)" by code_simp
  then show ?thesis
    unfolding linux_kernel_def persona64_init_linux_elf_def
    by (intro audit_inv_attach_with audit_attach_log(1) kernel_audit_boot_inv)
qed

theorem persona_audit64_record_crash_truthful_witness:
  "persona_audit64_crash_count (snd (persona_audit64_record_crash
     \<lparr>vma64_region_count = 0, vma64_mapped_bytes = 0, vma64_first_region = None, vma64_find = (\<lambda>_. None)\<rparr>
     5 14 4 0x401000 0x7FFF0000 0 linux_kernel)) 5 = 1"
proof -
  let ?v = "\<lparr>vma64_region_count = 0, vma64_mapped_bytes = 0, vma64_first_region = None, vma64_find = (\<lambda>_. None)\<rparr>"
  obtain ok k1 where r: "persona_audit64_record_crash ?v 5 14 4 0x401000 0x7FFF0000 0 linux_kernel = (ok, k1)"
    by (rule prod.exhaust)
  have "audit_attached linux_kernel 5" "foreign_persona (persona64_type linux_kernel 5)"
    "persona_audit64_crash_count linux_kernel 5 = 0" by code_simp+
  with persona_audit64_record_crash_truthful [OF linux_kernel_inv r] r show ?thesis by simp
qed

end
