(* ===== verification/Capability_Inv.thy ===== *)
theory Capability_Inv
  imports Capability Persona_Audit_Inv
begin

text \<open>
  Correctness of the capability broker. The table is a finite map from handles to records; grants
  add fresh handles, every other operation only removes entries. The invariant says that handles
  are unique and below the next handle, that rights never exceed what the endpoint allows, and that
  a delegated capability is an attenuation of a root capability that is still in the table or gone.
\<close>

section \<open>The table invariant\<close>

definition cap_ok :: "u32 \<Rightarrow> capability64_record \<Rightarrow> bool" where
  "cap_ok n r \<longleftrightarrow> CAPABILITY64_HANDLE_BASE \<le> cap_handle r \<and> cap_handle r < n
     \<and> principal64_is_active (cap_owner_id r)
     \<and> cap_endpoint_id r = services64_resolve_endpoint_class (cap_endpoint_class r)
     \<and> cap_endpoint_id r \<noteq> u32_max
     \<and> cap_rights r \<noteq> 0 \<and> mask_within (cap_rights r) (allowed_rights (cap_endpoint_id r))
     \<and> (cap_parent_handle r = 0 \<longrightarrow> cap_expiry_tick r = CAPABILITY64_LEASE_PERMANENT)
     \<and> (cap_parent_handle r \<noteq> 0 \<longrightarrow> cap_parent_handle r < cap_handle r
          \<and> cap_rights r AND CAPABILITY64_RIGHT_DELEGATE = 0)"

text \<open>What a delegated record \<open>r\<close> has in common with the root \<open>p\<close> it was derived from.\<close>

definition derived_from :: "capability64_record \<Rightarrow> capability64_record \<Rightarrow> bool" where
  "derived_from p r \<longleftrightarrow> cap_parent_handle p = 0
     \<and> cap_rights p AND CAPABILITY64_RIGHT_DELEGATE \<noteq> 0 \<and> mask_within (cap_rights r) (cap_rights p)
     \<and> cap_endpoint_class r = cap_endpoint_class p \<and> cap_endpoint_id r = cap_endpoint_id p
     \<and> cap_runtime_generation r = cap_runtime_generation p \<and> cap_runtime_token r = cap_runtime_token p
     \<and> cap_persona_type r = cap_persona_type p \<and> cap_persona_mask r = cap_persona_mask p"

definition caps_ok :: "u32 \<Rightarrow> capability64_record list \<Rightarrow> bool" where
  "caps_ok n xs \<longleftrightarrow> length xs = CAPABILITY64_TABLE_LIMIT \<and> CAPABILITY64_HANDLE_BASE \<le> n
     \<and> keys_distinct cap_active cap_handle xs
     \<and> (\<forall>r\<in>set xs. cap_active r \<longrightarrow> cap_ok n r)
     \<and> (\<forall>r\<in>set xs. \<forall>p\<in>set xs. cap_active r \<and> cap_active p \<and> cap_parent_handle r = cap_handle p \<longrightarrow> derived_from p r)"

definition cap_inv :: "'a kernel_cap_scheme \<Rightarrow> bool" where
  "cap_inv k \<longleftrightarrow> caps_ok (g_next_handle (k_cap k)) (g_capabilities (k_cap k))"

lemma caps_okD:
  assumes "caps_ok n xs"
  shows "length xs = CAPABILITY64_TABLE_LIMIT" "keys_distinct cap_active cap_handle xs"
    "r \<in> set xs \<Longrightarrow> cap_active r \<Longrightarrow> cap_ok n r"
    "r \<in> set xs \<Longrightarrow> p \<in> set xs \<Longrightarrow> cap_active r \<Longrightarrow> cap_active p \<Longrightarrow> cap_parent_handle r = cap_handle p
      \<Longrightarrow> derived_from p r"
    "CAPABILITY64_HANDLE_BASE \<le> n"
  using assms by (simp_all add: caps_ok_def)

lemma clear_inactive [simp]: "\<not> cap_active (capability64_clear r)" "cap_handle (capability64_clear r) = cap_handle r"
  by (simp_all add: capability64_clear_def)

subsection \<open>Removing entries\<close>

text \<open>\<open>ys\<close> is \<open>xs\<close> with some slots made inactive.\<close>

definition sub_table :: "capability64_record list \<Rightarrow> capability64_record list \<Rightarrow> bool" where
  "sub_table xs ys \<longleftrightarrow> length ys = length xs \<and> (\<forall>i<length xs. ys ! i = xs ! i \<or> \<not> cap_active (ys ! i))"

lemma sub_table_refl [simp, intro]: "sub_table xs xs"
  by (simp add: sub_table_def)

lemma sub_table_trans: "sub_table xs ys \<Longrightarrow> sub_table ys zs \<Longrightarrow> sub_table xs zs"
  unfolding sub_table_def by metis

lemma sub_table_clear [simp]: "sub_table xs (xs[i := capability64_clear r])"
  by (cases "i < length xs") (auto simp: sub_table_def nth_list_update)

lemma sub_table_map: "(\<And>r. f r = r \<or> \<not> cap_active (f r)) \<Longrightarrow> sub_table xs (map f xs)"
  by (auto simp: sub_table_def)

lemma sub_table_member:
  assumes "sub_table xs ys" and "r \<in> set ys" and "cap_active r"
  shows "r \<in> set xs"
proof -
  obtain i where "i < length ys" "ys ! i = r" using assms(2) by (auto simp: in_set_conv_nth)
  then show ?thesis using assms(1,3) nth_mem [of i xs] by (auto simp: sub_table_def)
qed

lemma caps_ok_sub:
  assumes "caps_ok n xs" and "sub_table xs ys"
  shows "caps_ok n ys"
proof -
  have same: "ys ! i = xs ! i" if "i < length xs" "cap_active (ys ! i)" for i
    using assms(2) that by (auto simp: sub_table_def)
  have "keys_distinct cap_active cap_handle ys"
    using caps_okD(2) [OF assms(1)] assms(2) same unfolding keys_distinct_def sub_table_def by metis
  then show ?thesis
    using assms sub_table_member [OF assms(2)] unfolding caps_ok_def by (auto simp: sub_table_def)
qed

subsection \<open>Adding an entry\<close>

lemma cap_ok_mono: "cap_ok n r \<Longrightarrow> n \<le> m \<Longrightarrow> cap_ok m r"
  by (auto simp: cap_ok_def)

lemma caps_ok_fresh: "caps_ok n xs \<Longrightarrow> table_map cap_active cap_handle xs n = None"
  by (auto simp: table_map_None_iff cap_ok_def dest: caps_okD(3))

lemma caps_ok_parent_fresh:
  assumes "caps_ok n xs" and "r \<in> set xs" and "cap_active r"
  shows "cap_parent_handle r \<noteq> n" "cap_handle r \<noteq> n"
proof -
  have "cap_ok n r" using assms by (rule caps_okD(3))
  moreover have "n \<noteq> 0" using caps_okD(5) [OF assms(1)] by (auto simp: CAPABILITY64_HANDLE_BASE_def)
  ultimately show "cap_parent_handle r \<noteq> n" "cap_handle r \<noteq> n"
    by (auto simp: cap_ok_def)
qed

lemma caps_ok_insert:
  assumes ok: "caps_ok n xs" and i: "i < length xs" and free: "\<not> cap_active (xs ! i)"
    and r: "cap_active r" "cap_handle r = n" "cap_ok (n + 1) r" and room: "n < u32_max"
    and par: "\<And>p. p \<in> set xs \<Longrightarrow> cap_active p \<Longrightarrow> cap_parent_handle r = cap_handle p \<Longrightarrow> derived_from p r"
  shows "caps_ok (n + 1) (xs[i := r])"
    and "table_map cap_active cap_handle (xs[i := r]) = (table_map cap_active cap_handle xs)(n \<mapsto> r)"
proof -
  note ins = table_map_insert [OF caps_okD(2) [OF ok] i free r(1)]
  have fresh: "table_map cap_active cap_handle xs (cap_handle r) = None"
    using caps_ok_fresh [OF ok] r(2) by simp
  show "table_map cap_active cap_handle (xs[i := r]) = (table_map cap_active cap_handle xs)(n \<mapsto> r)"
    using ins(2) [OF fresh] r(2) by simp
  have le: "n \<le> n + 1" using room by (simp add: word_le_nat_alt unat_word_inc)
  have mem: "s \<in> set xs \<or> s = r" if "s \<in> set (xs[i := r])" for s
    using that set_update_subset_insert [of xs i r] by auto
  have par_r: "cap_parent_handle r \<noteq> cap_handle r" using r(3)
    by (auto simp: cap_ok_def CAPABILITY64_HANDLE_BASE_def)
  have "cap_ok (n + 1) s" if "s \<in> set (xs[i := r])" "cap_active s" for s
    using mem [OF that(1)] that(2) r(3) caps_okD(3) [OF ok] cap_ok_mono [OF _ le] by auto
  moreover have "derived_from p s" if "s \<in> set (xs[i := r])" "p \<in> set (xs[i := r])" "cap_active s" "cap_active p"
    "cap_parent_handle s = cap_handle p" for s p
    using mem [OF that(1)] mem [OF that(2)] that(3-5) par par_r caps_okD(4) [OF ok] caps_ok_parent_fresh [OF ok] r(2)
    by auto
  moreover have "CAPABILITY64_HANDLE_BASE \<le> n + 1"
    using caps_okD(5) [OF ok] le by (rule order_trans)
  ultimately show "caps_ok (n + 1) (xs[i := r])"
    unfolding caps_ok_def using ins(1) [OF fresh] caps_okD(1) [OF ok] by auto
qed


section \<open>The broker as a map\<close>

definition cap_map :: "'a kernel_cap_scheme \<Rightarrow> u32 \<Rightarrow> capability64_record option" where
  "cap_map k = table_map cap_active cap_handle (g_capabilities (k_cap k))"

text \<open>The capabilities whose lease has not lapsed at the current tick.\<close>

definition cap_lookup :: "'a kernel_cap_scheme \<Rightarrow> u32 \<Rightarrow> capability64_record option" where
  "cap_lookup k h = (case cap_map k h of None \<Rightarrow> None
     | Some r \<Rightarrow> if capability64_record_expired (k_ticks k) r then None else Some r)"

lemma upd_cap_simps [simp]:
  "k_cap (upd_cap f k) = f (k_cap k)" "k_ticks (upd_cap f k) = k_ticks k" "k_launch (upd_cap f k) = k_launch k"
  "k_proc (upd_cap f k) = k_proc k" "k_persona (upd_cap f k) = k_persona k" "k_audit (upd_cap f k) = k_audit k"
  by (simp_all add: upd_cap_def)

lemma count_denial_simps [simp]:
  "g_capabilities (count_denial s) = g_capabilities s" "g_next_handle (count_denial s) = g_next_handle s"
  by (simp_all add: count_denial_def)

lemma put_cap_simps [simp]:
  "g_capabilities (put_cap i r s) = (g_capabilities s)[i := r]" "g_next_handle (put_cap i r s) = g_next_handle s"
  "g_capabilities (clear_cap i s) = (g_capabilities s)[i := capability64_clear (g_capabilities s ! i)]"
  "g_next_handle (clear_cap i s) = g_next_handle s"
  "g_capabilities (expire_cap i s) = (g_capabilities s)[i := capability64_clear (g_capabilities s ! i)]"
  "g_next_handle (expire_cap i s) = g_next_handle s"
  "g_capabilities (revoke_slot i s) = (g_capabilities s)[i := capability64_clear (g_capabilities s ! i)]"
  "g_next_handle (revoke_slot i s) = g_next_handle s"
  "g_capabilities (revoke_children h s) = map (revoke_child h) (g_capabilities s)"
  "g_next_handle (revoke_children h s) = g_next_handle s"
  by (simp_all add: put_cap_def clear_cap_def expire_cap_def revoke_slot_def revoke_children_def Let_def)

lemma cap_invD:
  assumes "cap_inv k"
  shows "length (g_capabilities (k_cap k)) = CAPABILITY64_TABLE_LIMIT"
    "keys_distinct cap_active cap_handle (g_capabilities (k_cap k))"
  using assms by (simp_all add: cap_inv_def caps_okD)

lemma cap_map_ok:
  assumes "cap_inv k" and "cap_map k h = Some r"
  shows "cap_ok (g_next_handle (k_cap k)) r" "cap_active r" "cap_handle r = h"
  using assms table_map_SomeD [of cap_active cap_handle "g_capabilities (k_cap k)" h r]
  by (auto simp: cap_inv_def cap_map_def caps_okD(3))

lemma cap_lookup_map: "cap_lookup k h = Some r \<Longrightarrow> cap_map k h = Some r"
  by (auto simp: cap_lookup_def split: option.splits if_splits)

text \<open>What an operation that mints nothing may do: make slots inactive and move counters.\<close>

definition cap_shrinks :: "'a kernel_cap_scheme \<Rightarrow> 'a kernel_cap_scheme \<Rightarrow> bool" where
  "cap_shrinks k k' \<longleftrightarrow> sub_table (g_capabilities (k_cap k)) (g_capabilities (k_cap k'))
     \<and> g_next_handle (k_cap k') = g_next_handle (k_cap k)
     \<and> k_ticks k' = k_ticks k \<and> k_launch k' = k_launch k \<and> k_proc k' = k_proc k \<and> k_persona k' = k_persona k"

lemma cap_shrinks_refl [simp, intro]: "cap_shrinks k k"
  by (simp add: cap_shrinks_def)

lemma cap_shrinks_trans: "cap_shrinks k k' \<Longrightarrow> cap_shrinks k' k'' \<Longrightarrow> cap_shrinks k k''"
  by (auto simp: cap_shrinks_def intro: sub_table_trans)

lemma cap_shrinks_inv: "cap_inv k \<Longrightarrow> cap_shrinks k k' \<Longrightarrow> cap_inv k'"
  by (auto simp: cap_inv_def cap_shrinks_def intro: caps_ok_sub)

lemma cap_shrinks_lookup:
  assumes "cap_inv k" and "cap_shrinks k k'" and "cap_lookup k' h = Some r"
  shows "cap_lookup k h = Some r"
proof -
  have d: "keys_distinct cap_active cap_handle (g_capabilities (k_cap k))" using assms(1) by (rule cap_invD)
  have r: "cap_map k' h = Some r" "\<not> capability64_record_expired (k_ticks k') r"
    using assms(3) by (auto simp: cap_lookup_def split: option.splits if_splits)
  then have "r \<in> set (g_capabilities (k_cap k))"
    using assms(2) sub_table_member table_map_SomeD(1,2)
    unfolding cap_map_def cap_shrinks_def by metis
  then have "cap_map k h = Some r"
    using r(1) table_map_SomeD(2,3) [of cap_active cap_handle "g_capabilities (k_cap k')" h r]
    by (simp add: cap_map_def table_map_iff [OF d])
  then show ?thesis using r(2) assms(2) by (simp add: cap_lookup_def cap_shrinks_def)
qed

lemma cap_lookup_eqI: "cap_map k' = cap_map k \<Longrightarrow> k_ticks k' = k_ticks k \<Longrightarrow> cap_lookup k' = cap_lookup k"
  by (simp add: cap_lookup_def fun_eq_iff split: option.split)

lemma cap_map_same: "g_capabilities (k_cap k') = g_capabilities (k_cap k) \<Longrightarrow> cap_map k' = cap_map k"
  by (simp add: cap_map_def)

subsection \<open>The checks\<close>

lemma find_live_spec:
  assumes "cap_inv k" and "capability64_find_live h k = (found, k1)"
  shows "cap_shrinks k k1" "cap_lookup k1 = cap_lookup k" "k_audit k1 = k_audit k"
    and "found = None \<longleftrightarrow> cap_lookup k h = None"
    and "\<And>i. found = Some i \<Longrightarrow> k1 = k \<and> i < length (g_capabilities (k_cap k)) \<and> cap_lookup k h = Some (cap_at k i)
      \<and> cap_active (cap_at k i) \<and> cap_handle (cap_at k i) = h"
proof -
  let ?xs = "g_capabilities (k_cap k)"
  note d = cap_invD(2) [OF assms(1)]
  show "cap_shrinks k k1" "k_audit k1 = k_audit k"
    using assms(2) by (auto simp: capability64_find_live_def cap_shrinks_def split: option.splits if_splits)
  show "found = None \<longleftrightarrow> cap_lookup k h = None"
  proof (cases "slot_of cap_active cap_handle ?xs h")
    case None
    then show ?thesis using assms(2) slot_of_None_iff [of cap_active cap_handle ?xs h]
      by (simp add: capability64_find_live_def cap_lookup_def cap_map_def)
  next
    case (Some i)
    show ?thesis using assms(2) slot_ofD(4) [OF Some]
      by (cases "capability64_record_expired (k_ticks k) (cap_at k i)")
         (auto simp: Some capability64_find_live_def cap_lookup_def cap_map_def cap_at_def)
  qed
  show "k1 = k \<and> i < length ?xs \<and> cap_lookup k h = Some (cap_at k i)
      \<and> cap_active (cap_at k i) \<and> cap_handle (cap_at k i) = h" if "found = Some i" for i
    using that assms(2) slot_ofD [of cap_active cap_handle ?xs h]
    by (auto simp: capability64_find_live_def cap_lookup_def cap_map_def cap_at_def split: option.splits if_splits)
  show "cap_lookup k1 = cap_lookup k"
  proof (cases "slot_of cap_active cap_handle ?xs h")
    case None
    with assms(2) show ?thesis by (simp add: capability64_find_live_def)
  next
    case (Some i)
    note i = slot_ofD [OF Some]
    show ?thesis
    proof (cases "capability64_record_expired (k_ticks k) (cap_at k i)")
      case True
      with Some assms(2) have k1: "k1 = upd_cap (expire_cap i) k" by (simp add: capability64_find_live_def)
      have "cap_map k1 = (cap_map k)(h := None)"
        using table_map_clear(2) [OF d i(1,2) clear_inactive(1)] i(3) by (simp add: cap_map_def k1)
      then show ?thesis using True i(4)
        by (auto simp: fun_eq_iff cap_lookup_def cap_map_def k1 cap_at_def split: option.split)
    next
      case False
      with Some assms(2) show ?thesis by (simp add: capability64_find_live_def)
    qed
  qed
qed

lemma principal_is_valid_spec:
  assumes "capability64_principal_is_valid c k = (valid, k1)"
  shows "valid \<longleftrightarrow> principal64_is_active (capability64_normalize_owner c)" "valid \<Longrightarrow> k1 = k"
    "g_capabilities (k_cap k1) = g_capabilities (k_cap k)" "cap_shrinks k k1" "cap_lookup k1 = cap_lookup k"
    "k_audit k1 = k_audit k"
  using assms cap_lookup_eqI [OF cap_map_same, of k1 k]
  by (auto simp: capability64_principal_is_valid_def cap_shrinks_def split: if_splits)

lemma is_owned_by_spec:
  assumes "capability64_record_is_owned_by i c k = (owned, k1)"
  shows "owned \<longleftrightarrow> cap_owner_id (cap_at k i) = capability64_normalize_owner c" "owned \<Longrightarrow> k1 = k"
    "g_capabilities (k_cap k1) = g_capabilities (k_cap k)" "cap_shrinks k k1" "cap_lookup k1 = cap_lookup k"
    "k_audit k1 = k_audit k"
  using assms cap_lookup_eqI [OF cap_map_same, of k1 k]
  by (auto simp: capability64_record_is_owned_by_def cap_shrinks_def split: if_splits)

lemma cap_lookup_clear:
  assumes "cap_inv k" and "i < length (g_capabilities (k_cap k))" and "cap_active (cap_at k i)"
    and "g_capabilities (k_cap k1) = (g_capabilities (k_cap k))[i := capability64_clear r]" and "k_ticks k1 = k_ticks k"
  shows "cap_lookup k1 = (cap_lookup k)(cap_handle (cap_at k i) := None)"
proof -
  have "cap_map k1 = (cap_map k)(cap_handle (cap_at k i) := None)"
    using table_map_clear(2) [OF cap_invD(2) [OF assms(1)] assms(2) _ clear_inactive(1)] assms(3,4)
    by (simp add: cap_map_def cap_at_def)
  then show ?thesis using assms(5) by (auto simp: fun_eq_iff cap_lookup_def split: option.split)
qed

lemma runtime_is_current_spec:
  assumes "cap_inv k" and "i < length (g_capabilities (k_cap k))" and "cap_active (cap_at k i)"
    and "capability64_record_runtime_is_current i k = (current, k1)"
  shows "current \<longleftrightarrow> runtime_current (k_launch k) (cap_at k i)" "current \<Longrightarrow> k1 = k" "cap_shrinks k k1"
    "\<not> current \<Longrightarrow> cap_lookup k1 = (cap_lookup k)(cap_handle (cap_at k i) := None)" "k_audit k1 = k_audit k"
  using assms(4) cap_lookup_clear [OF assms(1-3), of k1]
  by (auto simp: capability64_record_runtime_is_current_def cap_shrinks_def split: if_splits)

lemma owned_cap_spec:
  assumes "cap_inv k" and "owned_cap h c k = (found, k1)"
  shows "cap_shrinks k k1" "cap_lookup k1 = cap_lookup k" "k_audit k1 = k_audit k"
    and "found = None \<longleftrightarrow> \<not> (\<exists>r. cap_lookup k h = Some r \<and> principal64_is_active (capability64_normalize_owner c)
      \<and> cap_owner_id r = capability64_normalize_owner c)"
    and "\<And>i. found = Some i \<Longrightarrow> k1 = k \<and> i < length (g_capabilities (k_cap k)) \<and> cap_lookup k h = Some (cap_at k i)
      \<and> cap_active (cap_at k i) \<and> cap_handle (cap_at k i) = h"
proof -
  obtain f k2 where fl: "capability64_find_live h k = (f, k2)" by (rule prod.exhaust)
  obtain v k3 where pv: "capability64_principal_is_valid c k2 = (v, k3)" by (rule prod.exhaust)
  note F = find_live_spec [OF assms(1) fl]
  note P = principal_is_valid_spec [OF pv]
  have eq: "owned_cap h c k = (if \<not> v then (None, k3) else case f of
       None \<Rightarrow> (None, upd_cap count_denial k3)
     | Some i \<Rightarrow> let (owned, k4) = capability64_record_is_owned_by i c k3 in (if owned then Some i else None, k4))"
    by (simp add: owned_cap_def fl pv)
  have base: "cap_shrinks k k3" "cap_lookup k3 = cap_lookup k" "k_audit k3 = k_audit k"
    using cap_shrinks_trans [OF F(1) P(4)] F(2,3) P(5,6) by simp_all
  have deny: "cap_shrinks k (upd_cap count_denial k3)" "cap_lookup (upd_cap count_denial k3) = cap_lookup k"
    using base cap_lookup_eqI [OF cap_map_same, of "upd_cap count_denial k3" k3]
    by (simp_all add: cap_shrinks_def)
  consider (bad) "\<not> v" | (none) "v" "f = None" | (some) i where "v" "f = Some i" by (cases f) auto
  then have "cap_shrinks k k1 \<and> cap_lookup k1 = cap_lookup k \<and> k_audit k1 = k_audit k
    \<and> (found = None \<longleftrightarrow> \<not> (\<exists>r. cap_lookup k h = Some r \<and> principal64_is_active (capability64_normalize_owner c)
      \<and> cap_owner_id r = capability64_normalize_owner c))
    \<and> (\<forall>i. found = Some i \<longrightarrow> k1 = k \<and> i < length (g_capabilities (k_cap k)) \<and> cap_lookup k h = Some (cap_at k i)
      \<and> cap_active (cap_at k i) \<and> cap_handle (cap_at k i) = h)"
  proof cases
    case bad
    then show ?thesis using assms(2) base P(1) by (auto simp: eq)
  next
    case none
    then show ?thesis using assms(2) deny base F(4) by (auto simp: eq)
  next
    case (some i)
    obtain ow k4 where ow: "capability64_record_is_owned_by i c k3 = (ow, k4)" by (rule prod.exhaust)
    note O = is_owned_by_spec [OF ow]
    have k3: "k3 = k" using F(5) [OF some(2)] P(2) some(1) by simp
    have r: "found = (if ow then Some i else None)" "k1 = k4" using assms(2) some ow by (auto simp: eq)
    show ?thesis using F(5) [OF some(2)] O P(1) some(1) k3 unfolding r by auto
  qed
  then show "cap_shrinks k k1" "cap_lookup k1 = cap_lookup k" "k_audit k1 = k_audit k"
    "found = None \<longleftrightarrow> \<not> (\<exists>r. cap_lookup k h = Some r \<and> principal64_is_active (capability64_normalize_owner c)
      \<and> cap_owner_id r = capability64_normalize_owner c)"
    "\<And>i. found = Some i \<Longrightarrow> k1 = k \<and> i < length (g_capabilities (k_cap k)) \<and> cap_lookup k h = Some (cap_at k i)
      \<and> cap_active (cap_at k i) \<and> cap_handle (cap_at k i) = h"
    by blast+
qed

subsection \<open>Routing\<close>

definition route_rights :: "u32 \<Rightarrow> u32" where
  "route_rights required_rights = (if required_rights = 0 then CAPABILITY64_RIGHT_SEND else required_rights)"

text \<open>The capability under a handle authorises a caller, its service's runtime aside.\<close>

definition authorises :: "capability64_record \<Rightarrow> u32 \<Rightarrow> u32 \<Rightarrow> bool" where
  "authorises r required_rights c \<longleftrightarrow>
     principal64_is_active (capability64_normalize_owner c) \<and> cap_owner_id r = capability64_normalize_owner c
   \<and> cap_rights r AND route_rights required_rights = route_rights required_rights"

lemma route_spec:
  assumes "cap_inv k" and "capability64_route h req c k = (e, k1)"
  shows "cap_shrinks k k1"
    and "e = (case cap_lookup k h of None \<Rightarrow> u32_max
       | Some r \<Rightarrow> if authorises r req c \<and> runtime_current (k_launch k) r then cap_endpoint_id r else u32_max)"
    and "cap_lookup k1 = (case cap_lookup k h of None \<Rightarrow> cap_lookup k
       | Some r \<Rightarrow> if authorises r req c \<and> \<not> runtime_current (k_launch k) r
                  then (cap_lookup k)(h := None) else cap_lookup k)"
proof -
  obtain f k2 where fl: "capability64_find_live h k = (f, k2)" by (rule prod.exhaust)
  obtain v k3 where pv: "capability64_principal_is_valid c k2 = (v, k3)" by (rule prod.exhaust)
  note F = find_live_spec [OF assms(1) fl]
  note P = principal_is_valid_spec [OF pv]
  have base: "cap_shrinks k k3" "cap_lookup k3 = cap_lookup k"
    using cap_shrinks_trans [OF F(1) P(4)] F(2) P(5) by simp_all
  have deny: "cap_shrinks k (upd_cap count_denial k3)" "cap_lookup (upd_cap count_denial k3) = cap_lookup k"
    using base cap_lookup_eqI [OF cap_map_same, of "upd_cap count_denial k3" k3]
    by (simp_all add: cap_shrinks_def)
  let ?goal = "cap_shrinks k k1
    \<and> e = (case cap_lookup k h of None \<Rightarrow> u32_max
       | Some r \<Rightarrow> if authorises r req c \<and> runtime_current (k_launch k) r then cap_endpoint_id r else u32_max)
    \<and> cap_lookup k1 = (case cap_lookup k h of None \<Rightarrow> cap_lookup k
       | Some r \<Rightarrow> if authorises r req c \<and> \<not> runtime_current (k_launch k) r
                  then (cap_lookup k)(h := None) else cap_lookup k)"
  consider (bad) "\<not> v" | (none) "v" "f = None"
    | (rights) i where "v" "f = Some i" "cap_rights (cap_at k i) AND route_rights req \<noteq> route_rights req"
    | (some) i where "v" "f = Some i" "cap_rights (cap_at k i) AND route_rights req = route_rights req"
    by (cases f) auto
  then have ?goal
  proof cases
    case bad
    then have "e = u32_max" "k1 = k3" using assms(2) fl pv by (auto simp: capability64_route_def Let_def)
    then show ?thesis using base P(1) bad by (auto simp: authorises_def split: option.split)
  next
    case none
    then have "e = u32_max" "k1 = upd_cap count_denial k3"
      using assms(2) fl pv by (auto simp: capability64_route_def Let_def)
    then show ?thesis using deny F(4) none(2) by simp
  next
    case (rights i)
    have k3: "k3 = k" using F(5) [OF rights(2)] P(2) rights(1) by simp
    have "e = u32_max" "k1 = upd_cap count_denial k3"
      using assms(2) fl pv rights k3 by (auto simp: capability64_route_def Let_def route_rights_def)
    then show ?thesis using deny F(5) [OF rights(2)] rights(3) by (simp add: authorises_def)
  next
    case (some i)
    have k3: "k3 = k" using F(5) [OF some(2)] P(2) some(1) by simp
    note i = F(5) [OF some(2)]
    obtain ow k4 where ow: "capability64_record_is_owned_by i c k = (ow, k4)" by (rule prod.exhaust)
    obtain cu k5 where cu: "capability64_record_runtime_is_current i k = (cu, k5)" by (rule prod.exhaust)
    note O = is_owned_by_spec [OF ow]
    note R = runtime_is_current_spec [OF assms(1) _ _ cu]
    have step: "(e, k1) = (if \<not> ow then (u32_max, k4) else if \<not> cu then (u32_max, k5)
        else (cap_endpoint_id (cap_at k i), upd_cap (\<lambda>s. s\<lparr>g_route_count := g_route_count s + 1\<rparr>) k))"
      using assms(2) fl pv some k3 ow cu O(2) R(2) i
      by (auto simp: capability64_route_def Let_def route_rights_def)
    have same: "cap_lookup (upd_cap (\<lambda>s. s\<lparr>g_route_count := g_route_count s + 1\<rparr>) k) = cap_lookup k"
      "cap_shrinks k (upd_cap (\<lambda>s. s\<lparr>g_route_count := g_route_count s + 1\<rparr>) k)"
      by (rule cap_lookup_eqI [OF cap_map_same]) (simp_all add: cap_shrinks_def)
    have auth: "authorises (cap_at k i) req c \<longleftrightarrow> ow" using O(1) P(1) some(1,3) by (simp add: authorises_def)
    show ?thesis
      using step i O R same auth by (cases ow; cases cu) auto
  qed
  then show "cap_shrinks k k1" "e = (case cap_lookup k h of None \<Rightarrow> u32_max
       | Some r \<Rightarrow> if authorises r req c \<and> runtime_current (k_launch k) r then cap_endpoint_id r else u32_max)"
    "cap_lookup k1 = (case cap_lookup k h of None \<Rightarrow> cap_lookup k
       | Some r \<Rightarrow> if authorises r req c \<and> \<not> runtime_current (k_launch k) r
                  then (cap_lookup k)(h := None) else cap_lookup k)" by blast+
qed

subsection \<open>Revocation\<close>

lemma revoke_child_cases: "revoke_child h r = r \<or> \<not> cap_active (revoke_child h r)"
  "cap_active (revoke_child h r) \<Longrightarrow> revoke_child h r = r"
  "cap_active (revoke_child h r) \<longleftrightarrow> cap_active r \<and> cap_parent_handle r \<noteq> h"
  by (auto simp: revoke_child_def)

lemma revoke_spec:
  assumes "cap_inv k" and "capability64_revoke h c k = (ok, k1)"
  shows "cap_shrinks k k1"
    and "ok \<longleftrightarrow> (\<exists>r. cap_lookup k h = Some r \<and> principal64_is_active (capability64_normalize_owner c)
      \<and> cap_owner_id r = capability64_normalize_owner c)"
    and "cap_lookup k1 g = (case cap_lookup k g of None \<Rightarrow> None
      | Some r \<Rightarrow> if ok \<and> (g = h \<or> cap_parent_handle r = h) then None else Some r)"
proof -
  obtain f k2 where oc: "owned_cap h c k = (f, k2)" by (rule prod.exhaust)
  note O = owned_cap_spec [OF assms(1) oc]
  show ok: "ok \<longleftrightarrow> (\<exists>r. cap_lookup k h = Some r \<and> principal64_is_active (capability64_normalize_owner c)
      \<and> cap_owner_id r = capability64_normalize_owner c)"
    using O(4) assms(2) oc by (cases f) (auto simp: capability64_revoke_def)
  show "cap_shrinks k k1" "cap_lookup k1 g = (case cap_lookup k g of None \<Rightarrow> None
      | Some r \<Rightarrow> if ok \<and> (g = h \<or> cap_parent_handle r = h) then None else Some r)"
  proof (atomize(full), cases f)
    case None
    then have "k1 = k2" "\<not> ok" using assms(2) oc by (auto simp: capability64_revoke_def)
    then show "cap_shrinks k k1 \<and> cap_lookup k1 g = (case cap_lookup k g of None \<Rightarrow> None
      | Some r \<Rightarrow> if ok \<and> (g = h \<or> cap_parent_handle r = h) then None else Some r)"
      using O(1,2) by (simp split: option.split)
  next
    case (Some i)
    let ?xs = "g_capabilities (k_cap k)" and ?c = "capability64_clear (g_capabilities (k_cap k) ! i)"
    note i = O(5) [OF Some]
    have k1: "k1 = upd_cap (\<lambda>s. revoke_children h (revoke_slot i s)) k" "ok"
      using assms(2) oc Some i by (auto simp: capability64_revoke_def)
    have "sub_table ?xs (map (revoke_child h) (?xs[i := ?c]))"
      by (rule sub_table_trans [OF sub_table_clear sub_table_map]) (rule revoke_child_cases(1))
    then have shr: "cap_shrinks k k1" by (simp add: cap_shrinks_def k1)
    have act: "cap_active (?xs ! i)" using i by (simp add: cap_at_def)
    note d = table_map_clear [OF cap_invD(2) [OF assms(1)] _ act clear_inactive(1), of "g_capabilities (k_cap k) ! i"]
    have dist: "keys_distinct cap_active cap_handle (?xs[i := ?c])" using d(1) i by simp
    have sweep: "table_map cap_active cap_handle (map (revoke_child h) (?xs[i := ?c])) g
       = (case table_map cap_active cap_handle (?xs[i := ?c]) g of None \<Rightarrow> None
          | Some r \<Rightarrow> if cap_active (revoke_child h r) then Some (revoke_child h r) else None)" for g
      by (rule table_map_sweep(2) [OF dist]) (auto simp: revoke_child_def split: if_splits)
    have "cap_map k1 g = (case cap_map k g of None \<Rightarrow> None
        | Some r \<Rightarrow> if g = h \<or> cap_parent_handle r = h then None else Some r)" for g
      using sweep [of g] d(2) i table_map_SomeD(2) [of cap_active cap_handle ?xs g]
      by (auto simp: cap_map_def k1 cap_at_def revoke_child_def split: option.split)
    then show "cap_shrinks k k1 \<and> cap_lookup k1 g = (case cap_lookup k g of None \<Rightarrow> None
      | Some r \<Rightarrow> if ok \<and> (g = h \<or> cap_parent_handle r = h) then None else Some r)"
      using shr k1(2) by (auto simp: cap_lookup_def k1(1) split: option.split)
  qed
qed

subsection \<open>Grants\<close>

lemma granted_record_simps [simp]:
  "cap_active (granted_record ms h cls r ow pt pm)" "cap_handle (granted_record ms h cls r ow pt pm) = h"
  "cap_endpoint_class (granted_record ms h cls r ow pt pm) = cls"
  "cap_endpoint_id (granted_record ms h cls r ow pt pm) = services64_resolve_endpoint_class cls"
  "cap_rights (granted_record ms h cls r ow pt pm) = r" "cap_parent_handle (granted_record ms h cls r ow pt pm) = 0"
  "cap_owner_id (granted_record ms h cls r ow pt pm) = ow"
  "cap_expiry_tick (granted_record ms h cls r ow pt pm) = CAPABILITY64_LEASE_PERMANENT"
  "cap_persona_type (granted_record ms h cls r ow pt pm) = pt" "cap_persona_mask (granted_record ms h cls r ow pt pm) = pm"
  by (simp_all add: granted_record_def capability64_bind_runtime_def Let_def)

lemma normalize_owner_idem [simp]:
  "capability64_normalize_owner (capability64_normalize_owner c) = capability64_normalize_owner c"
  by (simp add: capability64_normalize_owner_def)

definition grant_admissible :: "u32 \<Rightarrow> u32 \<Rightarrow> u32 \<Rightarrow> bool" where
  "grant_admissible cls req ow \<longleftrightarrow> principal64_is_active (capability64_normalize_owner ow)
     \<and> services64_resolve_endpoint_class cls \<noteq> u32_max
     \<and> mask_within (route_rights req) (allowed_rights (services64_resolve_endpoint_class cls))"

definition cap_full :: "'a kernel_cap_scheme \<Rightarrow> bool" where
  "cap_full k \<longleftrightarrow> count_if cap_active (g_capabilities (k_cap k)) = CAPABILITY64_TABLE_LIMIT"

lemma route_rights_nonzero: "route_rights req \<noteq> 0"
  by (simp add: route_rights_def cap_rights_defs)

lemma find_free_spec:
  assumes "cap_inv k"
  shows "capability64_find_free k = None \<longleftrightarrow> cap_full k"
    and "capability64_find_free k = Some i \<Longrightarrow> i < length (g_capabilities (k_cap k)) \<and> \<not> cap_active (g_capabilities (k_cap k) ! i)"
  using free_slot_None [of cap_active "g_capabilities (k_cap k)"] cap_invD(1) [OF assms]
    first_index_SomeD [of "\<lambda>r. \<not> cap_active r" "g_capabilities (k_cap k)" i]
  by (simp_all add: capability64_find_free_def cap_full_def)

lemma base_le_handle: "CAPABILITY64_HANDLE_BASE \<le> n \<Longrightarrow> n \<noteq> 0"
  by (auto simp: CAPABILITY64_HANDLE_BASE_def)

lemma insert_cap:
  assumes "cap_inv k" and "i < length (g_capabilities (k_cap k))" and "\<not> cap_active (g_capabilities (k_cap k) ! i)"
    and "cap_active r" "cap_handle r = g_next_handle (k_cap k)" "cap_ok (g_next_handle (k_cap k) + 1) r"
    and "g_next_handle (k_cap k) < u32_max"
    and "\<And>p. p \<in> set (g_capabilities (k_cap k)) \<Longrightarrow> cap_active p \<Longrightarrow> cap_parent_handle r = cap_handle p \<Longrightarrow> derived_from p r"
    and "g_capabilities (k_cap k1) = (g_capabilities (k_cap k))[i := r]"
    and "g_next_handle (k_cap k1) = g_next_handle (k_cap k) + 1"
  shows "cap_inv k1" "cap_map k1 = (cap_map k)(g_next_handle (k_cap k) \<mapsto> r)"
  using caps_ok_insert [of "g_next_handle (k_cap k)" "g_capabilities (k_cap k)" i r] assms
  by (simp_all add: cap_inv_def cap_map_def)

lemma grant_spec:
  assumes "cap_inv k" and "g_next_handle (k_cap k) < u32_max"
    and "capability64_grant_service_tagged cls req ow pt pm k = (h, k1)"
  shows "h \<noteq> CAPABILITY64_INVALID_HANDLE \<longleftrightarrow> grant_admissible cls req ow \<and> \<not> cap_full k"
    and "h = CAPABILITY64_INVALID_HANDLE \<Longrightarrow> cap_shrinks k k1 \<and> cap_map k1 = cap_map k"
    and "h \<noteq> CAPABILITY64_INVALID_HANDLE \<Longrightarrow> h = g_next_handle (k_cap k) \<and> cap_inv k1
      \<and> cap_map k1 = (cap_map k)(h \<mapsto> granted_record (k_launch k) h cls (route_rights req)
            (capability64_normalize_owner ow) pt pm)
      \<and> g_next_handle (k_cap k1) = h + 1"
    and "k_ticks k1 = k_ticks k" "k_launch k1 = k_launch k" "k_proc k1 = k_proc k" "k_persona k1 = k_persona k"
proof -
  let ?ow = "capability64_normalize_owner ow" and ?e = "services64_resolve_endpoint_class cls"
  let ?n = "g_next_handle (k_cap k)"
  define rec where "rec = granted_record (k_launch k) ?n cls (route_rights req) ?ow pt pm"
  obtain v k2 where pv: "capability64_principal_is_valid ?ow k = (v, k2)" by (rule prod.exhaust)
  note P = principal_is_valid_spec [OF pv]
  have n: "?n \<noteq> u32_max" using assms(2) by auto
  have same: "cap_map k2 = cap_map k" by (rule cap_map_same [OF P(3)])
  have eq: "(h, k1) = (if \<not> v then (u32_max, k2)
      else if ?e = u32_max then (u32_max, upd_cap count_denial k2)
      else if route_rights req AND NOT (allowed_rights ?e) \<noteq> 0 then (u32_max, upd_cap count_denial k2)
      else case capability64_find_free k2 of None \<Rightarrow> (u32_max, upd_cap count_denial k2)
        | Some i \<Rightarrow> (g_next_handle (k_cap k2), upd_cap (\<lambda>s. (put_cap i
            (granted_record (k_launch k2) (g_next_handle (k_cap k2)) cls (route_rights req) ?ow pt pm) s)
            \<lparr>g_next_handle := g_next_handle (k_cap k2) + 1, g_grant_count := g_grant_count s + 1\<rparr>) k2))"
    unfolding assms(3) [symmetric] capability64_grant_service_tagged_def route_rights_def
    by (simp add: Let_def pv split: option.split)
  have deny: "cap_shrinks k (upd_cap count_denial k)" "cap_map (upd_cap count_denial k) = cap_map k"
    by (simp_all add: cap_shrinks_def cap_map_def)
  let ?goal = "(h \<noteq> u32_max \<longleftrightarrow> grant_admissible cls req ow \<and> \<not> cap_full k)
    \<and> (h = u32_max \<longrightarrow> cap_shrinks k k1 \<and> cap_map k1 = cap_map k)
    \<and> (h \<noteq> u32_max \<longrightarrow> h = ?n \<and> cap_inv k1 \<and> cap_map k1 = (cap_map k)(h \<mapsto> rec) \<and> g_next_handle (k_cap k1) = h + 1)
    \<and> k_ticks k1 = k_ticks k \<and> k_launch k1 = k_launch k \<and> k_proc k1 = k_proc k \<and> k_persona k1 = k_persona k"
  consider (bad) "\<not> v" | (deny) "v" "?e = u32_max \<or> \<not> mask_within (route_rights req) (allowed_rights ?e)"
    | (full) "v" "?e \<noteq> u32_max" "mask_within (route_rights req) (allowed_rights ?e)" "capability64_find_free k = None"
    | (ok) i where "v" "?e \<noteq> u32_max" "mask_within (route_rights req) (allowed_rights ?e)" "capability64_find_free k = Some i"
    by (cases "capability64_find_free k") auto
  then have ?goal
  proof cases
    case bad
    then show ?thesis using eq P(1,4) same by (auto simp: grant_admissible_def cap_shrinks_def)
  next
    case deny': deny
    then show ?thesis using eq deny P(2) by (auto simp: grant_admissible_def mask_outside_iff split: if_splits)
  next
    case full
    then show ?thesis using eq deny P(2) find_free_spec(1) [OF assms(1)]
      by (simp add: grant_admissible_def mask_outside_iff)
  next
    case (ok i)
    note i = find_free_spec(2) [OF assms(1) ok(4)]
    have k1: "h = ?n" "k1 = upd_cap (\<lambda>s. (put_cap i rec s)\<lparr>g_next_handle := ?n + 1, g_grant_count := g_grant_count s + 1\<rparr>) k"
      using eq ok P(2) by (simp_all add: mask_outside_iff rec_def)
    have "?n < ?n + 1" using assms(2) by (simp add: word_less_nat_alt unat_word_inc)
    moreover have base: "CAPABILITY64_HANDLE_BASE \<le> ?n" using assms(1) by (simp add: cap_inv_def caps_okD)
    ultimately have cok: "cap_ok (?n + 1) rec"
      using ok P(1) route_rights_nonzero by (simp add: cap_ok_def rec_def)
    have der: "derived_from p rec" if "p \<in> set (g_capabilities (k_cap k))" "cap_active p" "cap_parent_handle rec = cap_handle p" for p
      using that caps_okD(3) [of ?n "g_capabilities (k_cap k)" p] assms(1)
      by (auto simp: rec_def cap_inv_def cap_ok_def CAPABILITY64_HANDLE_BASE_def)
    have r: "cap_active rec" "cap_handle rec = ?n" by (simp_all add: rec_def)
    have tab: "g_capabilities (k_cap k1) = (g_capabilities (k_cap k))[i := rec]" "g_next_handle (k_cap k1) = ?n + 1"
      by (simp_all add: k1)
    have "cap_inv k1" "cap_map k1 = (cap_map k)(?n \<mapsto> rec)"
      using insert_cap [OF assms(1) _ _ r cok assms(2) der tab] i by blast+
    moreover have "grant_admissible cls req ow" "\<not> cap_full k"
      using ok P(1) find_free_spec(1) [OF assms(1)] by (simp_all add: grant_admissible_def)
    ultimately show ?thesis using k1 n by simp
  qed
  then show "h \<noteq> CAPABILITY64_INVALID_HANDLE \<longleftrightarrow> grant_admissible cls req ow \<and> \<not> cap_full k"
    "h = CAPABILITY64_INVALID_HANDLE \<Longrightarrow> cap_shrinks k k1 \<and> cap_map k1 = cap_map k"
    "h \<noteq> CAPABILITY64_INVALID_HANDLE \<Longrightarrow> h = ?n \<and> cap_inv k1
      \<and> cap_map k1 = (cap_map k)(h \<mapsto> granted_record (k_launch k) h cls (route_rights req) ?ow pt pm)
      \<and> g_next_handle (k_cap k1) = h + 1"
    "k_ticks k1 = k_ticks k" "k_launch k1 = k_launch k" "k_proc k1 = k_proc k" "k_persona k1 = k_persona k"
    unfolding rec_def by blast+
qed

subsection \<open>Delegation\<close>

definition delegated_rights :: "u32 \<Rightarrow> capability64_record \<Rightarrow> u32" where
  "delegated_rights req r = (if req = 0 then cap_rights r AND NOT CAPABILITY64_RIGHT_DELEGATE else req)"

text \<open>What the caller and the capability must satisfy for a delegation to the recipient, room in the table aside.\<close>

definition delegation_admissible :: "'a kernel_cap_scheme \<Rightarrow> capability64_record \<Rightarrow> u32 \<Rightarrow> u32 \<Rightarrow> bool" where
  "delegation_admissible k r req octx \<longleftrightarrow>
     principal64_is_active (capability64_context_caller octx)
   \<and> principal64_is_active (capability64_context_recipient octx)
   \<and> cap_owner_id r = capability64_context_caller octx
   \<and> cap_rights r AND CAPABILITY64_RIGHT_DELEGATE \<noteq> 0
   \<and> delegated_rights req r \<noteq> 0 \<and> delegated_rights req r AND CAPABILITY64_RIGHT_DELEGATE = 0
   \<and> mask_within (delegated_rights req r) (cap_rights r)
   \<and> persona_admits k r (capability64_context_recipient octx)"

lemma context_caller_normal [simp]:
  "capability64_normalize_owner (capability64_context_caller octx) = capability64_context_caller octx"
  "capability64_normalize_owner (capability64_context_recipient octx) = capability64_context_recipient octx"
  by (simp_all add: capability64_context_caller_def capability64_context_recipient_def capability64_normalize_owner_def Let_def)

lemma and_not_disjoint: "(r :: u32) AND m = 0 \<Longrightarrow> r AND NOT m = r"
  by (auto simp: bit_eq_iff bit_and_iff bit_not_iff)

lemma persona_record_keeps:
  "k_cap (snd (persona_audit64_record pid e c r rip k)) = k_cap k"
  "k_ticks (snd (persona_audit64_record pid e c r rip k)) = k_ticks k"
  "k_launch (snd (persona_audit64_record pid e c r rip k)) = k_launch k"
  "k_proc (snd (persona_audit64_record pid e c r rip k)) = k_proc k"
  "k_persona (snd (persona_audit64_record pid e c r rip k)) = k_persona k"
  by (simp_all add: persona_audit64_record_def persona_audit64_timestamp_def upd_actx_def Let_def split: option.split)

lemma audit_denial_keeps [simp]:
  "k_cap (capability64_audit_persona_denial ow cls k) = k_cap k"
  "k_ticks (capability64_audit_persona_denial ow cls k) = k_ticks k"
  "k_launch (capability64_audit_persona_denial ow cls k) = k_launch k"
  "k_proc (capability64_audit_persona_denial ow cls k) = k_proc k"
  "k_persona (capability64_audit_persona_denial ow cls k) = k_persona k"
  by (simp_all add: capability64_audit_persona_denial_def Let_def persona_record_keeps)

lemma allows_recipient_spec:
  assumes "capability64_record_allows_recipient_persona i ow k = (ok, k1)"
  shows "ok \<longleftrightarrow> persona_admits k (cap_at k i) ow" "ok \<Longrightarrow> k1 = k" "cap_shrinks k k1"
    "g_capabilities (k_cap k1) = g_capabilities (k_cap k)" "cap_lookup k1 = cap_lookup k"
proof -
  show "ok \<longleftrightarrow> persona_admits k (cap_at k i) ow" "ok \<Longrightarrow> k1 = k"
    using assms by (auto simp: capability64_record_allows_recipient_persona_def split: if_splits)
  show shr: "cap_shrinks k k1" and caps: "g_capabilities (k_cap k1) = g_capabilities (k_cap k)"
    using assms
    by (auto simp: capability64_record_allows_recipient_persona_def cap_shrinks_def split: if_splits)
  show "cap_lookup k1 = cap_lookup k"
    by (rule cap_lookup_eqI [OF cap_map_same [OF caps]]) (use shr in \<open>simp add: cap_shrinks_def\<close>)
qed

lemma delegated_record_simps [simp]:
  "cap_active (delegated_record src h r ow t)" "cap_handle (delegated_record src h r ow t) = h"
  "cap_endpoint_class (delegated_record src h r ow t) = cap_endpoint_class src"
  "cap_endpoint_id (delegated_record src h r ow t) = cap_endpoint_id src"
  "cap_rights (delegated_record src h r ow t) = r" "cap_parent_handle (delegated_record src h r ow t) = cap_handle src"
  "cap_owner_id (delegated_record src h r ow t) = ow" "cap_expiry_tick (delegated_record src h r ow t) = t"
  "cap_runtime_generation (delegated_record src h r ow t) = cap_runtime_generation src"
  "cap_runtime_token (delegated_record src h r ow t) = cap_runtime_token src"
  "cap_persona_type (delegated_record src h r ow t) = cap_persona_type src"
  "cap_persona_mask (delegated_record src h r ow t) = cap_persona_mask src"
  by (simp_all add: delegated_record_def)

text \<open>The record minted by a delegation satisfies the table invariant.\<close>

lemma delegated_record_ok:
  assumes inv: "cap_inv k" and room: "g_next_handle (k_cap k) < u32_max"
    and src: "cap_map k h = Some src" and adm: "delegation_admissible k src req octx"
  defines "n \<equiv> g_next_handle (k_cap k)"
  shows "cap_ok (n + 1) (delegated_record src n (delegated_rights req src) (capability64_context_recipient octx) t)"
    and "p \<in> set (g_capabilities (k_cap k)) \<Longrightarrow> cap_active p \<Longrightarrow> cap_handle src = cap_handle p \<Longrightarrow>
      derived_from p (delegated_record src n (delegated_rights req src) (capability64_context_recipient octx) t)"
proof -
  note s = cap_map_ok [OF inv src]
  have base: "CAPABILITY64_HANDLE_BASE \<le> n" using inv by (simp add: n_def cap_inv_def caps_okD)
  have "n < n + 1" using room by (simp add: n_def word_less_nat_alt unat_word_inc)
  moreover have "mask_within (delegated_rights req src) (allowed_rights (cap_endpoint_id src))"
    using adm s(1) by (auto simp: delegation_admissible_def cap_ok_def intro: mask_within_trans)
  ultimately show "cap_ok (n + 1) (delegated_record src n (delegated_rights req src) (capability64_context_recipient octx) t)"
    using adm s(1,3) base unfolding cap_ok_def delegation_admissible_def n_def [symmetric]
    by (auto simp: CAPABILITY64_HANDLE_BASE_def)
  assume p: "p \<in> set (g_capabilities (k_cap k))" "cap_active p" "cap_handle src = cap_handle p"
  then have "cap_map k h = Some p"
    using s(3) cap_invD(2) [OF inv] by (simp add: cap_map_def table_map_iff)
  then have "p = src" using src by simp
  moreover have "cap_parent_handle src = 0"
    using s(1) adm by (auto simp: cap_ok_def delegation_admissible_def)
  ultimately show "derived_from p (delegated_record src n (delegated_rights req src) (capability64_context_recipient octx) t)"
    using adm by (auto simp: derived_from_def delegation_admissible_def)
qed

lemma delegate_from_eq:
  assumes "capability64_record_is_owned_by i c k = (ow, k1)"
    and "capability64_record_allows_recipient_persona i rc k = (al, k2)"
  shows "delegate_from i req c rc t k =
    (if \<not> ow then (u32_max, k1)
     else if cap_rights (cap_at k i) AND CAPABILITY64_RIGHT_DELEGATE = 0
       \<or> delegated_rights req (cap_at k i) = 0 \<or> delegated_rights req (cap_at k i) AND CAPABILITY64_RIGHT_DELEGATE \<noteq> 0
       \<or> \<not> mask_within (delegated_rights req (cap_at k i)) (cap_rights (cap_at k i))
     then (u32_max, upd_cap count_denial k)
     else if \<not> al then (u32_max, k2)
     else case capability64_find_free k of None \<Rightarrow> (u32_max, upd_cap count_denial k)
       | Some j \<Rightarrow> (g_next_handle (k_cap k), upd_cap (\<lambda>s. (put_cap j
           (delegated_record (cap_at k i) (g_next_handle (k_cap k)) (delegated_rights req (cap_at k i)) rc t) s)
           \<lparr>g_next_handle := g_next_handle (k_cap k) + 1, g_grant_count := g_grant_count s + 1,
            g_delegate_count := g_delegate_count s + 1\<rparr>) k))"
proof (cases ow)
  case False
  then show ?thesis using assms(1) by (simp add: delegate_from_def Let_def)
next
  case True
  then have k1: "k1 = k" using is_owned_by_spec(2) [OF assms(1)] by simp
  let ?d = "delegated_rights req (cap_at k i)"
  show ?thesis
  proof (cases "cap_rights (cap_at k i) AND CAPABILITY64_RIGHT_DELEGATE = 0
       \<or> ?d = 0 \<or> ?d AND CAPABILITY64_RIGHT_DELEGATE \<noteq> 0 \<or> \<not> mask_within ?d (cap_rights (cap_at k i))")
    case deny: True
    then show ?thesis using assms(1) True k1
      by (auto simp: delegate_from_def Let_def delegated_rights_def mask_within_def)
  next
    case False
    then have d: "?d AND NOT CAPABILITY64_RIGHT_DELEGATE = ?d" using and_not_disjoint by blast
    show ?thesis
    proof (cases al)
      case al: True
      then have "k2 = k" using allows_recipient_spec(2) [OF assms(2)] by simp
      then show ?thesis using assms True al k1 False d
        by (simp add: delegate_from_def Let_def delegated_rights_def [symmetric] mask_within_def
            split: option.split split del: if_split)
    next
      case al: False
      then show ?thesis using assms True k1 False d
        by (simp add: delegate_from_def Let_def delegated_rights_def [symmetric] mask_within_def split del: if_split)
    qed
  qed
qed

lemma delegate_spec:
  assumes inv: "cap_inv k" and room: "g_next_handle (k_cap k) < u32_max"
    and eq: "capability64_delegate_with_expiry sh req octx t k = (h, k1)"
  shows "h \<noteq> CAPABILITY64_INVALID_HANDLE \<longleftrightarrow>
      (\<exists>src. cap_lookup k sh = Some src \<and> delegation_admissible k src req octx) \<and> \<not> cap_full k"
    and "h = CAPABILITY64_INVALID_HANDLE \<Longrightarrow> cap_shrinks k k1 \<and> cap_lookup k1 = cap_lookup k"
    and "h \<noteq> CAPABILITY64_INVALID_HANDLE \<Longrightarrow> h = g_next_handle (k_cap k) \<and> cap_inv k1
      \<and> (\<exists>src. cap_lookup k sh = Some src \<and> cap_map k1 = (cap_map k)(h \<mapsto> delegated_record src h
            (delegated_rights req src) (capability64_context_recipient octx) t))
      \<and> g_next_handle (k_cap k1) = h + 1 \<and> k_audit k1 = k_audit k"
    and "k_ticks k1 = k_ticks k" "k_launch k1 = k_launch k" "k_proc k1 = k_proc k" "k_persona k1 = k_persona k"
proof -
  obtain f k2 where fl: "capability64_find_live sh k = (f, k2)" by (rule prod.exhaust)
  obtain v k3 where pv: "capability64_principal_is_valid (capability64_context_caller octx) k2 = (v, k3)"
    by (rule prod.exhaust)
  obtain w k4 where pw: "capability64_principal_is_valid (capability64_context_recipient octx) k3 = (w, k4)"
    by (rule prod.exhaust)
  note F = find_live_spec [OF inv fl] and V = principal_is_valid_spec [OF pv] and W = principal_is_valid_spec [OF pw]
  have s3: "cap_shrinks k k3" "cap_lookup k3 = cap_lookup k"
    using cap_shrinks_trans [OF F(1) V(4)] F(2) V(5) by simp_all
  have s4: "cap_shrinks k k4" "cap_lookup k4 = cap_lookup k"
    using cap_shrinks_trans [OF s3(1) W(4)] s3(2) W(5) by simp_all
  have deny: "cap_shrinks k (upd_cap count_denial k')" "cap_lookup (upd_cap count_denial k') = cap_lookup k"
    if "cap_shrinks k k'" "cap_lookup k' = cap_lookup k" for k'
    using that cap_lookup_eqI [OF cap_map_same, of "upd_cap count_denial k'" k'] by (simp_all add: cap_shrinks_def)
  have step: "(h, k1) = (if \<not> v then (u32_max, k3) else if \<not> w then (u32_max, k4) else case f of
      None \<Rightarrow> (u32_max, upd_cap count_denial k4)
    | Some i \<Rightarrow> delegate_from i req (capability64_context_caller octx) (capability64_context_recipient octx) t k4)"
    using eq by (cases v) (simp_all add: capability64_delegate_with_expiry_def Let_def fl pv pw)
  let ?fail = "h = u32_max \<and> cap_shrinks k k1 \<and> cap_lookup k1 = cap_lookup k"
  let ?adm = "\<exists>src. cap_lookup k sh = Some src \<and> delegation_admissible k src req octx"
  let ?mint = "h = g_next_handle (k_cap k) \<and> cap_inv k1
      \<and> (\<exists>src. cap_lookup k sh = Some src \<and> cap_map k1 = (cap_map k)(h \<mapsto> delegated_record src h
            (delegated_rights req src) (capability64_context_recipient octx) t))
      \<and> g_next_handle (k_cap k1) = h + 1 \<and> k_audit k1 = k_audit k
      \<and> k_ticks k1 = k_ticks k \<and> k_launch k1 = k_launch k \<and> k_proc k1 = k_proc k \<and> k_persona k1 = k_persona k"
  have main: "?fail \<and> \<not> (?adm \<and> \<not> cap_full k) \<or> ?mint \<and> ?adm \<and> \<not> cap_full k"
  proof (cases "v \<and> w \<and> f \<noteq> None")
    case False
    then show ?thesis using step s3 s4 deny [OF s4] V(1) W(1) F(4)
      by (auto simp: delegation_admissible_def split: if_splits option.splits)
  next
    case True
    then obtain i where f: "f = Some i" by auto
    note i = F(5) [OF f]
    have k4: "k4 = k" using True i V(2) W(2) by simp
    obtain ow k5 where o: "capability64_record_is_owned_by i (capability64_context_caller octx) k = (ow, k5)"
      by (rule prod.exhaust)
    obtain al k6 where a: "capability64_record_allows_recipient_persona i (capability64_context_recipient octx) k = (al, k6)"
      by (rule prod.exhaust)
    note O = is_owned_by_spec [OF o] and A = allows_recipient_spec [OF a]
    have adm: "delegation_admissible k (cap_at k i) req octx \<longleftrightarrow> ow \<and> al
        \<and> cap_rights (cap_at k i) AND CAPABILITY64_RIGHT_DELEGATE \<noteq> 0
        \<and> delegated_rights req (cap_at k i) \<noteq> 0 \<and> delegated_rights req (cap_at k i) AND CAPABILITY64_RIGHT_DELEGATE = 0
        \<and> mask_within (delegated_rights req (cap_at k i)) (cap_rights (cap_at k i))"
      using True V(1) W(1) O(1) A(1) by (auto simp: delegation_admissible_def)
    have st: "(h, k1) = delegate_from i req (capability64_context_caller octx) (capability64_context_recipient octx) t k"
      using step True f k4 by simp
    show ?thesis
    proof (cases "delegation_admissible k (cap_at k i) req octx \<and> \<not> cap_full k")
      case False
      then show ?thesis
        using st i adm O(4,5) A(3,5) deny [of k] find_free_spec(1) [OF inv]
        unfolding delegate_from_eq [OF o a]
        by (cases ow; cases al) (auto split: if_splits option.splits)
    next
      case ok: True
      obtain j where j: "capability64_find_free k = Some j"
        using ok find_free_spec(1) [OF inv] by (cases "capability64_find_free k") auto
      note jj = find_free_spec(2) [OF inv j]
      let ?n = "g_next_handle (k_cap k)"
      define rec where "rec = delegated_record (cap_at k i) ?n (delegated_rights req (cap_at k i))
        (capability64_context_recipient octx) t"
      have hk: "h = ?n" "k1 = upd_cap (\<lambda>s. (put_cap j rec s)\<lparr>g_next_handle := ?n + 1,
          g_grant_count := g_grant_count s + 1, g_delegate_count := g_delegate_count s + 1\<rparr>) k"
        using st ok adm j unfolding delegate_from_eq [OF o a] by (simp_all add: rec_def)
      have src: "cap_map k sh = Some (cap_at k i)" using i cap_lookup_map by blast
      have rok: "cap_ok (?n + 1) rec"
        and der: "p \<in> set (g_capabilities (k_cap k)) \<Longrightarrow> cap_active p \<Longrightarrow> cap_parent_handle rec = cap_handle p
          \<Longrightarrow> derived_from p rec" for p
        using delegated_record_ok [OF inv room src] ok unfolding rec_def by simp_all
      have r: "cap_active rec" "cap_handle rec = ?n" by (simp_all add: rec_def)
      have tab: "g_capabilities (k_cap k1) = (g_capabilities (k_cap k))[j := rec]" "g_next_handle (k_cap k1) = ?n + 1"
        by (simp_all add: hk)
      have "cap_inv k1" "cap_map k1 = (cap_map k)(?n \<mapsto> rec)"
        using insert_cap [OF inv _ _ r rok room der tab] jj by blast+
      then have ?mint using i hk by (simp add: rec_def)
      then show ?thesis using ok i by blast
    qed
  qed
  have n: "g_next_handle (k_cap k) \<noteq> u32_max" using room by auto
  show "h \<noteq> CAPABILITY64_INVALID_HANDLE \<longleftrightarrow> ?adm \<and> \<not> cap_full k" using main n by (elim disjE) auto
  show "h = CAPABILITY64_INVALID_HANDLE \<Longrightarrow> cap_shrinks k k1 \<and> cap_lookup k1 = cap_lookup k" using main n by (elim disjE) auto
  show "h \<noteq> CAPABILITY64_INVALID_HANDLE \<Longrightarrow> h = g_next_handle (k_cap k) \<and> cap_inv k1
      \<and> (\<exists>src. cap_lookup k sh = Some src \<and> cap_map k1 = (cap_map k)(h \<mapsto> delegated_record src h
            (delegated_rights req src) (capability64_context_recipient octx) t))
      \<and> g_next_handle (k_cap k1) = h + 1 \<and> k_audit k1 = k_audit k" using main by blast
  show "k_ticks k1 = k_ticks k" "k_launch k1 = k_launch k" "k_proc k1 = k_proc k" "k_persona k1 = k_persona k"
    using main by (auto simp: cap_shrinks_def)
qed

subsection \<open>Endpoint classes\<close>

text \<open>Slots of a table that leave the revocation sweep of endpoint \<open>e\<close> alone.\<close>

definition spared :: "u32 \<Rightarrow> u32 \<Rightarrow> capability64_record \<Rightarrow> bool" where
  "spared e t r \<longleftrightarrow> \<not> capability64_record_expired t r \<and> cap_endpoint_id r \<noteq> e"

definition keeps_spared :: "u32 \<Rightarrow> u32 \<Rightarrow> capability64_record list \<Rightarrow> capability64_record list \<Rightarrow> bool" where
  "keeps_spared e t xs ys \<longleftrightarrow> (\<forall>i<length xs. cap_active (xs ! i) \<and> spared e t (xs ! i) \<longrightarrow> ys ! i = xs ! i)"

lemma keeps_spared_trans:
  "length ys = length xs \<Longrightarrow> keeps_spared e t xs ys \<Longrightarrow> keeps_spared e t ys zs \<Longrightarrow> keeps_spared e t xs zs"
  unfolding keeps_spared_def by metis

lemma keeps_spared_clear: "\<not> spared e t (xs ! i) \<Longrightarrow> keeps_spared e t xs (xs[i := c])"
  by (auto simp: keeps_spared_def) (metis nth_list_update_neq)

lemma keeps_spared_children:
  assumes "caps_ok n xs" and "i < length xs" and "cap_active (xs ! i)" and "cap_endpoint_id (xs ! i) = e"
  shows "keeps_spared e t xs (map (revoke_child (cap_handle (xs ! i))) (xs[i := capability64_clear (xs ! i)]))"
proof -
  have "revoke_child (cap_handle (xs ! i)) (xs[i := capability64_clear (xs ! i)] ! j) = xs ! j"
    if j: "j < length xs" "cap_active (xs ! j)" "spared e t (xs ! j)" for j
  proof -
    have "j \<noteq> i" using j(3) assms(4) by (auto simp: spared_def)
    moreover have "cap_parent_handle (xs ! j) \<noteq> cap_handle (xs ! i)"
      using caps_okD(4) [OF assms(1) nth_mem [OF j(1)] nth_mem [OF assms(2)] j(2) assms(3)] j(3) assms(4)
      by (auto simp: spared_def derived_from_def)
    ultimately show ?thesis by (simp add: revoke_child_def)
  qed
  then show ?thesis by (simp add: keeps_spared_def)
qed

lemma count_revoke_children:
  "count_if cap_active (map (revoke_child h) xs) + count_if (\<lambda>r. cap_active r \<and> cap_parent_handle r = h) xs
    = count_if cap_active xs"
  by (induction xs) (auto simp: revoke_child_def)

definition cap_drop :: "cap_state \<Rightarrow> cap_state \<Rightarrow> nat" where
  "cap_drop s s' = count_if cap_active (g_capabilities s) - count_if cap_active (g_capabilities s')"

lemma sub_table_count: "sub_table xs ys \<Longrightarrow> count_if cap_active ys \<le> count_if cap_active xs"
proof -
  assume st: "sub_table xs ys"
  have "count_if cap_active ys \<le> count_if cap_active xs"
    if "length ys = length xs" "\<forall>i<length xs. ys ! i = xs ! i \<or> \<not> cap_active (ys ! i)" for ys xs :: "capability64_record list"
    using that
  proof (induction ys xs rule: list_induct2)
    case Nil
    show ?case by simp
  next
    case (Cons y ys x xs)
    have "count_if cap_active ys \<le> count_if cap_active xs" using Cons.IH Cons.prems by fastforce
    moreover have "y = x \<or> \<not> cap_active y" using Cons.prems by fastforce
    ultimately show ?case by auto
  qed
  with st show ?thesis by (simp add: sub_table_def)
qed

lemma revoke_class_loop_spec:
  assumes "caps_ok (g_next_handle s) (g_capabilities s)" and "set slots \<subseteq> {..<CAPABILITY64_TABLE_LIMIT}"
    and "revoke_class_loop slots e t rv s = (rv', s')"
  shows "sub_table (g_capabilities s) (g_capabilities s') \<and> g_next_handle s' = g_next_handle s
    \<and> (\<forall>i\<in>set slots. cap_active (g_capabilities s' ! i) \<longrightarrow> spared e t (g_capabilities s' ! i))
    \<and> keeps_spared e t (g_capabilities s) (g_capabilities s')
    \<and> rv' + g_expiration_count s' = rv + g_expiration_count s + of_nat (cap_drop s s')"
  using assms
proof (induction slots arbitrary: rv s)
  case Nil
  then show ?case by (simp add: keeps_spared_def cap_drop_def)
next
  case (Cons i slots)
  let ?xs = "g_capabilities s" and ?r = "g_capabilities s ! i"
  have len: "length ?xs = CAPABILITY64_TABLE_LIMIT" using Cons.prems(1) by (rule caps_okD)
  have i: "i < length ?xs" using Cons.prems(2) len by simp
  have sl: "set slots \<subseteq> {..<CAPABILITY64_TABLE_LIMIT}" using Cons.prems(2) by simp
  define s1 where "s1 = (if \<not> cap_active ?r then s else if capability64_record_expired t ?r then expire_cap i s
    else if cap_endpoint_id ?r \<noteq> e then s else revoke_children (cap_handle ?r) (revoke_slot i s))"
  define n where "n = (if cap_active ?r \<and> \<not> capability64_record_expired t ?r \<and> cap_endpoint_id ?r = e
    then 1 + of_nat (count_if (\<lambda>c. cap_active c \<and> cap_parent_handle c = cap_handle ?r) (g_capabilities (revoke_slot i s)))
    else 0 :: u32)"
  have step: "revoke_class_loop slots e t (rv + n) s1 = (rv', s')"
    using Cons.prems(3) by (auto simp: s1_def n_def Let_def add.assoc split: if_splits)
  have tab1: "g_capabilities s1 = (if \<not> cap_active ?r then ?xs else if capability64_record_expired t ?r
      then ?xs[i := capability64_clear ?r] else if cap_endpoint_id ?r \<noteq> e then ?xs
      else map (revoke_child (cap_handle ?r)) (?xs[i := capability64_clear ?r]))"
    "g_next_handle s1 = g_next_handle s"
    by (simp_all add: s1_def)
  have sub1: "sub_table ?xs (g_capabilities s1)"
    using sub_table_trans [OF sub_table_clear sub_table_map] revoke_child_cases(1) by (simp add: tab1)
  have ok1: "caps_ok (g_next_handle s1) (g_capabilities s1)"
    using caps_ok_sub [OF Cons.prems(1) sub1] tab1(2) by simp
  have keep1: "keeps_spared e t ?xs (g_capabilities s1)"
    using keeps_spared_clear [of e t ?xs i] keeps_spared_children [OF Cons.prems(1) i]
    by (simp add: tab1(1) spared_def) (simp add: keeps_spared_def)
  have done1: "cap_active (g_capabilities s1 ! i) \<Longrightarrow> spared e t (g_capabilities s1 ! i)"
    using i by (auto simp: tab1(1) spared_def revoke_child_def split: if_splits)
  have count1: "n + g_expiration_count s1 = g_expiration_count s + of_nat (cap_drop s s1)"
  proof -
    have "Suc (count_if cap_active (?xs[i := capability64_clear ?r])) = count_if cap_active ?xs" if "cap_active ?r"
      using count_if_update_del [of i ?xs cap_active "capability64_clear ?r"] i that by simp
    then have drop: "cap_drop s s1 = (if \<not> cap_active ?r then 0 else if capability64_record_expired t ?r then 1
        else if cap_endpoint_id ?r \<noteq> e then 0
        else Suc (count_if (\<lambda>c. cap_active c \<and> cap_parent_handle c = cap_handle ?r) (?xs[i := capability64_clear ?r])))"
      using count_revoke_children [of "cap_handle ?r" "?xs[i := capability64_clear ?r]"]
      unfolding cap_drop_def tab1(1) by auto
    have exp: "g_expiration_count s1 = (if cap_active ?r \<and> capability64_record_expired t ?r
        then g_expiration_count s + 1 else g_expiration_count s)"
      by (simp add: s1_def expire_cap_def revoke_children_def revoke_slot_def clear_cap_def put_cap_def Let_def)
    show ?thesis unfolding drop exp n_def by simp
  qed
  have IH: "sub_table (g_capabilities s1) (g_capabilities s') \<and> g_next_handle s' = g_next_handle s1
    \<and> (\<forall>i\<in>set slots. cap_active (g_capabilities s' ! i) \<longrightarrow> spared e t (g_capabilities s' ! i))
    \<and> keeps_spared e t (g_capabilities s1) (g_capabilities s')
    \<and> rv' + g_expiration_count s' = rv + n + g_expiration_count s1 + of_nat (cap_drop s1 s')"
    using Cons.IH [OF ok1 sl step] by simp
  have len1: "length (g_capabilities s1) = length ?xs" using sub1 by (simp add: sub_table_def)
  have i': "cap_active (g_capabilities s' ! i) \<Longrightarrow> spared e t (g_capabilities s' ! i)"
    using IH done1 i len1 by (auto simp: sub_table_def)
  have drop: "cap_drop s s' = cap_drop s s1 + cap_drop s1 s'"
    using sub_table_count [OF sub1] sub_table_count [of "g_capabilities s1" "g_capabilities s'"] IH
    by (simp add: cap_drop_def)
  have total: "rv' + g_expiration_count s' = rv + g_expiration_count s + of_nat (cap_drop s s')"
    using IH count1 by (simp add: drop add.assoc)
  show ?case
    using IH i' keeps_spared_trans [OF len1 keep1] sub_table_trans [OF sub1] tab1(2) total by auto
qed

lemma revoke_class_spec:
  assumes "cap_inv k" and "capability64_revoke_endpoint_class cls k = (n, k1)"
  defines "e \<equiv> services64_resolve_endpoint_class cls"
  shows "cap_shrinks k k1"
    and "e = u32_max \<Longrightarrow> n = 0 \<and> k1 = k"
    and "e \<noteq> u32_max \<Longrightarrow> cap_lookup k1 g = (case cap_lookup k g of None \<Rightarrow> None
      | Some r \<Rightarrow> if cap_endpoint_id r = e then None else Some r)"
    and "n + g_expiration_count (k_cap k1) = g_expiration_count (k_cap k) + of_nat (cap_drop (k_cap k) (k_cap k1))"
proof -
  have main: "cap_shrinks k k1 \<and> (e = u32_max \<longrightarrow> n = 0 \<and> k1 = k)
    \<and> (e \<noteq> u32_max \<longrightarrow> cap_lookup k1 g = (case cap_lookup k g of None \<Rightarrow> None
        | Some r \<Rightarrow> if cap_endpoint_id r = e then None else Some r))
    \<and> n + g_expiration_count (k_cap k1) = g_expiration_count (k_cap k) + of_nat (cap_drop (k_cap k) (k_cap k1))"
  proof (cases "e = u32_max")
  case True
  then have "n = 0" "k1 = k"
    using assms(2) by (simp_all add: capability64_revoke_endpoint_class_def e_def Let_def)
  then show ?thesis
    using True by (simp add: cap_drop_def)
next
  case False
  let ?xs = "g_capabilities (k_cap k)"
  obtain s' where loop: "revoke_class_loop [0..<CAPABILITY64_TABLE_LIMIT] e (k_ticks k) 0 (k_cap k) = (n, s')"
    and k1: "k1 = k\<lparr>k_cap := s'\<rparr>"
    using assms(2) False by (auto simp: capability64_revoke_endpoint_class_def e_def Let_def split: prod.splits)
  have L: "sub_table ?xs (g_capabilities s') \<and> g_next_handle s' = g_next_handle (k_cap k)
    \<and> (\<forall>i\<in>set [0..<CAPABILITY64_TABLE_LIMIT]. cap_active (g_capabilities s' ! i)
          \<longrightarrow> spared e (k_ticks k) (g_capabilities s' ! i))
    \<and> keeps_spared e (k_ticks k) ?xs (g_capabilities s')
    \<and> n + g_expiration_count s' = 0 + g_expiration_count (k_cap k) + of_nat (cap_drop (k_cap k) s')"
    by (rule revoke_class_loop_spec [OF _ _ loop]) (use assms(1) in \<open>auto simp: cap_inv_def\<close>)
  have shr: "cap_shrinks k k1" using L by (simp add: cap_shrinks_def k1)
  have inv1: "cap_inv k1" using assms(1) shr by (rule cap_shrinks_inv)
  note len = cap_invD(1) [OF assms(1)]
  have gone: "cap_endpoint_id r \<noteq> e" if live: "cap_lookup k1 g = Some r" for r
  proof -
    obtain i where "i < length (g_capabilities s')" "g_capabilities s' ! i = r" "cap_active r"
      using cap_lookup_map [OF live] by (auto simp: cap_map_def k1 elim!: table_map_SomeE dest: slot_ofD(2))
    then show ?thesis using L len by (auto simp: spared_def sub_table_def)
  qed
  have kept: "cap_lookup k1 g = Some r" if r: "cap_lookup k g = Some r" "cap_endpoint_id r \<noteq> e" for r
  proof -
    have m: "cap_map k g = Some r" using r(1) by (rule cap_lookup_map)
    then obtain i where i: "i < length ?xs" "?xs ! i = r" by (auto simp: cap_map_def elim: table_map_SomeE)
    have nexp: "\<not> capability64_record_expired (k_ticks k) r"
      using r(1) m by (auto simp: cap_lookup_def split: if_splits)
    note rr = cap_map_ok(2,3) [OF assms(1) m]
    have "g_capabilities s' ! i = r"
      using L i rr(1) nexp r(2) by (auto simp: keeps_spared_def spared_def)
    then have "cap_map k1 g = Some r"
      using table_map_nth [OF cap_invD(2) [OF inv1], of i] i rr L by (simp add: cap_map_def k1 sub_table_def)
    then show ?thesis using nexp by (simp add: cap_lookup_def k1)
  qed
  have "cap_lookup k1 g = (case cap_lookup k g of None \<Rightarrow> None | Some r \<Rightarrow> if cap_endpoint_id r = e then None else Some r)"
  proof (cases "cap_lookup k1 g")
    case None
    then show ?thesis using kept by (auto split: option.split)
  next
    case (Some r)
    then show ?thesis using cap_shrinks_lookup [OF assms(1) shr Some] gone by simp
  qed
  then show ?thesis
    using shr False L by (simp add: k1)
qed
  then show "cap_shrinks k k1" "e = u32_max \<Longrightarrow> n = 0 \<and> k1 = k"
    "e \<noteq> u32_max \<Longrightarrow> cap_lookup k1 g = (case cap_lookup k g of None \<Rightarrow> None
      | Some r \<Rightarrow> if cap_endpoint_id r = e then None else Some r)"
    "n + g_expiration_count (k_cap k1) = g_expiration_count (k_cap k) + of_nat (cap_drop (k_cap k) (k_cap k1))"
    by blast+
qed

subsection \<open>Readers\<close>

lemma read_owned_spec:
  assumes "cap_inv k" and "read_owned f d h c k = (v, k1)"
  shows "cap_shrinks k k1" "cap_lookup k1 = cap_lookup k"
    and "v = (case cap_lookup k h of None \<Rightarrow> d
      | Some r \<Rightarrow> if principal64_is_active (capability64_normalize_owner c)
                    \<and> cap_owner_id r = capability64_normalize_owner c then f r else d)"
proof -
  obtain i k2 where oc: "owned_cap h c k = (i, k2)" by (rule prod.exhaust)
  note O = owned_cap_spec [OF assms(1) oc]
  show "cap_shrinks k k1" "cap_lookup k1 = cap_lookup k"
    using O(1,2) assms(2) oc by (auto simp: read_owned_def split: option.splits)
  show "v = (case cap_lookup k h of None \<Rightarrow> d
      | Some r \<Rightarrow> if principal64_is_active (capability64_normalize_owner c)
                    \<and> cap_owner_id r = capability64_normalize_owner c then f r else d)"
    using O(4,5) assms(2) oc by (cases i) (auto simp: read_owned_def split: option.splits)
qed

lemma read_current_shrinks:
  assumes "cap_inv k" and "read_current f d h c k = (v, k1)"
  shows "cap_shrinks k k1"
proof -
  obtain i k2 where oc: "owned_cap h c k = (i, k2)" by (rule prod.exhaust)
  note O = owned_cap_spec [OF assms(1) oc]
  show ?thesis
  proof (cases i)
    case None
    then show ?thesis using O(1) assms(2) oc by (simp add: read_current_def)
  next
    case (Some j)
    obtain cu k3 where cu: "capability64_record_runtime_is_current j k = (cu, k3)" by (rule prod.exhaust)
    have "cap_shrinks k k3" by (rule runtime_is_current_spec(3) [OF assms(1) _ _ cu]) (use O(5) [OF Some] in auto)
    then show ?thesis using O(5) [OF Some] assms(2) oc Some cu
      by (cases cu) (auto simp: read_current_def)
  qed
qed

lemma live_for_class_shrinks: "cap_shrinks k (snd (capability64_live_for_endpoint_class cls k))"
  by (auto simp: capability64_live_for_endpoint_class_def Let_def cap_shrinks_def intro!: sub_table_map
      split: if_splits)

end
