(* ===== verification/Capability_Props.thy ===== *)
theory Capability_Props
  imports Capability_Inv
begin

text \<open>
  The properties of the capability broker: the invariant over runs of operations, exact routing,
  complete revocation, attenuation, leases, persona confinement with its audit trail and revocation
  of an endpoint class.
\<close>

section \<open>Runs of broker operations\<close>

datatype cap_op =
    Grant u32 u32 u32 | Grant_process u32 u32 u32
  | Delegate u32 u32 u32 | Delegate_persistent u32 u32 u32
  | Route u32 u32 u32 | Revoke u32 u32
  | Read_target u32 u32 | Read_rights u32 u32 | Read_parent u32 u32 | Read_owner u32 u32 | Read_expiry u32 u32
  | Read_generation u32 u32 | Read_token u32 u32 | Read_tag u32 u32 | Read_mask u32 u32
  | Live_class u32 | Revoke_class u32
  | Elsewhere u32 launch_state process_state persona_state audit_state

text \<open>\<open>Elsewhere\<close> is any activity of the rest of the kernel: it may change everything but the broker.\<close>

fun cap_step :: "cap_op \<Rightarrow> 'a kernel_cap_scheme \<Rightarrow> 'a kernel_cap_scheme" where
  "cap_step (Grant cls req ow) k = snd (capability64_grant_service cls req ow k)"
| "cap_step (Grant_process cls req pid) k = snd (capability64_grant_service_for_process cls req pid k)"
| "cap_step (Delegate h req octx) k = snd (capability64_delegate h req octx k)"
| "cap_step (Delegate_persistent h req octx) k = snd (capability64_delegate_persistent h req octx k)"
| "cap_step (Route h req c) k = snd (capability64_route h req c k)"
| "cap_step (Revoke h c) k = snd (capability64_revoke h c k)"
| "cap_step (Read_target h c) k = snd (capability64_target_endpoint h c k)"
| "cap_step (Read_rights h c) k = snd (capability64_rights h c k)"
| "cap_step (Read_parent h c) k = snd (capability64_parent h c k)"
| "cap_step (Read_owner h c) k = snd (capability64_owner h c k)"
| "cap_step (Read_expiry h c) k = snd (capability64_expiry_tick h c k)"
| "cap_step (Read_generation h c) k = snd (capability64_runtime_generation h c k)"
| "cap_step (Read_token h c) k = snd (capability64_runtime_token h c k)"
| "cap_step (Read_tag h c) k = snd (capability64_persona_tag h c k)"
| "cap_step (Read_mask h c) k = snd (capability64_persona_mask h c k)"
| "cap_step (Live_class cls) k = snd (capability64_live_for_endpoint_class cls k)"
| "cap_step (Revoke_class cls) k = snd (capability64_revoke_endpoint_class cls k)"
| "cap_step (Elsewhere ticks ms ps pe au) k =
     k\<lparr>k_ticks := ticks, k_launch := ms, k_proc := ps, k_persona := pe, k_audit := au\<rparr>"

text \<open>Operations that may mint a handle are issued before the handle counter reaches its last value.\<close>

fun cap_step_ok :: "cap_op \<Rightarrow> 'a kernel_cap_scheme \<Rightarrow> bool" where
  "cap_step_ok (Grant _ _ _) k = (g_next_handle (k_cap k) < u32_max)"
| "cap_step_ok (Grant_process _ _ _) k = (g_next_handle (k_cap k) < u32_max)"
| "cap_step_ok (Delegate _ _ _) k = (g_next_handle (k_cap k) < u32_max)"
| "cap_step_ok (Delegate_persistent _ _ _) k = (g_next_handle (k_cap k) < u32_max)"
| "cap_step_ok _ k = True"

lemma grant_inv:
  assumes "cap_inv k" and "g_next_handle (k_cap k) < u32_max"
  shows "cap_inv (snd (capability64_grant_service_tagged cls req ow pt pm k))"
proof -
  obtain h k1 where "capability64_grant_service_tagged cls req ow pt pm k = (h, k1)" by (rule prod.exhaust)
  then show ?thesis
    using grant_spec(2,3) [OF assms] cap_shrinks_inv [OF assms(1)] by (metis snd_conv)
qed

lemma grant_process_inv:
  assumes "cap_inv k" and "g_next_handle (k_cap k) < u32_max"
  shows "cap_inv (snd (capability64_grant_service_for_process cls req pid k))"
  using grant_inv [OF assms] assms(1)
  by (simp add: capability64_grant_service_for_process_def Let_def) (simp add: cap_inv_def)

lemma delegate_inv:
  assumes "cap_inv k" and "g_next_handle (k_cap k) < u32_max"
  shows "cap_inv (snd (capability64_delegate_with_expiry h req octx t k))"
proof -
  obtain h' k1 where "capability64_delegate_with_expiry h req octx t k = (h', k1)" by (rule prod.exhaust)
  then show ?thesis
    using delegate_spec(2,3) [OF assms] cap_shrinks_inv [OF assms(1)] by (metis snd_conv)
qed

lemma shrinking_inv:
  assumes "cap_inv k" and "\<And>v k1. f k = (v, k1) \<Longrightarrow> cap_shrinks k k1"
  shows "cap_inv (snd (f k))"
  using cap_shrinks_inv [OF assms(1), of "snd (f k)"] assms(2) [of "fst (f k)" "snd (f k)"] by simp

lemmas shrinking_ops_inv =
  shrinking_inv [OF _ route_spec(1)] shrinking_inv [OF _ revoke_spec(1)] shrinking_inv [OF _ read_owned_spec(1)]
  shrinking_inv [OF _ read_current_shrinks] shrinking_inv [OF _ revoke_class_spec(1)]
  cap_shrinks_inv [OF _ live_for_class_shrinks]

lemma cap_inv_step: "cap_inv k \<Longrightarrow> cap_step_ok x k \<Longrightarrow> cap_inv (cap_step x k)"
  by (cases x) (simp_all add: cap_readers shrinking_ops_inv grant_inv grant_process_inv delegate_inv
      capability64_grant_service_def capability64_delegate_def capability64_delegate_persistent_def,
      simp add: cap_inv_def)

interpretation cap_machine: op_machine cap_step cap_step_ok cap_inv
  by unfold_locales (rule cap_inv_step)

lemma cap_init_inv: "k_cap k = capability64_init \<Longrightarrow> cap_inv k"
  by (simp add: cap_inv_def capability64_init_def caps_ok_def keys_distinct_def cap_zero_def)


section \<open>Properties\<close>

text \<open>
  C13: After any sequence of broker operations from an initialised broker, interleaved with any activity of the rest
  of the kernel and before the handle counter is exhausted, a handle names at most one capability,
  its rights are among those its endpoint allows, its owner is an active principal, and a delegated
  capability cannot delegate and holds a subset of the rights, the endpoint, the runtime and the
  persona mask of its parent, which is a root capability, as long as the parent exists.
\<close>

theorem capability_run_invariant:
  assumes "k_cap k0 = capability64_init" and "all_ok cap_step_ok cap_step ops k0"
    and "cap_map (run_ops cap_step ops k0) h = Some r"
  shows "keys_distinct cap_active cap_handle (g_capabilities (k_cap (run_ops cap_step ops k0)))
    \<and> cap_handle r = h \<and> mask_within (cap_rights r) (allowed_rights (cap_endpoint_id r))
    \<and> cap_endpoint_id r = services64_resolve_endpoint_class (cap_endpoint_class r)
    \<and> principal64_is_active (cap_owner_id r)
    \<and> (cap_parent_handle r = 0 \<or> cap_rights r AND CAPABILITY64_RIGHT_DELEGATE = 0)
    \<and> (\<forall>p. cap_map (run_ops cap_step ops k0) (cap_parent_handle r) = Some p \<longrightarrow> derived_from p r)"
proof -
  let ?k = "run_ops cap_step ops k0"
  have inv: "cap_inv ?k" using cap_machine.inv_run [OF cap_init_inv [OF assms(1)] assms(2)] .
  have "derived_from p r" if "cap_map ?k (cap_parent_handle r) = Some p" for p
    using inv assms(3) that caps_okD(4) [of "g_next_handle (k_cap ?k)" "g_capabilities (k_cap ?k)" r p]
      table_map_SomeD [of cap_active cap_handle "g_capabilities (k_cap ?k)"]
    unfolding cap_inv_def cap_map_def by metis
  then show ?thesis
    using cap_map_ok [OF inv assms(3)] cap_invD(2) [OF inv] by (auto simp: cap_ok_def)
qed

text \<open>A small state for concrete runs: the seeded processes and the empty broker, nothing attached.\<close>

definition demo_kernel :: kernel_cap where
  "demo_kernel = \<lparr>k_launch = [], k_proc = process64_seed_records,
     k_persona = \<lparr>g_persona64_contexts = [], g_persona64_context_used = [], g_persona64_initialized = True,
       g_persona64_native_count = 0, g_persona64_denial_count = 0\<rparr>,
     k_ticks = 0, k_audit = audit_bss, k_cap = capability64_init\<rparr>"

definition demo_ops :: "cap_op list" where
  "demo_ops = [Grant SERVICE_ENDPOINT_CLASS_CONSOLE 7 PRINCIPAL64_ID_CONSOLE_CLIENT,
     Delegate 0x6400 1 (CAPABILITY64_CONTEXT PRINCIPAL64_ID_CONSOLE_CLIENT PRINCIPAL64_ID_CONSOLE_WORKER)]"

lemma demo_run:
  "k_cap demo_kernel = capability64_init" "all_ok cap_step_ok cap_step demo_ops demo_kernel"
  "\<exists>r. cap_map (run_ops cap_step demo_ops demo_kernel) 0x6401 = Some r"
proof -
  show "k_cap demo_kernel = capability64_init" by (simp add: demo_kernel_def)
  show "all_ok cap_step_ok cap_step demo_ops demo_kernel" by code_simp
  have "cap_map (run_ops cap_step demo_ops demo_kernel) 0x6401 \<noteq> None" by code_simp
  then show "\<exists>r. cap_map (run_ops cap_step demo_ops demo_kernel) 0x6401 = Some r" by blast
qed

theorem capability_run_invariant_witness:
  "\<exists>r. cap_map (run_ops cap_step demo_ops demo_kernel) 0x6401 = Some r
     \<and> principal64_is_active (cap_owner_id r)"
  using capability_run_invariant [OF demo_run(1,2)] demo_run(3) by blast

lemma case_optionD: "(case x of None \<Rightarrow> False | Some r \<Rightarrow> P r) \<Longrightarrow> \<exists>r. x = Some r \<and> P r"
  by (simp split: option.splits)

definition demo_state :: kernel_cap where
  "demo_state = run_ops cap_step demo_ops demo_kernel"

lemma demo_state_inv: "cap_inv demo_state"
  unfolding demo_state_def by (rule cap_machine.inv_run [OF cap_init_inv [OF demo_run(1)] demo_run(2)])

text \<open>
  C9: Routing through a handle yields the endpoint of its capability exactly when the lease has not
  lapsed, the caller is an active principal and the owner, the rights include the required ones
  (send when none is named) and the service's runtime is still the one the capability was minted
  for; otherwise the result is the invalid endpoint. A use against a restarted service removes the
  capability, and routing changes no other capability.
\<close>

theorem capability64_route_exact:
  assumes "cap_inv k" and "capability64_route h req c k = (e, k1)"
  shows "(e \<noteq> u32_max \<longleftrightarrow> (\<exists>r. cap_lookup k h = Some r \<and> authorises r req c \<and> runtime_current (k_launch k) r))
    \<and> (\<forall>r. cap_lookup k h = Some r \<and> e \<noteq> u32_max \<longrightarrow> e = cap_endpoint_id r)
    \<and> (\<forall>r. cap_lookup k h = Some r \<and> authorises r req c \<and> \<not> runtime_current (k_launch k) r
          \<longrightarrow> cap_lookup k1 h = None)
    \<and> (\<forall>g. g \<noteq> h \<longrightarrow> cap_lookup k1 g = cap_lookup k g)"
proof (cases "cap_lookup k h")
  case None
  then show ?thesis using route_spec(2,3) [OF assms] by simp
next
  case (Some r)
  have "cap_endpoint_id r \<noteq> u32_max"
    using cap_map_ok(1) [OF assms(1) cap_lookup_map [OF Some]] unfolding cap_ok_def by blast
  then show ?thesis using route_spec(2,3) [OF assms] Some by auto
qed

theorem capability64_route_exact_witness:
  "fst (capability64_route 0x6401 1 PRINCIPAL64_ID_CONSOLE_WORKER demo_state) \<noteq> u32_max
   \<and> fst (capability64_route 0x6401 4 PRINCIPAL64_ID_CONSOLE_WORKER demo_state) = u32_max"
proof -
  have "case cap_lookup demo_state 0x6401 of None \<Rightarrow> False | Some r \<Rightarrow>
      authorises r 1 PRINCIPAL64_ID_CONSOLE_WORKER \<and> runtime_current (k_launch demo_state) r
      \<and> \<not> authorises r 4 PRINCIPAL64_ID_CONSOLE_WORKER"
    by code_simp
  from case_optionD [OF this] obtain r where "cap_lookup demo_state 0x6401 = Some r"
      "authorises r 1 PRINCIPAL64_ID_CONSOLE_WORKER" "runtime_current (k_launch demo_state) r"
      "\<not> authorises r 4 PRINCIPAL64_ID_CONSOLE_WORKER" by blast
  then show ?thesis
    using capability64_route_exact [OF demo_state_inv prod.collapse [symmetric],
        where h = "0x6401" and req = 1 and c = PRINCIPAL64_ID_CONSOLE_WORKER]
      capability64_route_exact [OF demo_state_inv prod.collapse [symmetric],
        where h = "0x6401" and req = 4 and c = PRINCIPAL64_ID_CONSOLE_WORKER]
    by auto
qed

text \<open>
  C2: A successful revocation by the owner is complete: afterwards no caller can route through the
  handle or through any capability delegated from it, while every capability that is neither is
  exactly as before; a refused revocation changes no capability.
\<close>

theorem capability64_revoke_complete:
  assumes "cap_inv k" and "capability64_revoke h c k = (ok, k1)"
  shows "(ok \<longleftrightarrow> (\<exists>r. cap_lookup k h = Some r \<and> principal64_is_active (capability64_normalize_owner c)
        \<and> cap_owner_id r = capability64_normalize_owner c))
    \<and> (ok \<longrightarrow> fst (capability64_route h req c' k1) = u32_max)
    \<and> (\<forall>r. ok \<and> cap_lookup k g = Some r \<and> cap_parent_handle r = h
          \<longrightarrow> fst (capability64_route g req c' k1) = u32_max)
    \<and> (\<forall>r. cap_lookup k g = Some r \<and> g \<noteq> h \<and> cap_parent_handle r \<noteq> h \<longrightarrow> cap_lookup k1 g = Some r)
    \<and> (\<not> ok \<longrightarrow> cap_lookup k1 = cap_lookup k)"
proof -
  note R = revoke_spec [OF assms]
  have inv: "cap_inv k1" using assms(1) R(1) by (rule cap_shrinks_inv)
  have gone: "fst (capability64_route g req c' k1) = u32_max" if "cap_lookup k1 g = None" for g
    using route_spec(2) [OF inv, of g req c'] that by (metis option.simps(4) prod.collapse)
  have same: "cap_lookup k1 = cap_lookup k" if "\<not> ok"
    using R(3) that by (auto simp: fun_eq_iff split: option.split)
  show ?thesis
    using R(2) R(3) gone same by (auto split: option.split)
qed

theorem capability64_revoke_complete_witness:
  "fst (capability64_revoke 0x6400 PRINCIPAL64_ID_CONSOLE_CLIENT demo_state)
   \<and> fst (capability64_route 0x6401 1 PRINCIPAL64_ID_CONSOLE_WORKER
       (snd (capability64_revoke 0x6400 PRINCIPAL64_ID_CONSOLE_CLIENT demo_state))) = u32_max"
proof -
  let ?c = PRINCIPAL64_ID_CONSOLE_CLIENT
  have root: "case cap_lookup demo_state 0x6400 of None \<Rightarrow> False | Some r \<Rightarrow>
      principal64_is_active (capability64_normalize_owner ?c) \<and> cap_owner_id r = capability64_normalize_owner ?c"
    by code_simp
  have child: "case cap_lookup demo_state 0x6401 of None \<Rightarrow> False | Some r \<Rightarrow> cap_parent_handle r = 0x6400"
    by code_simp
  show ?thesis
    using case_optionD [OF root] case_optionD [OF child]
      capability64_revoke_complete [OF demo_state_inv prod.collapse [symmetric], where h = "0x6400" and c = ?c
        and req = 1 and c' = PRINCIPAL64_ID_CONSOLE_WORKER and g = "0x6401"]
    by blast
qed

text \<open>
  C10: A delegation mints a capability for the recipient with a nonempty subset of the source's
  rights and never the right to delegate, bound to the source's endpoint, runtime and persona and
  recorded as its child; the source and every other capability are untouched; and nobody can
  delegate from the new capability again.
\<close>

theorem capability64_delegate_attenuates:
  assumes "cap_inv k" and "g_next_handle (k_cap k) < 0xFFFFFFFE"
    and "capability64_delegate_with_expiry sh req octx t k = (h, k1)" and "h \<noteq> CAPABILITY64_INVALID_HANDLE"
  shows "\<exists>src r. cap_lookup k sh = Some src \<and> cap_owner_id src = capability64_context_caller octx
    \<and> cap_map k h = None \<and> cap_map k1 = (cap_map k)(h \<mapsto> r)
    \<and> cap_rights r \<noteq> 0 \<and> mask_within (cap_rights r) (cap_rights src) \<and> cap_rights r AND CAPABILITY64_RIGHT_DELEGATE = 0
    \<and> cap_owner_id r = capability64_context_recipient octx \<and> cap_parent_handle r = sh
    \<and> cap_endpoint_id r = cap_endpoint_id src \<and> cap_runtime_token r = cap_runtime_token src
    \<and> cap_persona_mask r = cap_persona_mask src
    \<and> fst (capability64_delegate_with_expiry h req' octx' t' k1) = CAPABILITY64_INVALID_HANDLE"
proof -
  note b = word_inc_less [OF assms(2)]
  note D = delegate_spec [OF assms(1) b(3) assms(3)]
  obtain src where src: "cap_lookup k sh = Some src" "delegation_admissible k src req octx"
    using D(1) assms(4) by blast
  let ?r = "delegated_record src h (delegated_rights req src) (capability64_context_recipient octx) t"
  have m: "h = g_next_handle (k_cap k)" "cap_inv k1" "cap_map k1 = (cap_map k)(h \<mapsto> ?r)"
    "g_next_handle (k_cap k1) = h + 1"
    using D(3) [OF assms(4)] src(1) by auto
  have room: "g_next_handle (k_cap k1) < u32_max" using m(1,4) b(2) by simp
  have fresh: "cap_map k h = None"
    using assms(1) m(1) caps_ok_fresh by (simp add: cap_map_def cap_inv_def)
  have sh: "cap_handle src = sh" using cap_map_ok(3) [OF assms(1) cap_lookup_map [OF src(1)]] .
  have adm: "delegated_rights req src \<noteq> 0" "mask_within (delegated_rights req src) (cap_rights src)"
    "delegated_rights req src AND CAPABILITY64_RIGHT_DELEGATE = 0" "cap_owner_id src = capability64_context_caller octx"
    using src(2) by (simp_all add: delegation_admissible_def)
  have "fst (capability64_delegate_with_expiry h req' octx' t' k1) = CAPABILITY64_INVALID_HANDLE"
  proof (rule ccontr)
    assume n: "fst (capability64_delegate_with_expiry h req' octx' t' k1) \<noteq> CAPABILITY64_INVALID_HANDLE"
    obtain h2 k2 where d2: "capability64_delegate_with_expiry h req' octx' t' k1 = (h2, k2)" by (rule prod.exhaust)
    then obtain s2 where "cap_lookup k1 h = Some s2" "delegation_admissible k1 s2 req' octx'"
      using n delegate_spec(1) [OF m(2) room d2] by auto
    moreover from this have "s2 = ?r" using cap_lookup_map m(3) by fastforce
    ultimately show False using adm(3) by (simp add: delegation_admissible_def)
  qed
  then show ?thesis
    using src(1) fresh m(3) adm sh by (intro exI [of _ src] exI [of _ ?r]) simp
qed

theorem capability64_delegate_attenuates_witness:
  "fst (capability64_delegate_with_expiry 0x6402 1 0 9 (snd (capability64_delegate_with_expiry 0x6400 1
     (CAPABILITY64_CONTEXT PRINCIPAL64_ID_CONSOLE_CLIENT PRINCIPAL64_ID_CONSOLE_WORKER) 9 demo_state))) = u32_max"
proof -
  let ?octx = "CAPABILITY64_CONTEXT PRINCIPAL64_ID_CONSOLE_CLIENT PRINCIPAL64_ID_CONSOLE_WORKER"
  have a: "g_next_handle (k_cap demo_state) < 0xFFFFFFFE"
    "fst (capability64_delegate_with_expiry 0x6400 1 ?octx 9 demo_state) = 0x6402" by code_simp+
  obtain k1 where k1: "capability64_delegate_with_expiry 0x6400 1 ?octx 9 demo_state = (0x6402, k1)"
    using a(2) by (cases "capability64_delegate_with_expiry 0x6400 1 ?octx 9 demo_state") simp
  show ?thesis
    using capability64_delegate_attenuates [OF demo_state_inv a(1) k1, of 1 0 9] k1 by auto
qed

subsection \<open>Leases\<close>

text \<open>
  C8: A lease given by an ordinary delegation at tick \<open>T\<close> lasts exactly two ticks: at a tick \<open>t\<close>
  the delegated capability can be used if and only if \<open>t < T + 2\<close>, as long as the tick counter
  stays below its last three values.
\<close>

theorem capability64_delegate_lease_exact:
  assumes "cap_inv k" and "g_next_handle (k_cap k) < u32_max" and "k_ticks k < 0xFFFFFFFD"
    and "capability64_delegate sh req octx k = (h, k1)" and "h \<noteq> CAPABILITY64_INVALID_HANDLE"
  shows "cap_lookup (k1\<lparr>k_ticks := t\<rparr>) h \<noteq> None \<longleftrightarrow> unat t < unat (k_ticks k) + 2"
proof -
  have d: "capability64_delegate_with_expiry sh req octx (k_ticks k + 2) k = (h, k1)"
    using assms(4) by (simp add: capability64_delegate_def CAPABILITY64_DELEGATE_LEASE_TICKS_def)
  obtain r where r: "cap_map k1 h = Some r" "cap_expiry_tick r = k_ticks k + 2"
    using delegate_spec(3) [OF assms(1,2) d assms(5)] by auto
  have m: "cap_map (k1\<lparr>k_ticks := t\<rparr>) h = Some r" using r(1) by (simp add: cap_map_def)
  have u: "unat (k_ticks k) < 0xFFFFFFFD" using assms(3) by (simp add: word_less_nat_alt)
  then have sum: "unat (k_ticks k + 2) = unat (k_ticks k) + 2" by (simp add: unat_word_ariths)
  then have "k_ticks k + 2 \<noteq> u32_max" using u by (auto dest: arg_cong [where f = unat])
  then show ?thesis
    using sum by (auto simp: cap_lookup_def m r(2) capability64_record_expired_def word_le_nat_alt)
qed

theorem capability64_delegate_lease_exact_witness:
  "cap_lookup ((snd (capability64_delegate 0x6400 1
     (CAPABILITY64_CONTEXT PRINCIPAL64_ID_CONSOLE_CLIENT PRINCIPAL64_ID_CONSOLE_WORKER) demo_state))\<lparr>k_ticks := 2\<rparr>) 0x6402
   = None"
proof -
  let ?octx = "CAPABILITY64_CONTEXT PRINCIPAL64_ID_CONSOLE_CLIENT PRINCIPAL64_ID_CONSOLE_WORKER"
  have a: "g_next_handle (k_cap demo_state) < u32_max" "k_ticks demo_state < 0xFFFFFFFD"
    "fst (capability64_delegate 0x6400 1 ?octx demo_state) = 0x6402" "k_ticks demo_state = 0" by code_simp+
  obtain k1 where k1: "capability64_delegate 0x6400 1 ?octx demo_state = (0x6402, k1)"
    using a(3) by (cases "capability64_delegate 0x6400 1 ?octx demo_state") simp
  show ?thesis
    using capability64_delegate_lease_exact [OF demo_state_inv a(1,2) k1, of 2] a(4) k1 by simp
qed

text \<open>
  C29: At tick 0xFFFFFFFD the end of the two-tick lease is the value that marks a permanent lease:
  the delegated capability then never expires, at any later tick.
\<close>

theorem capability64_delegate_lease_becomes_permanent:
  assumes "cap_inv k" and "g_next_handle (k_cap k) < u32_max" and "k_ticks k = 0xFFFFFFFD"
    and "capability64_delegate sh req octx k = (h, k1)" and "h \<noteq> CAPABILITY64_INVALID_HANDLE"
  shows "cap_lookup (k1\<lparr>k_ticks := t\<rparr>) h \<noteq> None"
proof -
  have d: "capability64_delegate_with_expiry sh req octx u32_max k = (h, k1)"
    using assms(3,4) by (simp add: capability64_delegate_def CAPABILITY64_DELEGATE_LEASE_TICKS_def)
  obtain r where r: "cap_map k1 h = Some r" "cap_expiry_tick r = u32_max"
    using delegate_spec(3) [OF assms(1,2) d assms(5)] by auto
  have m: "cap_map (k1\<lparr>k_ticks := t\<rparr>) h = Some r" using r(1) by (simp add: cap_map_def)
  then show ?thesis using r by (simp add: cap_lookup_def capability64_record_expired_def)
qed

theorem capability64_delegate_lease_becomes_permanent_witness:
  "cap_lookup ((snd (capability64_delegate 0x6400 1
     (CAPABILITY64_CONTEXT PRINCIPAL64_ID_CONSOLE_CLIENT PRINCIPAL64_ID_CONSOLE_WORKER)
     (demo_state\<lparr>k_ticks := 0xFFFFFFFD\<rparr>)))\<lparr>k_ticks := 1000000\<rparr>) 0x6402 \<noteq> None"
proof -
  let ?k = "demo_state\<lparr>k_ticks := 0xFFFFFFFD\<rparr>"
  let ?octx = "CAPABILITY64_CONTEXT PRINCIPAL64_ID_CONSOLE_CLIENT PRINCIPAL64_ID_CONSOLE_WORKER"
  have a: "g_next_handle (k_cap ?k) < u32_max" "k_ticks ?k = 0xFFFFFFFD"
    "fst (capability64_delegate 0x6400 1 ?octx ?k) = 0x6402" by code_simp+
  have inv: "cap_inv ?k" using demo_state_inv by (simp add: cap_inv_def)
  obtain k1 where k1: "capability64_delegate 0x6400 1 ?octx ?k = (0x6402, k1)"
    using a(3) by (cases "capability64_delegate 0x6400 1 ?octx ?k") simp
  show ?thesis
    using capability64_delegate_lease_becomes_permanent [OF inv a(1,2) k1, of 1000000] k1 by simp
qed

subsection \<open>Persona confinement\<close>

lemma audit_upd_cap [simp]:
  "audit_inv (upd_cap f k) = audit_inv k" "audit_attached (upd_cap f k) = audit_attached k"
  "audit_log (upd_cap f k) = audit_log k"
  by (simp_all add: audit_inv_def audit_attached_def audit_log_def persona_audit64_context_for_process_def actx_def
      upd_cap_def fun_eq_iff split: option.split)

lemma audit_denial_emits:
  assumes "capability64_persona_pid_for_owner k ow \<noteq> PROCESS64_INVALID_PID"
  shows "capability64_audit_persona_denial ow cls k = emit_audit (capability64_persona_pid_for_owner k ow)
    (PERSONA_AUDIT64_EVENT_CAPABILITY_DENIED, ucast cls, PERSONA_AUDIT64_RESULT_DENY, 0) k"
  using assms by (simp add: capability64_audit_persona_denial_def emit_audit_def Let_def)

lemma persona_pid_upd_cap [simp]:
  "capability64_persona_pid_for_owner (upd_cap f k) = capability64_persona_pid_for_owner k"
  by (simp add: capability64_persona_pid_for_owner_def fun_eq_iff)

text \<open>
  C30: A capability minted for one persona cannot be delegated to a process of a disjoint persona:
  an otherwise valid delegation is refused, no capability changes, the transfer denial is counted,
  and a capability-denied record naming the endpoint class is the last entry of the recipient
  process's audit log, every other log being unchanged.
\<close>

theorem capability64_cross_persona_delegation_audited:
  assumes "cap_inv k" and "audit_inv k" and "cap_lookup k sh = Some src"
    and "delegation_admissible k (src\<lparr>cap_persona_mask := 0\<rparr>) req octx"
    and "\<not> persona_admits k src (capability64_context_recipient octx)"
    and "capability64_persona_pid_for_owner k (capability64_context_recipient octx) = pid"
    and "pid \<noteq> PROCESS64_INVALID_PID" and "audit_attached k pid"
    and "capability64_delegate_with_expiry sh req octx t k = (h, k1)"
  shows "h = CAPABILITY64_INVALID_HANDLE \<and> cap_lookup k1 = cap_lookup k
    \<and> capability64_persona_transfer_denial_count k1 = capability64_persona_transfer_denial_count k + 1
    \<and> audit_log k1 pid \<noteq> []
    \<and> event_of (last (audit_log k1 pid)) = (PERSONA_AUDIT64_EVENT_CAPABILITY_DENIED,
          ucast (cap_endpoint_class src), PERSONA_AUDIT64_RESULT_DENY, 0)
    \<and> (q \<noteq> pid \<longrightarrow> audit_log k1 q = audit_log k q)"
proof -
  let ?c = "capability64_context_caller octx" and ?rc = "capability64_context_recipient octx"
  have dr: "delegated_rights req (src\<lparr>cap_persona_mask := 0\<rparr>) = delegated_rights req src"
    by (simp add: delegated_rights_def)
  have adm: "principal64_is_active ?c" "principal64_is_active ?rc" "cap_owner_id src = ?c"
    "cap_rights src AND CAPABILITY64_RIGHT_DELEGATE \<noteq> 0" "delegated_rights req src \<noteq> 0"
    "delegated_rights req src AND CAPABILITY64_RIGHT_DELEGATE = 0" "mask_within (delegated_rights req src) (cap_rights src)"
    using assms(4) dr by (simp_all add: delegation_admissible_def)
  obtain f k2 where fl: "capability64_find_live sh k = (f, k2)" by (rule prod.exhaust)
  note F = find_live_spec [OF assms(1) fl]
  obtain i where f: "f = Some i" using F(4) assms(3) by (cases f) auto
  have i: "k2 = k" "cap_at k i = src" using F(5) [OF f] assms(3) by auto
  define k3 where "k3 = upd_cap (\<lambda>s. count_denial (s\<lparr>g_persona_denial_count := g_persona_denial_count s + 1,
      g_persona_transfer_denial_count := g_persona_transfer_denial_count s + 1\<rparr>)) k"
  have own: "capability64_record_is_owned_by i ?c k = (True, k)"
    using adm(3) i by (simp add: capability64_record_is_owned_by_def)
  have al: "capability64_record_allows_recipient_persona i ?rc k
      = (False, capability64_audit_persona_denial ?rc (cap_endpoint_class src) k3)"
    using assms(5) i by (simp add: capability64_record_allows_recipient_persona_def k3_def)
  have "(h, k1) = delegate_from i req ?c ?rc t k"
    using assms(9) adm(1,2) fl f i(1)
    by (simp add: capability64_delegate_with_expiry_def capability64_principal_is_valid_def Let_def)
  then have h: "h = u32_max" and k1: "k1 = capability64_audit_persona_denial ?rc (cap_endpoint_class src) k3"
    using adm i unfolding delegate_from_eq [OF own al] by auto
  let ?ev = "(PERSONA_AUDIT64_EVENT_CAPABILITY_DENIED, ucast (cap_endpoint_class src), PERSONA_AUDIT64_RESULT_DENY, 0)"
  have emit: "k1 = emit_audit pid ?ev k3"
    using assms(6,7) audit_denial_emits [of k3 ?rc] by (simp add: k1 k3_def)
  have a3: "audit_inv k3" "audit_attached k3 pid" using assms(2,8) by (simp_all add: k3_def)
  have "cap_lookup k1 = cap_lookup k"
    by (rule cap_lookup_eqI [OF cap_map_same]) (simp_all add: k1 k3_def)
  moreover have "capability64_persona_transfer_denial_count k1 = capability64_persona_transfer_denial_count k + 1"
    by (simp add: capability64_persona_transfer_denial_count_def k1 k3_def count_denial_def)
  moreover have "audit_log k1 q = audit_log k q" if "q \<noteq> pid"
    using sink.emit_other [OF a3(1) that, of ?ev] by (simp add: emit k3_def)
  ultimately show ?thesis
    using sink.emit_last(1,2) [OF a3, of ?ev] h by (simp add: emit)
qed

text \<open>
  A kernel in which the console worker has a native persona and a capability for the console, and the
  file-system worker a Linux persona and an audit log.
\<close>

definition two_personas :: kernel_cap where
  "two_personas = (let k0 = kernel_audit.extend kernel_audit_boot \<lparr>k_cap = capability64_init\<rparr>;
       k1 = snd (persona_audit64_attach 5 k0);
       k2 = snd (persona64_init_native 4 (snd (persona64_init_linux_elf 5 (Injected 7) k1)))
     in snd (capability64_grant_service_for_process SERVICE_ENDPOINT_CLASS_CONSOLE 7 4 k2))"

definition console_to_ramfs :: u32 where
  "console_to_ramfs = CAPABILITY64_CONTEXT PRINCIPAL64_ID_CONSOLE_WORKER PRINCIPAL64_ID_RAMFS_WORKER"

lemma two_personas_facts:
  "let k = two_personas in audit_attached k 5
     \<and> capability64_persona_pid_for_owner k (capability64_context_recipient console_to_ramfs) = 5
     \<and> (case cap_lookup k 0x6400 of None \<Rightarrow> False | Some src \<Rightarrow>
          delegation_admissible k (src\<lparr>cap_persona_mask := 0\<rparr>) 1 console_to_ramfs
          \<and> \<not> persona_admits k src (capability64_context_recipient console_to_ramfs))"
  by code_simp

lemma attach_keeps_cap:
  "k_cap (snd (persona64_attach_with pid ref prep k)) = k_cap k"
  "k_cap (snd (persona_audit64_attach pid k)) = k_cap k"
  by (auto simp: persona64_attach_with_def Let_def persona_deny_def upd_ctx_def persona_audit64_attach_def
      split: option.split prod.split bool.split)

lemma init_native_keeps:
  "k_cap (snd (persona64_init_native pid k)) = k_cap k"
  "k_audit (snd (persona64_init_native pid k)) = k_audit k"
  "process64_audit_ctx (k_proc (snd (persona64_init_native pid k))) = process64_audit_ctx (k_proc k)"
proof -
  let ?prep = "\<lambda>c. (persona_common (k_proc k) pid PERSONA64_TYPE_LIMITLESS_NATIVE Native_dispatch c)
    \<lparr>pc_windows := windows_zero\<rparr>"
  obtain ok k1 where a: "persona64_attach_with pid (persona_refused k pid) ?prep k = (ok, k1)" by (rule prod.exhaust)
  have "k_cap k1 = k_cap k" "k_audit k1 = k_audit k"
    "process64_audit_ctx (k_proc k1) = process64_audit_ctx (k_proc k)"
    using attach_keeps_cap(1) [of pid "persona_refused k pid" ?prep k]
      attach_with_audit [of pid "persona_refused k pid" ?prep k] a by simp_all
  then show "k_cap (snd (persona64_init_native pid k)) = k_cap k"
    "k_audit (snd (persona64_init_native pid k)) = k_audit k"
    "process64_audit_ctx (k_proc (snd (persona64_init_native pid k))) = process64_audit_ctx (k_proc k)"
    using a by (cases ok; simp add: persona64_init_native_def)+
qed

lemma init_keeps:
  "k_cap (snd (persona64_init_linux_elf pid t k)) = k_cap k"
  "audit_inv k \<Longrightarrow> audit_inv (snd (persona64_init_linux_elf pid t k))"
  "audit_inv k \<Longrightarrow> audit_inv (snd (persona64_init_native pid k))"
  by (simp_all add: persona64_init_linux_elf_def attach_keeps_cap audit_inv_attach_with)
     (simp add: audit_inv_def init_native_keeps)

lemma two_personas_inv: "cap_inv two_personas" "audit_inv two_personas"
proof -
  let ?k0 = "kernel_audit.extend kernel_audit_boot \<lparr>k_cap = capability64_init\<rparr>"
  define k2 where "k2 = snd (persona64_init_native 4 (snd (persona64_init_linux_elf 5 (Injected 7)
    (snd (persona_audit64_attach 5 ?k0)))))"
  have eq: "two_personas = snd (capability64_grant_service_for_process SERVICE_ENDPOINT_CLASS_CONSOLE 7 4 k2)"
    by (simp add: two_personas_def k2_def Let_def)
  have cap: "k_cap k2 = capability64_init"
    by (simp add: k2_def init_keeps init_native_keeps attach_keeps_cap kernel_audit.extend_def)
  have "audit_inv ?k0" using kernel_audit_boot_inv by (simp add: audit_inv_def kernel_audit.extend_def)
  moreover have "fst (persona_audit64_attach 5 ?k0)" by code_simp
  ultimately have aud: "audit_inv k2" unfolding k2_def by (intro init_keeps audit_attach_log(1))
  show "cap_inv two_personas"
    unfolding eq by (rule grant_process_inv [OF cap_init_inv [OF cap]])
      (simp add: cap capability64_init_def CAPABILITY64_HANDLE_BASE_def)
  obtain h k3 where g: "capability64_grant_service_tagged SERVICE_ENDPOINT_CLASS_CONSOLE 7 (process64_principal (k_proc k2) 4)
      (persona64_type k2 4) (persona64_capability_mask k2 4) k2 = (h, k3)" by (rule prod.exhaust)
  have "k_audit k3 = k_audit k2 \<and> k_proc k3 = k_proc k2"
    using g by (auto simp: capability64_grant_service_tagged_def capability64_principal_is_valid_def Let_def
        split: if_splits option.splits)
  then show "audit_inv two_personas"
    using aud g by (simp add: eq capability64_grant_service_for_process_def Let_def audit_inv_def)
qed

theorem capability64_cross_persona_delegation_audited_witness:
  "fst (capability64_delegate_with_expiry 0x6400 1 console_to_ramfs 9 two_personas) = u32_max
   \<and> audit_log (snd (capability64_delegate_with_expiry 0x6400 1 console_to_ramfs 9 two_personas)) 5 \<noteq> []"
proof -
  let ?k = two_personas
  have facts: "audit_attached ?k 5"
    "capability64_persona_pid_for_owner ?k (capability64_context_recipient console_to_ramfs) = 5"
    using two_personas_facts by (simp_all add: Let_def)
  have "case cap_lookup ?k 0x6400 of None \<Rightarrow> False | Some src \<Rightarrow>
      delegation_admissible ?k (src\<lparr>cap_persona_mask := 0\<rparr>) 1 console_to_ramfs
      \<and> \<not> persona_admits ?k src (capability64_context_recipient console_to_ramfs)"
    using two_personas_facts by (simp add: Let_def)
  then obtain src where src: "cap_lookup ?k 0x6400 = Some src"
      "delegation_admissible ?k (src\<lparr>cap_persona_mask := 0\<rparr>) 1 console_to_ramfs"
      "\<not> persona_admits ?k src (capability64_context_recipient console_to_ramfs)"
    using case_optionD by blast
  show ?thesis
    using capability64_cross_persona_delegation_audited [OF two_personas_inv src facts(2) _ facts(1)
        prod.collapse [symmetric], of 9] by simp
qed

text \<open>
  C31: Revoking an endpoint class removes every capability for its endpoint and no other one whose
  lease is running; the counting operation then finds none; and the number returned together with
  the expirations it counted is exactly the number of records it removed.
\<close>

theorem capability64_revoke_endpoint_class_exact:
  assumes "cap_inv k" and "capability64_revoke_endpoint_class cls k = (n, k1)"
    and "services64_resolve_endpoint_class cls \<noteq> u32_max"
  shows "cap_lookup k1 g = (case cap_lookup k g of None \<Rightarrow> None
        | Some r \<Rightarrow> if cap_endpoint_id r = services64_resolve_endpoint_class cls then None else Some r)
    \<and> fst (capability64_live_for_endpoint_class cls k1) = 0
    \<and> n + (capability64_expiration_count k1 - capability64_expiration_count k)
        = capability64_live_count k - capability64_live_count k1"
proof -
  let ?e = "services64_resolve_endpoint_class cls"
  note R = revoke_class_spec [OF assms(1,2)]
  have shr: "cap_shrinks k k1" by (rule R(1))
  have inv: "cap_inv k1" using assms(1) shr by (rule cap_shrinks_inv)
  have look: "cap_lookup k1 g = (case cap_lookup k g of None \<Rightarrow> None
      | Some r \<Rightarrow> if cap_endpoint_id r = ?e then None else Some r)" for g
    using R(3) [OF assms(3)] .
  have none: "\<not> (cap_active r \<and> \<not> capability64_record_expired (k_ticks k1) r \<and> cap_endpoint_id r = ?e)"
    if "r \<in> set (g_capabilities (k_cap k1))" for r
  proof
    assume r: "cap_active r \<and> \<not> capability64_record_expired (k_ticks k1) r \<and> cap_endpoint_id r = ?e"
    then have "cap_map k1 (cap_handle r) = Some r"
      using that by (simp add: cap_map_def table_map_iff [OF cap_invD(2) [OF inv]])
    then have "cap_lookup k1 (cap_handle r) = Some r" using r by (simp add: cap_lookup_def)
    then show False using look [of "cap_handle r"] r by (auto split: option.splits if_splits)
  qed
  then have zero: "count_if (\<lambda>r. cap_active r \<and> \<not> capability64_record_expired (k_ticks k1) r \<and> cap_endpoint_id r = ?e)
      (g_capabilities (k_cap k1)) = 0"
    by (simp add: count_if_eq_0_iff)
  have "fst (capability64_live_for_endpoint_class cls k1) = 0"
    using assms(3) zero by (simp add: capability64_live_for_endpoint_class_def Let_def)
  moreover have "count_if cap_active (g_capabilities (k_cap k1)) \<le> count_if cap_active (g_capabilities (k_cap k))"
    using shr by (intro sub_table_count) (simp add: cap_shrinks_def)
  then have "(of_nat (cap_drop (k_cap k) (k_cap k1)) :: u32) = capability64_live_count k - capability64_live_count k1"
    by (simp add: cap_drop_def capability64_live_count_def of_nat_diff)
  ultimately show ?thesis
    using look R(4) by (simp add: capability64_expiration_count_def algebra_simps)
qed

theorem capability64_revoke_endpoint_class_exact_witness:
  "cap_lookup (snd (capability64_revoke_endpoint_class SERVICE_ENDPOINT_CLASS_CONSOLE demo_state)) 0x6401 = None"
proof -
  have res: "services64_resolve_endpoint_class SERVICE_ENDPOINT_CLASS_CONSOLE \<noteq> u32_max" by code_simp
  have "case cap_lookup demo_state 0x6401 of None \<Rightarrow> False | Some r \<Rightarrow>
      cap_endpoint_id r = services64_resolve_endpoint_class SERVICE_ENDPOINT_CLASS_CONSOLE" by code_simp
  then show ?thesis
    using capability64_revoke_endpoint_class_exact [OF demo_state_inv prod.collapse [symmetric] res, where g = "0x6401"]
    by (auto split: option.splits)
qed

end
