(* ===== verification/Scheduler.thy ===== *)
theory Scheduler
  imports Process
begin

text \<open>
  The task scheduler of \<^verbatim>\<open>kernel/arch/x86_64/scheduler.c\<close> (UEFI build): a run queue of sixteen
  user tasks, round-robin selection with a one-shot preference for the task woken last, the
  three switch points (timer interrupt, blocked system call, exit), blocking and waking, the
  sleep queue with its wrapping tick comparison, and the FS base register of a task.

  What the scheduler calls in other components is the record \<open>sched_env\<close> over an arbitrary
  rest \<open>'r\<close> of the kernel: the page-root switch of \<^verbatim>\<open>paging.c\<close>, the page root and the persona
  type of a process, the Linux signal delivery and the expiry callbacks that a sleeper
  registered. None of them calls the scheduler back, so they act on the rest only. A reading of
  \<^verbatim>\<open>pit_get_ticks\<close> is an argument of the operation that takes it. The FS base MSR is the field
  \<open>fs_base_msr\<close>. A function pointer is the number of a callback, \<open>None\<close> for null.
\<close>

abbreviation (input) SCHEDULER64_INVALID_TASK :: u32 where
  "SCHEDULER64_INVALID_TASK \<equiv> u32_max"

definition SCHEDULER64_RUNQUEUE_TASK_LIMIT :: u32 where "SCHEDULER64_RUNQUEUE_TASK_LIMIT = 16"
definition SCHEDULER64_SLEEP_QUEUE_TASK_LIMIT :: nat where "SCHEDULER64_SLEEP_QUEUE_TASK_LIMIT = 16"
definition SCHEDULER64_SLEEP_SPIN_BUDGET_PER_TICK :: u64 where
  "SCHEDULER64_SLEEP_SPIN_BUDGET_PER_TICK = 50000"
definition SCHEDULER64_SLEEP_MAX_SPIN_BUDGET :: u64 where
  "SCHEDULER64_SLEEP_MAX_SPIN_BUDGET = 1000000"

definition SCHEDULER64_CR3_REASON_START :: u32 where "SCHEDULER64_CR3_REASON_START = 0x53544152"
definition SCHEDULER64_CR3_REASON_TIMER :: u32 where "SCHEDULER64_CR3_REASON_TIMER = 0x54494D52"
definition SCHEDULER64_CR3_REASON_BLOCKED_SYSCALL :: u32 where
  "SCHEDULER64_CR3_REASON_BLOCKED_SYSCALL = 0x42535953"
definition SCHEDULER64_CR3_REASON_EXIT_RESUME :: u32 where
  "SCHEDULER64_CR3_REASON_EXIT_RESUME = 0x45585245"
definition SCHEDULER64_CR3_REASON_EXIT_KERNEL :: u32 where
  "SCHEDULER64_CR3_REASON_EXIT_KERNEL = 0x45584B52"
definition SCHEDULER64_CR3_REASON_STOP :: u32 where "SCHEDULER64_CR3_REASON_STOP = 0x53544F50"
definition SCHEDULER64_CR3_REASON_RESET :: u32 where "SCHEDULER64_CR3_REASON_RESET = 0x52534554"

datatype task_state =
    SCHEDULER64_TASK_UNUSED | SCHEDULER64_TASK_READY | SCHEDULER64_TASK_RUNNING
  | SCHEDULER64_TASK_EXITED | SCHEDULER64_TASK_BLOCKED

datatype runqueue_exit =
    SCHEDULER64_RUNQUEUE_EXIT_NONE | SCHEDULER64_RUNQUEUE_EXIT_RESUMED
  | SCHEDULER64_RUNQUEUE_EXIT_COMPLETE

record interrupt_frame64 =
  f_r15 :: u64
  f_r14 :: u64
  f_r13 :: u64
  f_r12 :: u64
  f_r11 :: u64
  f_r10 :: u64
  f_r9 :: u64
  f_r8 :: u64
  f_rdi :: u64
  f_rsi :: u64
  f_rbp :: u64
  f_rbx :: u64
  f_rdx :: u64
  f_rcx :: u64
  f_rax :: u64
  f_vector :: u64
  f_error_code :: u64
  f_rip :: u64
  f_cs :: u64
  f_rflags :: u64
  f_rsp :: u64
  f_ss :: u64

record scheduler64_task =
  t_state :: task_state
  t_frame_valid :: bool
  t_pid :: u32
  t_runtime_token :: u32
  t_entry_token :: u32
  t_dispatches :: u32
  t_exits :: u32
  t_result :: u32
  t_initial_rip :: u64
  t_initial_rsp :: u64
  t_saved_rip :: u64
  t_saved_rsp :: u64
  t_fs_base :: u64
  t_frame :: interrupt_frame64

record scheduler64_runqueue =
  rq_active :: bool
  rq_task_count :: u32
  rq_current_task :: u32
  rq_attempts :: u32
  rq_exits :: u32
  rq_irqs :: u32
  rq_switches :: u32
  rq_result :: u32
  rq_blocks :: u32
  rq_wakes :: u32
  rq_block_denials :: u32
  rq_cs :: u64
  rq_ss :: u64
  rq_tasks :: "scheduler64_task list"

record scheduler64_sleep_entry =
  se_active :: bool
  se_task_id :: u32
  se_start_tick :: u32
  se_wake_tick :: u32
  se_requested_ticks :: u32
  se_resume_rax :: u64
  se_expiry_callback :: "nat option"
  se_callback_cookie :: u64

record scheduler_state =
  g_runqueue :: scheduler64_runqueue
  g_scheduler64_sleep_count :: u32
  g_scheduler64_sleep_denial_count :: u32
  g_scheduler64_sleep_last_requested_ticks :: u32
  g_scheduler64_sleep_last_elapsed_ticks :: u32
  g_scheduler64_sleep_last_start_ticks :: u32
  g_scheduler64_sleep_last_end_ticks :: u32
  g_scheduler64_sleep_queue :: "scheduler64_sleep_entry list"
  g_scheduler64_sleep_wake_count :: u32
  g_scheduler64_sleep_last_task_id :: u32
  g_scheduler64_sleep_last_wake_tick :: u32
  g_scheduler64_fs_save_count :: u32
  g_scheduler64_fs_restore_count :: u32
  g_scheduler64_fs_set_count :: u32
  g_scheduler64_preferred_task :: u32
  fs_base_msr :: u64

text \<open>The calls out of the scheduler, on the rest of the kernel.\<close>

record 'r sched_env =
  env_page_root :: "'r \<Rightarrow> u32 \<Rightarrow> u64"
  env_switch_process :: "u32 \<Rightarrow> u32 \<Rightarrow> 'r \<Rightarrow> bool \<times> 'r"
  env_switch_kernel :: "u32 \<Rightarrow> 'r \<Rightarrow> bool \<times> 'r"
  env_persona_is_linux :: "'r \<Rightarrow> u32 \<Rightarrow> bool"
  env_signal_deliver :: "u32 \<Rightarrow> interrupt_frame64 \<Rightarrow> 'r \<Rightarrow> interrupt_frame64 \<times> 'r"
  env_expiry :: "nat \<Rightarrow> u32 \<Rightarrow> u64 \<Rightarrow> 'r \<Rightarrow> 'r"


section \<open>Reading and writing the run queue\<close>

definition task_at :: "scheduler_state \<Rightarrow> u32 \<Rightarrow> scheduler64_task" where
  "task_at s i = rq_tasks (g_runqueue s) ! unat i"

definition upd_rq :: "(scheduler64_runqueue \<Rightarrow> scheduler64_runqueue) \<Rightarrow> scheduler_state \<Rightarrow> scheduler_state" where
  "upd_rq f s = s\<lparr>g_runqueue := f (g_runqueue s)\<rparr>"

definition upd_task :: "u32 \<Rightarrow> (scheduler64_task \<Rightarrow> scheduler64_task) \<Rightarrow> scheduler_state \<Rightarrow> scheduler_state" where
  "upd_task i f =
    upd_rq (\<lambda>q. q\<lparr>rq_tasks := (rq_tasks q)[unat i := f (rq_tasks q ! unat i)]\<rparr>)"

definition upd_sleep ::
    "nat \<Rightarrow> (scheduler64_sleep_entry \<Rightarrow> scheduler64_sleep_entry) \<Rightarrow> scheduler_state \<Rightarrow> scheduler_state" where
  "upd_sleep i f s = s\<lparr>g_scheduler64_sleep_queue :=
     (g_scheduler64_sleep_queue s)[i := f (g_scheduler64_sleep_queue s ! i)]\<rparr>"

abbreviation task_count :: "scheduler_state \<Rightarrow> u32" where
  "task_count s \<equiv> rq_task_count (g_runqueue s)"

abbreviation current_of :: "scheduler_state \<Rightarrow> u32" where
  "current_of s \<equiv> rq_current_task (g_runqueue s)"

abbreviation rq_is_active :: "scheduler_state \<Rightarrow> bool" where
  "rq_is_active s \<equiv> rq_active (g_runqueue s)"

definition rq_deny :: "scheduler_state \<Rightarrow> scheduler_state" where
  "rq_deny = upd_rq (\<lambda>q. q\<lparr>rq_block_denials := rq_block_denials q + 1\<rparr>)"

definition from_user :: "interrupt_frame64 \<Rightarrow> bool" where
  "from_user frame \<longleftrightarrow> f_cs frame AND 3 = 3"


section \<open>Frames and tasks\<close>

definition scheduler64_clear_frame :: interrupt_frame64 where
  "scheduler64_clear_frame =
    \<lparr>f_r15 = 0, f_r14 = 0, f_r13 = 0, f_r12 = 0, f_r11 = 0, f_r10 = 0, f_r9 = 0, f_r8 = 0,
     f_rdi = 0, f_rsi = 0, f_rbp = 0, f_rbx = 0, f_rdx = 0, f_rcx = 0, f_rax = 0,
     f_vector = 0, f_error_code = 0, f_rip = 0, f_cs = 0, f_rflags = 0, f_rsp = 0, f_ss = 0\<rparr>"

definition scheduler64_prepare_user_frame :: "u64 \<Rightarrow> u64 \<Rightarrow> u64 \<Rightarrow> u64 \<Rightarrow> interrupt_frame64" where
  "scheduler64_prepare_user_frame rip rsp selectors rflags =
    scheduler64_clear_frame
      \<lparr>f_rip := rip, f_rsp := rsp, f_rflags := rflags,
       f_cs := selectors AND 0xFFFF, f_ss := drop_bit 16 selectors AND 0xFFFF\<rparr>"

definition scheduler64_clear_task :: scheduler64_task where
  "scheduler64_clear_task =
    \<lparr>t_state = SCHEDULER64_TASK_UNUSED, t_frame_valid = False, t_pid = 0, t_runtime_token = 0,
     t_entry_token = 0, t_dispatches = 0, t_exits = 0, t_result = 0, t_initial_rip = 0,
     t_initial_rsp = 0, t_saved_rip = 0, t_saved_rsp = 0, t_fs_base = 0,
     t_frame = scheduler64_clear_frame\<rparr>"

definition slot_reusable :: "scheduler64_task \<Rightarrow> bool" where
  "slot_reusable t \<longleftrightarrow>
     t_state t = SCHEDULER64_TASK_UNUSED \<or> t_state t = SCHEDULER64_TASK_EXITED"

definition scheduler64_allocate_task_slot :: "scheduler_state \<Rightarrow> u32" where
  "scheduler64_allocate_task_slot s =
    (case first_index slot_reusable (take (unat (task_count s)) (rq_tasks (g_runqueue s))) of
       Some index \<Rightarrow> of_nat index
     | None \<Rightarrow> if task_count s \<ge> SCHEDULER64_RUNQUEUE_TASK_LIMIT then SCHEDULER64_INVALID_TASK
               else task_count s)"

definition scheduler64_save_fs_base_for_task :: "u32 \<Rightarrow> scheduler_state \<Rightarrow> scheduler_state" where
  "scheduler64_save_fs_base_for_task i s =
    (upd_task i (\<lambda>t. t\<lparr>t_fs_base := fs_base_msr s\<rparr>) s)
      \<lparr>g_scheduler64_fs_save_count := g_scheduler64_fs_save_count s + 1\<rparr>"

definition scheduler64_restore_fs_base_for_task :: "u32 \<Rightarrow> scheduler_state \<Rightarrow> scheduler_state" where
  "scheduler64_restore_fs_base_for_task i s =
    s\<lparr>fs_base_msr := t_fs_base (task_at s i),
      g_scheduler64_fs_restore_count := g_scheduler64_fs_restore_count s + 1\<rparr>"

definition scheduler64_clear_sleep_entry :: scheduler64_sleep_entry where
  "scheduler64_clear_sleep_entry =
    \<lparr>se_active = False, se_task_id = SCHEDULER64_INVALID_TASK, se_start_tick = 0,
     se_wake_tick = 0, se_requested_ticks = 0, se_resume_rax = 0, se_expiry_callback = None,
     se_callback_cookie = 0\<rparr>"

definition scheduler64_sleep_queue_reset :: "scheduler_state \<Rightarrow> scheduler_state" where
  "scheduler64_sleep_queue_reset s =
    s\<lparr>g_scheduler64_sleep_queue :=
        replicate SCHEDULER64_SLEEP_QUEUE_TASK_LIMIT scheduler64_clear_sleep_entry\<rparr>"

definition scheduler64_sleep_tick_reached :: "u32 \<Rightarrow> u32 \<Rightarrow> bool" where
  "scheduler64_sleep_tick_reached now_tick wake_tick \<longleftrightarrow> now_tick - wake_tick < 0x80000000"

definition scheduler64_sleep_free_entry :: "scheduler_state \<Rightarrow> nat option" where
  "scheduler64_sleep_free_entry s =
    first_index (\<lambda>e. \<not> se_active e) (g_scheduler64_sleep_queue s)"

definition scheduler64_sleep_task_pending :: "scheduler_state \<Rightarrow> u32 \<Rightarrow> bool" where
  "scheduler64_sleep_task_pending s task_id \<longleftrightarrow>
    first_index (\<lambda>e. se_active e \<and> se_task_id e = task_id) (g_scheduler64_sleep_queue s) \<noteq> None"


section \<open>Selecting the next task\<close>

definition task_runnable :: "scheduler64_task \<Rightarrow> bool" where
  "task_runnable t \<longleftrightarrow> t_state t = SCHEDULER64_TASK_READY \<and> t_frame_valid t"

definition round_robin :: "scheduler_state \<Rightarrow> u32 \<Rightarrow> u32 option" where
  "round_robin s current =
    find (\<lambda>candidate. task_runnable (task_at s candidate))
      (map (\<lambda>offset. (current + of_nat offset) mod task_count s) [1..<unat (task_count s)])"

definition scheduler64_next_runnable :: "u32 \<Rightarrow> scheduler_state \<Rightarrow> u32 \<times> scheduler_state" where
  "scheduler64_next_runnable current s =
    (let preferred = g_scheduler64_preferred_task s;
         s1 = s\<lparr>g_scheduler64_preferred_task := SCHEDULER64_INVALID_TASK\<rparr>
     in if task_count s = 0 then (SCHEDULER64_INVALID_TASK, s)
        else if preferred < task_count s \<and> preferred \<noteq> current
              \<and> task_runnable (task_at s preferred)
        then (preferred, s1)
        else (case round_robin s current of
                Some candidate \<Rightarrow> (candidate, s1)
              | None \<Rightarrow> (SCHEDULER64_INVALID_TASK, s1)))"

definition scheduler64_switch_cr3_for_task ::
    "('r, 'z) sched_env_scheme \<Rightarrow> scheduler64_task \<Rightarrow> u32 \<Rightarrow> 'r \<Rightarrow> bool \<times> 'r" where
  "scheduler64_switch_cr3_for_task env task reason r =
    (if t_pid task = 0 \<or> env_page_root env r (t_pid task) = 0 then (True, r)
     else env_switch_process env (t_pid task) reason r)"

definition scheduler64_switch_cr3_to_kernel :: "('r, 'z) sched_env_scheme \<Rightarrow> u32 \<Rightarrow> 'r \<Rightarrow> 'r" where
  "scheduler64_switch_cr3_to_kernel env reason r = snd (env_switch_kernel env reason r)"

definition scheduler64_deliver_linux_signal_on_resume ::
    "('r, 'z) sched_env_scheme \<Rightarrow> scheduler64_task \<Rightarrow> interrupt_frame64 \<Rightarrow> 'r \<Rightarrow> interrupt_frame64 \<times> 'r" where
  "scheduler64_deliver_linux_signal_on_resume env task frame r =
    (if \<not> from_user frame \<or> \<not> env_persona_is_linux env r (t_pid task) then (frame, r)
     else env_signal_deliver env (t_pid task) frame r)"


section \<open>Reset and registration\<close>

definition clear_runqueue :: scheduler64_runqueue where
  "clear_runqueue =
    \<lparr>rq_active = False, rq_task_count = 0, rq_current_task = SCHEDULER64_INVALID_TASK,
     rq_attempts = 0, rq_exits = 0, rq_irqs = 0, rq_switches = 0, rq_result = 0,
     rq_blocks = 0, rq_wakes = 0, rq_block_denials = 0, rq_cs = 0, rq_ss = 0,
     rq_tasks = replicate (unat SCHEDULER64_RUNQUEUE_TASK_LIMIT) scheduler64_clear_task\<rparr>"

definition scheduler64_runqueue_reset ::
    "('r, 'z) sched_env_scheme \<Rightarrow> scheduler_state \<times> 'r \<Rightarrow> scheduler_state \<times> 'r" where
  "scheduler64_runqueue_reset env = (\<lambda>(s, r).
    (scheduler64_sleep_queue_reset
       (s\<lparr>g_runqueue := clear_runqueue,
          g_scheduler64_preferred_task := SCHEDULER64_INVALID_TASK, fs_base_msr := 0\<rparr>),
     scheduler64_switch_cr3_to_kernel env SCHEDULER64_CR3_REASON_RESET r))"

definition scheduler64_init ::
    "('r, 'z) sched_env_scheme \<Rightarrow> scheduler_state \<times> 'r \<Rightarrow> scheduler_state \<times> 'r" where
  "scheduler64_init env sr =
    (let (s, r) = scheduler64_runqueue_reset env sr
     in (scheduler64_sleep_queue_reset
           (s\<lparr>g_scheduler64_sleep_count := 0, g_scheduler64_sleep_denial_count := 0,
              g_scheduler64_sleep_last_requested_ticks := 0,
              g_scheduler64_sleep_last_elapsed_ticks := 0,
              g_scheduler64_sleep_last_start_ticks := 0,
              g_scheduler64_sleep_last_end_ticks := 0,
              g_scheduler64_sleep_wake_count := 0,
              g_scheduler64_sleep_last_task_id := SCHEDULER64_INVALID_TASK,
              g_scheduler64_sleep_last_wake_tick := 0,
              g_scheduler64_fs_save_count := 0, g_scheduler64_fs_restore_count := 0,
              g_scheduler64_fs_set_count := 0,
              g_scheduler64_preferred_task := SCHEDULER64_INVALID_TASK\<rparr>), r))"

text \<open>Writing a fresh task into its slot, and growing the queue when the slot was past its end.\<close>

definition install_task :: "u32 \<Rightarrow> scheduler64_task \<Rightarrow> scheduler_state \<Rightarrow> scheduler_state" where
  "install_task task_id task =
    upd_rq (\<lambda>q. q\<lparr>rq_tasks := (rq_tasks q)[unat task_id := task],
                  rq_task_count := (if task_id = rq_task_count q then rq_task_count q + 1
                                    else rq_task_count q)\<rparr>)"

definition scheduler64_runqueue_register_user_task ::
    "u64 \<Rightarrow> u64 \<Rightarrow> u64 \<Rightarrow> u64 \<Rightarrow> scheduler_state \<Rightarrow> u32 \<times> scheduler_state" where
  "scheduler64_runqueue_register_user_task rip rsp selectors rflags s =
    (let task_id = scheduler64_allocate_task_slot s
     in if task_id = SCHEDULER64_INVALID_TASK then (SCHEDULER64_INVALID_TASK, s)
        else (task_id, install_task task_id
               (scheduler64_clear_task
                  \<lparr>t_state := SCHEDULER64_TASK_READY, t_frame_valid := True,
                   t_initial_rip := rip, t_initial_rsp := rsp,
                   t_frame := scheduler64_prepare_user_frame rip rsp selectors rflags\<rparr>) s))"

definition scheduler64_runqueue_register_process_task ::
    "u32 \<Rightarrow> u32 \<Rightarrow> u32 \<Rightarrow> u64 \<Rightarrow> u64 \<Rightarrow> u64 \<Rightarrow> u64 \<Rightarrow> scheduler_state \<Rightarrow> u32 \<times> scheduler_state" where
  "scheduler64_runqueue_register_process_task pid runtime_token entry_token rip rsp selectors rflags s =
    (if pid = 0 \<or> runtime_token = 0 \<or> entry_token = 0 then (SCHEDULER64_INVALID_TASK, s)
     else let (task_id, s1) = scheduler64_runqueue_register_user_task rip rsp selectors rflags s
          in if task_id = SCHEDULER64_INVALID_TASK then (SCHEDULER64_INVALID_TASK, s1)
             else (task_id, upd_task task_id
                    (\<lambda>t. t\<lparr>t_pid := pid, t_runtime_token := runtime_token,
                           t_entry_token := entry_token\<rparr>) s1))"

definition scheduler64_runqueue_register_process_frame ::
    "u32 \<Rightarrow> u32 \<Rightarrow> u32 \<Rightarrow> interrupt_frame64 option \<Rightarrow> scheduler_state \<Rightarrow> u32 \<times> scheduler_state" where
  "scheduler64_runqueue_register_process_frame pid runtime_token entry_token frame_ptr s =
    (let task_id = scheduler64_allocate_task_slot s
     in case frame_ptr of
          None \<Rightarrow> (SCHEDULER64_INVALID_TASK, s)
        | Some frame \<Rightarrow>
            if pid = 0 \<or> runtime_token = 0 \<or> entry_token = 0 \<or> f_rip frame = 0 \<or> f_rsp frame = 0
              \<or> f_cs frame AND 3 \<noteq> 3 \<or> f_ss frame AND 3 \<noteq> 3
              \<or> task_id = SCHEDULER64_INVALID_TASK
            then (SCHEDULER64_INVALID_TASK, s)
            else (task_id, install_task task_id
                   (scheduler64_clear_task
                      \<lparr>t_state := SCHEDULER64_TASK_READY, t_frame_valid := True,
                       t_pid := pid, t_runtime_token := runtime_token,
                       t_entry_token := entry_token,
                       t_initial_rip := f_rip frame, t_initial_rsp := f_rsp frame,
                       t_saved_rip := f_rip frame, t_saved_rsp := f_rsp frame,
                       t_frame := frame\<rparr>) s))"

definition scheduler64_runqueue_register_launched_process_task ::
    "launch_state \<Rightarrow> process_state \<Rightarrow> u32 \<Rightarrow> u64 \<Rightarrow> u64 \<Rightarrow> u64 \<Rightarrow> scheduler_state \<Rightarrow>
     u32 \<times> scheduler_state" where
  "scheduler64_runqueue_register_launched_process_task ms ps pid rip rsp rflags s =
    (if \<not> process64_runtime_user_entry_ready ms ps pid then (SCHEDULER64_INVALID_TASK, s)
     else
       let runtime_token = process64_runtime_token ms ps pid;
           entry_token = process64_runtime_user_entry_token ms ps pid;
           selectors = ucast (process64_runtime_user_entry_selectors ms ps pid);
           rip' = (if rip = 0 then ucast (process64_runtime_user_entry_rip ms ps pid) else rip);
           rsp' = (if rsp = 0 then ucast (process64_runtime_user_entry_rsp ms ps pid) else rsp);
           rflags' = (if rflags = 0 then ucast (process64_runtime_user_entry_rflags ms ps pid)
                      else rflags)
       in if runtime_token = 0 \<or> entry_token = 0 \<or> selectors = 0 \<or> rip' = 0 \<or> rsp' = 0
            \<or> rflags' = 0
          then (SCHEDULER64_INVALID_TASK, s)
          else scheduler64_runqueue_register_process_task pid runtime_token entry_token
                 rip' rsp' selectors rflags' s)"


section \<open>Start and stop\<close>

definition set_task_state :: "task_state \<Rightarrow> u32 \<Rightarrow> scheduler_state \<Rightarrow> scheduler_state" where
  "set_task_state st i = upd_task i (\<lambda>t. t\<lparr>t_state := st\<rparr>)"

definition scheduler64_runqueue_start ::
    "('r, 'z) sched_env_scheme \<Rightarrow> u32 \<Rightarrow> scheduler_state \<times> 'r \<Rightarrow> bool \<times> scheduler_state \<times> 'r" where
  "scheduler64_runqueue_start env first_task = (\<lambda>(s, r).
    if first_task \<ge> task_count s \<or> t_state (task_at s first_task) \<noteq> SCHEDULER64_TASK_READY
    then (False, s, r)
    else
      let s1 = upd_task first_task (\<lambda>t. t\<lparr>t_state := SCHEDULER64_TASK_RUNNING,
                                          t_dispatches := t_dispatches t + 1\<rparr>)
                 (upd_rq (\<lambda>q. q\<lparr>rq_active := True, rq_current_task := first_task,
                                rq_attempts := rq_attempts q + 1\<rparr>) s);
          frame = t_frame (task_at s1 first_task);
          s2 = upd_rq (\<lambda>q. q\<lparr>rq_cs := f_cs frame, rq_ss := f_ss frame\<rparr>) s1;
          (switched, r2) = scheduler64_switch_cr3_for_task env (task_at s2 first_task)
                             SCHEDULER64_CR3_REASON_START r
      in if \<not> switched
         then (False,
               upd_rq (\<lambda>q. q\<lparr>rq_active := False, rq_current_task := SCHEDULER64_INVALID_TASK\<rparr>)
                 (set_task_state SCHEDULER64_TASK_READY first_task s2), r2)
         else (True, scheduler64_restore_fs_base_for_task first_task s2, r2))"

definition scheduler64_runqueue_stop ::
    "('r, 'z) sched_env_scheme \<Rightarrow> scheduler_state \<times> 'r \<Rightarrow> scheduler_state \<times> 'r" where
  "scheduler64_runqueue_stop env = (\<lambda>(s, r).
    ((upd_rq (\<lambda>q. q\<lparr>rq_active := False, rq_current_task := SCHEDULER64_INVALID_TASK\<rparr>) s)
       \<lparr>fs_base_msr := 0\<rparr>,
     scheduler64_switch_cr3_to_kernel env SCHEDULER64_CR3_REASON_STOP r))"


section \<open>Blocking and waking\<close>

definition scheduler64_runqueue_block_task :: "u32 \<Rightarrow> scheduler_state \<Rightarrow> bool \<times> scheduler_state" where
  "scheduler64_runqueue_block_task task_id s =
    (let commit = (\<lambda>s. (True, upd_rq (\<lambda>q. q\<lparr>rq_blocks := rq_blocks q + 1\<rparr>)
                               (set_task_state SCHEDULER64_TASK_BLOCKED task_id s)))
     in if task_id \<ge> task_count s \<or> \<not> t_frame_valid (task_at s task_id)
          \<or> t_state (task_at s task_id) = SCHEDULER64_TASK_UNUSED
          \<or> t_state (task_at s task_id) = SCHEDULER64_TASK_EXITED
          \<or> t_state (task_at s task_id) = SCHEDULER64_TASK_BLOCKED
        then (False, rq_deny s)
        else if t_state (task_at s task_id) = SCHEDULER64_TASK_RUNNING
        then (if \<not> rq_is_active s \<or> current_of s \<noteq> task_id then (False, rq_deny s)
              else let (next, s1) = scheduler64_next_runnable task_id s
                   in if next = SCHEDULER64_INVALID_TASK then (False, rq_deny s1) else commit s1)
        else commit s)"

definition wake_refused :: "u32 \<Rightarrow> scheduler_state \<Rightarrow> bool" where
  "wake_refused task_id s \<longleftrightarrow>
     task_id \<ge> task_count s \<or> \<not> t_frame_valid (task_at s task_id)
   \<or> t_state (task_at s task_id) \<noteq> SCHEDULER64_TASK_BLOCKED"

definition prefer_woken :: "u32 \<Rightarrow> scheduler_state \<Rightarrow> scheduler_state" where
  "prefer_woken task_id s =
    upd_rq (\<lambda>q. q\<lparr>rq_wakes := rq_wakes q + 1\<rparr>)
      (s\<lparr>g_scheduler64_preferred_task := task_id\<rparr>)"

definition scheduler64_runqueue_wake_task_with_result ::
    "u32 \<Rightarrow> u64 \<Rightarrow> scheduler_state \<Rightarrow> bool \<times> scheduler_state" where
  "scheduler64_runqueue_wake_task_with_result task_id result s =
    (if wake_refused task_id s then (False, rq_deny s)
     else (True, prefer_woken task_id
             (upd_task task_id (\<lambda>t. t\<lparr>t_frame := (t_frame t)\<lparr>f_rax := result\<rparr>,
                                      t_state := SCHEDULER64_TASK_READY\<rparr>) s)))"

definition scheduler64_runqueue_wake_task :: "u32 \<Rightarrow> scheduler_state \<Rightarrow> bool \<times> scheduler_state" where
  "scheduler64_runqueue_wake_task task_id = scheduler64_runqueue_wake_task_with_result task_id 0"

definition scheduler64_runqueue_wake_task_replay :: "u32 \<Rightarrow> scheduler_state \<Rightarrow> bool \<times> scheduler_state" where
  "scheduler64_runqueue_wake_task_replay task_id s =
    (if wake_refused task_id s then (False, rq_deny s)
     else (True, prefer_woken task_id (set_task_state SCHEDULER64_TASK_READY task_id s)))"


section \<open>Accessors\<close>

definition scheduler64_runqueue_current_pid :: "scheduler_state \<Rightarrow> u32" where
  "scheduler64_runqueue_current_pid s =
    (if \<not> rq_is_active s \<or> current_of s \<ge> task_count s then 0
     else t_pid (task_at s (current_of s)))"

definition scheduler64_runqueue_current_task_id :: "scheduler_state \<Rightarrow> u32" where
  "scheduler64_runqueue_current_task_id s =
    (if \<not> rq_is_active s \<or> current_of s \<ge> task_count s then SCHEDULER64_INVALID_TASK
     else current_of s)"

definition task_field :: "(scheduler64_task \<Rightarrow> 'f) \<Rightarrow> 'f \<Rightarrow> scheduler_state \<Rightarrow> u32 \<Rightarrow> 'f" where
  "task_field f d s task_id = (if task_id \<ge> task_count s then d else f (task_at s task_id))"

definition scheduler64_runqueue_task_state :: "scheduler_state \<Rightarrow> u32 \<Rightarrow> task_state" where
  "scheduler64_runqueue_task_state = task_field t_state SCHEDULER64_TASK_UNUSED"

definition scheduler64_runqueue_task_result :: "scheduler_state \<Rightarrow> u32 \<Rightarrow> u32" where
  "scheduler64_runqueue_task_result = task_field t_result 0"

definition scheduler64_runqueue_task_pid :: "scheduler_state \<Rightarrow> u32 \<Rightarrow> u32" where
  "scheduler64_runqueue_task_pid = task_field t_pid 0"

definition scheduler64_runqueue_task_runtime_token :: "scheduler_state \<Rightarrow> u32 \<Rightarrow> u32" where
  "scheduler64_runqueue_task_runtime_token = task_field t_runtime_token 0"

definition scheduler64_runqueue_task_entry_token :: "scheduler_state \<Rightarrow> u32 \<Rightarrow> u32" where
  "scheduler64_runqueue_task_entry_token = task_field t_entry_token 0"

definition scheduler64_runqueue_task_rip :: "scheduler_state \<Rightarrow> u32 \<Rightarrow> u64" where
  "scheduler64_runqueue_task_rip =
    task_field (\<lambda>t. if t_saved_rip t \<noteq> 0 then t_saved_rip t else t_initial_rip t) 0"

definition scheduler64_runqueue_task_rsp :: "scheduler_state \<Rightarrow> u32 \<Rightarrow> u64" where
  "scheduler64_runqueue_task_rsp =
    task_field (\<lambda>t. if t_saved_rsp t \<noteq> 0 then t_saved_rsp t else t_initial_rsp t) 0"

definition scheduler64_runqueue_blocked_count :: "scheduler_state \<Rightarrow> u32" where
  "scheduler64_runqueue_blocked_count s =
    of_nat (count_if (\<lambda>t. t_state t = SCHEDULER64_TASK_BLOCKED)
      (take (unat (task_count s)) (rq_tasks (g_runqueue s))))"

definition scheduler64_sleep_pending_count :: "scheduler_state \<Rightarrow> u32" where
  "scheduler64_sleep_pending_count s = of_nat (count_if se_active (g_scheduler64_sleep_queue s))"

definition scheduler64_runqueue_set_task_fs_base ::
    "u32 \<Rightarrow> u64 \<Rightarrow> scheduler_state \<Rightarrow> bool \<times> scheduler_state" where
  "scheduler64_runqueue_set_task_fs_base task_id fs_base s =
    (if task_id \<ge> task_count s \<or> \<not> t_frame_valid (task_at s task_id)
       \<or> t_state (task_at s task_id) = SCHEDULER64_TASK_UNUSED
     then (False, s)
     else
       let s1 = (upd_task task_id (\<lambda>t. t\<lparr>t_fs_base := fs_base\<rparr>) s)
                  \<lparr>g_scheduler64_fs_set_count := g_scheduler64_fs_set_count s + 1\<rparr>
       in (True,
           if rq_is_active s1 \<and> current_of s1 = task_id
             \<and> t_state (task_at s1 task_id) = SCHEDULER64_TASK_RUNNING
           then s1\<lparr>fs_base_msr := fs_base\<rparr> else s1))"

definition scheduler64_runqueue_set_current_fs_base ::
    "u64 \<Rightarrow> scheduler_state \<Rightarrow> bool \<times> scheduler_state" where
  "scheduler64_runqueue_set_current_fs_base fs_base s =
    (let task_id = scheduler64_runqueue_current_task_id s
     in if task_id = SCHEDULER64_INVALID_TASK then (False, s)
        else scheduler64_runqueue_set_task_fs_base task_id fs_base s)"


section \<open>The sleep queue\<close>

definition sleep_deny :: "scheduler_state \<Rightarrow> scheduler_state" where
  "sleep_deny s = s\<lparr>g_scheduler64_sleep_denial_count := g_scheduler64_sleep_denial_count s + 1\<rparr>"

text \<open>
  One round of the loop of \<^verbatim>\<open>scheduler64_sleep_wake_expired\<close>, threading the number of tasks
  woken so far, the scheduler and the rest of the kernel.
\<close>

definition sleep_wake_entry ::
    "('r, 'z) sched_env_scheme \<Rightarrow> u32 \<Rightarrow> nat \<Rightarrow> u32 \<times> scheduler_state \<times> 'r \<Rightarrow>
     u32 \<times> scheduler_state \<times> 'r" where
  "sleep_wake_entry env now_tick index = (\<lambda>(wake_count, s, r).
    let entry = g_scheduler64_sleep_queue s ! index
    in if \<not> se_active entry \<or> \<not> scheduler64_sleep_tick_reached now_tick (se_wake_tick entry)
       then (wake_count, s, r)
       else
         let s1 = s\<lparr>g_scheduler64_sleep_last_task_id := se_task_id entry,
                    g_scheduler64_sleep_last_requested_ticks := se_requested_ticks entry,
                    g_scheduler64_sleep_last_start_ticks := se_start_tick entry,
                    g_scheduler64_sleep_last_end_ticks := now_tick,
                    g_scheduler64_sleep_last_elapsed_ticks := now_tick - se_start_tick entry,
                    g_scheduler64_sleep_last_wake_tick := se_wake_tick entry\<rparr>;
             r1 = (case se_expiry_callback entry of
                     None \<Rightarrow> r
                   | Some f \<Rightarrow> env_expiry env f (se_task_id entry) (se_callback_cookie entry) r);
             (woken, s2) = scheduler64_runqueue_wake_task_with_result (se_task_id entry)
                             (se_resume_rax entry) s1;
             s3 = (if woken
                   then s2\<lparr>g_scheduler64_sleep_wake_count := g_scheduler64_sleep_wake_count s2 + 1\<rparr>
                   else sleep_deny s2)
         in (if woken then wake_count + 1 else wake_count,
             upd_sleep index (\<lambda>_. scheduler64_clear_sleep_entry) s3, r1))"

definition scheduler64_sleep_wake_expired ::
    "('r, 'z) sched_env_scheme \<Rightarrow> u32 \<Rightarrow> scheduler_state \<times> 'r \<Rightarrow> u32 \<times> scheduler_state \<times> 'r" where
  "scheduler64_sleep_wake_expired env now_tick = (\<lambda>(s, r).
    fold (sleep_wake_entry env now_tick) [0..<SCHEDULER64_SLEEP_QUEUE_TASK_LIMIT] (0, s, r))"

definition scheduler64_sleep_start_current_task ::
    "u32 \<Rightarrow> u32 \<Rightarrow> u64 \<Rightarrow> nat option \<Rightarrow> u64 \<Rightarrow> scheduler_state \<Rightarrow> bool \<times> scheduler_state" where
  "scheduler64_sleep_start_current_task start_ticks requested_ticks resume_rax expiry_callback
     callback_cookie s =
    (let task_id = scheduler64_runqueue_current_task_id s
     in if requested_ticks = 0 then (False, s)
        else if task_id = SCHEDULER64_INVALID_TASK then (False, s)
        else case scheduler64_sleep_free_entry s of
               None \<Rightarrow> (False, sleep_deny s)
             | Some index \<Rightarrow>
                 if scheduler64_runqueue_task_state s task_id \<noteq> SCHEDULER64_TASK_RUNNING
                   \<or> scheduler64_sleep_task_pending s task_id
                 then (False, sleep_deny s)
                 else
                   let s1 = (upd_sleep index (\<lambda>_.
                               \<lparr>se_active = True, se_task_id = task_id, se_start_tick = start_ticks,
                                se_wake_tick = start_ticks + requested_ticks,
                                se_requested_ticks = requested_ticks, se_resume_rax = resume_rax,
                                se_expiry_callback = expiry_callback,
                                se_callback_cookie = callback_cookie\<rparr>) s)
                              \<lparr>g_scheduler64_sleep_last_task_id := task_id,
                               g_scheduler64_sleep_last_wake_tick := start_ticks + requested_ticks\<rparr>;
                       (blocked, s2) = scheduler64_runqueue_block_task task_id s1
                   in if \<not> blocked
                      then (False, sleep_deny (upd_sleep index (\<lambda>_. scheduler64_clear_sleep_entry) s2))
                      else (True, s2\<lparr>g_scheduler64_sleep_count := g_scheduler64_sleep_count s2 + 1\<rparr>))"

definition note_sleep_request :: "u32 \<Rightarrow> u32 \<Rightarrow> scheduler_state \<Rightarrow> scheduler_state" where
  "note_sleep_request requested_ticks start_ticks s =
    s\<lparr>g_scheduler64_sleep_last_requested_ticks := requested_ticks,
      g_scheduler64_sleep_last_start_ticks := start_ticks,
      g_scheduler64_sleep_last_end_ticks := start_ticks,
      g_scheduler64_sleep_last_elapsed_ticks := 0,
      g_scheduler64_sleep_last_task_id := SCHEDULER64_INVALID_TASK,
      g_scheduler64_sleep_last_wake_tick := start_ticks\<rparr>"

text \<open>
  The waiting loop of \<^verbatim>\<open>scheduler64_sleep_for_ticks\<close> when no task is running: \<open>pit n\<close> is the
  \<open>n\<close>th reading of the tick counter, the loop condition of round \<open>guard\<close> takes reading
  \<open>guard + 1\<close>. The result is the number of rounds.
\<close>

function sleep_spin :: "(nat \<Rightarrow> u32) \<Rightarrow> u32 \<Rightarrow> u32 \<Rightarrow> u64 \<Rightarrow> u64 \<Rightarrow> u64" where
  "sleep_spin pit start_ticks requested_ticks guard_limit guard =
    (if pit (Suc (unat guard)) - start_ticks < requested_ticks \<and> guard < guard_limit
     then sleep_spin pit start_ticks requested_ticks guard_limit (guard + 1)
     else guard)"
  by auto

termination sleep_spin
proof (relation "measure (\<lambda>(pit, start, requested, limit, guard). unat limit - unat guard)", goal_cases)
  case (2 pit start_ticks requested_ticks guard_limit guard)
  then have "guard < guard_limit" by simp
  moreover have "unat guard_limit < 2 ^ LENGTH(64)" by (rule unsigned_less)
  ultimately show ?case by (simp add: word_less_nat_alt unat_word_ariths)
qed simp

definition sleep_guard_limit :: "u32 \<Rightarrow> u64" where
  "sleep_guard_limit requested_ticks =
    (let limit = ucast requested_ticks * SCHEDULER64_SLEEP_SPIN_BUDGET_PER_TICK
                   + SCHEDULER64_SLEEP_SPIN_BUDGET_PER_TICK
     in if limit > SCHEDULER64_SLEEP_MAX_SPIN_BUDGET then SCHEDULER64_SLEEP_MAX_SPIN_BUDGET
        else limit)"

definition scheduler64_sleep_for_ticks ::
    "(nat \<Rightarrow> u32) \<Rightarrow> u32 \<Rightarrow> scheduler_state \<Rightarrow> bool \<times> scheduler_state" where
  "scheduler64_sleep_for_ticks pit requested_ticks s =
    (let start_ticks = pit 0;
         s1 = note_sleep_request requested_ticks start_ticks s
     in if requested_ticks = 0
        then (True, s1\<lparr>g_scheduler64_sleep_count := g_scheduler64_sleep_count s1 + 1\<rparr>)
        else if scheduler64_runqueue_current_task_id s1 \<noteq> SCHEDULER64_INVALID_TASK
        then scheduler64_sleep_start_current_task (pit 1) requested_ticks 0 None 0 s1
        else
          let rounds = sleep_spin pit start_ticks requested_ticks (sleep_guard_limit requested_ticks) 0;
              end_ticks = pit (unat rounds + 2);
              elapsed_ticks = end_ticks - start_ticks;
              s2 = s1\<lparr>g_scheduler64_sleep_last_end_ticks := end_ticks,
                      g_scheduler64_sleep_last_elapsed_ticks := elapsed_ticks\<rparr>
          in if elapsed_ticks \<ge> requested_ticks
             then (True, s2\<lparr>g_scheduler64_sleep_count := g_scheduler64_sleep_count s2 + 1\<rparr>)
             else (False, sleep_deny s2))"

definition scheduler64_sleep_current_task_for_ticks ::
    "(nat \<Rightarrow> u32) \<Rightarrow> u32 \<Rightarrow> u64 \<Rightarrow> nat option \<Rightarrow> u64 \<Rightarrow> scheduler_state \<Rightarrow> bool \<times> scheduler_state" where
  "scheduler64_sleep_current_task_for_ticks pit requested_ticks resume_rax expiry_callback
     callback_cookie s =
    scheduler64_sleep_start_current_task (pit 1) requested_ticks resume_rax expiry_callback
      callback_cookie (note_sleep_request requested_ticks (pit 0) s)"

definition scheduler64_sleep_cancel_task :: "u32 \<Rightarrow> scheduler_state \<Rightarrow> u32 \<times> scheduler_state" where
  "scheduler64_sleep_cancel_task task_id s =
    (let hit = (\<lambda>e. se_active e \<and> se_task_id e = task_id);
         queue = g_scheduler64_sleep_queue s
     in (of_nat (count_if hit queue),
         s\<lparr>g_scheduler64_sleep_queue :=
             map (\<lambda>e. if hit e then scheduler64_clear_sleep_entry else e) queue\<rparr>))"


section \<open>The three switch points\<close>

text \<open>The interrupted frame is saved in the task, with the FS base it ran with.\<close>

definition save_context :: "u32 \<Rightarrow> interrupt_frame64 \<Rightarrow> scheduler_state \<Rightarrow> scheduler_state" where
  "save_context current frame s =
    scheduler64_save_fs_base_for_task current
      (upd_task current (\<lambda>t. t\<lparr>t_frame := frame, t_frame_valid := True,
                               t_saved_rip := f_rip frame, t_saved_rsp := f_rsp frame\<rparr>) s)"

definition note_segments :: "interrupt_frame64 \<Rightarrow> scheduler_state \<Rightarrow> scheduler_state" where
  "note_segments frame = upd_rq (\<lambda>q. q\<lparr>rq_cs := f_cs frame, rq_ss := f_ss frame\<rparr>)"

text \<open>The selected task becomes the current one and its FS base is loaded.\<close>

definition dispatch_to :: "u32 \<Rightarrow> scheduler_state \<Rightarrow> scheduler_state" where
  "dispatch_to next s =
    scheduler64_restore_fs_base_for_task next
      (upd_rq (\<lambda>q. q\<lparr>rq_current_task := next, rq_switches := rq_switches q + 1\<rparr>)
        (upd_task next (\<lambda>t. t\<lparr>t_state := SCHEDULER64_TASK_RUNNING,
                              t_dispatches := t_dispatches t + 1\<rparr>) s))"

definition resume_current :: "u32 \<Rightarrow> scheduler_state \<Rightarrow> scheduler_state" where
  "resume_current current s =
    (if t_state (task_at s current) = SCHEDULER64_TASK_READY
     then set_task_state SCHEDULER64_TASK_RUNNING current s else s)"

definition scheduler64_runqueue_on_timer ::
    "('r, 'z) sched_env_scheme \<Rightarrow> u32 \<Rightarrow> interrupt_frame64 \<Rightarrow> scheduler_state \<times> 'r \<Rightarrow>
     bool \<times> interrupt_frame64 \<times> scheduler_state \<times> 'r" where
  "scheduler64_runqueue_on_timer env now frame = (\<lambda>(s, r).
    let current = current_of s
    in if \<not> rq_is_active s \<or> current \<ge> task_count s \<or> \<not> from_user frame
       then (False, frame, s, r)
       else
         let s1 = save_context current frame
                    (upd_rq (\<lambda>q. q\<lparr>rq_irqs := rq_irqs q + 1\<rparr>) s);
             s2 = (if t_state (task_at s1 current) = SCHEDULER64_TASK_RUNNING
                   then set_task_state SCHEDULER64_TASK_READY current s1 else s1);
             (_, s3, r3) = scheduler64_sleep_wake_expired env now (note_segments frame s2, r);
             (next, s4) = scheduler64_next_runnable current s3
         in if next = SCHEDULER64_INVALID_TASK then (False, frame, resume_current current s4, r3)
            else
              let (switched, r5) = scheduler64_switch_cr3_for_task env (task_at s4 next)
                                     SCHEDULER64_CR3_REASON_TIMER r3
              in if \<not> switched then (False, frame, resume_current current s4, r5)
                 else
                   let s5 = dispatch_to next s4;
                       frame' = t_frame (task_at s5 next)
                   in (True, frame', note_segments frame' s5, r5))"

definition scheduler64_runqueue_on_blocked_syscall ::
    "('r, 'z) sched_env_scheme \<Rightarrow> interrupt_frame64 \<Rightarrow> scheduler_state \<times> 'r \<Rightarrow>
     bool \<times> interrupt_frame64 \<times> scheduler_state \<times> 'r" where
  "scheduler64_runqueue_on_blocked_syscall env frame = (\<lambda>(s, r).
    let current = current_of s
    in if \<not> rq_is_active s \<or> current \<ge> task_count s then (False, frame, s, r)
       else if \<not> t_frame_valid (task_at s current)
         \<or> t_state (task_at s current) \<noteq> SCHEDULER64_TASK_BLOCKED \<or> \<not> from_user frame
       then (False, frame, s, r)
       else
         let s1 = note_segments frame (save_context current frame s);
             (next, s2) = scheduler64_next_runnable current s1
         in if next = SCHEDULER64_INVALID_TASK then (False, frame, rq_deny s2, r)
            else
              let (switched, r3) = scheduler64_switch_cr3_for_task env (task_at s2 next)
                                     SCHEDULER64_CR3_REASON_BLOCKED_SYSCALL r
              in if \<not> switched then (False, frame, rq_deny s2, r3)
                 else
                   let s3 = dispatch_to next s2;
                       (frame', r4) = scheduler64_deliver_linux_signal_on_resume env
                                        (task_at s3 next) (t_frame (task_at s3 next)) r3
                   in (True, frame', note_segments frame' s3, r4))"

definition rq_complete :: "u32 \<Rightarrow> scheduler_state \<Rightarrow> scheduler_state" where
  "rq_complete result =
    upd_rq (\<lambda>q. q\<lparr>rq_active := False, rq_current_task := SCHEDULER64_INVALID_TASK,
                  rq_result := result\<rparr>)"

definition scheduler64_runqueue_on_exit ::
    "('r, 'z) sched_env_scheme \<Rightarrow> interrupt_frame64 \<Rightarrow> u32 \<Rightarrow> scheduler_state \<times> 'r \<Rightarrow>
     runqueue_exit \<times> interrupt_frame64 \<times> scheduler_state \<times> 'r" where
  "scheduler64_runqueue_on_exit env frame result = (\<lambda>(s, r).
    let current = current_of s
    in if \<not> rq_is_active s \<or> current \<ge> task_count s
       then (SCHEDULER64_RUNQUEUE_EXIT_NONE, frame, s, r)
       else
         let s1 = scheduler64_save_fs_base_for_task current
                    (upd_task current (\<lambda>t. t\<lparr>t_state := SCHEDULER64_TASK_EXITED,
                                             t_result := result\<rparr>) s);
             s2 = note_segments frame
                    (upd_rq (\<lambda>q. q\<lparr>rq_exits := rq_exits q + 1\<rparr>)
                      (upd_task current (\<lambda>t. t\<lparr>t_exits := t_exits t + 1\<rparr>) s1));
             (next, s3) = scheduler64_next_runnable current s2
         in if next = SCHEDULER64_INVALID_TASK
            then (SCHEDULER64_RUNQUEUE_EXIT_COMPLETE, frame,
                  (rq_complete result s3)\<lparr>fs_base_msr := 0\<rparr>,
                  scheduler64_switch_cr3_to_kernel env SCHEDULER64_CR3_REASON_EXIT_KERNEL r)
            else
              let (switched, r4) = scheduler64_switch_cr3_for_task env (task_at s3 next)
                                     SCHEDULER64_CR3_REASON_EXIT_RESUME r
              in if \<not> switched
                 then (SCHEDULER64_RUNQUEUE_EXIT_COMPLETE, frame, rq_complete result s3,
                       scheduler64_switch_cr3_to_kernel env SCHEDULER64_CR3_REASON_EXIT_KERNEL r4)
                 else
                   let s4 = dispatch_to next s3;
                       (frame', r5) = scheduler64_deliver_linux_signal_on_resume env
                                        (task_at s4 next) (t_frame (task_at s4 next)) r4
                   in (SCHEDULER64_RUNQUEUE_EXIT_RESUMED, frame', note_segments frame' s4, r5))"

end
