(* ===== verification/Scheduler_Inv.thy ===== *)
theory Scheduler_Inv
  imports Scheduler
begin

text \<open>
  The run-queue invariant and the effect of every scheduler operation on it: registered tasks
  fill the front of the table and have a frame, an active queue has a registered current task, no task
  has two sleep entries and each entry's wake tick is its start tick plus the requested delay; and, as
  long as only idle queues are started, at most one task is running and while the queue is active it is
  the current one.
\<close>

declare sleep_spin.simps [simp del]

abbreviation tasks_of :: "scheduler_state \<Rightarrow> scheduler64_task list" where
  "tasks_of s \<equiv> rq_tasks (g_runqueue s)"

abbreviation state_of :: "scheduler_state \<Rightarrow> nat \<Rightarrow> task_state" where
  "state_of s i \<equiv> t_state (tasks_of s ! i)"

definition runners :: "scheduler_state \<Rightarrow> nat set" where
  "runners s = {i. i < 16 \<and> state_of s i = SCHEDULER64_TASK_RUNNING}"

definition queue_shape :: "scheduler_state \<Rightarrow> bool" where
  "queue_shape s \<longleftrightarrow>
     length (tasks_of s) = 16 \<and> unat (task_count s) \<le> 16
   \<and> (\<forall>i<16. if i < unat (task_count s)
              then t_frame_valid (tasks_of s ! i) \<and> state_of s i \<noteq> SCHEDULER64_TASK_UNUSED
              else tasks_of s ! i = scheduler64_clear_task)
   \<and> (if rq_is_active s then current_of s < task_count s
      else current_of s = SCHEDULER64_INVALID_TASK)"

definition single_runner :: "scheduler_state \<Rightarrow> bool" where
  "single_runner s \<longleftrightarrow>
     (\<exists>i. runners s \<subseteq> {i} \<and> (rq_is_active s \<longrightarrow> i = unat (current_of s)))"

definition sleepers_ok :: "scheduler_state \<Rightarrow> bool" where
  "sleepers_ok s \<longleftrightarrow>
     length (g_scheduler64_sleep_queue s) = 16
   \<and> (\<forall>i<16. se_active (g_scheduler64_sleep_queue s ! i) \<longrightarrow>
         se_task_id (g_scheduler64_sleep_queue s ! i) < task_count s
       \<and> se_wake_tick (g_scheduler64_sleep_queue s ! i)
         = se_start_tick (g_scheduler64_sleep_queue s ! i)
           + se_requested_ticks (g_scheduler64_sleep_queue s ! i))
   \<and> (\<forall>i<16. \<forall>j<16. se_active (g_scheduler64_sleep_queue s ! i)
         \<longrightarrow> se_active (g_scheduler64_sleep_queue s ! j)
         \<longrightarrow> se_task_id (g_scheduler64_sleep_queue s ! i) = se_task_id (g_scheduler64_sleep_queue s ! j)
         \<longrightarrow> i = j)"

text \<open>
  \<^verbatim>\<open>scheduler64_runqueue_start\<close> does not look whether another task is running, so that at most one task
  runs is not an invariant of all sequences of calls, only of those that start an idle queue. The flag
  \<open>one\<close> says whether it is part of the invariant; \<open>sched_inv\<close>, without it, holds after every sequence.
\<close>

definition queue_inv :: "bool \<Rightarrow> scheduler_state \<Rightarrow> bool" where
  "queue_inv one s \<longleftrightarrow> queue_shape s \<and> (one \<longrightarrow> single_runner s) \<and> sleepers_ok s"

abbreviation sched_inv :: "scheduler_state \<Rightarrow> bool" where
  "sched_inv \<equiv> queue_inv False"


section \<open>Reading a written queue\<close>

lemma upd_rq_sel [simp]:
  "g_runqueue (upd_rq f s) = f (g_runqueue s)"
  "g_scheduler64_sleep_queue (upd_rq f s) = g_scheduler64_sleep_queue s"
  "g_scheduler64_preferred_task (upd_rq f s) = g_scheduler64_preferred_task s"
  "fs_base_msr (upd_rq f s) = fs_base_msr s"
  by (simp_all add: upd_rq_def)

lemma upd_task_sel [simp]:
  "rq_is_active (upd_task i f s) = rq_is_active s"
  "task_count (upd_task i f s) = task_count s"
  "current_of (upd_task i f s) = current_of s"
  "tasks_of (upd_task i f s) = (tasks_of s)[unat i := f (tasks_of s ! unat i)]"
  "g_scheduler64_sleep_queue (upd_task i f s) = g_scheduler64_sleep_queue s"
  "g_scheduler64_preferred_task (upd_task i f s) = g_scheduler64_preferred_task s"
  "fs_base_msr (upd_task i f s) = fs_base_msr s"
  by (simp_all add: upd_task_def)

lemma upd_sleep_sel [simp]:
  "g_runqueue (upd_sleep i f s) = g_runqueue s"
  "g_scheduler64_sleep_queue (upd_sleep i f s) =
     (g_scheduler64_sleep_queue s)[i := f (g_scheduler64_sleep_queue s ! i)]"
  "g_scheduler64_preferred_task (upd_sleep i f s) = g_scheduler64_preferred_task s"
  by (simp_all add: upd_sleep_def)

lemma sleep_deny_sel [simp]:
  "g_runqueue (sleep_deny s) = g_runqueue s"
  "g_scheduler64_sleep_queue (sleep_deny s) = g_scheduler64_sleep_queue s"
  "g_scheduler64_preferred_task (sleep_deny s) = g_scheduler64_preferred_task s"
  by (simp_all add: sleep_deny_def)

lemma note_sleep_request_sel [simp]:
  "g_runqueue (note_sleep_request n t s) = g_runqueue s"
  "g_scheduler64_sleep_queue (note_sleep_request n t s) = g_scheduler64_sleep_queue s"
  "g_scheduler64_preferred_task (note_sleep_request n t s) = g_scheduler64_preferred_task s"
  by (simp_all add: note_sleep_request_def)

text \<open>
  The invariant only looks at the tasks, the three queue fields and the sleep queue, so every
  write to counters, segments, the preference or the FS register keeps it.
\<close>

definition same_queue :: "scheduler_state \<Rightarrow> scheduler_state \<Rightarrow> bool" where
  "same_queue s s' \<longleftrightarrow>
     tasks_of s' = tasks_of s \<and> task_count s' = task_count s \<and> current_of s' = current_of s
   \<and> rq_is_active s' = rq_is_active s
   \<and> g_scheduler64_sleep_queue s' = g_scheduler64_sleep_queue s"

lemma same_queue_inv: "same_queue s s' \<Longrightarrow> queue_inv one s' = queue_inv one s"
  by (simp add: same_queue_def queue_inv_def queue_shape_def single_runner_def runners_def
      sleepers_ok_def)

lemma rq_deny_same: "same_queue s (rq_deny s)"
  by (simp add: same_queue_def rq_deny_def)

lemma note_segments_same: "same_queue s (note_segments frame s)"
  by (simp add: same_queue_def note_segments_def)

lemma restore_fs_same: "same_queue s (scheduler64_restore_fs_base_for_task i s)"
  by (simp add: same_queue_def scheduler64_restore_fs_base_for_task_def)

lemma sleep_deny_same: "same_queue s (sleep_deny s)"
  by (simp add: same_queue_def)

lemma note_sleep_request_same: "same_queue s (note_sleep_request n t s)"
  by (simp add: same_queue_def)

lemmas same_queue_invs [simp] =
  same_queue_inv [OF rq_deny_same] same_queue_inv [OF note_segments_same]
  same_queue_inv [OF restore_fs_same] same_queue_inv [OF sleep_deny_same]
  same_queue_inv [OF note_sleep_request_same]

lemma queue_shapeD:
  assumes "queue_shape s"
  shows "length (tasks_of s) = 16" "unat (task_count s) \<le> 16"
    "\<And>i. i < task_count s \<Longrightarrow> unat i < 16"
    "\<And>i. i < task_count s \<Longrightarrow> t_frame_valid (task_at s i)"
    "\<And>i. i < task_count s \<Longrightarrow> t_state (task_at s i) \<noteq> SCHEDULER64_TASK_UNUSED"
    "rq_is_active s \<Longrightarrow> current_of s < task_count s"
proof -
  show "length (tasks_of s) = 16" and n: "unat (task_count s) \<le> 16"
    using assms by (simp_all add: queue_shape_def)
  show "unat i < 16" if "i < task_count s" for i
    using n that by (simp add: word_less_nat_alt)
  with n show "t_frame_valid (task_at s i)" "t_state (task_at s i) \<noteq> SCHEDULER64_TASK_UNUSED"
    if "i < task_count s" for i
    using assms that by (auto simp: queue_shape_def task_at_def word_less_nat_alt)
  show "rq_is_active s \<Longrightarrow> current_of s < task_count s"
    using assms by (simp add: queue_shape_def)
qed

lemma runners_upd_task:
  assumes "queue_shape s" and "i < task_count s"
  shows "runners (upd_task i f s) =
    (if t_state (f (task_at s i)) = SCHEDULER64_TASK_RUNNING then insert (unat i) (runners s)
     else runners s - {unat i})"
  using queue_shapeD(1,3) [OF assms(1)] assms(2)
  by (auto simp: runners_def task_at_def nth_list_update)

lemma queue_shape_upd_task:
  assumes "queue_shape s" and "i < task_count s"
    and "t_frame_valid (f (task_at s i))"
    and "t_state (f (task_at s i)) \<noteq> SCHEDULER64_TASK_UNUSED"
  shows "queue_shape (upd_task i f s)"
  using assms queue_shapeD(1,3) [OF assms(1)]
  by (auto simp: queue_shape_def task_at_def nth_list_update word_less_nat_alt)

lemma queue_shape_requeue:
  assumes "queue_shape s" and "tasks_of s' = tasks_of s" and "task_count s' = task_count s"
    and "rq_is_active s' \<Longrightarrow> current_of s' < task_count s'"
    and "\<not> rq_is_active s' \<Longrightarrow> current_of s' = SCHEDULER64_INVALID_TASK"
  shows "queue_shape s'"
  using assms by (simp add: queue_shape_def)

lemma sleepers_upd_task [simp]: "sleepers_ok (upd_task i f s) = sleepers_ok s"
  by (simp add: sleepers_ok_def)

text \<open>Rewriting a registered task without making it run keeps the invariant.\<close>

lemma inv_upd_task:
  assumes inv: "queue_inv one s" and i: "i < task_count s"
    and "t_frame_valid (f (task_at s i))"
    and "t_state (f (task_at s i)) \<noteq> SCHEDULER64_TASK_UNUSED"
    and run: "t_state (f (task_at s i)) = SCHEDULER64_TASK_RUNNING
      \<Longrightarrow> t_state (task_at s i) = SCHEDULER64_TASK_RUNNING"
  shows "queue_inv one (upd_task i f s)"
proof -
  have q: "queue_shape s" using inv by (simp add: queue_inv_def)
  have "runners (upd_task i f s) \<subseteq> runners s"
    unfolding runners_upd_task [OF q i]
    using run queue_shapeD(3) [OF q i] by (auto simp: runners_def task_at_def)
  then have "one \<longrightarrow> single_runner (upd_task i f s)"
    using inv by (auto simp: queue_inv_def single_runner_def)
  then show ?thesis
    using inv queue_shape_upd_task [OF q i, of f] assms(3,4) by (simp add: queue_inv_def)
qed


section \<open>Selection\<close>

lemma find_mem: "find P xs = Some x \<Longrightarrow> x \<in> set xs \<and> P x"
  by (auto simp: find_Some_iff)

text \<open>The candidates of the round robin, as offsets from the current task.\<close>

lemma mod_offset_less:
  assumes "0 < n" shows "(c + of_nat k) mod n < (n :: u32)"
  using assms by (simp add: word_mod_less_divisor)

lemma cyclic_add:
  assumes "c < n" and "k \<le> n"
  shows "(c + k) mod n = (if c + k < n then c + k else c + k - (n :: nat))"
  using assms by (simp add: mod_if)

lemma unat_candidate:
  assumes "c < n" and "k \<le> unat (n :: u32)" and "unat n \<le> 16"
  shows "unat ((c + of_nat k) mod n) = (unat c + k) mod unat n"
proof -
  have "unat c + k < 2 ^ 32" using assms by (simp add: word_less_nat_alt)
  moreover have "unat (of_nat k :: u32) = k"
    using assms by (simp add: unsigned_of_nat take_bit_nat_eq_self)
  ultimately have "unat (c + of_nat k) = unat c + k"
    by (simp add: unat_word_ariths)
  then show ?thesis by (simp add: unat_mod)
qed

lemma next_runnable_sel [simp]:
  "g_runqueue (snd (scheduler64_next_runnable c s)) = g_runqueue s"
  "g_scheduler64_sleep_queue (snd (scheduler64_next_runnable c s)) = g_scheduler64_sleep_queue s"
  "fs_base_msr (snd (scheduler64_next_runnable c s)) = fs_base_msr s"
  by (simp_all add: scheduler64_next_runnable_def Let_def split: option.split)

lemma next_runnable_inv [simp]:
  "queue_inv one (snd (scheduler64_next_runnable c s)) = queue_inv one s"
  by (rule same_queue_inv) (simp add: same_queue_def)

lemma next_runnable_task_at [simp]:
  "task_at (snd (scheduler64_next_runnable c s)) = task_at s"
  by (simp add: task_at_def fun_eq_iff)

lemma round_robin_Some:
  assumes q: "queue_shape s" and c: "c < task_count s" and rr: "round_robin s c = Some x"
  shows "x < task_count s" "x \<noteq> c" "task_runnable (task_at s x)"
proof -
  obtain k where k: "1 \<le> k" "k < unat (task_count s)" and x: "x = (c + of_nat k) mod task_count s"
    and run: "task_runnable (task_at s x)"
    using find_mem [OF rr [unfolded round_robin_def]] by auto
  show "task_runnable (task_at s x)" by fact
  have pos: "0 < task_count s" using c by (simp add: word_less_nat_alt)
  then show "x < task_count s" using x by (simp add: mod_offset_less)
  have "unat x = (unat c + k) mod unat (task_count s)"
    using unat_candidate [OF c _ queue_shapeD(2) [OF q], of k] k x by simp
  moreover have "(unat c + k) mod unat (task_count s) \<noteq> unat c"
  proof -
    have "unat c < unat (task_count s)" using c by (simp add: word_less_nat_alt)
    then show ?thesis using k by (auto simp: cyclic_add)
  qed
  ultimately show "x \<noteq> c" by auto
qed

lemma next_runnable_Some:
  assumes q: "queue_shape s" and c: "c < task_count s"
    and n: "fst (scheduler64_next_runnable c s) \<noteq> SCHEDULER64_INVALID_TASK"
  defines "x \<equiv> fst (scheduler64_next_runnable c s)"
  shows "x < task_count s" "x \<noteq> c" "task_runnable (task_at s x)"
proof -
  have "x < task_count s \<and> x \<noteq> c \<and> task_runnable (task_at s x)"
    using n round_robin_Some [OF q c]
    by (auto simp: x_def scheduler64_next_runnable_def Let_def split: option.splits if_splits)
  then show "x < task_count s" "x \<noteq> c" "task_runnable (task_at s x)" by simp_all
qed

lemma not_invalid_task: "queue_shape s \<Longrightarrow> i < task_count s \<Longrightarrow> i \<noteq> SCHEDULER64_INVALID_TASK"
  using queue_shapeD(3) by fastforce

text \<open>Selection fails exactly when no other task is ready.\<close>

lemma next_runnable_None_iff:
  assumes q: "queue_shape s" and c: "c < task_count s"
  shows "fst (scheduler64_next_runnable c s) = SCHEDULER64_INVALID_TASK \<longleftrightarrow>
    (\<forall>j<task_count s. j \<noteq> c \<longrightarrow> t_state (task_at s j) \<noteq> SCHEDULER64_TASK_READY)"
    (is "?l \<longleftrightarrow> ?r")
proof
  assume l: ?l
  have rr: "round_robin s c = None"
  proof (rule ccontr)
    assume "round_robin s c \<noteq> None"
    then obtain x where x: "round_robin s c = Some x" by blast
    have "x \<noteq> SCHEDULER64_INVALID_TASK"
      using not_invalid_task [OF q round_robin_Some(1) [OF q c x]] .
    then show False using l x not_invalid_task [OF q] c
      by (auto simp: scheduler64_next_runnable_def Let_def split: if_splits)
  qed
  show ?r
  proof (intro allI impI)
    fix j assume j: "j < task_count s" "j \<noteq> c"
    define n where "n = unat (task_count s)"
    define k where "k = (if unat c < unat j then unat j - unat c else unat j + n - unat c)"
    have cn: "unat c < n" "unat j < n" using c j by (simp_all add: n_def word_less_nat_alt)
    have kr: "1 \<le> k" "k < n"
    proof -
      have "unat j \<noteq> unat c" using j(2) by (simp add: word_unat_eq_iff)
      then show "1 \<le> k" "k < n" using cn by (auto simp: k_def)
    qed
    have "(unat c + k) mod n = unat j"
      using cn kr by (simp add: cyclic_add) (auto simp: k_def)
    then have "(c + of_nat k) mod task_count s = j"
      using unat_candidate [OF c _ queue_shapeD(2) [OF q], of k] kr
      by (metis n_def less_imp_le word_unat_eq_iff)
    then have "j \<in> set (map (\<lambda>off. (c + of_nat off) mod task_count s) [1..<n])"
      using kr by force
    then have "\<not> task_runnable (task_at s j)"
      using rr by (auto simp: round_robin_def n_def find_None_iff)
    then show "t_state (task_at s j) \<noteq> SCHEDULER64_TASK_READY"
      using queue_shapeD(4) [OF q j(1)] by (simp add: task_runnable_def)
  qed
next
  assume r: ?r
  show ?l
  proof (rule ccontr)
    assume "\<not> ?l"
    from next_runnable_Some [OF q c this] r show False by (simp add: task_runnable_def)
  qed
qed


section \<open>Every operation keeps the invariant\<close>

lemma queue_invD:
  assumes "queue_inv one s"
  shows "queue_shape s" "one \<Longrightarrow> single_runner s" "sleepers_ok s"
  using assms by (simp_all add: queue_inv_def)

lemma inv_reset: "queue_inv one (fst (scheduler64_runqueue_reset env (s, r)))"
proof -
  define s' where "s' = fst (scheduler64_runqueue_reset env (s, r))"
  have q: "g_runqueue s' = clear_runqueue"
    and z: "g_scheduler64_sleep_queue s' = replicate 16 scheduler64_clear_sleep_entry"
    by (simp_all add: s'_def scheduler64_runqueue_reset_def scheduler64_sleep_queue_reset_def
        SCHEDULER64_SLEEP_QUEUE_TASK_LIMIT_def)
  have "tasks_of s' ! i = scheduler64_clear_task" if "i < 16" for i
    using that by (simp add: q clear_runqueue_def SCHEDULER64_RUNQUEUE_TASK_LIMIT_def)
  then have "queue_shape s'" "runners s' = {}"
    by (auto simp: queue_shape_def runners_def q clear_runqueue_def scheduler64_clear_task_def
        SCHEDULER64_RUNQUEUE_TASK_LIMIT_def)
  moreover have "sleepers_ok s'"
    by (simp add: sleepers_ok_def z scheduler64_clear_sleep_entry_def)
  ultimately show ?thesis
    by (simp add: queue_inv_def single_runner_def s'_def [symmetric])
qed

lemma inv_init: "queue_inv one (fst (scheduler64_init env (s, r)))"
proof -
  have z: "g_scheduler64_sleep_queue (fst (scheduler64_runqueue_reset env (s, r)))
    = replicate 16 scheduler64_clear_sleep_entry"
    by (simp add: scheduler64_runqueue_reset_def scheduler64_sleep_queue_reset_def
        SCHEDULER64_SLEEP_QUEUE_TASK_LIMIT_def)
  have "same_queue (fst (scheduler64_runqueue_reset env (s, r))) (fst (scheduler64_init env (s, r)))"
    using z by (simp add: same_queue_def scheduler64_init_def scheduler64_sleep_queue_reset_def
        case_prod_unfold Let_def SCHEDULER64_SLEEP_QUEUE_TASK_LIMIT_def)
  with inv_reset show ?thesis by (simp add: same_queue_inv)
qed

text \<open>A freshly allocated slot is either a finished task or the first slot past the end.\<close>

lemma allocate_slot_spec:
  assumes q: "queue_shape s" and a: "scheduler64_allocate_task_slot s = i"
    and i: "i \<noteq> SCHEDULER64_INVALID_TASK"
  shows "(i < task_count s \<and> t_state (task_at s i) = SCHEDULER64_TASK_EXITED)
    \<or> (i = task_count s \<and> unat (task_count s) < 16)"
proof (cases "first_index slot_reusable (take (unat (task_count s)) (tasks_of s))")
  case None
  then show ?thesis using a i
    by (auto simp: scheduler64_allocate_task_slot_def SCHEDULER64_RUNQUEUE_TASK_LIMIT_def
        word_le_nat_alt split: if_splits)
next
  case (Some k)
  have n: "unat (task_count s) \<le> 16" by (rule queue_shapeD(2) [OF q])
  have k: "k < unat (task_count s)" "slot_reusable (tasks_of s ! k)"
    using first_index_SomeD(1,2) [OF Some] by simp_all
  have uk: "unat i = k"
    using Some a n k(1)
    by (auto simp: scheduler64_allocate_task_slot_def unsigned_of_nat take_bit_nat_eq_self)
  then have "i < task_count s" using k(1) by (simp add: word_less_nat_alt)
  moreover have "t_state (task_at s i) = SCHEDULER64_TASK_EXITED"
    using queue_shapeD(5) [OF q calculation] k(2) by (simp add: slot_reusable_def task_at_def uk)
  ultimately show ?thesis by simp
qed

lemma install_task_sel [simp]:
  "rq_is_active (install_task i t s) = rq_is_active s"
  "current_of (install_task i t s) = current_of s"
  "tasks_of (install_task i t s) = (tasks_of s)[unat i := t]"
  "task_count (install_task i t s) = (if i = task_count s then task_count s + 1 else task_count s)"
  "g_scheduler64_sleep_queue (install_task i t s) = g_scheduler64_sleep_queue s"
  by (simp_all add: install_task_def)

lemma inv_install:
  assumes inv: "queue_inv one s" and a: "scheduler64_allocate_task_slot s = i"
    and i: "i \<noteq> SCHEDULER64_INVALID_TASK"
    and t: "t_state t = SCHEDULER64_TASK_READY" "t_frame_valid t"
  shows "queue_inv one (install_task i t s)"
proof -
  note q = queue_invD(1) [OF inv]
  note len = queue_shapeD(1) [OF q]
  have slot: "(i < task_count s \<and> t_state (task_at s i) = SCHEDULER64_TASK_EXITED)
    \<or> (i = task_count s \<and> unat (task_count s) < 16)"
    by (rule allocate_slot_spec [OF q a i])
  have i16: "unat i < 16" using slot queue_shapeD(3) [OF q] by auto
  have count: "unat (task_count (install_task i t s)) =
      (if i = task_count s then Suc (unat (task_count s)) else unat (task_count s))"
    using slot by (auto simp: unat_word_ariths)
  have count_mono: "x < task_count (install_task i t s)" if "x < task_count s" for x
    using that count by (auto simp: word_less_nat_alt split: if_splits)
  have "queue_shape (install_task i t s)"
    unfolding queue_shape_def count
    using q slot len t i16 count_mono
    by (auto simp: queue_shape_def nth_list_update word_less_nat_alt split: if_splits)
  moreover have "runners (install_task i t s) \<subseteq> runners s"
    using t i16 len by (auto simp: runners_def nth_list_update split: if_splits)
  moreover have "sleepers_ok (install_task i t s)"
    using queue_invD(3) [OF inv] count_mono by (auto simp: sleepers_ok_def)
  ultimately show ?thesis
    using queue_invD(2) [OF inv] by (auto simp: queue_inv_def single_runner_def)
qed

lemma inv_register_user:
  "queue_inv one s \<Longrightarrow> queue_inv one (snd (scheduler64_runqueue_register_user_task rip rsp sel rfl s))"
  by (auto simp: scheduler64_runqueue_register_user_task_def Let_def intro: inv_install)

lemma register_user_slot:
  assumes "queue_inv one s"
    and "fst (scheduler64_runqueue_register_user_task rip rsp sel rfl s) \<noteq> SCHEDULER64_INVALID_TASK"
  defines "s' \<equiv> snd (scheduler64_runqueue_register_user_task rip rsp sel rfl s)"
    and "i \<equiv> fst (scheduler64_runqueue_register_user_task rip rsp sel rfl s)"
  shows "i < task_count s'" "t_state (task_at s' i) = SCHEDULER64_TASK_READY"
    "t_frame_valid (task_at s' i)"
proof -
  note q = queue_invD(1) [OF assms(1)]
  define a where "a = scheduler64_allocate_task_slot s"
  have a: "a \<noteq> SCHEDULER64_INVALID_TASK"
    using assms(2) by (auto simp: a_def scheduler64_runqueue_register_user_task_def Let_def)
  have ia: "i = a"
    using a by (simp add: i_def a_def scheduler64_runqueue_register_user_task_def Let_def)
  have slot: "(a < task_count s \<and> t_state (task_at s a) = SCHEDULER64_TASK_EXITED)
    \<or> (a = task_count s \<and> unat (task_count s) < 16)"
    by (rule allocate_slot_spec [OF q _ a]) (simp add: a_def)
  have a16: "unat a < 16" using slot queue_shapeD(3) [OF q] by auto
  show "i < task_count s'"
    using slot a
    by (auto simp: s'_def ia a_def scheduler64_runqueue_register_user_task_def Let_def
        word_less_nat_alt unat_word_ariths)
  show "t_state (task_at s' i) = SCHEDULER64_TASK_READY" "t_frame_valid (task_at s' i)"
    using a a16 queue_shapeD(1) [OF q]
    by (simp_all add: s'_def ia a_def [symmetric] scheduler64_runqueue_register_user_task_def Let_def
        task_at_def)
qed

lemma inv_register_process:
  assumes inv: "queue_inv one s"
  shows "queue_inv one (snd (scheduler64_runqueue_register_process_task pid rt et rip rsp sel rfl s))"
proof -
  define p where "p = scheduler64_runqueue_register_user_task rip rsp sel rfl s"
  have "queue_inv one (snd p)" unfolding p_def by (rule inv_register_user [OF inv])
  moreover have "queue_inv one (upd_task (fst p) (\<lambda>t. t\<lparr>t_pid := pid, t_runtime_token := rt,
      t_entry_token := et\<rparr>) (snd p))" if "fst p \<noteq> SCHEDULER64_INVALID_TASK"
    using register_user_slot [OF inv that [unfolded p_def]] calculation
    by (intro inv_upd_task) (simp_all add: p_def)
  ultimately show ?thesis using inv
    by (simp add: scheduler64_runqueue_register_process_task_def p_def [symmetric] case_prod_unfold)
qed

lemma inv_register_frame:
  "queue_inv one s \<Longrightarrow>
   queue_inv one (snd (scheduler64_runqueue_register_process_frame pid rt et frame_ptr s))"
  by (auto simp: scheduler64_runqueue_register_process_frame_def Let_def
      intro: inv_install split: option.split)

lemma inv_register_launched:
  "queue_inv one s \<Longrightarrow>
   queue_inv one (snd (scheduler64_runqueue_register_launched_process_task ms ps pid rip rsp rfl s))"
  by (simp add: scheduler64_runqueue_register_launched_process_task_def Let_def
      inv_register_process)

text \<open>Making a ready task the running, current one of a queue in which nothing runs.\<close>

lemma inv_make_running:
  assumes inv: "queue_inv one s" and idle: "one \<Longrightarrow> runners s = {}" and i: "i < task_count s"
    and f: "t_state (f (task_at s i)) = SCHEDULER64_TASK_RUNNING" "t_frame_valid (f (task_at s i))"
    and g: "\<And>q. rq_tasks (g q) = rq_tasks q" "\<And>q. rq_task_count (g q) = rq_task_count q"
      "rq_active (g (g_runqueue (upd_task i f s)))" "\<And>q. rq_current_task (g q) = i"
  shows "queue_inv one (upd_rq g (upd_task i f s))" "one \<Longrightarrow> runners (upd_rq g (upd_task i f s)) = {unat i}"
proof -
  note q = queue_invD(1) [OF inv]
  show r: "runners (upd_rq g (upd_task i f s)) = {unat i}" if one
  proof -
    have "runners (upd_task i f s) = {unat i}"
      using f by (simp add: runners_upd_task [OF q i] idle [OF that])
    then show ?thesis by (simp add: runners_def g)
  qed
  have "queue_shape (upd_task i f s)"
    using f by (intro queue_shape_upd_task [OF q i]) simp_all
  then have "queue_shape (upd_rq g (upd_task i f s))"
    by (rule queue_shape_requeue) (use i in \<open>simp_all add: g\<close>)
  moreover have "sleepers_ok (upd_rq g (upd_task i f s))"
    using queue_invD(3) [OF inv] by (simp add: sleepers_ok_def g)
  ultimately show "queue_inv one (upd_rq g (upd_task i f s))"
    using r by (simp add: queue_inv_def single_runner_def g)
qed

text \<open>Deactivating a queue.\<close>

lemma inv_deactivate:
  assumes inv: "queue_inv one s"
    and g: "\<And>q. rq_tasks (g q) = rq_tasks q" "\<And>q. rq_task_count (g q) = rq_task_count q"
      "\<And>q. \<not> rq_active (g q)" "\<And>q. rq_current_task (g q) = SCHEDULER64_INVALID_TASK"
  shows "queue_inv one (upd_rq g s)"
  using inv by (auto simp: queue_inv_def queue_shape_def single_runner_def runners_def
      sleepers_ok_def g)

lemma inv_start:
  assumes inv: "queue_inv one s" and idle: "one \<Longrightarrow> runners s = {}"
  shows "queue_inv one (fst (snd (scheduler64_runqueue_start env first (s, r))))"
proof (cases "first \<ge> task_count s \<or> t_state (task_at s first) \<noteq> SCHEDULER64_TASK_READY")
  case True
  then show ?thesis using inv by (auto simp: scheduler64_runqueue_start_def)
next
  case False
  then have i: "first < task_count s" and ready: "t_state (task_at s first) = SCHEDULER64_TASK_READY"
    by auto
  note q = queue_invD(1) [OF inv]
  define run where "run = (\<lambda>t :: scheduler64_task. t\<lparr>t_state := SCHEDULER64_TASK_RUNNING, t_dispatches := t_dispatches t + 1\<rparr>)"
  define act where "act = (\<lambda>q :: scheduler64_runqueue. q\<lparr>rq_active := True, rq_current_task := first, rq_attempts := rq_attempts q + 1\<rparr>)"
  define s1 where "s1 = upd_task first run (upd_rq act s)"
  define s2 where "s2 = note_segments (t_frame (task_at s1 first)) s1"
  have s1_eq: "s1 = upd_rq act (upd_task first run s)"
    by (simp add: s1_def act_def upd_task_def upd_rq_def)
  have s1: "queue_inv one s1"
    unfolding s1_eq
    using inv_make_running(1) [OF inv idle i, of run act] queue_shapeD(4) [OF q i]
    by (simp_all add: run_def act_def)
  have s2: "queue_inv one s2" using s1 by (simp add: s2_def)
  have sel: "task_count s2 = task_count s" "task_at s2 first = task_at s1 first"
    by (simp_all add: s2_def note_segments_def s1_def act_def task_at_def)
  have "t_frame_valid (task_at s2 first)"
    using queue_shapeD(4) [OF queue_invD(1) [OF s2]] i sel(1) by simp
  then have fallback: "queue_inv one (set_task_state SCHEDULER64_TASK_READY first s2)"
    unfolding set_task_state_def using s2 i sel(1) by (intro inv_upd_task) simp_all
  show ?thesis
    using i ready s2 fallback
    by (simp add: scheduler64_runqueue_start_def Let_def case_prod_unfold not_le
        run_def [symmetric] act_def [symmetric] s1_def [symmetric]
        note_segments_def [symmetric] s2_def [symmetric])
      (auto intro!: inv_deactivate)
qed

lemma inv_stop: "queue_inv one s \<Longrightarrow> queue_inv one (fst (scheduler64_runqueue_stop env (s, r)))"
proof -
  assume inv: "queue_inv one s"
  define s1 where "s1 = upd_rq (\<lambda>q. q\<lparr>rq_active := False, rq_current_task := SCHEDULER64_INVALID_TASK\<rparr>) s"
  have "queue_inv one s1" unfolding s1_def by (rule inv_deactivate [OF inv]) simp_all
  moreover have "same_queue s1 (s1\<lparr>fs_base_msr := 0\<rparr>)" by (simp add: same_queue_def)
  ultimately show ?thesis
    by (simp add: scheduler64_runqueue_stop_def s1_def [symmetric] same_queue_inv)
qed

lemma inv_set_state:
  assumes "queue_inv one s" and "i < task_count s"
    and "st \<noteq> SCHEDULER64_TASK_RUNNING" and "st \<noteq> SCHEDULER64_TASK_UNUSED"
  shows "queue_inv one (set_task_state st i s)"
  unfolding set_task_state_def
  using assms queue_shapeD(4) [OF queue_invD(1) [OF assms(1)]]
  by (intro inv_upd_task) simp_all

lemma inv_block:
  assumes inv: "queue_inv one s"
  shows "queue_inv one (snd (scheduler64_runqueue_block_task i s))"
proof -
  define s1 where "s1 = snd (scheduler64_next_runnable i s)"
  have commit: "queue_inv one (upd_rq (\<lambda>q. q\<lparr>rq_blocks := rq_blocks q + 1\<rparr>)
      (set_task_state SCHEDULER64_TASK_BLOCKED i s'))"
    if "queue_inv one s'" "i < task_count s'" for s'
  proof -
    have "queue_inv one (set_task_state SCHEDULER64_TASK_BLOCKED i s')"
      by (rule inv_set_state [OF that]) simp_all
    then show ?thesis by (subst same_queue_inv) (auto simp: same_queue_def)
  qed
  have "queue_inv one s1" "task_count s1 = task_count s" using inv by (simp_all add: s1_def)
  then show ?thesis using inv commit
    by (auto simp: scheduler64_runqueue_block_task_def Let_def case_prod_unfold s1_def [symmetric] not_le)
qed

lemma prefer_woken_same: "same_queue s (prefer_woken i s)"
  by (simp add: same_queue_def prefer_woken_def)

lemma inv_wake:
  assumes inv: "queue_inv one s"
  shows "queue_inv one (snd (scheduler64_runqueue_wake_task_with_result i res s))"
    "queue_inv one (snd (scheduler64_runqueue_wake_task_replay i s))"
proof -
  have "queue_inv one (upd_task i (\<lambda>t. t\<lparr>t_frame := (t_frame t)\<lparr>f_rax := res\<rparr>,
      t_state := SCHEDULER64_TASK_READY\<rparr>) s)" if "i < task_count s"
    using inv that queue_shapeD(4) [OF queue_invD(1) [OF inv] that]
    by (intro inv_upd_task) simp_all
  then show "queue_inv one (snd (scheduler64_runqueue_wake_task_with_result i res s))"
    using inv by (simp add: scheduler64_runqueue_wake_task_with_result_def wake_refused_def
        same_queue_inv [OF prefer_woken_same] not_le)
  have "queue_inv one (set_task_state SCHEDULER64_TASK_READY i s)" if "i < task_count s"
    by (rule inv_set_state [OF inv that]) simp_all
  then show "queue_inv one (snd (scheduler64_runqueue_wake_task_replay i s))"
    using inv by (simp add: scheduler64_runqueue_wake_task_replay_def wake_refused_def
        same_queue_inv [OF prefer_woken_same] not_le)
qed

lemma inv_set_fs:
  assumes inv: "queue_inv one s"
  shows "queue_inv one (snd (scheduler64_runqueue_set_task_fs_base i v s))"
    "queue_inv one (snd (scheduler64_runqueue_set_current_fs_base v s))"
proof -
  have main: "queue_inv one (snd (scheduler64_runqueue_set_task_fs_base i v s))" for i
  proof (cases "i < task_count s")
    case True
    define s1 where "s1 = upd_task i (\<lambda>t. t\<lparr>t_fs_base := v\<rparr>) s"
    have s1: "queue_inv one s1" unfolding s1_def
      using inv True queue_shapeD(4,5) [OF queue_invD(1) [OF inv] True]
      by (intro inv_upd_task) simp_all
    have "queue_inv one (s1\<lparr>g_scheduler64_fs_set_count := c\<rparr>)"
      "queue_inv one (s1\<lparr>g_scheduler64_fs_set_count := c, fs_base_msr := v\<rparr>)" for c
      by (rule same_queue_inv [THEN iffD2, OF _ s1], simp add: same_queue_def)+
    then show ?thesis using inv
      by (simp add: scheduler64_runqueue_set_task_fs_base_def Let_def s1_def [symmetric])
  qed (use inv in \<open>simp add: scheduler64_runqueue_set_task_fs_base_def not_less\<close>)
  then show "queue_inv one (snd (scheduler64_runqueue_set_task_fs_base i v s))" .
  show "queue_inv one (snd (scheduler64_runqueue_set_current_fs_base v s))"
    using inv main by (simp add: scheduler64_runqueue_set_current_fs_base_def Let_def)
qed


section \<open>The sleep queue\<close>

lemma queue_inv_sleep_upd:
  assumes inv: "queue_inv one s" and k: "k < 16"
    and e: "se_active e \<Longrightarrow> se_task_id e < task_count s
         \<and> se_wake_tick e = se_start_tick e + se_requested_ticks e"
      "\<And>j. se_active e \<Longrightarrow> j < 16 \<Longrightarrow> se_active (g_scheduler64_sleep_queue s ! j)
         \<Longrightarrow> se_task_id (g_scheduler64_sleep_queue s ! j) \<noteq> se_task_id e"
  shows "queue_inv one (upd_sleep k (\<lambda>_. e) s)"
proof -
  have len: "length (g_scheduler64_sleep_queue s) = 16"
    using queue_invD(3) [OF inv] by (simp add: sleepers_ok_def)
  have "sleepers_ok (upd_sleep k (\<lambda>_. e) s)"
    using queue_invD(3) [OF inv] k e len
    by (auto simp: sleepers_ok_def nth_list_update dest: sym)
  moreover have "queue_shape (upd_sleep k (\<lambda>_. e) s)" "one \<longrightarrow> single_runner (upd_sleep k (\<lambda>_. e) s)"
    using inv by (simp_all add: queue_inv_def queue_shape_def single_runner_def runners_def)
  ultimately show ?thesis by (simp add: queue_inv_def)
qed

lemma queue_inv_sleep_clear:
  "queue_inv one s \<Longrightarrow> k < 16 \<Longrightarrow> queue_inv one (upd_sleep k (\<lambda>_. scheduler64_clear_sleep_entry) s)"
  by (rule queue_inv_sleep_upd) (simp_all add: scheduler64_clear_sleep_entry_def)

lemma sleep_free_entry_less:
  assumes "queue_inv one s" and "scheduler64_sleep_free_entry s = Some k"
  shows "k < 16"
  using first_index_SomeD(1) [OF assms(2) [unfolded scheduler64_sleep_free_entry_def]]
    queue_invD(3) [OF assms(1)] by (simp add: sleepers_ok_def)

lemma block_task_sel [simp]:
  "task_count (snd (scheduler64_runqueue_block_task i s)) = task_count s"
  "current_of (snd (scheduler64_runqueue_block_task i s)) = current_of s"
  "rq_is_active (snd (scheduler64_runqueue_block_task i s)) = rq_is_active s"
  "g_scheduler64_sleep_queue (snd (scheduler64_runqueue_block_task i s)) = g_scheduler64_sleep_queue s"
  by (simp_all add: scheduler64_runqueue_block_task_def Let_def case_prod_unfold rq_deny_def
      set_task_state_def)

lemma current_task_idD:
  assumes "scheduler64_runqueue_current_task_id s \<noteq> SCHEDULER64_INVALID_TASK"
  shows "rq_is_active s" "current_of s < task_count s"
    "scheduler64_runqueue_current_task_id s = current_of s"
  using assms by (simp_all add: scheduler64_runqueue_current_task_id_def not_le split: if_splits)

text \<open>The queue with the new entry made, on which the current task is then blocked.\<close>

definition sleep_entered ::
    "u32 \<Rightarrow> u32 \<Rightarrow> u64 \<Rightarrow> nat option \<Rightarrow> u64 \<Rightarrow> nat \<Rightarrow> scheduler_state \<Rightarrow> scheduler_state" where
  "sleep_entered start n rax cb cookie k s =
    (let task = scheduler64_runqueue_current_task_id s
     in (upd_sleep k (\<lambda>_. \<lparr>se_active = True, se_task_id = task, se_start_tick = start,
           se_wake_tick = start + n, se_requested_ticks = n, se_resume_rax = rax,
           se_expiry_callback = cb, se_callback_cookie = cookie\<rparr>) s)
        \<lparr>g_scheduler64_sleep_last_task_id := task, g_scheduler64_sleep_last_wake_tick := start + n\<rparr>)"

definition may_sleep :: "u32 \<Rightarrow> scheduler_state \<Rightarrow> bool" where
  "may_sleep n s \<longleftrightarrow> n \<noteq> 0 \<and> scheduler64_runqueue_current_task_id s \<noteq> SCHEDULER64_INVALID_TASK
    \<and> scheduler64_sleep_free_entry s \<noteq> None
    \<and> scheduler64_runqueue_task_state s (scheduler64_runqueue_current_task_id s) = SCHEDULER64_TASK_RUNNING
    \<and> \<not> scheduler64_sleep_task_pending s (scheduler64_runqueue_current_task_id s)"

lemma sleep_start_refused:
  assumes "\<not> may_sleep n s"
  shows "scheduler64_sleep_start_current_task start n rax cb cookie s \<in> {(False, s), (False, sleep_deny s)}"
  using assms
  by (auto simp: may_sleep_def scheduler64_sleep_start_current_task_def Let_def split: option.split)

lemma sleep_start_unfold:
  assumes "may_sleep n s" and "scheduler64_sleep_free_entry s = Some k"
    and "scheduler64_runqueue_block_task (scheduler64_runqueue_current_task_id s)
      (sleep_entered start n rax cb cookie k s) = (blocked, s2)"
  shows "scheduler64_sleep_start_current_task start n rax cb cookie s =
    (if blocked then (True, s2\<lparr>g_scheduler64_sleep_count := g_scheduler64_sleep_count s2 + 1\<rparr>)
     else (False, sleep_deny (upd_sleep k (\<lambda>_. scheduler64_clear_sleep_entry) s2)))"
  using assms by (simp add: may_sleep_def scheduler64_sleep_start_current_task_def sleep_entered_def Let_def)

lemma sleep_entered_inv:
  assumes inv: "queue_inv one s" and m: "may_sleep n s" and k: "scheduler64_sleep_free_entry s = Some k"
  shows "queue_inv one (sleep_entered start n rax cb cookie k s)"
proof -
  define task where "task = scheduler64_runqueue_current_task_id s"
  define e where "e = \<lparr>se_active = True, se_task_id = task, se_start_tick = start,
    se_wake_tick = start + n, se_requested_ticks = n, se_resume_rax = rax,
    se_expiry_callback = cb, se_callback_cookie = cookie\<rparr>"
  have task: "task < task_count s"
    using m current_task_idD(2,3) [of s] by (simp add: may_sleep_def task_def)
  have "\<not> (se_active x \<and> se_task_id x = task)" if "x \<in> set (g_scheduler64_sleep_queue s)" for x
    using m that by (auto simp: may_sleep_def scheduler64_sleep_task_pending_def first_index_None_iff task_def)
  then have fresh: "se_task_id (g_scheduler64_sleep_queue s ! j) \<noteq> task"
    if "j < 16" "se_active (g_scheduler64_sleep_queue s ! j)" for j
    using that queue_invD(3) [OF inv] by (auto simp: sleepers_ok_def)
  have "queue_inv one (upd_sleep k (\<lambda>_. e) s)"
    using queue_inv_sleep_upd [OF inv sleep_free_entry_less [OF inv k]] task fresh by (simp add: e_def)
  then show ?thesis
    by (rule same_queue_inv [THEN iffD2, rotated])
      (simp add: sleep_entered_def task_def [symmetric] e_def same_queue_def Let_def)
qed

lemma inv_sleep_start:
  assumes inv: "queue_inv one s"
  shows "queue_inv one (snd (scheduler64_sleep_start_current_task start n rax cb cookie s))"
proof (cases "may_sleep n s")
  case False
  from sleep_start_refused [OF this, of start rax cb cookie] inv show ?thesis by auto
next
  case True
  then obtain k where k: "scheduler64_sleep_free_entry s = Some k" by (auto simp: may_sleep_def)
  obtain blocked s2 where b: "scheduler64_runqueue_block_task (scheduler64_runqueue_current_task_id s)
      (sleep_entered start n rax cb cookie k s) = (blocked, s2)" by fastforce
  have s2: "queue_inv one s2"
    using inv_block [OF sleep_entered_inv [OF inv True k, of start rax cb cookie]] b by (metis snd_conv)
  have "queue_inv one (s2\<lparr>g_scheduler64_sleep_count := m\<rparr>)" for m
    by (rule same_queue_inv [THEN iffD2, OF _ s2]) (simp add: same_queue_def)
  then show ?thesis
    unfolding sleep_start_unfold [OF True k b]
    using queue_inv_sleep_clear [OF s2 sleep_free_entry_less [OF inv k]] by simp
qed

lemma inv_sleep_current:
  "queue_inv one s \<Longrightarrow>
   queue_inv one (snd (scheduler64_sleep_current_task_for_ticks pit n rax cb cookie s))"
  unfolding scheduler64_sleep_current_task_for_ticks_def by (rule inv_sleep_start) simp

lemma inv_sleep_for:
  assumes inv: "queue_inv one s"
  shows "queue_inv one (snd (scheduler64_sleep_for_ticks pit n s))"
proof -
  define s1 where "s1 = note_sleep_request n (pit 0) s"
  have s1: "queue_inv one s1" using inv by (simp add: s1_def)
  have c: "queue_inv one (s1\<lparr>g_scheduler64_sleep_count := m\<rparr>)"
    "queue_inv one (s1\<lparr>g_scheduler64_sleep_last_end_ticks := a, g_scheduler64_sleep_last_elapsed_ticks := b\<rparr>)"
    "queue_inv one (s1\<lparr>g_scheduler64_sleep_last_end_ticks := a, g_scheduler64_sleep_last_elapsed_ticks := b,
       g_scheduler64_sleep_count := m\<rparr>)" for m a b
    by (rule same_queue_inv [THEN iffD2, OF _ s1], simp add: same_queue_def)+
  show ?thesis
    unfolding scheduler64_sleep_for_ticks_def Let_def s1_def [symmetric]
    using inv_sleep_start [OF s1] c by simp
qed

lemma inv_sleep_cancel:
  assumes inv: "queue_inv one s"
  shows "queue_inv one (snd (scheduler64_sleep_cancel_task i s))"
proof -
  have "sleepers_ok (snd (scheduler64_sleep_cancel_task i s))"
    using queue_invD(3) [OF inv]
    by (auto simp: sleepers_ok_def scheduler64_sleep_cancel_task_def Let_def
        scheduler64_clear_sleep_entry_def)
  then show ?thesis
    using inv by (simp add: queue_inv_def queue_shape_def single_runner_def runners_def
        scheduler64_sleep_cancel_task_def Let_def)
qed


subsection \<open>Expiry\<close>

definition entry_reached :: "u32 \<Rightarrow> scheduler64_sleep_entry \<Rightarrow> bool" where
  "entry_reached now e \<longleftrightarrow> se_active e \<and> scheduler64_sleep_tick_reached now (se_wake_tick e)"

lemma state_beyond:
  assumes "queue_shape s" and "i < 16" and "\<not> i < unat (task_count s)"
  shows "state_of s i = SCHEDULER64_TASK_UNUSED"
proof -
  have "tasks_of s ! i = scheduler64_clear_task" using assms by (auto simp: queue_shape_def)
  then show ?thesis by (simp add: scheduler64_clear_task_def)
qed

lemma state_upd_task:
  "length (tasks_of s) = 16 \<Longrightarrow> unat k < 16 \<Longrightarrow>
   state_of (upd_task k f s) i = (if i = unat k then t_state (f (task_at s k)) else state_of s i)"
  by (simp add: nth_list_update task_at_def)

lemma wake_result_spec:
  assumes inv: "queue_inv one s"
    and s'_def: "s' = snd (scheduler64_runqueue_wake_task_with_result tid rax s)"
  shows "i < 16 \<Longrightarrow> state_of s' i = (if i = unat tid \<and> state_of s i = SCHEDULER64_TASK_BLOCKED
      then SCHEDULER64_TASK_READY else state_of s i)"
    "task_count s' = task_count s" "current_of s' = current_of s" "rq_is_active s' = rq_is_active s"
    "g_scheduler64_sleep_queue s' = g_scheduler64_sleep_queue s"
proof -
  note q = queue_invD(1) [OF inv]
  show "state_of s' i = (if i = unat tid \<and> state_of s i = SCHEDULER64_TASK_BLOCKED
      then SCHEDULER64_TASK_READY else state_of s i)" if i: "i < 16"
  proof (cases "wake_refused tid s")
    case True
    have "state_of s i \<noteq> SCHEDULER64_TASK_BLOCKED" if "i = unat tid"
    proof (cases "tid < task_count s")
      case True
      with \<open>wake_refused tid s\<close> that show ?thesis
        using queue_shapeD(4) [OF q True] by (auto simp: wake_refused_def task_at_def not_le)
    next
      case False
      with that i show ?thesis
        by (simp add: state_beyond [OF q] word_less_nat_alt)
    qed
    with True show ?thesis
      by (auto simp: s'_def scheduler64_runqueue_wake_task_with_result_def rq_deny_def)
  next
    case False
    then have "tid < task_count s" and b: "state_of s (unat tid) = SCHEDULER64_TASK_BLOCKED"
      by (auto simp: wake_refused_def task_at_def)
    then have "unat tid < 16" using queue_shapeD(3) [OF q] by simp
    with False b queue_shapeD(1) [OF q] show ?thesis
      by (auto simp: s'_def scheduler64_runqueue_wake_task_with_result_def prefer_woken_def
          nth_list_update)
  qed
  show "task_count s' = task_count s" "current_of s' = current_of s" "rq_is_active s' = rq_is_active s"
    "g_scheduler64_sleep_queue s' = g_scheduler64_sleep_queue s"
    by (simp_all add: s'_def scheduler64_runqueue_wake_task_with_result_def prefer_woken_def rq_deny_def)
qed

text \<open>What one round of the expiry loop does, and what \<open>k\<close> rounds do.\<close>

lemma sleep_wake_entry_spec:
  assumes inv: "queue_inv one s" and k: "k < 16"
    and s'_def: "s' = fst (snd (sleep_wake_entry env now k (w, s, r)))"
    and e_def: "e = g_scheduler64_sleep_queue s ! k"
  shows "queue_inv one s'"
    "i < 16 \<Longrightarrow> state_of s' i = (if entry_reached now e \<and> i = unat (se_task_id e)
        \<and> state_of s i = SCHEDULER64_TASK_BLOCKED then SCHEDULER64_TASK_READY else state_of s i)"
    "task_count s' = task_count s" "current_of s' = current_of s" "rq_is_active s' = rq_is_active s"
    "g_scheduler64_sleep_queue s' = (if entry_reached now e
       then (g_scheduler64_sleep_queue s)[k := scheduler64_clear_sleep_entry]
       else g_scheduler64_sleep_queue s)"
proof -
  have "queue_inv one s'
    \<and> (\<forall>i<16. state_of s' i = (if entry_reached now e \<and> i = unat (se_task_id e)
        \<and> state_of s i = SCHEDULER64_TASK_BLOCKED then SCHEDULER64_TASK_READY else state_of s i))
    \<and> task_count s' = task_count s \<and> current_of s' = current_of s \<and> rq_is_active s' = rq_is_active s
    \<and> g_scheduler64_sleep_queue s' = (if entry_reached now e
       then (g_scheduler64_sleep_queue s)[k := scheduler64_clear_sleep_entry]
       else g_scheduler64_sleep_queue s)"
  proof (cases "entry_reached now e")
    case False
    then have "s' = s" by (auto simp: s'_def e_def sleep_wake_entry_def entry_reached_def)
    with False inv show ?thesis by simp
  next
    case True
    define s1 where "s1 = s\<lparr>g_scheduler64_sleep_last_task_id := se_task_id e,
      g_scheduler64_sleep_last_requested_ticks := se_requested_ticks e,
      g_scheduler64_sleep_last_start_ticks := se_start_tick e,
      g_scheduler64_sleep_last_end_ticks := now,
      g_scheduler64_sleep_last_elapsed_ticks := now - se_start_tick e,
      g_scheduler64_sleep_last_wake_tick := se_wake_tick e\<rparr>"
    define wk where "wk = scheduler64_runqueue_wake_task_with_result (se_task_id e) (se_resume_rax e) s1"
    define s3 where "s3 = (if fst wk
      then (snd wk)\<lparr>g_scheduler64_sleep_wake_count := g_scheduler64_sleep_wake_count (snd wk) + 1\<rparr>
      else sleep_deny (snd wk))"
    have s': "s' = upd_sleep k (\<lambda>_. scheduler64_clear_sleep_entry) s3"
      using True
      by (simp add: s'_def sleep_wake_entry_def e_def [symmetric] entry_reached_def s1_def [symmetric]
          wk_def [symmetric] case_prod_unfold Let_def s3_def)
    have i1: "queue_inv one s1"
      by (rule same_queue_inv [THEN iffD2, OF _ inv]) (simp add: same_queue_def s1_def)
    note wk = wake_result_spec [OF i1 arg_cong [OF wk_def, of snd]]
    have "queue_inv one (snd wk)" unfolding wk_def by (rule inv_wake(1) [OF i1])
    then have "queue_inv one s3"
      by (rule same_queue_inv [THEN iffD2, rotated]) (simp add: s3_def same_queue_def)
    then have "queue_inv one s'" unfolding s' by (rule queue_inv_sleep_clear [OF _ k])
    moreover have "g_runqueue s3 = g_runqueue (snd wk)"
      "g_scheduler64_sleep_queue s3 = g_scheduler64_sleep_queue (snd wk)"
      by (simp_all add: s3_def)
    ultimately show ?thesis
      using True wk by (auto simp: s' s1_def)
  qed
  then show "queue_inv one s'"
    "i < 16 \<Longrightarrow> state_of s' i = (if entry_reached now e \<and> i = unat (se_task_id e)
        \<and> state_of s i = SCHEDULER64_TASK_BLOCKED then SCHEDULER64_TASK_READY else state_of s i)"
    "task_count s' = task_count s" "current_of s' = current_of s" "rq_is_active s' = rq_is_active s"
    "g_scheduler64_sleep_queue s' = (if entry_reached now e
       then (g_scheduler64_sleep_queue s)[k := scheduler64_clear_sleep_entry]
       else g_scheduler64_sleep_queue s)"
    by simp_all
qed

definition expired :: "u32 \<Rightarrow> scheduler_state \<Rightarrow> nat \<Rightarrow> nat \<Rightarrow> bool" where
  "expired now s k i \<longleftrightarrow> (\<exists>j<k. entry_reached now (g_scheduler64_sleep_queue s ! j)
     \<and> unat (se_task_id (g_scheduler64_sleep_queue s ! j)) = i)"

definition sweep_rounds ::
    "('r, 'z) sched_env_scheme \<Rightarrow> u32 \<Rightarrow> nat \<Rightarrow> scheduler_state \<times> 'r \<Rightarrow> u32 \<times> scheduler_state \<times> 'r" where
  "sweep_rounds env now k = (\<lambda>(s, r). fold (sleep_wake_entry env now) [0..<k] (0, s, r))"

lemma sweep_rounds_spec:
  assumes inv: "queue_inv one s" and k: "k \<le> 16"
    and s'_def: "s' = fst (snd (sweep_rounds env now k (s, r)))"
  shows "queue_inv one s'
    \<and> (\<forall>i<16. state_of s' i = (if expired now s k i \<and> state_of s i = SCHEDULER64_TASK_BLOCKED
          then SCHEDULER64_TASK_READY else state_of s i))
    \<and> task_count s' = task_count s \<and> current_of s' = current_of s \<and> rq_is_active s' = rq_is_active s
    \<and> (\<forall>j<16. g_scheduler64_sleep_queue s' ! j =
        (if j < k \<and> entry_reached now (g_scheduler64_sleep_queue s ! j)
         then scheduler64_clear_sleep_entry else g_scheduler64_sleep_queue s ! j))"
  unfolding s'_def using k
proof (induction k)
  case 0
  show ?case using inv by (simp add: sweep_rounds_def expired_def)
next
  case (Suc k)
  obtain w s1 r1 where p: "sweep_rounds env now k (s, r) = (w, s1, r1)" by (metis prod_cases3)
  have IH: "queue_inv one s1"
    "\<And>i. i < 16 \<Longrightarrow> state_of s1 i = (if expired now s k i \<and> state_of s i = SCHEDULER64_TASK_BLOCKED
          then SCHEDULER64_TASK_READY else state_of s i)"
    "task_count s1 = task_count s" "current_of s1 = current_of s" "rq_is_active s1 = rq_is_active s"
    "\<And>j. j < 16 \<Longrightarrow> g_scheduler64_sleep_queue s1 ! j =
        (if j < k \<and> entry_reached now (g_scheduler64_sleep_queue s ! j)
         then scheduler64_clear_sleep_entry else g_scheduler64_sleep_queue s ! j)"
    using Suc p by simp_all
  have kk: "k < 16" using Suc by simp
  have ek: "g_scheduler64_sleep_queue s1 ! k = g_scheduler64_sleep_queue s ! k"
    using IH(6) [OF kk] by simp
  have len: "length (g_scheduler64_sleep_queue s1) = 16"
    using queue_invD(3) [OF IH(1)] by (simp add: sleepers_ok_def)
  have step: "sweep_rounds env now (Suc k) (s, r) = sleep_wake_entry env now k (w, s1, r1)"
    using p by (simp add: sweep_rounds_def)
  have ex: "expired now s (Suc k) i \<longleftrightarrow> expired now s k i
      \<or> entry_reached now (g_scheduler64_sleep_queue s ! k)
        \<and> unat (se_task_id (g_scheduler64_sleep_queue s ! k)) = i" for i
    by (auto simp: expired_def less_Suc_eq)
  note e = sleep_wake_entry_spec [OF IH(1) kk refl refl, where env = env and now = now
      and w = w and r = r1, unfolded ek]
  show ?case
    unfolding step
    using e(1,3,4,5) IH(3,4,5)
    by (simp add: e(2) e(6) ex IH(2)) (auto simp: IH(6) len nth_list_update less_Suc_eq)
qed


lemma wake_expired_sweep: "scheduler64_sleep_wake_expired env now = sweep_rounds env now 16"
  by (simp add: fun_eq_iff scheduler64_sleep_wake_expired_def sweep_rounds_def
      SCHEDULER64_SLEEP_QUEUE_TASK_LIMIT_def)

lemmas wake_expired_spec = sweep_rounds_spec [OF _ order_refl, folded wake_expired_sweep]

lemma wake_expired_inv:
  assumes inv: "queue_inv one s" and s': "s' = fst (snd (scheduler64_sleep_wake_expired env now (s, r)))"
  shows "queue_inv one s'" "runners s' = runners s" "task_count s' = task_count s"
    "current_of s' = current_of s" "rq_is_active s' = rq_is_active s"
proof -
  note spec = wake_expired_spec [OF inv s']
  show "queue_inv one s'" "task_count s' = task_count s" "current_of s' = current_of s"
    "rq_is_active s' = rq_is_active s"
    using spec by blast+
  have "state_of s' i = SCHEDULER64_TASK_RUNNING \<longleftrightarrow> state_of s i = SCHEDULER64_TASK_RUNNING"
    if "i < 16" for i
    using spec that by (simp split: if_split)
  then show "runners s' = runners s" by (auto simp: runners_def)
qed


section \<open>The switch points\<close>

lemma save_context_sel [simp]:
  "task_count (save_context c frame s) = task_count s"
  "current_of (save_context c frame s) = current_of s"
  "rq_is_active (save_context c frame s) = rq_is_active s"
  by (simp_all add: save_context_def scheduler64_save_fs_base_for_task_def)

lemma inv_save_fs:
  assumes "queue_inv one s" and "c < task_count s"
  shows "queue_inv one (scheduler64_save_fs_base_for_task c s)"
proof -
  have "queue_inv one (upd_task c (\<lambda>t. t\<lparr>t_fs_base := fs_base_msr s\<rparr>) s)"
    using assms queue_shapeD(4,5) [OF queue_invD(1) [OF assms(1)] assms(2)]
    by (intro inv_upd_task) simp_all
  then show ?thesis
    by (rule same_queue_inv [THEN iffD2, rotated])
      (simp add: same_queue_def scheduler64_save_fs_base_for_task_def)
qed

lemma inv_save_context:
  assumes "queue_inv one s" and "c < task_count s"
  shows "queue_inv one (save_context c frame s)"
proof -
  have "queue_inv one (upd_task c (\<lambda>t. t\<lparr>t_frame := frame, t_frame_valid := True,
      t_saved_rip := f_rip frame, t_saved_rsp := f_rsp frame\<rparr>) s)"
    using assms queue_shapeD(5) [OF queue_invD(1) [OF assms(1)] assms(2)]
    by (intro inv_upd_task) simp_all
  then show ?thesis
    unfolding save_context_def using assms(2) by (intro inv_save_fs) simp_all
qed

lemma runners_active: "queue_inv True s \<Longrightarrow> rq_is_active s \<Longrightarrow> runners s \<subseteq> {unat (current_of s)}"
  by (auto simp: queue_inv_def single_runner_def)

text \<open>Once the current task is no longer running, nothing is.\<close>

lemma idle_if_current_stopped:
  assumes "queue_inv one s" and "rq_is_active s" and one
    and "t_state (task_at s (current_of s)) \<noteq> SCHEDULER64_TASK_RUNNING"
  shows "runners s = {}"
  using runners_active [of s] assms by (auto simp: runners_def task_at_def)

lemma dispatch_to_inv:
  assumes inv: "queue_inv one s" and act: "rq_is_active s" and idle: "one \<Longrightarrow> runners s = {}"
    and n: "n < task_count s"
  shows "queue_inv one (dispatch_to n s)" "current_of (dispatch_to n s) = n" "rq_is_active (dispatch_to n s)"
proof -
  define run where "run = (\<lambda>t :: scheduler64_task. t\<lparr>t_state := SCHEDULER64_TASK_RUNNING,
    t_dispatches := t_dispatches t + 1\<rparr>)"
  define g where "g = (\<lambda>q :: scheduler64_runqueue. q\<lparr>rq_current_task := n,
    rq_switches := rq_switches q + 1\<rparr>)"
  have d: "dispatch_to n s = scheduler64_restore_fs_base_for_task n (upd_rq g (upd_task n run s))"
    by (simp add: dispatch_to_def run_def g_def)
  have main: "queue_inv one (upd_rq g (upd_task n run s))"
    using inv_make_running(1) [OF inv idle n, of run g] act queue_shapeD(4) [OF queue_invD(1) [OF inv] n]
    by (simp_all add: run_def g_def)
  show "queue_inv one (dispatch_to n s)" using main by (simp add: d)
  show "current_of (dispatch_to n s) = n" "rq_is_active (dispatch_to n s)"
    using act by (simp_all add: d g_def scheduler64_restore_fs_base_for_task_def)
qed

lemma inv_resume_current:
  assumes inv: "queue_inv one s" and act: "rq_is_active s" and idle: "one \<Longrightarrow> runners s = {}"
  shows "queue_inv one (resume_current (current_of s) s)"
proof -
  define c where "c = current_of s"
  note q = queue_invD(1) [OF inv]
  have c: "c < task_count s" using queue_shapeD(6) [OF q act] by (simp add: c_def)
  have "upd_rq (\<lambda>q. q\<lparr>rq_current_task := c\<rparr>) (set_task_state SCHEDULER64_TASK_RUNNING c s)
      = set_task_state SCHEDULER64_TASK_RUNNING c s"
    by (simp add: upd_rq_def set_task_state_def upd_task_def c_def)
  moreover have "queue_inv one (upd_rq (\<lambda>q. q\<lparr>rq_current_task := c\<rparr>)
      (set_task_state SCHEDULER64_TASK_RUNNING c s))"
    unfolding set_task_state_def
    using act queue_shapeD(4) [OF q c] by (intro inv_make_running(1) [OF inv idle c]) simp_all
  ultimately show ?thesis using inv by (simp add: resume_current_def c_def [symmetric])
qed

text \<open>The state in which the timer selects: the interrupted task is demoted, sleepers are awake.\<close>

definition timer_select ::
    "('r, 'z) sched_env_scheme \<Rightarrow> u32 \<Rightarrow> interrupt_frame64 \<Rightarrow> scheduler_state \<times> 'r \<Rightarrow> scheduler_state \<times> 'r" where
  "timer_select env now frame = (\<lambda>(s, r).
    let s1 = save_context (current_of s) frame (upd_rq (\<lambda>q. q\<lparr>rq_irqs := rq_irqs q + 1\<rparr>) s);
        s2 = (if t_state (task_at s1 (current_of s)) = SCHEDULER64_TASK_RUNNING
              then set_task_state SCHEDULER64_TASK_READY (current_of s) s1 else s1)
    in snd (scheduler64_sleep_wake_expired env now (note_segments frame s2, r)))"

lemma on_timer_unfold:
  assumes "rq_is_active s" and "current_of s < task_count s" and "from_user frame"
    and sel: "timer_select env now frame (s, r) = (s3, r3)"
    and nx: "scheduler64_next_runnable (current_of s) s3 = (n, s4)"
  shows "scheduler64_runqueue_on_timer env now frame (s, r) =
    (if n = SCHEDULER64_INVALID_TASK then (False, frame, resume_current (current_of s) s4, r3)
     else let (switched, r5) = scheduler64_switch_cr3_for_task env (task_at s4 n)
                SCHEDULER64_CR3_REASON_TIMER r3
          in if \<not> switched then (False, frame, resume_current (current_of s) s4, r5)
             else (True, t_frame (task_at (dispatch_to n s4) n),
                   note_segments (t_frame (task_at (dispatch_to n s4) n)) (dispatch_to n s4), r5))"
proof -
  define s1 where "s1 = save_context (current_of s) frame (upd_rq (\<lambda>q. q\<lparr>rq_irqs := rq_irqs q + 1\<rparr>) s)"
  define s2 where "s2 = (if t_state (task_at s1 (current_of s)) = SCHEDULER64_TASK_RUNNING
    then set_task_state SCHEDULER64_TASK_READY (current_of s) s1 else s1)"
  define w where "w = scheduler64_sleep_wake_expired env now (note_segments frame s2, r)"
  have "snd w = (s3, r3)"
    using sel unfolding timer_select_def Let_def prod.case
      s1_def [symmetric] s2_def [symmetric] w_def [symmetric] .
  then obtain k where w: "w = (k, s3, r3)" by (cases w) simp
  have g: "\<not> (\<not> rq_is_active s \<or> current_of s \<ge> task_count s \<or> \<not> from_user frame)"
    using assms(1-3) by (simp add: not_le)
  show ?thesis
    unfolding scheduler64_runqueue_on_timer_def Let_def prod.case
      s1_def [symmetric] s2_def [symmetric] w_def [symmetric]
    by (simp only: g if_False w prod.case nx)
qed

lemma timer_select_inv:
  assumes inv: "queue_inv one s" and act: "rq_is_active s"
    and s3: "timer_select env now frame (s, r) = (s3, r3)"
  shows "queue_inv one s3" "one \<Longrightarrow> runners s3 = {}" "task_count s3 = task_count s"
    "current_of s3 = current_of s" "rq_is_active s3"
proof -
  define c where "c = current_of s"
  note q = queue_invD(1) [OF inv]
  have c: "c < task_count s" using queue_shapeD(6) [OF q act] by (simp add: c_def)
  define s0 where "s0 = upd_rq (\<lambda>q. q\<lparr>rq_irqs := rq_irqs q + 1\<rparr>) s"
  have s0: "queue_inv one s0"
    by (rule same_queue_inv [THEN iffD2, OF _ inv]) (simp add: s0_def same_queue_def)
  define s1 where "s1 = save_context c frame s0"
  have s1: "queue_inv one s1" "task_count s1 = task_count s" "current_of s1 = c" "rq_is_active s1"
    using inv_save_context [OF s0] c act by (simp_all add: s1_def s0_def c_def)
  define s2 where "s2 = (if t_state (task_at s1 c) = SCHEDULER64_TASK_RUNNING
    then set_task_state SCHEDULER64_TASK_READY c s1 else s1)"
  have s2: "queue_inv one s2" "task_count s2 = task_count s" "current_of s2 = c" "rq_is_active s2"
    using s1 c inv_set_state [OF s1(1)] by (simp_all add: s2_def set_task_state_def)
  have "t_state (task_at s2 c) \<noteq> SCHEDULER64_TASK_RUNNING"
    using queue_shapeD(1,3) [OF queue_invD(1) [OF s1(1)]] s1(2) c
    by (auto simp: s2_def set_task_state_def task_at_def)
  then have idle: "one \<Longrightarrow> runners s2 = {}"
    using idle_if_current_stopped [OF s2(1,4)] s2(3) by simp
  define s2' where "s2' = note_segments frame s2"
  have s2': "queue_inv one s2'" "one \<Longrightarrow> runners s2' = {}" "task_count s2' = task_count s" "current_of s2' = c"
    "rq_is_active s2'"
    using s2 idle by (simp_all add: s2'_def) (simp_all add: note_segments_def runners_def)
  have "s3 = fst (snd (scheduler64_sleep_wake_expired env now (s2', r)))"
    using s3 unfolding timer_select_def Let_def prod.case c_def [symmetric] s0_def [symmetric]
      s1_def [symmetric] s2_def [symmetric] s2'_def [symmetric] by simp
  from wake_expired_inv [OF s2'(1) this] s2'
  show "queue_inv one s3" "one \<Longrightarrow> runners s3 = {}" "task_count s3 = task_count s"
    "current_of s3 = current_of s" "rq_is_active s3"
    by (simp_all add: c_def)
qed

lemma inv_timer:
  assumes inv: "queue_inv one s"
  shows "queue_inv one (fst (snd (snd (scheduler64_runqueue_on_timer env now frame (s, r)))))"
proof (cases "\<not> rq_is_active s \<or> current_of s \<ge> task_count s \<or> \<not> from_user frame")
  case True
  then show ?thesis using inv by (auto simp: scheduler64_runqueue_on_timer_def)
next
  case False
  obtain s3 r3 where sel: "timer_select env now frame (s, r) = (s3, r3)" by fastforce
  obtain n s4 where nx: "scheduler64_next_runnable (current_of s) s3 = (n, s4)" by fastforce
  have act: "rq_is_active s" and c: "current_of s < task_count s" and u: "from_user frame"
    using False by auto
  note s3 = timer_select_inv [OF inv act sel]
  have s4: "g_runqueue s4 = g_runqueue s3" "queue_inv one s4"
    using next_runnable_sel(1) [of "current_of s" s3] next_runnable_inv [of one "current_of s" s3] s3(1) nx
    by simp_all
  then have idle: "one \<Longrightarrow> runners s4 = {}" using s3(2) by (simp add: runners_def)
  have res: "queue_inv one (resume_current (current_of s) s4)"
    using inv_resume_current [OF s4(2) _ idle] s3 s4(1) by simp
  have "queue_inv one (dispatch_to n s4)" if "n \<noteq> SCHEDULER64_INVALID_TASK"
  proof (rule dispatch_to_inv(1) [OF s4(2) _ idle])
    show "rq_is_active s4" using s3 s4 by simp
    show "n < task_count s4"
      using next_runnable_Some(1) [OF queue_invD(1) [OF s3(1)], of "current_of s"] c s3 s4 nx that
      by simp
  qed
  with res show ?thesis
    unfolding on_timer_unfold [OF act c u sel nx] by (simp add: case_prod_unfold Let_def)
qed


lemma on_blocked_unfold:
  assumes "rq_is_active s" and "current_of s < task_count s" and "from_user frame"
    and "t_frame_valid (task_at s (current_of s))"
    and "t_state (task_at s (current_of s)) = SCHEDULER64_TASK_BLOCKED"
    and nx: "scheduler64_next_runnable (current_of s)
      (note_segments frame (save_context (current_of s) frame s)) = (n, s2)"
  shows "scheduler64_runqueue_on_blocked_syscall env frame (s, r) =
    (if n = SCHEDULER64_INVALID_TASK then (False, frame, rq_deny s2, r)
     else let (switched, r3) = scheduler64_switch_cr3_for_task env (task_at s2 n)
                SCHEDULER64_CR3_REASON_BLOCKED_SYSCALL r
          in if \<not> switched then (False, frame, rq_deny s2, r3)
             else let s3 = dispatch_to n s2;
                      (frame', r4) = scheduler64_deliver_linux_signal_on_resume env
                        (task_at s3 n) (t_frame (task_at s3 n)) r3
                  in (True, frame', note_segments frame' s3, r4))"
proof -
  have g: "\<not> (\<not> rq_is_active s \<or> current_of s \<ge> task_count s)"
    "\<not> (\<not> t_frame_valid (task_at s (current_of s))
         \<or> t_state (task_at s (current_of s)) \<noteq> SCHEDULER64_TASK_BLOCKED \<or> \<not> from_user frame)"
    using assms(1-5) by (simp_all add: not_le)
  show ?thesis
    unfolding scheduler64_runqueue_on_blocked_syscall_def Let_def prod.case
    by (simp only: g if_False nx prod.case)
qed

lemma inv_blocked_syscall:
  assumes inv: "queue_inv one s"
  shows "queue_inv one (fst (snd (snd (scheduler64_runqueue_on_blocked_syscall env frame (s, r)))))"
proof (cases "\<not> rq_is_active s \<or> current_of s \<ge> task_count s
    \<or> \<not> t_frame_valid (task_at s (current_of s))
    \<or> t_state (task_at s (current_of s)) \<noteq> SCHEDULER64_TASK_BLOCKED \<or> \<not> from_user frame")
  case True
  then show ?thesis using inv by (auto simp: scheduler64_runqueue_on_blocked_syscall_def Let_def)
next
  case False
  define c where "c = current_of s"
  have act: "rq_is_active s" and c: "c < task_count s" and u: "from_user frame"
    and v: "t_frame_valid (task_at s c)" and b: "t_state (task_at s c) = SCHEDULER64_TASK_BLOCKED"
    using False by (auto simp: c_def)
  define s1 where "s1 = note_segments frame (save_context c frame s)"
  obtain n s2 where nx: "scheduler64_next_runnable c s1 = (n, s2)" by fastforce
  have s1: "queue_inv one s1" using inv_save_context [OF inv c] by (simp add: s1_def)
  have sel: "task_count s1 = task_count s" "current_of s1 = c" "rq_is_active s1"
    using act by (simp_all add: s1_def note_segments_def c_def)
  note q = queue_invD(1) [OF inv]
  have "t_state (task_at s1 c) = SCHEDULER64_TASK_BLOCKED"
    using b queue_shapeD(1,3) [OF q] c
    by (simp add: s1_def note_segments_def save_context_def scheduler64_save_fs_base_for_task_def
        task_at_def)
  then have idle1: "one \<Longrightarrow> runners s1 = {}" using idle_if_current_stopped [OF s1 sel(3)] sel(2) by simp
  have s2: "g_runqueue s2 = g_runqueue s1" "queue_inv one s2"
    using next_runnable_sel(1) [of c s1] next_runnable_inv [of one c s1] s1 nx by simp_all
  have idle: "one \<Longrightarrow> runners s2 = {}" using idle1 s2(1) by (simp add: runners_def)
  have "queue_inv one (dispatch_to n s2)" if "n \<noteq> SCHEDULER64_INVALID_TASK"
  proof (rule dispatch_to_inv(1) [OF s2(2) _ idle])
    show "rq_is_active s2" using sel s2 by simp
    show "n < task_count s2"
      using next_runnable_Some(1) [OF queue_invD(1) [OF s1], of c] c sel s2 nx that by simp
  qed
  with s2 show ?thesis
    unfolding on_blocked_unfold [OF act c [unfolded c_def] u v [unfolded c_def] b [unfolded c_def]
        nx [unfolded s1_def c_def]]
    by (simp add: case_prod_unfold Let_def)
qed

lemma inv_exit:
  assumes inv: "queue_inv one s"
  shows "queue_inv one (fst (snd (snd (scheduler64_runqueue_on_exit env frame res (s, r)))))"
proof (cases "\<not> rq_is_active s \<or> current_of s \<ge> task_count s")
  case True
  then show ?thesis using inv by (auto simp: scheduler64_runqueue_on_exit_def)
next
  case False
  define c where "c = current_of s"
  have act: "rq_is_active s" and c: "c < task_count s" using False by (auto simp: c_def)
  note q = queue_invD(1) [OF inv]
  define s0 where "s0 = upd_task c (\<lambda>t. t\<lparr>t_state := SCHEDULER64_TASK_EXITED, t_result := res\<rparr>) s"
  define s1 where "s1 = scheduler64_save_fs_base_for_task c s0"
  define s1' where "s1' = upd_task c (\<lambda>t. t\<lparr>t_exits := t_exits t + 1\<rparr>) s1"
  define s2 where "s2 = note_segments frame (upd_rq (\<lambda>q. q\<lparr>rq_exits := rq_exits q + 1\<rparr>) s1')"
  obtain n s3 where nx: "scheduler64_next_runnable c s2 = (n, s3)" by fastforce
  have s0: "queue_inv one s0" unfolding s0_def
    using inv c queue_shapeD(4) [OF q c] by (intro inv_upd_task) simp_all
  have s1: "queue_inv one s1" using inv_save_fs [OF s0] c by (simp add: s1_def s0_def)
  have sel1: "task_count s1 = task_count s" "current_of s1 = c" "rq_is_active s1"
    using act by (simp_all add: s1_def s0_def scheduler64_save_fs_base_for_task_def c_def)
  have s1': "queue_inv one s1'" unfolding s1'_def
    using s1 c sel1 queue_shapeD(4,5) [OF queue_invD(1) [OF s1], of c]
    by (intro inv_upd_task) simp_all
  then have s2: "queue_inv one s2"
    by (rule same_queue_inv [THEN iffD2, rotated]) (simp add: s2_def note_segments_def same_queue_def)
  have sel: "task_count s2 = task_count s" "current_of s2 = c" "rq_is_active s2"
    using sel1 by (simp_all add: s2_def note_segments_def s1'_def)
  have "t_state (task_at s2 c) = SCHEDULER64_TASK_EXITED"
    using queue_shapeD(1,3) [OF q] c
    by (simp add: s2_def note_segments_def s1'_def s1_def s0_def scheduler64_save_fs_base_for_task_def
        task_at_def)
  then have idle2: "one \<Longrightarrow> runners s2 = {}" using idle_if_current_stopped [OF s2 sel(3)] sel(2) by simp
  have s3: "g_runqueue s3 = g_runqueue s2" "queue_inv one s3"
    using next_runnable_sel(1) [of c s2] next_runnable_inv [of one c s2] s2 nx by simp_all
  have idle: "one \<Longrightarrow> runners s3 = {}" using idle2 s3(1) by (simp add: runners_def)
  have dis: "queue_inv one (dispatch_to n s3)" if "n \<noteq> SCHEDULER64_INVALID_TASK"
  proof (rule dispatch_to_inv(1) [OF s3(2) _ idle])
    show "rq_is_active s3" using sel s3 by simp
    show "n < task_count s3"
      using next_runnable_Some(1) [OF queue_invD(1) [OF s2], of c] c sel s3 nx that by simp
  qed
  have com: "queue_inv one (rq_complete res s3)"
    unfolding rq_complete_def by (rule inv_deactivate [OF s3(2)]) simp_all
  then have com': "queue_inv one ((rq_complete res s3)\<lparr>fs_base_msr := 0\<rparr>)"
    by (rule same_queue_inv [THEN iffD2, rotated]) (simp add: same_queue_def)
  show ?thesis
    using False nx dis com com'
    unfolding scheduler64_runqueue_on_exit_def Let_def prod.case c_def [symmetric]
      s0_def [symmetric] s1_def [symmetric] s1'_def [symmetric] s2_def [symmetric]
    by (simp add: case_prod_unfold)
qed

end
