(* ===== verification/Scheduler_Props.thy ===== *)
theory Scheduler_Props
  imports Scheduler_Inv
begin

text \<open>
  The scheduler as a state machine: its operations as a step relation whose reachable states
  keep the run-queue invariant, the contract under which other components park and wake tasks,
  and the properties of selection, blocking and sleeping.
\<close>

section \<open>Reachable run queues\<close>

text \<open>
  Every call into the scheduler is a step, in any order and with any arguments; between two calls the
  rest of the kernel may change in any way. \<open>queue_step\<close> has all calls but
  \<^verbatim>\<open>scheduler64_runqueue_start\<close>, which \<open>sched_step\<close> adds without a condition, as the code has none.
  In an \<open>orderly_step\<close> it is called only while no task is running, as the callers in the kernel do,
  which reset the queue and register their tasks first.
\<close>

inductive queue_step ::
    "('r, 'z) sched_env_scheme \<Rightarrow> scheduler_state \<times> 'r \<Rightarrow> scheduler_state \<times> 'r \<Rightarrow> bool" for env where
  step_reset: "queue_step env (s, r) (scheduler64_runqueue_reset env (s, r))"
| step_init: "queue_step env (s, r) (scheduler64_init env (s, r))"
| step_register_user:
    "queue_step env (s, r) (snd (scheduler64_runqueue_register_user_task rip rsp sel rfl s), r)"
| step_register_process:
    "queue_step env (s, r)
       (snd (scheduler64_runqueue_register_process_task pid rt et rip rsp sel rfl s), r)"
| step_register_frame:
    "queue_step env (s, r) (snd (scheduler64_runqueue_register_process_frame pid rt et fr s), r)"
| step_register_launched:
    "queue_step env (s, r)
       (snd (scheduler64_runqueue_register_launched_process_task ms ps pid rip rsp rfl s), r)"
| step_stop: "queue_step env (s, r) (scheduler64_runqueue_stop env (s, r))"
| step_block: "queue_step env (s, r) (snd (scheduler64_runqueue_block_task i s), r)"
| step_wake_result:
    "queue_step env (s, r) (snd (scheduler64_runqueue_wake_task_with_result i res s), r)"
| step_wake_replay: "queue_step env (s, r) (snd (scheduler64_runqueue_wake_task_replay i s), r)"
| step_set_fs: "queue_step env (s, r) (snd (scheduler64_runqueue_set_task_fs_base i v s), r)"
| step_set_current_fs: "queue_step env (s, r) (snd (scheduler64_runqueue_set_current_fs_base v s), r)"
| step_sleep_for: "queue_step env (s, r) (snd (scheduler64_sleep_for_ticks pit n s), r)"
| step_sleep_current:
    "queue_step env (s, r) (snd (scheduler64_sleep_current_task_for_ticks pit n rax cb cookie s), r)"
| step_sleep_cancel: "queue_step env (s, r) (snd (scheduler64_sleep_cancel_task i s), r)"
| step_timer: "queue_step env (s, r) (snd (snd (scheduler64_runqueue_on_timer env now frame (s, r))))"
| step_blocked_syscall:
    "queue_step env (s, r) (snd (snd (scheduler64_runqueue_on_blocked_syscall env frame (s, r))))"
| step_exit: "queue_step env (s, r) (snd (snd (scheduler64_runqueue_on_exit env frame res (s, r))))"
| step_rest: "queue_step env (s, r) (s, r')"

inductive sched_step ::
    "('r, 'z) sched_env_scheme \<Rightarrow> scheduler_state \<times> 'r \<Rightarrow> scheduler_state \<times> 'r \<Rightarrow> bool" for env where
  step_call: "queue_step env sr sr' \<Longrightarrow> sched_step env sr sr'"
| step_start: "sched_step env sr (snd (scheduler64_runqueue_start env first sr))"

inductive orderly_step ::
    "('r, 'z) sched_env_scheme \<Rightarrow> scheduler_state \<times> 'r \<Rightarrow> scheduler_state \<times> 'r \<Rightarrow> bool" for env where
  orderly_call: "queue_step env sr sr' \<Longrightarrow> orderly_step env sr sr'"
| orderly_start:
    "runners (fst sr) = {} \<Longrightarrow> orderly_step env sr (snd (scheduler64_runqueue_start env first sr))"

lemmas sched_op_inv =
  inv_reset inv_init inv_register_user inv_register_process inv_register_frame
  inv_register_launched inv_stop inv_block inv_wake inv_set_fs inv_sleep_for
  inv_sleep_current inv_sleep_cancel inv_timer inv_blocked_syscall inv_exit

lemma queue_step_inv: "queue_step env sr sr' \<Longrightarrow> queue_inv one (fst sr) \<Longrightarrow> queue_inv one (fst sr')"
  by (induction rule: queue_step.induct) (simp_all add: sched_op_inv)

lemma sched_step_inv: "sched_step env sr sr' \<Longrightarrow> sched_inv (fst sr) \<Longrightarrow> sched_inv (fst sr')"
proof (induction rule: sched_step.induct)
  case (step_start sr first)
  then show ?case by (cases sr) (simp add: inv_start)
qed (rule queue_step_inv)

lemma orderly_step_inv: "orderly_step env sr sr' \<Longrightarrow> queue_inv True (fst sr) \<Longrightarrow> queue_inv True (fst sr')"
proof (induction rule: orderly_step.induct)
  case (orderly_start sr first)
  then show ?case by (cases sr) (simp add: inv_start)
qed (rule queue_step_inv)

lemma run_keeps_inv:
  assumes "R\<^sup>*\<^sup>* (scheduler64_init env (s0, r0)) (s, r)"
    and step: "\<And>sr sr'. R sr sr' \<Longrightarrow> queue_inv one (fst sr) \<Longrightarrow> queue_inv one (fst sr')"
  shows "queue_inv one s"
proof -
  have "queue_inv one (fst sr)" if "R\<^sup>*\<^sup>* (scheduler64_init env (s0, r0)) sr" for sr
    using that by (induction rule: rtranclp_induct) (auto simp: inv_init intro: step)
  from this [OF assms(1)] show ?thesis by simp
qed

lemmas sched_reachable_inv = run_keeps_inv [OF _ sched_step_inv]
  and orderly_reachable_inv = run_keeps_inv [OF _ orderly_step_inv]

text \<open>A small machine for the examples: no page roots, no personas, no callbacks.\<close>

definition bare_env :: "nat sched_env" where
  "bare_env = \<lparr>env_page_root = (\<lambda>_ _. 0), env_switch_process = (\<lambda>_ _ r. (True, r)),
    env_switch_kernel = (\<lambda>_ r. (True, r)), env_persona_is_linux = (\<lambda>_ _. False),
    env_signal_deliver = (\<lambda>_ f r. (f, r)), env_expiry = (\<lambda>_ _ _ r. r)\<rparr>"

definition scheduler_bss :: scheduler_state where
  "scheduler_bss =
    \<lparr>g_runqueue = clear_runqueue, g_scheduler64_sleep_count = 0,
     g_scheduler64_sleep_denial_count = 0, g_scheduler64_sleep_last_requested_ticks = 0,
     g_scheduler64_sleep_last_elapsed_ticks = 0, g_scheduler64_sleep_last_start_ticks = 0,
     g_scheduler64_sleep_last_end_ticks = 0,
     g_scheduler64_sleep_queue = replicate 16 scheduler64_clear_sleep_entry,
     g_scheduler64_sleep_wake_count = 0,
     g_scheduler64_sleep_last_task_id = SCHEDULER64_INVALID_TASK,
     g_scheduler64_sleep_last_wake_tick = 0, g_scheduler64_fs_save_count = 0,
     g_scheduler64_fs_restore_count = 0, g_scheduler64_fs_set_count = 0,
     g_scheduler64_preferred_task = SCHEDULER64_INVALID_TASK, fs_base_msr = 0\<rparr>"

definition demo_booted :: "scheduler_state \<times> nat" where
  "demo_booted = scheduler64_init bare_env (scheduler_bss, 0)"

definition demo_register :: "u64 \<Rightarrow> scheduler_state \<times> nat \<Rightarrow> scheduler_state \<times> nat" where
  "demo_register rip = (\<lambda>(s, r).
    (snd (scheduler64_runqueue_register_user_task rip 0x7000 0x1B0023 0x202 s), r))"

definition demo_queue :: "scheduler_state \<times> nat" where
  "demo_queue = demo_register 0x3000 (demo_register 0x2000 (demo_register 0x1000 demo_booted))"

definition demo_started :: "scheduler_state \<times> nat" where
  "demo_started = snd (scheduler64_runqueue_start bare_env 0 demo_queue)"

definition user_frame :: "u64 \<Rightarrow> interrupt_frame64" where
  "user_frame rip = scheduler64_prepare_user_frame rip 0x7000 0x1B0023 0x202"

definition demo_switched :: "scheduler_state \<times> nat" where
  "demo_switched = snd (snd (scheduler64_runqueue_on_timer bare_env 1 (user_frame 0x1010) demo_started))"

lemma demo_register_step: "sched_step env sr (demo_register rip sr)"
  by (cases sr) (simp add: demo_register_def step_call step_register_user)

lemma demo_booted_inv: "sched_inv (fst demo_booted)"
  by (simp add: demo_booted_def inv_init)

lemma demo_queue_reach: "(sched_step bare_env)\<^sup>*\<^sup>* demo_booted demo_queue"
  unfolding demo_queue_def
  by (meson demo_register_step rtranclp.rtrancl_refl rtranclp.rtrancl_into_rtrancl)

lemma demo_started_reach: "(sched_step bare_env)\<^sup>*\<^sup>* demo_booted demo_started"
proof -
  have "sched_step bare_env demo_queue demo_started"
    unfolding demo_started_def by (rule step_start)
  with demo_queue_reach show ?thesis by (rule rtranclp.rtrancl_into_rtrancl)
qed

lemma demo_switched_reach: "(sched_step bare_env)\<^sup>*\<^sup>* demo_booted demo_switched"
proof -
  have "sched_step bare_env demo_started demo_switched"
    unfolding demo_switched_def
    using step_call [OF step_timer [of bare_env "fst demo_started" "snd demo_started" 1 "user_frame 0x1010"]]
    by simp
  with demo_started_reach show ?thesis by (rule rtranclp.rtrancl_into_rtrancl)
qed

lemma demo_switched_orderly: "(orderly_step bare_env)\<^sup>*\<^sup>* demo_booted demo_switched"
proof -
  have "list_all (\<lambda>i. state_of (fst demo_queue) i \<noteq> SCHEDULER64_TASK_RUNNING) [0..<16]" by code_simp
  then have idle: "runners (fst demo_queue) = {}" by (auto simp: runners_def list_all_iff)
  have reg: "orderly_step bare_env sr (demo_register rip sr)" for sr rip
    by (cases sr) (simp add: demo_register_def orderly_call step_register_user)
  have "(orderly_step bare_env)\<^sup>*\<^sup>* demo_booted demo_queue"
    unfolding demo_queue_def by (meson reg rtranclp.rtrancl_refl rtranclp.rtrancl_into_rtrancl)
  moreover have "orderly_step bare_env demo_queue demo_started"
    unfolding demo_started_def by (rule orderly_start [OF idle])
  moreover have "orderly_step bare_env demo_started demo_switched"
    unfolding demo_switched_def
    using orderly_call [OF step_timer [of bare_env "fst demo_started" "snd demo_started" 1 "user_frame 0x1010"]]
    by simp
  ultimately show ?thesis by (meson rtranclp.rtrancl_into_rtrancl)
qed

lemma demo_started_inv: "sched_inv (fst demo_started)"
proof -
  have "(sched_step bare_env)\<^sup>*\<^sup>* (scheduler64_init bare_env (scheduler_bss, 0)) (fst demo_started, snd demo_started)"
    using demo_started_reach by (simp add: demo_booted_def)
  then show ?thesis by (rule sched_reachable_inv)
qed

lemma single_runnerD:
  assumes q: "queue_shape s" and one: "single_runner s"
  shows "(\<forall>i j. scheduler64_runqueue_task_state s i = SCHEDULER64_TASK_RUNNING
          \<and> scheduler64_runqueue_task_state s j = SCHEDULER64_TASK_RUNNING \<longrightarrow> i = j)
      \<and> (rq_is_active s \<longrightarrow>
          (\<forall>i. scheduler64_runqueue_task_state s i = SCHEDULER64_TASK_RUNNING \<longrightarrow> i = current_of s))"
proof -
  obtain k where k: "runners s \<subseteq> {k}" "rq_is_active s \<longrightarrow> k = unat (current_of s)"
    using one by (auto simp: single_runner_def)
  have "unat i = k" if "scheduler64_runqueue_task_state s i = SCHEDULER64_TASK_RUNNING" for i
  proof -
    have "i < task_count s \<and> t_state (task_at s i) = SCHEDULER64_TASK_RUNNING"
      using that by (simp add: scheduler64_runqueue_task_state_def task_field_def not_le split: if_splits)
    then have "unat i \<in> runners s"
      using queue_shapeD(3) [OF q] by (simp add: runners_def task_at_def)
    with k(1) show ?thesis by blast
  qed
  then show ?thesis using k(2) by (auto simp: word_unat_eq_iff)
qed

lemma start_running:
  assumes q: "queue_shape s" and res: "scheduler64_runqueue_start env first (s, r) = (True, s1, r1)"
  shows "scheduler64_runqueue_task_state s first = SCHEDULER64_TASK_READY"
    "scheduler64_runqueue_task_state s1 i =
      (if i = first then SCHEDULER64_TASK_RUNNING else scheduler64_runqueue_task_state s i)"
proof -
  have f: "first < task_count s" "t_state (task_at s first) = SCHEDULER64_TASK_READY"
    using res by (auto simp: scheduler64_runqueue_start_def not_le split: if_splits)
  then show "scheduler64_runqueue_task_state s first = SCHEDULER64_TASK_READY"
    by (simp add: scheduler64_runqueue_task_state_def task_field_def)
  have "task_count s1 = task_count s" "tasks_of s1 = (tasks_of s)[unat first := (tasks_of s ! unat first)
      \<lparr>t_state := SCHEDULER64_TASK_RUNNING, t_dispatches := t_dispatches (tasks_of s ! unat first) + 1\<rparr>]"
    using res f
    by (auto simp: scheduler64_runqueue_start_def Let_def case_prod_unfold not_le
        scheduler64_restore_fs_base_for_task_def split: if_splits)
  then show "scheduler64_runqueue_task_state s1 i =
      (if i = first then SCHEDULER64_TASK_RUNNING else scheduler64_runqueue_task_state s i)"
    using f queue_shapeD(1,3) [OF q] word_unat_eq_iff [of i first]
    by (auto simp: scheduler64_runqueue_task_state_def task_field_def task_at_def)
qed

text \<open>
  C14: in every state the scheduler reaches from its initialisation by any sequence of calls, at most
  sixteen tasks are registered and each has a frame to resume; an active queue has a registered
  current task and an inactive one names no current process; no task waits twice in the sleep queue,
  and every pending entry is due exactly the requested number of ticks after it was made. If in
  addition \<^verbatim>\<open>scheduler64_runqueue_start\<close> was called only while no task was running, at most one task is
  running, and while the queue is active only the current one can be. The condition is needed: a start
  that succeeds while another task is running leaves both running.
\<close>

theorem scheduler64_single_runner:
  assumes "(sched_step env)\<^sup>*\<^sup>* (scheduler64_init env (s0, r0)) (s, r)"
  shows "unat (task_count s) \<le> 16
    \<and> (\<forall>i<task_count s. t_frame_valid (task_at s i)
         \<and> scheduler64_runqueue_task_state s i \<noteq> SCHEDULER64_TASK_UNUSED)
    \<and> (rq_is_active s \<longrightarrow> current_of s < task_count s)
    \<and> (\<not> rq_is_active s \<longrightarrow> scheduler64_runqueue_current_pid s = 0
         \<and> scheduler64_runqueue_current_task_id s = SCHEDULER64_INVALID_TASK)
    \<and> (\<forall>i<16. \<forall>j<16. i \<noteq> j \<and> se_active (g_scheduler64_sleep_queue s ! i)
         \<and> se_active (g_scheduler64_sleep_queue s ! j)
         \<longrightarrow> se_task_id (g_scheduler64_sleep_queue s ! i) \<noteq> se_task_id (g_scheduler64_sleep_queue s ! j))
    \<and> (\<forall>i<16. se_active (g_scheduler64_sleep_queue s ! i)
         \<longrightarrow> se_wake_tick (g_scheduler64_sleep_queue s ! i)
           = se_start_tick (g_scheduler64_sleep_queue s ! i)
             + se_requested_ticks (g_scheduler64_sleep_queue s ! i))
    \<and> ((orderly_step env)\<^sup>*\<^sup>* (scheduler64_init env (s0, r0)) (s, r) \<longrightarrow>
        (\<forall>i j. scheduler64_runqueue_task_state s i = SCHEDULER64_TASK_RUNNING
          \<and> scheduler64_runqueue_task_state s j = SCHEDULER64_TASK_RUNNING \<longrightarrow> i = j)
      \<and> (rq_is_active s \<longrightarrow>
          (\<forall>i. scheduler64_runqueue_task_state s i = SCHEDULER64_TASK_RUNNING \<longrightarrow> i = current_of s)))
    \<and> (\<forall>i first s1 r1. scheduler64_runqueue_task_state s i = SCHEDULER64_TASK_RUNNING
         \<and> scheduler64_runqueue_start env first (s, r) = (True, s1, r1) \<longrightarrow>
           first \<noteq> i \<and> scheduler64_runqueue_task_state s1 i = SCHEDULER64_TASK_RUNNING
         \<and> scheduler64_runqueue_task_state s1 first = SCHEDULER64_TASK_RUNNING)"
proof -
  have inv: "sched_inv s" by (rule sched_reachable_inv [OF assms])
  note q = queue_invD(1) [OF inv]
  have one: "(\<forall>i j. scheduler64_runqueue_task_state s i = SCHEDULER64_TASK_RUNNING
          \<and> scheduler64_runqueue_task_state s j = SCHEDULER64_TASK_RUNNING \<longrightarrow> i = j)
      \<and> (rq_is_active s \<longrightarrow>
          (\<forall>i. scheduler64_runqueue_task_state s i = SCHEDULER64_TASK_RUNNING \<longrightarrow> i = current_of s))"
    if "(orderly_step env)\<^sup>*\<^sup>* (scheduler64_init env (s0, r0)) (s, r)"
    by (rule single_runnerD [OF q queue_invD(2) [OF orderly_reachable_inv [OF that] TrueI]])
  have two: "first \<noteq> i \<and> scheduler64_runqueue_task_state s1 i = SCHEDULER64_TASK_RUNNING
         \<and> scheduler64_runqueue_task_state s1 first = SCHEDULER64_TASK_RUNNING"
    if "scheduler64_runqueue_task_state s i = SCHEDULER64_TASK_RUNNING"
      "scheduler64_runqueue_start env first (s, r) = (True, s1, r1)" for i first s1 r1
    using start_running [OF q that(2)] that(1) by auto
  have sl: "sleepers_ok s" by (rule queue_invD(3) [OF inv])
  have shape: "unat (task_count s) \<le> 16"
    "\<forall>i<task_count s. t_frame_valid (task_at s i) \<and> scheduler64_runqueue_task_state s i \<noteq> SCHEDULER64_TASK_UNUSED"
    "rq_is_active s \<longrightarrow> current_of s < task_count s"
    "\<not> rq_is_active s \<longrightarrow> scheduler64_runqueue_current_pid s = 0
         \<and> scheduler64_runqueue_current_task_id s = SCHEDULER64_INVALID_TASK"
    using queue_shapeD(2,4,5,6) [OF q]
    by (auto simp: scheduler64_runqueue_task_state_def task_field_def
        scheduler64_runqueue_current_pid_def scheduler64_runqueue_current_task_id_def)
  have sleep: "\<forall>i<16. \<forall>j<16. i \<noteq> j \<and> se_active (g_scheduler64_sleep_queue s ! i)
         \<and> se_active (g_scheduler64_sleep_queue s ! j)
         \<longrightarrow> se_task_id (g_scheduler64_sleep_queue s ! i) \<noteq> se_task_id (g_scheduler64_sleep_queue s ! j)"
    "\<forall>i<16. se_active (g_scheduler64_sleep_queue s ! i)
         \<longrightarrow> se_wake_tick (g_scheduler64_sleep_queue s ! i)
           = se_start_tick (g_scheduler64_sleep_queue s ! i)
             + se_requested_ticks (g_scheduler64_sleep_queue s ! i)"
    using sl by (auto simp: sleepers_ok_def)
  show ?thesis using shape sleep one two by blast
qed

theorem scheduler64_single_runner_witness:
  "current_of (fst demo_switched) = 1
   \<and> scheduler64_runqueue_task_state (fst demo_switched) 0 \<noteq> SCHEDULER64_TASK_RUNNING
   \<and> scheduler64_runqueue_task_state (fst demo_switched) 2 \<noteq> SCHEDULER64_TASK_RUNNING
   \<and> (let s1 = fst (snd (scheduler64_runqueue_start bare_env 2 demo_switched))
      in scheduler64_runqueue_task_state s1 1 = SCHEDULER64_TASK_RUNNING
       \<and> scheduler64_runqueue_task_state s1 2 = SCHEDULER64_TASK_RUNNING)"
proof -
  define sr where "sr = scheduler64_runqueue_start bare_env 2 demo_switched"
  have facts: "current_of (fst demo_switched) = 1 \<and> rq_is_active (fst demo_switched)
    \<and> scheduler64_runqueue_task_state (fst demo_switched) 1 = SCHEDULER64_TASK_RUNNING
    \<and> fst (scheduler64_runqueue_start bare_env 2 demo_switched)"
    by code_simp
  then have start: "scheduler64_runqueue_start bare_env 2 (fst demo_switched, snd demo_switched)
      = (True, fst (snd sr), snd (snd sr))"
    by (cases sr) (simp add: sr_def [symmetric])
  have runs: "(sched_step bare_env)\<^sup>*\<^sup>* (scheduler64_init bare_env (scheduler_bss, 0)) (fst demo_switched, snd demo_switched)"
    "(orderly_step bare_env)\<^sup>*\<^sup>* (scheduler64_init bare_env (scheduler_bss, 0)) (fst demo_switched, snd demo_switched)"
    using demo_switched_reach demo_switched_orderly by (simp_all add: demo_booted_def)
  note main = scheduler64_single_runner [OF runs(1)]
  have cur: "i = 1" if "scheduler64_runqueue_task_state (fst demo_switched) i = SCHEDULER64_TASK_RUNNING" for i
    using main runs(2) facts that by metis
  have "scheduler64_runqueue_task_state (fst demo_switched) 0 \<noteq> SCHEDULER64_TASK_RUNNING"
    "scheduler64_runqueue_task_state (fst demo_switched) 2 \<noteq> SCHEDULER64_TASK_RUNNING"
    using cur [of 0] cur [of 2] by auto
  moreover have "scheduler64_runqueue_task_state (fst (snd sr)) 1 = SCHEDULER64_TASK_RUNNING
       \<and> scheduler64_runqueue_task_state (fst (snd sr)) 2 = SCHEDULER64_TASK_RUNNING"
    using main facts start by metis
  ultimately show ?thesis using facts by (auto simp: sr_def [symmetric] Let_def)
qed


section \<open>Parking tasks\<close>

text \<open>
  The contract under which pipes, futexes and waits park the current task and wake it later:
  blocking parks exactly the named task or changes no task's state, waking readies exactly a
  parked task.
\<close>

locale task_parking =
  fixes block :: "u32 \<Rightarrow> 's \<Rightarrow> bool \<times> 's"
    and wake :: "u32 \<Rightarrow> 's \<Rightarrow> bool \<times> 's"
    and state :: "'s \<Rightarrow> u32 \<Rightarrow> task_state"
    and ok :: "'s \<Rightarrow> bool"
  assumes block_ok: "ok s \<Longrightarrow> ok (snd (block i s))"
    and wake_ok: "ok s \<Longrightarrow> ok (snd (wake i s))"
    and block_parks: "ok s \<Longrightarrow> state (snd (block i s)) j =
      (if fst (block i s) \<and> j = i then SCHEDULER64_TASK_BLOCKED else state s j)"
    and wake_iff: "ok s \<Longrightarrow> fst (wake i s) \<longleftrightarrow> state s i = SCHEDULER64_TASK_BLOCKED"
    and wake_readies: "ok s \<Longrightarrow> state (snd (wake i s)) j =
      (if state s i = SCHEDULER64_TASK_BLOCKED \<and> j = i then SCHEDULER64_TASK_READY else state s j)"
begin

text \<open>A parked task is woken by the first wake, and a second wake finds it gone.\<close>

lemma park_wake:
  assumes "ok s" and "fst (block i s)"
  defines "s1 \<equiv> snd (block i s)"
  shows "fst (wake i s1)" "state (snd (wake i s1)) i = SCHEDULER64_TASK_READY"
    "\<not> fst (wake i (snd (wake i s1)))"
    "j \<noteq> i \<Longrightarrow> state (snd (wake i s1)) j = state s j"
proof -
  have ok1: "ok s1" unfolding s1_def by (rule block_ok [OF assms(1)])
  have st: "state s1 j = (if j = i then SCHEDULER64_TASK_BLOCKED else state s j)" for j
    using block_parks [OF assms(1)] assms(2) by (simp add: s1_def)
  show "fst (wake i s1)" using wake_iff [OF ok1] st by simp
  show r: "state (snd (wake i s1)) i = SCHEDULER64_TASK_READY" using wake_readies [OF ok1] st by simp
  show "\<not> fst (wake i (snd (wake i s1)))" using wake_iff [OF wake_ok [OF ok1]] r by simp
  show "j \<noteq> i \<Longrightarrow> state (snd (wake i s1)) j = state s j" using wake_readies [OF ok1] st by simp
qed

end

lemma task_state_eq:
  "scheduler64_runqueue_task_state s i =
    (if i < task_count s then state_of s (unat i) else SCHEDULER64_TASK_UNUSED)"
  by (auto simp: scheduler64_runqueue_task_state_def task_field_def task_at_def)

lemma block_state:
  assumes inv: "sched_inv s"
  shows "scheduler64_runqueue_task_state (snd (scheduler64_runqueue_block_task i s)) j =
    (if fst (scheduler64_runqueue_block_task i s) \<and> j = i then SCHEDULER64_TASK_BLOCKED
     else scheduler64_runqueue_task_state s j)"
proof -
  note q = queue_invD(1) [OF inv]
  have "scheduler64_runqueue_task_state (set_task_state SCHEDULER64_TASK_BLOCKED i s') j =
      (if j = i then SCHEDULER64_TASK_BLOCKED else scheduler64_runqueue_task_state s j)"
    if "g_runqueue s' = g_runqueue s" "i < task_count s" for s' j
    using that queue_shapeD(1,3) [OF q]
    by (auto simp: task_state_eq set_task_state_def nth_list_update word_unat_eq_iff word_less_nat_alt)
  moreover have "scheduler64_runqueue_task_state (upd_rq (\<lambda>q. q\<lparr>rq_blocks := rq_blocks q + 1\<rparr>) s') j
      = scheduler64_runqueue_task_state s' j"
    "scheduler64_runqueue_task_state (rq_deny s') j = scheduler64_runqueue_task_state s' j" for s' j
    by (simp_all add: task_state_eq rq_deny_def)
  moreover have "scheduler64_runqueue_task_state (snd (scheduler64_next_runnable i s)) j
      = scheduler64_runqueue_task_state s j" for j
    by (simp add: task_state_eq)
  ultimately show ?thesis
    by (simp add: scheduler64_runqueue_block_task_def Let_def case_prod_unfold not_le)
qed

lemma wake_replay_state:
  assumes inv: "sched_inv s"
  shows "fst (scheduler64_runqueue_wake_task_replay i s) \<longleftrightarrow>
      scheduler64_runqueue_task_state s i = SCHEDULER64_TASK_BLOCKED"
    "scheduler64_runqueue_task_state (snd (scheduler64_runqueue_wake_task_replay i s)) j =
      (if scheduler64_runqueue_task_state s i = SCHEDULER64_TASK_BLOCKED \<and> j = i
       then SCHEDULER64_TASK_READY else scheduler64_runqueue_task_state s j)"
proof -
  note q = queue_invD(1) [OF inv]
  have r: "wake_refused i s \<longleftrightarrow> scheduler64_runqueue_task_state s i \<noteq> SCHEDULER64_TASK_BLOCKED"
    using queue_shapeD(4) [OF q, of i]
    by (auto simp: wake_refused_def scheduler64_runqueue_task_state_def task_field_def not_le)
  show "fst (scheduler64_runqueue_wake_task_replay i s) \<longleftrightarrow>
      scheduler64_runqueue_task_state s i = SCHEDULER64_TASK_BLOCKED"
    by (simp add: scheduler64_runqueue_wake_task_replay_def r)
  show "scheduler64_runqueue_task_state (snd (scheduler64_runqueue_wake_task_replay i s)) j =
      (if scheduler64_runqueue_task_state s i = SCHEDULER64_TASK_BLOCKED \<and> j = i
       then SCHEDULER64_TASK_READY else scheduler64_runqueue_task_state s j)"
    using queue_shapeD(1,3) [OF q]
    by (auto simp: scheduler64_runqueue_wake_task_replay_def r task_state_eq rq_deny_def
        prefer_woken_def set_task_state_def nth_list_update word_unat_eq_iff word_less_nat_alt)
qed

interpretation parking: task_parking
  scheduler64_runqueue_block_task scheduler64_runqueue_wake_task_replay
  scheduler64_runqueue_task_state sched_inv
  by unfold_locales (simp_all add: inv_block inv_wake block_state wake_replay_state)


text \<open>
  C32: a running task is blocked exactly when the queue is active, it is the current task and
  some other task is ready to take over, so the last runnable task is never parked. A refusal
  leaves every task as it was and is counted. When the queue is active and the task is the current
  one, the search for a successor uses up the one-shot preference for the task woken last, whether or
  not the task is then blocked; otherwise there is no search and the preference stays. So the switch
  that follows a block chooses by round robin.
\<close>

theorem scheduler64_block_current_exact:
  assumes reach: "(sched_step env)\<^sup>*\<^sup>* (scheduler64_init env (s0, r0)) (s, r)"
    and run: "scheduler64_runqueue_task_state s i = SCHEDULER64_TASK_RUNNING"
    and res: "scheduler64_runqueue_block_task i s = (blocked, s')"
  shows "(blocked \<longleftrightarrow> rq_is_active s \<and> current_of s = i
      \<and> (\<exists>j. j \<noteq> i \<and> scheduler64_runqueue_task_state s j = SCHEDULER64_TASK_READY))
    \<and> (\<forall>j. scheduler64_runqueue_task_state s' j =
        (if blocked \<and> j = i then SCHEDULER64_TASK_BLOCKED else scheduler64_runqueue_task_state s j))
    \<and> rq_block_denials (g_runqueue s') = rq_block_denials (g_runqueue s) + (if blocked then 0 else 1)
    \<and> g_scheduler64_preferred_task s' = (if rq_is_active s \<and> current_of s = i
         then SCHEDULER64_INVALID_TASK else g_scheduler64_preferred_task s)
    \<and> (blocked \<longrightarrow> fst (scheduler64_next_runnable i s') = (case round_robin s' i of
             Some k \<Rightarrow> k | None \<Rightarrow> SCHEDULER64_INVALID_TASK))"
proof -
  have inv: "sched_inv s" by (rule sched_reachable_inv [OF reach])
  note q = queue_invD(1) [OF inv]
  have i: "i < task_count s" and ti: "t_state (task_at s i) = SCHEDULER64_TASK_RUNNING"
    using run by (auto simp: scheduler64_runqueue_task_state_def task_field_def not_le split: if_splits)
  have v: "t_frame_valid (task_at s i)" by (rule queue_shapeD(4) [OF q i])
  have eff: "scheduler64_runqueue_block_task i s =
    (if \<not> (rq_is_active s \<and> current_of s = i) then (False, rq_deny s)
     else if fst (scheduler64_next_runnable i s) = SCHEDULER64_INVALID_TASK
     then (False, rq_deny (snd (scheduler64_next_runnable i s)))
     else (True, upd_rq (\<lambda>q. q\<lparr>rq_blocks := rq_blocks q + 1\<rparr>)
            (set_task_state SCHEDULER64_TASK_BLOCKED i (snd (scheduler64_next_runnable i s)))))"
    using i ti v by (auto simp: scheduler64_runqueue_block_task_def Let_def case_prod_unfold)
  have ready: "(\<exists>j. j \<noteq> i \<and> scheduler64_runqueue_task_state s j = SCHEDULER64_TASK_READY)
      \<longleftrightarrow> fst (scheduler64_next_runnable i s) \<noteq> SCHEDULER64_INVALID_TASK"
    unfolding next_runnable_None_iff [OF q i]
    by (auto simp: scheduler64_runqueue_task_state_def task_field_def not_le)
  have b: "blocked \<longleftrightarrow> rq_is_active s \<and> current_of s = i
      \<and> (\<exists>j. j \<noteq> i \<and> scheduler64_runqueue_task_state s j = SCHEDULER64_TASK_READY)"
    unfolding ready using eff res by (auto split: if_splits)
  have st: "\<forall>j. scheduler64_runqueue_task_state s' j =
        (if blocked \<and> j = i then SCHEDULER64_TASK_BLOCKED else scheduler64_runqueue_task_state s j)"
    using block_state [OF inv, of i] res by simp
  have d: "rq_block_denials (g_runqueue s') = rq_block_denials (g_runqueue s) + (if blocked then 0 else 1)"
    using eff res by (auto simp: rq_deny_def set_task_state_def upd_task_def split: if_splits)
  have pref: "g_scheduler64_preferred_task (snd (scheduler64_next_runnable i s)) = SCHEDULER64_INVALID_TASK"
    using i by (auto simp: scheduler64_next_runnable_def Let_def split: option.split)
  have p: "g_scheduler64_preferred_task s' = (if rq_is_active s \<and> current_of s = i
         then SCHEDULER64_INVALID_TASK else g_scheduler64_preferred_task s)"
    using eff res pref by (auto simp: set_task_state_def rq_deny_def split: if_splits)
  have n: "fst (scheduler64_next_runnable i s') = (case round_robin s' i of
             Some k \<Rightarrow> k | None \<Rightarrow> SCHEDULER64_INVALID_TASK)" if blocked
  proof -
    have "task_count s' = task_count s" using eff res by (auto simp: set_task_state_def rq_deny_def split: if_splits)
    then have c: "task_count s' \<noteq> 0" "\<not> SCHEDULER64_INVALID_TASK < task_count s'"
      using i queue_shapeD(2) [OF q] by (auto simp: word_less_nat_alt)
    show ?thesis
      using p b that c by (auto simp: scheduler64_next_runnable_def Let_def split: option.split)
  qed
  show ?thesis using b st d p n by blast
qed

theorem scheduler64_block_current_exact_witness:
  "fst (scheduler64_runqueue_block_task 0 (fst demo_started))
   \<and> scheduler64_runqueue_task_state (snd (scheduler64_runqueue_block_task 0 (fst demo_started))) 0
     = SCHEDULER64_TASK_BLOCKED"
proof -
  have run: "scheduler64_runqueue_task_state (fst demo_started) 0 = SCHEDULER64_TASK_RUNNING"
    and ready: "rq_is_active (fst demo_started) \<and> current_of (fst demo_started) = 0
      \<and> scheduler64_runqueue_task_state (fst demo_started) 1 = SCHEDULER64_TASK_READY"
    by code_simp+
  have reach: "(sched_step bare_env)\<^sup>*\<^sup>* (scheduler64_init bare_env (scheduler_bss, 0))
      (fst demo_started, snd demo_started)"
    using demo_started_reach by (simp add: demo_booted_def)
  have "\<exists>j. j \<noteq> 0 \<and> scheduler64_runqueue_task_state (fst demo_started) j = SCHEDULER64_TASK_READY"
    by (rule exI [of _ 1]) (use ready in simp)
  then show ?thesis
    using scheduler64_block_current_exact [OF reach run prod.collapse [symmetric]] ready by simp
qed


section \<open>Round robin\<close>

text \<open>A run of timer interrupts, each with the tick count it reads and the frame it interrupts.\<close>

fun timer_run ::
    "('r, 'z) sched_env_scheme \<Rightarrow> (u32 \<times> interrupt_frame64) list \<Rightarrow> scheduler_state \<times> 'r \<Rightarrow>
     scheduler_state \<times> 'r" where
  "timer_run env [] sr = sr"
| "timer_run env ((now, frame) # irqs) sr =
     timer_run env irqs (snd (snd (scheduler64_runqueue_on_timer env now frame sr)))"

text \<open>How many slots after \<open>c\<close> the slot \<open>t\<close> comes in the cyclic order of \<open>n\<close> tasks.\<close>

definition cyclic_distance :: "u32 \<Rightarrow> u32 \<Rightarrow> u32 \<Rightarrow> nat" where
  "cyclic_distance n c t = (unat t + unat n - unat c) mod unat n"

lemma cyclic_distance_cases:
  assumes "c < n" and "t < n"
  shows "cyclic_distance n c t =
    (if unat c \<le> unat t then unat t - unat c else unat t + unat n - unat c)"
  using assms by (auto simp: cyclic_distance_def word_less_nat_alt mod_if)

lemma cyclic_distance_step:
  assumes c: "c < n" and t: "t < n" and x: "unat x = (unat c + k) mod unat n"
    and k: "k \<le> cyclic_distance n c t"
  shows "cyclic_distance n x t = cyclic_distance n c t - k"
proof -
  have b: "unat c < unat n" "unat t < unat n" using c t by (simp_all add: word_less_nat_alt)
  have "cyclic_distance n c t < unat n" using b by (simp add: cyclic_distance_def)
  with k have kn: "k < unat n" by simp
  have x': "unat x = (if unat c + k < unat n then unat c + k else unat c + k - unat n)"
    using x b kn by (simp add: cyclic_add)
  have xn: "x < n" using x b by (simp add: word_less_nat_alt)
  show ?thesis
    unfolding cyclic_distance_cases [OF xn t] using k x' b kn
    unfolding cyclic_distance_cases [OF c t] by (auto split: if_splits)
qed

definition no_sleepers :: "scheduler_state \<Rightarrow> bool" where
  "no_sleepers s \<longleftrightarrow> (\<forall>e\<in>set (g_scheduler64_sleep_queue s). \<not> se_active e)"

lemma wake_expired_none:
  assumes "sched_inv s" and "no_sleepers s"
  shows "scheduler64_sleep_wake_expired env now (s, r) = (0, s, r)"
proof -
  have len: "length (g_scheduler64_sleep_queue s) = 16"
    using queue_invD(3) [OF assms(1)] by (simp add: sleepers_ok_def)
  have "fold (sleep_wake_entry env now) [0..<k] (0, s, r) = (0, s, r)" if "k \<le> 16" for k
    using that
  proof (induction k)
    case (Suc k)
    have "\<not> se_active (g_scheduler64_sleep_queue s ! k)"
      using assms(2) Suc.prems len by (auto simp: no_sleepers_def)
    with Suc show ?case by (simp add: sleep_wake_entry_def)
  qed simp
  then show ?thesis
    by (simp add: scheduler64_sleep_wake_expired_def SCHEDULER64_SLEEP_QUEUE_TASK_LIMIT_def)
qed

text \<open>With a ready task \<open>t\<close> ahead, the round robin stops at it or before it.\<close>

lemma round_robin_before:
  assumes q: "queue_shape s" and c: "c < task_count s" and t: "t < task_count s" and "t \<noteq> c"
    and ready: "t_state (task_at s t) = SCHEDULER64_TASK_READY"
  obtains x k where "round_robin s c = Some x" "1 \<le> k" "k \<le> cyclic_distance (task_count s) c t"
    "unat x = (unat c + k) mod unat (task_count s)"
proof -
  define n where "n = unat (task_count s)"
  define d where "d = cyclic_distance (task_count s) c t"
  define cand where "cand = (\<lambda>off. (c + of_nat off) mod task_count s)"
  have b: "unat c < n" "unat t < n" "unat t \<noteq> unat c"
    using c t \<open>t \<noteq> c\<close> by (simp_all add: n_def word_less_nat_alt word_unat_eq_iff)
  have d: "1 \<le> d" "d < n" "(unat c + d) mod n = unat t"
    using b by (auto simp: d_def cyclic_distance_cases [OF c t] n_def [symmetric] cyclic_add)
  have un: "unat (cand k) = (unat c + k) mod n" if "k \<le> n" for k
    using unat_candidate [OF c _ queue_shapeD(2) [OF q]] that by (simp add: cand_def n_def)
  have "cand d = t" using un [of d] d by (simp add: word_unat_eq_iff)
  then have pd: "task_runnable (task_at s (cand d))"
    using ready queue_shapeD(4) [OF q t] by (simp add: task_runnable_def)
  have rr: "round_robin s c = find (\<lambda>i. task_runnable (task_at s i)) (map cand [1..<n])"
    by (simp add: round_robin_def cand_def n_def)
  have "cand d \<in> set (map cand [1..<n])" using d by auto
  with pd have "find (\<lambda>i. task_runnable (task_at s i)) (map cand [1..<n]) \<noteq> None"
    by (auto simp: find_None_iff)
  then obtain x where x: "find (\<lambda>i. task_runnable (task_at s i)) (map cand [1..<n]) = Some x" by blast
  then obtain m where m: "m < n - 1" "x = cand (Suc m)"
    and first: "\<And>j. j < m \<Longrightarrow> \<not> task_runnable (task_at s (cand (Suc j)))"
    by (auto simp: find_Some_iff)
  have "Suc m \<le> d"
  proof (rule ccontr)
    assume "\<not> Suc m \<le> d"
    with d(1) have "d - 1 < m" and "Suc (d - 1) = d" by arith+
    with first [of "d - 1"] pd show False by simp
  qed
  then show thesis
    using that [of x "Suc m"] x rr m un [of "Suc m"] by (simp add: d_def n_def)
qed


text \<open>
  The effect of one timer interrupt from user mode when nobody sleeps and no task is preferred:
  the queue moves on to the next ready task.
\<close>

definition plain :: "scheduler_state \<Rightarrow> bool" where
  "plain s \<longleftrightarrow> sched_inv s \<and> rq_is_active s \<and> no_sleepers s
     \<and> g_scheduler64_preferred_task s = SCHEDULER64_INVALID_TASK"

lemma timer_select_plain:
  assumes p: "plain s"
  obtains s3 where "timer_select env now frame (s, r) = (s3, r)" "plain s3"
    "current_of s3 = current_of s" "task_count s3 = task_count s"
    "\<And>j. j < task_count s \<Longrightarrow> j \<noteq> current_of s \<Longrightarrow> task_at s3 j = task_at s j"
proof -
  have inv: "sched_inv s" and act: "rq_is_active s" and ns: "no_sleepers s"
    using p by (simp_all add: plain_def)
  note q = queue_invD(1) [OF inv]
  define c where "c = current_of s"
  have c: "c < task_count s" using queue_shapeD(6) [OF q act] by (simp add: c_def)
  define s1 where "s1 = save_context c frame (upd_rq (\<lambda>q. q\<lparr>rq_irqs := rq_irqs q + 1\<rparr>) s)"
  define s2 where "s2 = (if t_state (task_at s1 c) = SCHEDULER64_TASK_RUNNING
    then set_task_state SCHEDULER64_TASK_READY c s1 else s1)"
  define s3 where "s3 = note_segments frame s2"
  have sq: "g_scheduler64_sleep_queue s3 = g_scheduler64_sleep_queue s"
    "g_scheduler64_preferred_task s3 = g_scheduler64_preferred_task s"
    by (simp_all add: s3_def note_segments_def s2_def set_task_state_def s1_def save_context_def
        scheduler64_save_fs_base_for_task_def)
  have other: "task_at s3 j = task_at s j" if "j < task_count s" "j \<noteq> c" for j
    using that by (auto simp: s3_def note_segments_def s2_def set_task_state_def s1_def
        save_context_def scheduler64_save_fs_base_for_task_def task_at_def word_unat_eq_iff)
  have raw: "timer_select env now frame (s, r) =
      snd (scheduler64_sleep_wake_expired env now (s3, r))"
    unfolding timer_select_def Let_def prod.case c_def [symmetric] s1_def [symmetric]
      s2_def [symmetric] s3_def [symmetric] ..
  have i3: "sched_inv s3"
  proof -
    have "sched_inv (upd_rq (\<lambda>q. q\<lparr>rq_irqs := rq_irqs q + 1\<rparr>) s)"
      by (rule same_queue_inv [THEN iffD2, OF _ inv]) (simp add: same_queue_def)
    then have i1: "sched_inv s1" "task_count s1 = task_count s"
      using inv_save_context c by (simp_all add: s1_def)
    then have "sched_inv s2" using inv_set_state [OF i1(1)] c by (simp add: s2_def)
    then show ?thesis by (simp add: s3_def)
  qed
  have "no_sleepers s3" using ns sq by (simp add: no_sleepers_def)
  then have eq: "timer_select env now frame (s, r) = (s3, r)"
    by (simp add: raw wake_expired_none [OF i3])
  note t = timer_select_inv [OF inv act eq]
  have "plain s3" using t p sq by (simp add: plain_def no_sleepers_def)
  with eq t other show thesis using that by (simp add: c_def)
qed

lemma timer_plain:
  assumes p: "plain s" and u: "from_user frame"
    and sw: "\<And>pid reason r. fst (env_switch_process env pid reason r)"
    and t: "t < task_count s" "t \<noteq> current_of s" "t_state (task_at s t) = SCHEDULER64_TASK_READY"
  obtains s' r' k where
    "snd (snd (scheduler64_runqueue_on_timer env now frame (s, r))) = (s', r')"
    "plain s'" "task_count s' = task_count s" "1 \<le> k"
    "k \<le> cyclic_distance (task_count s) (current_of s) t"
    "unat (current_of s') = (unat (current_of s) + k) mod unat (task_count s)"
    "t_state (task_at s' (current_of s')) = SCHEDULER64_TASK_RUNNING"
    "t \<noteq> current_of s' \<Longrightarrow> t_state (task_at s' t) = SCHEDULER64_TASK_READY"
proof -
  obtain s3 where sel: "timer_select env now frame (s, r) = (s3, r)" and p3: "plain s3"
    and c3: "current_of s3 = current_of s" and n3: "task_count s3 = task_count s"
    and o3: "\<And>j. j < task_count s \<Longrightarrow> j \<noteq> current_of s \<Longrightarrow> task_at s3 j = task_at s j"
    using timer_select_plain [OF p, where env = env and now = now and frame = frame and r = r] by blast
  have inv: "sched_inv s" and act: "rq_is_active s" using p by (simp_all add: plain_def)
  have i3: "sched_inv s3" "no_sleepers s3" and pr3: "g_scheduler64_preferred_task s3 = SCHEDULER64_INVALID_TASK"
    using p3 by (simp_all add: plain_def)
  note q3 = queue_invD(1) [OF i3(1)]
  have c: "current_of s < task_count s" by (rule queue_shapeD(6) [OF queue_invD(1) [OF inv] act])
  have t3: "t_state (task_at s3 t) = SCHEDULER64_TASK_READY" using o3 t by simp
  obtain x k where rr: "round_robin s3 (current_of s) = Some x" and k: "1 \<le> k"
    "k \<le> cyclic_distance (task_count s) (current_of s) t"
    and x: "unat x = (unat (current_of s) + k) mod unat (task_count s)"
    using round_robin_before [OF q3, of "current_of s" t] c t t3 n3 by metis
  have xv: "x < task_count s3" "x \<noteq> SCHEDULER64_INVALID_TASK"
    using round_robin_Some(1) [OF q3 _ rr] c n3 not_invalid_task [OF q3] by simp_all
  have big: "\<not> SCHEDULER64_INVALID_TASK < task_count s3" "task_count s3 \<noteq> 0"
    using queue_shapeD(2) [OF q3] c n3 by (auto simp: word_less_nat_alt)
  define s4 where "s4 = s3\<lparr>g_scheduler64_preferred_task := SCHEDULER64_INVALID_TASK\<rparr>"
  have s4: "s4 = s3" using pr3 by (simp add: s4_def)
  have nx: "scheduler64_next_runnable (current_of s) s3 = (x, s3)"
    using rr pr3 big s4 by (simp add: scheduler64_next_runnable_def Let_def s4_def)
  define s5 where "s5 = dispatch_to x s3"
  have act3: "rq_is_active s3" using p3 by (simp add: plain_def)
  note d = dispatch_to_inv [OF i3(1) act3 _ xv(1), simplified, folded s5_def]
  have x16: "unat x < 16" by (rule queue_shapeD(3) [OF q3 xv(1)])
  have o5: "g_scheduler64_sleep_queue s5 = g_scheduler64_sleep_queue s3"
    "g_scheduler64_preferred_task s5 = g_scheduler64_preferred_task s3" "task_count s5 = task_count s3"
    by (simp_all add: s5_def dispatch_to_def scheduler64_restore_fs_base_for_task_def)
  have t5: "task_at s5 j = task_at s3 j" if "j \<noteq> x" for j
    using that by (simp add: s5_def dispatch_to_def scheduler64_restore_fs_base_for_task_def
        task_at_def word_unat_eq_iff)
  have run: "t_state (task_at s5 x) = SCHEDULER64_TASK_RUNNING"
    using x16 queue_shapeD(1) [OF q3]
    by (simp add: s5_def dispatch_to_def scheduler64_restore_fs_base_for_task_def task_at_def)
  define s' where "s' = note_segments (t_frame (task_at s5 x)) s5"
  define r' where "r' = snd (scheduler64_switch_cr3_for_task env (task_at s3 x) SCHEDULER64_CR3_REASON_TIMER r)"
  have swx: "fst (scheduler64_switch_cr3_for_task env (task_at s3 x) SCHEDULER64_CR3_REASON_TIMER r)"
    using sw by (simp add: scheduler64_switch_cr3_for_task_def)
  have "snd (snd (scheduler64_runqueue_on_timer env now frame (s, r))) = (s', r')"
    unfolding on_timer_unfold [OF act c u sel nx]
    using xv(2) swx by (simp add: case_prod_unfold Let_def s'_def r'_def s5_def)
  moreover have "plain s'"
    using d o5 i3(2) pr3 by (simp add: plain_def s'_def no_sleepers_def) (simp add: note_segments_def)
  moreover have "current_of s' = x" "task_count s' = task_count s" "task_at s' = task_at s5"
    using d(2) o5(3) n3 by (simp_all add: s'_def note_segments_def task_at_def fun_eq_iff)
  ultimately show thesis
    using that [of s' r' k] k x run t5 t3 by simp
qed

text \<open>
  C5: under timer interrupts alone every ready task gets the processor: when nobody sleeps, no
  woken task is preferred and page roots can be switched, a ready task that comes \<open>d\<close> slots
  after the current one in the cyclic order of the queue is running after at most \<open>d\<close>
  interrupts from user mode, whatever the interrupted frames and tick counts are.
\<close>

theorem scheduler64_round_robin_reaches:
  assumes reach: "(sched_step env)\<^sup>*\<^sup>* (scheduler64_init env (s0, r0)) (s, r)"
    and "rq_is_active s" and "no_sleepers s"
    and "g_scheduler64_preferred_task s = SCHEDULER64_INVALID_TASK"
    and sw: "\<And>pid reason r. fst (env_switch_process env pid reason r)"
    and t: "t \<noteq> current_of s" "scheduler64_runqueue_task_state s t = SCHEDULER64_TASK_READY"
    and irqs: "cyclic_distance (task_count s) (current_of s) t \<le> length irqs"
      "\<forall>(now, frame)\<in>set irqs. from_user frame"
  shows "\<exists>k. 1 \<le> k \<and> k \<le> cyclic_distance (task_count s) (current_of s) t
    \<and> current_of (fst (timer_run env (take k irqs) (s, r))) = t
    \<and> scheduler64_runqueue_task_state (fst (timer_run env (take k irqs) (s, r))) t
      = SCHEDULER64_TASK_RUNNING"
proof -
  have tr: "t < task_count s" "t_state (task_at s t) = SCHEDULER64_TASK_READY"
    using t(2) by (auto simp: scheduler64_runqueue_task_state_def task_field_def not_le split: if_splits)
  have "plain s" using assms(2-4) sched_reachable_inv [OF reach] by (simp add: plain_def)
  then show ?thesis using t(1) tr irqs
  proof (induction "cyclic_distance (task_count s) (current_of s) t" arbitrary: s r irqs
      rule: less_induct)
    case less
    define d where "d = cyclic_distance (task_count s) (current_of s) t"
    have c: "current_of s < task_count s"
      using less.prems(1) by (auto simp: plain_def queue_inv_def queue_shape_def)
    have "1 \<le> d"
      using cyclic_distance_cases [OF c less.prems(3)] less.prems(2) c less.prems(3)
      by (auto simp: d_def word_less_nat_alt word_unat_eq_iff split: if_splits)
    then obtain now frame rest where i: "irqs = (now, frame) # rest" and u: "from_user frame"
      using less.prems(5,6) by (cases irqs) (auto simp: d_def)
    obtain s' r' k where step: "snd (snd (scheduler64_runqueue_on_timer env now frame (s, r))) = (s', r')"
      and p': "plain s'" "task_count s' = task_count s" and k: "1 \<le> k" "k \<le> d"
      and cur: "unat (current_of s') = (unat (current_of s) + k) mod unat (task_count s)"
      and run: "t_state (task_at s' (current_of s')) = SCHEDULER64_TASK_RUNNING"
      and tr': "t \<noteq> current_of s' \<Longrightarrow> t_state (task_at s' t) = SCHEDULER64_TASK_READY"
      using timer_plain [OF less.prems(1) u sw less.prems(3,2,4)] unfolding d_def by metis
    show ?case
    proof (cases "t = current_of s'")
      case True
      then show ?thesis
        using step run \<open>1 \<le> d\<close> less.prems(3) p'(2)
        by (intro exI [of _ 1]) (simp add: i d_def scheduler64_runqueue_task_state_def task_field_def)
    next
      case False
      have dist: "cyclic_distance (task_count s') (current_of s') t = d - k"
        using cyclic_distance_step [OF c less.prems(3) cur] k p'(2) by (simp add: d_def)
      with k have "cyclic_distance (task_count s') (current_of s') t
          < cyclic_distance (task_count s) (current_of s) t"
        by (simp add: d_def)
      moreover have "d - k \<le> length rest"
        using less.prems(5) i k by (simp add: d_def)
      ultimately obtain m where m: "1 \<le> m" "m \<le> d - k"
        "current_of (fst (timer_run env (take m rest) (s', r'))) = t"
        "scheduler64_runqueue_task_state (fst (timer_run env (take m rest) (s', r'))) t
          = SCHEDULER64_TASK_RUNNING"
        using less.hyps [of s' rest r'] p' False less.prems(3,5,6) tr' dist k i by (auto simp: d_def)
      then show ?thesis
        using k by (intro exI [of _ "Suc m"]) (simp add: i step d_def)
    qed
  qed
qed

theorem scheduler64_round_robin_reaches_witness:
  "\<exists>k. 1 \<le> k \<and> k \<le> 2
    \<and> current_of (fst (timer_run bare_env
        (take k [(1, user_frame 0x1010), (2, user_frame 0x2010)]) demo_started)) = 2"
proof -
  have c: "rq_is_active (fst demo_started) \<and> list_all (\<lambda>e. \<not> se_active e) (g_scheduler64_sleep_queue (fst demo_started))
    \<and> g_scheduler64_preferred_task (fst demo_started) = SCHEDULER64_INVALID_TASK
    \<and> 2 \<noteq> current_of (fst demo_started)
    \<and> scheduler64_runqueue_task_state (fst demo_started) 2 = SCHEDULER64_TASK_READY
    \<and> cyclic_distance (task_count (fst demo_started)) (current_of (fst demo_started)) 2 = 2
    \<and> from_user (user_frame 0x1010) \<and> from_user (user_frame 0x2010)"
    by code_simp
  have reach: "(sched_step bare_env)\<^sup>*\<^sup>* (scheduler64_init bare_env (scheduler_bss, 0))
      (fst demo_started, snd demo_started)"
    using demo_started_reach by (simp add: demo_booted_def)
  have sw: "\<And>pid reason r. fst (env_switch_process bare_env pid reason r)" by (simp add: bare_env_def)
  show ?thesis
    using scheduler64_round_robin_reaches [OF reach _ _ _ sw, of 2 "[(1, user_frame 0x1010), (2, user_frame 0x2010)]"] c
    by (auto simp: no_sleepers_def list_all_iff)
qed



section \<open>Sleeping\<close>


text \<open>
  The effect of a timer interrupt from user mode on an active queue: expired sleepers and the interrupted
  task are ready, and of the ready tasks the one that is then current runs.
\<close>

lemma timer_select_states:
  assumes inv: "sched_inv s" and act: "rq_is_active s"
    and sel: "timer_select env now frame (s, r) = (s3, r3)"
  shows "i < 16 \<Longrightarrow> state_of s3 i =
      (if expired now s 16 i \<and> state_of s i = SCHEDULER64_TASK_BLOCKED
         \<or> i = unat (current_of s) \<and> state_of s i = SCHEDULER64_TASK_RUNNING
       then SCHEDULER64_TASK_READY else state_of s i)"
    "j < 16 \<Longrightarrow> g_scheduler64_sleep_queue s3 ! j =
      (if entry_reached now (g_scheduler64_sleep_queue s ! j)
       then scheduler64_clear_sleep_entry else g_scheduler64_sleep_queue s ! j)"
proof -
  define c where "c = current_of s"
  note q = queue_invD(1) [OF inv]
  have c: "c < task_count s" using queue_shapeD(6) [OF q act] by (simp add: c_def)
  define s0 where "s0 = upd_rq (\<lambda>q. q\<lparr>rq_irqs := rq_irqs q + 1\<rparr>) s"
  define s1 where "s1 = save_context c frame s0"
  define s2 where "s2 = (if t_state (task_at s1 c) = SCHEDULER64_TASK_RUNNING
    then set_task_state SCHEDULER64_TASK_READY c s1 else s1)"
  define s2' where "s2' = note_segments frame s2"
  have s0: "sched_inv s0"
    by (rule same_queue_inv [THEN iffD2, OF _ inv]) (simp add: s0_def same_queue_def)
  have s1: "sched_inv s1" "task_count s1 = task_count s"
    using inv_save_context [OF s0] c by (simp_all add: s1_def s0_def)
  have inv2: "sched_inv s2'"
    using s1 c inv_set_state [OF s1(1)] by (simp add: s2'_def s2_def)
  have st: "state_of s2' i = (if i = unat c \<and> state_of s i = SCHEDULER64_TASK_RUNNING
      then SCHEDULER64_TASK_READY else state_of s i)" for i
    using queue_shapeD(1,3) [OF q] c
    by (auto simp: s2'_def note_segments_def s2_def set_task_state_def s1_def s0_def save_context_def
        scheduler64_save_fs_base_for_task_def task_at_def nth_list_update)
  have sq: "g_scheduler64_sleep_queue s2' = g_scheduler64_sleep_queue s"
    by (simp add: s2'_def note_segments_def s2_def set_task_state_def s1_def s0_def save_context_def
        scheduler64_save_fs_base_for_task_def)
  have "s3 = fst (snd (scheduler64_sleep_wake_expired env now (s2', r)))"
    using sel unfolding timer_select_def Let_def prod.case c_def [symmetric] s0_def [symmetric]
      s1_def [symmetric] s2_def [symmetric] s2'_def [symmetric] by simp
  note spec = wake_expired_spec [OF inv2 this]
  have ex: "expired now s2' 16 k = expired now s 16 k" for k by (simp add: expired_def sq)
  show "state_of s3 i =
      (if expired now s 16 i \<and> state_of s i = SCHEDULER64_TASK_BLOCKED
         \<or> i = unat (current_of s) \<and> state_of s i = SCHEDULER64_TASK_RUNNING
       then SCHEDULER64_TASK_READY else state_of s i)" if "i < 16"
    using spec that by (auto simp: st ex c_def)
  show "g_scheduler64_sleep_queue s3 ! j =
      (if entry_reached now (g_scheduler64_sleep_queue s ! j)
       then scheduler64_clear_sleep_entry else g_scheduler64_sleep_queue s ! j)" if "j < 16"
    using spec that by (simp add: sq)
qed

lemma dispatch_states:
  assumes "length (tasks_of s) = 16" and "unat n < 16"
  shows "state_of (dispatch_to n s) i = (if i = unat n then SCHEDULER64_TASK_RUNNING else state_of s i)"
    "task_count (dispatch_to n s) = task_count s" "current_of (dispatch_to n s) = n"
    "rq_is_active (dispatch_to n s) = rq_is_active s"
    "g_scheduler64_sleep_queue (dispatch_to n s) = g_scheduler64_sleep_queue s"
  using assms by (simp_all add: dispatch_to_def scheduler64_restore_fs_base_for_task_def nth_list_update)

lemma note_segments_sel [simp]:
  "tasks_of (note_segments frame s) = tasks_of s" "task_count (note_segments frame s) = task_count s"
  "current_of (note_segments frame s) = current_of s" "rq_is_active (note_segments frame s) = rq_is_active s"
  "g_scheduler64_sleep_queue (note_segments frame s) = g_scheduler64_sleep_queue s"
  by (simp_all add: note_segments_def)

lemma timer_states:
  assumes inv: "sched_inv s" and act: "rq_is_active s" and u: "from_user frame"
    and res: "scheduler64_runqueue_on_timer env now frame (s, r) = (switched, frame', s', r')"
  shows "i < 16 \<Longrightarrow> state_of s' i =
      (if expired now s 16 i \<and> state_of s i = SCHEDULER64_TASK_BLOCKED
         \<or> state_of s i = SCHEDULER64_TASK_READY
         \<or> i = unat (current_of s) \<and> state_of s i = SCHEDULER64_TASK_RUNNING
       then if i = unat (current_of s') then SCHEDULER64_TASK_RUNNING else SCHEDULER64_TASK_READY
       else state_of s i)"
    "j < 16 \<Longrightarrow> g_scheduler64_sleep_queue s' ! j =
      (if entry_reached now (g_scheduler64_sleep_queue s ! j)
       then scheduler64_clear_sleep_entry else g_scheduler64_sleep_queue s ! j)"
    "task_count s' = task_count s" "switched \<longleftrightarrow> current_of s' \<noteq> current_of s"
proof -
  define c where "c = current_of s"
  have c: "c < task_count s" using queue_shapeD(6) [OF queue_invD(1) [OF inv] act] by (simp add: c_def)
  obtain s3 r3 where sel: "timer_select env now frame (s, r) = (s3, r3)" by fastforce
  obtain n s4 where nx: "scheduler64_next_runnable c s3 = (n, s4)" by fastforce
  note t = timer_select_inv [OF inv act sel]
  note st = timer_select_states [OF inv act sel]
  note q3 = queue_invD(1) [OF t(1)]
  have s4: "g_runqueue s4 = g_runqueue s3" "g_scheduler64_sleep_queue s4 = g_scheduler64_sleep_queue s3"
    using next_runnable_sel(1,2) [of c s3] nx by simp_all
  have len: "length (tasks_of s4) = 16" "unat c < 16"
    using queue_shapeD(1,3) [OF q3] s4 t(3) c by simp_all
  have pick: "n < task_count s3" "n \<noteq> c" "state_of s3 (unat n) = SCHEDULER64_TASK_READY" "unat n < 16"
    if "n \<noteq> SCHEDULER64_INVALID_TASK"
    using next_runnable_Some [OF q3, of c] queue_shapeD(3) [OF q3] c t(3) nx that
    by (simp_all add: task_runnable_def task_at_def)
  have keep: "state_of (resume_current c s4) i = (if i = unat c \<and> state_of s3 i = SCHEDULER64_TASK_READY
      then SCHEDULER64_TASK_RUNNING else state_of s3 i)" "task_count (resume_current c s4) = task_count s"
    "current_of (resume_current c s4) = c"
    "g_scheduler64_sleep_queue (resume_current c s4) = g_scheduler64_sleep_queue s3" for i
    using len s4 t(3,4) by (auto simp: resume_current_def set_task_state_def task_at_def nth_list_update c_def)
  note move = dispatch_states [OF len(1) pick(4)]
  have "s' = resume_current c s4 \<and> \<not> switched
      \<or> n \<noteq> SCHEDULER64_INVALID_TASK \<and> switched
        \<and> s' = note_segments (t_frame (task_at (dispatch_to n s4) n)) (dispatch_to n s4)"
    using res [unfolded on_timer_unfold [OF act c [unfolded c_def] u sel nx [unfolded c_def]]]
    by (auto simp: c_def case_prod_unfold Let_def split: if_splits)
  then consider (stay) "s' = resume_current c s4" "\<not> switched"
    | (go) "n \<noteq> SCHEDULER64_INVALID_TASK" "switched"
        "s' = note_segments (t_frame (task_at (dispatch_to n s4) n)) (dispatch_to n s4)" by blast
  then have "(\<forall>i<16. state_of s' i = (if i = unat (current_of s') \<and> state_of s3 i = SCHEDULER64_TASK_READY
        then SCHEDULER64_TASK_RUNNING else state_of s3 i))
    \<and> g_scheduler64_sleep_queue s' = g_scheduler64_sleep_queue s3
    \<and> task_count s' = task_count s \<and> (switched \<longleftrightarrow> current_of s' \<noteq> c)"
  proof cases
    case stay
    then show ?thesis by (simp add: keep)
  next
    case go
    then show ?thesis using pick [OF go(1)] by (simp add: move s4 t(3))
  qed
  then show "i < 16 \<Longrightarrow> state_of s' i =
      (if expired now s 16 i \<and> state_of s i = SCHEDULER64_TASK_BLOCKED
         \<or> state_of s i = SCHEDULER64_TASK_READY
         \<or> i = unat (current_of s) \<and> state_of s i = SCHEDULER64_TASK_RUNNING
       then if i = unat (current_of s') then SCHEDULER64_TASK_RUNNING else SCHEDULER64_TASK_READY
       else state_of s i)"
    "j < 16 \<Longrightarrow> g_scheduler64_sleep_queue s' ! j =
      (if entry_reached now (g_scheduler64_sleep_queue s ! j)
       then scheduler64_clear_sleep_entry else g_scheduler64_sleep_queue s ! j)"
    "task_count s' = task_count s" "switched \<longleftrightarrow> current_of s' \<noteq> current_of s"
    using st by (auto simp: c_def)
qed







text \<open>A switch away from a blocked task, as its states.\<close>

lemma blocked_switch_states:
  assumes inv: "sched_inv s"
    and res: "scheduler64_runqueue_on_blocked_syscall env frame (s, r) = (True, frame', s', r')"
  shows "rq_is_active s'" "task_count s' = task_count s" "current_of s' \<noteq> current_of s"
    "g_scheduler64_sleep_queue s' = g_scheduler64_sleep_queue s"
    "i < 16 \<Longrightarrow> state_of s' i = (if i = unat (current_of s') then SCHEDULER64_TASK_RUNNING else state_of s i)"
proof -
  define c where "c = current_of s"
  note q = queue_invD(1) [OF inv]
  have act: "rq_is_active s" and c: "c < task_count s" and u: "from_user frame"
    and v: "t_frame_valid (task_at s c)" and b: "t_state (task_at s c) = SCHEDULER64_TASK_BLOCKED"
    using res by (auto simp: scheduler64_runqueue_on_blocked_syscall_def Let_def c_def not_le split: if_splits)
  define s1 where "s1 = note_segments frame (save_context c frame s)"
  obtain n s2 where nx: "scheduler64_next_runnable c s1 = (n, s2)" by fastforce
  have s1: "sched_inv s1" using inv_save_context [OF inv c] by (simp add: s1_def)
  have c16: "unat c < 16" "length (tasks_of s) = 16" using queue_shapeD(1,3) [OF q] c by simp_all
  have sel: "task_count s1 = task_count s" "rq_is_active s1" "length (tasks_of s1) = 16"
    "g_scheduler64_sleep_queue s1 = g_scheduler64_sleep_queue s" "state_of s1 i = state_of s i" for i
    using act c16 by (simp_all add: s1_def save_context_def scheduler64_save_fs_base_for_task_def nth_list_update)
  have s2: "g_runqueue s2 = g_runqueue s1" "g_scheduler64_sleep_queue s2 = g_scheduler64_sleep_queue s1"
    using next_runnable_sel(1,2) [of c s1] nx by simp_all
  note unf = on_blocked_unfold [OF act c [unfolded c_def] u v [unfolded c_def] b [unfolded c_def]
        nx [unfolded s1_def c_def]]
  have n: "n \<noteq> SCHEDULER64_INVALID_TASK" and "\<exists>f. s' = note_segments f (dispatch_to n s2)"
    using res unfolding unf by (auto simp: case_prod_unfold Let_def split: if_splits)
  then obtain f where s': "s' = note_segments f (dispatch_to n s2)" by blast
  have nc: "n \<noteq> c" "unat n < 16"
    using next_runnable_Some [OF queue_invD(1) [OF s1], of c] queue_shapeD(3) [OF queue_invD(1) [OF s1]] c sel(1) nx n
    by simp_all
  note d = dispatch_states [of s2 n]
  show "rq_is_active s'" "task_count s' = task_count s" "current_of s' \<noteq> current_of s"
    "g_scheduler64_sleep_queue s' = g_scheduler64_sleep_queue s"
    "i < 16 \<Longrightarrow> state_of s' i = (if i = unat (current_of s') then SCHEDULER64_TASK_RUNNING else state_of s i)"
    using d sel s2 nc by (simp_all add: s' c_def)
qed

text \<open>The entry and the block a successful request to sleep makes.\<close>

lemma sleep_for_entered:
  assumes inv: "sched_inv s" and n: "n \<noteq> 0"
    and start: "scheduler64_sleep_for_ticks (\<lambda>_. tick) n s = (True, s1)"
    and task: "scheduler64_runqueue_current_task_id s \<noteq> SCHEDULER64_INVALID_TASK"
  obtains k where "k < 16" "se_active (g_scheduler64_sleep_queue s1 ! k)"
    "se_task_id (g_scheduler64_sleep_queue s1 ! k) = current_of s"
    "se_wake_tick (g_scheduler64_sleep_queue s1 ! k) = tick + n"
    "scheduler64_runqueue_task_state s1 (current_of s) = SCHEDULER64_TASK_BLOCKED"
    "current_of s1 = current_of s" "sched_inv s1"
proof -
  define c where "c = current_of s"
  define s0' where "s0' = note_sleep_request n tick s"
  have i0: "sched_inv s0'" using inv by (simp add: s0'_def)
  have cid: "scheduler64_runqueue_current_task_id s0' = c" "c < task_count s0'" "current_of s0' = c"
    using current_task_idD [OF task]
    by (auto simp: c_def s0'_def scheduler64_runqueue_current_task_id_def)
  have cn: "c \<noteq> SCHEDULER64_INVALID_TASK" using task current_task_idD(3) [OF task] by (simp add: c_def)
  have st: "scheduler64_sleep_start_current_task tick n 0 None 0 s0' = (True, s1)"
    using start cid cn n by (simp add: scheduler64_sleep_for_ticks_def s0'_def [symmetric] Let_def)
  have may: "may_sleep n s0'" using sleep_start_refused [of n s0' tick 0 None 0] st by auto
  then obtain k where k: "scheduler64_sleep_free_entry s0' = Some k" by (auto simp: may_sleep_def)
  define sb where "sb = sleep_entered tick n 0 None 0 k s0'"
  obtain sb2 where b: "scheduler64_runqueue_block_task c sb = (True, sb2)"
    and s1: "s1 = sb2\<lparr>g_scheduler64_sleep_count := g_scheduler64_sleep_count sb2 + 1\<rparr>"
    using sleep_start_unfold [OF may k, of tick 0 None 0, unfolded cid(1), folded sb_def] st
    by (cases "scheduler64_runqueue_block_task c sb") (auto split: if_splits)
  have ib: "sched_inv sb" unfolding sb_def by (rule sleep_entered_inv [OF i0 may k])
  have i1: "sched_inv s1" using inv_sleep_start [OF i0, of tick n 0 None 0] st by simp
  have k16: "k < 16" by (rule sleep_free_entry_less [OF i0 k])
  have len: "length (g_scheduler64_sleep_queue s0') = 16"
    using queue_invD(3) [OF i0] by (simp add: sleepers_ok_def)
  have "g_scheduler64_sleep_queue sb2 = g_scheduler64_sleep_queue sb" "current_of sb2 = current_of sb"
    using block_task_sel(2,4) [of c sb] b by simp_all
  then have q: "se_active (g_scheduler64_sleep_queue s1 ! k)"
    "se_task_id (g_scheduler64_sleep_queue s1 ! k) = c"
    "se_wake_tick (g_scheduler64_sleep_queue s1 ! k) = tick + n" "current_of s1 = c"
    using k16 len cid by (simp_all add: s1 sb_def sleep_entered_def Let_def)
  have blk: "scheduler64_runqueue_task_state s1 c = SCHEDULER64_TASK_BLOCKED"
    using block_state [OF ib, of c c] b by (simp add: s1 task_state_eq split: if_splits)
  show thesis using that [OF k16] q blk i1 by (simp add: c_def)
qed

text \<open>
  C34: a sleep of \<open>n > 2 ^ 31\<close> ticks, which the tick comparison cannot represent, is cut short. When
  the current task of an active queue asks for one and the request is granted, the task is blocked and leaves the processor to another one as usual; but a timer interrupt from user mode
  that follows \<open>d\<close> ticks after the request, where \<open>d < n - 2 ^ 31\<close>, takes the sleep for over: the task is
  ready or running again and has no sleep entry left. So a task that asks for at least \<open>2 ^ 31 + 2\<close> ticks
  is woken at the first tick after its request.
\<close>

theorem scheduler64_long_sleep_cut_short:
  assumes reach: "(sched_step env)\<^sup>*\<^sup>* (scheduler64_init env (s0, r0)) (s, r)"
    and task: "scheduler64_runqueue_current_task_id s \<noteq> SCHEDULER64_INVALID_TASK"
    and start: "scheduler64_sleep_for_ticks (\<lambda>_. tick) n s = (True, s1)"
    and switch: "scheduler64_runqueue_on_blocked_syscall env frame1 (s1, r) = (True, frame2, s2, r2)"
    and user: "from_user frame3"
    and early: "unat d + 2 ^ 31 < unat n"
    and timer: "scheduler64_runqueue_on_timer env (tick + d) frame3 (s2, r2) = (switched, frame4, s3, r3)"
  shows "scheduler64_runqueue_task_state s2 (current_of s) = SCHEDULER64_TASK_BLOCKED
    \<and> scheduler64_sleep_task_pending s2 (current_of s)
    \<and> scheduler64_runqueue_task_state s3 (current_of s) \<in> {SCHEDULER64_TASK_READY, SCHEDULER64_TASK_RUNNING}
    \<and> \<not> scheduler64_sleep_task_pending s3 (current_of s)"
proof -
  define c where "c = current_of s"
  have inv: "sched_inv s" by (rule sched_reachable_inv [OF reach])
  have n0: "n \<noteq> 0" using early by auto
  obtain k where k: "k < 16" "se_active (g_scheduler64_sleep_queue s1 ! k)"
    "se_task_id (g_scheduler64_sleep_queue s1 ! k) = c"
    "se_wake_tick (g_scheduler64_sleep_queue s1 ! k) = tick + n"
    and blk: "scheduler64_runqueue_task_state s1 c = SCHEDULER64_TASK_BLOCKED" "current_of s1 = c"
    and i1: "sched_inv s1"
    using sleep_for_entered [OF inv n0 start task] unfolding c_def by metis
  have c1: "c < task_count s1" "unat c < 16" "state_of s1 (unat c) = SCHEDULER64_TASK_BLOCKED"
    using blk(1) queue_shapeD(3) [OF queue_invD(1) [OF i1], of c] by (auto simp: task_state_eq split: if_splits)
  note b = blocked_switch_states [OF i1 switch]
  have i2: "sched_inv s2" using inv_blocked_syscall [OF i1, of env frame1 r] switch by simp
  have c2: "state_of s2 (unat c) = SCHEDULER64_TASK_BLOCKED"
    using b(3) b(5) [OF c1(2)] c1(3) blk(2) by (auto simp: word_unat_eq_iff)
  note t = timer_states [OF i2 b(1) user timer]
  have "unat (d - n) = unat d + 2 ^ 32 - unat n"
    using early unat_sub_if_size [of d n] by (simp add: word_size word_le_nat_alt)
  moreover have "unat n < 2 ^ 32" using unat_le_u32_max [of n] by simp
  ultimately have "scheduler64_sleep_tick_reached (tick + d) (tick + n)"
    using early by (simp add: scheduler64_sleep_tick_reached_def word_less_nat_alt)
  then have hit: "entry_reached (tick + d) (g_scheduler64_sleep_queue s2 ! k)"
    using k b(4) by (simp add: entry_reached_def)
  then have ex: "expired (tick + d) s2 16 (unat c)" using k b(4) by (auto simp: expired_def)
  have len: "length (g_scheduler64_sleep_queue s2) = 16" "length (g_scheduler64_sleep_queue s3) = 16"
    using queue_invD(3) [OF i2] queue_invD(3) [OF inv_timer [OF i2, of env "tick + d" frame3 r2]] timer
    by (simp_all add: sleepers_ok_def)
  have "\<not> (se_active (g_scheduler64_sleep_queue s3 ! j) \<and> se_task_id (g_scheduler64_sleep_queue s3 ! j) = c)"
    if "j < 16" for j
  proof (cases "j = k")
    case True
    then show ?thesis using t(2) [OF that] hit by (simp add: scheduler64_clear_sleep_entry_def)
  next
    case False
    then show ?thesis
      using t(2) [OF that] k b(4) that queue_invD(3) [OF i2]
      by (auto simp: sleepers_ok_def scheduler64_clear_sleep_entry_def split: if_splits)
  qed
  then have gone: "\<not> scheduler64_sleep_task_pending s3 c"
    using len by (fastforce simp: scheduler64_sleep_task_pending_def first_index_None_iff in_set_conv_nth)
  have pending: "scheduler64_sleep_task_pending s2 c"
    using k b(4) len nth_mem [of k "g_scheduler64_sleep_queue s2"]
    by (auto simp: scheduler64_sleep_task_pending_def first_index_None_iff)
  show ?thesis
    using t(1) [OF c1(2)] t(3) ex c2 c1(1) b(2) gone pending by (simp add: c_def [symmetric] task_state_eq)
qed

theorem scheduler64_long_sleep_cut_short_witness:
  "let s1 = snd (scheduler64_sleep_for_ticks (\<lambda>_. 7) 0x80000002 (fst demo_started));
       sr2 = snd (snd (scheduler64_runqueue_on_blocked_syscall bare_env (user_frame 0x1010) (s1, snd demo_started)));
       s3 = fst (snd (snd (scheduler64_runqueue_on_timer bare_env 8 (user_frame 0x2010) sr2)))
   in scheduler64_runqueue_task_state (fst sr2) 0 = SCHEDULER64_TASK_BLOCKED
    \<and> scheduler64_runqueue_task_state s3 0 \<noteq> SCHEDULER64_TASK_BLOCKED"
proof -
  define s1 where "s1 = snd (scheduler64_sleep_for_ticks (\<lambda>_. 7) 0x80000002 (fst demo_started))"
  define b where "b = scheduler64_runqueue_on_blocked_syscall bare_env (user_frame 0x1010) (s1, snd demo_started)"
  define t where "t = scheduler64_runqueue_on_timer bare_env 8 (user_frame 0x2010) (snd (snd b))"
  have c: "current_of (fst demo_started) = 0
    \<and> scheduler64_runqueue_current_task_id (fst demo_started) \<noteq> SCHEDULER64_INVALID_TASK
    \<and> fst (scheduler64_sleep_for_ticks (\<lambda>_. 7) 0x80000002 (fst demo_started))
    \<and> from_user (user_frame 0x2010)"
    by code_simp
  have "fst b" unfolding b_def s1_def by code_simp
  then have switch: "scheduler64_runqueue_on_blocked_syscall bare_env (user_frame 0x1010) (s1, snd demo_started)
      = (True, fst (snd b), fst (snd (snd b)), snd (snd (snd b)))"
    by (simp add: b_def [symmetric] prod_eq_iff)
  have reach: "(sched_step bare_env)\<^sup>*\<^sup>* (scheduler64_init bare_env (scheduler_bss, 0))
      (fst demo_started, snd demo_started)"
    using demo_started_reach by (simp add: demo_booted_def)
  have start: "scheduler64_sleep_for_ticks (\<lambda>_. 7) 0x80000002 (fst demo_started) = (True, s1)"
    using c by (simp add: s1_def prod_eq_iff)
  have early: "unat (1 :: u32) + 2 ^ 31 < unat (0x80000002 :: u32)" by simp
  have timer: "scheduler64_runqueue_on_timer bare_env (7 + 1) (user_frame 0x2010) (fst (snd (snd b)), snd (snd (snd b)))
      = (fst t, fst (snd t), fst (snd (snd t)), snd (snd (snd t)))"
    by (simp add: t_def)
  note main = scheduler64_long_sleep_cut_short [OF reach _ start switch _ early timer]
  show ?thesis
    using main c by (auto simp: Let_def s1_def [symmetric] b_def [symmetric] t_def [symmetric])
qed


section \<open>Sleeping without a task\<close>

lemma unat_guard_limit:
  "unat (sleep_guard_limit n) = min (unat n * 50000 + 50000) 1000000"
proof -
  define limit where "limit = (ucast n * SCHEDULER64_SLEEP_SPIN_BUDGET_PER_TICK
    + SCHEDULER64_SLEEP_SPIN_BUDGET_PER_TICK :: u64)"
  have n: "unat (ucast n :: u64) = unat n" "unat n \<le> 0xFFFFFFFF"
    using unat_le_u32_max [of n] by (simp_all add: unsigned_ucast_eq take_bit_nat_eq_self)
  have "unat limit = unat n * 50000 + 50000"
    using n by (simp add: limit_def SCHEDULER64_SLEEP_SPIN_BUDGET_PER_TICK_def unat_word_ariths)
  then show ?thesis
    by (simp add: sleep_guard_limit_def limit_def [symmetric] Let_def word_less_nat_alt
        SCHEDULER64_SLEEP_MAX_SPIN_BUDGET_def)
qed

lemma unat_guard_inc: "(guard :: u64) < limit \<Longrightarrow> unat (guard + 1) = Suc (unat guard)"
proof -
  assume "guard < limit"
  then have "unat guard < unat limit" by (simp add: word_less_nat_alt)
  moreover have "unat limit < 2 ^ LENGTH(64)" by (rule unsigned_less)
  ultimately show ?thesis by (simp add: unat_word_ariths)
qed

lemma sleep_spin_spec:
  assumes "guard \<le> limit"
  shows "guard \<le> sleep_spin pit start n limit guard \<and> sleep_spin pit start n limit guard \<le> limit
    \<and> (\<forall>k. unat guard \<le> k \<and> k < unat (sleep_spin pit start n limit guard) \<longrightarrow> pit (Suc k) - start < n)
    \<and> (sleep_spin pit start n limit guard < limit
        \<longrightarrow> \<not> pit (Suc (unat (sleep_spin pit start n limit guard))) - start < n)"
  using assms
proof (induction pit start n limit guard rule: sleep_spin.induct)
  case (1 pit start n limit guard)
  show ?case
  proof (cases "pit (Suc (unat guard)) - start < n \<and> guard < limit")
    case False
    then show ?thesis using "1.prems" by (subst (1 2 3 4 5) sleep_spin.simps) auto
  next
    case True
    note inc = unat_guard_inc [OF conjunct2 [OF True]]
    have le: "guard + 1 \<le> limit" using True inc by (simp add: word_le_nat_alt word_less_nat_alt)
    define m where "m = sleep_spin pit start n limit (guard + 1)"
    have eq: "sleep_spin pit start n limit guard = m"
      using True by (subst sleep_spin.simps) (simp add: m_def)
    have IH: "guard + 1 \<le> m" "m \<le> limit"
      "\<And>k. Suc (unat guard) \<le> k \<Longrightarrow> k < unat m \<Longrightarrow> pit (Suc k) - start < n"
      "m < limit \<Longrightarrow> \<not> pit (Suc (unat m)) - start < n"
      using "1.IH" [OF True le] inc by (simp_all add: m_def)
    have "guard \<le> m" using IH(1) inc by (simp add: word_le_nat_alt)
    moreover have "pit (Suc k) - start < n" if "unat guard \<le> k" "k < unat m" for k
      using that True IH(3) [of k] by (cases "k = unat guard") simp_all
    ultimately show ?thesis unfolding eq using IH by blast
  qed
qed

text \<open>
  C35: sleeping when no task runs ends whatever the timer does. The loop pauses at most one
  million times and at most 50000 times per requested tick plus 50000, with no overflow in the
  limit; it stops early only once the requested ticks have elapsed. The call succeeds exactly if
  the elapsed ticks read at the end reach the request, and otherwise it is counted as a denial.
\<close>

theorem scheduler64_sleep_spin_terminates:
  assumes idle: "scheduler64_runqueue_current_task_id s = SCHEDULER64_INVALID_TASK" and n: "n \<noteq> 0"
    and rounds: "rounds = unat (sleep_spin pit (pit 0) n (sleep_guard_limit n) 0)"
    and res: "scheduler64_sleep_for_ticks pit n s = (slept, s')"
  shows "rounds \<le> 1000000 \<and> rounds \<le> unat n * 50000 + 50000
    \<and> (\<forall>k<rounds. pit (Suc k) - pit 0 < n)
    \<and> (rounds < min (unat n * 50000 + 50000) 1000000 \<longrightarrow> n \<le> pit (Suc rounds) - pit 0)
    \<and> (slept \<longleftrightarrow> n \<le> pit (rounds + 2) - pit 0)
    \<and> g_scheduler64_sleep_last_elapsed_ticks s' = pit (rounds + 2) - pit 0
    \<and> g_scheduler64_sleep_denial_count s' =
        g_scheduler64_sleep_denial_count s + (if slept then 0 else 1)"
proof -
  note spec = sleep_spin_spec [of 0 "sleep_guard_limit n" pit "pit 0" n]
  have r: "rounds \<le> unat (sleep_guard_limit n)"
    "\<forall>k<rounds. pit (Suc k) - pit 0 < n"
    "rounds < unat (sleep_guard_limit n) \<longrightarrow> n \<le> pit (Suc rounds) - pit 0"
    using spec by (auto simp: rounds word_le_nat_alt word_less_nat_alt not_less)
  have idle': "scheduler64_runqueue_current_task_id (note_sleep_request n (pit 0) s) = SCHEDULER64_INVALID_TASK"
    using idle by (auto simp: scheduler64_runqueue_current_task_id_def split: if_splits)
  have "(slept \<longleftrightarrow> n \<le> pit (rounds + 2) - pit 0)
    \<and> g_scheduler64_sleep_last_elapsed_ticks s' = pit (rounds + 2) - pit 0
    \<and> g_scheduler64_sleep_denial_count s' =
        g_scheduler64_sleep_denial_count s + (if slept then 0 else 1)"
    using res n idle'
    by (auto simp: scheduler64_sleep_for_ticks_def Let_def rounds [symmetric] sleep_deny_def
        note_sleep_request_def split: if_splits)
  with r show ?thesis by (simp add: unat_guard_limit)
qed

theorem scheduler64_sleep_spin_terminates_witness:
  "fst (scheduler64_sleep_for_ticks of_nat 3 scheduler_bss)"
proof -
  have idle: "scheduler64_runqueue_current_task_id scheduler_bss = SCHEDULER64_INVALID_TASK" by code_simp
  define rounds where "rounds = unat (sleep_spin of_nat (of_nat 0) 3 (sleep_guard_limit 3) 0)"
  note main = scheduler64_sleep_spin_terminates [OF idle _ rounds_def prod.collapse [symmetric]]
  have b: "rounds \<le> 1000000" "\<forall>k<rounds. (of_nat (Suc k) :: u32) < 3"
    "rounds < 200000 \<longrightarrow> (3 :: u32) \<le> of_nat (Suc rounds)"
    "fst (scheduler64_sleep_for_ticks of_nat 3 scheduler_bss) \<longleftrightarrow> (3 :: u32) \<le> of_nat (rounds + 2)"
    using main by simp_all
  have "rounds \<le> 2"
  proof (rule ccontr)
    assume "\<not> rounds \<le> 2"
    then have "2 < rounds" by simp
    with b(2) have "(of_nat (Suc 2) :: u32) < 3" by blast
    then show False by simp
  qed
  then have "rounds \<in> {0, 1, 2}" by auto
  with b show ?thesis by (auto simp: word_le_nat_alt)
qed

end
