(* ===== verification/Pipe.thy ===== *)
theory Pipe
  imports Capability Scheduler
begin

text \<open>
  Anonymous pipes, \<^verbatim>\<open>kernel/arch/x86_64/pipe.c\<close> (UEFI build): sixteen pipe objects with a 4 KiB
  ring each, endpoint handles that carry the slot, a generation and the end, reads and writes
  that park the current task when the ring is empty or full, and closing an end. Creating a
  pipe and granting an end to another process also touch descriptor tables and are in theory
  \<^verbatim>\<open>Pipe_Fd\<close>.

  A pipe is addressed by its slot. A \<^verbatim>\<open>u8 *\<close> argument with its byte count is the list of the
  bytes behind it, \<open>None\<close> for the null pointer; the bytes a read stores into the caller's buffer
  are returned as a list.
\<close>

abbreviation (input) PIPE64_INVALID_HANDLE :: u32 where "PIPE64_INVALID_HANDLE \<equiv> u32_max"
abbreviation (input) PIPE64_IO_ERROR :: u32 where "PIPE64_IO_ERROR \<equiv> u32_max"
abbreviation (input) PIPE64_IO_BLOCKED :: u32 where "PIPE64_IO_BLOCKED \<equiv> 0xFFFFFFFE"
abbreviation (input) FD64_INVALID_FD :: u32 where "FD64_INVALID_FD \<equiv> u32_max"

definition PIPE64_BUFFER_BYTES :: u32 where "PIPE64_BUFFER_BYTES = 4096"
definition PIPE64_MAX_BUFFER_BYTES :: u32 where "PIPE64_MAX_BUFFER_BYTES = 65536"
definition PIPE64_MAX_OBJECTS :: nat where "PIPE64_MAX_OBJECTS = 16"
definition PIPE64_SPIN_WAIT_LIMIT :: nat where "PIPE64_SPIN_WAIT_LIMIT = 1024"

abbreviation (input) PIPE64_HANDLE_BASE :: u32 where "PIPE64_HANDLE_BASE \<equiv> 0x0F000000"
abbreviation (input) PIPE64_HANDLE_BASE_MASK :: u32 where "PIPE64_HANDLE_BASE_MASK \<equiv> 0xFF000000"
abbreviation (input) PIPE64_HANDLE_GENERATION_MASK :: u32 where "PIPE64_HANDLE_GENERATION_MASK \<equiv> 0x000FFF00"
abbreviation (input) PIPE64_HANDLE_INDEX_MASK :: u32 where "PIPE64_HANDLE_INDEX_MASK \<equiv> 0x000000FE"
abbreviation (input) PIPE64_HANDLE_KIND_MASK :: u32 where "PIPE64_HANDLE_KIND_MASK \<equiv> 0x00000001"
abbreviation (input) PIPE64_HANDLE_KIND_READ :: u32 where "PIPE64_HANDLE_KIND_READ \<equiv> 0"
abbreviation (input) PIPE64_HANDLE_KIND_WRITE :: u32 where "PIPE64_HANDLE_KIND_WRITE \<equiv> 1"

record pipe64_buffer =
  pb_live :: bool
  pb_owner_pid :: u32
  pb_owner_id :: u32
  pb_read_owner_id :: u32
  pb_write_owner_id :: u32
  pb_read_grantee_owner_id :: u32
  pb_write_grantee_owner_id :: u32
  pb_read_ref_count :: u32
  pb_write_ref_count :: u32
  pb_generation :: u32
  pb_read_handle :: u32
  pb_write_handle :: u32
  pb_read_fd :: u32
  pb_write_fd :: u32
  pb_capacity :: u32
  pb_max_capacity :: u32
  pb_read_index :: u32
  pb_write_index :: u32
  pb_byte_count :: u32
  pb_byte_count_semaphore :: u32
  pb_writer_closed :: bool
  pb_reader_closed :: bool
  pb_blocked_reader_task_id :: u32
  pb_blocked_writer_task_id :: u32
  pb_bytes :: "u8 list"

record pipe_state =
  g_pipe64_objects :: "pipe64_buffer list"
  g_pipe64_initialized :: bool
  g_pipe64_denials :: u32
  g_pipe64_block_count :: u32
  g_pipe64_wake_count :: u32
  g_pipe64_replay_wake_count :: u32

record kernel_sched = kernel_cap +
  k_sched :: scheduler_state

record kernel_pipe = kernel_sched +
  k_pipe :: pipe_state

abbreviation pipe_at :: "'a kernel_pipe_scheme \<Rightarrow> nat \<Rightarrow> pipe64_buffer" where
  "pipe_at k i \<equiv> g_pipe64_objects (k_pipe k) ! i"

definition upd_pipes ::
    "(pipe_state \<Rightarrow> pipe_state) \<Rightarrow> 'a kernel_pipe_scheme \<Rightarrow> 'a kernel_pipe_scheme" where
  "upd_pipes f k = k\<lparr>k_pipe := f (k_pipe k)\<rparr>"

definition upd_pipe ::
    "nat \<Rightarrow> (pipe64_buffer \<Rightarrow> pipe64_buffer) \<Rightarrow> 'a kernel_pipe_scheme \<Rightarrow> 'a kernel_pipe_scheme" where
  "upd_pipe i f = upd_pipes (\<lambda>ps. ps\<lparr>g_pipe64_objects :=
     (g_pipe64_objects ps)[i := f (g_pipe64_objects ps ! i)]\<rparr>)"

definition pipe_deny :: "'a kernel_pipe_scheme \<Rightarrow> 'a kernel_pipe_scheme" where
  "pipe_deny = upd_pipes (\<lambda>ps. ps\<lparr>g_pipe64_denials := g_pipe64_denials ps + 1\<rparr>)"


section \<open>Objects\<close>

text \<open>The fields \<^verbatim>\<open>pipe64_clear_object\<close> writes; the generation survives.\<close>

definition cleared_pipe :: "u32 \<Rightarrow> pipe64_buffer" where
  "cleared_pipe generation =
    \<lparr>pb_live = False, pb_owner_pid = PROCESS64_INVALID_PID, pb_owner_id = 0,
     pb_read_owner_id = 0, pb_write_owner_id = 0, pb_read_grantee_owner_id = 0,
     pb_write_grantee_owner_id = 0, pb_read_ref_count = 0, pb_write_ref_count = 0,
     pb_generation = generation, pb_read_handle = PIPE64_INVALID_HANDLE,
     pb_write_handle = PIPE64_INVALID_HANDLE, pb_read_fd = FD64_INVALID_FD,
     pb_write_fd = FD64_INVALID_FD, pb_capacity = PIPE64_BUFFER_BYTES,
     pb_max_capacity = PIPE64_MAX_BUFFER_BYTES, pb_read_index = 0, pb_write_index = 0,
     pb_byte_count = 0, pb_byte_count_semaphore = 0, pb_writer_closed = False,
     pb_reader_closed = False, pb_blocked_reader_task_id = SCHEDULER64_INVALID_TASK,
     pb_blocked_writer_task_id = SCHEDULER64_INVALID_TASK,
     pb_bytes = replicate (unat PIPE64_BUFFER_BYTES) 0\<rparr>"

definition pipe64_clear_object :: "nat \<Rightarrow> 'a kernel_pipe_scheme \<Rightarrow> 'a kernel_pipe_scheme" where
  "pipe64_clear_object i k =
    (let p = pipe_at k i;
         k1 = (if pb_live p \<and> pb_owner_pid p \<noteq> PROCESS64_INVALID_PID
               then persona64_budget_release_pipe (pb_owner_pid p) 1 k else k)
     in upd_pipe i (\<lambda>p. cleared_pipe (pb_generation p)) k1)"

definition pipe64_init :: "'a kernel_pipe_scheme \<Rightarrow> 'a kernel_pipe_scheme" where
  "pipe64_init k =
    (if g_pipe64_initialized (k_pipe k) then k
     else upd_pipes (\<lambda>ps. ps\<lparr>g_pipe64_initialized := True\<rparr>)
       (fold (\<lambda>i k. pipe64_clear_object i (upd_pipe i (\<lambda>p. p\<lparr>pb_generation := 1\<rparr>) k))
          [0..<PIPE64_MAX_OBJECTS] k))"


section \<open>Parking and waking\<close>

text \<open>The two places of a pipe at which a task can be parked.\<close>

datatype pipe_side = Reader | Writer

fun blocked_slot :: "pipe_side \<Rightarrow> pipe64_buffer \<Rightarrow> u32" where
  "blocked_slot Reader p = pb_blocked_reader_task_id p"
| "blocked_slot Writer p = pb_blocked_writer_task_id p"

fun set_blocked_slot :: "pipe_side \<Rightarrow> u32 \<Rightarrow> pipe64_buffer \<Rightarrow> pipe64_buffer" where
  "set_blocked_slot Reader t p = p\<lparr>pb_blocked_reader_task_id := t\<rparr>"
| "set_blocked_slot Writer t p = p\<lparr>pb_blocked_writer_task_id := t\<rparr>"

definition pipe64_current_task_for_owner :: "u32 \<Rightarrow> 'a kernel_pipe_scheme \<Rightarrow> u32" where
  "pipe64_current_task_for_owner owner_id k =
    (let s = k_sched k;
         task_id = scheduler64_runqueue_current_task_id s;
         task_pid = scheduler64_runqueue_task_pid s task_id
     in if task_id = SCHEDULER64_INVALID_TASK
          \<or> scheduler64_runqueue_task_state s task_id \<noteq> SCHEDULER64_TASK_RUNNING
        then SCHEDULER64_INVALID_TASK
        else if task_pid = PROCESS64_INVALID_PID \<or> process64_principal (k_proc k) task_pid \<noteq> owner_id
        then SCHEDULER64_INVALID_TASK
        else task_id)"

definition pipe64_block_current_task ::
    "u32 \<Rightarrow> pipe_side \<Rightarrow> nat \<Rightarrow> 'a kernel_pipe_scheme \<Rightarrow> bool \<times> 'a kernel_pipe_scheme" where
  "pipe64_block_current_task owner_id side i k =
    (if blocked_slot side (pipe_at k i) \<noteq> SCHEDULER64_INVALID_TASK then (False, pipe_deny k)
     else
       let task_id = pipe64_current_task_for_owner owner_id k
       in if task_id = SCHEDULER64_INVALID_TASK then (False, pipe_deny k)
          else
            let k1 = upd_pipe i (set_blocked_slot side task_id) k;
                (blocked, s) = scheduler64_runqueue_block_task task_id (k_sched k1);
                k2 = k1\<lparr>k_sched := s\<rparr>
            in if \<not> blocked
               then (False, pipe_deny (upd_pipe i (set_blocked_slot side SCHEDULER64_INVALID_TASK) k2))
               else (True, upd_pipes (\<lambda>ps. ps\<lparr>g_pipe64_block_count := g_pipe64_block_count ps + 1\<rparr>) k2))"

definition pipe64_wake_blocked_task ::
    "pipe_side \<Rightarrow> nat \<Rightarrow> 'a kernel_pipe_scheme \<Rightarrow> bool \<times> 'a kernel_pipe_scheme" where
  "pipe64_wake_blocked_task side i k =
    (let task_id = blocked_slot side (pipe_at k i)
     in if task_id = SCHEDULER64_INVALID_TASK then (False, k)
        else
          let k1 = upd_pipe i (set_blocked_slot side SCHEDULER64_INVALID_TASK) k;
              (woken, s) = scheduler64_runqueue_wake_task_replay task_id (k_sched k1);
              k2 = k1\<lparr>k_sched := s\<rparr>
          in if \<not> woken then (False, pipe_deny k2)
             else (True, upd_pipes (\<lambda>ps. ps\<lparr>g_pipe64_wake_count := g_pipe64_wake_count ps + 1,
                           g_pipe64_replay_wake_count := g_pipe64_replay_wake_count ps + 1\<rparr>) k2))"


section \<open>Handles\<close>

definition pipe64_make_handle :: "u32 \<Rightarrow> u32 \<Rightarrow> u32 \<Rightarrow> u32" where
  "pipe64_make_handle index generation kind =
    (if unat index \<ge> PIPE64_MAX_OBJECTS \<or> generation = 0
       \<or> (kind \<noteq> PIPE64_HANDLE_KIND_READ \<and> kind \<noteq> PIPE64_HANDLE_KIND_WRITE)
     then PIPE64_INVALID_HANDLE
     else PIPE64_HANDLE_BASE
       OR (push_bit 8 generation AND PIPE64_HANDLE_GENERATION_MASK)
       OR (push_bit 1 index AND PIPE64_HANDLE_INDEX_MASK)
       OR kind)"

definition pipe64_handle_index :: "u32 \<Rightarrow> u32" where
  "pipe64_handle_index pipe_handle = drop_bit 1 (pipe_handle AND PIPE64_HANDLE_INDEX_MASK)"

definition pipe64_handle_generation :: "u32 \<Rightarrow> u32" where
  "pipe64_handle_generation pipe_handle = drop_bit 8 (pipe_handle AND PIPE64_HANDLE_GENERATION_MASK)"

definition pipe64_handle_kind :: "u32 \<Rightarrow> u32" where
  "pipe64_handle_kind pipe_handle =
    (if pipe_handle AND PIPE64_HANDLE_BASE_MASK \<noteq> PIPE64_HANDLE_BASE then PIPE64_INVALID_HANDLE
     else pipe_handle AND PIPE64_HANDLE_KIND_MASK)"

definition pipe64_endpoint_owner_matches :: "pipe64_buffer \<Rightarrow> u32 \<Rightarrow> u32 \<Rightarrow> bool" where
  "pipe64_endpoint_owner_matches p kind owner_id =
    (if owner_id = 0 then False
     else if kind = PIPE64_HANDLE_KIND_READ
     then pb_read_owner_id p = owner_id
       \<or> (pb_read_grantee_owner_id p \<noteq> 0 \<and> pb_read_grantee_owner_id p = owner_id)
     else if kind = PIPE64_HANDLE_KIND_WRITE
     then pb_write_owner_id p = owner_id
       \<or> (pb_write_grantee_owner_id p \<noteq> 0 \<and> pb_write_grantee_owner_id p = owner_id)
     else False)"

definition pipe64_find ::
    "u32 \<Rightarrow> u32 \<Rightarrow> 'a kernel_pipe_scheme \<Rightarrow> nat option \<times> 'a kernel_pipe_scheme" where
  "pipe64_find pipe_handle owner_id k0 =
    (let k = pipe64_init k0;
         index = unat (pipe64_handle_index pipe_handle);
         kind = pipe64_handle_kind pipe_handle;
         p = pipe_at k index
     in if pipe_handle AND PIPE64_HANDLE_BASE_MASK \<noteq> PIPE64_HANDLE_BASE \<or> owner_id = 0
        then (None, pipe_deny k)
        else if index \<ge> PIPE64_MAX_OBJECTS then (None, pipe_deny k)
        else if \<not> pb_live p \<or> pb_generation p \<noteq> pipe64_handle_generation pipe_handle
          \<or> (pipe_handle \<noteq> pb_read_handle p \<and> pipe_handle \<noteq> pb_write_handle p)
          \<or> \<not> pipe64_endpoint_owner_matches p kind owner_id
        then (None, pipe_deny k)
        else (Some index, k))"


section \<open>Writing\<close>

definition put_byte :: "u8 \<Rightarrow> pipe64_buffer \<Rightarrow> pipe64_buffer" where
  "put_byte b p =
    p\<lparr>pb_bytes := (pb_bytes p)[unat (pb_write_index p) := b],
      pb_write_index := (pb_write_index p + 1) mod pb_capacity p,
      pb_byte_count := pb_byte_count p + 1,
      pb_byte_count_semaphore := pb_byte_count p + 1\<rparr>"

text \<open>
  The inner loop: wait for room, with \<open>spins\<close> rounds left before the spin limit. \<open>Some\<close> is the
  value the routine returns at once, \<open>None\<close> that there is room.
\<close>

fun write_wait ::
    "nat \<Rightarrow> nat \<Rightarrow> u32 \<Rightarrow> u32 \<Rightarrow> 'a kernel_pipe_scheme \<Rightarrow> u32 option \<times> 'a kernel_pipe_scheme" where
  "write_wait spins i owner_id bytes_written k =
    (if pb_byte_count (pipe_at k i) < pb_capacity (pipe_at k i) then (None, k)
     else if bytes_written \<noteq> 0 then (Some bytes_written, k)
     else
       let (blocked, k1) = pipe64_block_current_task owner_id Writer i k
       in if blocked then (Some PIPE64_IO_BLOCKED, k1)
          else if pb_reader_closed (pipe_at k1 i) then (Some PIPE64_IO_ERROR, k1)
          else (case spins of
                  0 \<Rightarrow> (Some PIPE64_IO_ERROR, k1)
                | Suc n \<Rightarrow> write_wait n i owner_id bytes_written k1))"

declare write_wait.simps [simp del]

fun write_loop ::
    "nat \<Rightarrow> u32 \<Rightarrow> u32 \<Rightarrow> u8 list \<Rightarrow> 'a kernel_pipe_scheme \<Rightarrow> (u32 + u32) \<times> 'a kernel_pipe_scheme" where
  "write_loop i owner_id bytes_written [] k = (Inr bytes_written, k)"
| "write_loop i owner_id bytes_written (b # bs) k =
    (case write_wait PIPE64_SPIN_WAIT_LIMIT i owner_id bytes_written k of
       (Some code, k1) \<Rightarrow> (Inl code, k1)
     | (None, k1) \<Rightarrow> write_loop i owner_id (bytes_written + 1) bs (upd_pipe i (put_byte b) k1))"

definition pipe64_write ::
    "u32 \<Rightarrow> u8 list option \<Rightarrow> u32 \<Rightarrow> u32 \<Rightarrow> 'a kernel_pipe_scheme \<Rightarrow> u32 \<times> 'a kernel_pipe_scheme" where
  "pipe64_write pipe_handle input byte_count owner_id k =
    (if byte_count = 0 then (0, k)
     else case input of
       None \<Rightarrow> (PIPE64_IO_ERROR, pipe_deny k)
     | Some bytes \<Rightarrow>
         (case pipe64_find pipe_handle owner_id k of
            (None, k1) \<Rightarrow> (PIPE64_IO_ERROR, pipe_deny k1)
          | (Some i, k1) \<Rightarrow>
              if pipe64_handle_kind pipe_handle \<noteq> PIPE64_HANDLE_KIND_WRITE
                \<or> pb_writer_closed (pipe_at k1 i) \<or> pb_reader_closed (pipe_at k1 i)
              then (PIPE64_IO_ERROR, pipe_deny k1)
              else (case write_loop i owner_id 0 (take (unat byte_count) bytes) k1 of
                      (Inl code, k2) \<Rightarrow> (code, k2)
                    | (Inr n, k2) \<Rightarrow>
                        (n, if n \<noteq> 0 then snd (pipe64_wake_blocked_task Reader i k2) else k2))))"


section \<open>Reading\<close>

definition take_byte :: "pipe64_buffer \<Rightarrow> u8 \<times> pipe64_buffer" where
  "take_byte p =
    (pb_bytes p ! unat (pb_read_index p),
     p\<lparr>pb_read_index := (pb_read_index p + 1) mod pb_capacity p,
       pb_byte_count := pb_byte_count p - 1,
       pb_byte_count_semaphore := pb_byte_count p - 1\<rparr>)"

fun read_wait ::
    "nat \<Rightarrow> nat \<Rightarrow> u32 \<Rightarrow> u32 \<Rightarrow> 'a kernel_pipe_scheme \<Rightarrow> u32 option \<times> 'a kernel_pipe_scheme" where
  "read_wait spins i owner_id bytes_read k =
    (if pb_byte_count (pipe_at k i) \<noteq> 0 then (None, k)
     else if pb_writer_closed (pipe_at k i) then (Some bytes_read, k)
     else if bytes_read \<noteq> 0 then (Some bytes_read, k)
     else
       let (blocked, k1) = pipe64_block_current_task owner_id Reader i k
       in if blocked then (Some PIPE64_IO_BLOCKED, k1)
          else (case spins of
                  0 \<Rightarrow> (Some PIPE64_IO_ERROR, k1)
                | Suc n \<Rightarrow> read_wait n i owner_id bytes_read k1))"

declare read_wait.simps [simp del]

text \<open>\<open>n\<close> bytes are still wanted, \<open>got\<close> are already in the caller's buffer.\<close>

fun read_loop ::
    "nat \<Rightarrow> u32 \<Rightarrow> nat \<Rightarrow> u8 list \<Rightarrow> 'a kernel_pipe_scheme \<Rightarrow>
     (u32 + u32) \<times> u8 list \<times> 'a kernel_pipe_scheme" where
  "read_loop i owner_id 0 got k = (Inr (of_nat (length got)), got, k)"
| "read_loop i owner_id (Suc n) got k =
    (case read_wait PIPE64_SPIN_WAIT_LIMIT i owner_id (of_nat (length got)) k of
       (Some code, k1) \<Rightarrow> (Inl code, got, k1)
     | (None, k1) \<Rightarrow>
         read_loop i owner_id n (got @ [fst (take_byte (pipe_at k1 i))])
           (upd_pipe i (\<lambda>p. snd (take_byte p)) k1))"

text \<open>The result, the bytes stored into \<^verbatim>\<open>output\<close> and the kernel; \<open>output\<close> is whether it is not null.\<close>

definition pipe64_read ::
    "u32 \<Rightarrow> bool \<Rightarrow> u32 \<Rightarrow> u32 \<Rightarrow> 'a kernel_pipe_scheme \<Rightarrow> u32 \<times> u8 list \<times> 'a kernel_pipe_scheme" where
  "pipe64_read pipe_handle output byte_count owner_id k =
    (if byte_count = 0 then (0, [], k)
     else if \<not> output then (PIPE64_IO_ERROR, [], pipe_deny k)
     else (case pipe64_find pipe_handle owner_id k of
             (None, k1) \<Rightarrow> (PIPE64_IO_ERROR, [], pipe_deny k1)
           | (Some i, k1) \<Rightarrow>
               if pipe64_handle_kind pipe_handle \<noteq> PIPE64_HANDLE_KIND_READ
                 \<or> pb_reader_closed (pipe_at k1 i)
               then (PIPE64_IO_ERROR, [], pipe_deny k1)
               else (case read_loop i owner_id (unat byte_count) [] k1 of
                       (Inl code, got, k2) \<Rightarrow> (code, got, k2)
                     | (Inr n, got, k2) \<Rightarrow>
                         (n, got,
                          if n \<noteq> 0 \<and> pb_byte_count (pipe_at k2 i) < pb_capacity (pipe_at k2 i)
                          then snd (pipe64_wake_blocked_task Writer i k2) else k2))))"


section \<open>Closing an end\<close>

definition drop_read_ref :: "pipe64_buffer \<Rightarrow> pipe64_buffer" where
  "drop_read_ref p = (if pb_read_ref_count p \<noteq> 0
     then p\<lparr>pb_read_ref_count := pb_read_ref_count p - 1\<rparr> else p)"

definition drop_write_ref :: "pipe64_buffer \<Rightarrow> pipe64_buffer" where
  "drop_write_ref p = (if pb_write_ref_count p \<noteq> 0
     then p\<lparr>pb_write_ref_count := pb_write_ref_count p - 1\<rparr> else p)"

definition clear_if_closed :: "nat \<Rightarrow> 'a kernel_pipe_scheme \<Rightarrow> 'a kernel_pipe_scheme" where
  "clear_if_closed i k =
    (if pb_reader_closed (pipe_at k i) \<and> pb_writer_closed (pipe_at k i)
     then pipe64_clear_object i k else k)"

definition pipe64_revoke_handle ::
    "u32 \<Rightarrow> u32 \<Rightarrow> 'a kernel_pipe_scheme \<Rightarrow> bool \<times> 'a kernel_pipe_scheme" where
  "pipe64_revoke_handle pipe_handle owner_id k =
    (case pipe64_find pipe_handle owner_id k of
       (None, k1) \<Rightarrow> (False, k1)
     | (Some i, k1) \<Rightarrow>
         if pipe64_handle_kind pipe_handle = PIPE64_HANDLE_KIND_READ
         then let k2 = upd_pipe i drop_read_ref k1;
                  k3 = (if pb_read_ref_count (pipe_at k2 i) = 0
                        then snd (pipe64_wake_blocked_task Writer i
                                    (upd_pipe i (\<lambda>p. p\<lparr>pb_reader_closed := True\<rparr>) k2))
                        else k2)
              in (True, clear_if_closed i k3)
         else if pipe64_handle_kind pipe_handle = PIPE64_HANDLE_KIND_WRITE
         then let k2 = upd_pipe i drop_write_ref k1;
                  k3 = (if pb_write_ref_count (pipe_at k2 i) = 0
                        then snd (pipe64_wake_blocked_task Reader i
                                    (upd_pipe i (\<lambda>p. p\<lparr>pb_writer_closed := True\<rparr>) k2))
                        else k2)
              in (True, clear_if_closed i k3)
         else (False, pipe_deny k1))"


section \<open>Queries\<close>

definition pipe64_live_count :: "'a kernel_pipe_scheme \<Rightarrow> u32 \<times> 'a kernel_pipe_scheme" where
  "pipe64_live_count k0 =
    (let k = pipe64_init k0 in (of_nat (count_if pb_live (g_pipe64_objects (k_pipe k))), k))"

definition pipe_query ::
    "(pipe64_buffer \<Rightarrow> 'v) \<Rightarrow> 'v \<Rightarrow> u32 \<Rightarrow> u32 \<Rightarrow> 'a kernel_pipe_scheme \<Rightarrow> 'v \<times> 'a kernel_pipe_scheme" where
  "pipe_query f d pipe_handle owner_id k =
    (case pipe64_find pipe_handle owner_id k of
       (None, k1) \<Rightarrow> (d, k1)
     | (Some i, k1) \<Rightarrow> (f (pipe_at k1 i), k1))"

definition pipe64_bytes_available ::
    "u32 \<Rightarrow> u32 \<Rightarrow> 'a kernel_pipe_scheme \<Rightarrow> u32 \<times> 'a kernel_pipe_scheme" where
  "pipe64_bytes_available = pipe_query pb_byte_count PIPE64_INVALID_HANDLE"

definition pipe64_capacity ::
    "u32 \<Rightarrow> u32 \<Rightarrow> 'a kernel_pipe_scheme \<Rightarrow> u32 \<times> 'a kernel_pipe_scheme" where
  "pipe64_capacity = pipe_query pb_capacity 0"

definition pipe64_reader_closed ::
    "u32 \<Rightarrow> u32 \<Rightarrow> 'a kernel_pipe_scheme \<Rightarrow> bool \<times> 'a kernel_pipe_scheme" where
  "pipe64_reader_closed = pipe_query pb_reader_closed False"

definition pipe64_writer_closed ::
    "u32 \<Rightarrow> u32 \<Rightarrow> 'a kernel_pipe_scheme \<Rightarrow> bool \<times> 'a kernel_pipe_scheme" where
  "pipe64_writer_closed = pipe_query pb_writer_closed False"

definition pipe64_blocked_reader_task ::
    "u32 \<Rightarrow> u32 \<Rightarrow> 'a kernel_pipe_scheme \<Rightarrow> u32 \<times> 'a kernel_pipe_scheme" where
  "pipe64_blocked_reader_task = pipe_query pb_blocked_reader_task_id SCHEDULER64_INVALID_TASK"

definition pipe64_blocked_writer_task ::
    "u32 \<Rightarrow> u32 \<Rightarrow> 'a kernel_pipe_scheme \<Rightarrow> u32 \<times> 'a kernel_pipe_scheme" where
  "pipe64_blocked_writer_task = pipe_query pb_blocked_writer_task_id SCHEDULER64_INVALID_TASK"

definition pipe_counter ::
    "(pipe_state \<Rightarrow> u32) \<Rightarrow> 'a kernel_pipe_scheme \<Rightarrow> u32 \<times> 'a kernel_pipe_scheme" where
  "pipe_counter f k0 = (let k = pipe64_init k0 in (f (k_pipe k), k))"

definition pipe64_block_count :: "'a kernel_pipe_scheme \<Rightarrow> u32 \<times> 'a kernel_pipe_scheme" where
  "pipe64_block_count = pipe_counter g_pipe64_block_count"

definition pipe64_wake_count :: "'a kernel_pipe_scheme \<Rightarrow> u32 \<times> 'a kernel_pipe_scheme" where
  "pipe64_wake_count = pipe_counter g_pipe64_wake_count"

definition pipe64_replay_wake_count :: "'a kernel_pipe_scheme \<Rightarrow> u32 \<times> 'a kernel_pipe_scheme" where
  "pipe64_replay_wake_count = pipe_counter g_pipe64_replay_wake_count"

definition pipe64_denial_count :: "'a kernel_pipe_scheme \<Rightarrow> u32 \<times> 'a kernel_pipe_scheme" where
  "pipe64_denial_count = pipe_counter g_pipe64_denials"

end
