(* ===== verification/Ramfs.thy ===== *)
theory Ramfs
  imports Handle_Table
begin

text \<open>
  The in-memory file system, \<^verbatim>\<open>kernel/core/ramfs.c\<close>: a table of 64 nodes with parent links, path
  walking, creation, listing, reading, writing, moving and deleting, and the text form of a
  node's metadata.

  A node is addressed by its slot. A pointer with a length is the list of the bytes behind it;
  no caller passes a null pointer. Operations that write into a buffer of the caller return the
  bytes written, \<open>None\<close> for the error result. The loop that follows parent links ends only when the
  links have no cycle; it is a partial function, and \<open>None\<close> as the result of a routine that runs it
  means that the routine does not return.
\<close>

abbreviation (input) RAMFS_NODE_NONE :: u32 where "RAMFS_NODE_NONE \<equiv> 0"
abbreviation (input) RAMFS_NODE_DIRECTORY :: u32 where "RAMFS_NODE_DIRECTORY \<equiv> 1"
abbreviation (input) RAMFS_NODE_FILE :: u32 where "RAMFS_NODE_FILE \<equiv> 2"
abbreviation (input) RAMFS_NODE_ROOT :: u32 where "RAMFS_NODE_ROOT \<equiv> 1"

definition RAMFS_NODE_LIMIT :: nat where "RAMFS_NODE_LIMIT = 64"
definition RAMFS_NAME_CAPACITY :: nat where "RAMFS_NAME_CAPACITY = 32"
definition RAMFS_FILE_CAPACITY :: nat where "RAMFS_FILE_CAPACITY = 256"

record ramfs_node =
  rn_id :: u32
  rn_parent_id :: u32
  rn_type :: u32
  rn_active :: bool
  rn_name :: "u8 list"
  rn_contents :: "u8 list"
  rn_length :: u32

type_synonym ramfs = "ramfs_node list"

record ramfs_seed_node =
  sn_id :: u32
  sn_parent_id :: u32
  sn_type :: u32
  sn_name :: string
  sn_contents :: "string option"

text \<open>A node after \<^verbatim>\<open>bytes_zero\<close>.\<close>

definition zero_node :: ramfs_node where
  "zero_node = \<lparr>rn_id = 0, rn_parent_id = 0, rn_type = RAMFS_NODE_NONE, rn_active = False,
     rn_name = replicate RAMFS_NAME_CAPACITY 0, rn_contents = replicate RAMFS_FILE_CAPACITY 0,
     rn_length = 0\<rparr>"

definition text_lines :: "string list \<Rightarrow> string" where
  "text_lines ls = concat (map (\<lambda>l. l @ [CHR 0x0A]) ls)"

abbreviation (input) seed_dir :: "u32 \<Rightarrow> u32 \<Rightarrow> string \<Rightarrow> ramfs_seed_node" where
  "seed_dir i p n \<equiv> \<lparr>sn_id = i, sn_parent_id = p, sn_type = RAMFS_NODE_DIRECTORY, sn_name = n, sn_contents = None\<rparr>"

abbreviation (input) seed_file :: "u32 \<Rightarrow> u32 \<Rightarrow> string \<Rightarrow> string list \<Rightarrow> ramfs_seed_node" where
  "seed_file i p n ls \<equiv> \<lparr>sn_id = i, sn_parent_id = p, sn_type = RAMFS_NODE_FILE, sn_name = n,
     sn_contents = Some (text_lines ls)\<rparr>"

definition seed_nodes :: "ramfs_seed_node list" where
  "seed_nodes = [
    seed_dir 1 0 ''/'',
    seed_file 2 1 ''README.TXT''
      [''LimitlessOS bootstrap ramfs'', ''This userspace shell is reading files through capability-checked handles.''],
    seed_file 3 1 ''SERVICES.TXT''
      [''services:'', ''- ai-policy'', ''- console'', ''- input'', ''- ramfs''],
    seed_dir 4 1 ''APPS'',
    seed_file 5 4 ''HELLO.TXT'' [''hello from /APPS/HELLO.TXT''],
    seed_file 6 4 ''ECHO.APP''
      [''12'', ''1'', ''1'', ''3'', ''echo <text> - print text through delegated console'', ''text''],
    seed_file 7 4 ''LS.APP''
      [''3'', ''3'', ''2'', ''3'', ''ls [path] - list directory entries from cwd or a given path'', ''filesystem''],
    seed_file 8 4 ''CAT.APP''
      [''4'', ''3'', ''2'', ''3'', ''cat <path> - print file contents'', ''filesystem''],
    seed_file 9 4 ''STAT.APP''
      [''7'', ''3'', ''2'', ''3'', ''stat <path> - show file or directory metadata'', ''filesystem''],
    seed_file 10 4 ''MKDIR.APP''
      [''5'', ''3'', ''2'', ''1'', ''mkdir <path> - create a directory tree'', ''filesystem''],
    seed_file 11 4 ''WRITE.APP''
      [''6'', ''11'', ''3'', ''1'', ''write <path> <text> - replace file contents'', ''filesystem''],
    seed_file 12 4 ''RENAME.APP''
      [''8'', ''19'', ''4'', ''1'', ''rename <from> <to> - rename within one directory'', ''filesystem''],
    seed_file 13 4 ''MOVE.APP''
      [''11'', ''23'', ''5'', ''1'', ''move <source> <dest> - move across directories'', ''filesystem''],
    seed_file 14 4 ''APPEND.APP''
      [''9'', ''11'', ''3'', ''1'', ''append <path> <text> - append text to a file'', ''filesystem''],
    seed_file 15 4 ''DELETE.APP''
      [''10'', ''3'', ''2'', ''1'', ''delete <path> - remove a file or empty directory'', ''filesystem''],
    seed_file 16 4 ''SAY.APP''
      [''12'', ''1'', ''1'', ''3'', ''say <text> - alias for echo'', ''aliases''],
    seed_file 17 4 ''SHOW.APP''
      [''4'', ''3'', ''2'', ''3'', ''show <path> - alias for cat'', ''aliases''],
    seed_file 18 4 ''LIST.APP''
      [''3'', ''3'', ''2'', ''3'', ''list [path] - alias for ls'', ''aliases''],
    seed_file 19 4 ''MAKE.APP''
      [''5'', ''3'', ''2'', ''1'', ''make <path> - alias for mkdir'', ''aliases''],
    seed_file 20 4 ''PUT.APP''
      [''6'', ''11'', ''3'', ''1'', ''put <path> <text> - alias for write'', ''aliases''],
    seed_file 21 4 ''SWAP.APP''
      [''8'', ''19'', ''4'', ''1'', ''swap <from> <to> - alias for rename'', ''aliases''],
    seed_file 22 4 ''SHIFT.APP''
      [''11'', ''23'', ''5'', ''1'', ''shift <source> <dest> - alias for move'', ''aliases''],
    seed_file 23 4 ''ASK.APP''
      [''13'', ''1'', ''1'', ''7'', ''ask <prompt> - print a prompt and read delegated input'', ''interactive''],
    seed_file 24 4 ''TOUCH.APP''
      [''14'', ''3'', ''2'', ''1'', ''touch <path> - create an empty file if missing'', ''filesystem''],
    seed_file 25 4 ''COPY.APP''
      [''15'', ''23'', ''5'', ''1'', ''copy <source> <dest> - copy a file across directories'', ''filesystem''],
    seed_file 26 4 ''INDEX.TXT''
      [''LimitlessOS /APPS index'', ''*.APP files are launcher descriptors.'', ''Use 'apps', 'help <command>', or 'info <command>' to inspect them.'']]"


section \<open>Buffers and numbers\<close>

text \<open>Appending to the bytes already written into a buffer of the given capacity.\<close>

definition bytes_append :: "nat \<Rightarrow> u8 list \<Rightarrow> u8 list \<Rightarrow> u8 list option" where
  "bytes_append byte_capacity written source_bytes =
    (if length written + length source_bytes > byte_capacity then None
     else Some (written @ source_bytes))"

definition text_append :: "nat \<Rightarrow> u8 list \<Rightarrow> string \<Rightarrow> u8 list option" where
  "text_append byte_capacity written source_text = bytes_append byte_capacity written (bytes_of source_text)"

text \<open>The digits of a number, least significant first.\<close>

function digit_loop :: "u32 \<Rightarrow> u8 list" where
  "digit_loop v = (if v = 0 then [] else (0x30 + ucast (v mod 10)) # digit_loop (v div 10))"
  by pat_completeness auto
termination
proof (relation "measure unat")
  fix v :: u32
  assume "v \<noteq> 0"
  then have "unat v div 10 < unat v" by (simp add: unat_gt_0)
  then show "(v div 10, v) \<in> measure unat" by (simp add: unat_div)
qed simp

declare digit_loop.simps [simp del]

definition decimal_digits :: "u32 \<Rightarrow> u8 list" where
  "decimal_digits v = (if v = 0 then [0x30] else rev (digit_loop v))"

definition decimal_append :: "nat \<Rightarrow> u8 list \<Rightarrow> u32 \<Rightarrow> u8 list option" where
  "decimal_append byte_capacity written v = bytes_append byte_capacity written (decimal_digits v)"


section \<open>The node table\<close>

text \<open>The bytes from the start of a node's name on: the name and, behind it, the contents.\<close>

definition node_text :: "ramfs_node \<Rightarrow> u8 list" where
  "node_text n = rn_name n @ rn_contents n"

definition text_length :: "u8 list \<Rightarrow> nat" where
  "text_length bytes = length (takeWhile (\<lambda>b. b \<noteq> 0) bytes)"

definition text_equals_segment :: "u8 list \<Rightarrow> u8 list \<Rightarrow> bool" where
  "text_equals_segment bytes segment \<longleftrightarrow>
     length segment < length bytes \<and> take (length segment) bytes = segment \<and> bytes ! length segment = 0"

definition ramfs_find_node :: "ramfs \<Rightarrow> u32 \<Rightarrow> nat option" where
  "ramfs_find_node nodes node_id = slot_of rn_active rn_id nodes node_id"

definition ramfs_find_child :: "ramfs \<Rightarrow> nat \<Rightarrow> u8 list \<Rightarrow> nat option" where
  "ramfs_find_child nodes parent segment =
    (if segment = [] then None
     else first_index (\<lambda>n. rn_active n \<and> rn_parent_id n = rn_id (nodes ! parent)
                           \<and> text_equals_segment (node_text n) segment) nodes)"

definition ramfs_child_count :: "ramfs \<Rightarrow> nat \<Rightarrow> u32" where
  "ramfs_child_count nodes parent =
    (if rn_type (nodes ! parent) \<noteq> RAMFS_NODE_DIRECTORY then 0
     else of_nat (count_if (\<lambda>n. rn_active n \<and> rn_parent_id n = rn_id (nodes ! parent)) nodes))"

partial_function (option) ramfs_parent_chain_contains :: "ramfs \<Rightarrow> u32 \<Rightarrow> u32 \<Rightarrow> bool option" where
  "ramfs_parent_chain_contains nodes node_id ancestor_id =
    (if node_id = 0 then Some False
     else if node_id = ancestor_id then Some True
     else case ramfs_find_node nodes node_id of
            None \<Rightarrow> Some False
          | Some i \<Rightarrow> ramfs_parent_chain_contains nodes (rn_parent_id (nodes ! i)) ancestor_id)"

definition ramfs_allocate_node :: "ramfs \<Rightarrow> (nat \<times> ramfs) option" where
  "ramfs_allocate_node nodes =
    (case first_index (\<lambda>n. \<not> rn_active n) nodes of
       None \<Rightarrow> None
     | Some i \<Rightarrow> Some (i, nodes[i := zero_node\<lparr>rn_active := True, rn_id := of_nat i + 1\<rparr>]))"

text \<open>A name written into a zeroed name field.\<close>

definition name_field :: "u8 list \<Rightarrow> u8 list" where
  "name_field name = name @ replicate (RAMFS_NAME_CAPACITY - length name) 0"

definition ramfs_create_child :: "ramfs \<Rightarrow> nat \<Rightarrow> u8 list \<Rightarrow> u32 \<Rightarrow> (nat \<times> ramfs) option" where
  "ramfs_create_child nodes parent name node_type =
    (if name = [] \<or> length name \<ge> RAMFS_NAME_CAPACITY \<or> node_type = RAMFS_NODE_NONE then None
     else case ramfs_allocate_node nodes of
            None \<Rightarrow> None
          | Some (i, nodes1) \<Rightarrow>
              Some (i, nodes1[i := (nodes1 ! i)\<lparr>rn_parent_id := rn_id (nodes ! parent), rn_type := node_type,
                                     rn_name := name_field name, rn_length := 0\<rparr>]))"

text \<open>The record \<^verbatim>\<open>ramfs_seed_node_copy\<close> writes: zeroed, then filled from the seed.\<close>

definition seeded_node :: "ramfs_seed_node \<Rightarrow> ramfs_node" where
  "seeded_node seed =
    (let n = zero_node\<lparr>rn_active := True, rn_id := sn_id seed, rn_parent_id := sn_parent_id seed,
                       rn_type := sn_type seed,
                       rn_name := name_field (take (RAMFS_NAME_CAPACITY - 1) (bytes_of (sn_name seed)))\<rparr>
     in case sn_contents seed of
          None \<Rightarrow> n
        | Some c \<Rightarrow>
            if length c \<le> RAMFS_FILE_CAPACITY
            then n\<lparr>rn_contents := bytes_of c @ replicate (RAMFS_FILE_CAPACITY - length c) 0,
                   rn_length := of_nat (length c)\<rparr>
            else n)"

definition ramfs_seed_node_copy :: "ramfs_seed_node \<Rightarrow> ramfs \<Rightarrow> ramfs" where
  "ramfs_seed_node_copy seed nodes =
    (case ramfs_find_node nodes (sn_id seed) of
       Some i \<Rightarrow> nodes[i := seeded_node seed]
     | None \<Rightarrow>
         (case ramfs_allocate_node nodes of
            None \<Rightarrow> nodes
          | Some (i, nodes1) \<Rightarrow> nodes1[i := seeded_node seed]))"

definition ramfs_init :: ramfs where
  "ramfs_init = fold ramfs_seed_node_copy seed_nodes (replicate RAMFS_NODE_LIMIT zero_node)"

definition ramfs_root_node :: u32 where
  "ramfs_root_node = RAMFS_NODE_ROOT"

definition ramfs_node_exists :: "ramfs \<Rightarrow> u32 \<Rightarrow> bool" where
  "ramfs_node_exists nodes node_id \<longleftrightarrow> ramfs_find_node nodes node_id \<noteq> None"

definition ramfs_node_is_directory :: "ramfs \<Rightarrow> u32 \<Rightarrow> bool" where
  "ramfs_node_is_directory nodes node_id \<longleftrightarrow>
    (case ramfs_find_node nodes node_id of
       None \<Rightarrow> False
     | Some i \<Rightarrow> rn_type (nodes ! i) = RAMFS_NODE_DIRECTORY)"

definition ramfs_node_name :: "ramfs \<Rightarrow> u32 \<Rightarrow> u8 list" where
  "ramfs_node_name nodes node_id =
    (case ramfs_find_node nodes node_id of
       None \<Rightarrow> bytes_of ''unknown-node''
     | Some i \<Rightarrow> takeWhile (\<lambda>b. b \<noteq> 0) (node_text (nodes ! i)))"


section \<open>Paths\<close>

abbreviation (input) slash :: u8 where "slash \<equiv> 0x2F"
abbreviation (input) dot :: u8 where "dot \<equiv> 0x2E"

definition skip_slashes :: "u8 list \<Rightarrow> u8 list" where
  "skip_slashes = dropWhile (\<lambda>b. b = slash)"

definition segment_of :: "u8 list \<Rightarrow> u8 list" where
  "segment_of = takeWhile (\<lambda>b. b \<noteq> slash)"

text \<open>The path behind its first segment and the slashes that end it.\<close>

definition after_segment :: "u8 list \<Rightarrow> u8 list" where
  "after_segment path = skip_slashes (dropWhile (\<lambda>b. b \<noteq> slash) path)"

lemma skip_slashes_le: "length (skip_slashes path) \<le> length path"
  unfolding skip_slashes_def by (rule length_dropWhile_le)

lemma after_segment_less: "path \<noteq> [] \<Longrightarrow> length (after_segment path) < length path"
proof (cases path)
  case (Cons b bs)
  show ?thesis
  proof (cases "b = slash")
    case True
    then show ?thesis
      using length_dropWhile_le [of "\<lambda>b. b = slash" bs] by (simp add: Cons after_segment_def skip_slashes_def)
  next
    case False
    then have "length (after_segment path) \<le> length (dropWhile (\<lambda>b. b \<noteq> slash) bs)"
      using skip_slashes_le by (simp add: Cons after_segment_def)
    also have "\<dots> \<le> length bs" by (rule length_dropWhile_le)
    finally show ?thesis by (simp add: Cons)
  qed
qed simp

text \<open>The walk of \<^verbatim>\<open>ramfs_open\<close> from a directory; the result is the slot of the node the path names.\<close>

function open_walk :: "ramfs \<Rightarrow> nat \<Rightarrow> u8 list \<Rightarrow> nat option" where
  "open_walk nodes current path =
    (if path = [] then Some current
     else if segment_of path = [dot] then open_walk nodes current (after_segment path)
     else case ramfs_find_child nodes current (segment_of path) of
            None \<Rightarrow> None
          | Some child \<Rightarrow> open_walk nodes child (after_segment path))"
  by pat_completeness auto
termination
  by (relation "measure (\<lambda>(nodes, current, path). length path)") (simp_all add: after_segment_less)

declare open_walk.simps [simp del]

definition ramfs_open :: "ramfs \<Rightarrow> u32 \<Rightarrow> u8 list \<Rightarrow> u32 option" where
  "ramfs_open nodes base_node_id path =
    (case ramfs_find_node nodes base_node_id of
       None \<Rightarrow> None
     | Some current \<Rightarrow>
         if rn_type (nodes ! current) \<noteq> RAMFS_NODE_DIRECTORY then None
         else if path \<noteq> [] \<and> hd path = slash
         then (if rn_id (nodes ! current) \<noteq> RAMFS_NODE_ROOT then None
               else case ramfs_find_node nodes RAMFS_NODE_ROOT of
                      None \<Rightarrow> None
                    | Some root \<Rightarrow>
                        map_option (\<lambda>i. rn_id (nodes ! i)) (open_walk nodes root (skip_slashes path)))
         else map_option (\<lambda>i. rn_id (nodes ! i)) (open_walk nodes current path))"

text \<open>
  The walk of \<^verbatim>\<open>ramfs_walk_parent\<close>; the result is the directory that holds the last segment, and
  that segment.
\<close>

function walk_loop :: "ramfs \<Rightarrow> nat \<Rightarrow> u8 list \<Rightarrow> (nat \<times> u8 list) option" where
  "walk_loop nodes current path =
    (let p = skip_slashes path; segment = segment_of p; next_path = after_segment p
     in if p = [] then None
        else if segment = [dot] then walk_loop nodes current next_path
        else if next_path = [] then (if segment = [] then None else Some (current, segment))
        else case ramfs_find_child nodes current segment of
               None \<Rightarrow> None
             | Some child \<Rightarrow>
                 if rn_type (nodes ! child) \<noteq> RAMFS_NODE_DIRECTORY then None
                 else walk_loop nodes child next_path)"
  by pat_completeness auto
termination
proof (relation "measure (\<lambda>(nodes, current, path). length path)", goal_cases)
  case (2 nodes current path p segment next_path)
  then show ?case
    using after_segment_less [of "skip_slashes path"] skip_slashes_le [of path] by simp
next
  case (3 nodes current path p segment next_path child)
  then show ?case
    using after_segment_less [of "skip_slashes path"] skip_slashes_le [of path] by simp
qed simp

declare walk_loop.simps [simp del]

definition ramfs_walk_parent :: "ramfs \<Rightarrow> u32 \<Rightarrow> u8 list \<Rightarrow> (nat \<times> u8 list) option" where
  "ramfs_walk_parent nodes base_node_id path =
    (if path = [] then None
     else case ramfs_find_node nodes base_node_id of
            None \<Rightarrow> None
          | Some current \<Rightarrow>
              if rn_type (nodes ! current) \<noteq> RAMFS_NODE_DIRECTORY then None
              else if hd path = slash
              then (if rn_id (nodes ! current) \<noteq> RAMFS_NODE_ROOT then None
                    else case ramfs_find_node nodes RAMFS_NODE_ROOT of
                           None \<Rightarrow> None
                         | Some root \<Rightarrow> walk_loop nodes root (skip_slashes path))
              else walk_loop nodes current path)"


section \<open>Operations\<close>

definition ramfs_create :: "u32 \<Rightarrow> u8 list \<Rightarrow> u32 \<Rightarrow> ramfs \<Rightarrow> u32 option \<times> ramfs" where
  "ramfs_create base_node_id path node_type nodes =
    (if node_type \<noteq> RAMFS_NODE_DIRECTORY \<and> node_type \<noteq> RAMFS_NODE_FILE then (None, nodes)
     else case ramfs_walk_parent nodes base_node_id path of
            None \<Rightarrow> (None, nodes)
          | Some (parent, leaf) \<Rightarrow>
              (case ramfs_find_child nodes parent leaf of
                 Some i \<Rightarrow>
                   (if rn_type (nodes ! i) = node_type then Some (rn_id (nodes ! i)) else None, nodes)
               | None \<Rightarrow>
                   (case ramfs_create_child nodes parent leaf node_type of
                      None \<Rightarrow> (None, nodes)
                    | Some (i, nodes1) \<Rightarrow> (Some (rn_id (nodes1 ! i)), nodes1))))"

text \<open>The entries of a directory as \<^verbatim>\<open>ramfs_list\<close> writes them, from the bytes already written.\<close>

fun list_loop :: "nat \<Rightarrow> u32 \<Rightarrow> u8 list \<Rightarrow> ramfs \<Rightarrow> u8 list" where
  "list_loop byte_capacity dir_id written [] = written"
| "list_loop byte_capacity dir_id written (n # ns) =
    (if \<not> rn_active n \<or> rn_parent_id n \<noteq> dir_id then list_loop byte_capacity dir_id written ns
     else
       let name = takeWhile (\<lambda>b. b \<noteq> 0) (node_text n);
           named = written @ name;
           is_dir = (rn_type n = RAMFS_NODE_DIRECTORY);
           marked = (if is_dir then named @ [slash] else named)
       in if length written + length name + 1 > byte_capacity then written
          else if is_dir \<and> length named \<ge> byte_capacity then named
          else if length marked \<ge> byte_capacity then marked
          else list_loop byte_capacity dir_id (marked @ [0x0A]) ns)"

definition ramfs_list :: "ramfs \<Rightarrow> u32 \<Rightarrow> u32 \<Rightarrow> u8 list option" where
  "ramfs_list nodes node_id byte_capacity =
    (case ramfs_find_node nodes node_id of
       None \<Rightarrow> None
     | Some i \<Rightarrow>
         if rn_type (nodes ! i) \<noteq> RAMFS_NODE_DIRECTORY \<or> byte_capacity = 0 then None
         else Some (list_loop (unat byte_capacity) (rn_id (nodes ! i)) [] nodes))"

definition ramfs_read :: "ramfs \<Rightarrow> u32 \<Rightarrow> u32 \<Rightarrow> u32 \<Rightarrow> u8 list option" where
  "ramfs_read nodes node_id file_offset byte_capacity =
    (case ramfs_find_node nodes node_id of
       None \<Rightarrow> None
     | Some i \<Rightarrow>
         let file = nodes ! i; remaining = rn_length file - file_offset
         in if rn_type file \<noteq> RAMFS_NODE_FILE \<or> file_offset > rn_length file then None
            else Some (take (unat (if remaining > byte_capacity then byte_capacity else remaining))
                         (drop (unat file_offset) (rn_contents file))))"

text \<open>The contents after \<^verbatim>\<open>ramfs_write\<close>: a gap before the offset is zeroed, then the bytes are copied.\<close>

definition written_contents :: "u8 list \<Rightarrow> nat \<Rightarrow> nat \<Rightarrow> u8 list \<Rightarrow> u8 list" where
  "written_contents c len off bytes =
    (let c1 = (if off > len then take len c @ replicate (off - len) 0 @ drop off c else c)
     in take off c1 @ bytes @ drop (off + length bytes) c1)"

definition ramfs_write :: "u32 \<Rightarrow> u32 \<Rightarrow> u8 list \<Rightarrow> ramfs \<Rightarrow> u32 option \<times> ramfs" where
  "ramfs_write node_id file_offset source_bytes nodes =
    (case ramfs_find_node nodes node_id of
       None \<Rightarrow> (None, nodes)
     | Some i \<Rightarrow>
         let file = nodes ! i; off = unat file_offset;
             actual = take (RAMFS_FILE_CAPACITY - off) source_bytes;
             end_offset = off + length actual
         in if rn_type file \<noteq> RAMFS_NODE_FILE \<or> off > RAMFS_FILE_CAPACITY then (None, nodes)
            else (Some (of_nat (length actual)),
                  nodes[i := file\<lparr>rn_contents := written_contents (rn_contents file) (unat (rn_length file)) off actual,
                                  rn_length := (if end_offset > unat (rn_length file) then of_nat end_offset
                                                else rn_length file)\<rparr>]))"

definition ramfs_move ::
    "u32 \<Rightarrow> u8 list \<Rightarrow> u32 \<Rightarrow> u8 list \<Rightarrow> ramfs \<Rightarrow> (bool \<times> ramfs) option" where
  "ramfs_move source_base source_path destination_base destination_path nodes =
    (case ramfs_walk_parent nodes source_base source_path of
       None \<Rightarrow> Some (False, nodes)
     | Some (source_parent, source_leaf) \<Rightarrow>
       (case ramfs_walk_parent nodes destination_base destination_path of
          None \<Rightarrow> Some (False, nodes)
        | Some (destination_parent, destination_leaf) \<Rightarrow>
          if destination_leaf = [] \<or> length destination_leaf \<ge> RAMFS_NAME_CAPACITY then Some (False, nodes)
          else (case ramfs_find_child nodes source_parent source_leaf of
            None \<Rightarrow> Some (False, nodes)
          | Some source \<Rightarrow>
            (case ramfs_find_child nodes destination_parent destination_leaf of
               Some existing \<Rightarrow> Some (rn_id (nodes ! existing) = rn_id (nodes ! source), nodes)
             | None \<Rightarrow>
                 let moved_nodes = nodes[source := (nodes ! source)
                       \<lparr>rn_parent_id := rn_id (nodes ! destination_parent), rn_name := name_field destination_leaf\<rparr>]
                 in if rn_type (nodes ! source) = RAMFS_NODE_DIRECTORY
                    then (case ramfs_parent_chain_contains nodes (rn_id (nodes ! destination_parent))
                                 (rn_id (nodes ! source)) of
                            None \<Rightarrow> None
                          | Some True \<Rightarrow> Some (False, nodes)
                          | Some False \<Rightarrow> Some (True, moved_nodes))
                    else Some (True, moved_nodes)))))"

definition ramfs_rename :: "u32 \<Rightarrow> u8 list \<Rightarrow> u8 list \<Rightarrow> ramfs \<Rightarrow> (bool \<times> ramfs) option" where
  "ramfs_rename base source_path destination_path = ramfs_move base source_path base destination_path"

definition ramfs_delete :: "u32 \<Rightarrow> u8 list \<Rightarrow> ramfs \<Rightarrow> bool \<times> ramfs" where
  "ramfs_delete base_node_id path nodes =
    (case ramfs_walk_parent nodes base_node_id path of
       None \<Rightarrow> (False, nodes)
     | Some (parent, leaf) \<Rightarrow>
         (case ramfs_find_child nodes parent leaf of
            None \<Rightarrow> (False, nodes)
          | Some i \<Rightarrow>
              if rn_id (nodes ! i) = RAMFS_NODE_ROOT then (False, nodes)
              else if rn_type (nodes ! i) = RAMFS_NODE_DIRECTORY \<and> ramfs_child_count nodes i \<noteq> 0
              then (False, nodes)
              else (True, nodes[i := zero_node])))"


section \<open>Metadata\<close>

record ramfs_stat =
  rs_node_type :: u32
  rs_byte_length :: u32
  rs_child_count :: u32

definition ramfs_stat_of :: "ramfs \<Rightarrow> u32 \<Rightarrow> ramfs_stat option" where
  "ramfs_stat_of nodes node_id =
    (case ramfs_find_node nodes node_id of
       None \<Rightarrow> None
     | Some i \<Rightarrow> Some \<lparr>rs_node_type = rn_type (nodes ! i), rs_byte_length = rn_length (nodes ! i),
                      rs_child_count = (if rn_type (nodes ! i) = RAMFS_NODE_DIRECTORY
                                        then ramfs_child_count nodes i else 0)\<rparr>)"

definition ramfs_format_stat :: "ramfs_stat \<Rightarrow> u32 \<Rightarrow> u8 list option" where
  "ramfs_format_stat st byte_capacity =
    (let cap = unat byte_capacity;
         labelled = (\<lambda>label v.
           (case text_append cap [] label of
              None \<Rightarrow> None
            | Some w \<Rightarrow>
                (case decimal_append cap w v of
                   None \<Rightarrow> None
                 | Some w1 \<Rightarrow> text_append cap w1 [CHR 0x0A])))
     in if byte_capacity = 0 then None
        else if rs_node_type st = RAMFS_NODE_DIRECTORY
        then labelled ''type=dir entries='' (rs_child_count st)
        else if rs_node_type st = RAMFS_NODE_FILE
        then labelled ''type=file size='' (rs_byte_length st)
        else text_append cap [] (''type=unknown'' @ [CHR 0x0A]))"

end
