(* ===== verification/Fs.thy ===== *)
theory Fs
  imports Pipe Ramfs
begin

text \<open>
  The file service, \<^verbatim>\<open>kernel/arch/x86_64/fs.c\<close>: a table of 32 node capabilities through which callers
  reach the nodes of the in-memory file system. An operation starts from a node capability or from
  a service capability routed to the file endpoint, checks owner, rights and the generation of the
  serving runtime, and works on the node.

  The storage drivers of \<^verbatim>\<open>mmio.c\<close> are a parameter: a record of functions on a device state of their
  own, which no other part of the kernel reads. Addresses are read and written in an explicit
  memory. A pointer to kernel memory is the list of the bytes behind it, \<open>None\<close> when it is null; an
  output buffer is returned as the bytes written to it, and null output pointers, which the code
  refuses, do not occur. The two scratch buffers are filled anew by every operation that reads them
  and so are values of these operations. The state extends that of the pipes.
\<close>

abbreviation (input) FS64_INVALID_HANDLE :: u32 where "FS64_INVALID_HANDLE \<equiv> 0xFFFFFFFF"
abbreviation (input) FS64_RIGHT_LIST :: u32 where "FS64_RIGHT_LIST \<equiv> 0x100"
abbreviation (input) FS64_RIGHT_READ :: u32 where "FS64_RIGHT_READ \<equiv> 0x200"
abbreviation (input) FS64_RIGHT_CREATE :: u32 where "FS64_RIGHT_CREATE \<equiv> 0x400"
abbreviation (input) FS64_RIGHT_WRITE :: u32 where "FS64_RIGHT_WRITE \<equiv> 0x800"
abbreviation (input) FS64_RIGHT_STAT :: u32 where "FS64_RIGHT_STAT \<equiv> 0x1000"
abbreviation (input) FS64_RIGHT_RENAME :: u32 where "FS64_RIGHT_RENAME \<equiv> 0x2000"
abbreviation (input) FS64_RIGHT_DELETE :: u32 where "FS64_RIGHT_DELETE \<equiv> 0x4000"
abbreviation (input) FS64_RIGHT_DELEGATE :: u32 where "FS64_RIGHT_DELEGATE \<equiv> 0x8000"
abbreviation (input) FS64_TABLE_LIMIT :: nat where "FS64_TABLE_LIMIT \<equiv> 32"
abbreviation (input) FS64_HANDLE_BASE :: u32 where "FS64_HANDLE_BASE \<equiv> 0x6600"
abbreviation (input) FS64_PATH_SCRATCH_BYTES :: u32 where "FS64_PATH_SCRATCH_BYTES \<equiv> 256"
abbreviation (input) FS64_IO_SCRATCH_BYTES :: u32 where "FS64_IO_SCRATCH_BYTES \<equiv> 256"
abbreviation (input) FS64_STORED_PATH_BYTES :: nat where "FS64_STORED_PATH_BYTES \<equiv> 64"
abbreviation (input) LAUNCH64_USER_IMAGE_BASE :: u64 where "LAUNCH64_USER_IMAGE_BASE \<equiv> 0x41000000"
abbreviation (input) LAUNCH64_USER_STACK_TOP :: u64 where "LAUNCH64_USER_STACK_TOP \<equiv> 0x40020000"
abbreviation (input) LAUNCH64_USER_STACK_BYTES :: u64 where "LAUNCH64_USER_STACK_BYTES \<equiv> 0x1000"

record fs64_node_capability =
  nc_active :: bool
  nc_handle :: u32
  nc_node_id :: u32
  nc_rights :: u32
  nc_parent_handle :: u32
  nc_owner_id :: u32
  nc_runtime_generation :: u32
  nc_runtime_token :: u32
  nc_storage_descriptor_selector :: u32
  nc_path_byte_count :: u32
  nc_path :: "u8 list"

record fs_state =
  g_fs64_caps :: "fs64_node_capability list"
  fs_next_handle :: u32
  fs_initialized :: bool
  fs_open_count :: u32
  fs_create_count :: u32
  fs_list_count :: u32
  fs_read_count :: u32
  fs_write_count :: u32
  fs_stat_count :: u32
  fs_revoke_count :: u32
  fs_denial_count :: u32
  fs_stale_denial_count :: u32

text \<open>
  What the service calls of the storage drivers, and the size of the mapped user image. A file read
  from the disk is \<open>None\<close> when the driver reports failure, and a descriptor read is \<open>None\<close> for the
  error result.
\<close>

record 'd storage =
  mmio64_fs_shell_descriptor_selector_by_path :: "u8 list \<Rightarrow> 'd \<Rightarrow> u32"
  mmio64_nvme_fat_shell_read_file :: "u8 list \<Rightarrow> u32 \<Rightarrow> u32 \<Rightarrow> 'd \<Rightarrow> u8 list option \<times> 'd"
  mmio64_fs_shell_read_descriptor :: "u32 \<Rightarrow> u32 \<Rightarrow> u32 \<Rightarrow> u32 \<Rightarrow> 'd \<Rightarrow> u8 list option \<times> 'd"
  mmio64_nvme_fat_shell_write_file :: "u8 list \<Rightarrow> u8 list \<Rightarrow> u32 \<Rightarrow> 'd \<Rightarrow> bool \<times> 'd"
  runtime64_transfer_image_size :: u32

record 'd kernel_fs = kernel_pipe +
  k_ramfs :: ramfs
  k_fs :: fs_state
  k_dev :: 'd
  k_mem :: "u64 \<Rightarrow> u8"

abbreviation node_cap :: "('d, 'a) kernel_fs_scheme \<Rightarrow> nat \<Rightarrow> fs64_node_capability" where
  "node_cap k i \<equiv> g_fs64_caps (k_fs k) ! i"

definition upd_fs :: "(fs_state \<Rightarrow> fs_state) \<Rightarrow> ('d, 'a) kernel_fs_scheme \<Rightarrow> ('d, 'a) kernel_fs_scheme" where
  "upd_fs f k = k\<lparr>k_fs := f (k_fs k)\<rparr>"

definition upd_node_cap ::
    "nat \<Rightarrow> (fs64_node_capability \<Rightarrow> fs64_node_capability) \<Rightarrow> ('d, 'a) kernel_fs_scheme \<Rightarrow> ('d, 'a) kernel_fs_scheme" where
  "upd_node_cap i f = upd_fs (\<lambda>s. s\<lparr>g_fs64_caps := (g_fs64_caps s)[i := f (g_fs64_caps s ! i)]\<rparr>)"

definition count_fs_denial :: "('d, 'a) kernel_fs_scheme \<Rightarrow> ('d, 'a) kernel_fs_scheme" where
  "count_fs_denial = upd_fs (\<lambda>s. s\<lparr>fs_denial_count := fs_denial_count s + 1\<rparr>)"

definition fs64_deny :: "('d, 'a) kernel_fs_scheme \<Rightarrow> u32 \<times> ('d, 'a) kernel_fs_scheme" where
  "fs64_deny k = (FS64_INVALID_HANDLE, count_fs_denial k)"

definition fs64_owner_is_valid :: "u32 \<Rightarrow> ('d, 'a) kernel_fs_scheme \<Rightarrow> bool \<times> ('d, 'a) kernel_fs_scheme" where
  "fs64_owner_is_valid owner_id k =
    (if principal64_is_active owner_id then (True, k) else (False, count_fs_denial k))"


section \<open>Addresses\<close>

definition fs64_range_overflows :: "u64 \<Rightarrow> u32 \<Rightarrow> bool" where
  "fs64_range_overflows address byte_count \<longleftrightarrow>
    byte_count \<noteq> 0 \<and> address + ucast byte_count < address"

definition fs64_address_is_kernel_high :: "u64 \<Rightarrow> u32 \<Rightarrow> bool" where
  "fs64_address_is_kernel_high address byte_count \<longleftrightarrow>
    \<not> fs64_range_overflows address byte_count
    \<and> (ucast (drop_bit 32 address) :: u32) \<ge> 0xFFFFFFFF
    \<and> (ucast address :: u32) \<ge> 0x80000000
    \<and> address + ucast byte_count \<ge> address"

definition fs64_address_is_user_stack :: "u64 \<Rightarrow> u32 \<Rightarrow> bool" where
  "fs64_address_is_user_stack address byte_count \<longleftrightarrow>
    \<not> fs64_range_overflows address byte_count
    \<and> address \<ge> LAUNCH64_USER_STACK_TOP - LAUNCH64_USER_STACK_BYTES
    \<and> address + ucast byte_count \<le> LAUNCH64_USER_STACK_TOP"

definition fs64_address_is_user_image :: "'d storage \<Rightarrow> u64 \<Rightarrow> u32 \<Rightarrow> bool" where
  "fs64_address_is_user_image sd address byte_count \<longleftrightarrow>
    \<not> fs64_range_overflows address byte_count
    \<and> address \<ge> LAUNCH64_USER_IMAGE_BASE
    \<and> address + ucast byte_count \<le> LAUNCH64_USER_IMAGE_BASE + ucast (runtime64_transfer_image_size sd)"

definition fs64_address_readable :: "'d storage \<Rightarrow> u64 \<Rightarrow> u32 \<Rightarrow> bool" where
  "fs64_address_readable sd address byte_count \<longleftrightarrow>
    byte_count = 0
    \<or> address \<noteq> 0 \<and> (fs64_address_is_kernel_high address byte_count
                     \<or> fs64_address_is_user_stack address byte_count
                     \<or> fs64_address_is_user_image sd address byte_count)"

definition fs64_address_writable :: "u64 \<Rightarrow> u32 \<Rightarrow> bool" where
  "fs64_address_writable address byte_count \<longleftrightarrow>
    byte_count = 0
    \<or> address \<noteq> 0 \<and> (fs64_address_is_kernel_high address byte_count
                     \<or> fs64_address_is_user_stack address byte_count)"

text \<open>The bytes at an address, and the memory after a copy to an address.\<close>

definition mem_load :: "(u64 \<Rightarrow> u8) \<Rightarrow> u64 \<Rightarrow> nat \<Rightarrow> u8 list" where
  "mem_load m address n = map (\<lambda>j. m (address + of_nat j)) [0..<n]"

definition mem_store :: "u64 \<Rightarrow> u8 list \<Rightarrow> (u64 \<Rightarrow> u8) \<Rightarrow> u64 \<Rightarrow> u8" where
  "mem_store address bytes m =
    (\<lambda>a. let d = unat (a - address) in if d < length bytes then bytes ! d else m a)"

definition fs64_copy_from_address ::
    "'d storage \<Rightarrow> u64 \<Rightarrow> u32 \<Rightarrow> ('d, 'a) kernel_fs_scheme \<Rightarrow> u8 list option \<times> ('d, 'a) kernel_fs_scheme" where
  "fs64_copy_from_address sd source_address byte_count k =
    (if \<not> fs64_address_readable sd source_address byte_count then (None, count_fs_denial k)
     else (Some (mem_load (k_mem k) source_address (unat byte_count)), k))"

definition fs64_copy_to_address ::
    "u64 \<Rightarrow> u8 list \<Rightarrow> ('d, 'a) kernel_fs_scheme \<Rightarrow> bool \<times> ('d, 'a) kernel_fs_scheme" where
  "fs64_copy_to_address destination_address bytes k =
    (if \<not> fs64_address_writable destination_address (of_nat (length bytes)) then (False, count_fs_denial k)
     else (True, k\<lparr>k_mem := mem_store destination_address bytes (k_mem k)\<rparr>))"


section \<open>Node capabilities\<close>

definition fs64_storage_descriptor_selector :: "'d storage \<Rightarrow> u8 list \<Rightarrow> ('d, 'a) kernel_fs_scheme \<Rightarrow> u32" where
  "fs64_storage_descriptor_selector sd path k = mmio64_fs_shell_descriptor_selector_by_path sd path (k_dev k)"

definition fs64_rights_for_node :: "u32 \<Rightarrow> ramfs \<Rightarrow> u32" where
  "fs64_rights_for_node node_id nodes =
    (if ramfs_node_is_directory nodes node_id
     then FS64_RIGHT_LIST OR FS64_RIGHT_CREATE OR FS64_RIGHT_STAT OR FS64_RIGHT_RENAME
          OR FS64_RIGHT_DELETE OR FS64_RIGHT_DELEGATE
     else FS64_RIGHT_READ OR FS64_RIGHT_WRITE OR FS64_RIGHT_STAT OR FS64_RIGHT_DELEGATE)"

text \<open>The handle survives the clearing of a record.\<close>

definition fs64_clear_capability :: "fs64_node_capability \<Rightarrow> fs64_node_capability" where
  "fs64_clear_capability r =
    r\<lparr>nc_active := False, nc_node_id := 0, nc_rights := 0, nc_parent_handle := 0, nc_owner_id := 0,
      nc_runtime_generation := 0, nc_runtime_token := 0, nc_storage_descriptor_selector := 0,
      nc_path_byte_count := 0, nc_path := replicate FS64_STORED_PATH_BYTES 0\<rparr>"

definition fs64_store_path :: "u8 list \<Rightarrow> fs64_node_capability \<Rightarrow> fs64_node_capability" where
  "fs64_store_path path r =
    (let stored = take (FS64_STORED_PATH_BYTES - 1) path
     in r\<lparr>nc_path_byte_count := of_nat (length stored),
          nc_path := stored @ replicate (FS64_STORED_PATH_BYTES - length stored) 0\<rparr>)"

definition fs64_path_is_ephemeral_tmp :: "fs64_node_capability \<Rightarrow> bool" where
  "fs64_path_is_ephemeral_tmp r \<longleftrightarrow>
    nc_path_byte_count r \<ge> 5 \<and> take 5 (nc_path r) = bytes_of ''/tmp/''"

definition fs64_find_live :: "u32 \<Rightarrow> fs_state \<Rightarrow> nat option" where
  "fs64_find_live handle s = slot_of nc_active nc_handle (g_fs64_caps s) handle"

definition fs64_find_free :: "fs_state \<Rightarrow> nat option" where
  "fs64_find_free s = first_index (\<lambda>r. \<not> nc_active r) (g_fs64_caps s)"

definition fs64_runtime_is_current :: "nat \<Rightarrow> ('d, 'a) kernel_fs_scheme \<Rightarrow> bool \<times> ('d, 'a) kernel_fs_scheme" where
  "fs64_runtime_is_current i k =
    (let r = node_cap k i;
         manifest_index = launch64_manifest_by_endpoint_class (k_launch k) SERVICE_ENDPOINT_CLASS_RAMFS
     in if nc_runtime_token r = 0 then (True, k)
        else if manifest_index \<noteq> LAUNCH64_INVALID_MANIFEST
             \<and> launch64_manifest_runtime_generation (k_launch k) manifest_index = nc_runtime_generation r
             \<and> launch64_manifest_accepts_runtime_token (k_launch k) manifest_index (nc_runtime_token r)
        then (True, k)
        else (False,
              count_fs_denial
                (upd_fs (\<lambda>s. s\<lparr>fs_stale_denial_count := fs_stale_denial_count s + 1\<rparr>)
                  (upd_node_cap i fs64_clear_capability k))))"

definition fs64_resolve_node_capability ::
    "u32 \<Rightarrow> u32 \<Rightarrow> u32 \<Rightarrow> ('d, 'a) kernel_fs_scheme \<Rightarrow> nat option \<times> ('d, 'a) kernel_fs_scheme" where
  "fs64_resolve_node_capability handle required_rights owner_id k =
    (case fs64_owner_is_valid owner_id k of
       (False, k) \<Rightarrow> (None, k)
     | (True, k) \<Rightarrow>
         (case fs64_find_live handle (k_fs k) of
            None \<Rightarrow> (None, count_fs_denial k)
          | Some i \<Rightarrow>
              if nc_owner_id (node_cap k i) \<noteq> owner_id
                 \<or> nc_rights (node_cap k i) AND required_rights \<noteq> required_rights
                 \<or> \<not> ramfs_node_exists (k_ramfs k) (nc_node_id (node_cap k i))
              then (None, count_fs_denial k)
              else (case fs64_runtime_is_current i k of
                      (False, k) \<Rightarrow> (None, k)
                    | (True, k) \<Rightarrow> (Some i, k))))"

text \<open>
  The node a base handle stands for, with the runtime generation and token that a new capability
  inherits and the handle that becomes its parent.
\<close>

type_synonym base_node = "u32 \<times> u32 \<times> u32 \<times> u32"

definition fs64_resolve_base_node ::
    "u32 \<Rightarrow> u32 \<Rightarrow> u32 \<Rightarrow> ('d, 'a) kernel_fs_scheme \<Rightarrow> base_node option \<times> ('d, 'a) kernel_fs_scheme" where
  "fs64_resolve_base_node base_capability_handle required_rights owner_id k =
    (case fs64_find_live base_capability_handle (k_fs k) of
       Some i \<Rightarrow>
         (let r = node_cap k i
          in if nc_owner_id r \<noteq> owner_id
                \<or> nc_rights r AND required_rights \<noteq> required_rights
                \<or> \<not> ramfs_node_is_directory (k_ramfs k) (nc_node_id r)
             then (None, count_fs_denial k)
             else (case fs64_runtime_is_current i k of
                     (False, k) \<Rightarrow> (None, count_fs_denial k)
                   | (True, k) \<Rightarrow>
                       (Some (nc_node_id r, nc_runtime_generation r, nc_runtime_token r, nc_handle r), k)))
     | None \<Rightarrow>
         (let (endpoint_id, k) = capability64_route base_capability_handle CAPABILITY64_RIGHT_SEND owner_id k;
              ramfs_endpoint = services64_resolve_endpoint_class SERVICE_ENDPOINT_CLASS_RAMFS
          in if endpoint_id \<noteq> ramfs_endpoint then (None, count_fs_denial k)
             else
               let (runtime_generation, k) = capability64_runtime_generation base_capability_handle owner_id k;
                   (runtime_token, k) = capability64_runtime_token base_capability_handle owner_id k
               in (Some (ramfs_root_node, runtime_generation, runtime_token, 0), k)))"

definition fs64_grant_node ::
    "u32 \<Rightarrow> u32 \<Rightarrow> u32 \<Rightarrow> u32 \<Rightarrow> u32 \<Rightarrow> u32 \<Rightarrow> u8 list \<Rightarrow> ('d, 'a) kernel_fs_scheme \<Rightarrow> u32 \<times> ('d, 'a) kernel_fs_scheme" where
  "fs64_grant_node node_id owner_id parent_handle runtime_generation runtime_token selector path k =
    (case fs64_owner_is_valid owner_id k of
       (False, k) \<Rightarrow> fs64_deny k
     | (True, k) \<Rightarrow>
         if \<not> ramfs_node_exists (k_ramfs k) node_id then fs64_deny k
         else case fs64_find_free (k_fs k) of
                None \<Rightarrow> fs64_deny k
              | Some i \<Rightarrow>
                  (let handle = fs_next_handle (k_fs k)
                   in (handle,
                       upd_fs (\<lambda>s. s\<lparr>fs_next_handle := handle + 1\<rparr>)
                         (upd_node_cap i
                           (\<lambda>r. fs64_store_path path
                              (r\<lparr>nc_active := True, nc_handle := handle, nc_node_id := node_id,
                                 nc_rights := fs64_rights_for_node node_id (k_ramfs k),
                                 nc_parent_handle := parent_handle, nc_owner_id := owner_id,
                                 nc_runtime_generation := runtime_generation,
                                 nc_runtime_token := runtime_token,
                                 nc_storage_descriptor_selector := selector\<rparr>)) k))))"

definition fs64_init :: "('d, 'a) kernel_fs_scheme \<Rightarrow> ('d, 'a) kernel_fs_scheme" where
  "fs64_init k =
    k\<lparr>k_ramfs := ramfs_init,
      k_fs := \<lparr>g_fs64_caps = map (\<lambda>r. fs64_clear_capability (r\<lparr>nc_handle := 0\<rparr>)) (g_fs64_caps (k_fs k)),
               fs_next_handle = FS64_HANDLE_BASE, fs_initialized = True, fs_open_count = 0,
               fs_create_count = 0, fs_list_count = 0, fs_read_count = 0, fs_write_count = 0,
               fs_stat_count = 0, fs_revoke_count = 0, fs_denial_count = 0, fs_stale_denial_count = 0\<rparr>\<rparr>"

definition fs64_ensure_init :: "('d, 'a) kernel_fs_scheme \<Rightarrow> ('d, 'a) kernel_fs_scheme" where
  "fs64_ensure_init k = (if fs_initialized (k_fs k) then k else fs64_init k)"

definition fs64_load_path_argument ::
    "'d storage \<Rightarrow> u64 \<Rightarrow> u8 list option \<Rightarrow> u32 \<Rightarrow> ('d, 'a) kernel_fs_scheme
      \<Rightarrow> u8 list option \<times> ('d, 'a) kernel_fs_scheme" where
  "fs64_load_path_argument sd path_address trusted_path path_byte_count k =
    (case trusted_path of
       Some path \<Rightarrow> (Some (take (unat path_byte_count) path), k)
     | None \<Rightarrow> fs64_copy_from_address sd path_address path_byte_count k)"


section \<open>Opening and creating\<close>

text \<open>
  The import of a file that is on the disk and not in memory: its bytes are read, a node is created
  for it and filled.
\<close>

definition import_file ::
    "'d storage \<Rightarrow> u32 \<Rightarrow> u8 list \<Rightarrow> u32 \<Rightarrow> ('d, 'a) kernel_fs_scheme \<Rightarrow> u32 option \<times> ('d, 'a) kernel_fs_scheme" where
  "import_file sd base_node_id path owner_id k =
    (case mmio64_nvme_fat_shell_read_file sd path FS64_IO_SCRATCH_BYTES owner_id (k_dev k) of
       (None, d) \<Rightarrow> (None, k\<lparr>k_dev := d\<rparr>)
     | (Some bytes, d) \<Rightarrow>
         (let k = k\<lparr>k_dev := d\<rparr>
          in if bytes = [] then (None, k)
             else case ramfs_create base_node_id path RAMFS_NODE_FILE (k_ramfs k) of
                    (None, nodes) \<Rightarrow> (None, k\<lparr>k_ramfs := nodes\<rparr>)
                  | (Some node_id, nodes) \<Rightarrow>
                      (case ramfs_write node_id 0 bytes nodes of
                         (written, nodes) \<Rightarrow>
                           (if written = Some (of_nat (length bytes)) then Some node_id else None,
                            k\<lparr>k_ramfs := nodes\<rparr>))))"

definition fs64_open_common ::
    "'d storage \<Rightarrow> u32 \<Rightarrow> u64 \<Rightarrow> u8 list option \<Rightarrow> u32 \<Rightarrow> u32 \<Rightarrow> ('d, 'a) kernel_fs_scheme
      \<Rightarrow> u32 \<times> ('d, 'a) kernel_fs_scheme" where
  "fs64_open_common sd base_capability_handle path_address trusted_path path_byte_count owner_id k =
    (let k = fs64_ensure_init k
     in if path_byte_count = 0 \<or> path_byte_count \<ge> FS64_PATH_SCRATCH_BYTES then fs64_deny k
        else case fs64_resolve_base_node base_capability_handle FS64_RIGHT_LIST owner_id k of
          (None, k) \<Rightarrow> (FS64_INVALID_HANDLE, k)
        | (Some (base_node_id, runtime_generation, runtime_token, parent_handle), k) \<Rightarrow>
          (case fs64_load_path_argument sd path_address trusted_path path_byte_count k of
             (None, k) \<Rightarrow> (FS64_INVALID_HANDLE, k)
           | (Some path, k) \<Rightarrow>
             (case (case ramfs_open (k_ramfs k) base_node_id path of
                      Some node_id \<Rightarrow> (Some node_id, k)
                    | None \<Rightarrow> import_file sd base_node_id path owner_id k) of
                (None, k) \<Rightarrow> fs64_deny k
              | (Some node_id, k) \<Rightarrow>
                  fs64_grant_node node_id owner_id parent_handle runtime_generation runtime_token
                    (fs64_storage_descriptor_selector sd path k) path
                    (upd_fs (\<lambda>s. s\<lparr>fs_open_count := fs_open_count s + 1\<rparr>) k))))"

definition fs64_open ::
    "'d storage \<Rightarrow> u32 \<Rightarrow> u64 \<Rightarrow> u32 \<Rightarrow> u32 \<Rightarrow> ('d, 'a) kernel_fs_scheme \<Rightarrow> u32 \<times> ('d, 'a) kernel_fs_scheme" where
  "fs64_open sd base_capability_handle path_address path_byte_count owner_id =
    fs64_open_common sd base_capability_handle path_address None path_byte_count owner_id"

definition fs64_open_kernel ::
    "'d storage \<Rightarrow> u32 \<Rightarrow> u8 list option \<Rightarrow> u32 \<Rightarrow> u32 \<Rightarrow> ('d, 'a) kernel_fs_scheme
      \<Rightarrow> u32 \<times> ('d, 'a) kernel_fs_scheme" where
  "fs64_open_kernel sd base_capability_handle path path_byte_count owner_id k =
    (if path = None then fs64_deny k
     else fs64_open_common sd base_capability_handle 0 path path_byte_count owner_id k)"

definition fs64_create_common ::
    "'d storage \<Rightarrow> u32 \<Rightarrow> u64 \<Rightarrow> u8 list option \<Rightarrow> u32 \<Rightarrow> u32 \<Rightarrow> u32 \<Rightarrow> ('d, 'a) kernel_fs_scheme
      \<Rightarrow> u32 \<times> ('d, 'a) kernel_fs_scheme" where
  "fs64_create_common sd base_capability_handle path_address trusted_path path_byte_count node_type owner_id k =
    (let k = fs64_ensure_init k
     in if path_byte_count = 0 \<or> path_byte_count \<ge> FS64_PATH_SCRATCH_BYTES then fs64_deny k
        else case fs64_resolve_base_node base_capability_handle FS64_RIGHT_CREATE owner_id k of
          (None, k) \<Rightarrow> (FS64_INVALID_HANDLE, k)
        | (Some (base_node_id, runtime_generation, runtime_token, parent_handle), k) \<Rightarrow>
          (case fs64_load_path_argument sd path_address trusted_path path_byte_count k of
             (None, k) \<Rightarrow> (FS64_INVALID_HANDLE, k)
           | (Some path, k) \<Rightarrow>
             (case ramfs_create base_node_id path node_type (k_ramfs k) of
                (None, nodes) \<Rightarrow> fs64_deny (k\<lparr>k_ramfs := nodes\<rparr>)
              | (Some node_id, nodes) \<Rightarrow>
                  fs64_grant_node node_id owner_id parent_handle runtime_generation runtime_token 0 path
                    (upd_fs (\<lambda>s. s\<lparr>fs_create_count := fs_create_count s + 1\<rparr>) (k\<lparr>k_ramfs := nodes\<rparr>)))))"

definition fs64_create ::
    "'d storage \<Rightarrow> u32 \<Rightarrow> u64 \<Rightarrow> u32 \<Rightarrow> u32 \<Rightarrow> u32 \<Rightarrow> ('d, 'a) kernel_fs_scheme
      \<Rightarrow> u32 \<times> ('d, 'a) kernel_fs_scheme" where
  "fs64_create sd base_capability_handle path_address path_byte_count node_type owner_id =
    fs64_create_common sd base_capability_handle path_address None path_byte_count node_type owner_id"

definition fs64_create_kernel ::
    "'d storage \<Rightarrow> u32 \<Rightarrow> u8 list option \<Rightarrow> u32 \<Rightarrow> u32 \<Rightarrow> u32 \<Rightarrow> ('d, 'a) kernel_fs_scheme
      \<Rightarrow> u32 \<times> ('d, 'a) kernel_fs_scheme" where
  "fs64_create_kernel sd base_capability_handle path path_byte_count node_type owner_id k =
    (if path = None then fs64_deny k
     else fs64_create_common sd base_capability_handle 0 path path_byte_count node_type owner_id k)"


section \<open>Listing, reading, writing, metadata\<close>

text \<open>The byte count of a request: the whole scratch buffer when it is zero or larger than that.\<close>

definition io_bytes :: "u32 \<Rightarrow> u32" where
  "io_bytes n = (if n = 0 \<or> n > FS64_IO_SCRATCH_BYTES then FS64_IO_SCRATCH_BYTES else n)"

text \<open>
  What \<^verbatim>\<open>fs64_list_kernel\<close>, \<^verbatim>\<open>fs64_read_kernel\<close> and \<^verbatim>\<open>fs64_stat_kernel\<close> do up to the moment their counter is
  stepped; the variants for callers with an address differ only behind that point.
\<close>

definition list_node ::
    "u32 \<Rightarrow> u32 \<Rightarrow> u32 \<Rightarrow> ('d, 'a) kernel_fs_scheme \<Rightarrow> u8 list option \<times> ('d, 'a) kernel_fs_scheme" where
  "list_node node_capability_handle byte_capacity owner_id k =
    (case fs64_resolve_node_capability node_capability_handle FS64_RIGHT_LIST owner_id (fs64_ensure_init k) of
       (None, k) \<Rightarrow> (None, k)
     | (Some i, k) \<Rightarrow>
         (case ramfs_list (k_ramfs k) (nc_node_id (node_cap k i)) (io_bytes byte_capacity) of
            None \<Rightarrow> (None, count_fs_denial k)
          | Some bytes \<Rightarrow> (Some bytes, k)))"

definition read_node ::
    "'d storage \<Rightarrow> u32 \<Rightarrow> u32 \<Rightarrow> u32 \<Rightarrow> u32 \<Rightarrow> ('d, 'a) kernel_fs_scheme
      \<Rightarrow> u8 list option \<times> ('d, 'a) kernel_fs_scheme" where
  "read_node sd node_capability_handle file_offset byte_count owner_id k =
    (case fs64_resolve_node_capability node_capability_handle FS64_RIGHT_READ owner_id (fs64_ensure_init k) of
       (None, k) \<Rightarrow> (None, k)
     | (Some i, k) \<Rightarrow>
         (let r = node_cap k i;
              (result, k) =
                (if nc_storage_descriptor_selector r \<noteq> 0
                 then let (bytes, d) = mmio64_fs_shell_read_descriptor sd (nc_storage_descriptor_selector r)
                            file_offset (io_bytes byte_count) owner_id (k_dev k)
                      in (bytes, k\<lparr>k_dev := d\<rparr>)
                 else (ramfs_read (k_ramfs k) (nc_node_id r) file_offset (io_bytes byte_count), k))
          in case result of
               None \<Rightarrow> (None, count_fs_denial k)
             | Some bytes \<Rightarrow> (Some bytes, k)))"

definition stat_node ::
    "u32 \<Rightarrow> u32 \<Rightarrow> u32 \<Rightarrow> ('d, 'a) kernel_fs_scheme \<Rightarrow> u8 list option \<times> ('d, 'a) kernel_fs_scheme" where
  "stat_node node_capability_handle byte_capacity owner_id k =
    (case fs64_resolve_node_capability node_capability_handle FS64_RIGHT_STAT owner_id (fs64_ensure_init k) of
       (None, k) \<Rightarrow> (None, k)
     | (Some i, k) \<Rightarrow>
         (case ramfs_stat_of (k_ramfs k) (nc_node_id (node_cap k i)) of
            None \<Rightarrow> (None, count_fs_denial k)
          | Some st \<Rightarrow>
              (case ramfs_format_stat st (io_bytes byte_capacity) of
                 None \<Rightarrow> (None, count_fs_denial k)
               | Some bytes \<Rightarrow> (Some bytes, k))))"

text \<open>The write to a resolved node: the memory copy, and the copy on the disk for a write at the start.\<close>

definition write_record ::
    "'d storage \<Rightarrow> nat \<Rightarrow> u32 \<Rightarrow> u8 list \<Rightarrow> u32 \<Rightarrow> ('d, 'a) kernel_fs_scheme \<Rightarrow> u32 \<times> ('d, 'a) kernel_fs_scheme" where
  "write_record sd i file_offset bytes owner_id k =
    (let r = node_cap k i
     in case ramfs_write (nc_node_id r) file_offset bytes (k_ramfs k) of
          (None, nodes) \<Rightarrow> fs64_deny (k\<lparr>k_ramfs := nodes\<rparr>)
        | (Some actual_count, nodes) \<Rightarrow>
            (let k = k\<lparr>k_ramfs := nodes\<rparr>;
                 k = (if file_offset = 0 \<and> actual_count \<noteq> 0 \<and> nc_path_byte_count r \<noteq> 0
                         \<and> \<not> fs64_path_is_ephemeral_tmp r
                      then k\<lparr>k_dev := snd (mmio64_nvme_fat_shell_write_file sd
                               (take (unat (nc_path_byte_count r)) (nc_path r))
                               (take (unat actual_count) bytes) owner_id (k_dev k))\<rparr>
                      else k)
             in (actual_count, upd_fs (\<lambda>s. s\<lparr>fs_write_count := fs_write_count s + 1\<rparr>) k)))"

text \<open>The end of the operations with an output address: copy the bytes out, then step the counter.\<close>

definition copy_out ::
    "u64 \<Rightarrow> (fs_state \<Rightarrow> fs_state) \<Rightarrow> u8 list option \<times> ('d, 'a) kernel_fs_scheme \<Rightarrow> u32 \<times> ('d, 'a) kernel_fs_scheme" where
  "copy_out output_address count r =
    (case r of
       (None, k) \<Rightarrow> (FS64_INVALID_HANDLE, k)
     | (Some bytes, k) \<Rightarrow>
         (case fs64_copy_to_address output_address bytes k of
            (False, k) \<Rightarrow> (FS64_INVALID_HANDLE, k)
          | (True, k) \<Rightarrow> (of_nat (length bytes), upd_fs count k)))"

text \<open>The end of the variants for the kernel: the bytes are the result, and the counter steps.\<close>

definition hand_out ::
    "(fs_state \<Rightarrow> fs_state) \<Rightarrow> u8 list option \<times> ('d, 'a) kernel_fs_scheme
      \<Rightarrow> u8 list option \<times> ('d, 'a) kernel_fs_scheme" where
  "hand_out count r = (case r of (None, k) \<Rightarrow> (None, k) | (Some bytes, k) \<Rightarrow> (Some bytes, upd_fs count k))"

definition count_list :: "fs_state \<Rightarrow> fs_state" where
  "count_list s = s\<lparr>fs_list_count := fs_list_count s + 1\<rparr>"

definition count_read :: "fs_state \<Rightarrow> fs_state" where
  "count_read s = s\<lparr>fs_read_count := fs_read_count s + 1\<rparr>"

definition count_stat :: "fs_state \<Rightarrow> fs_state" where
  "count_stat s = s\<lparr>fs_stat_count := fs_stat_count s + 1\<rparr>"

definition fs64_list :: "u32 \<Rightarrow> u64 \<Rightarrow> u32 \<Rightarrow> u32 \<Rightarrow> ('d, 'a) kernel_fs_scheme \<Rightarrow> u32 \<times> ('d, 'a) kernel_fs_scheme" where
  "fs64_list node_capability_handle output_address byte_capacity owner_id k =
    copy_out output_address count_list (list_node node_capability_handle byte_capacity owner_id k)"

definition fs64_list_kernel ::
    "u32 \<Rightarrow> u32 \<Rightarrow> u32 \<Rightarrow> ('d, 'a) kernel_fs_scheme \<Rightarrow> u8 list option \<times> ('d, 'a) kernel_fs_scheme" where
  "fs64_list_kernel node_capability_handle byte_capacity owner_id k =
    hand_out count_list (list_node node_capability_handle byte_capacity owner_id k)"

definition fs64_read ::
    "'d storage \<Rightarrow> u32 \<Rightarrow> u64 \<Rightarrow> u32 \<Rightarrow> u32 \<Rightarrow> u32 \<Rightarrow> ('d, 'a) kernel_fs_scheme
      \<Rightarrow> u32 \<times> ('d, 'a) kernel_fs_scheme" where
  "fs64_read sd node_capability_handle output_address file_offset byte_count owner_id k =
    copy_out output_address count_read (read_node sd node_capability_handle file_offset byte_count owner_id k)"

definition fs64_read_kernel ::
    "'d storage \<Rightarrow> u32 \<Rightarrow> u32 \<Rightarrow> u32 \<Rightarrow> u32 \<Rightarrow> ('d, 'a) kernel_fs_scheme
      \<Rightarrow> u8 list option \<times> ('d, 'a) kernel_fs_scheme" where
  "fs64_read_kernel sd node_capability_handle file_offset byte_count owner_id k =
    hand_out count_read (read_node sd node_capability_handle file_offset byte_count owner_id k)"

definition fs64_write ::
    "'d storage \<Rightarrow> u32 \<Rightarrow> u64 \<Rightarrow> u32 \<Rightarrow> u32 \<Rightarrow> u32 \<Rightarrow> ('d, 'a) kernel_fs_scheme
      \<Rightarrow> u32 \<times> ('d, 'a) kernel_fs_scheme" where
  "fs64_write sd node_capability_handle input_address file_offset byte_count owner_id k =
    (case fs64_resolve_node_capability node_capability_handle FS64_RIGHT_WRITE owner_id (fs64_ensure_init k) of
       (None, k) \<Rightarrow> (FS64_INVALID_HANDLE, k)
     | (Some i, k) \<Rightarrow>
         (case fs64_copy_from_address sd input_address (io_bytes byte_count) k of
            (None, k) \<Rightarrow> (FS64_INVALID_HANDLE, k)
          | (Some bytes, k) \<Rightarrow> write_record sd i file_offset bytes owner_id k))"

definition fs64_write_kernel ::
    "'d storage \<Rightarrow> u32 \<Rightarrow> u8 list option \<Rightarrow> u32 \<Rightarrow> u32 \<Rightarrow> u32 \<Rightarrow> ('d, 'a) kernel_fs_scheme
      \<Rightarrow> u32 \<times> ('d, 'a) kernel_fs_scheme" where
  "fs64_write_kernel sd node_capability_handle input file_offset byte_count owner_id k =
    (case input of
       None \<Rightarrow> (FS64_INVALID_HANDLE, fs64_ensure_init k)
     | Some bytes \<Rightarrow>
         (case fs64_resolve_node_capability node_capability_handle FS64_RIGHT_WRITE owner_id (fs64_ensure_init k) of
            (None, k) \<Rightarrow> (FS64_INVALID_HANDLE, k)
          | (Some i, k) \<Rightarrow> write_record sd i file_offset (take (unat (io_bytes byte_count)) bytes) owner_id k))"

definition fs64_stat :: "u32 \<Rightarrow> u64 \<Rightarrow> u32 \<Rightarrow> u32 \<Rightarrow> ('d, 'a) kernel_fs_scheme \<Rightarrow> u32 \<times> ('d, 'a) kernel_fs_scheme" where
  "fs64_stat node_capability_handle output_address byte_capacity owner_id k =
    copy_out output_address count_stat (stat_node node_capability_handle byte_capacity owner_id k)"

definition fs64_stat_kernel ::
    "u32 \<Rightarrow> u32 \<Rightarrow> u32 \<Rightarrow> ('d, 'a) kernel_fs_scheme \<Rightarrow> u8 list option \<times> ('d, 'a) kernel_fs_scheme" where
  "fs64_stat_kernel node_capability_handle byte_capacity owner_id k =
    hand_out count_stat (stat_node node_capability_handle byte_capacity owner_id k)"


section \<open>Revoking\<close>

text \<open>The record itself and the active records that name it as their parent; not their descendants.\<close>

definition fs64_revoke :: "u32 \<Rightarrow> u32 \<Rightarrow> ('d, 'a) kernel_fs_scheme \<Rightarrow> bool \<times> ('d, 'a) kernel_fs_scheme" where
  "fs64_revoke node_capability_handle owner_id k =
    (case fs64_resolve_node_capability node_capability_handle 0 owner_id (fs64_ensure_init k) of
       (None, k) \<Rightarrow> (False, k)
     | (Some i, k) \<Rightarrow>
         (let k = upd_node_cap i fs64_clear_capability k;
              child = (\<lambda>r. nc_active r \<and> nc_parent_handle r = node_capability_handle)
          in (True,
              upd_fs (\<lambda>s. s\<lparr>g_fs64_caps := map (\<lambda>r. if child r then fs64_clear_capability r else r) (g_fs64_caps s),
                            fs_revoke_count := fs_revoke_count s + 1 + of_nat (count_if child (g_fs64_caps s))\<rparr>) k)))"

definition fs64_handle_is_node :: "u32 \<Rightarrow> u32 \<Rightarrow> ('d, 'a) kernel_fs_scheme \<Rightarrow> bool \<times> ('d, 'a) kernel_fs_scheme" where
  "fs64_handle_is_node node_capability_handle owner_id k =
    (let k = fs64_ensure_init k
     in (case fs64_find_live node_capability_handle (k_fs k) of
           None \<Rightarrow> False
         | Some i \<Rightarrow> nc_owner_id (node_cap k i) = owner_id
                     \<and> ramfs_node_exists (k_ramfs k) (nc_node_id (node_cap k i)), k))"


section \<open>Renaming, moving, deleting\<close>

text \<open>
  Two paths are passed as one buffer: the source, a separator, the destination. The loop that
  checks a directory move may not end on a cyclic table; \<open>None\<close> is that case.
\<close>

definition path_pair_fits :: "u32 \<Rightarrow> u32 \<Rightarrow> bool" where
  "path_pair_fits source_path_byte_count destination_path_byte_count \<longleftrightarrow>
    source_path_byte_count \<noteq> 0 \<and> destination_path_byte_count \<noteq> 0
    \<and> source_path_byte_count < FS64_PATH_SCRATCH_BYTES \<and> destination_path_byte_count < FS64_PATH_SCRATCH_BYTES
    \<and> source_path_byte_count + 1 + destination_path_byte_count \<le> FS64_PATH_SCRATCH_BYTES"

definition answer :: "bool \<times> ramfs \<Rightarrow> ('d, 'a) kernel_fs_scheme \<Rightarrow> u32 \<times> ('d, 'a) kernel_fs_scheme" where
  "answer r k = (let k = k\<lparr>k_ramfs := snd r\<rparr> in if fst r then (1, k) else fs64_deny k)"

definition fs64_rename_common ::
    "'d storage \<Rightarrow> u32 \<Rightarrow> u64 \<Rightarrow> u8 list option \<Rightarrow> u32 \<Rightarrow> u32 \<Rightarrow> u32 \<Rightarrow> ('d, 'a) kernel_fs_scheme
      \<Rightarrow> (u32 \<times> ('d, 'a) kernel_fs_scheme) option" where
  "fs64_rename_common sd base_capability_handle path_address trusted_path_pair
      source_path_byte_count destination_path_byte_count owner_id k =
    (let k = fs64_ensure_init k
     in if \<not> path_pair_fits source_path_byte_count destination_path_byte_count then Some (0, k)
        else case fs64_resolve_base_node base_capability_handle FS64_RIGHT_RENAME owner_id k of
          (None, k) \<Rightarrow> Some (0, k)
        | (Some (base_node_id, _), k) \<Rightarrow>
          (case fs64_load_path_argument sd path_address trusted_path_pair
                  (source_path_byte_count + 1 + destination_path_byte_count) k of
             (None, k) \<Rightarrow> Some (0, k)
           | (Some scratch, k) \<Rightarrow>
               map_option (\<lambda>r. answer r k)
                 (ramfs_rename base_node_id (take (unat source_path_byte_count) scratch)
                   (take (unat destination_path_byte_count) (drop (unat source_path_byte_count + 1) scratch))
                   (k_ramfs k))))"

definition fs64_rename ::
    "'d storage \<Rightarrow> u32 \<Rightarrow> u64 \<Rightarrow> u32 \<Rightarrow> u32 \<Rightarrow> u32 \<Rightarrow> ('d, 'a) kernel_fs_scheme
      \<Rightarrow> (u32 \<times> ('d, 'a) kernel_fs_scheme) option" where
  "fs64_rename sd base_capability_handle path_address =
    fs64_rename_common sd base_capability_handle path_address None"

definition fs64_rename_kernel ::
    "'d storage \<Rightarrow> u32 \<Rightarrow> u8 list option \<Rightarrow> u32 \<Rightarrow> u32 \<Rightarrow> u32 \<Rightarrow> ('d, 'a) kernel_fs_scheme
      \<Rightarrow> (u32 \<times> ('d, 'a) kernel_fs_scheme) option" where
  "fs64_rename_kernel sd base_capability_handle path_pair source_path_byte_count destination_path_byte_count owner_id k =
    (if path_pair = None then Some (0, k)
     else fs64_rename_common sd base_capability_handle 0 path_pair
            source_path_byte_count destination_path_byte_count owner_id k)"

definition fs64_move_common ::
    "'d storage \<Rightarrow> u32 \<Rightarrow> u32 \<Rightarrow> u64 \<Rightarrow> u8 list option \<Rightarrow> u32 \<Rightarrow> u32 \<Rightarrow> u32 \<Rightarrow> ('d, 'a) kernel_fs_scheme
      \<Rightarrow> (u32 \<times> ('d, 'a) kernel_fs_scheme) option" where
  "fs64_move_common sd source_base_capability_handle destination_base_capability_handle path_address
      trusted_path_pair source_path_byte_count destination_path_byte_count owner_id k =
    (let k = fs64_ensure_init k
     in if \<not> path_pair_fits source_path_byte_count destination_path_byte_count then Some (0, k)
        else case fs64_resolve_base_node source_base_capability_handle FS64_RIGHT_RENAME owner_id k of
          (None, k) \<Rightarrow> Some (0, k)
        | (Some (source_base_node_id, _), k) \<Rightarrow>
          (case fs64_resolve_base_node destination_base_capability_handle FS64_RIGHT_RENAME owner_id k of
             (None, k) \<Rightarrow> Some (0, k)
           | (Some (destination_base_node_id, _), k) \<Rightarrow>
             (case fs64_load_path_argument sd path_address trusted_path_pair
                     (source_path_byte_count + 1 + destination_path_byte_count) k of
                (None, k) \<Rightarrow> Some (0, k)
              | (Some scratch, k) \<Rightarrow>
                  map_option (\<lambda>r. answer r k)
                    (ramfs_move source_base_node_id (take (unat source_path_byte_count) scratch)
                      destination_base_node_id
                      (take (unat destination_path_byte_count) (drop (unat source_path_byte_count + 1) scratch))
                      (k_ramfs k)))))"

definition fs64_move ::
    "'d storage \<Rightarrow> u32 \<Rightarrow> u32 \<Rightarrow> u64 \<Rightarrow> u32 \<Rightarrow> u32 \<Rightarrow> u32 \<Rightarrow> ('d, 'a) kernel_fs_scheme
      \<Rightarrow> (u32 \<times> ('d, 'a) kernel_fs_scheme) option" where
  "fs64_move sd source_base_capability_handle destination_base_capability_handle path_address =
    fs64_move_common sd source_base_capability_handle destination_base_capability_handle path_address None"

definition fs64_move_kernel ::
    "'d storage \<Rightarrow> u32 \<Rightarrow> u32 \<Rightarrow> u8 list option \<Rightarrow> u32 \<Rightarrow> u32 \<Rightarrow> u32 \<Rightarrow> ('d, 'a) kernel_fs_scheme
      \<Rightarrow> (u32 \<times> ('d, 'a) kernel_fs_scheme) option" where
  "fs64_move_kernel sd source_base_capability_handle destination_base_capability_handle path_pair
      source_path_byte_count destination_path_byte_count owner_id k =
    (if path_pair = None then Some (0, k)
     else fs64_move_common sd source_base_capability_handle destination_base_capability_handle 0 path_pair
            source_path_byte_count destination_path_byte_count owner_id k)"

definition fs64_delete_common ::
    "'d storage \<Rightarrow> u32 \<Rightarrow> u64 \<Rightarrow> u8 list option \<Rightarrow> u32 \<Rightarrow> u32 \<Rightarrow> ('d, 'a) kernel_fs_scheme
      \<Rightarrow> u32 \<times> ('d, 'a) kernel_fs_scheme" where
  "fs64_delete_common sd base_capability_handle path_address trusted_path path_byte_count owner_id k =
    (let k = fs64_ensure_init k
     in if path_byte_count = 0 \<or> path_byte_count \<ge> FS64_PATH_SCRATCH_BYTES then (0, k)
        else case fs64_resolve_base_node base_capability_handle FS64_RIGHT_DELETE owner_id k of
          (None, k) \<Rightarrow> (0, k)
        | (Some (base_node_id, _), k) \<Rightarrow>
          (case fs64_load_path_argument sd path_address trusted_path path_byte_count k of
             (None, k) \<Rightarrow> (0, k)
           | (Some path, k) \<Rightarrow> answer (ramfs_delete base_node_id path (k_ramfs k)) k))"

definition fs64_delete ::
    "'d storage \<Rightarrow> u32 \<Rightarrow> u64 \<Rightarrow> u32 \<Rightarrow> u32 \<Rightarrow> ('d, 'a) kernel_fs_scheme \<Rightarrow> u32 \<times> ('d, 'a) kernel_fs_scheme" where
  "fs64_delete sd base_capability_handle path_address =
    fs64_delete_common sd base_capability_handle path_address None"

definition fs64_delete_kernel ::
    "'d storage \<Rightarrow> u32 \<Rightarrow> u8 list option \<Rightarrow> u32 \<Rightarrow> u32 \<Rightarrow> ('d, 'a) kernel_fs_scheme
      \<Rightarrow> u32 \<times> ('d, 'a) kernel_fs_scheme" where
  "fs64_delete_kernel sd base_capability_handle path path_byte_count owner_id k =
    (if path = None then (0, k)
     else fs64_delete_common sd base_capability_handle 0 path path_byte_count owner_id k)"


section \<open>Readers\<close>

definition node_field ::
    "(fs64_node_capability \<Rightarrow> u32) \<Rightarrow> u32 \<Rightarrow> u32 \<Rightarrow> ('d, 'a) kernel_fs_scheme \<Rightarrow> u32 \<times> ('d, 'a) kernel_fs_scheme" where
  "node_field f node_capability_handle owner_id k =
    (case fs64_resolve_node_capability node_capability_handle 0 owner_id (fs64_ensure_init k) of
       (None, k) \<Rightarrow> (0, k)
     | (Some i, k) \<Rightarrow> (f (node_cap k i), k))"

definition fs64_node_rights :: "u32 \<Rightarrow> u32 \<Rightarrow> ('d, 'a) kernel_fs_scheme \<Rightarrow> u32 \<times> ('d, 'a) kernel_fs_scheme" where
  "fs64_node_rights = node_field nc_rights"

definition fs64_node_owner :: "u32 \<Rightarrow> u32 \<Rightarrow> ('d, 'a) kernel_fs_scheme \<Rightarrow> u32 \<times> ('d, 'a) kernel_fs_scheme" where
  "fs64_node_owner = node_field nc_owner_id"

definition fs64_live_count :: "('d, 'a) kernel_fs_scheme \<Rightarrow> u32 \<times> ('d, 'a) kernel_fs_scheme" where
  "fs64_live_count k =
    (let k = fs64_ensure_init k in (of_nat (count_if nc_active (g_fs64_caps (k_fs k))), k))"

end
