(* ===== verification/Console.thy ===== *)
theory Console
  imports Fs
begin

text \<open>
  The console service, \<^verbatim>\<open>kernel/arch/x86_64/console.c\<close> (UEFI build): writing bytes through a console
  capability to the debug port and the display, and the capture of this output in a buffer.

  The debug port and the display are a parameter, functions on the device state. The buffer of a
  capture is an address in the memory of the model, 0 for the null pointer.
\<close>

abbreviation (input) CONSOLE64_INVALID_RESULT :: u32 where "CONSOLE64_INVALID_RESULT \<equiv> u32_max"
abbreviation (input) CONSOLE64_MAX_WRITE_BYTES :: u32 where "CONSOLE64_MAX_WRITE_BYTES \<equiv> 512"

record 'd screen =
  outb :: "u32 \<Rightarrow> u8 \<Rightarrow> 'd \<Rightarrow> 'd"
  display64_write_console_stream :: "u64 \<Rightarrow> u32 \<Rightarrow> 'd \<Rightarrow> 'd"
  display64_write_console_stream_kernel :: "u8 list \<Rightarrow> 'd \<Rightarrow> 'd"

record console_state =
  con_write_count :: u32
  con_byte_count :: u32
  con_denial_count :: u32
  g_capture_active :: bool
  g_capture_owner :: u32
  g_capture_capability :: u32
  g_capture_buffer :: u64
  g_capture_capacity :: u32
  g_capture_offset :: u32
  g_capture_truncated :: bool
  g_capture_writes :: u32

record 'd kernel_console = "'d kernel_fs" +
  k_con :: console_state

definition upd_con ::
    "(console_state \<Rightarrow> console_state) \<Rightarrow> ('d, 'a) kernel_console_scheme \<Rightarrow> ('d, 'a) kernel_console_scheme" where
  "upd_con f k = k\<lparr>k_con := f (k_con k)\<rparr>"

definition con_deny :: "('d, 'a) kernel_console_scheme \<Rightarrow> ('d, 'a) kernel_console_scheme" where
  "con_deny = upd_con (\<lambda>s. s\<lparr>con_denial_count := con_denial_count s + 1\<rparr>)"

definition console64_debug_write_char ::
    "'d screen \<Rightarrow> u8 \<Rightarrow> ('d, 'a) kernel_console_scheme \<Rightarrow> ('d, 'a) kernel_console_scheme" where
  "console64_debug_write_char sc character k = k\<lparr>k_dev := outb sc 0xE9 character (k_dev k)\<rparr>"


section \<open>Addresses\<close>

definition console64_range_overflows :: "u64 \<Rightarrow> u32 \<Rightarrow> bool" where
  "console64_range_overflows address byte_count \<longleftrightarrow>
    byte_count \<noteq> 0 \<and> address + ucast byte_count < address"

definition console64_address_is_kernel_high :: "u64 \<Rightarrow> u32 \<Rightarrow> bool" where
  "console64_address_is_kernel_high address byte_count \<longleftrightarrow>
    \<not> console64_range_overflows address byte_count
    \<and> (ucast (drop_bit 32 address) :: u32) \<ge> 0xFFFFFFFF
    \<and> (ucast address :: u32) \<ge> 0x80000000
    \<and> address + ucast byte_count \<ge> address"

definition console64_address_is_user_stack :: "u64 \<Rightarrow> u32 \<Rightarrow> bool" where
  "console64_address_is_user_stack address byte_count \<longleftrightarrow>
    \<not> console64_range_overflows address byte_count
    \<and> address \<ge> LAUNCH64_USER_STACK_TOP - LAUNCH64_USER_STACK_BYTES
    \<and> address + ucast byte_count \<le> LAUNCH64_USER_STACK_TOP"

definition console64_address_is_user_image :: "'d storage \<Rightarrow> u64 \<Rightarrow> u32 \<Rightarrow> bool" where
  "console64_address_is_user_image sd address byte_count \<longleftrightarrow>
    \<not> console64_range_overflows address byte_count
    \<and> address \<ge> LAUNCH64_USER_IMAGE_BASE
    \<and> address + ucast byte_count \<le> LAUNCH64_USER_IMAGE_BASE + ucast (runtime64_transfer_image_size sd)"

definition console64_address_readable :: "'d storage \<Rightarrow> u64 \<Rightarrow> u32 \<Rightarrow> bool" where
  "console64_address_readable sd address byte_count \<longleftrightarrow>
    byte_count = 0
    \<or> address \<noteq> 0 \<and> (console64_address_is_kernel_high address byte_count
                     \<or> console64_address_is_user_stack address byte_count
                     \<or> console64_address_is_user_image sd address byte_count)"

text \<open>The two services accept the same source buffers.\<close>

lemma console64_address_readable_eq: "console64_address_readable = fs64_address_readable"
  by (intro ext) (simp add: console64_address_readable_def fs64_address_readable_def
      console64_address_is_kernel_high_def fs64_address_is_kernel_high_def console64_address_is_user_stack_def
      fs64_address_is_user_stack_def console64_address_is_user_image_def fs64_address_is_user_image_def
      console64_range_overflows_def fs64_range_overflows_def)


section \<open>Capturing\<close>

definition no_capture :: "console_state \<Rightarrow> console_state" where
  "no_capture s = s\<lparr>g_capture_active := False, g_capture_owner := 0,
     g_capture_capability := CAPABILITY64_INVALID_HANDLE, g_capture_buffer := 0, g_capture_capacity := 0,
     g_capture_offset := 0, g_capture_truncated := False, g_capture_writes := 0\<rparr>"

definition console64_init :: "('d, 'a) kernel_console_scheme \<Rightarrow> ('d, 'a) kernel_console_scheme" where
  "console64_init = upd_con (\<lambda>s. no_capture
     (s\<lparr>con_write_count := 0, con_byte_count := 0, con_denial_count := 0\<rparr>))"

definition console64_capture_append ::
    "u8 list \<Rightarrow> ('d, 'a) kernel_console_scheme \<Rightarrow> ('d, 'a) kernel_console_scheme" where
  "console64_capture_append bytes k =
    (let s = k_con k;
         byte_count = of_nat (length bytes) :: u32;
         full = g_capture_offset s + byte_count > g_capture_capacity s;
         writable = (if full then g_capture_capacity s - g_capture_offset s else byte_count)
     in if \<not> g_capture_active s then k
        else upd_con (\<lambda>s. s\<lparr>g_capture_truncated := g_capture_truncated s \<or> full,
                            g_capture_offset := g_capture_offset s + writable,
                            g_capture_writes := g_capture_writes s + 1\<rparr>)
               (k\<lparr>k_mem := mem_store (g_capture_buffer s + ucast (g_capture_offset s))
                            (take (unat writable) bytes) (k_mem k)\<rparr>))"

definition routes_to_console ::
    "u32 \<Rightarrow> u32 \<Rightarrow> ('d, 'a) kernel_console_scheme \<Rightarrow> bool \<times> ('d, 'a) kernel_console_scheme" where
  "routes_to_console console_capability_handle owner_id k =
    (case capability64_route console_capability_handle CAPABILITY64_RIGHT_SEND owner_id k of
       (endpoint, k) \<Rightarrow>
         if endpoint \<noteq> services64_resolve_endpoint_class SERVICE_ENDPOINT_CLASS_CONSOLE then (False, con_deny k)
         else (True, k))"

definition console64_capture_begin ::
    "u32 \<Rightarrow> u32 \<Rightarrow> u64 \<Rightarrow> u32 \<Rightarrow> ('d, 'a) kernel_console_scheme \<Rightarrow> bool \<times> ('d, 'a) kernel_console_scheme" where
  "console64_capture_begin console_capability_handle owner_id buffer byte_capacity k =
    (if g_capture_active (k_con k) \<or> buffer = 0 \<or> byte_capacity = 0 then (False, con_deny k)
     else case routes_to_console console_capability_handle owner_id k of
            (False, k) \<Rightarrow> (False, k)
          | (True, k) \<Rightarrow>
              (True, upd_con (\<lambda>s. s\<lparr>g_capture_active := True, g_capture_owner := owner_id,
                 g_capture_capability := console_capability_handle, g_capture_buffer := buffer,
                 g_capture_capacity := byte_capacity, g_capture_offset := 0, g_capture_truncated := False,
                 g_capture_writes := 0\<rparr>) k))"

text \<open>The number of captured bytes and whether some were lost.\<close>

definition console64_capture_end ::
    "u32 \<Rightarrow> u32 \<Rightarrow> ('d, 'a) kernel_console_scheme \<Rightarrow> (u32 \<times> bool) option \<times> ('d, 'a) kernel_console_scheme" where
  "console64_capture_end console_capability_handle owner_id k =
    (let s = k_con k
     in if \<not> g_capture_active s \<or> console_capability_handle \<noteq> g_capture_capability s \<or> owner_id \<noteq> g_capture_owner s
        then (None, con_deny k)
        else (Some (g_capture_offset s, g_capture_truncated s), upd_con no_capture k))"


section \<open>Writing\<close>

definition count_console_write :: "u32 \<Rightarrow> console_state \<Rightarrow> console_state" where
  "count_console_write byte_count s =
    s\<lparr>con_write_count := con_write_count s + 1, con_byte_count := con_byte_count s + byte_count\<rparr>"

text \<open>
  What happens to accepted bytes: captured, or sent to the debug port byte by byte and then to the
  display. The UEFI build has no VGA text output.
\<close>

definition emit_bytes ::
    "'d screen \<Rightarrow> ('d \<Rightarrow> 'd) \<Rightarrow> u8 list \<Rightarrow> ('d, 'a) kernel_console_scheme \<Rightarrow> ('d, 'a) kernel_console_scheme" where
  "emit_bytes sc show_bytes bytes k =
    upd_con (count_console_write (of_nat (length bytes)))
      (if g_capture_active (k_con k) then console64_capture_append bytes k
       else let k = fold (console64_debug_write_char sc) bytes k
            in k\<lparr>k_dev := show_bytes (k_dev k)\<rparr>)"

definition console64_write ::
    "'d storage \<Rightarrow> 'd screen \<Rightarrow> u32 \<Rightarrow> u64 \<Rightarrow> u32 \<Rightarrow> u32 \<Rightarrow> ('d, 'a) kernel_console_scheme
      \<Rightarrow> u32 \<times> ('d, 'a) kernel_console_scheme" where
  "console64_write sd sc console_capability_handle input_address byte_count owner_id k =
    (if byte_count = 0 then (0, k)
     else if byte_count > CONSOLE64_MAX_WRITE_BYTES \<or> \<not> console64_address_readable sd input_address byte_count
     then (CONSOLE64_INVALID_RESULT, con_deny k)
     else case routes_to_console console_capability_handle owner_id k of
            (False, k) \<Rightarrow> (CONSOLE64_INVALID_RESULT, k)
          | (True, k) \<Rightarrow>
              (byte_count,
               emit_bytes sc (display64_write_console_stream sc input_address byte_count)
                 (mem_load (k_mem k) input_address (unat byte_count)) k))"

definition console64_write_kernel ::
    "'d screen \<Rightarrow> u32 \<Rightarrow> u8 list option \<Rightarrow> u32 \<Rightarrow> u32 \<Rightarrow> ('d, 'a) kernel_console_scheme
      \<Rightarrow> u32 \<times> ('d, 'a) kernel_console_scheme" where
  "console64_write_kernel sc console_capability_handle input byte_count owner_id k =
    (if byte_count = 0 then (0, k)
     else case input of
            None \<Rightarrow> (CONSOLE64_INVALID_RESULT, con_deny k)
          | Some input \<Rightarrow>
              if byte_count > CONSOLE64_MAX_WRITE_BYTES then (CONSOLE64_INVALID_RESULT, con_deny k)
              else (case routes_to_console console_capability_handle owner_id k of
                      (False, k) \<Rightarrow> (CONSOLE64_INVALID_RESULT, k)
                    | (True, k) \<Rightarrow>
                        (let bytes = take (unat byte_count) input
                         in (byte_count, emit_bytes sc (display64_write_console_stream_kernel sc bytes) bytes k))))"

end
