(* ===== verification/Fd.thy ===== *)
theory Fd
  imports Console
begin

text \<open>
  File descriptors, \<^verbatim>\<open>kernel/arch/x86_64/fd.c\<close> (UEFI build): 16 static tables of 1024 descriptors, one
  table per process, and the operations that open, read, write, duplicate, seek, stat and close a
  descriptor through the services below.

  A table is named by its index, as the process record holds it, and an entry by the index of its
  table and its number. The field \<^verbatim>\<open>reserved\<close> of the two structures is never read and is left out.
  A signed offset is the word with its bits. \<^verbatim>\<open>linux_vfs64_fstat\<close>, called for descriptors of the Linux
  device layer, is a parameter: it may read the whole kernel and changes the device state only.
\<close>

definition FD64_TABLE_LIMIT :: nat where "FD64_TABLE_LIMIT = 1024"
definition FD64_MAX_PROCESS_TABLES :: nat where "FD64_MAX_PROCESS_TABLES = 16"

abbreviation (input) FD64_IO_ERROR :: u32 where "FD64_IO_ERROR \<equiv> u32_max"
abbreviation (input) FD64_IO_BLOCKED :: u32 where "FD64_IO_BLOCKED \<equiv> 0xFFFFFFFE"
abbreviation (input) FD64_SEEK_ERROR :: u64 where "FD64_SEEK_ERROR \<equiv> 0xFFFFFFFFFFFFFFFF"
abbreviation (input) FD64_STDIN :: u32 where "FD64_STDIN \<equiv> 0"
abbreviation (input) FD64_STDOUT :: u32 where "FD64_STDOUT \<equiv> 1"
abbreviation (input) FD64_STDERR :: u32 where "FD64_STDERR \<equiv> 2"
abbreviation (input) FD64_TYPE_EMPTY :: u32 where "FD64_TYPE_EMPTY \<equiv> 0"
abbreviation (input) FD64_TYPE_RAMFS_NODE :: u32 where "FD64_TYPE_RAMFS_NODE \<equiv> 1"
abbreviation (input) FD64_TYPE_PIPE_READ :: u32 where "FD64_TYPE_PIPE_READ \<equiv> 2"
abbreviation (input) FD64_TYPE_PIPE_WRITE :: u32 where "FD64_TYPE_PIPE_WRITE \<equiv> 3"
abbreviation (input) FD64_TYPE_SOCKET :: u32 where "FD64_TYPE_SOCKET \<equiv> 4"
abbreviation (input) FD64_TYPE_DEVICE :: u32 where "FD64_TYPE_DEVICE \<equiv> 5"
abbreviation (input) FD64_TYPE_EVENTFD :: u32 where "FD64_TYPE_EVENTFD \<equiv> 6"
abbreviation (input) FD64_FLAG_O_CLOEXEC :: u32 where "FD64_FLAG_O_CLOEXEC \<equiv> 1"
abbreviation (input) FD64_FLAG_O_NONBLOCK :: u32 where "FD64_FLAG_O_NONBLOCK \<equiv> 2"
abbreviation (input) FD64_SEEK_SET :: u32 where "FD64_SEEK_SET \<equiv> 0"
abbreviation (input) FD64_SEEK_CUR :: u32 where "FD64_SEEK_CUR \<equiv> 1"
abbreviation (input) FD64_SEEK_END :: u32 where "FD64_SEEK_END \<equiv> 2"
abbreviation (input) FD64_STAT_NODE_UNKNOWN :: u32 where "FD64_STAT_NODE_UNKNOWN \<equiv> 0"
abbreviation (input) FD64_STAT_NODE_DIRECTORY :: u32 where "FD64_STAT_NODE_DIRECTORY \<equiv> 1"
abbreviation (input) FD64_STAT_NODE_FILE :: u32 where "FD64_STAT_NODE_FILE \<equiv> 2"
abbreviation (input) FD64_STAT_NODE_SYMLINK :: u32 where "FD64_STAT_NODE_SYMLINK \<equiv> 3"
abbreviation (input) FD64_STAT_MODE_DIR :: u32 where "FD64_STAT_MODE_DIR \<equiv> 0x4000"
abbreviation (input) FD64_STAT_MODE_FILE :: u32 where "FD64_STAT_MODE_FILE \<equiv> 0x8000"
abbreviation (input) FD64_STAT_MODE_READ :: u32 where "FD64_STAT_MODE_READ \<equiv> 0x124"
abbreviation (input) FD64_STAT_MODE_WRITE :: u32 where "FD64_STAT_MODE_WRITE \<equiv> 0x92"
abbreviation (input) FD64_STAT_MODE_EXEC :: u32 where "FD64_STAT_MODE_EXEC \<equiv> 0x49"

record fd_entry =
  fe_fd_number :: u32
  fe_capability_handle :: u32
  fe_fd_type :: u32
  fe_flags :: u32
  fe_file_offset :: u64
  fe_ref_count :: u32

record fd_table =
  ft_pid :: u32
  ft_owner_id :: u32
  ft_live_count :: u32
  ft_high_water_fd :: u32
  ft_denial_count :: u32
  ft_entries :: "fd_entry list"

record fd64_stat_t =
  st_size :: u64
  st_mtime :: u64
  st_blocks :: u64
  st_device_id :: u64
  st_inode :: u64
  st_mode :: u32
  st_fd_type :: u32
  st_node_type :: u32
  st_rights :: u32
  st_owner_id :: u32
  st_link_count :: u32
  st_block_size :: u32
  st_fd_number :: u32
  st_capability_handle :: u32

record fd_state =
  g_fd64_tables :: "fd_table list"
  g_fd64_table_used :: "bool list"
  g_fd64_initialized :: bool
  g_fd64_fork_copy_count :: u32
  g_fd64_fork_copy_denial_count :: u32
  g_fd64_fork_copy_last_parent_pid :: u32
  g_fd64_fork_copy_last_child_pid :: u32
  g_fd64_fork_copy_last_entries :: u32
  g_fd64_fork_copy_last_stage :: u32
  g_fd64_fork_pipe_copy_count :: u32
  g_fd64_fork_pipe_denial_count :: u32
  g_fd64_fork_pipe_last_fd :: u32

record 'd kernel_fd = "'d kernel_console" +
  k_fd :: fd_state

abbreviation table_at :: "('d, 'a) kernel_fd_scheme \<Rightarrow> nat \<Rightarrow> fd_table" where
  "table_at k t \<equiv> g_fd64_tables (k_fd k) ! t"

abbreviation entry_at :: "('d, 'a) kernel_fd_scheme \<Rightarrow> nat \<Rightarrow> nat \<Rightarrow> fd_entry" where
  "entry_at k t n \<equiv> ft_entries (table_at k t) ! n"

definition upd_fd :: "(fd_state \<Rightarrow> fd_state) \<Rightarrow> ('d, 'a) kernel_fd_scheme \<Rightarrow> ('d, 'a) kernel_fd_scheme" where
  "upd_fd f k = k\<lparr>k_fd := f (k_fd k)\<rparr>"

definition upd_table :: "nat \<Rightarrow> (fd_table \<Rightarrow> fd_table) \<Rightarrow> ('d, 'a) kernel_fd_scheme \<Rightarrow> ('d, 'a) kernel_fd_scheme" where
  "upd_table t f = upd_fd (\<lambda>s. s\<lparr>g_fd64_tables := (g_fd64_tables s)[t := f (g_fd64_tables s ! t)]\<rparr>)"

definition put_entry :: "nat \<Rightarrow> fd_entry \<Rightarrow> fd_table \<Rightarrow> fd_table" where
  "put_entry n e tb = tb\<lparr>ft_entries := (ft_entries tb)[n := e]\<rparr>"

definition table_deny :: "nat \<Rightarrow> ('d, 'a) kernel_fd_scheme \<Rightarrow> ('d, 'a) kernel_fd_scheme" where
  "table_deny t = upd_table t (\<lambda>tb. tb\<lparr>ft_denial_count := ft_denial_count tb + 1\<rparr>)"


section \<open>Entries and tables\<close>

definition fd64_clear_entry :: "u32 \<Rightarrow> fd_entry" where
  "fd64_clear_entry fd_number =
    \<lparr>fe_fd_number = fd_number, fe_capability_handle = CAPABILITY64_INVALID_HANDLE,
     fe_fd_type = FD64_TYPE_EMPTY, fe_flags = 0, fe_file_offset = 0, fe_ref_count = 0\<rparr>"

definition fd64_clear_table :: fd_table where
  "fd64_clear_table =
    \<lparr>ft_pid = PROCESS64_INVALID_PID, ft_owner_id = 0, ft_live_count = 0, ft_high_water_fd = 0,
     ft_denial_count = 0, ft_entries = map (\<lambda>n. fd64_clear_entry (of_nat n)) [0..<FD64_TABLE_LIMIT]\<rparr>"

definition fd64_entry_active :: "fd_entry \<Rightarrow> bool" where
  "fd64_entry_active e \<longleftrightarrow> fe_fd_type e \<noteq> FD64_TYPE_EMPTY
     \<and> fe_capability_handle e \<noteq> CAPABILITY64_INVALID_HANDLE \<and> fe_ref_count e \<noteq> 0"

definition fd64_valid_type :: "u32 \<Rightarrow> bool" where
  "fd64_valid_type fd_type \<longleftrightarrow> fd_type = FD64_TYPE_RAMFS_NODE \<or> fd_type = FD64_TYPE_PIPE_READ
     \<or> fd_type = FD64_TYPE_PIPE_WRITE \<or> fd_type = FD64_TYPE_SOCKET \<or> fd_type = FD64_TYPE_DEVICE
     \<or> fd_type = FD64_TYPE_EVENTFD"

definition foreign_flags :: "u32 \<Rightarrow> bool" where
  "foreign_flags flags \<longleftrightarrow> flags AND NOT (FD64_FLAG_O_CLOEXEC OR FD64_FLAG_O_NONBLOCK) \<noteq> 0"

text \<open>The tail shared by installing and duplicating: the entry is stored and the counters follow.\<close>

definition occupy :: "u32 \<Rightarrow> fd_entry \<Rightarrow> fd_table \<Rightarrow> fd_table" where
  "occupy fd_number e tb =
    (put_entry (unat fd_number) e tb)
      \<lparr>ft_live_count := ft_live_count tb + 1,
       ft_high_water_fd := (if fd_number > ft_high_water_fd tb then fd_number else ft_high_water_fd tb)\<rparr>"

definition fd64_install_entry ::
    "nat \<Rightarrow> u32 \<Rightarrow> u32 \<Rightarrow> u32 \<Rightarrow> u32 \<Rightarrow> ('d, 'a) kernel_fd_scheme \<Rightarrow> bool \<times> ('d, 'a) kernel_fd_scheme" where
  "fd64_install_entry t fd_number capability_handle fd_type flags k =
    (if unat fd_number \<ge> FD64_TABLE_LIMIT \<or> capability_handle = CAPABILITY64_INVALID_HANDLE
        \<or> \<not> fd64_valid_type fd_type \<or> foreign_flags flags
     then (False, table_deny t k)
     else if fd64_entry_active (entry_at k t (unat fd_number)) then (False, table_deny t k)
     else case persona64_budget_check_fd (ft_pid (table_at k t)) (ft_live_count (table_at k t)) 1 k of
            (False, k) \<Rightarrow> (False, table_deny t k)
          | (True, k) \<Rightarrow>
              (True, upd_table t (occupy fd_number
                 \<lparr>fe_fd_number = fd_number, fe_capability_handle = capability_handle, fe_fd_type = fd_type,
                  fe_flags = flags, fe_file_offset = 0, fe_ref_count = 1\<rparr>) k))"

definition fd64_revoke_entry_capability ::
    "nat \<Rightarrow> nat \<Rightarrow> ('d, 'a) kernel_fd_scheme \<Rightarrow> bool \<times> ('d, 'a) kernel_fd_scheme" where
  "fd64_revoke_entry_capability t n k =
    (let e = entry_at k t n; owner = ft_owner_id (table_at k t)
     in if \<not> fd64_entry_active e then (False, k)
        else if fe_fd_type e = FD64_TYPE_RAMFS_NODE then fs64_revoke (fe_capability_handle e) owner k
        else if fe_fd_type e = FD64_TYPE_PIPE_READ \<or> fe_fd_type e = FD64_TYPE_PIPE_WRITE
        then pipe64_revoke_handle (fe_capability_handle e) owner k
        else capability64_revoke (fe_capability_handle e) owner k)"

definition shares :: "u32 \<Rightarrow> u32 \<Rightarrow> fd_entry \<Rightarrow> bool" where
  "shares capability_handle fd_type e \<longleftrightarrow>
     fd64_entry_active e \<and> fe_capability_handle e = capability_handle \<and> fe_fd_type e = fd_type"

definition fd64_shared_entry_count :: "fd_table \<Rightarrow> u32 \<Rightarrow> u32 \<Rightarrow> u32" where
  "fd64_shared_entry_count tb capability_handle fd_type =
    (if capability_handle = CAPABILITY64_INVALID_HANDLE then 0
     else of_nat (count_if (shares capability_handle fd_type) (ft_entries tb)))"

definition fd64_sync_shared_ref_counts :: "u32 \<Rightarrow> u32 \<Rightarrow> fd_table \<Rightarrow> fd_table" where
  "fd64_sync_shared_ref_counts capability_handle fd_type tb =
    (let n = fd64_shared_entry_count tb capability_handle fd_type
     in if n = 0 then tb
        else tb\<lparr>ft_entries := map (\<lambda>e. if shares capability_handle fd_type e then e\<lparr>fe_ref_count := n\<rparr> else e)
                                (ft_entries tb)\<rparr>)"

definition fd64_prior_shared_entry_exists :: "fd_table \<Rightarrow> nat \<Rightarrow> bool" where
  "fd64_prior_shared_entry_exists tb n =
    (let e = ft_entries tb ! n
     in if n \<ge> FD64_TABLE_LIMIT \<or> \<not> fd64_entry_active e then False
        else list_ex (shares (fe_capability_handle e) (fe_fd_type e)) (take n (ft_entries tb)))"

definition fd64_init :: "('d, 'a) kernel_fd_scheme \<Rightarrow> ('d, 'a) kernel_fd_scheme" where
  "fd64_init k =
    (if g_fd64_initialized (k_fd k) then k
     else k\<lparr>k_fd := \<lparr>g_fd64_tables = replicate FD64_MAX_PROCESS_TABLES fd64_clear_table,
       g_fd64_table_used = replicate FD64_MAX_PROCESS_TABLES False, g_fd64_initialized = True,
       g_fd64_fork_copy_count = 0, g_fd64_fork_copy_denial_count = 0,
       g_fd64_fork_copy_last_parent_pid = PROCESS64_INVALID_PID,
       g_fd64_fork_copy_last_child_pid = PROCESS64_INVALID_PID, g_fd64_fork_copy_last_entries = 0,
       g_fd64_fork_copy_last_stage = 0, g_fd64_fork_pipe_copy_count = 0,
       g_fd64_fork_pipe_denial_count = 0, g_fd64_fork_pipe_last_fd = FD64_INVALID_FD\<rparr>\<rparr>)"

definition fd64_table_for_process ::
    "u32 \<Rightarrow> ('d, 'a) kernel_fd_scheme \<Rightarrow> nat option \<times> ('d, 'a) kernel_fd_scheme" where
  "fd64_table_for_process pid k = (process64_fd_table (k_proc k) pid, fd64_init k)"

text \<open>
  How most operations begin: without a table they fail with \<open>err\<close>, on a number out of range as well
  but counting a denial, otherwise \<open>body\<close> runs on the table.
\<close>

definition with_fd ::
    "u32 \<Rightarrow> u32 \<Rightarrow> 'r \<Rightarrow> (nat \<Rightarrow> ('d, 'a) kernel_fd_scheme \<Rightarrow> 'r \<times> ('d, 'a) kernel_fd_scheme)
      \<Rightarrow> ('d, 'a) kernel_fd_scheme \<Rightarrow> 'r \<times> ('d, 'a) kernel_fd_scheme" where
  "with_fd pid fd_number err body k =
    (case fd64_table_for_process pid k of
       (None, k) \<Rightarrow> (err, k)
     | (Some t, k) \<Rightarrow> if unat fd_number \<ge> FD64_TABLE_LIMIT then (err, table_deny t k) else body t k)"

definition fd64_claim_table ::
    "u32 \<Rightarrow> u32 \<Rightarrow> ('d, 'a) kernel_fd_scheme \<Rightarrow> nat option \<times> ('d, 'a) kernel_fd_scheme" where
  "fd64_claim_table pid owner_id k0 =
    (let k = fd64_init k0
     in if pid = PROCESS64_INVALID_PID \<or> owner_id = 0 \<or> process64_principal (k_proc k) pid = 0 then (None, k)
        else if process64_fd_table (k_proc k) pid \<noteq> None then (process64_fd_table (k_proc k) pid, k)
        else case first_index (\<lambda>used. \<not> used) (g_fd64_table_used (k_fd k)) of
               None \<Rightarrow> (None, k)
             | Some t \<Rightarrow>
                 (let k1 = upd_table t (\<lambda>_. fd64_clear_table\<lparr>ft_pid := pid, ft_owner_id := owner_id\<rparr>) k
                  in case process64_attach_fd pid (Some t) (k_proc k1) of
                       (False, ps) \<Rightarrow> (None, upd_table t (\<lambda>_. fd64_clear_table) (k1\<lparr>k_proc := ps\<rparr>))
                     | (True, ps) \<Rightarrow>
                         (Some t, upd_fd (\<lambda>s. s\<lparr>g_fd64_table_used := (g_fd64_table_used s)[t := True]\<rparr>)
                                    (k1\<lparr>k_proc := ps\<rparr>))))"

definition revoke_once :: "nat \<Rightarrow> nat \<Rightarrow> ('d, 'a) kernel_fd_scheme \<Rightarrow> ('d, 'a) kernel_fd_scheme" where
  "revoke_once t n k =
    (if fd64_entry_active (entry_at k t n) \<and> \<not> fd64_prior_shared_entry_exists (table_at k t) n
     then snd (fd64_revoke_entry_capability t n k) else k)"

text \<open>
  The entries are cleared one by one and then with the whole table; only the second is visible.
  The closing search for the table among the static ones finds it, as the index says which it is.
\<close>

definition fd64_release_process ::
    "u32 \<Rightarrow> ('d, 'a) kernel_fd_scheme \<Rightarrow> u32 \<times> ('d, 'a) kernel_fd_scheme" where
  "fd64_release_process pid k0 =
    (case fd64_table_for_process pid k0 of
       (None, k) \<Rightarrow> (0, k)
     | (Some t, k) \<Rightarrow>
         (let k1 = fold (revoke_once t) [0..<FD64_TABLE_LIMIT] k;
              released = of_nat (count_if fd64_entry_active (ft_entries (table_at k1 t)));
              k2 = k1\<lparr>k_proc := snd (process64_detach_fd pid (k_proc k1))\<rparr>
          in (released, upd_fd (\<lambda>s. s\<lparr>g_fd64_table_used := (g_fd64_table_used s)[t := False]\<rparr>)
                          (upd_table t (\<lambda>_. fd64_clear_table) k2))))"

definition fd64_init_process ::
    "u32 \<Rightarrow> u32 \<Rightarrow> u32 \<Rightarrow> u32 \<Rightarrow> u32 \<Rightarrow> ('d, 'a) kernel_fd_scheme \<Rightarrow> bool \<times> ('d, 'a) kernel_fd_scheme" where
  "fd64_init_process pid owner_id stdin_capability stdout_capability stderr_capability k =
    (case fd64_claim_table pid owner_id k of
       (None, k) \<Rightarrow> (False, k)
     | (Some t, k) \<Rightarrow>
         if ft_live_count (table_at k t) \<noteq> 0
         then (fd64_entry_active (entry_at k t (unat FD64_STDIN)) \<and> fd64_entry_active (entry_at k t (unat FD64_STDOUT))
                 \<and> fd64_entry_active (entry_at k t (unat FD64_STDERR)), k)
         else (case fd64_install_entry t FD64_STDIN stdin_capability FD64_TYPE_DEVICE 0 k of
                (False, k) \<Rightarrow> (False, snd (fd64_release_process pid k))
              | (True, k) \<Rightarrow>
                  (case fd64_install_entry t FD64_STDOUT stdout_capability FD64_TYPE_DEVICE 0 k of
                     (False, k) \<Rightarrow> (False, snd (fd64_release_process pid k))
                   | (True, k) \<Rightarrow>
                       (case fd64_install_entry t FD64_STDERR stderr_capability FD64_TYPE_DEVICE 0 k of
                          (False, k) \<Rightarrow> (False, snd (fd64_release_process pid k))
                        | (True, k) \<Rightarrow> (True, k)))))"


section \<open>Opening and closing\<close>

definition fd64_alloc_at ::
    "u32 \<Rightarrow> u32 \<Rightarrow> u32 \<Rightarrow> u32 \<Rightarrow> u32 \<Rightarrow> ('d, 'a) kernel_fd_scheme \<Rightarrow> u32 \<times> ('d, 'a) kernel_fd_scheme" where
  "fd64_alloc_at pid fd_number capability_handle fd_type flags =
    with_fd pid fd_number FD64_INVALID_FD (\<lambda>t k.
      case fd64_install_entry t fd_number capability_handle fd_type flags k of
        (ok, k) \<Rightarrow> (if ok then fd_number else FD64_INVALID_FD, k))"

definition fd64_alloc ::
    "u32 \<Rightarrow> u32 \<Rightarrow> u32 \<Rightarrow> u32 \<Rightarrow> ('d, 'a) kernel_fd_scheme \<Rightarrow> u32 \<times> ('d, 'a) kernel_fd_scheme" where
  "fd64_alloc pid capability_handle fd_type flags k =
    (case fd64_table_for_process pid k of
       (None, k) \<Rightarrow> (FD64_INVALID_FD, k)
     | (Some t, k) \<Rightarrow>
         (case first_index (\<lambda>e. \<not> fd64_entry_active e) (ft_entries (table_at k t)) of
            None \<Rightarrow> (FD64_INVALID_FD, table_deny t k)
          | Some n \<Rightarrow>
              (case fd64_install_entry t (of_nat n) capability_handle fd_type flags k of
                 (ok, k) \<Rightarrow> (if ok then of_nat n else FD64_INVALID_FD, k))))"

definition fd64_open_ramfs ::
    "'d storage \<Rightarrow> u32 \<Rightarrow> u8 list option \<Rightarrow> u32 \<Rightarrow> u32 \<Rightarrow> ('d, 'a) kernel_fd_scheme
      \<Rightarrow> u32 \<times> ('d, 'a) kernel_fd_scheme" where
  "fd64_open_ramfs sd pid path path_byte_count flags k =
    (case fd64_table_for_process pid k of
       (None, k) \<Rightarrow> (FD64_INVALID_FD, k)
     | (Some t, k) \<Rightarrow>
         if path = None \<or> path_byte_count = 0 \<or> foreign_flags flags then (FD64_INVALID_FD, table_deny t k)
         else (let owner = ft_owner_id (table_at k t)
               in case capability64_grant_service SERVICE_ENDPOINT_CLASS_RAMFS
                         (CAPABILITY64_RIGHT_SEND OR CAPABILITY64_RIGHT_QUERY) owner k of
                    (base, k) \<Rightarrow>
                      if base = CAPABILITY64_INVALID_HANDLE then (FD64_INVALID_FD, table_deny t k)
                      else (case fs64_open_kernel sd base path path_byte_count owner k of
                              (node, k) \<Rightarrow>
                                (let k = snd (capability64_revoke base owner k)
                                 in if node = FS64_INVALID_HANDLE then (FD64_INVALID_FD, table_deny t k)
                                    else (case fd64_alloc pid node FD64_TYPE_RAMFS_NODE flags k of
                                            (fd_number, k) \<Rightarrow>
                                              (fd_number,
                                               if fd_number = FD64_INVALID_FD then snd (fs64_revoke node owner k)
                                               else k))))))"

definition vacate :: "nat \<Rightarrow> fd_table \<Rightarrow> fd_table" where
  "vacate n tb =
    (put_entry n (fd64_clear_entry (of_nat n)) tb)
      \<lparr>ft_live_count := (if ft_live_count tb \<noteq> 0 then ft_live_count tb - 1 else ft_live_count tb)\<rparr>"

definition fd64_free :: "u32 \<Rightarrow> u32 \<Rightarrow> ('d, 'a) kernel_fd_scheme \<Rightarrow> bool \<times> ('d, 'a) kernel_fd_scheme" where
  "fd64_free pid fd_number = with_fd pid fd_number False (\<lambda>t k.
    let n = unat fd_number; e = entry_at k t n; h = fe_capability_handle e; ty = fe_fd_type e
    in if \<not> fd64_entry_active e then (False, table_deny t k)
       else if fd64_shared_entry_count (table_at k t) h ty > 1
       then (True, upd_table t (\<lambda>tb. fd64_sync_shared_ref_counts h ty (vacate n tb)) k)
       else if fe_ref_count e > 1
       then (True, upd_table t (put_entry n (e\<lparr>fe_ref_count := fe_ref_count e - 1\<rparr>)) k)
       else (True, upd_table t (vacate n) (snd (fd64_revoke_entry_capability t n k))))"

definition fd64_close :: "u32 \<Rightarrow> u32 \<Rightarrow> ('d, 'a) kernel_fd_scheme \<Rightarrow> bool \<times> ('d, 'a) kernel_fd_scheme" where
  "fd64_close = fd64_free"

definition close_one ::
    "u32 \<Rightarrow> nat \<Rightarrow> nat \<Rightarrow> u32 \<times> ('d, 'a) kernel_fd_scheme \<Rightarrow> u32 \<times> ('d, 'a) kernel_fd_scheme" where
  "close_one pid t n = (\<lambda>(closed, k).
    if fd64_entry_active (entry_at k t n) \<and> fe_flags (entry_at k t n) AND FD64_FLAG_O_CLOEXEC \<noteq> 0
    then (case fd64_free pid (of_nat n) k of (ok, k) \<Rightarrow> (if ok then closed + 1 else closed, k))
    else (closed, k))"

definition fd64_close_on_exec ::
    "u32 \<Rightarrow> ('d, 'a) kernel_fd_scheme \<Rightarrow> u32 \<times> ('d, 'a) kernel_fd_scheme" where
  "fd64_close_on_exec pid k =
    (case fd64_table_for_process pid k of
       (None, k) \<Rightarrow> (FD64_IO_ERROR, k)
     | (Some t, k) \<Rightarrow> fold (close_one pid t) [0..<FD64_TABLE_LIMIT] (0, k))"


section \<open>Reading and writing\<close>

definition advance :: "nat \<Rightarrow> u32 \<Rightarrow> fd_table \<Rightarrow> fd_table" where
  "advance n byte_count tb =
    put_entry n ((ft_entries tb ! n)\<lparr>fe_file_offset := fe_file_offset (ft_entries tb ! n) + ucast byte_count\<rparr>) tb"

definition fd64_read ::
    "'d storage \<Rightarrow> u32 \<Rightarrow> u32 \<Rightarrow> bool \<Rightarrow> u32 \<Rightarrow> ('d, 'a) kernel_fd_scheme
      \<Rightarrow> (u32 \<times> u8 list) \<times> ('d, 'a) kernel_fd_scheme" where
  "fd64_read sd pid fd_number output byte_count = with_fd pid fd_number (FD64_IO_ERROR, []) (\<lambda>t k.
    let n = unat fd_number; e = entry_at k t n; h = fe_capability_handle e; owner = ft_owner_id (table_at k t)
    in if byte_count = 0 then ((0, []), k)
       else if \<not> output \<or> \<not> fd64_entry_active e \<or> fe_file_offset e > 0xFFFFFFFF
       then ((FD64_IO_ERROR, []), table_deny t k)
       else if fe_fd_type e = FD64_TYPE_RAMFS_NODE
       then (case fs64_read_kernel sd h (ucast (fe_file_offset e)) byte_count owner k of
               (None, k) \<Rightarrow> ((FD64_IO_ERROR, []), table_deny t k)
             | (Some bytes, k) \<Rightarrow>
                 ((of_nat (length bytes), bytes), upd_table t (advance n (of_nat (length bytes))) k))
       else if fe_fd_type e = FD64_TYPE_PIPE_READ
       then (case pipe64_read h True byte_count owner k of
               (bytes_read, bytes, k) \<Rightarrow>
                 if bytes_read = PIPE64_IO_BLOCKED then ((FD64_IO_BLOCKED, bytes), k)
                 else if bytes_read = PIPE64_IO_ERROR then ((FD64_IO_ERROR, bytes), table_deny t k)
                 else ((bytes_read, bytes), k))
       else ((FD64_IO_ERROR, []), table_deny t k))"

definition fd64_write ::
    "'d storage \<Rightarrow> 'd screen \<Rightarrow> u32 \<Rightarrow> u32 \<Rightarrow> u8 list option \<Rightarrow> u32 \<Rightarrow> ('d, 'a) kernel_fd_scheme
      \<Rightarrow> u32 \<times> ('d, 'a) kernel_fd_scheme" where
  "fd64_write sd sc pid fd_number input byte_count = with_fd pid fd_number FD64_IO_ERROR (\<lambda>t k.
    let n = unat fd_number; e = entry_at k t n; h = fe_capability_handle e; owner = ft_owner_id (table_at k t)
    in if byte_count = 0 then (0, k)
       else if input = None \<or> \<not> fd64_entry_active e then (FD64_IO_ERROR, table_deny t k)
       else if fe_fd_type e = FD64_TYPE_DEVICE
       then (case console64_write_kernel sc h input byte_count owner k of
               (bytes_written, k) \<Rightarrow>
                 if bytes_written = CONSOLE64_INVALID_RESULT then (FD64_IO_ERROR, table_deny t k)
                 else (bytes_written, k))
       else if fe_fd_type e = FD64_TYPE_RAMFS_NODE
       then (if fe_file_offset e > 0xFFFFFFFF then (FD64_IO_ERROR, table_deny t k)
             else (case fs64_write_kernel sd h input (ucast (fe_file_offset e)) byte_count owner k of
                     (bytes_written, k) \<Rightarrow>
                       if bytes_written = FS64_INVALID_HANDLE then (FD64_IO_ERROR, table_deny t k)
                       else (bytes_written, upd_table t (advance n bytes_written) k)))
       else if fe_fd_type e = FD64_TYPE_PIPE_WRITE
       then (case pipe64_write h input byte_count owner k of
               (bytes_written, k) \<Rightarrow>
                 if bytes_written = PIPE64_IO_BLOCKED then (FD64_IO_BLOCKED, k)
                 else if bytes_written = PIPE64_IO_ERROR then (FD64_IO_ERROR, table_deny t k)
                 else (bytes_written, k))
       else (FD64_IO_ERROR, table_deny t k))"

definition fd64_read_at ::
    "'d storage \<Rightarrow> u32 \<Rightarrow> u32 \<Rightarrow> u64 \<Rightarrow> bool \<Rightarrow> u32 \<Rightarrow> ('d, 'a) kernel_fd_scheme
      \<Rightarrow> (u32 \<times> u8 list) \<times> ('d, 'a) kernel_fd_scheme" where
  "fd64_read_at sd pid fd_number file_offset output byte_count =
    with_fd pid fd_number (FD64_IO_ERROR, []) (\<lambda>t k.
      let e = entry_at k t (unat fd_number)
      in if byte_count = 0 then ((0, []), k)
         else if \<not> output \<or> file_offset > 0xFFFFFFFF \<or> \<not> fd64_entry_active e
           \<or> fe_fd_type e \<noteq> FD64_TYPE_RAMFS_NODE
         then ((FD64_IO_ERROR, []), table_deny t k)
         else (case fs64_read_kernel sd (fe_capability_handle e) (ucast file_offset) byte_count
                      (ft_owner_id (table_at k t)) k of
                 (None, k) \<Rightarrow> ((FD64_IO_ERROR, []), table_deny t k)
               | (Some bytes, k) \<Rightarrow> ((of_nat (length bytes), bytes), k)))"

definition fd64_write_at ::
    "'d storage \<Rightarrow> u32 \<Rightarrow> u32 \<Rightarrow> u64 \<Rightarrow> u8 list option \<Rightarrow> u32 \<Rightarrow> ('d, 'a) kernel_fd_scheme
      \<Rightarrow> u32 \<times> ('d, 'a) kernel_fd_scheme" where
  "fd64_write_at sd pid fd_number file_offset input byte_count =
    with_fd pid fd_number FD64_IO_ERROR (\<lambda>t k.
      let e = entry_at k t (unat fd_number)
      in if byte_count = 0 then (0, k)
         else if input = None \<or> file_offset > 0xFFFFFFFF \<or> \<not> fd64_entry_active e
           \<or> fe_fd_type e \<noteq> FD64_TYPE_RAMFS_NODE
         then (FD64_IO_ERROR, table_deny t k)
         else (case fs64_write_kernel sd (fe_capability_handle e) input (ucast file_offset) byte_count
                      (ft_owner_id (table_at k t)) k of
                 (bytes_written, k) \<Rightarrow>
                   if bytes_written = FS64_INVALID_HANDLE then (FD64_IO_ERROR, table_deny t k)
                   else (bytes_written, k)))"


section \<open>Duplicating\<close>

definition fd64_dup_into ::
    "nat \<Rightarrow> u32 \<Rightarrow> u32 \<Rightarrow> ('d, 'a) kernel_fd_scheme \<Rightarrow> u32 \<times> ('d, 'a) kernel_fd_scheme" where
  "fd64_dup_into t old_fd_number new_fd_number k =
    (let source = entry_at k t (unat old_fd_number)
     in if unat old_fd_number \<ge> FD64_TABLE_LIMIT \<or> unat new_fd_number \<ge> FD64_TABLE_LIMIT
        then (FD64_INVALID_FD, table_deny t k)
        else if \<not> fd64_entry_active source then (FD64_INVALID_FD, table_deny t k)
        else if old_fd_number = new_fd_number then (new_fd_number, k)
        else case (if fd64_entry_active (entry_at k t (unat new_fd_number))
                   then fd64_free (ft_pid (table_at k t)) new_fd_number k else (True, k)) of
               (False, k) \<Rightarrow> (FD64_INVALID_FD, table_deny t k)
             | (True, k) \<Rightarrow>
                 (case persona64_budget_check_fd (ft_pid (table_at k t)) (ft_live_count (table_at k t)) 1 k of
                    (False, k) \<Rightarrow> (FD64_INVALID_FD, table_deny t k)
                  | (True, k) \<Rightarrow>
                      (new_fd_number,
                       upd_table t (\<lambda>tb. fd64_sync_shared_ref_counts (fe_capability_handle source) (fe_fd_type source)
                         (occupy new_fd_number (source\<lparr>fe_fd_number := new_fd_number, fe_ref_count := 1\<rparr>) tb)) k)))"

text \<open>The search loop of \<^verbatim>\<open>fd64_dup\<close> and \<^verbatim>\<open>fd64_dup_min\<close>: the first inactive entry from \<open>start\<close> on.\<close>

definition dup_from ::
    "nat \<Rightarrow> u32 \<Rightarrow> nat \<Rightarrow> ('d, 'a) kernel_fd_scheme \<Rightarrow> u32 \<times> ('d, 'a) kernel_fd_scheme" where
  "dup_from t old_fd_number start k =
    (case first_index (\<lambda>e. \<not> fd64_entry_active e) (drop start (ft_entries (table_at k t))) of
       None \<Rightarrow> (FD64_INVALID_FD, table_deny t k)
     | Some i \<Rightarrow> fd64_dup_into t old_fd_number (of_nat (start + i)) k)"

definition fd64_dup :: "u32 \<Rightarrow> u32 \<Rightarrow> ('d, 'a) kernel_fd_scheme \<Rightarrow> u32 \<times> ('d, 'a) kernel_fd_scheme" where
  "fd64_dup pid old_fd_number = with_fd pid old_fd_number FD64_INVALID_FD (\<lambda>t k.
     if \<not> fd64_entry_active (entry_at k t (unat old_fd_number)) then (FD64_INVALID_FD, table_deny t k)
     else dup_from t old_fd_number 0 k)"

definition fd64_dup_min ::
    "u32 \<Rightarrow> u32 \<Rightarrow> u32 \<Rightarrow> ('d, 'a) kernel_fd_scheme \<Rightarrow> u32 \<times> ('d, 'a) kernel_fd_scheme" where
  "fd64_dup_min pid old_fd_number min_fd_number = with_fd pid old_fd_number FD64_INVALID_FD (\<lambda>t k.
     if unat min_fd_number \<ge> FD64_TABLE_LIMIT \<or> \<not> fd64_entry_active (entry_at k t (unat old_fd_number))
     then (FD64_INVALID_FD, table_deny t k)
     else dup_from t old_fd_number (unat min_fd_number) k)"

definition fd64_dup2 ::
    "u32 \<Rightarrow> u32 \<Rightarrow> u32 \<Rightarrow> ('d, 'a) kernel_fd_scheme \<Rightarrow> u32 \<times> ('d, 'a) kernel_fd_scheme" where
  "fd64_dup2 pid old_fd_number new_fd_number k =
    (case fd64_table_for_process pid k of
       (None, k) \<Rightarrow> (FD64_INVALID_FD, k)
     | (Some t, k) \<Rightarrow> fd64_dup_into t old_fd_number new_fd_number k)"

definition set_flags :: "nat \<Rightarrow> u32 \<Rightarrow> fd_table \<Rightarrow> fd_table" where
  "set_flags n flags tb = put_entry n ((ft_entries tb ! n)\<lparr>fe_flags := flags\<rparr>) tb"

definition fd64_dup3 ::
    "u32 \<Rightarrow> u32 \<Rightarrow> u32 \<Rightarrow> u32 \<Rightarrow> ('d, 'a) kernel_fd_scheme \<Rightarrow> u32 \<times> ('d, 'a) kernel_fd_scheme" where
  "fd64_dup3 pid old_fd_number new_fd_number flags k =
    (case fd64_table_for_process pid k of
       (None, k) \<Rightarrow> (FD64_INVALID_FD, k)
     | (Some t, k) \<Rightarrow>
         if old_fd_number = new_fd_number \<or> flags AND NOT FD64_FLAG_O_CLOEXEC \<noteq> 0
         then (FD64_INVALID_FD, table_deny t k)
         else case fd64_dup_into t old_fd_number new_fd_number k of
                (duplicated_fd, k) \<Rightarrow>
                  if duplicated_fd = FD64_INVALID_FD then (FD64_INVALID_FD, k)
                  else (duplicated_fd, upd_table t (set_flags (unat duplicated_fd) flags) k))"

definition fd64_set_entry_flags ::
    "u32 \<Rightarrow> u32 \<Rightarrow> u32 \<Rightarrow> ('d, 'a) kernel_fd_scheme \<Rightarrow> bool \<times> ('d, 'a) kernel_fd_scheme" where
  "fd64_set_entry_flags pid fd_number flags = with_fd pid fd_number False (\<lambda>t k.
     if foreign_flags flags \<or> \<not> fd64_entry_active (entry_at k t (unat fd_number))
     then (False, table_deny t k)
     else (True, upd_table t (set_flags (unat fd_number) flags) k))"


section \<open>Pinning\<close>

text \<open>A pointer to an entry is the index of its table and its number.\<close>

definition fd64_get ::
    "u32 \<Rightarrow> u32 \<Rightarrow> ('d, 'a) kernel_fd_scheme \<Rightarrow> (nat \<times> nat) option \<times> ('d, 'a) kernel_fd_scheme" where
  "fd64_get pid fd_number = with_fd pid fd_number None (\<lambda>t k.
     let n = unat fd_number; e = entry_at k t n
     in if \<not> fd64_entry_active e then (None, table_deny t k)
        else (Some (t, n), upd_table t (put_entry n (e\<lparr>fe_ref_count := fe_ref_count e + 1\<rparr>)) k))"

definition fd64_put ::
    "u32 \<Rightarrow> (nat \<times> nat) option \<Rightarrow> ('d, 'a) kernel_fd_scheme \<Rightarrow> bool \<times> ('d, 'a) kernel_fd_scheme" where
  "fd64_put pid entry k =
    (case fd64_table_for_process pid k of
       (None, k) \<Rightarrow> (False, k)
     | (Some t, k) \<Rightarrow>
         (case entry of
            None \<Rightarrow> (False, table_deny t k)
          | Some (t', n) \<Rightarrow>
              (let e = entry_at k t n
               in if t' \<noteq> t \<or> n \<ge> FD64_TABLE_LIMIT \<or> \<not> fd64_entry_active e then (False, table_deny t k)
                  else (True, if fe_ref_count e > 1
                              then upd_table t (put_entry n (e\<lparr>fe_ref_count := fe_ref_count e - 1\<rparr>)) k
                              else k))))"


section \<open>Parsing the metadata of a node\<close>

text \<open>
  The file system hands out metadata as text. The digits up to the end of the line are read into
  a 64-bit word, refusing values beyond 32 bits.
\<close>

fun parse_digits :: "u64 \<Rightarrow> bool \<Rightarrow> u8 list \<Rightarrow> u64 option" where
  "parse_digits value saw_digit [] = (if saw_digit then Some value else None)"
| "parse_digits value saw_digit (b # bs) =
    (if b = 0x0A then if saw_digit then Some value else None
     else if b < 0x30 \<or> b > 0x39 then None
     else let value = value * 10 + ucast (b - 0x30)
          in if value > 0xFFFFFFFF then None else parse_digits value True bs)"

definition fd64_span_matches :: "u8 list \<Rightarrow> string \<Rightarrow> bool" where
  "fd64_span_matches stat_bytes label \<longleftrightarrow>
     length stat_bytes \<ge> length label \<and> take (length label) stat_bytes = bytes_of label"

definition fd64_parse_file_stat_size :: "u8 list \<Rightarrow> u64 option" where
  "fd64_parse_file_stat_size stat_bytes =
    (let label = ''type=file size=''
     in if fd64_span_matches stat_bytes label then parse_digits 0 False (drop (length label) stat_bytes) else None)"

definition fd64_parse_decimal_tail :: "u8 list \<Rightarrow> nat \<Rightarrow> u64 option" where
  "fd64_parse_decimal_tail stat_bytes index =
    (if index \<ge> length stat_bytes then None else parse_digits 0 False (drop index stat_bytes))"

definition fd64_zero_stat :: fd64_stat_t where
  "fd64_zero_stat =
    \<lparr>st_size = 0, st_mtime = 0, st_blocks = 0, st_device_id = 0, st_inode = 0, st_mode = 0,
     st_fd_type = FD64_TYPE_EMPTY, st_node_type = FD64_STAT_NODE_UNKNOWN, st_rights = 0, st_owner_id = 0,
     st_link_count = 0, st_block_size = 0, st_fd_number = FD64_INVALID_FD,
     st_capability_handle = CAPABILITY64_INVALID_HANDLE\<rparr>"

definition fd64_parse_ramfs_stat :: "u8 list \<Rightarrow> fd64_stat_t \<Rightarrow> fd64_stat_t option" where
  "fd64_parse_ramfs_stat stat_bytes st =
    (let file_prefix = ''type=file size=''; dir_prefix = ''type=dir entries=''
     in if fd64_span_matches stat_bytes file_prefix
        then map_option (\<lambda>value. st\<lparr>st_node_type := FD64_STAT_NODE_FILE, st_size := value\<rparr>)
               (fd64_parse_decimal_tail stat_bytes (length file_prefix))
        else if fd64_span_matches stat_bytes dir_prefix
        then map_option (\<lambda>_. st\<lparr>st_node_type := FD64_STAT_NODE_DIRECTORY, st_size := 0\<rparr>)
               (fd64_parse_decimal_tail stat_bytes (length dir_prefix))
        else None)"

definition fd64_mode_from_ramfs_stat :: "u32 \<Rightarrow> u32 \<Rightarrow> u32" where
  "fd64_mode_from_ramfs_stat node_type rights =
    (if node_type = FD64_STAT_NODE_FILE
     then FD64_STAT_MODE_FILE
       OR (if rights AND (FS64_RIGHT_READ OR FS64_RIGHT_STAT) \<noteq> 0 then FD64_STAT_MODE_READ else 0)
       OR (if rights AND FS64_RIGHT_WRITE \<noteq> 0 then FD64_STAT_MODE_WRITE else 0)
     else if node_type = FD64_STAT_NODE_DIRECTORY
     then FD64_STAT_MODE_DIR
       OR (if rights AND (FS64_RIGHT_LIST OR FS64_RIGHT_STAT) \<noteq> 0
           then FD64_STAT_MODE_READ OR FD64_STAT_MODE_EXEC else 0)
       OR (if rights AND (FS64_RIGHT_CREATE OR FS64_RIGHT_WRITE OR FS64_RIGHT_DELETE OR FS64_RIGHT_RENAME) \<noteq> 0
           then FD64_STAT_MODE_WRITE else 0)
     else 0)"


section \<open>Seeking and metadata\<close>

definition fd64_ramfs_file_size ::
    "nat \<Rightarrow> nat \<Rightarrow> ('d, 'a) kernel_fd_scheme \<Rightarrow> u64 option \<times> ('d, 'a) kernel_fd_scheme" where
  "fd64_ramfs_file_size t n k =
    (let e = entry_at k t n
     in if \<not> fd64_entry_active e \<or> fe_fd_type e \<noteq> FD64_TYPE_RAMFS_NODE then (None, k)
        else case fs64_stat_kernel (fe_capability_handle e) 32 (ft_owner_id (table_at k t)) k of
               (None, k) \<Rightarrow> (None, k)
             | (Some stat_bytes, k) \<Rightarrow> (fd64_parse_file_stat_size stat_bytes, k))"

definition fd64_apply_seek_delta :: "u64 \<Rightarrow> u32 \<Rightarrow> u64 option" where
  "fd64_apply_seek_delta base offset =
    (if sint offset < 0
     then let delta = ucast (0 - offset) in if base < delta then None else Some (base - delta)
     else let delta = ucast offset in if base > 0xFFFFFFFF - delta then None else Some (base + delta))"

definition linux_vfs64_device_type_from_handle :: "u32 \<Rightarrow> u32" where
  "linux_vfs64_device_type_from_handle handle =
    (if handle AND 0xFFFF0000 \<noteq> 0x76000000 then 0
     else let device_type = handle AND 0xFF in if device_type \<le> 16 then device_type else 0)"

text \<open>The base of a seek; \<open>st\<close> is the metadata of a device descriptor.\<close>

definition seek_base ::
    "nat \<Rightarrow> nat \<Rightarrow> u32 \<Rightarrow> fd64_stat_t \<Rightarrow> ('d, 'a) kernel_fd_scheme \<Rightarrow> u64 option \<times> ('d, 'a) kernel_fd_scheme" where
  "seek_base t n whence st k =
    (if whence = FD64_SEEK_SET then (Some 0, k)
     else if whence = FD64_SEEK_CUR then (Some (fe_file_offset (entry_at k t n)), k)
     else if whence = FD64_SEEK_END
     then if fe_fd_type (entry_at k t n) = FD64_TYPE_DEVICE then (Some (st_size st), k)
          else fd64_ramfs_file_size t n k
     else (None, k))"

definition seekable_stat ::
    "(u32 \<Rightarrow> u32 \<Rightarrow> ('d, 'a) kernel_fd_scheme \<Rightarrow> fd64_stat_t option \<times> 'd) \<Rightarrow> u32 \<Rightarrow> u32 \<Rightarrow> fd_entry
      \<Rightarrow> ('d, 'a) kernel_fd_scheme \<Rightarrow> fd64_stat_t option \<times> ('d, 'a) kernel_fd_scheme" where
  "seekable_stat vfs_fstat pid fd_number e k =
    (if fe_fd_type e \<noteq> FD64_TYPE_DEVICE then (Some fd64_zero_stat, k)
     else if linux_vfs64_device_type_from_handle (fe_capability_handle e) = 0 then (None, k)
     else case vfs_fstat pid fd_number k of
            (None, d) \<Rightarrow> (None, k\<lparr>k_dev := d\<rparr>)
          | (Some st, d) \<Rightarrow>
              (if st_node_type st \<noteq> FD64_STAT_NODE_FILE \<and> st_node_type st \<noteq> FD64_STAT_NODE_SYMLINK
               then None else Some st, k\<lparr>k_dev := d\<rparr>))"

definition set_offset :: "nat \<Rightarrow> u64 \<Rightarrow> fd_table \<Rightarrow> fd_table" where
  "set_offset n file_offset tb = put_entry n ((ft_entries tb ! n)\<lparr>fe_file_offset := file_offset\<rparr>) tb"

definition fd64_seek ::
    "(u32 \<Rightarrow> u32 \<Rightarrow> ('d, 'a) kernel_fd_scheme \<Rightarrow> fd64_stat_t option \<times> 'd) \<Rightarrow> u32 \<Rightarrow> u32 \<Rightarrow> u32 \<Rightarrow> u32
      \<Rightarrow> ('d, 'a) kernel_fd_scheme \<Rightarrow> u64 \<times> ('d, 'a) kernel_fd_scheme" where
  "fd64_seek vfs_fstat pid fd_number offset whence = with_fd pid fd_number FD64_SEEK_ERROR (\<lambda>t k.
    let n = unat fd_number; e = entry_at k t n
    in if \<not> fd64_entry_active e \<or> fe_fd_type e \<noteq> FD64_TYPE_RAMFS_NODE \<and> fe_fd_type e \<noteq> FD64_TYPE_DEVICE
       then (FD64_SEEK_ERROR, table_deny t k)
       else case seekable_stat vfs_fstat pid fd_number e k of
              (None, k) \<Rightarrow> (FD64_SEEK_ERROR, table_deny t k)
            | (Some st, k) \<Rightarrow>
                (case seek_base t n whence st k of
                   (None, k) \<Rightarrow> (FD64_SEEK_ERROR, table_deny t k)
                 | (Some base, k) \<Rightarrow>
                     (case fd64_apply_seek_delta base offset of
                        None \<Rightarrow> (FD64_SEEK_ERROR, table_deny t k)
                      | Some new_offset \<Rightarrow> (new_offset, upd_table t (set_offset n new_offset) k))))"

text \<open>
  The first component says whether the metadata was found; the second is the record the caller's
  buffer holds afterwards. \<open>stat_buf\<close> is false for a null buffer.
\<close>

definition fd64_stat ::
    "u32 \<Rightarrow> u32 \<Rightarrow> bool \<Rightarrow> ('d, 'a) kernel_fd_scheme \<Rightarrow> (bool \<times> fd64_stat_t) \<times> ('d, 'a) kernel_fd_scheme" where
  "fd64_stat pid fd_number stat_buf = with_fd pid fd_number (False, fd64_zero_stat) (\<lambda>t k.
    let e = entry_at k t (unat fd_number); h = fe_capability_handle e; owner = ft_owner_id (table_at k t);
        denied = (\<lambda>k. ((False, fd64_zero_stat), table_deny t k))
    in if \<not> stat_buf \<or> \<not> fd64_entry_active e \<or> fe_fd_type e \<noteq> FD64_TYPE_RAMFS_NODE then denied k
       else case fs64_stat_kernel h 32 owner k of
              (None, k) \<Rightarrow> denied k
            | (Some stat_bytes, k) \<Rightarrow>
                (case fd64_parse_ramfs_stat stat_bytes fd64_zero_stat of
                   None \<Rightarrow> denied k
                 | Some st \<Rightarrow>
                     (case fs64_node_rights h owner k of
                        (rights, k) \<Rightarrow>
                          if rights = 0 then denied k
                          else (case fs64_node_owner h owner k of
                                  (node_owner, k) \<Rightarrow>
                                    ((True, st\<lparr>st_mode := fd64_mode_from_ramfs_stat (st_node_type st) rights,
                                       st_fd_type := fe_fd_type e, st_rights := rights, st_owner_id := node_owner,
                                       st_link_count := 1, st_block_size := 4096,
                                       st_blocks := (st_size st + 511) div 512,
                                       st_device_id := push_bit 32 (ucast owner) OR ucast (fe_fd_type e),
                                       st_inode := ucast h, st_fd_number := fd_number,
                                       st_capability_handle := h\<rparr>), k)))))"

definition fd64_fstat ::
    "u32 \<Rightarrow> u32 \<Rightarrow> bool \<Rightarrow> ('d, 'a) kernel_fd_scheme \<Rightarrow> (bool \<times> fd64_stat_t) \<times> ('d, 'a) kernel_fd_scheme" where
  "fd64_fstat = fd64_stat"


section \<open>Queries\<close>

definition table_field ::
    "(fd_table \<Rightarrow> u32) \<Rightarrow> u32 \<Rightarrow> ('d, 'a) kernel_fd_scheme \<Rightarrow> u32 \<times> ('d, 'a) kernel_fd_scheme" where
  "table_field f pid k =
    (case fd64_table_for_process pid k of (None, k) \<Rightarrow> (0, k) | (Some t, k) \<Rightarrow> (f (table_at k t), k))"

definition fd64_live_count :: "u32 \<Rightarrow> ('d, 'a) kernel_fd_scheme \<Rightarrow> u32 \<times> ('d, 'a) kernel_fd_scheme" where
  "fd64_live_count = table_field ft_live_count"
definition fd64_high_water_fd :: "u32 \<Rightarrow> ('d, 'a) kernel_fd_scheme \<Rightarrow> u32 \<times> ('d, 'a) kernel_fd_scheme" where
  "fd64_high_water_fd = table_field ft_high_water_fd"
definition fd64_denial_count :: "u32 \<Rightarrow> ('d, 'a) kernel_fd_scheme \<Rightarrow> u32 \<times> ('d, 'a) kernel_fd_scheme" where
  "fd64_denial_count = table_field ft_denial_count"

definition entry_field ::
    "(fd_entry \<Rightarrow> 'v) \<Rightarrow> 'v \<Rightarrow> u32 \<Rightarrow> u32 \<Rightarrow> ('d, 'a) kernel_fd_scheme \<Rightarrow> 'v \<times> ('d, 'a) kernel_fd_scheme" where
  "entry_field f absent pid fd_number k =
    (case fd64_table_for_process pid k of
       (None, k) \<Rightarrow> (absent, k)
     | (Some t, k) \<Rightarrow>
         (let e = entry_at k t (unat fd_number)
          in (if unat fd_number \<ge> FD64_TABLE_LIMIT \<or> \<not> fd64_entry_active e then absent else f e, k)))"

definition fd64_entry_capability :: "u32 \<Rightarrow> u32 \<Rightarrow> ('d, 'a) kernel_fd_scheme \<Rightarrow> u32 \<times> ('d, 'a) kernel_fd_scheme" where
  "fd64_entry_capability = entry_field fe_capability_handle CAPABILITY64_INVALID_HANDLE"
definition fd64_entry_type :: "u32 \<Rightarrow> u32 \<Rightarrow> ('d, 'a) kernel_fd_scheme \<Rightarrow> u32 \<times> ('d, 'a) kernel_fd_scheme" where
  "fd64_entry_type = entry_field fe_fd_type FD64_TYPE_EMPTY"
definition fd64_entry_flags :: "u32 \<Rightarrow> u32 \<Rightarrow> ('d, 'a) kernel_fd_scheme \<Rightarrow> u32 \<times> ('d, 'a) kernel_fd_scheme" where
  "fd64_entry_flags = entry_field fe_flags 0"
definition fd64_entry_offset :: "u32 \<Rightarrow> u32 \<Rightarrow> ('d, 'a) kernel_fd_scheme \<Rightarrow> u64 \<times> ('d, 'a) kernel_fd_scheme" where
  "fd64_entry_offset = entry_field fe_file_offset 0"
definition fd64_entry_ref_count :: "u32 \<Rightarrow> u32 \<Rightarrow> ('d, 'a) kernel_fd_scheme \<Rightarrow> u32 \<times> ('d, 'a) kernel_fd_scheme" where
  "fd64_entry_ref_count = entry_field fe_ref_count 0"

end
