(* ===== verification/Pipe_Fd.thy ===== *)
theory Pipe_Fd
  imports Fd
begin

text \<open>
  The operations in which pipes and descriptors meet: creating a pipe with its two descriptors and
  granting an endpoint to another process (\<^verbatim>\<open>kernel/arch/x86_64/pipe.c\<close>), and copying the descriptors
  of a process on fork (\<^verbatim>\<open>kernel/arch/x86_64/fd.c\<close>).
\<close>

section \<open>Creating a pipe\<close>

definition open_pipe :: "nat \<Rightarrow> u32 \<Rightarrow> u32 \<Rightarrow> pipe64_buffer \<Rightarrow> pipe64_buffer" where
  "open_pipe i pid owner_id p =
    (let generation = (if pb_generation p + 1 = 0 then 1 else pb_generation p + 1)
     in p\<lparr>pb_generation := generation, pb_live := True, pb_owner_pid := pid, pb_owner_id := owner_id,
          pb_read_owner_id := owner_id, pb_write_owner_id := owner_id, pb_read_ref_count := 1,
          pb_write_ref_count := 1,
          pb_read_handle := pipe64_make_handle (of_nat i) generation PIPE64_HANDLE_KIND_READ,
          pb_write_handle := pipe64_make_handle (of_nat i) generation PIPE64_HANDLE_KIND_WRITE\<rparr>)"

definition abandon_pipe :: "nat \<Rightarrow> 'a kernel_pipe_scheme \<Rightarrow> 'a kernel_pipe_scheme" where
  "abandon_pipe i k = pipe_deny (pipe64_clear_object i k)"

text \<open>The two descriptors of an opened pipe, and the pipe charged to the process.\<close>

definition bind_pipe ::
    "nat \<Rightarrow> u32 \<Rightarrow> u32 \<Rightarrow> ('d, 'a) kernel_fd_scheme \<Rightarrow> (u32 \<times> u32) option \<times> ('d, 'a) kernel_fd_scheme" where
  "bind_pipe i pid flags k =
    (if pb_read_handle (pipe_at k i) = PIPE64_INVALID_HANDLE \<or> pb_write_handle (pipe_at k i) = PIPE64_INVALID_HANDLE
     then (None, abandon_pipe i k)
     else case fd64_alloc pid (pb_read_handle (pipe_at k i)) FD64_TYPE_PIPE_READ flags k of
            (read_fd, k) \<Rightarrow>
              if read_fd = FD64_INVALID_FD then (None, abandon_pipe i k)
              else (case fd64_alloc pid (pb_write_handle (pipe_at k i)) FD64_TYPE_PIPE_WRITE flags k of
                      (write_fd, k) \<Rightarrow>
                        if write_fd = FD64_INVALID_FD
                        then (None, abandon_pipe i (snd (fd64_free pid read_fd k)))
                        else (case persona64_budget_commit_pipe pid 1
                                     (upd_pipe i (\<lambda>p. p\<lparr>pb_read_fd := read_fd, pb_write_fd := write_fd\<rparr>) k) of
                                (False, k) \<Rightarrow>
                                  (None, abandon_pipe i (snd (fd64_free pid read_fd (snd (fd64_free pid write_fd k)))))
                              | (True, k) \<Rightarrow> (Some (read_fd, write_fd), k))))"

definition pipe64_create_flags ::
    "u32 \<Rightarrow> u32 \<Rightarrow> bool \<Rightarrow> bool \<Rightarrow> ('d, 'a) kernel_fd_scheme
      \<Rightarrow> (u32 \<times> u32) option \<times> ('d, 'a) kernel_fd_scheme" where
  "pipe64_create_flags pid flags read_fd_out write_fd_out k0 =
    (let k = pipe64_init k0
     in if \<not> read_fd_out \<or> \<not> write_fd_out \<or> pid = PROCESS64_INVALID_PID then (None, pipe_deny k)
        else case fd64_table_for_process pid k of
               (table, k) \<Rightarrow>
                 (let owner_id = process64_principal (k_proc k) pid
                  in if table = None \<or> foreign_flags flags \<or> owner_id = 0 then (None, pipe_deny k)
                     else case persona64_budget_check_pipe pid 1 k of
                            (False, k) \<Rightarrow> (None, pipe_deny k)
                          | (True, k) \<Rightarrow>
                              (case first_index (\<lambda>p. \<not> pb_live p) (g_pipe64_objects (k_pipe k)) of
                                 None \<Rightarrow> (None, pipe_deny k)
                               | Some i \<Rightarrow>
                                   bind_pipe i pid flags
                                     (upd_pipe i (open_pipe i pid owner_id) (pipe64_clear_object i k)))))"

definition pipe64_create ::
    "u32 \<Rightarrow> bool \<Rightarrow> bool \<Rightarrow> ('d, 'a) kernel_fd_scheme \<Rightarrow> (u32 \<times> u32) option \<times> ('d, 'a) kernel_fd_scheme" where
  "pipe64_create pid = pipe64_create_flags pid 0"


section \<open>Granting an endpoint\<close>

text \<open>Whether the endpoint of a kind may go to an owner, and the pipe once it has.\<close>

definition grantable :: "u32 \<Rightarrow> u32 \<Rightarrow> pipe64_buffer \<Rightarrow> bool" where
  "grantable kind target_owner p \<longleftrightarrow>
    (if kind = PIPE64_HANDLE_KIND_READ
     then \<not> pb_reader_closed p \<and> (pb_read_grantee_owner_id p = 0 \<or> pb_read_grantee_owner_id p = target_owner)
     else \<not> pb_writer_closed p \<and> (pb_write_grantee_owner_id p = 0 \<or> pb_write_grantee_owner_id p = target_owner))"

definition add_grantee :: "u32 \<Rightarrow> u32 \<Rightarrow> pipe64_buffer \<Rightarrow> pipe64_buffer" where
  "add_grantee kind target_owner p =
    (if kind = PIPE64_HANDLE_KIND_READ
     then p\<lparr>pb_read_grantee_owner_id := target_owner, pb_read_ref_count := pb_read_ref_count p + 1\<rparr>
     else p\<lparr>pb_write_grantee_owner_id := target_owner, pb_write_ref_count := pb_write_ref_count p + 1\<rparr>)"

definition pipe64_grant_endpoint_inner ::
    "u32 \<Rightarrow> u32 \<Rightarrow> u32 \<Rightarrow> u32 \<Rightarrow> bool \<Rightarrow> ('d, 'a) kernel_fd_scheme \<Rightarrow> u32 option \<times> ('d, 'a) kernel_fd_scheme" where
  "pipe64_grant_endpoint_inner source_pid source_fd target_pid requested_target_fd target_fd_out k0 =
    (let k = pipe64_init k0
     in if \<not> target_fd_out \<or> source_pid = PROCESS64_INVALID_PID \<or> target_pid = PROCESS64_INVALID_PID
          \<or> source_pid = target_pid
        then (None, pipe_deny k)
        else let k = fd64_init k
             in if process64_fd_table (k_proc k) source_pid = None \<or> process64_fd_table (k_proc k) target_pid = None
                  \<or> requested_target_fd \<noteq> FD64_INVALID_FD \<and> unat requested_target_fd \<ge> FD64_TABLE_LIMIT
                then (None, pipe_deny k)
                else let source_owner = process64_principal (k_proc k) source_pid;
                         target_owner = process64_principal (k_proc k) target_pid;
                         pipe_handle = fst (fd64_entry_capability source_pid source_fd k);
                         fd_type = fst (fd64_entry_type source_pid source_fd k);
                         flags = fst (fd64_entry_flags source_pid source_fd k);
                         kind = pipe64_handle_kind pipe_handle
                     in if source_owner = 0 \<or> target_owner = 0 \<or> pipe_handle = PIPE64_INVALID_HANDLE
                          \<or> fd_type = FD64_TYPE_PIPE_READ \<and> kind \<noteq> PIPE64_HANDLE_KIND_READ
                          \<or> fd_type = FD64_TYPE_PIPE_WRITE \<and> kind \<noteq> PIPE64_HANDLE_KIND_WRITE
                          \<or> fd_type \<noteq> FD64_TYPE_PIPE_READ \<and> fd_type \<noteq> FD64_TYPE_PIPE_WRITE
                        then (None, pipe_deny k)
                        else case pipe64_find pipe_handle source_owner k of
                               (None, k) \<Rightarrow> (None, k)
                             | (Some i, k) \<Rightarrow>
                                 if \<not> grantable kind target_owner (pipe_at k i) then (None, pipe_deny k)
                                 else (case (if requested_target_fd = FD64_INVALID_FD
                                             then fd64_alloc target_pid pipe_handle fd_type flags k
                                             else fd64_alloc_at target_pid requested_target_fd pipe_handle fd_type flags k) of
                                         (target_fd, k) \<Rightarrow>
                                           if target_fd = FD64_INVALID_FD then (None, pipe_deny k)
                                           else (Some target_fd, upd_pipe i (add_grantee kind target_owner) k)))"

definition pipe64_grant_endpoint ::
    "u32 \<Rightarrow> u32 \<Rightarrow> u32 \<Rightarrow> bool \<Rightarrow> ('d, 'a) kernel_fd_scheme \<Rightarrow> u32 option \<times> ('d, 'a) kernel_fd_scheme" where
  "pipe64_grant_endpoint source_pid source_fd target_pid =
    pipe64_grant_endpoint_inner source_pid source_fd target_pid FD64_INVALID_FD"

definition pipe64_grant_endpoint_at ::
    "u32 \<Rightarrow> u32 \<Rightarrow> u32 \<Rightarrow> u32 \<Rightarrow> ('d, 'a) kernel_fd_scheme \<Rightarrow> bool \<times> ('d, 'a) kernel_fd_scheme" where
  "pipe64_grant_endpoint_at source_pid source_fd target_pid target_fd k =
    (case pipe64_grant_endpoint_inner source_pid source_fd target_pid target_fd True k of
       (granted, k) \<Rightarrow> (granted = Some target_fd, k))"


section \<open>Fork\<close>

definition fd64_fork_copy_capability ::
    "fd_entry \<Rightarrow> u32 \<Rightarrow> u32 \<Rightarrow> ('d, 'a) kernel_fd_scheme \<Rightarrow> u32 \<times> ('d, 'a) kernel_fd_scheme" where
  "fd64_fork_copy_capability source parent_owner child_owner k =
    (let h = fe_capability_handle source
     in if parent_owner = 0 \<or> child_owner = 0 \<or> h = CAPABILITY64_INVALID_HANDLE
        then (CAPABILITY64_INVALID_HANDLE, k)
        else if fe_fd_type source \<noteq> FD64_TYPE_DEVICE then (CAPABILITY64_INVALID_HANDLE, k)
        else if linux_vfs64_device_type_from_handle h \<noteq> 0 then (h, k)
        else case capability64_target_endpoint h parent_owner k of
               (endpoint_id, k) \<Rightarrow>
                 (case capability64_rights h parent_owner k of
                    (rights, k) \<Rightarrow>
                      if rights = 0 then (CAPABILITY64_INVALID_HANDLE, k)
                      else if endpoint_id = services64_resolve_endpoint_class SERVICE_ENDPOINT_CLASS_INPUT
                      then capability64_grant_service SERVICE_ENDPOINT_CLASS_INPUT rights child_owner k
                      else if endpoint_id = services64_resolve_endpoint_class SERVICE_ENDPOINT_CLASS_CONSOLE
                      then capability64_grant_service SERVICE_ENDPOINT_CLASS_CONSOLE rights child_owner k
                      else (CAPABILITY64_INVALID_HANDLE, k)))"

definition fork_stage :: "u32 \<Rightarrow> ('d, 'a) kernel_fd_scheme \<Rightarrow> ('d, 'a) kernel_fd_scheme" where
  "fork_stage n = upd_fd (\<lambda>s. s\<lparr>g_fd64_fork_copy_last_stage := n\<rparr>)"

definition fork_deny :: "('d, 'a) kernel_fd_scheme \<Rightarrow> ('d, 'a) kernel_fd_scheme" where
  "fork_deny = upd_fd (\<lambda>s. s\<lparr>g_fd64_fork_copy_denial_count := g_fd64_fork_copy_denial_count s + 1\<rparr>)"

text \<open>The refusal of a fork: a denial is counted and what the child already holds is released.\<close>

definition fork_abort :: "u32 \<Rightarrow> ('d, 'a) kernel_fd_scheme \<Rightarrow> bool \<times> ('d, 'a) kernel_fd_scheme" where
  "fork_abort child_pid k = (False, snd (fd64_release_process child_pid (fork_deny k)))"

text \<open>
  One active descriptor of the parent, copied into the child's table \<open>c\<close>; true when it was copied,
  otherwise the fork has been aborted.
\<close>

definition fork_pipe_entry ::
    "u32 \<Rightarrow> u32 \<Rightarrow> nat \<Rightarrow> fd_entry \<Rightarrow> nat \<Rightarrow> ('d, 'a) kernel_fd_scheme \<Rightarrow> bool \<times> ('d, 'a) kernel_fd_scheme" where
  "fork_pipe_entry parent_pid child_pid c source n k =
    (case pipe64_grant_endpoint_at parent_pid (of_nat n) child_pid (of_nat n)
            (upd_fd (\<lambda>s. s\<lparr>g_fd64_fork_pipe_last_fd := of_nat n\<rparr>) (fork_stage 5 k)) of
       (False, k) \<Rightarrow>
         fork_abort child_pid
           (upd_fd (\<lambda>s. s\<lparr>g_fd64_fork_pipe_denial_count := g_fd64_fork_pipe_denial_count s + 1\<rparr>) k)
     | (True, k) \<Rightarrow>
         (True, upd_fd (\<lambda>s. s\<lparr>g_fd64_fork_pipe_copy_count := g_fd64_fork_pipe_copy_count s + 1\<rparr>)
                  (upd_table c (set_offset n (fe_file_offset source)) k)))"

definition fork_other_entry ::
    "u32 \<Rightarrow> u32 \<Rightarrow> u32 \<Rightarrow> nat \<Rightarrow> fd_entry \<Rightarrow> nat \<Rightarrow> ('d, 'a) kernel_fd_scheme \<Rightarrow> bool \<times> ('d, 'a) kernel_fd_scheme" where
  "fork_other_entry child_pid parent_owner child_owner c source n k =
    (case fd64_fork_copy_capability source parent_owner child_owner (fork_stage 3 k) of
       (child_capability, k) \<Rightarrow>
         if child_capability = CAPABILITY64_INVALID_HANDLE then fork_abort child_pid k
         else (case fd64_install_entry c (of_nat n) child_capability (fe_fd_type source) (fe_flags source) k of
                 (False, k) \<Rightarrow>
                   fork_abort child_pid
                     (if child_capability \<noteq> fe_capability_handle source
                      then snd (capability64_revoke child_capability child_owner k) else k)
               | (True, k) \<Rightarrow> (True, upd_table c (set_offset n (fe_file_offset source)) k)))"

text \<open>The loop over the entries of the parent's table \<open>p\<close>: how many were copied, none on an abort.\<close>

fun fork_entries ::
    "u32 \<Rightarrow> u32 \<Rightarrow> u32 \<Rightarrow> u32 \<Rightarrow> nat \<Rightarrow> nat \<Rightarrow> nat list \<Rightarrow> u32 \<Rightarrow> ('d, 'a) kernel_fd_scheme
      \<Rightarrow> u32 option \<times> ('d, 'a) kernel_fd_scheme" where
  "fork_entries parent_pid child_pid parent_owner child_owner p c [] copied k = (Some copied, k)"
| "fork_entries parent_pid child_pid parent_owner child_owner p c (n # ns) copied k =
    (let source = entry_at k p n
     in if \<not> fd64_entry_active source
        then fork_entries parent_pid child_pid parent_owner child_owner p c ns copied k
        else case (if fe_fd_type source = FD64_TYPE_PIPE_READ \<or> fe_fd_type source = FD64_TYPE_PIPE_WRITE
                   then fork_pipe_entry parent_pid child_pid c source n k
                   else fork_other_entry child_pid parent_owner child_owner c source n k) of
               (False, k) \<Rightarrow> (None, k)
             | (True, k) \<Rightarrow>
                 fork_entries parent_pid child_pid parent_owner child_owner p c ns (copied + 1) k)"

definition fd64_fork_process ::
    "u32 \<Rightarrow> u32 \<Rightarrow> ('d, 'a) kernel_fd_scheme \<Rightarrow> bool \<times> ('d, 'a) kernel_fd_scheme" where
  "fd64_fork_process parent_pid child_pid k0 =
    (let k = upd_fd (\<lambda>s. s\<lparr>g_fd64_fork_copy_last_parent_pid := parent_pid,
                          g_fd64_fork_copy_last_child_pid := child_pid, g_fd64_fork_copy_last_entries := 0,
                          g_fd64_fork_copy_last_stage := 1\<rparr>) (fd64_init k0);
         parent_owner = process64_principal (k_proc k) parent_pid;
         child_owner = process64_principal (k_proc k) child_pid
     in case process64_fd_table (k_proc k) parent_pid of
          None \<Rightarrow> (False, fork_deny k)
        | Some p \<Rightarrow>
            if parent_pid = PROCESS64_INVALID_PID \<or> child_pid = PROCESS64_INVALID_PID \<or> parent_pid = child_pid
              \<or> parent_owner = 0 \<or> child_owner = 0 \<or> process64_fd_table (k_proc k) child_pid \<noteq> None
            then (False, fork_deny k)
            else (case fd64_claim_table child_pid child_owner (fork_stage 2 k) of
                    (None, k) \<Rightarrow> fork_abort child_pid k
                  | (Some c, k) \<Rightarrow>
                      if ft_live_count (table_at k c) \<noteq> 0 then fork_abort child_pid k
                      else (case fork_entries parent_pid child_pid parent_owner child_owner p c
                                   [0..<FD64_TABLE_LIMIT] 0 k of
                              (None, k) \<Rightarrow> (False, k)
                            | (Some copied, k) \<Rightarrow>
                                (True, upd_fd (\<lambda>s. s\<lparr>g_fd64_fork_copy_last_stage := 4,
                                   g_fd64_fork_copy_last_entries := copied,
                                   g_fd64_fork_copy_count := g_fd64_fork_copy_count s + 1\<rparr>) k))))"

end
