(* ===== verification/Fd_Frame.thy ===== *)
theory Fd_Frame
  imports Pipe_Fd
begin

text \<open>
  What the services below leave alone: none of the persona, pipe, broker, file and console operations
  that a descriptor operation calls touches a descriptor table or a process record. \<open>fd_side\<close> is this
  part of the kernel; the rules are collected in \<open>fd_frame\<close>.
\<close>

definition fd_side :: "('d, 'a) kernel_fd_scheme \<Rightarrow> fd_state \<times> process_state" where
  "fd_side k = (k_fd k, k_proc k)"

lemma fd_sideD:
  assumes "fd_side k' = fd_side k"
  shows "k_fd k' = k_fd k" "k_proc k' = k_proc k"
  using assms by (simp_all add: fd_side_def)

named_theorems fd_frame \<open>operations that leave the descriptor tables and the process records alone\<close>

lemma fd_side_fields [simp]:
  "fd_side (k\<lparr>k_persona := x\<rparr>) = fd_side k" "fd_side (k\<lparr>k_cap := c\<rparr>) = fd_side k"
  "fd_side (k\<lparr>k_sched := s\<rparr>) = fd_side k" "fd_side (k\<lparr>k_pipe := p\<rparr>) = fd_side k"
  "fd_side (k\<lparr>k_ramfs := r\<rparr>) = fd_side k" "fd_side (k\<lparr>k_fs := f\<rparr>) = fd_side k"
  "fd_side (k\<lparr>k_dev := d\<rparr>) = fd_side k" "fd_side (k\<lparr>k_mem := m\<rparr>) = fd_side k"
  "fd_side (k\<lparr>k_con := g\<rparr>) = fd_side k"
  by (simp_all add: fd_side_def)


section \<open>Budgets\<close>

lemma upd_ctx_side [fd_frame]: "fd_side (upd_ctx i f k) = fd_side k"
  by (simp add: upd_ctx_def)

lemma budget_check_side [fd_frame]: "fd_side (snd (budget_check kind cur limit pid n k)) = fd_side k"
  by (simp add: budget_check_def persona64_budget_record_denial_def Let_def fd_frame split: option.split)

lemma budgets_side [fd_frame]:
  "fd_side (snd (persona64_budget_check_fd pid m n k)) = fd_side k"
  "fd_side (snd (persona64_budget_check_pipe pid n k)) = fd_side k"
  "fd_side (persona64_budget_release_pipe pid n k) = fd_side k"
  by (simp_all add: persona64_budget_check_fd_def persona64_budget_check_pipe_def
      persona64_budget_release_pipe_def fd_frame split: option.split)

lemma commit_side [fd_frame]: "fd_side (snd (persona64_budget_commit_pipe pid n k)) = fd_side k"
  by (simp add: persona64_budget_commit_pipe_def split_def fd_frame split: option.split bool.split)


section \<open>Pipes\<close>

lemma upd_pipe_side [fd_frame]:
  "fd_side (upd_pipes g k) = fd_side k" "fd_side (upd_pipe i f k) = fd_side k" "fd_side (pipe_deny k) = fd_side k"
  by (simp_all add: upd_pipes_def upd_pipe_def pipe_deny_def)

lemma clear_object_side [fd_frame]:
  "fd_side (pipe64_clear_object i k) = fd_side k" "fd_side (clear_if_closed i k) = fd_side k"
  "fd_side (abandon_pipe i k) = fd_side k"
  by (simp_all add: pipe64_clear_object_def clear_if_closed_def abandon_pipe_def Let_def fd_frame)

lemma pipe_init_side [fd_frame]: "fd_side (pipe64_init k) = fd_side k"
proof -
  have "fd_side (fold (\<lambda>i k. pipe64_clear_object i (upd_pipe i (\<lambda>p. p\<lparr>pb_generation := 1\<rparr>) k)) is k) = fd_side k"
    for "is"
    by (induction "is" arbitrary: k) (simp_all add: fd_frame)
  then show ?thesis by (simp add: pipe64_init_def fd_frame)
qed

lemma park_side [fd_frame]:
  "fd_side (snd (pipe64_block_current_task owner side i k)) = fd_side k"
  "fd_side (snd (pipe64_wake_blocked_task side i k)) = fd_side k"
  by (simp_all add: pipe64_block_current_task_def pipe64_wake_blocked_task_def Let_def split_def fd_frame)

lemma pipe_find_side [fd_frame]: "fd_side (snd (pipe64_find h owner k)) = fd_side k"
  by (simp add: pipe64_find_def Let_def fd_frame)

lemma write_wait_side [fd_frame]: "fd_side (snd (write_wait spins i owner n k)) = fd_side k"
  by (induction spins arbitrary: n k; subst write_wait.simps) (simp_all add: Let_def split_def fd_frame)

lemma write_loop_side [fd_frame]: "fd_side (snd (write_loop i owner n bs k)) = fd_side k"
proof (induction bs arbitrary: n k)
  case (Cons b bs)
  obtain r k1 where w: "write_wait PIPE64_SPIN_WAIT_LIMIT i owner n k = (r, k1)" by fastforce
  then have "fd_side k1 = fd_side k" using write_wait_side [of PIPE64_SPIN_WAIT_LIMIT i owner n k] by simp
  then show ?case by (simp add: w Cons fd_frame split: option.split)
qed simp

lemma read_wait_side [fd_frame]: "fd_side (snd (read_wait spins i owner n k)) = fd_side k"
  by (induction spins arbitrary: n k; subst read_wait.simps) (simp_all add: Let_def split_def fd_frame)

lemma read_loop_side [fd_frame]: "fd_side (snd (snd (read_loop i owner n got k))) = fd_side k"
proof (induction n arbitrary: got k)
  case (Suc n)
  obtain r k1 where w: "read_wait PIPE64_SPIN_WAIT_LIMIT i owner (of_nat (length got)) k = (r, k1)" by fastforce
  then have "fd_side k1 = fd_side k"
    using read_wait_side [of PIPE64_SPIN_WAIT_LIMIT i owner "of_nat (length got)" k] by simp
  then show ?case by (simp add: w Suc fd_frame split: option.split)
qed simp

lemma pipe_revoke_side [fd_frame]: "fd_side (snd (pipe64_revoke_handle h owner k)) = fd_side k"
  by (simp add: pipe64_revoke_handle_def split_def Let_def fd_frame split: option.split)

lemma pipe_write_side [fd_frame]: "fd_side (snd (pipe64_write h input n owner k)) = fd_side k"
proof -
  obtain r k1 where f: "pipe64_find h owner k = (r, k1)" by fastforce
  then have k1: "fd_side k1 = fd_side k" using pipe_find_side [of h owner k] by simp
  have "fd_side k2 = fd_side k" if "write_loop i owner m bs k1 = (c, k2)" for i m bs c k2
    using write_loop_side [of i owner m bs k1] that k1 by simp
  then show ?thesis
    using k1 by (auto simp: pipe64_write_def f fd_frame split: option.split sum.split prod.split)
qed

lemma pipe_read_side [fd_frame]: "fd_side (snd (snd (pipe64_read h out n owner k))) = fd_side k"
proof -
  obtain r k1 where f: "pipe64_find h owner k = (r, k1)" by fastforce
  then have k1: "fd_side k1 = fd_side k" using pipe_find_side [of h owner k] by simp
  have "fd_side k2 = fd_side k" if "read_loop i owner m got k1 = (c, got', k2)" for i m got c got' k2
    using read_loop_side [of i owner m got k1] that k1 by simp
  then show ?thesis
    using k1 by (auto simp: pipe64_read_def f fd_frame split: option.split sum.split prod.split)
qed


section \<open>The capability broker\<close>

lemma broker_checks_side [fd_frame]:
  "fd_side (upd_cap g k) = fd_side k"
  "fd_side (snd (capability64_principal_is_valid owner k)) = fd_side k"
  "fd_side (snd (capability64_find_live h k)) = fd_side k"
  "fd_side (snd (capability64_record_is_owned_by i owner k)) = fd_side k"
  "fd_side (snd (capability64_record_runtime_is_current i k)) = fd_side k"
  by (simp_all add: upd_cap_def capability64_principal_is_valid_def capability64_find_live_def
      capability64_record_is_owned_by_def capability64_record_runtime_is_current_def split: option.split)

lemma owned_cap_side [fd_frame]: "fd_side (snd (owned_cap h owner k)) = fd_side k"
  by (simp add: owned_cap_def Let_def split_def fd_frame split: option.split)

lemma broker_side [fd_frame]:
  "fd_side (snd (capability64_route h rights owner k)) = fd_side k"
  "fd_side (snd (capability64_revoke h owner k)) = fd_side k"
  "fd_side (snd (read_owned f d h owner k)) = fd_side k"
  "fd_side (snd (read_current f d h owner k)) = fd_side k"
  by (simp_all add: capability64_route_def capability64_revoke_def read_owned_def read_current_def Let_def
      split_def fd_frame split: option.split bool.split)

lemma grant_side [fd_frame]: "fd_side (snd (capability64_grant_service c rights owner k)) = fd_side k"
  by (simp add: capability64_grant_service_def capability64_grant_service_tagged_def Let_def split_def fd_frame
      split: option.split)


section \<open>The file service\<close>

lemma upd_fs_side [fd_frame]:
  "fd_side (upd_fs g k) = fd_side k" "fd_side (upd_node_cap i f k) = fd_side k"
  "fd_side (count_fs_denial k) = fd_side k" "fd_side (snd (fs64_deny k)) = fd_side k"
  "fd_side (fs64_ensure_init k) = fd_side k"
  by (simp_all add: upd_fs_def upd_node_cap_def count_fs_denial_def fs64_deny_def fs64_ensure_init_def fs64_init_def)

lemma fs_checks_side [fd_frame]:
  "fd_side (snd (fs64_owner_is_valid owner k)) = fd_side k"
  "fd_side (snd (fs64_runtime_is_current i k)) = fd_side k"
  "fd_side (snd (fs64_load_path_argument sd a p n k)) = fd_side k"
  by (simp_all add: fs64_owner_is_valid_def fs64_runtime_is_current_def fs64_load_path_argument_def
      fs64_copy_from_address_def Let_def fd_frame split: option.split)

lemma resolve_side [fd_frame]:
  "fd_side (snd (fs64_resolve_node_capability h rights owner k)) = fd_side k"
  "fd_side (snd (fs64_resolve_base_node h rights owner k)) = fd_side k"
  by (simp_all add: fs64_resolve_node_capability_def fs64_resolve_base_node_def cap_readers Let_def split_def
      fd_frame split: option.split bool.split)

lemma import_side [fd_frame]: "fd_side (snd (import_file sd b p owner k)) = fd_side k"
  by (simp add: import_file_def Let_def split_def split: option.split)

lemma grant_node_side [fd_frame]: "fd_side (snd (fs64_grant_node n owner p g t s path k)) = fd_side k"
  by (simp add: fs64_grant_node_def Let_def split_def fd_frame split: option.split bool.split)

lemma open_side [fd_frame]: "fd_side (snd (fs64_open_kernel sd h path n owner k)) = fd_side k"
proof -
  have "fd_side (snd (case ramfs_open (k_ramfs k) b p of Some n \<Rightarrow> (Some n, k) | None \<Rightarrow> import_file sd b p owner k))
    = fd_side k" for k :: "('a, 'b) kernel_fd_scheme" and b p
    by (simp add: fd_frame split: option.split)
  then show ?thesis
    by (simp add: fs64_open_kernel_def fs64_open_common_def Let_def split_def fd_frame split: option.split)
qed

lemma fs_io_side [fd_frame]:
  "fd_side (snd (hand_out c r)) = fd_side (snd r)"
  "fd_side (snd (read_node sd h off n owner k)) = fd_side k"
  "fd_side (snd (stat_node h n owner k)) = fd_side k"
  "fd_side (snd (write_record sd i off bytes owner k)) = fd_side k"
  by (simp_all add: hand_out_def read_node_def stat_node_def write_record_def Let_def split_def fd_frame
      split: option.split prod.split)

lemma fs_side [fd_frame]:
  "fd_side (snd (fs64_read_kernel sd h off n owner k)) = fd_side k"
  "fd_side (snd (fs64_write_kernel sd h input off n owner k)) = fd_side k"
  "fd_side (snd (fs64_stat_kernel h n owner k)) = fd_side k"
  "fd_side (snd (fs64_revoke h owner k)) = fd_side k"
  "fd_side (snd (node_field f h owner k)) = fd_side k"
  by (simp_all add: fs64_read_kernel_def fs64_write_kernel_def fs64_stat_kernel_def fs64_revoke_def node_field_def
      Let_def split_def fd_frame split: option.split)


section \<open>The console\<close>

lemma console_side [fd_frame]: "fd_side (snd (console64_write_kernel sc h input n owner k)) = fd_side k"
proof -
  have put: "fd_side (fold (console64_debug_write_char sc) bs k) = fd_side k"
    for bs and k :: "('a, 'b) kernel_fd_scheme"
    by (induction bs arbitrary: k) (simp_all add: console64_debug_write_char_def)
  have emit: "fd_side (emit_bytes sc f bs k) = fd_side k" for f bs and k :: "('a, 'b) kernel_fd_scheme"
    by (simp add: emit_bytes_def upd_con_def console64_capture_append_def Let_def put)
  have "fd_side (snd (routes_to_console h owner k)) = fd_side k"
    by (simp add: routes_to_console_def split_def con_deny_def upd_con_def fd_frame)
  then show ?thesis
    by (simp add: console64_write_kernel_def con_deny_def upd_con_def split_def Let_def emit split: option.split bool.split)
qed

end
