(* ===== verification/Fd_Inv.thy ===== *)
theory Fd_Inv
  imports Fd_Frame
begin

text \<open>
  The typing of the descriptor tables: every slot carries its own number, an occupied slot has one of
  the six types, a handle and no flag beyond the two defined ones, and lies at or below the high-water
  mark of its table; a table belongs to one process. Every operation keeps this.
\<close>

definition entry_ok :: "u32 \<Rightarrow> nat \<Rightarrow> fd_entry \<Rightarrow> bool" where
  "entry_ok high_water n e \<longleftrightarrow> fe_fd_number e = of_nat n
     \<and> (e = fd64_clear_entry (of_nat n)
        \<or> fd64_valid_type (fe_fd_type e) \<and> fe_capability_handle e \<noteq> CAPABILITY64_INVALID_HANDLE
          \<and> \<not> foreign_flags (fe_flags e) \<and> n \<le> unat high_water)"

definition table_ok :: "fd_table \<Rightarrow> bool" where
  "table_ok tb \<longleftrightarrow> length (ft_entries tb) = FD64_TABLE_LIMIT
     \<and> (\<forall>n<FD64_TABLE_LIMIT. entry_ok (ft_high_water_fd tb) n (ft_entries tb ! n))"

definition fd_inv :: "('d, 'a) kernel_fd_scheme \<Rightarrow> bool" where
  "fd_inv k \<longleftrightarrow> g_fd64_initialized (k_fd k) \<and> (\<forall>tb\<in>set (g_fd64_tables (k_fd k)). table_ok tb)
     \<and> pool_inv ft_pid FD64_MAX_PROCESS_TABLES (process64_fd_table (k_proc k))
         (g_fd64_tables (k_fd k)) (g_fd64_table_used (k_fd k))"

lemma fd_invD:
  assumes "fd_inv k"
  shows "g_fd64_initialized (k_fd k)" "length (g_fd64_tables (k_fd k)) = FD64_MAX_PROCESS_TABLES"
    "length (g_fd64_table_used (k_fd k)) = FD64_MAX_PROCESS_TABLES"
    "pool_inv ft_pid FD64_MAX_PROCESS_TABLES (process64_fd_table (k_proc k))
       (g_fd64_tables (k_fd k)) (g_fd64_table_used (k_fd k))"
  using assms by (simp_all add: fd_inv_def pool_inv_def)

lemma fd_inv_table: "fd_inv k \<Longrightarrow> t < FD64_MAX_PROCESS_TABLES \<Longrightarrow> table_ok (table_at k t)"
  by (auto simp: fd_inv_def pool_inv_def)

lemma fd_inv_init [simp]: "fd_inv k \<Longrightarrow> fd64_init k = k"
  by (simp add: fd64_init_def fd_invD)

lemma fd_inv_for_process [simp]:
  "fd_inv k \<Longrightarrow> fd64_table_for_process pid k = (process64_fd_table (k_proc k) pid, k)"
  by (simp add: fd64_table_for_process_def)

lemma fd_inv_slot: "fd_inv k \<Longrightarrow> process64_fd_table (k_proc k) pid = Some t \<Longrightarrow> t < FD64_MAX_PROCESS_TABLES"
  by (rule pool_invD(1) [OF fd_invD(4)])


section \<open>Tables\<close>

lemma cleared_inactive [simp]: "\<not> fd64_entry_active (fd64_clear_entry n)"
  by (simp add: fd64_entry_active_def fd64_clear_entry_def)

lemma number_small: "n < FD64_TABLE_LIMIT \<Longrightarrow> unat (of_nat n :: u32) = n"
  by (simp add: FD64_TABLE_LIMIT_def unsigned_of_nat take_bit_nat_eq_self)

lemma table_okD:
  assumes "table_ok tb"
  shows "length (ft_entries tb) = FD64_TABLE_LIMIT"
    "n < FD64_TABLE_LIMIT \<Longrightarrow> entry_ok (ft_high_water_fd tb) n (ft_entries tb ! n)"
  using assms by (auto simp: table_ok_def)

lemma entry_ok_cleared [simp]: "entry_ok hw n (fd64_clear_entry (of_nat n))"
  by (simp add: entry_ok_def fd64_clear_entry_def)

lemma entry_ok_mono: "entry_ok hw n e \<Longrightarrow> hw \<le> hw' \<Longrightarrow> entry_ok hw' n e"
  by (auto simp: entry_ok_def word_le_nat_alt)

text \<open>An occupied slot stays well typed when its offset, its count or its flags change.\<close>

lemma entry_ok_active:
  assumes "entry_ok hw n e" and "fd64_entry_active e"
    and "fe_fd_number e' = fe_fd_number e" "fe_fd_type e' = fe_fd_type e"
      "fe_capability_handle e' = fe_capability_handle e"
    and "fe_flags e' = fe_flags e \<or> \<not> foreign_flags (fe_flags e')"
  shows "entry_ok hw n e'"
  using assms cleared_inactive by (auto simp: entry_ok_def)

lemma table_ok_cleared [simp]: "table_ok (fd64_clear_table\<lparr>ft_pid := p, ft_owner_id := w\<rparr>)" "table_ok fd64_clear_table"
  by (simp_all add: table_ok_def fd64_clear_table_def)

lemma table_ok_counters [simp]:
  "table_ok (tb\<lparr>ft_denial_count := d\<rparr>) = table_ok tb" "table_ok (tb\<lparr>ft_live_count := l\<rparr>) = table_ok tb"
  by (simp_all add: table_ok_def)

lemma table_ok_put:
  assumes "table_ok tb" and "n < FD64_TABLE_LIMIT \<Longrightarrow> entry_ok (ft_high_water_fd tb) n e"
  shows "table_ok (put_entry n e tb)"
proof (cases "n < FD64_TABLE_LIMIT")
  case True
  with assms show ?thesis by (auto simp: table_ok_def put_entry_def nth_list_update)
next
  case False
  with assms(1) show ?thesis by (simp add: table_ok_def put_entry_def list_update_beyond)
qed

lemma put_entry_fields [simp]:
  "ft_pid (put_entry n e tb) = ft_pid tb" "ft_owner_id (put_entry n e tb) = ft_owner_id tb"
  "ft_high_water_fd (put_entry n e tb) = ft_high_water_fd tb" "ft_live_count (put_entry n e tb) = ft_live_count tb"
  by (simp_all add: put_entry_def)

lemma table_ok_occupy:
  assumes "table_ok tb" and "unat fd < FD64_TABLE_LIMIT" and "fe_fd_number e = fd" "fd64_valid_type (fe_fd_type e)"
    "fe_capability_handle e \<noteq> CAPABILITY64_INVALID_HANDLE" "\<not> foreign_flags (fe_flags e)"
  shows "table_ok (occupy fd e tb)" "ft_pid (occupy fd e tb) = ft_pid tb"
proof -
  let ?hw = "if fd > ft_high_water_fd tb then fd else ft_high_water_fd tb"
  have le: "ft_high_water_fd tb \<le> ?hw" "unat fd \<le> unat ?hw" by (auto simp: word_le_nat_alt word_less_nat_alt)
  then have old: "table_ok (tb\<lparr>ft_high_water_fd := ?hw\<rparr>)"
    using assms(1) entry_ok_mono by (fastforce simp: table_ok_def)
  have "table_ok (put_entry (unat fd) e (tb\<lparr>ft_high_water_fd := ?hw\<rparr>))"
    using assms(3-6) le by (intro table_ok_put [OF old]) (simp add: entry_ok_def)
  then show "table_ok (occupy fd e tb)" by (simp add: occupy_def table_ok_def put_entry_def)
qed (simp add: occupy_def)

lemma table_ok_vacate: "table_ok tb \<Longrightarrow> table_ok (vacate n tb)" "ft_pid (vacate n tb) = ft_pid tb"
  by (simp_all add: vacate_def table_ok_put)

lemma table_ok_sync:
  assumes "table_ok tb"
  shows "table_ok (fd64_sync_shared_ref_counts h ty tb)" "ft_pid (fd64_sync_shared_ref_counts h ty tb) = ft_pid tb"
proof -
  have "entry_ok hw n (if shares h ty e then e\<lparr>fe_ref_count := c\<rparr> else e)" if "entry_ok hw n e" for hw n e c
    using entry_ok_active [OF that, of "e\<lparr>fe_ref_count := c\<rparr>"] that by (simp add: shares_def)
  then show "table_ok (fd64_sync_shared_ref_counts h ty tb)"
    using assms by (simp add: fd64_sync_shared_ref_counts_def Let_def table_ok_def)
qed (simp add: fd64_sync_shared_ref_counts_def Let_def)


section \<open>Steps that keep the typing\<close>

definition kept :: "('d, 'a) kernel_fd_scheme \<Rightarrow> ('d, 'a) kernel_fd_scheme \<Rightarrow> bool" where
  "kept k k' \<longleftrightarrow> (fd_inv k \<longrightarrow> fd_inv k' \<and> k_proc k' = k_proc k)"

lemma keptD: "kept k k' \<Longrightarrow> fd_inv k \<Longrightarrow> fd_inv k'" "kept k k' \<Longrightarrow> fd_inv k \<Longrightarrow> k_proc k' = k_proc k"
  by (simp_all add: kept_def)

lemma kept_refl [simp]: "kept k k"
  by (simp add: kept_def)

lemma kept_trans: "kept k k1 \<Longrightarrow> kept k1 k2 \<Longrightarrow> kept k k2"
  by (simp add: kept_def)

lemma kept_side: "fd_side k' = fd_side k \<Longrightarrow> kept k k'"
  by (simp add: kept_def fd_inv_def fd_side_def)

lemma kept_side_trans: "fd_side k1 = fd_side k \<Longrightarrow> kept k1 k2 \<Longrightarrow> kept k k2"
  using kept_side kept_trans by blast

lemma table_at_side: "fd_side k' = fd_side k \<Longrightarrow> table_at k' = table_at k"
  by (simp add: fd_side_def fun_eq_iff)

lemma kept_upd:
  assumes "fd_inv k \<Longrightarrow> t < FD64_MAX_PROCESS_TABLES \<Longrightarrow> table_ok (table_at k t) \<Longrightarrow>
      table_ok (f (table_at k t)) \<and> ft_pid (f (table_at k t)) = ft_pid (table_at k t)"
  shows "kept k (upd_table t f k)"
proof (cases "t < FD64_MAX_PROCESS_TABLES")
  case True
  show ?thesis
    unfolding kept_def
  proof
    assume inv: "fd_inv k"
    then have "table_ok (f (table_at k t))" "ft_pid (f (table_at k t)) = ft_pid (table_at k t)"
      using assms [OF inv True fd_inv_table [OF inv True]] by simp_all
    with inv show "fd_inv (upd_table t f k) \<and> k_proc (upd_table t f k) = k_proc k"
      by (auto simp: upd_table_def upd_fd_def fd_inv_def intro: pool_inv_upd
        dest!: subsetD [OF set_update_subset_insert])
  qed
next
  case False
  then show ?thesis by (auto simp: kept_def upd_table_def upd_fd_def fd_inv_def pool_inv_def list_update_beyond)
qed

lemma kept_deny [simp]: "kept k (table_deny t k)"
  unfolding table_deny_def by (rule kept_upd) simp

lemma kept_side_deny: "fd_side k1 = fd_side k \<Longrightarrow> kept k (table_deny t k1)"
  by (rule kept_side_trans [OF _ kept_deny])

text \<open>The ways in which an occupied slot changes in place.\<close>

lemma kept_put:
  assumes "fd64_entry_active (entry_at k t n)"
    and "fe_fd_number e = fe_fd_number (entry_at k t n)" "fe_fd_type e = fe_fd_type (entry_at k t n)"
      "fe_capability_handle e = fe_capability_handle (entry_at k t n)"
    and "fe_flags e = fe_flags (entry_at k t n) \<or> \<not> foreign_flags (fe_flags e)"
  shows "kept k (upd_table t (put_entry n e) k)"
proof (rule kept_upd)
  assume "table_ok (table_at k t)"
  then show "table_ok (put_entry n e (table_at k t)) \<and> ft_pid (put_entry n e (table_at k t)) = ft_pid (table_at k t)"
    using entry_ok_active [OF table_okD(2) assms(1-4)] assms(5) by (simp add: table_ok_put)
qed

lemma upd_put:
  "upd_table t (advance n c) k
    = upd_table t (put_entry n ((entry_at k t n)\<lparr>fe_file_offset := fe_file_offset (entry_at k t n) + ucast c\<rparr>)) k"
  "upd_table t (set_offset n off) k = upd_table t (put_entry n ((entry_at k t n)\<lparr>fe_file_offset := off\<rparr>)) k"
  "upd_table t (set_flags n flags) k = upd_table t (put_entry n ((entry_at k t n)\<lparr>fe_flags := flags\<rparr>)) k"
  by (simp_all add: upd_table_def upd_fd_def advance_def set_offset_def set_flags_def)

lemma kept_in_place:
  assumes "fd64_entry_active (entry_at k t n)"
  shows "kept k (upd_table t (advance n c) k)" "kept k (upd_table t (set_offset n off) k)"
    "\<not> foreign_flags flags \<Longrightarrow> kept k (upd_table t (set_flags n flags) k)"
  unfolding upd_put by (rule kept_put [OF assms]; simp)+

lemma kept_install: "kept k (snd (fd64_install_entry t fd h ty flags k))"
proof -
  obtain ok k1 where b: "persona64_budget_check_fd (ft_pid (table_at k t)) (ft_live_count (table_at k t)) 1 k = (ok, k1)"
    by fastforce
  then have k1: "fd_side k1 = fd_side k"
    using budgets_side(1) [of "ft_pid (table_at k t)" "ft_live_count (table_at k t)" 1 k] by simp
  let ?e = "\<lparr>fe_fd_number = fd, fe_capability_handle = h, fe_fd_type = ty, fe_flags = flags,
    fe_file_offset = 0, fe_ref_count = 1\<rparr>"
  have "kept k1 (upd_table t (occupy fd ?e) k1)"
    if "unat fd < FD64_TABLE_LIMIT" "h \<noteq> CAPABILITY64_INVALID_HANDLE" "fd64_valid_type ty" "\<not> foreign_flags flags"
    using that table_ok_occupy [of "table_at k1 t" fd ?e] by (intro kept_upd) simp
  then show ?thesis
    using kept_side_trans [OF k1] kept_side_deny [OF k1] by (cases ok) (simp_all add: fd64_install_entry_def b)
qed

lemma revoke_entry_side [fd_frame]: "fd_side (snd (fd64_revoke_entry_capability t n k)) = fd_side k"
  by (simp add: fd64_revoke_entry_capability_def Let_def fd_frame)

lemma kept_with_fd:
  assumes "\<And>t. t < FD64_MAX_PROCESS_TABLES \<Longrightarrow> fd_inv k \<Longrightarrow> process64_fd_table (k_proc k) pid = Some t \<Longrightarrow>
      unat fd < FD64_TABLE_LIMIT \<Longrightarrow> kept k (snd (body t k))"
  shows "kept k (snd (with_fd pid fd err body k))"
proof (cases "fd_inv k")
  case True
  then show ?thesis
    using assms [OF fd_inv_slot [OF True] True] by (simp add: with_fd_def split: option.split)
qed (simp add: kept_def)

lemma kept_free: "kept k (snd (fd64_free pid fd k))"
proof -
  have v: "kept k1 (upd_table t (vacate n) k1)" for t n and k1 :: "('a, 'b) kernel_fd_scheme"
    by (rule kept_upd) (simp add: table_ok_vacate)
  have s: "kept k (upd_table t (\<lambda>tb. fd64_sync_shared_ref_counts h ty (vacate n tb)) k)" for t h ty n
    by (rule kept_upd) (simp add: table_ok_sync table_ok_vacate)
  have r: "kept k (upd_table t (vacate n) (snd (fd64_revoke_entry_capability t n k)))" for t n
    by (rule kept_side_trans [OF revoke_entry_side v])
  show ?thesis
    unfolding fd64_free_def by (rule kept_with_fd) (simp add: Let_def v s r kept_put)
qed


lemma kept_for_process:
  assumes "\<And>t. t < FD64_MAX_PROCESS_TABLES \<Longrightarrow> fd_inv k \<Longrightarrow> process64_fd_table (k_proc k) pid = Some t \<Longrightarrow>
      kept k (snd (body t k))"
  shows "kept k (snd (case fd64_table_for_process pid k of (None, k) \<Rightarrow> (err, k) | (Some t, k) \<Rightarrow> body t k))"
proof (cases "fd_inv k")
  case True
  then show ?thesis
    using assms [OF fd_inv_slot [OF True] True] by (simp split: option.split)
qed (simp add: kept_def)

lemma kept_alloc_at: "kept k (snd (fd64_alloc_at pid fd h ty flags k))"
  unfolding fd64_alloc_at_def by (rule kept_with_fd) (simp add: split_def kept_install)

lemma kept_alloc: "kept k (snd (fd64_alloc pid h ty flags k))"
  unfolding fd64_alloc_def
  by (rule kept_for_process) (simp add: split_def kept_install split: option.split)

lemma kept_open_ramfs: "kept k (snd (fd64_open_ramfs sd pid path n flags k))"
  unfolding fd64_open_ramfs_def
proof (rule kept_for_process, goal_cases)
  case (1 t)
  let ?owner = "ft_owner_id (table_at k t)"
  obtain base k1 where g: "capability64_grant_service SERVICE_ENDPOINT_CLASS_RAMFS
      (CAPABILITY64_RIGHT_SEND OR CAPABILITY64_RIGHT_QUERY) ?owner k = (base, k1)" by fastforce
  obtain node k2 where op: "fs64_open_kernel sd base path n ?owner k1 = (node, k2)" by fastforce
  let ?k3 = "snd (capability64_revoke base ?owner k2)"
  obtain fd k4 where a: "fd64_alloc pid node FD64_TYPE_RAMFS_NODE flags ?k3 = (fd, k4)" by fastforce
  have k1: "fd_side k1 = fd_side k" using g grant_side by (metis snd_conv)
  have "fd_side k2 = fd_side k1" using op open_side by (metis snd_conv)
  then have k3: "fd_side ?k3 = fd_side k" by (simp add: k1 fd_frame)
  have k4: "kept k k4"
    using kept_side_trans [OF k3 kept_alloc [of ?k3 pid node FD64_TYPE_RAMFS_NODE flags]] by (simp add: a)
  moreover have "kept k (snd (fs64_revoke node ?owner k4))"
    by (rule kept_trans [OF k4 kept_side]) (simp add: fd_frame)
  ultimately show ?case by (simp add: g op a Let_def kept_side_deny [OF k1] kept_side_deny [OF k3])
qed

lemma kept_close_on_exec: "kept k (snd (fd64_close_on_exec pid k))"
proof -
  have one: "kept (snd r) (snd (close_one pid t n r))" for t n and r :: "u32 \<times> ('a, 'b) kernel_fd_scheme"
    by (cases r) (simp add: close_one_def split_def kept_free)
  have "kept (snd r) (snd (fold (close_one pid t) ns r))" for t ns and r :: "u32 \<times> ('a, 'b) kernel_fd_scheme"
  proof (induction ns arbitrary: r)
    case (Cons n ns)
    show ?case using kept_trans [OF one Cons [of "close_one pid t n r"]] by simp
  qed simp
  then show ?thesis unfolding fd64_close_on_exec_def by (intro kept_for_process) (metis snd_conv)
qed



section \<open>Reading, writing, duplicating, seeking\<close>

text \<open>A call of a service, followed by a step on the table it has left alone.\<close>

lemma kept_read: "kept k (snd (fd64_read sd pid fd out n k))"
  unfolding fd64_read_def
proof (rule kept_with_fd, goal_cases)
  case (1 t)
  let ?e = "entry_at k t (unat fd)" and ?owner = "ft_owner_id (table_at k t)"
  obtain r k1 where f: "fs64_read_kernel sd (fe_capability_handle ?e) (ucast (fe_file_offset ?e)) n ?owner k = (r, k1)"
    by fastforce
  obtain c got k2 where p: "pipe64_read (fe_capability_handle ?e) True n ?owner k = (c, got, k2)"
    by (metis prod_cases3)
  have k1: "fd_side k1 = fd_side k" using f fs_side(1) by (metis snd_conv)
  have k2: "fd_side k2 = fd_side k" using p pipe_read_side by (metis snd_conv)
  have "kept k (upd_table t (advance (unat fd) b) k1)" if "fd64_entry_active ?e" for b
    using that by (intro kept_side_trans [OF k1] kept_in_place(1)) (simp add: table_at_side [OF k1])
  then show ?case
    by (simp add: f p Let_def kept_side_deny [OF k1] kept_side_deny [OF k2] kept_side [OF k2] split: option.split)
qed

lemma kept_write: "kept k (snd (fd64_write sd sc pid fd input n k))"
  unfolding fd64_write_def
proof (rule kept_with_fd, goal_cases)
  case (1 t)
  let ?e = "entry_at k t (unat fd)" and ?owner = "ft_owner_id (table_at k t)"
  obtain a k1 where c: "console64_write_kernel sc (fe_capability_handle ?e) input n ?owner k = (a, k1)" by fastforce
  obtain b k2 where f: "fs64_write_kernel sd (fe_capability_handle ?e) input (ucast (fe_file_offset ?e)) n ?owner k
      = (b, k2)" by fastforce
  obtain d k3 where p: "pipe64_write (fe_capability_handle ?e) input n ?owner k = (d, k3)" by fastforce
  have k1: "fd_side k1 = fd_side k" using c console_side by (metis snd_conv)
  have k2: "fd_side k2 = fd_side k" using f fs_side(2) by (metis snd_conv)
  have k3: "fd_side k3 = fd_side k" using p pipe_write_side by (metis snd_conv)
  have "kept k (upd_table t (advance (unat fd) b) k2)" if "fd64_entry_active ?e"
    using that by (intro kept_side_trans [OF k2] kept_in_place(1)) (simp add: table_at_side [OF k2])
  then show ?case
    by (simp add: c f p Let_def kept_side_deny [OF k1] kept_side_deny [OF k2] kept_side_deny [OF k3]
      kept_side [OF k1] kept_side [OF k3])
qed

lemma kept_read_at: "kept k (snd (fd64_read_at sd pid fd off out n k))"
  unfolding fd64_read_at_def
proof (rule kept_with_fd, goal_cases)
  case (1 t)
  obtain r k1 where f: "fs64_read_kernel sd (fe_capability_handle (entry_at k t (unat fd))) (ucast off) n
      (ft_owner_id (table_at k t)) k = (r, k1)" by fastforce
  then have "fd_side k1 = fd_side k" using fs_side(1) by (metis snd_conv)
  then show ?case by (simp add: f Let_def kept_side_deny kept_side split: option.split)
qed

lemma kept_write_at: "kept k (snd (fd64_write_at sd pid fd off input n k))"
  unfolding fd64_write_at_def
proof (rule kept_with_fd, goal_cases)
  case (1 t)
  obtain r k1 where f: "fs64_write_kernel sd (fe_capability_handle (entry_at k t (unat fd))) input (ucast off) n
      (ft_owner_id (table_at k t)) k = (r, k1)" by fastforce
  then have "fd_side k1 = fd_side k" using fs_side(2) by (metis snd_conv)
  then show ?case by (simp add: f Let_def kept_side_deny kept_side)
qed

lemma kept_dup_into:
  assumes t: "t < FD64_MAX_PROCESS_TABLES" and inv: "fd_inv k"
  shows "kept k (snd (fd64_dup_into t old new k))"
proof -
  let ?source = "entry_at k t (unat old)"
  define freed where "freed = (if fd64_entry_active (entry_at k t (unat new))
    then fd64_free (ft_pid (table_at k t)) new k else (True, k))"
  obtain ok k1 where f: "freed = (ok, k1)" by fastforce
  then have k1: "kept k k1" using kept_free [of k "ft_pid (table_at k t)" new] by (auto simp: freed_def split: if_splits)
  obtain fits k2 where b: "persona64_budget_check_fd (ft_pid (table_at k1 t)) (ft_live_count (table_at k1 t)) 1 k1
      = (fits, k2)" by fastforce
  then have k2: "fd_side k2 = fd_side k1" using budgets_side(1) by (metis snd_conv)
  let ?copy = "\<lambda>tb. fd64_sync_shared_ref_counts (fe_capability_handle ?source) (fe_fd_type ?source)
    (occupy new (?source\<lparr>fe_fd_number := new, fe_ref_count := 1\<rparr>) tb)"
  have "kept k2 (upd_table t ?copy k2)"
    if "unat old < FD64_TABLE_LIMIT" "unat new < FD64_TABLE_LIMIT" "fd64_entry_active ?source"
  proof (rule kept_upd)
    assume "table_ok (table_at k2 t)"
    then show "table_ok (?copy (table_at k2 t)) \<and> ft_pid (?copy (table_at k2 t)) = ft_pid (table_at k2 t)"
      using table_okD(2) [OF fd_inv_table [OF inv t] that(1)] that cleared_inactive
      by (auto simp: entry_ok_def table_ok_sync table_ok_occupy)
  qed
  then have "kept k (upd_table t ?copy k2)"
    if "unat old < FD64_TABLE_LIMIT" "unat new < FD64_TABLE_LIMIT" "fd64_entry_active ?source"
    using that kept_trans [OF k1 kept_side_trans [OF k2]] by blast
  moreover have "kept k (table_deny t k1)" "kept k (table_deny t k2)"
    using kept_trans [OF k1] kept_deny kept_side_deny [OF k2] by blast+
  ultimately show ?thesis
    by (simp add: fd64_dup_into_def Let_def freed_def [symmetric] f b split: bool.split)
qed

lemma kept_dup_from:
  "t < FD64_MAX_PROCESS_TABLES \<Longrightarrow> fd_inv k \<Longrightarrow> kept k (snd (dup_from t old start k))"
  by (simp add: dup_from_def kept_dup_into split: option.split)

lemma kept_dups:
  "kept k (snd (fd64_dup pid old k))" "kept k (snd (fd64_dup_min pid old m k))" "kept k (snd (fd64_dup2 pid old new k))"
  unfolding fd64_dup_def fd64_dup_min_def fd64_dup2_def
  by (rule kept_with_fd kept_for_process; simp add: kept_dup_from kept_dup_into)+


lemma sync_active:
  "n < length (ft_entries tb) \<Longrightarrow>
   fd64_entry_active (ft_entries (fd64_sync_shared_ref_counts h ty tb) ! n) = fd64_entry_active (ft_entries tb ! n)"
  by (auto simp: fd64_sync_shared_ref_counts_def Let_def shares_def fd64_entry_active_def)

lemma occupy_entry:
  "unat fd < length (ft_entries tb) \<Longrightarrow> ft_entries (occupy fd e tb) ! unat fd = e"
  "length (ft_entries (occupy fd e tb)) = length (ft_entries tb)"
  by (simp_all add: occupy_def put_entry_def)

text \<open>A successful duplication leaves the new number occupied.\<close>

lemma dup_into_active:
  assumes t: "t < FD64_MAX_PROCESS_TABLES" and inv: "fd_inv k"
    and res: "fd64_dup_into t old new k = (r, k')" "r \<noteq> FD64_INVALID_FD" "old \<noteq> new"
  shows "r = new" "fd64_entry_active (entry_at k' t (unat r))"
proof -
  let ?source = "entry_at k t (unat old)"
  define freed where "freed = (if fd64_entry_active (entry_at k t (unat new))
    then fd64_free (ft_pid (table_at k t)) new k else (True, k))"
  obtain ok k1 where f: "freed = (ok, k1)" by fastforce
  then have k1: "kept k k1" using kept_free [of k "ft_pid (table_at k t)" new] by (auto simp: freed_def split: if_splits)
  obtain fits k2 where b: "persona64_budget_check_fd (ft_pid (table_at k1 t)) (ft_live_count (table_at k1 t)) 1 k1
      = (fits, k2)" by fastforce
  then have k2: "fd_side k2 = fd_side k1" using budgets_side(1) by (metis snd_conv)
  have inv2: "fd_inv k2" by (rule keptD(1) [OF kept_trans [OF k1 kept_side [OF k2]] inv])
  have ok: "unat new < FD64_TABLE_LIMIT" "fd64_entry_active ?source" "r = new"
    "k' = upd_table t (\<lambda>tb. fd64_sync_shared_ref_counts (fe_capability_handle ?source) (fe_fd_type ?source)
       (occupy new (?source\<lparr>fe_fd_number := new, fe_ref_count := 1\<rparr>) tb)) k2"
    using res by (auto simp: fd64_dup_into_def Let_def freed_def [symmetric] f b split: if_splits bool.splits)
  have "unat new < length (ft_entries (table_at k2 t))"
    using ok(1) table_okD(1) [OF fd_inv_table [OF inv2 t]] by simp
  moreover have "fd64_entry_active (?source\<lparr>fe_fd_number := new, fe_ref_count := 1\<rparr>)"
    using ok(2) by (simp add: fd64_entry_active_def)
  ultimately show "r = new" "fd64_entry_active (entry_at k' t (unat r))"
    using ok(3,4) t fd_invD(2) [OF inv2]
    by (simp_all add: upd_table_def upd_fd_def sync_active occupy_entry)
qed

lemma cloexec_only: "flags AND NOT FD64_FLAG_O_CLOEXEC = 0 \<Longrightarrow> \<not> foreign_flags flags"
proof -
  assume a: "flags AND NOT FD64_FLAG_O_CLOEXEC = 0"
  have "NOT (1 OR 2 :: u32) = NOT 1 AND NOT 2" by simp
  then have "flags AND NOT (1 OR 2) = (flags AND NOT 1) AND NOT 2" by (simp add: and.assoc)
  then show ?thesis using a by (simp add: foreign_flags_def)
qed

lemma kept_dup3: "kept k (snd (fd64_dup3 pid old new flags k))"
  unfolding fd64_dup3_def
proof (rule kept_for_process, goal_cases)
  case (1 t)
  obtain r k1 where d: "fd64_dup_into t old new k = (r, k1)" by fastforce
  then have k1: "kept k k1" using kept_dup_into [OF 1(1,2)] by (metis snd_conv)
  have "kept k1 (upd_table t (set_flags (unat r) flags) k1)"
    if "r \<noteq> FD64_INVALID_FD" "old \<noteq> new" "flags AND NOT FD64_FLAG_O_CLOEXEC = 0"
    using kept_in_place(3) [OF dup_into_active(2) [OF 1(1,2) d that(1,2)] cloexec_only [OF that(3)]] .
  then show ?case using k1 kept_trans by (auto simp: d)
qed

lemma kept_set_entry_flags: "kept k (snd (fd64_set_entry_flags pid fd flags k))"
  unfolding fd64_set_entry_flags_def by (rule kept_with_fd) (simp add: kept_in_place)

lemma kept_get: "kept k (snd (fd64_get pid fd k))"
  unfolding fd64_get_def by (rule kept_with_fd) (simp add: Let_def kept_put)

lemma kept_put_entry: "kept k (snd (fd64_put pid entry k))"
  unfolding fd64_put_def
  by (rule kept_for_process) (simp add: Let_def kept_put split: option.split prod.split)

lemma seek_base_side [fd_frame]: "fd_side (snd (seek_base t n whence st k)) = fd_side k"
  by (simp add: seek_base_def fd64_ramfs_file_size_def Let_def split_def fd_frame split: option.split)

lemma seekable_side [fd_frame]: "fd_side (snd (seekable_stat vfs pid fd e k)) = fd_side k"
  by (simp add: seekable_stat_def split_def split: option.split)

lemma kept_seek: "kept k (snd (fd64_seek vfs pid fd off whence k))"
  unfolding fd64_seek_def
proof (rule kept_with_fd, goal_cases)
  case (1 t)
  let ?e = "entry_at k t (unat fd)"
  obtain st k1 where s: "seekable_stat vfs pid fd ?e k = (st, k1)" by fastforce
  obtain base k2 where b: "seek_base t (unat fd) whence (the st) k1 = (base, k2)" by fastforce
  have k1: "fd_side k1 = fd_side k" using s seekable_side by (metis snd_conv)
  then have k2: "fd_side k2 = fd_side k" using b seek_base_side by (metis snd_conv)
  have "kept k (upd_table t (set_offset (unat fd) new) k2)" if "fd64_entry_active ?e" for new
    using that by (intro kept_side_trans [OF k2] kept_in_place(2)) (simp add: table_at_side [OF k2])
  then show ?case
    using b by (auto simp: s Let_def kept_side_deny [OF k1] kept_side_deny [OF k2] split: option.split)
qed

lemma kept_stat: "kept k (snd (fd64_stat pid fd buf k))"
  unfolding fd64_stat_def
proof (rule kept_with_fd, goal_cases)
  case (1 t)
  let ?h = "fe_capability_handle (entry_at k t (unat fd))" and ?owner = "ft_owner_id (table_at k t)"
  obtain bytes k1 where s: "fs64_stat_kernel ?h 32 ?owner k = (bytes, k1)" by fastforce
  obtain rights k2 where r: "fs64_node_rights ?h ?owner k1 = (rights, k2)" by fastforce
  obtain own k3 where w: "fs64_node_owner ?h ?owner k2 = (own, k3)" by fastforce
  have k1: "fd_side k1 = fd_side k" using s fs_side(3) by (metis snd_conv)
  then have k2: "fd_side k2 = fd_side k" using r fs_side(5) by (metis fs64_node_rights_def snd_conv)
  then have k3: "fd_side k3 = fd_side k" using w fs_side(5) by (metis fs64_node_owner_def snd_conv)
  show ?case
    by (simp add: s r w Let_def kept_side_deny [OF k1] kept_side_deny [OF k2] kept_side [OF k3] split: option.split)
qed


section \<open>Claiming and releasing a table\<close>

lemma process64_fd_table_attach:
  assumes "process64_attach_fd pid (Some t) ps = (True, ps')"
  shows "process64_fd_table ps' q = (if q = pid then Some t else process64_fd_table ps q)"
proof -
  have ok: "fst (process64_attach_slot p_fd_table put_fd pid (Some t) ps)" using assms by (simp add: process64_attach_fd_def)
  obtain r where "process_record ps pid = Some r" using ok fd_slot.attach_iff by blast
  then show ?thesis
    using fd_slot.attach_record [OF ok, of q] assms
    by (auto simp: process64_fd_table_def record_field_def process64_attach_fd_def)
qed

lemma process64_fd_table_detach:
  "process64_fd_table (snd (process64_detach_fd pid ps)) q = (if q = pid then None else process64_fd_table ps q)"
  by (simp add: process64_fd_table_def record_field_def process64_detach_fd_def fd_slot.detach_record
      split: option.split)

text \<open>A free table filled for a process and attached to it, and the same refused by the process.\<close>

lemma fd_inv_attach:
  assumes inv: "fd_inv k" and t: "t < FD64_MAX_PROCESS_TABLES" "\<not> g_fd64_table_used (k_fd k) ! t"
    and a: "process64_attach_fd pid (Some t) (k_proc k) = (True, ps)" and tb: "table_ok tb" "ft_pid tb = pid"
  shows "fd_inv (upd_fd (\<lambda>s. s\<lparr>g_fd64_table_used := (g_fd64_table_used s)[t := True]\<rparr>)
    ((upd_table t (\<lambda>_. tb) k)\<lparr>k_proc := ps\<rparr>))"
proof -
  have "pool_inv ft_pid FD64_MAX_PROCESS_TABLES (process64_fd_table ps)
      ((g_fd64_tables (k_fd k))[t := tb]) ((g_fd64_table_used (k_fd k))[t := True])"
    using process64_fd_table_attach [OF a] by (intro pool_inv_attach [OF fd_invD(4) [OF inv] t tb(2)]) simp
  then show ?thesis
    using inv tb(1) by (auto simp: upd_table_def upd_fd_def fd_inv_def dest!: subsetD [OF set_update_subset_insert])
qed

lemma fd_inv_attach_refused:
  assumes inv: "fd_inv k" and t: "t < FD64_MAX_PROCESS_TABLES" "\<not> g_fd64_table_used (k_fd k) ! t"
    and a: "process64_attach_fd pid (Some t) (k_proc k) = (False, ps)"
  shows "fd_inv (upd_table t (\<lambda>_. fd64_clear_table) ((upd_table t (\<lambda>_. tb) k)\<lparr>k_proc := ps\<rparr>))"
proof -
  have ps: "ps = k_proc k"
    using fd_slot.attach_refused [of pid "Some t" "k_proc k"] a by (simp add: process64_attach_fd_def)
  have same: "(g_fd64_table_used (k_fd k))[t := False] = g_fd64_table_used (k_fd k)"
    using t(2) by (metis (full_types) list_update_id)
  have "pool_inv ft_pid FD64_MAX_PROCESS_TABLES (process64_fd_table (k_proc k))
      ((g_fd64_tables (k_fd k))[t := fd64_clear_table]) (g_fd64_table_used (k_fd k))"
    using pool_inv_unused [OF fd_invD(4) [OF inv] t(2,1), of fd64_clear_table] unfolding same .
  then show ?thesis
    using inv by (auto simp: ps upd_table_def upd_fd_def fd_inv_def dest!: subsetD [OF set_update_subset_insert])
qed

lemma fd_inv_claim:
  assumes inv: "fd_inv k" and res: "fd64_claim_table pid owner k = (r, k')"
  shows "fd_inv k'" "r = Some t \<Longrightarrow> process64_fd_table (k_proc k') pid = Some t"
proof -
  let ?known = "pid = PROCESS64_INVALID_PID \<or> owner = 0 \<or> process64_principal (k_proc k) pid = 0
    \<or> process64_fd_table (k_proc k) pid \<noteq> None"
  have "fd_inv k' \<and> (\<forall>t. r = Some t \<longrightarrow> process64_fd_table (k_proc k') pid = Some t)"
  proof (cases "\<not> ?known \<and> (\<exists>t. first_index (\<lambda>used. \<not> used) (g_fd64_table_used (k_fd k)) = Some t)")
    case False
    then have "k' = k" "\<forall>t. r = Some t \<longrightarrow> process64_fd_table (k_proc k) pid = Some t"
      using inv res by (auto simp: fd64_claim_table_def split: if_splits)
    then show ?thesis using inv by simp
  next
    case True
    then obtain t where f: "first_index (\<lambda>used. \<not> used) (g_fd64_table_used (k_fd k)) = Some t" by blast
    have t: "t < FD64_MAX_PROCESS_TABLES" "\<not> g_fd64_table_used (k_fd k) ! t"
      using first_index_SomeD [OF f] fd_invD(3) [OF inv] by simp_all
    obtain ok ps where a: "process64_attach_fd pid (Some t) (k_proc k) = (ok, ps)" by fastforce
    then show ?thesis
      using True inv res t fd_inv_attach [OF inv t] fd_inv_attach_refused [OF inv t] process64_fd_table_attach
      by (cases ok) (auto simp: fd64_claim_table_def f Let_def upd_table_def upd_fd_def fd64_clear_table_def [symmetric])
  qed
  then show "fd_inv k'" "r = Some t \<Longrightarrow> process64_fd_table (k_proc k') pid = Some t" by blast+
qed

lemma fd_inv_release:
  assumes inv: "fd_inv k"
  shows "fd_inv (snd (fd64_release_process pid k))"
proof (cases "process64_fd_table (k_proc k) pid")
  case None
  then show ?thesis using inv by (simp add: fd64_release_process_def)
next
  case (Some t)
  have step: "fd_side (revoke_once t n k) = fd_side k" for n and k :: "('a, 'b) kernel_fd_scheme"
    by (simp add: revoke_once_def fd_frame)
  have side: "fd_side (fold (revoke_once t) ns k) = fd_side k" for ns and k :: "('a, 'b) kernel_fd_scheme"
    by (induction ns arbitrary: k) (simp_all add: step)
  define k1 where "k1 = fold (revoke_once t) [0..<FD64_TABLE_LIMIT] k"
  have k1: "k_fd k1 = k_fd k" "k_proc k1 = k_proc k" unfolding k1_def by (rule fd_sideD [OF side])+
  have "pool_inv ft_pid FD64_MAX_PROCESS_TABLES (process64_fd_table (snd (process64_detach_fd pid (k_proc k))))
      ((g_fd64_tables (k_fd k))[t := fd64_clear_table]) ((g_fd64_table_used (k_fd k))[t := False])"
    by (rule pool_inv_detach [OF fd_invD(4) [OF inv] Some]) (rule process64_fd_table_detach)
  then show ?thesis
    using inv Some k1
    by (auto simp: fd64_release_process_def Let_def k1_def [symmetric] upd_table_def upd_fd_def fd_inv_def
      dest!: subsetD [OF set_update_subset_insert])
qed


lemma fd_inv_init_process:
  assumes "fd_inv k"
  shows "fd_inv (snd (fd64_init_process pid owner h0 h1 h2 k))"
proof -
  obtain r k1 where c: "fd64_claim_table pid owner k = (r, k1)" by fastforce
  let ?inst = "\<lambda>fd h k. fd64_install_entry (the r) fd h FD64_TYPE_DEVICE 0 k"
  obtain ok0 k2 where i0: "?inst FD64_STDIN h0 k1 = (ok0, k2)" by fastforce
  obtain ok1 k3 where i1: "?inst FD64_STDOUT h1 k2 = (ok1, k3)" by fastforce
  obtain ok2 k4 where i2: "?inst FD64_STDERR h2 k3 = (ok2, k4)" by fastforce
  have k1: "fd_inv k1" by (rule fd_inv_claim(1) [OF assms c])
  have k2: "fd_inv k2" using keptD(1) [OF kept_install k1] i0 by (metis snd_conv)
  have k3: "fd_inv k3" using keptD(1) [OF kept_install k2] i1 by (metis snd_conv)
  have k4: "fd_inv k4" using keptD(1) [OF kept_install k3] i2 by (metis snd_conv)
  show ?thesis
    using i0 i1 i2 k1 k2 k3 k4
    by (auto simp: fd64_init_process_def c fd_inv_release split: option.split bool.split)
qed


section \<open>Pipes and fork\<close>

lemma kept_bind_pipe: "kept k (snd (bind_pipe i pid flags k))"
proof -
  obtain r k1 where a1: "fd64_alloc pid (pb_read_handle (pipe_at k i)) FD64_TYPE_PIPE_READ flags k = (r, k1)" by fastforce
  obtain w k2 where a2: "fd64_alloc pid (pb_write_handle (pipe_at k1 i)) FD64_TYPE_PIPE_WRITE flags k1 = (w, k2)"
    by fastforce
  let ?bound = "upd_pipe i (\<lambda>p. p\<lparr>pb_read_fd := r, pb_write_fd := w\<rparr>) k2"
  obtain ok k3 where c: "persona64_budget_commit_pipe pid 1 ?bound = (ok, k3)" by fastforce
  have k1: "kept k k1" using kept_alloc a1 by (metis snd_conv)
  have k2: "kept k k2" using kept_trans [OF k1 kept_alloc] a2 by (metis snd_conv)
  have "fd_side k3 = fd_side ?bound" using c commit_side by (metis snd_conv)
  then have k3: "kept k k3" by (intro kept_trans [OF k2 kept_side]) (simp add: fd_frame)
  have drop: "kept k (abandon_pipe i k')" if "kept k k'" for k'
    by (rule kept_trans [OF that kept_side]) (simp add: fd_frame)
  have free: "kept k (snd (fd64_free pid fd k'))" if "kept k k'" for fd k'
    by (rule kept_trans [OF that kept_free])
  show ?thesis
    using k1 k2 k3 by (auto simp: bind_pipe_def a1 a2 c intro!: drop free split: bool.split)
qed

lemma kept_create: "kept k (snd (pipe64_create_flags pid flags r w k))"
proof (cases "fd_inv k")
  case True
  let ?k0 = "pipe64_init k"
  have k0: "fd_side ?k0 = fd_side k" by (simp add: fd_frame)
  then have inv0: "fd_inv ?k0" using True keptD(1) [OF kept_side] by blast
  obtain ok k1 where b: "persona64_budget_check_pipe pid 1 ?k0 = (ok, k1)" by fastforce
  then have k1: "fd_side k1 = fd_side k" using k0 budgets_side(2) by (metis snd_conv)
  have "kept k (snd (bind_pipe i pid flags (upd_pipe i f (pipe64_clear_object i k1))))" for i f
    by (rule kept_side_trans [OF _ kept_bind_pipe]) (simp add: fd_frame k1)
  moreover have "kept k (pipe_deny ?k0)" "kept k (pipe_deny k1)"
    by (rule kept_side; simp add: fd_frame k0 k1)+
  ultimately show ?thesis
    using inv0 by (simp add: pipe64_create_flags_def Let_def b split: option.split bool.split)
qed (simp add: kept_def)

lemma kept_grant:
  "kept k (snd (pipe64_grant_endpoint_inner src sfd dst dfd out k))"
proof (cases "fd_inv k")
  case True
  let ?k0 = "pipe64_init k"
  have k0: "fd_side ?k0 = fd_side k" by (simp add: fd_frame)
  then have inv0: "fd_inv ?k0" using True keptD(1) [OF kept_side] by blast
  let ?h = "fst (fd64_entry_capability src sfd ?k0)" and ?ty = "fst (fd64_entry_type src sfd ?k0)"
    and ?flags = "fst (fd64_entry_flags src sfd ?k0)"
  obtain found k1 where f: "pipe64_find ?h (process64_principal (k_proc ?k0) src) ?k0 = (found, k1)" by fastforce
  then have k1: "fd_side k1 = fd_side k" using k0 pipe_find_side by (metis snd_conv)
  obtain fd k2 where a: "fd64_alloc dst ?h ?ty ?flags k1 = (fd, k2)" by fastforce
  obtain fd' k3 where b: "fd64_alloc_at dst dfd ?h ?ty ?flags k1 = (fd', k3)" by fastforce
  have k2: "kept k k2" using kept_side_trans [OF k1 kept_alloc] a by (metis snd_conv)
  have k3: "kept k k3" using kept_side_trans [OF k1 kept_alloc_at] b by (metis snd_conv)
  have deny: "kept k (pipe_deny k')" "kept k (upd_pipe i g k')" if "kept k k'" for i g k'
    by (rule kept_trans [OF that kept_side], simp add: fd_frame)+
  note ks = kept_side [OF k0] kept_side [OF k1] k2 k3
  show ?thesis
    using inv0 deny ks
    by (simp add: pipe64_grant_endpoint_inner_def Let_def f a b split: option.split)
qed (simp add: kept_def)


lemma kept_grant_at: "kept k (snd (pipe64_grant_endpoint_at src sfd dst dfd k))"
  using kept_grant by (simp add: pipe64_grant_endpoint_at_def split_def)

lemma install_active:
  assumes "fd_inv k" and "t < FD64_MAX_PROCESS_TABLES" and res: "fd64_install_entry t fd h ty flags k = (True, k')"
  shows "fd64_entry_active (entry_at k' t (unat fd))"
proof -
  obtain ok k1 where b: "persona64_budget_check_fd (ft_pid (table_at k t)) (ft_live_count (table_at k t)) 1 k = (ok, k1)"
    by fastforce
  then have k1: "fd_side k1 = fd_side k" using budgets_side(1) by (metis snd_conv)
  have inv1: "fd_inv k1" by (rule keptD(1) [OF kept_side [OF k1] assms(1)])
  let ?e = "\<lparr>fe_fd_number = fd, fe_capability_handle = h, fe_fd_type = ty, fe_flags = flags,
    fe_file_offset = 0, fe_ref_count = 1\<rparr>"
  have ok: "unat fd < FD64_TABLE_LIMIT" "h \<noteq> CAPABILITY64_INVALID_HANDLE" "fd64_valid_type ty"
    "k' = upd_table t (occupy fd ?e) k1"
    using res by (auto simp: fd64_install_entry_def b split: if_splits bool.splits)
  have "unat fd < length (ft_entries (table_at k1 t))"
    using ok(1) table_okD(1) [OF fd_inv_table [OF inv1 assms(2)]] by simp
  then have "entry_at k' t (unat fd) = ?e"
    using ok(4) assms(2) fd_invD(2) [OF inv1] by (simp add: upd_table_def upd_fd_def occupy_entry)
  then show ?thesis using ok by (auto simp: fd64_entry_active_def fd64_valid_type_def)
qed

lemma alloc_at_active:
  assumes inv: "fd_inv k" and t: "process64_fd_table (k_proc k) pid = Some t"
    and res: "fd64_alloc_at pid fd h ty flags k = (r, k')" "r \<noteq> FD64_INVALID_FD"
  shows "r = fd" "fd64_entry_active (entry_at k' t (unat fd))"
proof -
  have "fd64_install_entry t fd h ty flags k = (True, k')" "r = fd"
    using inv t res by (auto simp: fd64_alloc_at_def with_fd_def split: if_splits prod.splits)
  then show "r = fd" "fd64_entry_active (entry_at k' t (unat fd))"
    using install_active [OF inv fd_inv_slot [OF inv t]] by simp_all
qed

text \<open>A granted endpoint occupies the requested number of the receiving process.\<close>

lemma grant_at_active:
  assumes inv: "fd_inv k" and t: "process64_fd_table (k_proc k) dst = Some c"
    and res: "pipe64_grant_endpoint_at src sfd dst dfd k = (True, k')"
  shows "fd64_entry_active (entry_at k' c (unat dfd))"
proof -
  let ?k0 = "pipe64_init k"
  have k0: "fd_side ?k0 = fd_side k" by (simp add: fd_frame)
  then have inv0: "fd_inv ?k0" using inv keptD(1) [OF kept_side] by blast
  let ?h = "fst (fd64_entry_capability src sfd ?k0)" and ?ty = "fst (fd64_entry_type src sfd ?k0)"
    and ?flags = "fst (fd64_entry_flags src sfd ?k0)"
  obtain found k1 where f: "pipe64_find ?h (process64_principal (k_proc ?k0) src) ?k0 = (found, k1)" by fastforce
  then have k1: "fd_side k1 = fd_side k" using k0 pipe_find_side by (metis snd_conv)
  have inv1: "fd_inv k1" by (rule keptD(1) [OF kept_side [OF k1] inv])
  obtain fd k2 where a: "fd64_alloc dst ?h ?ty ?flags k1 = (fd, k2)" by fastforce
  obtain fd' k3 where b: "fd64_alloc_at dst dfd ?h ?ty ?flags k1 = (fd', k3)" by fastforce
  obtain i g where "fd' \<noteq> FD64_INVALID_FD" "k' = upd_pipe i g k3"
    using res inv0
    by (auto simp: pipe64_grant_endpoint_at_def pipe64_grant_endpoint_inner_def Let_def f a b
      split: if_splits option.splits)
  then show ?thesis
    using alloc_at_active(2) [OF inv1 _ b] t fd_sideD(2) [OF k1] by (simp add: upd_pipe_def upd_pipes_def)
qed

lemma kept_upd_fd:
  assumes "\<And>s. g_fd64_tables (f s) = g_fd64_tables s" "\<And>s. g_fd64_table_used (f s) = g_fd64_table_used s"
    "\<And>s. g_fd64_initialized (f s) = g_fd64_initialized s"
  shows "kept k (upd_fd f k)"
  using assms by (simp add: kept_def upd_fd_def fd_inv_def)

lemma kept_fork_counters [simp]:
  "kept k (fork_stage n k)" "kept k (fork_deny k)"
  "kept k (upd_fd (\<lambda>s. s\<lparr>g_fd64_fork_pipe_last_fd := m\<rparr>) k)"
  "kept k (upd_fd (\<lambda>s. s\<lparr>g_fd64_fork_pipe_denial_count := g_fd64_fork_pipe_denial_count s + 1\<rparr>) k)"
  "kept k (upd_fd (\<lambda>s. s\<lparr>g_fd64_fork_pipe_copy_count := g_fd64_fork_pipe_copy_count s + 1\<rparr>) k)"
  unfolding fork_stage_def fork_deny_def by (rule kept_upd_fd; simp)+

lemma fd_inv_fork_abort: "fd_inv k \<Longrightarrow> fd_inv (snd (fork_abort child k))"
  unfolding fork_abort_def snd_conv by (rule fd_inv_release [OF keptD(1) [OF kept_fork_counters(2)]])

lemma copy_capability_side [fd_frame]:
  "fd_side (snd (fd64_fork_copy_capability source po co k)) = fd_side k"
  by (simp add: fd64_fork_copy_capability_def Let_def split_def cap_readers fd_frame)

text \<open>One copied descriptor keeps the typing; a refused one leaves a typed state behind.\<close>

lemma fork_pipe_entry_inv:
  assumes inv: "fd_inv k" and c: "process64_fd_table (k_proc k) child = Some c"
    and n: "n < FD64_TABLE_LIMIT" and res: "fork_pipe_entry parent child c source n k = (ok, k')"
  shows "fd_inv k'" "ok \<Longrightarrow> k_proc k' = k_proc k"
proof -
  let ?k0 = "upd_fd (\<lambda>s. s\<lparr>g_fd64_fork_pipe_last_fd := of_nat n\<rparr>) (fork_stage 5 k)"
  have k0: "kept k ?k0" by (rule kept_trans [OF kept_fork_counters(1,3)])
  have inv0: "fd_inv ?k0" by (rule keptD(1) [OF k0 inv])
  obtain r k1 where g: "pipe64_grant_endpoint_at parent (of_nat n) child (of_nat n) ?k0 = (r, k1)" by fastforce
  have k1: "kept ?k0 k1" using kept_grant_at g by (metis snd_conv)
  have k1': "kept k k1" by (rule kept_trans [OF k0 k1])
  have "fd64_entry_active (entry_at k1 c n)" if r
    using grant_at_active [OF inv0 _, of child c parent "of_nat n" "of_nat n" k1] g that c keptD(2) [OF k0 inv]
    by (simp add: number_small [OF n])
  then have "kept k (upd_table c (set_offset n off) k1)" if r for off
    using that by (intro kept_trans [OF k1' kept_in_place(2)])
  then have "kept k k'" if r
    using res that kept_trans [OF _ kept_fork_counters(5)] by (auto simp: fork_pipe_entry_def g)
  moreover have "fd_inv k'" "\<not> ok" if "\<not> r"
    using res that fd_inv_fork_abort keptD(1) [OF kept_fork_counters(4) keptD(1) [OF k1' inv]]
    by (auto simp: fork_pipe_entry_def g fork_abort_def)
  ultimately show "fd_inv k'" "ok \<Longrightarrow> k_proc k' = k_proc k" using keptD inv by blast+
qed

lemma fork_other_entry_inv:
  assumes inv: "fd_inv k" and c: "process64_fd_table (k_proc k) child = Some c"
    and n: "n < FD64_TABLE_LIMIT" and res: "fork_other_entry child po co c source n k = (ok, k')"
  shows "fd_inv k'" "ok \<Longrightarrow> k_proc k' = k_proc k"
proof -
  obtain h k1 where g: "fd64_fork_copy_capability source po co (fork_stage 3 k) = (h, k1)" by fastforce
  have "fd_side k1 = fd_side (fork_stage 3 k)" using g copy_capability_side by (metis snd_conv)
  then have k1: "kept k k1" by (rule kept_trans [OF kept_fork_counters(1) kept_side])
  have inv1: "fd_inv k1" by (rule keptD(1) [OF k1 inv])
  obtain r k2 where i: "fd64_install_entry c (of_nat n) h (fe_fd_type source) (fe_flags source) k1 = (r, k2)" by fastforce
  have k2: "kept k k2" using kept_trans [OF k1 kept_install] i by (metis snd_conv)
  have "fd64_entry_active (entry_at k2 c n)" if r
    using install_active [OF inv1 fd_inv_slot [OF inv c]] i that by (metis number_small [OF n])
  then have "kept k (upd_table c (set_offset n off) k2)" if r for off
    using that by (intro kept_trans [OF k2 kept_in_place(2)])
  moreover have "kept k (snd (capability64_revoke h co k2))"
    by (rule kept_trans [OF k2 kept_side]) (simp add: fd_frame)
  ultimately have "kept k k' \<or> \<not> ok \<and> fd_inv k'"
    using res keptD(1) [OF _ inv] fd_inv_fork_abort inv1 k2
    by (auto simp: fork_other_entry_def g i fork_abort_def split: if_splits bool.splits)
  then show "fd_inv k'" "ok \<Longrightarrow> k_proc k' = k_proc k" using keptD inv by blast+
qed

lemma fork_entries_inv:
  assumes "fd_inv k" and "process64_fd_table (k_proc k) child = Some c" and "list_all (\<lambda>n. n < FD64_TABLE_LIMIT) ns"
  shows "fd_inv (snd (fork_entries parent child po co p c ns copied k))"
  using assms
proof (induction ns arbitrary: copied k)
  case (Cons n ns)
  let ?source = "entry_at k p n"
  define one where "one = (if fe_fd_type ?source = FD64_TYPE_PIPE_READ \<or> fe_fd_type ?source = FD64_TYPE_PIPE_WRITE
    then fork_pipe_entry parent child c ?source n k else fork_other_entry child po co c ?source n k)"
  obtain ok k1 where o1: "one = (ok, k1)" by fastforce
  have n: "n < FD64_TABLE_LIMIT" using Cons.prems(3) by simp
  have "fd_inv k1" "ok \<Longrightarrow> k_proc k1 = k_proc k"
    using o1 fork_pipe_entry_inv [OF Cons.prems(1,2) n] fork_other_entry_inv [OF Cons.prems(1,2) n]
    unfolding one_def by (metis (full_types))+
  then show ?case
    using Cons by (simp add: Let_def one_def [symmetric] o1 split: bool.split)
qed simp

lemma fd_inv_fork:
  assumes inv: "fd_inv k"
  shows "fd_inv (snd (fd64_fork_process parent child k))"
proof -
  define k0 where "k0 = upd_fd (\<lambda>s. s\<lparr>g_fd64_fork_copy_last_parent_pid := parent,
    g_fd64_fork_copy_last_child_pid := child, g_fd64_fork_copy_last_entries := 0,
    g_fd64_fork_copy_last_stage := 1\<rparr>) k"
  have "kept k k0" unfolding k0_def by (rule kept_upd_fd) simp_all
  then have inv0: "fd_inv k0" using inv by (rule keptD(1))
  let ?po = "process64_principal (k_proc k0) parent" and ?co = "process64_principal (k_proc k0) child"
  obtain r k1 where c: "fd64_claim_table child ?co (fork_stage 2 k0) = (r, k1)" by fastforce
  have inv1: "fd_inv k1" by (rule fd_inv_claim(1) [OF keptD(1) [OF kept_fork_counters(1) inv0] c])
  have copies: "fd_inv k2"
    if "r = Some t" "fork_entries parent child ?po ?co p t [0..<FD64_TABLE_LIMIT] 0 k1 = (done', k2)" for t p done' k2
    using fork_entries_inv [OF inv1 fd_inv_claim(2) [OF keptD(1) [OF kept_fork_counters(1) inv0] c that(1)],
      of "[0..<FD64_TABLE_LIMIT]"] that(2) by (metis (no_types, lifting) atLeastLessThan_iff list_all_iff set_upt snd_conv)
  have fin: "fd_inv (upd_fd (\<lambda>s. s\<lparr>g_fd64_fork_copy_last_stage := 4, g_fd64_fork_copy_last_entries := m,
      g_fd64_fork_copy_count := g_fd64_fork_copy_count s + 1\<rparr>) k2)" if "fd_inv k2" for m and k2 :: "('a, 'b) kernel_fd_scheme"
    by (rule keptD(1) [OF kept_upd_fd that]) simp_all
  have "fd_inv (fork_deny k0)" by (rule keptD(1) [OF kept_fork_counters(2) inv0])
  then show ?thesis
    using inv fd_inv_fork_abort [OF inv1] copies fin
    by (auto simp: fd64_fork_process_def Let_def k0_def [symmetric] c split: option.split prod.split)
qed

end
