(* ===== verification/Ramfs_Inv.thy ===== *)
theory Ramfs_Inv
  imports Ramfs
begin

text \<open>
  The node table as a tree. \<open>tree_ok\<close> says that every node in use carries the id of its slot, is a
  file or a directory of the right shape, and hangs below the root by parent links; every operation
  keeps it, the loop over parent links ends in it, and files behave as bounded byte strings.
\<close>

section \<open>Trees\<close>

definition node_ok :: "ramfs \<Rightarrow> nat \<Rightarrow> bool" where
  "node_ok nodes i \<longleftrightarrow> rn_id (nodes ! i) = of_nat i + 1
     \<and> (rn_type (nodes ! i) = RAMFS_NODE_DIRECTORY \<or> rn_type (nodes ! i) = RAMFS_NODE_FILE)
     \<and> length (rn_name (nodes ! i)) = 32 \<and> length (rn_contents (nodes ! i)) = 256
     \<and> unat (rn_length (nodes ! i)) \<le> 256"

text \<open>The node in slot \<open>i\<close> hangs below the root.\<close>

inductive anchored :: "ramfs \<Rightarrow> nat \<Rightarrow> bool" for nodes :: ramfs where
  root: "rn_active (nodes ! 0) \<Longrightarrow> rn_parent_id (nodes ! 0) = 0 \<Longrightarrow> anchored nodes 0"
| child: "anchored nodes p \<Longrightarrow> rn_type (nodes ! p) = RAMFS_NODE_DIRECTORY \<Longrightarrow> p < length nodes
    \<Longrightarrow> rn_active (nodes ! i) \<Longrightarrow> rn_parent_id (nodes ! i) = rn_id (nodes ! p) \<Longrightarrow> i \<noteq> 0 \<Longrightarrow> anchored nodes i"

inductive_cases anchored_cases: "anchored nodes i"

definition tree_ok :: "ramfs \<Rightarrow> bool" where
  "tree_ok nodes \<longleftrightarrow> length nodes = 64
     \<and> rn_active (nodes ! 0) \<and> rn_type (nodes ! 0) = RAMFS_NODE_DIRECTORY \<and> rn_parent_id (nodes ! 0) = 0
     \<and> (\<forall>i<64. rn_active (nodes ! i) \<longrightarrow> node_ok nodes i \<and> anchored nodes i)"

lemma anchored_active: "anchored nodes i \<Longrightarrow> rn_active (nodes ! i)"
  by (induction rule: anchored.induct)

lemma tree_okD:
  assumes "tree_ok nodes"
  shows "length nodes = 64" "rn_active (nodes ! 0)" "rn_type (nodes ! 0) = RAMFS_NODE_DIRECTORY"
    "rn_parent_id (nodes ! 0) = 0"
    "\<And>i. i < 64 \<Longrightarrow> rn_active (nodes ! i) \<Longrightarrow> node_ok nodes i"
    "\<And>i. i < 64 \<Longrightarrow> rn_active (nodes ! i) \<Longrightarrow> anchored nodes i"
  using assms by (auto simp: tree_ok_def)

lemma slot_id_inj: "i < 64 \<Longrightarrow> j < 64 \<Longrightarrow> (of_nat i + 1 :: u32) = of_nat j + 1 \<longleftrightarrow> i = j"
  using small_of_nat_eq [of i j] by simp

lemma slot_id_nonzero: "i < 64 \<Longrightarrow> (of_nat i + 1 :: u32) \<noteq> 0"
proof -
  assume "i < 64"
  then have "(of_nat (Suc i) :: u32) \<noteq> 0" using small_of_nat_eq_0 [of "Suc i"] by simp
  then show ?thesis by (simp add: add.commute)
qed

lemma tree_ids:
  assumes t: "tree_ok nodes" and i: "i < 64" "rn_active (nodes ! i)"
  shows "rn_id (nodes ! i) = of_nat i + 1" "rn_id (nodes ! i) \<noteq> 0"
    "ramfs_find_node nodes (rn_id (nodes ! i)) = Some i"
    "j < 64 \<Longrightarrow> rn_active (nodes ! j) \<Longrightarrow> rn_id (nodes ! j) = rn_id (nodes ! i) \<Longrightarrow> j = i"
proof -
  have eq: "rn_id (nodes ! j) = of_nat j + 1" if "j < 64" "rn_active (nodes ! j)" for j
    using tree_okD(5) [OF t that] by (simp add: node_ok_def)
  show 1: "rn_id (nodes ! i) = of_nat i + 1" using eq [OF i] .
  show "rn_id (nodes ! i) \<noteq> 0" using 1 slot_id_nonzero [OF i(1)] by simp
  have inj: "j = k" if "j < 64" "k < 64" "rn_active (nodes ! j)" "rn_active (nodes ! k)"
    "rn_id (nodes ! j) = rn_id (nodes ! k)" for j k
    using slot_id_inj [OF that(1,2)] eq that by simp
  show "j < 64 \<Longrightarrow> rn_active (nodes ! j) \<Longrightarrow> rn_id (nodes ! j) = rn_id (nodes ! i) \<Longrightarrow> j = i"
    by (rule inj [OF _ i(1) _ i(2)])
  have "keys_distinct rn_active rn_id nodes"
    using inj tree_okD(1) [OF t] by (auto simp: keys_distinct_def)
  from slot_of_eq [OF this] show "ramfs_find_node nodes (rn_id (nodes ! i)) = Some i"
    using i tree_okD(1) [OF t] by (simp add: ramfs_find_node_def)
qed

lemma find_nodeD:
  assumes "tree_ok nodes" and "ramfs_find_node nodes node_id = Some i"
  shows "i < 64" "rn_active (nodes ! i)" "rn_id (nodes ! i) = node_id"
  using slot_ofD [of rn_active rn_id nodes node_id i] assms tree_okD(1) [OF assms(1)]
  by (simp_all add: ramfs_find_node_def)

lemma find_childD:
  assumes "tree_ok nodes" and "ramfs_find_child nodes p segment = Some i"
  shows "i < 64" "rn_active (nodes ! i)" "rn_parent_id (nodes ! i) = rn_id (nodes ! p)"
    "text_equals_segment (node_text (nodes ! i)) segment"
proof -
  have "first_index (\<lambda>n. rn_active n \<and> rn_parent_id n = rn_id (nodes ! p)
      \<and> text_equals_segment (node_text n) segment) nodes = Some i"
    using assms(2) by (simp add: ramfs_find_child_def split: if_splits)
  from first_index_SomeD(1,2) [OF this] tree_okD(1) [OF assms(1)]
  show "i < 64" "rn_active (nodes ! i)" "rn_parent_id (nodes ! i) = rn_id (nodes ! p)"
    "text_equals_segment (node_text (nodes ! i)) segment" by auto
qed

text \<open>A child found in a directory is never the root.\<close>

lemma child_not_root:
  assumes t: "tree_ok nodes" and p: "p < 64" "rn_active (nodes ! p)"
    and i: "rn_parent_id (nodes ! i) = rn_id (nodes ! p)"
  shows "i \<noteq> 0"
  using tree_ids(2) [OF t p] tree_okD(4) [OF t] i by (metis)

abbreviation directory_at :: "ramfs \<Rightarrow> nat \<Rightarrow> bool" where
  "directory_at nodes i \<equiv> i < 64 \<and> rn_active (nodes ! i) \<and> rn_type (nodes ! i) = RAMFS_NODE_DIRECTORY"

lemma walk_loop_directory:
  "tree_ok nodes \<Longrightarrow> directory_at nodes current \<Longrightarrow> walk_loop nodes current path = Some (p, leaf) \<Longrightarrow>
    directory_at nodes p \<and> leaf \<noteq> []"
proof (induction nodes current path rule: walk_loop.induct)
  case (1 nodes current path)
  note t = find_childD(1,2) [OF 1(3)]
  show ?case
    using 1 t unfolding walk_loop.simps [of nodes current path] Let_def
    by (auto split: if_splits option.splits)
qed

lemma walk_parentD:
  assumes t: "tree_ok nodes" and w: "ramfs_walk_parent nodes base path = Some (p, leaf)"
  shows "directory_at nodes p" "leaf \<noteq> []"
proof -
  obtain current where current: "ramfs_find_node nodes base = Some current"
    "rn_type (nodes ! current) = RAMFS_NODE_DIRECTORY"
    using w by (auto simp: ramfs_walk_parent_def split: if_splits option.splits)
  have c: "directory_at nodes current" using find_nodeD [OF t current(1)] current(2) by simp
  have r: "directory_at nodes root" if "ramfs_find_node nodes RAMFS_NODE_ROOT = Some root" for root
    using find_nodeD [OF t that] tree_ids(4) [OF t, of 0 root] tree_ids(1) [OF t _ tree_okD(2) [OF t]] tree_okD(2,3) [OF t]
    by auto
  have "\<exists>start path'. directory_at nodes start \<and> walk_loop nodes start path' = Some (p, leaf)"
    using w c r current by (auto simp: ramfs_walk_parent_def split: if_splits option.splits)
  then show "directory_at nodes p" "leaf \<noteq> []" using walk_loop_directory [OF t] by blast+
qed


section \<open>The loop over parent links\<close>

lemma chain_step:
  assumes t: "tree_ok nodes" and i: "i < 64" "rn_active (nodes ! i)"
  shows "ramfs_parent_chain_contains nodes (rn_id (nodes ! i)) a =
    (if rn_id (nodes ! i) = a then Some True
     else ramfs_parent_chain_contains nodes (rn_parent_id (nodes ! i)) a)"
  using tree_ids(2,3) [OF t i] by (subst ramfs_parent_chain_contains.simps) simp

lemma chain_zero: "ramfs_parent_chain_contains nodes 0 a = Some False"
  by (subst ramfs_parent_chain_contains.simps) simp

lemma anchored_less:
  assumes "tree_ok nodes" and "anchored nodes i" and "i = 0 \<or> i < length nodes"
  shows "i < 64"
  using assms tree_okD(1) [OF assms(1)] by auto

lemma chain_total:
  assumes t: "tree_ok nodes"
  shows "anchored nodes i \<Longrightarrow> i < 64 \<Longrightarrow>
    (\<exists>b. ramfs_parent_chain_contains nodes (rn_id (nodes ! i)) a = Some b)
    \<and> ramfs_parent_chain_contains nodes (rn_id (nodes ! i)) RAMFS_NODE_ROOT = Some True"
proof (induction rule: anchored.induct)
  case root
  then show ?case
    using chain_step [OF t, of 0] chain_zero [of nodes] tree_ids(1) [OF t, of 0] by (simp add: ex_bool_eq)
next
  case (child p i)
  have "p < 64" using child.hyps tree_okD(1) [OF t] by simp
  then show ?case
    using child.IH child.hyps(5) chain_step [OF t child.prems child.hyps(4)]
    by (simp add: ex_bool_eq)
qed


section \<open>Operations keep the tree\<close>

text \<open>Links that survive: the nodes in use of \<open>nodes\<close> keep their links in \<open>nodes'\<close>.\<close>

lemma anchored_mono:
  assumes len: "length nodes' = length nodes" "0 < length nodes"
    and same: "\<And>j. j < length nodes \<Longrightarrow> rn_active (nodes ! j) \<Longrightarrow>
      rn_active (nodes' ! j) \<and> rn_parent_id (nodes' ! j) = rn_parent_id (nodes ! j)
      \<and> rn_id (nodes' ! j) = rn_id (nodes ! j) \<and> rn_type (nodes' ! j) = rn_type (nodes ! j)"
  shows "anchored nodes i \<Longrightarrow> i < length nodes \<Longrightarrow> anchored nodes' i"
proof (induction rule: anchored.induct)
  case root
  then show ?case using same [of 0] by (simp add: anchored.root)
next
  case (child p i)
  have p: "rn_active (nodes ! p)" using anchored_active child.hyps(1) .
  show ?case
    by (rule anchored.child [of _ p])
      (use child same [OF \<open>p < length nodes\<close> p] same [OF child.prems child.hyps(4)] len in simp_all)
qed

lemma tree_ok_update:
  assumes t: "tree_ok nodes" and i: "i < 64" "i \<noteq> 0 \<or> rn_parent_id n = 0 \<and> rn_type n = RAMFS_NODE_DIRECTORY"
    and keep: "rn_active (nodes ! i) \<Longrightarrow> rn_parent_id n = rn_parent_id (nodes ! i)
      \<and> rn_id n = rn_id (nodes ! i) \<and> rn_type n = rn_type (nodes ! i)"
    and n: "rn_active n" "node_ok (nodes[i := n]) i"
    and p: "\<not> rn_active (nodes ! i) \<Longrightarrow> directory_at nodes p \<and> rn_parent_id n = rn_id (nodes ! p)"
  shows "tree_ok (nodes[i := n])"
proof -
  note len = tree_okD(1) [OF t]
  have get: "nodes[i := n] ! j = (if j = i then n else nodes ! j)" for j
    using i(1) len by simp
  have mono: "anchored (nodes[i := n]) j" if "j < 64" "rn_active (nodes ! j)" for j
  proof (rule anchored_mono [OF _ _ _ tree_okD(6) [OF t that]])
    fix q
    assume "q < length nodes" "rn_active (nodes ! q)"
    then show "rn_active (nodes[i := n] ! q) \<and> rn_parent_id (nodes[i := n] ! q) = rn_parent_id (nodes ! q)
      \<and> rn_id (nodes[i := n] ! q) = rn_id (nodes ! q) \<and> rn_type (nodes[i := n] ! q) = rn_type (nodes ! q)"
      using keep n(1) by (cases "q = i") (simp_all add: get)
  qed (use len that in simp_all)
  have "anchored (nodes[i := n]) i"
  proof (cases "rn_active (nodes ! i)")
    case False
    note p = p [OF False]
    have "i \<noteq> 0" using False tree_okD(2) [OF t] by metis
    moreover have "p \<noteq> i" using False p by auto
    ultimately show ?thesis
      using p len n(1) mono [of p] by - (rule anchored.child [of _ p], simp_all add: get)
  qed (use mono i in simp)
  then have "node_ok (nodes[i := n]) j \<and> anchored (nodes[i := n]) j"
    if "j < 64" "rn_active (nodes[i := n] ! j)" for j
    using n(2) mono tree_okD(5) [OF t, of j] that by (cases "j = i") (simp_all add: get node_ok_def)
  moreover have "rn_active (nodes[i := n] ! 0) \<and> rn_type (nodes[i := n] ! 0) = RAMFS_NODE_DIRECTORY
      \<and> rn_parent_id (nodes[i := n] ! 0) = 0"
    using tree_okD(2-4) [OF t] n(1) i(2) by (auto simp: get)
  ultimately show ?thesis using len by (simp add: tree_ok_def)
qed

lemma zero_node_simps [simp]:
  "rn_id zero_node = 0" "rn_parent_id zero_node = 0" "rn_type zero_node = 0" "\<not> rn_active zero_node"
  "length (rn_name zero_node) = 32" "length (rn_contents zero_node) = 256" "rn_length zero_node = 0"
  by (simp_all add: zero_node_def RAMFS_NAME_CAPACITY_def RAMFS_FILE_CAPACITY_def)

lemma length_name_field: "length name < 32 \<Longrightarrow> length (name_field name) = 32"
  by (simp add: name_field_def RAMFS_NAME_CAPACITY_def)

lemma create_tree:
  assumes t: "tree_ok nodes"
  shows "tree_ok (snd (ramfs_create base path node_type nodes))"
proof -
  have "tree_ok nodes1" if w: "ramfs_walk_parent nodes base path = Some (p, leaf)"
    and c: "ramfs_create_child nodes p leaf node_type = Some (i, nodes1)"
    and ty: "node_type = RAMFS_NODE_DIRECTORY \<or> node_type = RAMFS_NODE_FILE" for p leaf i nodes1
  proof -
    from c obtain a: "first_index (\<lambda>n. \<not> rn_active n) nodes = Some i" and len: "length leaf < 32"
      and n1: "nodes1 = nodes[i := zero_node\<lparr>rn_active := True, rn_id := of_nat i + 1,
        rn_parent_id := rn_id (nodes ! p), rn_type := node_type, rn_name := name_field leaf, rn_length := 0\<rparr>]"
      by (auto simp: ramfs_create_child_def ramfs_allocate_node_def RAMFS_NAME_CAPACITY_def
          split: if_splits option.splits dest: first_index_SomeD)
    have i: "i < 64" "\<not> rn_active (nodes ! i)"
      using first_index_SomeD(1,2) [OF a] tree_okD(1) [OF t] by simp_all
    have "i \<noteq> 0" using i(2) tree_okD(2) [OF t] by metis
    then show ?thesis
      unfolding n1 using i ty len walk_parentD(1) [OF t w] tree_okD(1) [OF t]
      by (intro tree_ok_update [OF t, of i _ p]) (auto simp: node_ok_def length_name_field)
  qed
  then show ?thesis
    using t by (auto simp: ramfs_create_def split: if_splits option.splits prod.splits)
qed

lemma length_written_contents:
  "off + length bytes \<le> length c \<Longrightarrow> len \<le> length c \<Longrightarrow> length (written_contents c len off bytes) = length c"
  by (auto simp: written_contents_def Let_def)

lemma write_file_eq:
  assumes "ramfs_find_node nodes node_id = Some i" and "rn_type (nodes ! i) = RAMFS_NODE_FILE" and "unat off \<le> 256"
    and "actual = take (256 - unat off) bytes" and "stop = unat off + length actual"
  shows "ramfs_write node_id off bytes nodes = (Some (of_nat (length actual)),
    nodes[i := (nodes ! i)\<lparr>rn_contents := written_contents (rn_contents (nodes ! i)) (unat (rn_length (nodes ! i)))
                                            (unat off) actual,
                           rn_length := (if stop > unat (rn_length (nodes ! i)) then of_nat stop
                                         else rn_length (nodes ! i))\<rparr>])"
  unfolding assms(4,5) using assms(1-3) by (simp add: ramfs_write_def Let_def RAMFS_FILE_CAPACITY_def)

lemma write_refused:
  assumes "\<forall>i. ramfs_find_node nodes node_id = Some i \<longrightarrow> rn_type (nodes ! i) \<noteq> RAMFS_NODE_FILE \<or> unat off > 256"
  shows "ramfs_write node_id off bytes nodes = (None, nodes)"
  using assms by (cases "ramfs_find_node nodes node_id")
    (auto simp: ramfs_write_def Let_def RAMFS_FILE_CAPACITY_def)

lemma small_length: "n \<le> 256 \<Longrightarrow> unat (of_nat n :: u32) = n"
  by (simp add: unsigned_of_nat take_bit_nat_eq_self)

lemma write_tree:
  assumes t: "tree_ok nodes"
  shows "tree_ok (snd (ramfs_write node_id off bytes nodes))"
proof (cases "\<exists>i. ramfs_find_node nodes node_id = Some i \<and> rn_type (nodes ! i) = RAMFS_NODE_FILE \<and> unat off \<le> 256")
  case True
  then obtain i where f: "ramfs_find_node nodes node_id = Some i" "rn_type (nodes ! i) = RAMFS_NODE_FILE"
    "unat off \<le> 256" by blast
  note i = find_nodeD [OF t f(1)]
  have ok: "node_ok nodes i" by (rule tree_okD(5) [OF t i(1,2)])
  define actual where "actual = take (256 - unat off) bytes"
  define stop where "stop = unat off + length actual"
  have le: "stop \<le> 256" using f(3) by (auto simp: stop_def actual_def min_def)
  define n where "n = (nodes ! i)\<lparr>rn_contents := written_contents (rn_contents (nodes ! i))
      (unat (rn_length (nodes ! i))) (unat off) actual,
    rn_length := (if stop > unat (rn_length (nodes ! i)) then of_nat stop else rn_length (nodes ! i))\<rparr>"
  have "length (rn_contents n) = 256"
    using length_written_contents [of "unat off" actual "rn_contents (nodes ! i)"] ok le
    by (simp add: n_def node_ok_def stop_def)
  moreover have "unat (rn_length n) \<le> 256" using ok le small_length [OF le] by (simp add: n_def node_ok_def)
  ultimately have "node_ok (nodes[i := n]) i"
    using ok i(1) tree_okD(1) [OF t] by (simp add: node_ok_def n_def)
  moreover have "i \<noteq> 0"
  proof
    assume "i = 0"
    then show False using f(2) tree_okD(3) [OF t] by simp
  qed
  ultimately have "tree_ok (nodes[i := n])"
    by (intro tree_ok_update [OF t i(1)]) (use i(2) in \<open>simp_all add: n_def\<close>)
  then show ?thesis unfolding write_file_eq [OF f actual_def stop_def] by (simp add: n_def)
next
  case False
  then have "ramfs_write node_id off bytes nodes = (None, nodes)" by (intro write_refused) auto
  then show ?thesis using t by simp
qed

lemma delete_tree:
  assumes t: "tree_ok nodes"
  shows "tree_ok (snd (ramfs_delete base path nodes))"
proof -
  have "tree_ok (nodes[i := zero_node])"
    if w: "ramfs_walk_parent nodes base path = Some (p, leaf)" and c: "ramfs_find_child nodes p leaf = Some i"
      and leaf: "\<not> (rn_type (nodes ! i) = RAMFS_NODE_DIRECTORY \<and> ramfs_child_count nodes i \<noteq> 0)" for p leaf i
  proof -
    note len = tree_okD(1) [OF t]
    note i = find_childD [OF t c]
    have i0: "i \<noteq> 0" by (rule child_not_root [OF t _ _ i(3)]) (use walk_parentD(1) [OF t w] in simp_all)
    have no_child: "rn_parent_id (nodes ! j) \<noteq> rn_id (nodes ! i)"
      if j: "j < 64" "rn_active (nodes ! j)" and dir: "rn_type (nodes ! i) = RAMFS_NODE_DIRECTORY" for j
    proof
      assume "rn_parent_id (nodes ! j) = rn_id (nodes ! i)"
      then have "0 < count_if (\<lambda>n. rn_active n \<and> rn_parent_id n = rn_id (nodes ! i)) nodes"
        using j len by (intro count_if_pos) auto
      moreover have "count_if (\<lambda>n. rn_active n \<and> rn_parent_id n = rn_id (nodes ! i)) nodes \<le> 64"
        using count_if_le [of _ nodes] len by simp
      ultimately show False
        using leaf dir small_of_nat_eq_0 by (simp add: ramfs_child_count_def)
    qed
    have "anchored nodes j \<Longrightarrow> j < 64 \<Longrightarrow> j \<noteq> i \<Longrightarrow> anchored (nodes[i := zero_node]) j" for j
    proof (induction rule: anchored.induct)
      case root
      then show ?case by (simp add: anchored.root)
    next
      case (child q j)
      have "q \<noteq> i" using no_child [OF child.prems(1) child.hyps(4)] child.hyps(2,5) by auto
      then show ?case
        using child len by - (rule anchored.child [of _ q], auto)
    qed
    then show ?thesis
      using t i0 i(1) len unfolding tree_ok_def by (auto simp: nth_list_update node_ok_def)
  qed
  then show ?thesis
    using t by (auto simp: ramfs_delete_def split: if_splits option.splits)
qed

text \<open>Moving a subtree: the new parent does not lie below the node moved.\<close>

lemma relink_tree:
  assumes t: "tree_ok nodes" and d: "directory_at nodes d" and i: "i < 64" "rn_active (nodes ! i)" "i \<noteq> 0"
    and out: "rn_type (nodes ! i) = RAMFS_NODE_DIRECTORY \<Longrightarrow>
      ramfs_parent_chain_contains nodes (rn_id (nodes ! d)) (rn_id (nodes ! i)) = Some False"
    and name: "length name = 32"
  shows "tree_ok (nodes[i := (nodes ! i)\<lparr>rn_parent_id := rn_id (nodes ! d), rn_name := name\<rparr>])"
    (is "tree_ok ?nodes")
proof -
  note len = tree_okD(1) [OF t]
  have get: "?nodes ! j = (if j = i then (nodes ! i)\<lparr>rn_parent_id := rn_id (nodes ! d), rn_name := name\<rparr> else nodes ! j)"
    for j using i(1) len by simp
  have above: "anchored nodes q \<Longrightarrow> q < 64 \<Longrightarrow>
      ramfs_parent_chain_contains nodes (rn_id (nodes ! q)) (rn_id (nodes ! i)) = Some False \<Longrightarrow>
      anchored ?nodes q" for q
  proof (induction rule: anchored.induct)
    case root
    then show ?case using i(3) by (simp add: get anchored.root)
  next
    case (child r q)
    have r: "r < 64" "rn_active (nodes ! r)" using child.hyps len anchored_active by auto
    note ch = chain_step [OF t child.prems(1) child.hyps(4), of "rn_id (nodes ! i)"]
    have q: "q \<noteq> i" using ch child.prems(2) by auto
    have "ramfs_parent_chain_contains nodes (rn_id (nodes ! r)) (rn_id (nodes ! i)) = Some False"
      using ch child.prems(2) child.hyps(5) by (simp split: if_splits)
    with child.IH r show ?case
      using child q len by - (rule anchored.child [of _ r], auto simp: get)
  qed
  have "anchored ?nodes d"
  proof (cases "rn_type (nodes ! i) = RAMFS_NODE_DIRECTORY")
    case True
    then show ?thesis using above [OF tree_okD(6) [OF t]] d out by simp
  next
    case False
    have "anchored nodes q \<Longrightarrow> q < 64 \<Longrightarrow> q \<noteq> i \<Longrightarrow> anchored ?nodes q" for q
    proof (induction rule: anchored.induct)
      case root
      then show ?case using i(3) by (simp add: get anchored.root)
    next
      case (child r q)
      have "r \<noteq> i" using child.hyps(2) False by auto
      then show ?case using child len by - (rule anchored.child [of _ r], auto simp: get)
    qed
    moreover have "d \<noteq> i" using d False by auto
    ultimately show ?thesis using tree_okD(6) [OF t] d by blast
  qed
  then have ai: "anchored ?nodes i"
    using d i len by - (rule anchored.child [of _ d], auto simp: get)
  have "anchored nodes q \<Longrightarrow> q < 64 \<Longrightarrow> anchored ?nodes q" for q
  proof (induction rule: anchored.induct)
    case root
    then show ?case using i(3) by (simp add: get anchored.root)
  next
    case (child r q)
    show ?case
    proof (cases "q = i")
      case False
      then show ?thesis using child len by - (rule anchored.child [of _ r], auto simp: get)
    qed (use ai in simp)
  qed
  then show ?thesis
    using t i name len unfolding tree_ok_def by (auto simp: get node_ok_def)
qed

lemma move_tree:
  assumes t: "tree_ok nodes"
  obtains b nodes' where "ramfs_move sb sp db dp nodes = Some (b, nodes')" "tree_ok nodes'"
proof -
  have "\<exists>b nodes'. ramfs_move sb sp db dp nodes = Some (b, nodes') \<and> tree_ok nodes'"
  proof (cases "\<exists>p l d leaf i. ramfs_walk_parent nodes sb sp = Some (p, l)
      \<and> ramfs_walk_parent nodes db dp = Some (d, leaf) \<and> length leaf < 32
      \<and> ramfs_find_child nodes p l = Some i \<and> ramfs_find_child nodes d leaf = None")
    case False
    then have "\<exists>b. ramfs_move sb sp db dp nodes = Some (b, nodes)"
      by (auto simp: ramfs_move_def RAMFS_NAME_CAPACITY_def not_le split: option.split)
    then show ?thesis using t by blast
  next
    case True
    then obtain p l d leaf i where a: "ramfs_walk_parent nodes sb sp = Some (p, l)"
      "ramfs_walk_parent nodes db dp = Some (d, leaf)" "length leaf < 32"
      "ramfs_find_child nodes p l = Some i" "ramfs_find_child nodes d leaf = None" by blast
    note p = walk_parentD [OF t a(1)] and d = walk_parentD [OF t a(2)]
    note i = find_childD [OF t a(4)]
    have i0: "i \<noteq> 0" by (rule child_not_root [OF t _ _ i(3)]) (use p(1) in simp_all)
    define nodes' where "nodes' = nodes[i := (nodes ! i)\<lparr>rn_parent_id := rn_id (nodes ! d), rn_name := name_field leaf\<rparr>]"
    obtain b where b: "ramfs_parent_chain_contains nodes (rn_id (nodes ! d)) (rn_id (nodes ! i)) = Some b"
      using chain_total [OF t tree_okD(6) [OF t, of d], of "rn_id (nodes ! i)"] d(1) by auto
    have ok: "tree_ok nodes'" if "rn_type (nodes ! i) = RAMFS_NODE_DIRECTORY \<Longrightarrow> \<not> b"
      unfolding nodes'_def
      by (rule relink_tree [OF t d(1) i(1,2) i0]) (use that b a(3) in \<open>simp_all add: length_name_field\<close>)
    have "ramfs_move sb sp db dp nodes =
        Some (if rn_type (nodes ! i) = RAMFS_NODE_DIRECTORY \<and> b then (False, nodes) else (True, nodes'))"
      using a b d(2) by (auto simp: ramfs_move_def RAMFS_NAME_CAPACITY_def nodes'_def Let_def)
    then show ?thesis using ok t by (auto split: if_splits)
  qed
  then show thesis using that by blast
qed



section \<open>The seeded file system\<close>

lemma seeded_node_simps [simp]:
  "rn_active (seeded_node s)" "rn_id (seeded_node s) = sn_id s" "rn_parent_id (seeded_node s) = sn_parent_id s"
  "rn_type (seeded_node s) = sn_type s" "length (rn_name (seeded_node s)) = 32"
  "length (rn_contents (seeded_node s)) = 256" "unat (rn_length (seeded_node s)) \<le> 256"
  using small_length
  by (auto simp: seeded_node_def Let_def name_field_def RAMFS_NAME_CAPACITY_def RAMFS_FILE_CAPACITY_def split: option.split)

lemma seed_fold:
  assumes "\<forall>j<length seeds. sn_id (seeds ! j) = of_nat j + 1" and "length seeds \<le> 64"
  shows "fold ramfs_seed_node_copy seeds (replicate 64 zero_node)
    = map seeded_node seeds @ replicate (64 - length seeds) zero_node"
  using assms
proof (induction seeds rule: rev_induct)
  case (snoc s seeds)
  define n where "n = length seeds"
  have n: "n < 64" using snoc.prems(2) by (simp add: n_def)
  define nodes where "nodes = map seeded_node seeds @ replicate (64 - n) zero_node"
  have get: "nodes ! j = (if j < n then seeded_node (seeds ! j) else zero_node)" if "j < 64" for j
    using that by (simp add: nodes_def n_def nth_append)
  have ids: "sn_id (seeds ! j) = of_nat j + 1" if "j < n" for j
    using snoc.prems(1) that by (metis n_def length_append_singleton less_SucI nth_append)
  have sid: "sn_id s = of_nat n + 1" using snoc.prems(1) by (auto simp: n_def nth_append)
  have len: "length nodes = 64" using n by (simp add: nodes_def n_def)
  have "fold ramfs_seed_node_copy seeds (replicate 64 zero_node) = nodes"
    unfolding nodes_def n_def
  proof (rule snoc.IH)
    show "\<forall>j<length seeds. sn_id (seeds ! j) = of_nat j + 1" using ids by (simp add: n_def)
  qed (use snoc.prems(2) in simp)
  moreover have "ramfs_find_node nodes (sn_id s) = None"
    unfolding ramfs_find_node_def slot_of_def first_index_None_iff
  proof
    fix x
    assume "x \<in> set nodes"
    then obtain j where j: "j < 64" "x = nodes ! j" using len by (metis in_set_conv_nth)
    show "\<not> (rn_active x \<and> rn_id x = sn_id s)"
      using j get [OF j(1)] ids [of j] sid slot_id_inj [OF j(1) n] by auto
  qed
  moreover have "first_index (\<lambda>x. \<not> rn_active x) nodes = Some n"
    unfolding first_index_Some_iff using len n get by auto
  ultimately have "fold ramfs_seed_node_copy (seeds @ [s]) (replicate 64 zero_node) = nodes[n := seeded_node s]"
    by (simp add: ramfs_seed_node_copy_def ramfs_allocate_node_def)
  also have "\<dots> = map seeded_node (seeds @ [s]) @ replicate (64 - length (seeds @ [s])) zero_node"
  proof -
    have "replicate (64 - n) zero_node = zero_node # replicate (64 - Suc n) zero_node"
      using n by (metis Suc_diff_Suc replicate_Suc)
    then show ?thesis by (simp add: nodes_def n_def list_update_append)
  qed
  finally show ?case .
qed simp

lemma seed_facts:
  "length seed_nodes = 26"
  "list_all (\<lambda>(i, s). sn_id s = of_nat i + 1 \<and> (sn_type s = 1 \<or> sn_type s = 2)
     \<and> (if i = 0 then sn_parent_id s = 0 \<and> sn_type s = 1
        else sn_parent_id s = 1 \<or> 3 < i \<and> sn_parent_id s = 4) \<and> (i = 3 \<longrightarrow> sn_type s = 1))
     (zip [0..<26] seed_nodes)"
  by (code_simp, code_simp)

lemma init_eq: "ramfs_init = map seeded_node seed_nodes @ replicate 38 zero_node"
proof -
  have "\<forall>j<length seed_nodes. sn_id (seed_nodes ! j) = of_nat j + 1"
    using seed_facts by (auto simp: list_all_length)
  then show ?thesis
    using seed_fold [of seed_nodes] seed_facts(1) by (simp add: ramfs_init_def RAMFS_NODE_LIMIT_def)
qed

lemma init_tree: "tree_ok ramfs_init"
proof -
  have seed: "sn_id (seed_nodes ! i) = of_nat i + 1"
    "sn_type (seed_nodes ! i) = 1 \<or> sn_type (seed_nodes ! i) = 2"
    "if i = 0 then sn_parent_id (seed_nodes ! i) = 0 \<and> sn_type (seed_nodes ! i) = 1
     else sn_parent_id (seed_nodes ! i) = 1 \<or> 3 < i \<and> sn_parent_id (seed_nodes ! i) = 4"
    "i = 3 \<longrightarrow> sn_type (seed_nodes ! i) = 1" if "i < 26" for i
    using seed_facts(2) that seed_facts(1) by (auto simp: list_all_length)
  define nodes where "nodes = map seeded_node seed_nodes @ replicate 38 zero_node"
  have init: "ramfs_init = nodes" by (simp add: init_eq nodes_def)
  have get: "nodes ! i = (if i < 26 then seeded_node (seed_nodes ! i) else zero_node)" if "i < 64" for i
    using that seed_facts(1) by (simp add: nodes_def nth_append)
  have a0: "anchored nodes 0" by (rule anchored.root) (use get [of 0] seed(3) [of 0] in simp_all)
  have one: "anchored nodes i" if "i < 26" "i \<noteq> 0" "sn_parent_id (seed_nodes ! i) = 1" for i
    by (rule anchored.child [OF a0])
      (use that get [of i] get [of 0] seed(1,3) [of 0] seed_facts(1) in \<open>simp_all add: nodes_def\<close>)
  have a3: "anchored nodes 3" by (rule one) (use seed(3) [of 3] in simp_all)
  have "anchored nodes i" if "i < 26" for i
  proof (cases "i = 0 \<or> sn_parent_id (seed_nodes ! i) = 1")
    case True
    then show ?thesis using a0 one that by auto
  next
    case False
    then show ?thesis
      by (intro anchored.child [OF a3])
        (use that seed(3) [OF that] get [of i] get [of 3] seed(1,4) [of 3] seed_facts(1) in \<open>auto simp: nodes_def\<close>)
  qed
  then show ?thesis
    using get [of 0] seed(3) [of 0] get seed(1,2) seed_facts(1)
    by (auto simp: init tree_ok_def node_ok_def nodes_def [symmetric]) (simp add: nodes_def)
qed


section \<open>Runs\<close>

datatype ramfs_op =
    Ramfs_Create u32 "u8 list" u32
  | Ramfs_Write u32 u32 "u8 list"
  | Ramfs_Move u32 "u8 list" u32 "u8 list"
  | Ramfs_Delete u32 "u8 list"

fun ramfs_op_step :: "ramfs_op \<Rightarrow> ramfs \<Rightarrow> ramfs option" where
  "ramfs_op_step (Ramfs_Create base path node_type) nodes = Some (snd (ramfs_create base path node_type nodes))"
| "ramfs_op_step (Ramfs_Write node_id off bytes) nodes = Some (snd (ramfs_write node_id off bytes nodes))"
| "ramfs_op_step (Ramfs_Move sb sp db dp) nodes = map_option snd (ramfs_move sb sp db dp nodes)"
| "ramfs_op_step (Ramfs_Delete base path) nodes = Some (snd (ramfs_delete base path nodes))"

fun ramfs_run :: "ramfs_op list \<Rightarrow> ramfs \<Rightarrow> ramfs option" where
  "ramfs_run [] nodes = Some nodes"
| "ramfs_run (op # ops) nodes =
    (case ramfs_op_step op nodes of None \<Rightarrow> None | Some nodes1 \<Rightarrow> ramfs_run ops nodes1)"

lemma op_step_tree:
  assumes "tree_ok nodes"
  obtains nodes' where "ramfs_op_step op nodes = Some nodes'" "tree_ok nodes'"
proof (cases op)
  case (Ramfs_Move sb sp db dp)
  from move_tree [OF assms, of sb sp db dp] that show ?thesis by (auto simp: Ramfs_Move)
qed (use that create_tree [OF assms] write_tree [OF assms] delete_tree [OF assms] in auto)

lemma run_tree: "tree_ok nodes \<Longrightarrow> \<exists>nodes'. ramfs_run ops nodes = Some nodes' \<and> tree_ok nodes'"
proof (induction ops arbitrary: nodes)
  case (Cons op ops)
  from op_step_tree [OF Cons.prems, of op] obtain nodes1
    where "ramfs_op_step op nodes = Some nodes1" "tree_ok nodes1" .
  with Cons.IH show ?case by simp
qed simp

text \<open>
  C4: From the seeded file system on, every sequence of creations, writes, moves and deletions
  returns, and leaves a tree: the root is a directory, every node in use carries the id of its slot
  and is a well-formed file or directory, and following the parent links from it reaches the root. A
  move can therefore never detach a subtree or make a directory its own ancestor, and the loop over
  parent links that guards it, which would run forever on a cycle, always ends.
\<close>

theorem ramfs_stays_a_tree:
  "\<exists>nodes. ramfs_run ops ramfs_init = Some nodes \<and> tree_ok nodes
    \<and> (\<forall>i<64. rn_active (nodes ! i) \<longrightarrow>
         (\<forall>a. ramfs_parent_chain_contains nodes (rn_id (nodes ! i)) a \<noteq> None)
         \<and> ramfs_parent_chain_contains nodes (rn_id (nodes ! i)) RAMFS_NODE_ROOT = Some True)"
proof -
  obtain nodes where n: "ramfs_run ops ramfs_init = Some nodes" "tree_ok nodes"
    using run_tree [OF init_tree] by blast
  then show ?thesis using chain_total [OF n(2) tree_okD(6) [OF n(2)]] by blast
qed

theorem ramfs_stays_a_tree_witness:
  "\<exists>nodes. ramfs_run [Ramfs_Create 1 [0x61] RAMFS_NODE_DIRECTORY, Ramfs_Move 1 [0x61] 1 [0x61, 0x2F, 0x62]] ramfs_init
     = Some nodes \<and> ramfs_parent_chain_contains nodes RAMFS_NODE_ROOT RAMFS_NODE_ROOT = Some True"
proof -
  obtain nodes where n: "ramfs_run [Ramfs_Create 1 [0x61] RAMFS_NODE_DIRECTORY,
      Ramfs_Move 1 [0x61] 1 [0x61, 0x2F, 0x62]] ramfs_init = Some nodes"
    "tree_ok nodes" "ramfs_parent_chain_contains nodes (rn_id (nodes ! 0)) RAMFS_NODE_ROOT = Some True"
    using ramfs_stays_a_tree [of "[Ramfs_Create 1 [0x61] RAMFS_NODE_DIRECTORY, Ramfs_Move 1 [0x61] 1 [0x61, 0x2F, 0x62]]"]
      tree_okD(2) by (metis zero_less_numeral)
  then show ?thesis using tree_ids(1) [OF n(2), of 0] tree_okD(2) [OF n(2)] by auto
qed


section \<open>Files\<close>

text \<open>The bytes of a file, and what writing at an offset makes of a byte string.\<close>

definition file_bytes :: "ramfs_node \<Rightarrow> u8 list" where
  "file_bytes n = take (unat (rn_length n)) (rn_contents n)"

definition write_at :: "u8 list \<Rightarrow> nat \<Rightarrow> u8 list \<Rightarrow> u8 list" where
  "write_at old off bs = take off (old @ replicate (off - length old) 0) @ bs @ drop (off + length bs) old"

lemma written_contents_take:
  assumes "len \<le> length c" and "off + length bs \<le> length c"
  shows "take (max len (off + length bs)) (written_contents c len off bs) = write_at (take len c) off bs"
proof (cases "off > len")
  case True
  define c1 where "c1 = take len c @ replicate (off - len) 0 @ drop off c"
  have t: "take off c1 = take len c @ replicate (off - len) 0" using True assms by (simp add: c1_def)
  have "max len (off + length bs) = length (take off c1 @ bs)" using True assms by (simp add: t)
  then have "take (max len (off + length bs)) (take off c1 @ bs @ drop (off + length bs) c1) = take off c1 @ bs"
    by (metis append.assoc append_eq_conv_conj)
  moreover have "write_at (take len c) off bs = take off c1 @ bs"
    using True assms by (simp add: write_at_def t)
  ultimately show ?thesis using True by (simp add: written_contents_def c1_def [symmetric])
next
  case False
  have "bs = []" if "length c \<le> off" using that assms by (cases bs) auto
  then show ?thesis
    using False assms by (auto simp: written_contents_def write_at_def Let_def min_def max_def drop_take)
qed

lemma length_file_bytes: "node_ok nodes i \<Longrightarrow> length (file_bytes (nodes ! i)) = unat (rn_length (nodes ! i))"
  by (simp add: file_bytes_def node_ok_def)

text \<open>Reading, over the bytes of the file.\<close>

lemma ramfs_read_file:
  assumes t: "tree_ok nodes" and f: "ramfs_find_node nodes node_id = Some i" "rn_type (nodes ! i) = RAMFS_NODE_FILE"
  shows "ramfs_read nodes node_id off cap =
    (if unat off \<le> length (file_bytes (nodes ! i))
     then Some (take (unat cap) (drop (unat off) (file_bytes (nodes ! i)))) else None)"
proof -
  note i = find_nodeD [OF t f(1)]
  have ok: "node_ok nodes i" by (rule tree_okD(5) [OF t i(1,2)])
  define len where "len = rn_length (nodes ! i)"
  have "take (unat (if len - off > cap then cap else len - off)) (drop (unat off) (rn_contents (nodes ! i)))
      = take (unat cap) (drop (unat off) (take (unat len) (rn_contents (nodes ! i))))" if "off \<le> len"
    using that by (auto simp: drop_take min_def unat_sub word_less_nat_alt word_le_nat_alt)
  then show ?thesis
    using f length_file_bytes [OF ok]
    by (cases "off \<le> len")
      (auto simp: ramfs_read_def Let_def file_bytes_def len_def [symmetric] not_less word_le_nat_alt [symmetric]
        split: if_splits)
qed

text \<open>Writing, over the bytes of the file.\<close>

lemma ramfs_write_file:
  assumes t: "tree_ok nodes" and f: "ramfs_find_node nodes node_id = Some i"
    and ty: "rn_type (nodes ! i) = RAMFS_NODE_FILE" and off: "unat off \<le> 256"
    and actual: "actual = take (256 - unat off) bytes"
    and res: "ramfs_write node_id off bytes nodes = (code, nodes')"
  shows "code = Some (of_nat (length actual))" "tree_ok nodes'" "ramfs_find_node nodes' node_id = Some i"
    "rn_type (nodes' ! i) = RAMFS_NODE_FILE"
    "file_bytes (nodes' ! i) = write_at (file_bytes (nodes ! i)) (unat off) actual"
    "\<And>j. j \<noteq> i \<Longrightarrow> nodes' ! j = nodes ! j"
proof -
  define stop where "stop = unat off + length actual"
  note w = write_file_eq [OF f ty off actual stop_def]
  note i = find_nodeD [OF t f]
  note len = tree_okD(1) [OF t]
  have ok: "node_ok nodes i" by (rule tree_okD(5) [OF t i(1,2)])
  have stop: "stop \<le> 256" using off by (auto simp: stop_def actual min_def)
  show t': "tree_ok nodes'" using write_tree [OF t, of node_id off bytes] res by simp
  have n': "nodes' ! i = (nodes ! i)\<lparr>rn_contents := written_contents (rn_contents (nodes ! i))
      (unat (rn_length (nodes ! i))) (unat off) actual,
      rn_length := (if stop > unat (rn_length (nodes ! i)) then of_nat stop else rn_length (nodes ! i))\<rparr>"
    using res w i(1) len by auto
  show "ramfs_find_node nodes' node_id = Some i"
    using tree_ids(3) [OF t' i(1)] n' i(2,3) by simp
  have "unat (rn_length (nodes' ! i)) = max (unat (rn_length (nodes ! i))) stop"
    using small_length [OF stop] by (simp add: n' max_def)
  then show "file_bytes (nodes' ! i) = write_at (file_bytes (nodes ! i)) (unat off) actual"
    using written_contents_take [of "unat (rn_length (nodes ! i))" "rn_contents (nodes ! i)" "unat off" actual] ok stop
    by (simp add: file_bytes_def n' node_ok_def stop_def)
  show "nodes' ! j = nodes ! j" if "j \<noteq> i" for j using res w that by auto
  show "rn_type (nodes' ! i) = RAMFS_NODE_FILE" using ty by (simp add: n')
  show "code = Some (of_nat (length actual))" using res w by simp
qed

text \<open>
  C16: A file is a byte string of at most 256 bytes. A write at an offset within the capacity
  stores the bytes that fit, fills a gap behind the old end with zeros, reports how many
  bytes it stored and touches no other node; every read of the file afterwards, at any offset and of
  any length, returns exactly that part of the new byte string, and an offset behind its end is an
  error.
\<close>

theorem ramfs_write_then_read:
  assumes t: "tree_ok nodes" and f: "ramfs_find_node nodes node_id = Some i"
    and ty: "rn_type (nodes ! i) = RAMFS_NODE_FILE" and off: "unat off \<le> 256"
    and res: "ramfs_write node_id off bytes nodes = (code, nodes')"
  shows "let actual = take (256 - unat off) bytes; new = write_at (file_bytes (nodes ! i)) (unat off) actual in
    code = Some (of_nat (length actual))
    \<and> (\<forall>p c. ramfs_read nodes' node_id p c =
          (if unat p \<le> length new then Some (take (unat c) (drop (unat p) new)) else None))
    \<and> (\<forall>j. j \<noteq> i \<longrightarrow> nodes' ! j = nodes ! j)"
proof -
  note w = ramfs_write_file [OF t f ty off refl res]
  show ?thesis
    using w(1,6) ramfs_read_file [OF w(2,3,4), unfolded w(5)] by (simp add: Let_def)
qed

theorem ramfs_write_then_read_witness:
  "fst (ramfs_write 2 0 [0x41, 0x42] ramfs_init) = Some 2
   \<and> ramfs_read (snd (ramfs_write 2 0 [0x41, 0x42] ramfs_init)) 2 1 1 = Some [0x42]"
proof -
  have n: "ramfs_init ! 1 = seeded_node (seed_nodes ! 1)"
    using seed_facts(1) by (simp add: init_eq nth_append)
  have s: "sn_type (seed_nodes ! 1) = RAMFS_NODE_FILE" "sn_id (seed_nodes ! 1) = 2"
    by (simp_all add: seed_nodes_def)
  have f: "ramfs_find_node ramfs_init 2 = Some 1"
    using tree_ids(3) [OF init_tree, of 1] n s by simp
  have ty: "rn_type (ramfs_init ! 1) = RAMFS_NODE_FILE" using n s by simp
  show ?thesis
    using ramfs_write_then_read [OF init_tree f ty _ prod.collapse [symmetric], of 0 "[0x41, 0x42]"]
    by (simp add: Let_def write_at_def)
qed

end
