(* ===== verification/Fs_Inv.thy ===== *)
theory Fs_Inv
  imports Fs Ramfs_Inv
begin

text \<open>
  The invariant of the file service and what one request does to it. \<open>quiet\<close> is the effect of the
  checks: counters, the service capabilities, the device and the memory may change, and capabilities of
  the caller may lapse. \<open>spares\<close> is the promise to everybody else. Every operation is a quiet step,
  a change of the tree, and at most one grant.
\<close>

section \<open>The table of node capabilities\<close>

abbreviation (input) dir_rights :: u32 where "dir_rights \<equiv> 0xF500"
abbreviation (input) file_rights :: u32 where "file_rights \<equiv> 0x9A00"

definition node_cap_ok :: "u32 \<Rightarrow> fs64_node_capability \<Rightarrow> bool" where
  "node_cap_ok n r \<longleftrightarrow> FS64_HANDLE_BASE \<le> nc_handle r \<and> nc_handle r < n \<and> nc_parent_handle r < nc_handle r
     \<and> principal64_is_active (nc_owner_id r) \<and> (nc_rights r = dir_rights \<or> nc_rights r = file_rights)
     \<and> length (nc_path r) = 64 \<and> unat (nc_path_byte_count r) < 64"

definition node_caps_ok :: "u32 \<Rightarrow> fs64_node_capability list \<Rightarrow> bool" where
  "node_caps_ok n rs \<longleftrightarrow> length rs = 32 \<and> keys_distinct nc_active nc_handle rs
     \<and> (\<forall>r\<in>set rs. nc_active r \<longrightarrow> node_cap_ok n r)
     \<and> (\<forall>r\<in>set rs. \<forall>p\<in>set rs. nc_active r \<and> nc_active p \<and> nc_parent_handle r = nc_handle p
          \<longrightarrow> nc_owner_id r = nc_owner_id p)"

definition fs_inv :: "('d, 'a) kernel_fs_scheme \<Rightarrow> bool" where
  "fs_inv k \<longleftrightarrow> fs_initialized (k_fs k) \<and> tree_ok (k_ramfs k) \<and> FS64_HANDLE_BASE \<le> fs_next_handle (k_fs k)
     \<and> node_caps_ok (fs_next_handle (k_fs k)) (g_fs64_caps (k_fs k))"

lemma node_caps_okD:
  assumes "node_caps_ok n rs"
  shows "length rs = 32" "keys_distinct nc_active nc_handle rs"
    "\<And>r. r \<in> set rs \<Longrightarrow> nc_active r \<Longrightarrow> node_cap_ok n r"
    "\<And>r p. r \<in> set rs \<Longrightarrow> p \<in> set rs \<Longrightarrow> nc_active r \<Longrightarrow> nc_active p \<Longrightarrow> nc_parent_handle r = nc_handle p
       \<Longrightarrow> nc_owner_id r = nc_owner_id p"
  using assms by (auto simp: node_caps_ok_def)

lemma fs_invD:
  assumes "fs_inv k"
  shows "fs_initialized (k_fs k)" "tree_ok (k_ramfs k)" "FS64_HANDLE_BASE \<le> fs_next_handle (k_fs k)"
    "node_caps_ok (fs_next_handle (k_fs k)) (g_fs64_caps (k_fs k))" "length (g_fs64_caps (k_fs k)) = 32"
  using assms by (auto simp: fs_inv_def node_caps_ok_def)

lemma fs_inv_initialized [simp]: "fs_inv k \<Longrightarrow> fs64_ensure_init k = k"
  by (simp add: fs64_ensure_init_def fs_invD)

lemma clear_capability_inactive [simp]:
  "\<not> nc_active (fs64_clear_capability r)" "nc_handle (fs64_clear_capability r) = nc_handle r"
  by (simp_all add: fs64_clear_capability_def)

text \<open>Clearing any of the records keeps the table well formed.\<close>

lemma node_caps_ok_cleared:
  assumes ok: "node_caps_ok n rs" and len: "length rs' = length rs"
    and same: "\<And>i. i < length rs \<Longrightarrow> rs' ! i = rs ! i \<or> \<not> nc_active (rs' ! i)"
  shows "node_caps_ok n rs'"
proof -
  have old: "rs' ! i = rs ! i" if "i < length rs" "nc_active (rs' ! i)" for i using same that by blast
  then have mem: "r \<in> set rs" if "r \<in> set rs'" "nc_active r" for r
    using that len by (metis in_set_conv_nth)
  have "keys_distinct nc_active nc_handle rs'"
    using keys_distinctD [OF node_caps_okD(2) [OF ok]] old len unfolding keys_distinct_def by metis
  then show ?thesis
    using node_caps_okD [OF ok] mem len by (auto simp: node_caps_ok_def)
qed

text \<open>Filling a free slot with a fresh record keeps it well formed.\<close>

lemma node_caps_ok_granted:
  assumes ok: "node_caps_ok n rs" and i: "i < 32" and r: "nc_handle r = n" "node_cap_ok (n + 1) r"
    and n: "n < n + 1"
    and parent: "nc_parent_handle r = 0
      \<or> (\<exists>p\<in>set rs. nc_active p \<and> nc_handle p = nc_parent_handle r \<and> nc_owner_id p = nc_owner_id r)"
  shows "node_caps_ok (n + 1) (rs[i := r])"
proof -
  have old: "node_cap_ok n s" if "s \<in> set rs" "nc_active s" for s using node_caps_okD(3) [OF ok] that .
  have less: "nc_handle s < n" "nc_parent_handle s < n" "nc_handle s \<noteq> 0" if "s \<in> set rs" "nc_active s" for s
    using old [OF that] by (auto simp: node_cap_ok_def)
  have fresh: "nc_handle s \<noteq> nc_handle r" if "s \<in> set rs" "nc_active s" for s
    using less(1) [OF that] r(1) by simp
  have distinct: "keys_distinct nc_active nc_handle (rs[i := r])"
    using node_caps_okD(1,2) [OF ok] i fresh by (intro keys_distinct_insert) auto
  have sub: "s = r \<or> s \<in> set rs" if "s \<in> set (rs[i := r])" for s
    using set_update_subset_insert that by fastforce
  have fields: "node_cap_ok (n + 1) s" if "s \<in> set (rs[i := r])" "nc_active s" for s
    using sub [OF that(1)] r(2) old [of s] that(2) n by (auto simp: node_cap_ok_def)
  have same_owner: "nc_owner_id s = nc_owner_id p"
    if s: "s \<in> set (rs[i := r])" "nc_active s" and p: "p \<in> set (rs[i := r])" "nc_active p"
      and l: "nc_parent_handle s = nc_handle p" for s p
  proof -
    consider "s = r" "p = r" | "s = r" "p \<in> set rs" | "s \<in> set rs" "p = r" | "s \<in> set rs" "p \<in> set rs"
      using sub [OF s(1)] sub [OF p(1)] by blast
    then show ?thesis
    proof cases
      case 2
      then obtain q where q: "q \<in> set rs" "nc_active q" "nc_handle q = nc_handle p" "nc_owner_id q = nc_owner_id r"
        using parent l less(3) [OF 2(2) p(2)] by auto
      then have "q = p"
        using 2 p(2) keys_distinctD [OF node_caps_okD(2) [OF ok]] by (metis in_set_conv_nth)
      then show ?thesis using q 2 by simp
    next
      case 3
      then show ?thesis using less(2) [OF 3(1) s(2)] l r(1) by simp
    next
      case 4
      then show ?thesis using node_caps_okD(4) [OF ok] s p l by blast
    qed simp
  qed
  show ?thesis
    using distinct fields same_owner node_caps_okD(1) [OF ok] by (auto simp: node_caps_ok_def)
qed


section \<open>Quiet steps\<close>

definition quiet :: "u32 \<Rightarrow> ('d, 'a) kernel_fs_scheme \<Rightarrow> ('d, 'a) kernel_fs_scheme \<Rightarrow> bool" where
  "quiet w k k' \<longleftrightarrow> k_ramfs k' = k_ramfs k \<and> fs_initialized (k_fs k') = fs_initialized (k_fs k)
     \<and> fs_next_handle (k_fs k') = fs_next_handle (k_fs k)
     \<and> length (g_fs64_caps (k_fs k')) = length (g_fs64_caps (k_fs k))
     \<and> (\<forall>i<length (g_fs64_caps (k_fs k)).
          node_cap k' i = node_cap k i \<or> nc_owner_id (node_cap k i) = w \<and> \<not> nc_active (node_cap k' i))"

lemma quiet_refl [simp]: "quiet w k k"
  by (simp add: quiet_def)

lemma quiet_trans: "quiet w k k1 \<Longrightarrow> quiet w k1 k2 \<Longrightarrow> quiet w k k2"
  unfolding quiet_def by metis

lemma quiet_inv:
  assumes "fs_inv k" and "quiet w k k'"
  shows "fs_inv k'"
proof -
  have "node_caps_ok (fs_next_handle (k_fs k)) (g_fs64_caps (k_fs k'))"
    using assms(2) by (intro node_caps_ok_cleared [OF fs_invD(4) [OF assms(1)]]) (auto simp: quiet_def)
  then show ?thesis using assms by (simp add: fs_inv_def quiet_def)
qed

lemma quiet_same_fs: "k_fs k' = k_fs k \<Longrightarrow> k_ramfs k' = k_ramfs k \<Longrightarrow> quiet w k k'"
  by (simp add: quiet_def)

lemma upd_fs_simps [simp]:
  "k_fs (upd_fs f k) = f (k_fs k)" "k_ramfs (upd_fs f k) = k_ramfs k" "k_mem (upd_fs f k) = k_mem k"
  "k_dev (upd_fs f k) = k_dev k" "k_launch (upd_fs f k) = k_launch k"
  by (simp_all add: upd_fs_def)

lemma quiet_upd_fs:
  assumes "g_fs64_caps (f (k_fs k)) = g_fs64_caps (k_fs k)" "fs_next_handle (f (k_fs k)) = fs_next_handle (k_fs k)"
    "fs_initialized (f (k_fs k)) = fs_initialized (k_fs k)"
  shows "quiet w k (upd_fs f k)"
  using assms by (simp add: quiet_def)

lemma quiet_denial [simp]: "quiet w k (count_fs_denial k)"
  unfolding count_fs_denial_def by (rule quiet_upd_fs) simp_all

lemma node_cap_upd:
  "i < length (g_fs64_caps (k_fs k)) \<Longrightarrow> node_cap (upd_node_cap j f k) i = (if i = j then f (node_cap k i) else node_cap k i)"
  "length (g_fs64_caps (k_fs (upd_node_cap j f k))) = length (g_fs64_caps (k_fs k))"
  "fs_next_handle (k_fs (upd_node_cap j f k)) = fs_next_handle (k_fs k)"
  "fs_initialized (k_fs (upd_node_cap j f k)) = fs_initialized (k_fs k)"
  "k_ramfs (upd_node_cap j f k) = k_ramfs k"
  by (simp_all add: upd_node_cap_def)

lemma quiet_clear: "nc_owner_id (node_cap k i) = w \<Longrightarrow> quiet w k (upd_node_cap i fs64_clear_capability k)"
  by (auto simp: quiet_def node_cap_upd)

lemma quiet_owner_is_valid: "fs64_owner_is_valid owner k = (b, k') \<Longrightarrow> quiet w k k' \<and> (b \<longrightarrow> k' = k)"
  by (auto simp: fs64_owner_is_valid_def split: if_splits)

lemma quiet_runtime_is_current:
  assumes "fs64_runtime_is_current i k = (b, k')" and "nc_owner_id (node_cap k i) = w"
  shows "quiet w k k' \<and> (b \<longrightarrow> k' = k)"
proof -
  let ?k1 = "upd_node_cap i fs64_clear_capability k"
  let ?k2 = "upd_fs (\<lambda>s. s\<lparr>fs_stale_denial_count := fs_stale_denial_count s + 1\<rparr>) ?k1"
  have "quiet w ?k1 ?k2" by (rule quiet_upd_fs) simp_all
  then have "quiet w k (count_fs_denial ?k2)"
    by (rule quiet_trans [OF quiet_clear [OF assms(2)] quiet_trans [OF _ quiet_denial]])
  moreover have "b \<and> k' = k \<or> \<not> b \<and> k' = count_fs_denial ?k2"
    using assms(1) by (simp add: fs64_runtime_is_current_def Let_def split: if_splits)
  ultimately show ?thesis by auto
qed

lemma find_liveD:
  assumes "fs64_find_live h s = Some i"
  shows "i < length (g_fs64_caps s)" "nc_active (g_fs64_caps s ! i)" "nc_handle (g_fs64_caps s ! i) = h"
  using slot_ofD [OF assms [unfolded fs64_find_live_def]] by simp_all

text \<open>A handle that resolves is a capability of the caller with the rights asked for, and nothing changed.\<close>

lemma resolve_node:
  assumes "fs64_resolve_node_capability h rights w k = (found, k')"
  shows "quiet w k k'"
    and "found = Some i \<Longrightarrow> k' = k \<and> fs64_find_live h (k_fs k) = Some i \<and> nc_owner_id (node_cap k i) = w
      \<and> nc_rights (node_cap k i) AND rights = rights \<and> ramfs_node_exists (k_ramfs k) (nc_node_id (node_cap k i))"
proof -
  obtain b k1 where v: "fs64_owner_is_valid w k = (b, k1)" by fastforce
  have all: "quiet w k k' \<and> (found = Some i \<longrightarrow> k' = k \<and> fs64_find_live h (k_fs k) = Some i \<and> nc_owner_id (node_cap k i) = w
      \<and> nc_rights (node_cap k i) AND rights = rights \<and> ramfs_node_exists (k_ramfs k) (nc_node_id (node_cap k i)))"
    for i
  proof (cases b)
    case True
    then have k1: "k1 = k" using quiet_owner_is_valid [OF v] by simp
    show ?thesis
    proof (cases "fs64_find_live h (k_fs k)")
      case (Some j)
      obtain c k2 where c: "fs64_runtime_is_current j k = (c, k2)" by fastforce
      let ?bad = "nc_owner_id (node_cap k j) \<noteq> w \<or> nc_rights (node_cap k j) AND rights \<noteq> rights
        \<or> \<not> ramfs_node_exists (k_ramfs k) (nc_node_id (node_cap k j))"
      have e: "(found, k') = (if ?bad then (None, count_fs_denial k) else if c then (Some j, k2) else (None, k2))"
        unfolding assms [symmetric] fs64_resolve_node_capability_def v
        by (simp add: True k1 Some c split: bool.split)
      show ?thesis
      proof (cases ?bad)
        case False
        then have q: "quiet w k k2" "c \<longrightarrow> k2 = k" using quiet_runtime_is_current [OF c] by auto
        show ?thesis using e q False Some by (cases c) auto
      next
        case True
        with e have "found = None" "k' = count_fs_denial k" by (simp_all only: if_True prod.inject)
        then show ?thesis by simp
      qed
    next
      case None
      then have "found = None \<and> k' = count_fs_denial k"
        using assms by (simp add: fs64_resolve_node_capability_def v k1 True)
      then show ?thesis by simp
    qed
  next
    case False
    then have "found = None \<and> k' = k1" using assms by (simp add: fs64_resolve_node_capability_def v)
    then show ?thesis using quiet_owner_is_valid [OF v] by simp
  qed
  show "quiet w k k'" using all by (rule conjunct1)
  show "found = Some i \<Longrightarrow> k' = k \<and> fs64_find_live h (k_fs k) = Some i \<and> nc_owner_id (node_cap k i) = w
      \<and> nc_rights (node_cap k i) AND rights = rights \<and> ramfs_node_exists (k_ramfs k) (nc_node_id (node_cap k i))"
    using all [THEN conjunct2, of i] by (rule mp)
qed


text \<open>The broker of the service capabilities touches neither the table nor the tree.\<close>

lemma upd_cap_fs [simp]:
  fixes k :: "('d, 'a) kernel_fs_scheme"
  shows "k_fs (upd_cap f k) = k_fs k" "k_ramfs (upd_cap f k) = k_ramfs k"
  by (simp_all add: upd_cap_def)

lemma broker_checks_fs [simp]:
  fixes k :: "('d, 'a) kernel_fs_scheme"
  shows "k_fs (snd (capability64_find_live h k)) = k_fs k"
    "k_ramfs (snd (capability64_find_live h k)) = k_ramfs k"
    "k_fs (snd (capability64_principal_is_valid w k)) = k_fs k"
    "k_ramfs (snd (capability64_principal_is_valid w k)) = k_ramfs k"
    "k_fs (snd (capability64_record_is_owned_by i w k)) = k_fs k"
    "k_ramfs (snd (capability64_record_is_owned_by i w k)) = k_ramfs k"
    "k_fs (snd (capability64_record_runtime_is_current i k)) = k_fs k"
    "k_ramfs (snd (capability64_record_runtime_is_current i k)) = k_ramfs k"
  by (auto simp: capability64_find_live_def capability64_principal_is_valid_def
      capability64_record_is_owned_by_def capability64_record_runtime_is_current_def split: option.splits)

lemma broker_fs [simp]:
  fixes k :: "('d, 'a) kernel_fs_scheme"
  shows "k_fs (snd (capability64_route h r w k)) = k_fs k"
    "k_ramfs (snd (capability64_route h r w k)) = k_ramfs k"
    "k_fs (snd (owned_cap h w k)) = k_fs k" "k_ramfs (snd (owned_cap h w k)) = k_ramfs k"
  by (simp_all add: capability64_route_def owned_cap_def Let_def split_def split: option.split)

lemma broker_read_fs [simp]:
  fixes k :: "('d, 'a) kernel_fs_scheme"
  shows "k_fs (snd (read_current f d h w k)) = k_fs k" "k_ramfs (snd (read_current f d h w k)) = k_ramfs k"
proof -
  obtain found k1 where o1: "owned_cap h w k = (found, k1)" by fastforce
  obtain b k2 where r1: "capability64_record_runtime_is_current (the found) k1 = (b, k2)" by fastforce
  have "k_fs k1 = k_fs k" "k_ramfs k1 = k_ramfs k" using broker_fs(3,4) [of h w k] o1 by simp_all
  moreover have "k_fs k2 = k_fs k1" "k_ramfs k2 = k_ramfs k1"
    using broker_checks_fs(7,8) [of "the found" k1] r1 by simp_all
  ultimately show "k_fs (snd (read_current f d h w k)) = k_fs k" "k_ramfs (snd (read_current f d h w k)) = k_ramfs k"
    using r1 by (auto simp: read_current_def o1 split: option.split bool.split)
qed

definition parent_of :: "u32 \<Rightarrow> u32 \<Rightarrow> ('d, 'a) kernel_fs_scheme \<Rightarrow> bool" where
  "parent_of p w k \<longleftrightarrow> p = 0
     \<or> (\<exists>r\<in>set (g_fs64_caps (k_fs k)). nc_active r \<and> nc_handle r = p \<and> nc_owner_id r = w)"

lemma resolve_base:
  assumes "fs64_resolve_base_node h rights w k = (found, k')"
  shows "quiet w k k'" and "found = Some (n, g, t, p) \<Longrightarrow> parent_of p w k'"
proof -
  have all: "quiet w k k' \<and> (found = Some (n, g, t, p) \<longrightarrow> parent_of p w k')" for n g t p
  proof (cases "fs64_find_live h (k_fs k)")
    case (Some i)
    let ?bad = "nc_owner_id (node_cap k i) \<noteq> w \<or> nc_rights (node_cap k i) AND rights \<noteq> rights
      \<or> \<not> ramfs_node_is_directory (k_ramfs k) (nc_node_id (node_cap k i))"
    obtain c k2 where c: "fs64_runtime_is_current i k = (c, k2)" by fastforce
    have e: "(found, k') = (if ?bad then (None, count_fs_denial k)
        else if c then (Some (nc_node_id (node_cap k i), nc_runtime_generation (node_cap k i),
               nc_runtime_token (node_cap k i), nc_handle (node_cap k i)), k2)
        else (None, count_fs_denial k2))"
      unfolding assms [symmetric] fs64_resolve_base_node_def
      by (simp add: Some c Let_def split: bool.split)
    show ?thesis
    proof (cases ?bad)
      case True
      with e have "found = None" "k' = count_fs_denial k" by (simp_all only: if_True prod.inject)
      then show ?thesis by simp
    next
      case False
      then have q: "quiet w k k2" "c \<longrightarrow> k2 = k" using quiet_runtime_is_current [OF c] by auto
      have "parent_of (nc_handle (node_cap k i)) w k"
        using find_liveD [OF Some] False by (auto simp: parent_of_def)
      then show ?thesis using e q False quiet_trans [OF q(1) quiet_denial] by (cases c) auto
    qed
  next
    case None
    obtain e k1 where r: "capability64_route h CAPABILITY64_RIGHT_SEND w k = (e, k1)" by fastforce
    obtain g1 k2 where g: "capability64_runtime_generation h w k1 = (g1, k2)" by fastforce
    obtain t1 k3 where t: "capability64_runtime_token h w k2 = (t1, k3)" by fastforce
    have "k_fs k1 = k_fs k" "k_ramfs k1 = k_ramfs k" using broker_fs(1,2) [of h CAPABILITY64_RIGHT_SEND w k] r by (simp_all del: broker_fs)
    moreover have "k_fs k2 = k_fs k1" "k_ramfs k2 = k_ramfs k1"
      using broker_read_fs [of cap_runtime_generation 0 h w k1] g by (simp_all del: broker_read_fs add: capability64_runtime_generation_def)
    moreover have "k_fs k3 = k_fs k2" "k_ramfs k3 = k_ramfs k2"
      using broker_read_fs [of cap_runtime_token 0 h w k2] t by (simp_all del: broker_read_fs add: capability64_runtime_token_def)
    ultimately have q: "quiet w k k1" "quiet w k k3" by (simp_all add: quiet_same_fs)
    have "found = None \<and> k' = count_fs_denial k1 \<or> (\<exists>n g t. found = Some (n, g, t, 0)) \<and> k' = k3"
      using assms by (auto simp: fs64_resolve_base_node_def None r g t Let_def split: if_splits)
    then show ?thesis using q quiet_trans [OF q(1) quiet_denial] by (auto simp: parent_of_def)
  qed
  show "quiet w k k'" using all by (rule conjunct1)
  show "found = Some (n, g, t, p) \<Longrightarrow> parent_of p w k'"
    using all [THEN conjunct2, of n g t p] by (rule mp)
qed

lemma quiet_load_path:
  assumes "fs64_load_path_argument sd a path n k = (r, k')"
  shows "quiet w k k'" "k_fs k' = k_fs k \<or> r = None"
  using assms by (auto simp: fs64_load_path_argument_def fs64_copy_from_address_def split: option.splits if_splits)


section \<open>What a request does\<close>

definition spares :: "u32 \<Rightarrow> ('d, 'a) kernel_fs_scheme \<Rightarrow> ('d, 'a) kernel_fs_scheme \<Rightarrow> bool" where
  "spares w k k' \<longleftrightarrow> (\<forall>i<32. nc_active (node_cap k i) \<and> nc_owner_id (node_cap k i) \<noteq> w \<longrightarrow> node_cap k' i = node_cap k i)"

definition served :: "u32 \<Rightarrow> ('d, 'a) kernel_fs_scheme \<Rightarrow> ('d, 'a) kernel_fs_scheme \<Rightarrow> bool" where
  "served w k k' \<longleftrightarrow> fs_inv k' \<and> spares w k k'
     \<and> unat (fs_next_handle (k_fs k')) \<le> unat (fs_next_handle (k_fs k)) + 1"

text \<open>A quiet step with a new tree.\<close>

definition retreed :: "u32 \<Rightarrow> ('d, 'a) kernel_fs_scheme \<Rightarrow> ('d, 'a) kernel_fs_scheme \<Rightarrow> bool" where
  "retreed w k k' \<longleftrightarrow> fs_inv k' \<and> spares w k k' \<and> fs_next_handle (k_fs k') = fs_next_handle (k_fs k)"

lemma spares_trans: "spares w k k1 \<Longrightarrow> spares w k1 k2 \<Longrightarrow> spares w k k2"
  by (auto simp: spares_def)

lemma retreed_served: "retreed w k k' \<Longrightarrow> served w k k'"
  by (simp add: retreed_def served_def)

lemma retreed_trans: "retreed w k k1 \<Longrightarrow> retreed w k1 k2 \<Longrightarrow> retreed w k k2"
  by (auto simp: retreed_def intro: spares_trans)

lemma retreed_served_trans: "retreed w k k1 \<Longrightarrow> served w k1 k2 \<Longrightarrow> served w k k2"
  by (auto simp: retreed_def served_def intro: spares_trans)

lemma quiet_retreed:
  assumes "fs_inv k" and "quiet w k k'"
  shows "retreed w k k'"
  using quiet_inv [OF assms] assms(2) fs_invD(5) [OF assms(1)]
  by (auto simp: retreed_def spares_def quiet_def)

lemma tree_retreed:
  assumes "fs_inv k" and "tree_ok nodes"
  shows "retreed w k (k\<lparr>k_ramfs := nodes\<rparr>)"
  using assms by (simp add: retreed_def spares_def fs_inv_def)

lemma retreed_inv: "retreed w k k' \<Longrightarrow> fs_inv k'"
  by (simp add: retreed_def)


text \<open>The record a grant writes.\<close>

lemma stored_path [simp]:
  "nc_active (fs64_store_path path r) = nc_active r" "nc_handle (fs64_store_path path r) = nc_handle r"
  "nc_node_id (fs64_store_path path r) = nc_node_id r"
  "nc_rights (fs64_store_path path r) = nc_rights r" "nc_parent_handle (fs64_store_path path r) = nc_parent_handle r"
  "nc_owner_id (fs64_store_path path r) = nc_owner_id r"
  "nc_runtime_token (fs64_store_path path r) = nc_runtime_token r"
  "nc_storage_descriptor_selector (fs64_store_path path r) = nc_storage_descriptor_selector r"
  "length (nc_path (fs64_store_path path r)) = 64" "unat (nc_path_byte_count (fs64_store_path path r)) < 64"
proof -
  have "length (take 63 path) \<le> 256" by simp
  then have "unat (of_nat (length (take 63 path)) :: u32) = length (take 63 path)" by (rule small_length)
  then show "unat (nc_path_byte_count (fs64_store_path path r)) < 64"
    by (simp add: fs64_store_path_def Let_def)
qed (simp_all add: fs64_store_path_def Let_def)

lemma rights_for_node: "fs64_rights_for_node n nodes = dir_rights \<or> fs64_rights_for_node n nodes = file_rights"
  by (simp add: fs64_rights_for_node_def)

lemma grant_served:
  assumes inv: "fs_inv k" and room: "fs_next_handle (k_fs k) < 0xFFFFFFFF" and parent: "parent_of p w k"
    and res: "fs64_grant_node n w p g t sel path k = (h, k')"
  shows "served w k k'"
proof -
  let ?n = "fs_next_handle (k_fs k)"
  have room1: "?n < ?n + 1" using room by (simp add: word_less_nat_alt unat_word_ariths)
  consider "k' = count_fs_denial k \<or> k' = count_fs_denial (count_fs_denial k)"
    | i r where "principal64_is_active w" "fs64_find_free (k_fs k) = Some i"
        "k' = upd_fs (\<lambda>s. s\<lparr>fs_next_handle := ?n + 1\<rparr>) (upd_node_cap i (\<lambda>_. r) k)"
        "nc_handle r = ?n" "nc_owner_id r = w" "nc_parent_handle r = p" "nc_active r"
        "nc_rights r = dir_rights \<or> nc_rights r = file_rights" "length (nc_path r) = 64" "unat (nc_path_byte_count r) < 64"
  proof (cases "principal64_is_active w \<and> ramfs_node_exists (k_ramfs k) n")
    case True
    show ?thesis
    proof (cases "fs64_find_free (k_fs k)")
      case None
      then show ?thesis using res True that(1) by (simp add: fs64_grant_node_def fs64_owner_is_valid_def fs64_deny_def)
    next
      case (Some i)
      show ?thesis
        using res True Some rights_for_node
        by (intro that(2) [of i "fs64_store_path path ((node_cap k i)\<lparr>nc_active := True, nc_handle := ?n,
              nc_node_id := n, nc_rights := fs64_rights_for_node n (k_ramfs k), nc_parent_handle := p, nc_owner_id := w,
              nc_runtime_generation := g, nc_runtime_token := t, nc_storage_descriptor_selector := sel\<rparr>)"])
          (auto simp: fs64_grant_node_def fs64_owner_is_valid_def Let_def upd_node_cap_def upd_fs_def)
    qed
  next
    case False
    then show ?thesis using res that(1)
      by (auto simp: fs64_grant_node_def fs64_owner_is_valid_def fs64_deny_def split: if_splits)
  qed
  then show ?thesis
  proof cases
    case 1
    have "quiet w k (count_fs_denial (count_fs_denial k))" by (rule quiet_trans [OF quiet_denial quiet_denial])
    with 1 show ?thesis using quiet_retreed [OF inv] retreed_served quiet_denial by blast
  next
    case (2 i r)
    have i: "i < 32" "\<not> nc_active (node_cap k i)"
      using first_index_SomeD [OF 2(2) [unfolded fs64_find_free_def]] fs_invD(5) [OF inv] by simp_all
    have "p < ?n \<and> (p = 0 \<or> (\<exists>q\<in>set (g_fs64_caps (k_fs k)). nc_active q \<and> nc_handle q = p \<and> nc_owner_id q = w))"
      using parent node_caps_okD(3) [OF fs_invD(4) [OF inv]] fs_invD(3) [OF inv] word_gt_0 [of ?n]
      by (auto simp: parent_of_def node_cap_ok_def)
    then have "node_caps_ok (?n + 1) ((g_fs64_caps (k_fs k))[i := r])"
      using 2 room1 fs_invD(3) [OF inv] i
      by (intro node_caps_ok_granted [OF fs_invD(4) [OF inv]]) (auto simp: node_cap_ok_def)
    then have "fs_inv k'"
      using inv 2(3) room1 by (auto simp: fs_inv_def upd_node_cap_def)
    moreover have "spares w k k'"
      using i fs_invD(5) [OF inv] by (auto simp: spares_def 2(3) node_cap_upd)
    moreover have "unat (?n + 1) \<le> unat ?n + 1" by (simp add: unat_word_ariths)
    ultimately show ?thesis by (simp add: served_def 2(3))
  qed
qed


lemma parent_of_cong: "g_fs64_caps (k_fs k') = g_fs64_caps (k_fs k) \<Longrightarrow> parent_of p w k' = parent_of p w k"
  by (simp add: parent_of_def)

lemma deny_retreed: "fs_inv k \<Longrightarrow> retreed w k (snd (fs64_deny k))"
  by (simp add: fs64_deny_def quiet_retreed)

text \<open>
  The common start of the path operations: the base is resolved, then the path is loaded. \<open>go\<close> is what
  the operation does with them.
\<close>

lemma path_operation:
  assumes inv: "fs_inv k" and base: "fs64_resolve_base_node h rights w k = (found, k1)"
    and path: "fs64_load_path_argument sd a trusted n k1 = (loaded, k2)"
    and go: "\<And>b g t p bytes. found = Some (b, g, t, p) \<Longrightarrow> loaded = Some bytes \<Longrightarrow> retreed w k k2 \<Longrightarrow> parent_of p w k2
      \<Longrightarrow> served w k2 k'"
    and stop1: "found = None \<Longrightarrow> k' = k1" and stop2: "found \<noteq> None \<Longrightarrow> loaded = None \<Longrightarrow> k' = k2"
  shows "served w k k'"
proof -
  have q1: "quiet w k k1" using resolve_base(1) [OF base] .
  have q2: "quiet w k k2" by (rule quiet_trans [OF q1 quiet_load_path(1) [OF path]])
  note r2 = quiet_retreed [OF inv q2]
  show ?thesis
  proof (cases found)
    case None
    then show ?thesis using stop1 quiet_retreed [OF inv q1] retreed_served by simp
  next
    case (Some base)
    obtain b g t p where f: "found = Some (b, g, t, p)" using Some by (cases base) auto
    show ?thesis
    proof (cases loaded)
      case None
      then show ?thesis using stop2 f r2 retreed_served by simp
    next
      case (Some bytes)
      then have "k_fs k2 = k_fs k1" using quiet_load_path(2) [OF path] by simp
      then have "parent_of p w k2" using resolve_base(2) [OF base f] parent_of_cong by metis
      then show ?thesis using go [OF f Some r2] r2 retreed_served_trans by blast
    qed
  qed
qed

lemma import_retreed:
  assumes inv: "fs_inv k" and res: "import_file sd b path w k = (r, k')"
  shows "retreed w k k'" "k_fs k' = k_fs k"
proof -
  obtain bytes d where d: "mmio64_nvme_fat_shell_read_file sd path FS64_IO_SCRATCH_BYTES w (k_dev k) = (bytes, d)" by fastforce
  obtain c nodes where c: "ramfs_create b path RAMFS_NODE_FILE (k_ramfs k) = (c, nodes)" by fastforce
  obtain x nodes2 where x: "ramfs_write (the c) 0 (the bytes) nodes = (x, nodes2)" by fastforce
  have t: "tree_ok nodes" using create_tree [OF fs_invD(2) [OF inv], of b path RAMFS_NODE_FILE] c by simp
  have t2: "tree_ok nodes2" using write_tree [OF t, of "the c" 0 "the bytes"] x by simp
  have "\<exists>nodes'. k' = k\<lparr>k_dev := d, k_ramfs := nodes'\<rparr> \<and> tree_ok nodes'"
  proof (cases bytes)
    case None
    then have "k' = k\<lparr>k_dev := d, k_ramfs := k_ramfs k\<rparr>" using res by (auto simp: import_file_def d)
    then show ?thesis using fs_invD(2) [OF inv] by blast
  next
    case (Some bs)
    then have "k' = k\<lparr>k_dev := d, k_ramfs := k_ramfs k\<rparr> \<or> k' = k\<lparr>k_dev := d, k_ramfs := nodes\<rparr>
        \<or> k' = k\<lparr>k_dev := d, k_ramfs := nodes2\<rparr>"
      using res x by (cases c) (auto simp: import_file_def d c Let_def split: if_splits)
    then show ?thesis using fs_invD(2) [OF inv] t t2 by blast
  qed
  then obtain nodes' where k': "k' = k\<lparr>k_dev := d, k_ramfs := nodes'\<rparr>" "tree_ok nodes'" by blast
  have "quiet w k (k\<lparr>k_dev := d\<rparr>)" by (rule quiet_same_fs) simp_all
  then have r1: "retreed w k (k\<lparr>k_dev := d\<rparr>)" by (rule quiet_retreed [OF inv])
  from tree_retreed [OF retreed_inv [OF r1] k'(2), of w] have "retreed w (k\<lparr>k_dev := d\<rparr>) k'" by (simp add: k'(1))
  with r1 show "retreed w k k'" by (rule retreed_trans)
  show "k_fs k' = k_fs k" by (simp add: k'(1))
qed

lemma open_served:
  assumes inv: "fs_inv k" and room: "fs_next_handle (k_fs k) < 0xFFFFFFFF"
    and res: "fs64_open_common sd h a trusted n w k = (r, k')"
  shows "served w k k'"
proof (cases "n = 0 \<or> n \<ge> FS64_PATH_SCRATCH_BYTES")
  case True
  then have "k' = snd (fs64_deny k)" using res inv by (auto simp: fs64_open_common_def Let_def)
  then show ?thesis using retreed_served [OF deny_retreed [OF inv]] by simp
next
  case False
  obtain found k1 where base: "fs64_resolve_base_node h FS64_RIGHT_LIST w k = (found, k1)" by fastforce
  obtain loaded k2 where path: "fs64_load_path_argument sd a trusted n k1 = (loaded, k2)" by fastforce
  note e = res [unfolded fs64_open_common_def fs_inv_initialized [OF inv] Let_def if_not_P [OF False] base]
  show ?thesis
  proof (rule path_operation [OF inv base path])
    fix b g t p bytes
    assume f: "found = Some (b, g, t, p)" and l: "loaded = Some bytes" and q: "retreed w k k2" and p: "parent_of p w k2"
    obtain node k3 where node: "(case ramfs_open (k_ramfs k2) b bytes of Some node_id \<Rightarrow> (Some node_id, k2)
        | None \<Rightarrow> import_file sd b bytes w k2) = (node, k3)" by fastforce
    have k3: "retreed w k2 k3" "k_fs k3 = k_fs k2"
    proof -
      have "k3 = k2 \<or> (\<exists>r. import_file sd b bytes w k2 = (r, k3))" using node by (auto split: option.splits)
      then show "retreed w k2 k3" "k_fs k3 = k_fs k2"
        using import_retreed [OF retreed_inv [OF q]] quiet_retreed [OF retreed_inv [OF q] quiet_refl] by auto
    qed
    show "served w k2 k'"
    proof (cases node)
      case None
      then have "k' = snd (fs64_deny k3)" using e f l path node by auto
      then show ?thesis
        using retreed_served [OF retreed_trans [OF k3(1) deny_retreed [OF retreed_inv [OF k3(1)]]]] by simp
    next
      case (Some node_id)
      let ?k4 = "upd_fs (\<lambda>s. s\<lparr>fs_open_count := fs_open_count s + 1\<rparr>) k3"
      have "quiet w k3 ?k4" by (rule quiet_upd_fs) simp_all
      then have k4: "retreed w k2 ?k4" using quiet_retreed retreed_inv [OF k3(1)] retreed_trans [OF k3(1)] by blast
      have "fs64_grant_node node_id w p g t (fs64_storage_descriptor_selector sd bytes k3) bytes ?k4 = (r, k')"
        using e f l path node Some by simp
      moreover have "parent_of p w ?k4" using p k3(2) parent_of_cong [of ?k4 k2] by simp
      moreover have "fs_next_handle (k_fs ?k4) < 0xFFFFFFFF" using room q k4 by (simp add: retreed_def)
      ultimately show ?thesis using grant_served [OF retreed_inv [OF k4]] retreed_served_trans [OF k4] by blast
    qed
  qed (use e path in auto)
qed

lemma create_served:
  assumes inv: "fs_inv k" and room: "fs_next_handle (k_fs k) < 0xFFFFFFFF"
    and res: "fs64_create_common sd h a trusted n ty w k = (r, k')"
  shows "served w k k'"
proof (cases "n = 0 \<or> n \<ge> FS64_PATH_SCRATCH_BYTES")
  case True
  then have "k' = snd (fs64_deny k)" using res inv by (auto simp: fs64_create_common_def Let_def)
  then show ?thesis using retreed_served [OF deny_retreed [OF inv]] by simp
next
  case False
  obtain found k1 where base: "fs64_resolve_base_node h FS64_RIGHT_CREATE w k = (found, k1)" by fastforce
  obtain loaded k2 where path: "fs64_load_path_argument sd a trusted n k1 = (loaded, k2)" by fastforce
  note e = res [unfolded fs64_create_common_def fs_inv_initialized [OF inv] Let_def if_not_P [OF False] base]
  show ?thesis
  proof (rule path_operation [OF inv base path])
    fix b g t p bytes
    assume f: "found = Some (b, g, t, p)" and l: "loaded = Some bytes" and q: "retreed w k k2" and p: "parent_of p w k2"
    obtain node nodes where node: "ramfs_create b bytes ty (k_ramfs k2) = (node, nodes)" by fastforce
    let ?k3 = "k2\<lparr>k_ramfs := nodes\<rparr>"
    have "tree_ok nodes" using create_tree [OF fs_invD(2) [OF retreed_inv [OF q]], of b bytes ty] node by simp
    then have k3: "retreed w k2 ?k3" by (rule tree_retreed [OF retreed_inv [OF q]])
    show "served w k2 k'"
    proof (cases node)
      case None
      then have "k' = snd (fs64_deny ?k3)" using e f l path node by auto
      then show ?thesis
        using retreed_served [OF retreed_trans [OF k3(1) deny_retreed [OF retreed_inv [OF k3(1)]]]] by simp
    next
      case (Some node_id)
      let ?k4 = "upd_fs (\<lambda>s. s\<lparr>fs_create_count := fs_create_count s + 1\<rparr>) ?k3"
      have "quiet w ?k3 ?k4" by (rule quiet_upd_fs) simp_all
      then have k4: "retreed w k2 ?k4" using quiet_retreed retreed_inv [OF k3(1)] retreed_trans [OF k3(1)] by blast
      have "fs64_grant_node node_id w p g t 0 bytes ?k4 = (r, k')" using e f l path node Some by simp
      moreover have "parent_of p w ?k4" using p parent_of_cong [of ?k4 k2] by simp
      moreover have "fs_next_handle (k_fs ?k4) < 0xFFFFFFFF" using room q k4 by (simp add: retreed_def)
      ultimately show ?thesis using grant_served [OF retreed_inv [OF k4]] retreed_served_trans [OF k4] by blast
    qed
  qed (use e path in auto)
qed


lemma answer_retreed:
  assumes "fs_inv k" and "tree_ok (snd r)"
  shows "retreed w k (snd (answer r k))"
proof -
  have t: "retreed w k (k\<lparr>k_ramfs := snd r\<rparr>)" by (rule tree_retreed [OF assms])
  then show ?thesis
    using retreed_trans [OF t deny_retreed [OF retreed_inv [OF t]]] by (simp add: answer_def Let_def)
qed

lemma delete_served:
  assumes inv: "fs_inv k" and res: "fs64_delete_common sd h a trusted n w k = (r, k')"
  shows "served w k k'"
proof (cases "n = 0 \<or> n \<ge> FS64_PATH_SCRATCH_BYTES")
  case True
  then have "k' = k" using res inv by (auto simp: fs64_delete_common_def Let_def)
  then show ?thesis using retreed_served [OF quiet_retreed [OF inv quiet_refl]] by simp
next
  case False
  obtain found k1 where base: "fs64_resolve_base_node h FS64_RIGHT_DELETE w k = (found, k1)" by fastforce
  obtain loaded k2 where path: "fs64_load_path_argument sd a trusted n k1 = (loaded, k2)" by fastforce
  note e = res [unfolded fs64_delete_common_def fs_inv_initialized [OF inv] Let_def if_not_P [OF False] base]
  show ?thesis
  proof (rule path_operation [OF inv base path])
    fix b g t p bytes
    assume f: "found = Some (b, g, t, p)" and l: "loaded = Some bytes" and q: "retreed w k k2"
    have "k' = snd (answer (ramfs_delete b bytes (k_ramfs k2)) k2)" using e f l path by auto
    then show "served w k2 k'"
      using retreed_served [OF answer_retreed] delete_tree fs_invD(2) retreed_inv [OF q] by blast
  qed (use e path in auto)
qed

text \<open>On a tree the operations that run the parent loop return.\<close>

lemma rename_served:
  assumes inv: "fs_inv k"
  obtains r k' where "fs64_rename_common sd h a trusted n m w k = Some (r, k')" "served w k k'"
proof (cases "path_pair_fits n m")
  case False
  show ?thesis
    by (rule that [of 0 k]) (use False inv retreed_served [OF quiet_retreed [OF inv quiet_refl]]
        in \<open>simp_all add: fs64_rename_common_def Let_def\<close>)
next
  case True
  obtain found k1 where base: "fs64_resolve_base_node h FS64_RIGHT_RENAME w k = (found, k1)" by fastforce
  obtain loaded k2 where path: "fs64_load_path_argument sd a trusted (n + 1 + m) k1 = (loaded, k2)" by fastforce
  have "tree_ok (k_ramfs k2)"
    using quiet_inv [OF inv quiet_trans [OF resolve_base(1) [OF base] quiet_load_path(1) [OF path]]] by (rule fs_invD)
  from move_tree [OF this, of "fst (the found)" "take (unat n) (the loaded)" "fst (the found)"
      "take (unat m) (drop (unat n + 1) (the loaded))"]
  obtain b nodes where mv: "ramfs_rename (fst (the found)) (take (unat n) (the loaded))
      (take (unat m) (drop (unat n + 1) (the loaded))) (k_ramfs k2) = Some (b, nodes)" and t: "tree_ok nodes"
    by (simp add: ramfs_rename_def) blast
  obtain r k' where res: "fs64_rename_common sd h a trusted n m w k = Some (r, k')"
    and cases: "found = None \<Longrightarrow> k' = k1" "found \<noteq> None \<Longrightarrow> loaded = None \<Longrightarrow> k' = k2"
      "found \<noteq> None \<Longrightarrow> loaded \<noteq> None \<Longrightarrow> k' = snd (answer (b, nodes) k2)"
    using True inv base path mv
    by (cases found; cases loaded; cases "answer (b, nodes) k2") (auto simp: fs64_rename_common_def Let_def)
  have "served w k k'"
  proof (rule path_operation [OF inv base path])
    fix b' g t' p bytes
    assume f: "found = Some (b', g, t', p)" and l: "loaded = Some bytes" and q: "retreed w k k2"
    then show "served w k2 k'"
      using cases(3) retreed_served [OF answer_retreed [OF retreed_inv [OF q], of "(b, nodes)"]] t by simp
  qed (use cases in auto)
  with res show ?thesis by (rule that)
qed

lemma move_served:
  assumes inv: "fs_inv k"
  obtains r k' where "fs64_move_common sd h h2 a trusted n m w k = Some (r, k')" "served w k k'"
proof (cases "path_pair_fits n m")
  case False
  show ?thesis
    by (rule that [of 0 k]) (use False inv retreed_served [OF quiet_retreed [OF inv quiet_refl]]
        in \<open>simp_all add: fs64_move_common_def Let_def\<close>)
next
  case True
  obtain source k0 where source: "fs64_resolve_base_node h FS64_RIGHT_RENAME w k = (source, k0)" by fastforce
  have r0: "retreed w k k0" using quiet_retreed [OF inv resolve_base(1) [OF source]] .
  obtain found k1 where base: "fs64_resolve_base_node h2 FS64_RIGHT_RENAME w k0 = (found, k1)" by fastforce
  obtain loaded k2 where path: "fs64_load_path_argument sd a trusted (n + 1 + m) k1 = (loaded, k2)" by fastforce
  have "tree_ok (k_ramfs k2)"
    using quiet_inv [OF retreed_inv [OF r0] quiet_trans [OF resolve_base(1) [OF base] quiet_load_path(1) [OF path]]]
    by (rule fs_invD)
  from move_tree [OF this, of "fst (the source)" "take (unat n) (the loaded)" "fst (the found)"
      "take (unat m) (drop (unat n + 1) (the loaded))"]
  obtain b nodes where mv: "ramfs_move (fst (the source)) (take (unat n) (the loaded)) (fst (the found))
      (take (unat m) (drop (unat n + 1) (the loaded))) (k_ramfs k2) = Some (b, nodes)" and t: "tree_ok nodes" .
  obtain r k' where res: "fs64_move_common sd h h2 a trusted n m w k = Some (r, k')"
    and cases: "source = None \<Longrightarrow> k' = k0" "source \<noteq> None \<Longrightarrow> found = None \<Longrightarrow> k' = k1"
      "source \<noteq> None \<Longrightarrow> found \<noteq> None \<Longrightarrow> loaded = None \<Longrightarrow> k' = k2"
      "source \<noteq> None \<Longrightarrow> found \<noteq> None \<Longrightarrow> loaded \<noteq> None \<Longrightarrow> k' = snd (answer (b, nodes) k2)"
    using True inv source base path mv
    by (cases source; cases found; cases loaded; cases "answer (b, nodes) k2")
      (auto simp: fs64_move_common_def Let_def)
  have "served w k k'"
  proof (cases "source = None")
    case True
    then show ?thesis using cases(1) retreed_served [OF r0] by simp
  next
    case False
    have "served w k0 k'"
    proof (rule path_operation [OF retreed_inv [OF r0] base path])
      fix b' g t' p bytes
      assume f: "found = Some (b', g, t', p)" and l: "loaded = Some bytes" and q: "retreed w k0 k2"
      then show "served w k2 k'"
        using cases(4) False retreed_served [OF answer_retreed [OF retreed_inv [OF q], of "(b, nodes)"]] t by simp
    qed (use cases False in auto)
    then show ?thesis by (rule retreed_served_trans [OF r0])
  qed
  with res show ?thesis by (rule that)
qed


text \<open>The operations on one node leave the tree alone, writing excepted.\<close>

lemma quiet_list_node: "fs_inv k \<Longrightarrow> quiet w k (snd (list_node h n w k))"
proof -
  assume inv: "fs_inv k"
  obtain f k1 where r: "fs64_resolve_node_capability h FS64_RIGHT_LIST w k = (f, k1)" by fastforce
  show ?thesis
    using resolve_node(1) [OF r] quiet_trans [OF resolve_node(1) [OF r] quiet_denial] inv
    by (auto simp: list_node_def r split: option.split)
qed

lemma quiet_stat_node: "fs_inv k \<Longrightarrow> quiet w k (snd (stat_node h n w k))"
proof -
  assume inv: "fs_inv k"
  obtain f k1 where r: "fs64_resolve_node_capability h FS64_RIGHT_STAT w k = (f, k1)" by fastforce
  show ?thesis
    using resolve_node(1) [OF r] quiet_trans [OF resolve_node(1) [OF r] quiet_denial] inv
    by (auto simp: stat_node_def r split: option.split)
qed

lemma quiet_read_node: "fs_inv k \<Longrightarrow> quiet w k (snd (read_node sd h off n w k))"
proof -
  assume inv: "fs_inv k"
  obtain f k1 where r: "fs64_resolve_node_capability h FS64_RIGHT_READ w k = (f, k1)" by fastforce
  note q = resolve_node(1) [OF r]
  have "quiet w k (k1\<lparr>k_dev := d\<rparr>)" for d by (rule quiet_trans [OF q quiet_same_fs]) simp_all
  then show ?thesis
    using q quiet_trans [OF q quiet_denial] quiet_trans [OF _ quiet_denial] inv
    by (auto simp: read_node_def r Let_def split_def split: option.split)
qed

lemma count_fs_simps [simp]:
  "g_fs64_caps (count_list s) = g_fs64_caps s" "fs_next_handle (count_list s) = fs_next_handle s"
  "fs_initialized (count_list s) = fs_initialized s"
  "g_fs64_caps (count_read s) = g_fs64_caps s" "fs_next_handle (count_read s) = fs_next_handle s"
  "fs_initialized (count_read s) = fs_initialized s"
  "g_fs64_caps (count_stat s) = g_fs64_caps s" "fs_next_handle (count_stat s) = fs_next_handle s"
  "fs_initialized (count_stat s) = fs_initialized s"
  by (simp_all add: count_list_def count_read_def count_stat_def)

lemma quiet_out:
  assumes q: "quiet w k (snd r)"
    and f: "\<And>s. g_fs64_caps (f s) = g_fs64_caps s" "\<And>s. fs_next_handle (f s) = fs_next_handle s"
      "\<And>s. fs_initialized (f s) = fs_initialized s"
  shows "quiet w k (snd (copy_out a f r))" "quiet w k (snd (hand_out f r))"
proof -
  obtain x k1 where r: "r = (x, k1)" by (cases r)
  have c: "quiet w k1 (upd_fs f k2)" if "k_fs k2 = k_fs k1" "k_ramfs k2 = k_ramfs k1" for k2
    using that f by (simp add: quiet_def)
  show "quiet w k (snd (hand_out f r))"
    using q c [of k1] quiet_trans [of w k k1] by (auto simp: hand_out_def r split: option.split)
  show "quiet w k (snd (copy_out a f r))"
  proof (cases x)
    case (Some bytes)
    show ?thesis
    proof (cases "fs64_address_writable a (of_nat (length bytes))")
      case True
      then show ?thesis
        using quiet_trans [OF q [unfolded r snd_conv] c [of "k1\<lparr>k_mem := mem_store a bytes (k_mem k1)\<rparr>"]]
        by (simp add: copy_out_def r Some fs64_copy_to_address_def)
    next
      case False
      then show ?thesis
        using quiet_trans [OF q [unfolded r snd_conv] quiet_denial]
        by (simp add: copy_out_def r Some fs64_copy_to_address_def)
    qed
  qed (use q in \<open>simp add: copy_out_def r\<close>)
qed

lemma write_record_served:
  assumes inv: "fs_inv k"
  shows "served w k (snd (write_record sd i off bytes w k))"
proof -
  let ?r = "node_cap k i"
  obtain c nodes where c: "ramfs_write (nc_node_id ?r) off bytes (k_ramfs k) = (c, nodes)" by fastforce
  have "tree_ok nodes" using write_tree [OF fs_invD(2) [OF inv], of "nc_node_id ?r" off bytes] c by simp
  then have t: "retreed w k (k\<lparr>k_ramfs := nodes\<rparr>)" by (rule tree_retreed [OF inv])
  have u: "retreed w k (upd_fs (\<lambda>s. s\<lparr>fs_write_count := fs_write_count s + 1\<rparr>) k2)"
    if "k_fs k2 = k_fs k" "k_ramfs k2 = nodes" for k2
  proof -
    have "quiet w (k\<lparr>k_ramfs := nodes\<rparr>) (upd_fs (\<lambda>s. s\<lparr>fs_write_count := fs_write_count s + 1\<rparr>) k2)"
      using that by (simp add: quiet_def)
    from retreed_trans [OF t quiet_retreed [OF retreed_inv [OF t] this]] show ?thesis .
  qed
  have "retreed w k (snd (write_record sd i off bytes w k))"
  proof (cases c)
    case None
    then show ?thesis
      using retreed_trans [OF t deny_retreed [OF retreed_inv [OF t]]] by (simp add: write_record_def c Let_def)
  next
    case (Some n)
    then show ?thesis by (simp add: write_record_def c Let_def u)
  qed
  then show ?thesis by (rule retreed_served)
qed

lemma write_served:
  assumes inv: "fs_inv k"
  shows "served w k (snd (fs64_write sd h a off n w k))" "served w k (snd (fs64_write_kernel sd h input off n w k))"
proof -
  obtain f k1 where r: "fs64_resolve_node_capability h FS64_RIGHT_WRITE w k = (f, k1)" by fastforce
  have r1: "retreed w k k1" using quiet_retreed [OF inv resolve_node(1) [OF r]] .
  have den: "retreed w k (count_fs_denial k1)"
    using retreed_trans [OF r1 quiet_retreed [OF retreed_inv [OF r1] quiet_denial]] .
  have rec: "served w k (snd (write_record sd i off bytes w k1))" for i bytes
    using retreed_served_trans [OF r1 write_record_served [OF retreed_inv [OF r1]]] .
  show "served w k (snd (fs64_write_kernel sd h input off n w k))"
    using retreed_served [OF r1] retreed_served [OF quiet_retreed [OF inv quiet_refl]] rec inv
    by (auto simp: fs64_write_kernel_def r split: option.split)
  show "served w k (snd (fs64_write sd h a off n w k))"
    using retreed_served [OF r1] retreed_served [OF den] rec inv
    by (auto simp: fs64_write_def r fs64_copy_from_address_def split: option.split)
qed

lemma quiet_revoke:
  assumes inv: "fs_inv k"
  shows "quiet w k (snd (fs64_revoke h w k))"
proof -
  obtain f k1 where r: "fs64_resolve_node_capability h 0 w k = (f, k1)" by fastforce
  show ?thesis
  proof (cases f)
    case (Some i)
    then have i: "k1 = k" "fs64_find_live h (k_fs k) = Some i" "nc_owner_id (node_cap k i) = w"
      using resolve_node(2) [OF r, of i] by simp_all
    note ok = fs_invD(4) [OF inv] and live = find_liveD [OF i(2)]
    have child: "nc_owner_id (node_cap k j) = w"
      if "j < length (g_fs64_caps (k_fs k))" "nc_active (node_cap k j)" "nc_parent_handle (node_cap k j) = h" for j
      using node_caps_okD(4) [OF ok, of "node_cap k j" "node_cap k i"] that live i(3) by simp
    show ?thesis
      using child i(3) live(1) inv
      by (auto simp: fs64_revoke_def r Some i(1) Let_def quiet_def node_cap_upd)
  qed (use resolve_node(1) [OF r] inv in \<open>simp add: fs64_revoke_def r\<close>)
qed

lemma quiet_node_field:
  assumes inv: "fs_inv k"
  shows "quiet w k (snd (node_field f h w k))"
proof -
  obtain f' k1 where r: "fs64_resolve_node_capability h 0 w k = (f', k1)" by fastforce
  show ?thesis using resolve_node(1) [OF r] inv by (auto simp: node_field_def r split: option.split)
qed

end
