(* ===== verification/Pipe_Inv.thy ===== *)
theory Pipe_Inv
  imports Pipe Scheduler_Props
begin

text \<open>
  The ring of a pipe as a queue of bytes: \<open>content\<close> is the sequence a reader will see. The locale
  \<open>bounded_fifo\<close> states what a bounded first-in first-out buffer promises; the ring operations
  interpret it, and the read and write loops are shown to append to and consume that sequence.
\<close>

section \<open>Bounded queues\<close>

fun get_all :: "('p \<Rightarrow> 'b \<times> 'p) \<Rightarrow> nat \<Rightarrow> 'p \<Rightarrow> 'b list \<times> 'p" where
  "get_all get 0 p = ([], p)"
| "get_all get (Suc n) p = (let (b, p1) = get p; (bs, p2) = get_all get n p1 in (b # bs, p2))"

locale bounded_fifo =
  fixes put :: "'b \<Rightarrow> 'p \<Rightarrow> 'p"
    and get :: "'p \<Rightarrow> 'b \<times> 'p"
    and items :: "'p \<Rightarrow> 'b list"
    and ok :: "'p \<Rightarrow> bool"
    and cap :: nat
  assumes put_ok: "ok p \<Longrightarrow> length (items p) < cap \<Longrightarrow> ok (put b p)"
    and put_items: "ok p \<Longrightarrow> length (items p) < cap \<Longrightarrow> items (put b p) = items p @ [b]"
    and get_ok: "ok p \<Longrightarrow> items p \<noteq> [] \<Longrightarrow> ok (snd (get p))"
    and get_items: "ok p \<Longrightarrow> items p \<noteq> [] \<Longrightarrow> items p = fst (get p) # items (snd (get p))"
begin

lemma put_all:
  "ok p \<Longrightarrow> length (items p) + length bs \<le> cap \<Longrightarrow>
   ok (fold put bs p) \<and> items (fold put bs p) = items p @ bs"
proof (induction bs arbitrary: p)
  case (Cons b bs)
  then have room: "length (items p) < cap" by simp
  note step = put_ok [OF Cons.prems(1) room, of b] put_items [OF Cons.prems(1) room, of b]
  then show ?case using Cons.IH [of "put b p"] Cons.prems by simp
qed simp

lemma get_all:
  "ok p \<Longrightarrow> n \<le> length (items p) \<Longrightarrow>
   ok (snd (get_all get n p)) \<and> fst (get_all get n p) = take n (items p)
   \<and> items (snd (get_all get n p)) = drop n (items p)"
proof (induction n arbitrary: p)
  case (Suc n)
  then have ne: "items p \<noteq> []" by auto
  note step = get_ok [OF Suc.prems(1) ne] get_items [OF Suc.prems(1) ne]
  have "n \<le> length (items (snd (get p)))"
    using Suc.prems(2) step(2) by (metis Suc_le_mono length_Cons)
  note IH = Suc.IH [OF step(1) this]
  have "take (Suc n) (items p) = fst (get p) # take n (items (snd (get p)))"
    "drop (Suc n) (items p) = drop n (items (snd (get p)))"
    by (subst step(2), simp)+
  then show ?case using IH by (simp add: case_prod_unfold Let_def)
qed simp

end


section \<open>The ring of a pipe\<close>

definition ring_shape :: "pipe64_buffer \<Rightarrow> bool" where
  "ring_shape p \<longleftrightarrow> pb_capacity p = 4096 \<and> length (pb_bytes p) = 4096
     \<and> unat (pb_read_index p) < 4096 \<and> unat (pb_byte_count p) \<le> 4096
     \<and> unat (pb_write_index p) = (unat (pb_read_index p) + unat (pb_byte_count p)) mod 4096"

definition content :: "pipe64_buffer \<Rightarrow> u8 list" where
  "content p = map (\<lambda>j. pb_bytes p ! ((unat (pb_read_index p) + j) mod 4096)) [0..<unat (pb_byte_count p)]"

lemma length_content [simp]: "length (content p) = unat (pb_byte_count p)"
  by (simp add: content_def)

lemma content_empty: "content p = [] \<longleftrightarrow> pb_byte_count p = 0"
  by (simp add: content_def unat_eq_zero)

lemma unat_next_index: "unat (i :: u32) < 4096 \<Longrightarrow> unat ((i + 1) mod 4096) = (unat i + 1) mod 4096"
  by (simp add: unat_mod unat_word_ariths)

lemma put_byte_ring:
  assumes r: "ring_shape p" and room: "unat (pb_byte_count p) < 4096"
  shows "ring_shape (put_byte b p)" "content (put_byte b p) = content p @ [b]"
proof -
  define ri where "ri = unat (pb_read_index p)"
  define n where "n = unat (pb_byte_count p)"
  have ri: "ri < 4096" and n: "n < 4096" and len: "length (pb_bytes p) = 4096"
    and wi: "unat (pb_write_index p) = (ri + n) mod 4096"
    using r room by (simp_all add: ring_shape_def ri_def n_def)
  have cnt: "unat (pb_byte_count p + 1) = Suc n"
    using n by (simp add: n_def unat_word_ariths)
  have next_wi: "unat ((pb_write_index p + 1) mod 4096) = (ri + Suc n) mod 4096"
    using unat_next_index [of "pb_write_index p"] wi by (simp add: mod_Suc_eq)
  show "ring_shape (put_byte b p)"
    using r room cnt next_wi by (simp add: ring_shape_def put_byte_def ri_def n_def)
  have other: "(ri + n) mod 4096 \<noteq> (ri + j) mod 4096" if "j < n" for j
    using that n ri by (simp add: mod_if) linarith
  have "map (\<lambda>j. (pb_bytes p)[(ri + n) mod 4096 := b] ! ((ri + j) mod 4096)) [0..<Suc n]
      = map (\<lambda>j. pb_bytes p ! ((ri + j) mod 4096)) [0..<n] @ [b]"
    using other len by simp
  then show "content (put_byte b p) = content p @ [b]"
    by (simp add: content_def put_byte_def cnt wi ri_def n_def)
qed

lemma take_byte_ring:
  assumes r: "ring_shape p" and some: "pb_byte_count p \<noteq> 0"
  shows "ring_shape (snd (take_byte p))" "content p = fst (take_byte p) # content (snd (take_byte p))"
proof -
  define ri where "ri = unat (pb_read_index p)"
  define n where "n = unat (pb_byte_count p)"
  have ri: "ri < 4096" and n: "0 < n" "n \<le> 4096"
    and wi: "unat (pb_write_index p) = (ri + n) mod 4096"
    using r some by (simp_all add: ring_shape_def ri_def n_def unat_gt_0)
  have cnt: "unat (pb_byte_count p - 1) = n - 1"
    using n by (simp add: n_def unat_sub_if_size word_le_nat_alt Suc_le_eq)
  have next_ri: "unat ((pb_read_index p + 1) mod 4096) = (ri + 1) mod 4096"
    using unat_next_index [of "pb_read_index p"] ri by (simp add: ri_def)
  have shift: "(Suc ri mod 4096 + j) mod 4096 = Suc (ri + j) mod 4096" for j
    using mod_add_left_eq [of "Suc ri" 4096 j] by simp
  show "ring_shape (snd (take_byte p))"
    using r n cnt next_ri shift [of "n - 1"] wi
    by (auto simp: ring_shape_def take_byte_def ri_def n_def)
  have "[0..<n] = 0 # map Suc [0..<n - 1]"
    using n by (simp add: map_Suc_upt upt_conv_Cons)
  then show "content p = fst (take_byte p) # content (snd (take_byte p))"
    using ri r by (simp add: content_def take_byte_def ring_shape_def cnt next_ri shift
        ri_def [symmetric] n_def [symmetric] o_def)
qed

interpretation ring: bounded_fifo put_byte take_byte content ring_shape 4096
  by unfold_locales
    (simp_all add: put_byte_ring take_byte_ring content_empty)



section \<open>The pipe table\<close>

definition pipes_ok :: "'a kernel_pipe_scheme \<Rightarrow> bool" where
  "pipes_ok k \<longleftrightarrow> g_pipe64_initialized (k_pipe k) \<and> length (g_pipe64_objects (k_pipe k)) = 16
     \<and> (\<forall>i<16. ring_shape (pipe_at k i))"

lemma pipes_okD:
  assumes "pipes_ok k"
  shows "g_pipe64_initialized (k_pipe k)" "length (g_pipe64_objects (k_pipe k)) = 16"
    "\<And>i. i < 16 \<Longrightarrow> ring_shape (pipe_at k i)"
  using assms by (simp_all add: pipes_ok_def)

lemma upd_pipe_sel [simp]:
  "k_sched (upd_pipe i f k) = k_sched k" "k_proc (upd_pipe i f k) = k_proc k"
  "k_launch (upd_pipe i f k) = k_launch k" "k_persona (upd_pipe i f k) = k_persona k"
  "g_pipe64_initialized (k_pipe (upd_pipe i f k)) = g_pipe64_initialized (k_pipe k)"
  "g_pipe64_objects (k_pipe (upd_pipe i f k)) =
     (g_pipe64_objects (k_pipe k))[i := f (pipe_at k i)]"
  by (simp_all add: upd_pipe_def upd_pipes_def)

lemma pipe_deny_sel [simp]:
  "k_sched (pipe_deny k) = k_sched k" "k_proc (pipe_deny k) = k_proc k"
  "g_pipe64_initialized (k_pipe (pipe_deny k)) = g_pipe64_initialized (k_pipe k)"
  "g_pipe64_objects (k_pipe (pipe_deny k)) = g_pipe64_objects (k_pipe k)"
  by (simp_all add: pipe_deny_def upd_pipes_def)

lemma upd_pipe_upd_pipe:
  "i < length (g_pipe64_objects (k_pipe k)) \<Longrightarrow>
   upd_pipe i f (upd_pipe i g k) = upd_pipe i (\<lambda>p. f (g p)) k"
  by (simp add: upd_pipe_def upd_pipes_def)

lemma upd_pipe_id: "upd_pipe i (\<lambda>p. p) k = k"
  by (simp add: upd_pipe_def upd_pipes_def)

lemma pipe64_init_done [simp]: "g_pipe64_initialized (k_pipe k) \<Longrightarrow> pipe64_init k = k"
  by (simp add: pipe64_init_def)

lemma pipe_deny_ok [simp]: "pipes_ok (pipe_deny k) = pipes_ok k"
  by (simp add: pipes_ok_def)

lemma upd_pipe_ok:
  "pipes_ok k \<Longrightarrow> (i < 16 \<Longrightarrow> ring_shape (f (pipe_at k i))) \<Longrightarrow> pipes_ok (upd_pipe i f k)"
  by (cases "i < 16") (auto simp: pipes_ok_def nth_list_update list_update_beyond)

text \<open>When a handle resolves, and to what.\<close>

definition resolves :: "'a kernel_pipe_scheme \<Rightarrow> u32 \<Rightarrow> u32 \<Rightarrow> nat \<Rightarrow> bool" where
  "resolves k handle owner i \<longleftrightarrow>
     i < 16 \<and> i = unat (pipe64_handle_index handle) \<and> owner \<noteq> 0
   \<and> handle AND PIPE64_HANDLE_BASE_MASK = PIPE64_HANDLE_BASE
   \<and> pb_live (pipe_at k i) \<and> pb_generation (pipe_at k i) = pipe64_handle_generation handle
   \<and> (handle = pb_read_handle (pipe_at k i) \<or> handle = pb_write_handle (pipe_at k i))
   \<and> pipe64_endpoint_owner_matches (pipe_at k i) (pipe64_handle_kind handle) owner"

lemma pipe64_find_eq:
  assumes "g_pipe64_initialized (k_pipe k)"
  shows "pipe64_find handle owner k =
    (if resolves k handle owner (unat (pipe64_handle_index handle))
     then (Some (unat (pipe64_handle_index handle)), k) else (None, pipe_deny k))"
  using assms by (auto simp: pipe64_find_def Let_def resolves_def PIPE64_MAX_OBJECTS_def)

lemma resolvesD:
  assumes "resolves k handle owner i"
  shows "i < 16" "i = unat (pipe64_handle_index handle)" "owner \<noteq> 0" "pb_live (pipe_at k i)"
  using assms by (auto simp: resolves_def)


section \<open>Parking\<close>

text \<open>A pipe without its two parking places; parking and waking change nothing else.\<close>

definition unparked :: "pipe64_buffer \<Rightarrow> pipe64_buffer" where
  "unparked p = p\<lparr>pb_blocked_reader_task_id := SCHEDULER64_INVALID_TASK,
                  pb_blocked_writer_task_id := SCHEDULER64_INVALID_TASK\<rparr>"

lemma unparked_set [simp]: "unparked (set_blocked_slot side t p) = unparked p"
  by (cases side) (simp_all add: unparked_def)

lemma unparked_eqD:
  assumes "unparked p = unparked q"
  shows "content p = content q" "ring_shape p = ring_shape q" "pb_live p = pb_live q"
    "pb_generation p = pb_generation q" "pb_read_handle p = pb_read_handle q"
    "pb_write_handle p = pb_write_handle q" "pb_reader_closed p = pb_reader_closed q"
    "pb_writer_closed p = pb_writer_closed q" "pb_byte_count p = pb_byte_count q"
    "pb_capacity p = pb_capacity q"
    "pipe64_endpoint_owner_matches p = pipe64_endpoint_owner_matches q"
proof -
  obtain a b where q: "p = q\<lparr>pb_blocked_reader_task_id := a, pb_blocked_writer_task_id := b\<rparr>"
  proof
    show "p = q\<lparr>pb_blocked_reader_task_id := pb_blocked_reader_task_id p,
        pb_blocked_writer_task_id := pb_blocked_writer_task_id p\<rparr>"
      using assms by (cases p, cases q) (simp add: unparked_def)
  qed
  show "content p = content q" "ring_shape p = ring_shape q" "pb_live p = pb_live q"
    "pb_generation p = pb_generation q" "pb_read_handle p = pb_read_handle q"
    "pb_write_handle p = pb_write_handle q" "pb_reader_closed p = pb_reader_closed q"
    "pb_writer_closed p = pb_writer_closed q" "pb_byte_count p = pb_byte_count q"
    "pb_capacity p = pb_capacity q"
    "pipe64_endpoint_owner_matches p = pipe64_endpoint_owner_matches q"
    by (simp_all add: q content_def ring_shape_def fun_eq_iff pipe64_endpoint_owner_matches_def)
qed

definition same_pipes :: "'a kernel_pipe_scheme \<Rightarrow> 'a kernel_pipe_scheme \<Rightarrow> bool" where
  "same_pipes k k' \<longleftrightarrow>
     map unparked (g_pipe64_objects (k_pipe k')) = map unparked (g_pipe64_objects (k_pipe k))
   \<and> g_pipe64_initialized (k_pipe k') = g_pipe64_initialized (k_pipe k)"

lemma same_pipes_refl [simp, intro]: "same_pipes k k"
  by (simp add: same_pipes_def)

lemma same_pipes_trans [trans]: "same_pipes k k' \<Longrightarrow> same_pipes k' k'' \<Longrightarrow> same_pipes k k''"
  by (simp add: same_pipes_def)

lemma same_pipesD:
  assumes "same_pipes k k'"
  shows "length (g_pipe64_objects (k_pipe k')) = length (g_pipe64_objects (k_pipe k))"
    "i < length (g_pipe64_objects (k_pipe k)) \<Longrightarrow> unparked (pipe_at k' i) = unparked (pipe_at k i)"
    "pipes_ok k' = pipes_ok k"
proof -
  have m: "map unparked (g_pipe64_objects (k_pipe k')) = map unparked (g_pipe64_objects (k_pipe k))"
    using assms by (simp add: same_pipes_def)
  show len: "length (g_pipe64_objects (k_pipe k')) = length (g_pipe64_objects (k_pipe k))"
    using arg_cong [OF m, of length] by simp
  show u: "i < length (g_pipe64_objects (k_pipe k)) \<Longrightarrow> unparked (pipe_at k' i) = unparked (pipe_at k i)" for i
    using m len by (metis nth_map)
  show "pipes_ok k' = pipes_ok k"
    using assms len unparked_eqD(2) [OF u] by (auto simp: pipes_ok_def same_pipes_def)
qed

lemma map_update_same: "f y = f (xs ! i) \<Longrightarrow> map f (xs[i := y]) = map f xs"
  by (cases "i < length xs") (simp_all add: map_update list_update_same_conv list_update_beyond)

lemma same_pipes_writes [simp]:
  "same_pipes k (upd_pipe i (set_blocked_slot side t) k1) = same_pipes k k1"
  "same_pipes k (pipe_deny k1) = same_pipes k k1"
  "same_pipes k (k1\<lparr>k_sched := s\<rparr>) = same_pipes k k1"
  "same_pipes k (upd_pipes (\<lambda>ps. ps\<lparr>g_pipe64_block_count := f ps\<rparr>) k1) = same_pipes k k1"
  "same_pipes k (upd_pipes (\<lambda>ps. ps\<lparr>g_pipe64_wake_count := f ps, g_pipe64_replay_wake_count := g ps\<rparr>) k1)
     = same_pipes k k1"
  by (simp_all add: same_pipes_def map_update_same) (simp_all add: upd_pipes_def)

lemma block_current_same: "same_pipes k (snd (pipe64_block_current_task owner side i k))"
  by (simp add: pipe64_block_current_task_def Let_def case_prod_unfold)

lemma wake_blocked_same: "same_pipes k (snd (pipe64_wake_blocked_task side i k))"
  by (simp add: pipe64_wake_blocked_task_def Let_def case_prod_unfold)



section \<open>The write loop\<close>

lemma write_wait_room:
  "pb_byte_count (pipe_at k i) < pb_capacity (pipe_at k i) \<Longrightarrow> write_wait n i owner w k = (None, k)"
  by (simp add: write_wait.simps)

lemma write_wait_partial:
  "\<not> pb_byte_count (pipe_at k i) < pb_capacity (pipe_at k i) \<Longrightarrow> w \<noteq> 0 \<Longrightarrow>
   write_wait n i owner w k = (Some w, k)"
  by (simp add: write_wait.simps)

text \<open>On a full ring and with nothing written yet, the loop parks the task or gives up.\<close>

lemma write_wait_full:
  assumes "i < 16" and "pipes_ok k"
    and "\<not> pb_byte_count (pipe_at k i) < pb_capacity (pipe_at k i)"
  shows "fst (write_wait n i owner 0 k) \<in> {Some PIPE64_IO_BLOCKED, Some PIPE64_IO_ERROR}
    \<and> same_pipes k (snd (write_wait n i owner 0 k))"
  using assms(2,3)
proof (induction n arbitrary: k)
  case 0
  show ?case
    using 0 block_current_same [of k owner Writer i]
    by (simp add: write_wait.simps case_prod_unfold Let_def)
next
  case (Suc n)
  define k1 where "k1 = snd (pipe64_block_current_task owner Writer i k)"
  have same: "same_pipes k k1" unfolding k1_def by (rule block_current_same)
  have len: "i < length (g_pipe64_objects (k_pipe k))"
    using \<open>i < 16\<close> pipes_okD(2) [OF Suc.prems(1)] by simp
  note u = unparked_eqD [OF same_pipesD(2) [OF same len]]
  have IH: "fst (write_wait n i owner 0 k1) \<in> {Some PIPE64_IO_BLOCKED, Some PIPE64_IO_ERROR}
    \<and> same_pipes k1 (snd (write_wait n i owner 0 k1))"
    using Suc.IH [of k1] Suc.prems same_pipesD(3) [OF same] u(9,10) by simp
  then show ?case
    using Suc.prems(2) same same_pipes_trans [OF same]
    by (simp add: write_wait.simps [of "Suc n"] k1_def [symmetric] case_prod_unfold Let_def)
qed

lemma word_of_nat_Suc_shift: "(w :: u32) + 1 + of_nat n = w + of_nat (Suc n)"
  by (simp add: algebra_simps)

lemma write_loop_all:
  assumes "i < 16" and "pipes_ok k" and "length (content (pipe_at k i)) + length bs \<le> 4096"
  shows "write_loop i owner w bs k = (Inr (w + of_nat (length bs)), upd_pipe i (fold put_byte bs) k)"
  using assms(2,3)
proof (induction bs arbitrary: w k)
  case Nil
  show ?case by (simp add: upd_pipe_id)
next
  case (Cons b bs)
  note r = pipes_okD(3) [OF Cons.prems(1) \<open>i < 16\<close>]
  have room: "unat (pb_byte_count (pipe_at k i)) < 4096" using Cons.prems(2) by simp
  then have lt: "pb_byte_count (pipe_at k i) < pb_capacity (pipe_at k i)"
    using r by (simp add: ring_shape_def word_less_nat_alt)
  define k1 where "k1 = upd_pipe i (put_byte b) k"
  have len: "i < length (g_pipe64_objects (k_pipe k))"
    using \<open>i < 16\<close> pipes_okD(2) [OF Cons.prems(1)] by simp
  have ok1: "pipes_ok k1"
    unfolding k1_def by (rule upd_pipe_ok [OF Cons.prems(1)]) (rule put_byte_ring(1) [OF r room])
  have "pipe_at k1 i = put_byte b (pipe_at k i)" using len by (simp add: k1_def)
  then have "length (content (pipe_at k1 i)) + length bs \<le> 4096"
    using Cons.prems(2) put_byte_ring(2) [OF r room, of b]
    by (metis add_Suc_right add_Suc_shift length_Cons length_append_singleton)
  note IH = Cons.IH [OF ok1 this, of "w + 1"]
  show ?case
    using write_wait_room [OF lt, of PIPE64_SPIN_WAIT_LIMIT owner w] IH
    by (simp add: k1_def [symmetric] algebra_simps) (simp add: k1_def upd_pipe_upd_pipe [OF len] comp_def)
qed

lemma write_loop_append:
  "write_loop i owner w (xs @ ys) k =
    (case write_loop i owner w xs k of
       (Inl code, k1) \<Rightarrow> (Inl code, k1)
     | (Inr n, k1) \<Rightarrow> write_loop i owner n ys k1)"
  by (induction xs arbitrary: w k) (auto split: prod.split option.split)

text \<open>More bytes than fit: the ring is filled and the count returned, without waking the reader.\<close>

lemma write_loop_partial:
  assumes i: "i < 16" and ok: "pipes_ok k"
    and room: "room = 4096 - length (content (pipe_at k i))" "room < length bs" "0 < room"
  shows "write_loop i owner 0 bs k = (Inl (of_nat room), upd_pipe i (fold put_byte (take room bs)) k)"
proof -
  note r = pipes_okD(3) [OF ok i]
  have len: "i < length (g_pipe64_objects (k_pipe k))" using i pipes_okD(2) [OF ok] by simp
  have c: "length (content (pipe_at k i)) \<le> 4096" using r by (simp add: ring_shape_def)
  obtain b bs' where d: "drop room bs = b # bs'" using room(2) by (metis Cons_nth_drop_Suc)
  have bs: "bs = take room bs @ b # bs'" using d by (metis append_take_drop_id)
  define k1 where "k1 = upd_pipe i (fold put_byte (take room bs)) k"
  have fit: "length (content (pipe_at k i)) + length (take room bs) \<le> 4096"
    using room c by simp
  have all: "write_loop i owner 0 (take room bs) k = (Inr (of_nat room), k1)"
    using write_loop_all [OF i ok fit, of owner 0] room(2) by (simp add: k1_def)
  have p1: "pipe_at k1 i = fold put_byte (take room bs) (pipe_at k i)"
    using len by (simp add: k1_def)
  have "ring_shape (pipe_at k1 i)" "length (content (pipe_at k1 i)) = 4096"
    using ring.put_all [OF r fit] room c by (simp_all add: p1)
  then have full: "\<not> pb_byte_count (pipe_at k1 i) < pb_capacity (pipe_at k1 i)"
    by (simp add: ring_shape_def word_less_nat_alt)
  have "(of_nat room :: u32) \<noteq> 0"
    using room(1,3) small_of_nat_eq_0 [of room] by simp
  note part = write_wait_partial [OF full this, of PIPE64_SPIN_WAIT_LIMIT owner]
  show ?thesis
    by (subst bs, subst write_loop_append) (simp add: all part k1_def [symmetric])
qed

lemma write_loop_full:
  assumes i: "i < 16" and ok: "pipes_ok k" and full: "length (content (pipe_at k i)) = 4096" and "bs \<noteq> []"
  obtains code k' where "write_loop i owner 0 bs k = (Inl code, k')"
    "code \<in> {PIPE64_IO_BLOCKED, PIPE64_IO_ERROR}" "same_pipes k k'"
    "write_wait PIPE64_SPIN_WAIT_LIMIT i owner 0 k = (Some code, k')"
proof -
  obtain b bs' where bs: "bs = b # bs'" using \<open>bs \<noteq> []\<close> by (cases bs) auto
  have "\<not> pb_byte_count (pipe_at k i) < pb_capacity (pipe_at k i)"
    using full pipes_okD(3) [OF ok i] by (simp add: ring_shape_def word_less_nat_alt)
  from write_wait_full [OF i ok this, of PIPE64_SPIN_WAIT_LIMIT owner] that show thesis
    by (cases "write_wait PIPE64_SPIN_WAIT_LIMIT i owner 0 k") (auto simp: bs)
qed



section \<open>The read loop\<close>

lemma read_wait_some:
  "pb_byte_count (pipe_at k i) \<noteq> 0 \<Longrightarrow> read_wait n i owner w k = (None, k)"
  by (simp add: read_wait.simps)

lemma read_wait_partial:
  "pb_byte_count (pipe_at k i) = 0 \<Longrightarrow> w \<noteq> 0 \<or> pb_writer_closed (pipe_at k i) \<Longrightarrow>
   read_wait n i owner w k = (Some w, k)"
  by (auto simp: read_wait.simps)

lemma read_wait_empty:
  assumes "i < 16" and "pipes_ok k" and "pb_byte_count (pipe_at k i) = 0"
    and "\<not> pb_writer_closed (pipe_at k i)"
  shows "fst (read_wait n i owner 0 k) \<in> {Some PIPE64_IO_BLOCKED, Some PIPE64_IO_ERROR}
    \<and> same_pipes k (snd (read_wait n i owner 0 k))"
  using assms(2-4)
proof (induction n arbitrary: k)
  case 0
  show ?case
    using 0 block_current_same [of k owner Reader i]
    by (simp add: read_wait.simps case_prod_unfold Let_def)
next
  case (Suc n)
  define k1 where "k1 = snd (pipe64_block_current_task owner Reader i k)"
  have same: "same_pipes k k1" unfolding k1_def by (rule block_current_same)
  have len: "i < length (g_pipe64_objects (k_pipe k))"
    using \<open>i < 16\<close> pipes_okD(2) [OF Suc.prems(1)] by simp
  note u = unparked_eqD [OF same_pipesD(2) [OF same len]]
  have IH: "fst (read_wait n i owner 0 k1) \<in> {Some PIPE64_IO_BLOCKED, Some PIPE64_IO_ERROR}
    \<and> same_pipes k1 (snd (read_wait n i owner 0 k1))"
    using Suc.IH [of k1] Suc.prems same_pipesD(3) [OF same] u(8,9) by simp
  then show ?case
    using Suc.prems(2,3) same same_pipes_trans [OF same]
    by (simp add: read_wait.simps [of "Suc n"] k1_def [symmetric] case_prod_unfold Let_def)
qed

lemma read_loop_all:
  assumes "i < 16" and "pipes_ok k" and "n \<le> length (content (pipe_at k i))"
  shows "read_loop i owner n got k =
    (Inr (of_nat (length got + n)), got @ take n (content (pipe_at k i)),
     upd_pipe i (\<lambda>p. snd (get_all take_byte n p)) k)"
  using assms(2,3)
proof (induction n arbitrary: got k)
  case 0
  show ?case by (simp add: upd_pipe_id)
next
  case (Suc n)
  note r = pipes_okD(3) [OF Suc.prems(1) \<open>i < 16\<close>]
  have nz: "pb_byte_count (pipe_at k i) \<noteq> 0" using Suc.prems(2) by auto
  define k1 where "k1 = upd_pipe i (\<lambda>p. snd (take_byte p)) k"
  have len: "i < length (g_pipe64_objects (k_pipe k))"
    using \<open>i < 16\<close> pipes_okD(2) [OF Suc.prems(1)] by simp
  have ok1: "pipes_ok k1"
    unfolding k1_def by (rule upd_pipe_ok [OF Suc.prems(1)]) (rule take_byte_ring(1) [OF r nz])
  have p1: "pipe_at k1 i = snd (take_byte (pipe_at k i))" using len by (simp add: k1_def)
  have c: "content (pipe_at k i) = fst (take_byte (pipe_at k i)) # content (pipe_at k1 i)"
    unfolding p1 by (rule take_byte_ring(2) [OF r nz])
  have "n \<le> length (content (pipe_at k1 i))"
    using Suc.prems(2) c by (metis Suc_le_mono length_Cons)
  note IH = Suc.IH [OF ok1 this, of "got @ [fst (take_byte (pipe_at k i))]"]
  have u: "upd_pipe i (\<lambda>p. snd (get_all take_byte n p)) k1
      = upd_pipe i (\<lambda>p. snd (get_all take_byte (Suc n) p)) k"
    unfolding k1_def by (subst upd_pipe_upd_pipe [OF len]) (simp add: case_prod_unfold Let_def)
  have t: "take (Suc n) (content (pipe_at k i))
      = fst (take_byte (pipe_at k i)) # take n (content (pipe_at k1 i))"
    by (subst c) simp
  show ?case
    using read_wait_some [OF nz, of PIPE64_SPIN_WAIT_LIMIT owner "of_nat (length got)"] IH
    unfolding read_loop.simps by (simp add: k1_def [symmetric] t u)
qed

lemma read_loop_split:
  "read_loop i owner (m + n) got k =
    (case read_loop i owner m got k of
       (Inl code, got1, k1) \<Rightarrow> (Inl code, got1, k1)
     | (Inr c, got1, k1) \<Rightarrow> read_loop i owner n got1 k1)"
  by (induction m arbitrary: got k) (auto split: prod.split option.split)

lemma read_loop_partial:
  assumes i: "i < 16" and ok: "pipes_ok k"
    and n: "length (content (pipe_at k i)) < n"
    and some: "content (pipe_at k i) \<noteq> [] \<or> pb_writer_closed (pipe_at k i)"
  shows "read_loop i owner n [] k =
    (Inl (of_nat (length (content (pipe_at k i)))), content (pipe_at k i),
     upd_pipe i (\<lambda>p. snd (get_all take_byte (length (content (pipe_at k i))) p)) k)"
proof -
  note r = pipes_okD(3) [OF ok i]
  have len: "i < length (g_pipe64_objects (k_pipe k))" using i pipes_okD(2) [OF ok] by simp
  define m where "m = length (content (pipe_at k i))"
  obtain d where d: "n = m + Suc d" using n by (metis less_natE m_def add_Suc_right)
  define k1 where "k1 = upd_pipe i (\<lambda>p. snd (get_all take_byte m p)) k"
  have all: "read_loop i owner m [] k = (Inr (of_nat m), content (pipe_at k i), k1)"
    using read_loop_all [OF i ok, of m owner "[]"] by (simp add: m_def k1_def)
  have p1: "pipe_at k1 i = snd (get_all take_byte m (pipe_at k i))" using len by (simp add: k1_def)
  have "content (pipe_at k1 i) = []"
    using ring.get_all [OF r, of m] by (simp add: p1 m_def)
  then have z: "pb_byte_count (pipe_at k1 i) = 0" by (simp add: content_empty)
  have wc: "pb_writer_closed (snd (get_all take_byte m p)) = pb_writer_closed p" for p
    by (induction m arbitrary: p) (simp_all add: case_prod_unfold Let_def take_byte_def)
  have "m \<le> 4096" using r by (simp add: m_def ring_shape_def)
  then have "(of_nat m :: u32) \<noteq> 0 \<or> pb_writer_closed (pipe_at k1 i)"
    using some small_of_nat_eq_0 [of m] by (auto simp: p1 wc m_def content_empty)
  note part = read_wait_partial [OF z this, of PIPE64_SPIN_WAIT_LIMIT owner]
  have cnt: "pb_byte_count (pipe_at k i) = of_nat m" by (simp add: m_def)
  show ?thesis
    using part unfolding m_def [symmetric] d read_loop_split k1_def [symmetric]
    by (simp add: all cnt)
qed

lemma read_loop_empty:
  assumes i: "i < 16" and ok: "pipes_ok k" and "content (pipe_at k i) = []" and "0 < n"
    and "\<not> pb_writer_closed (pipe_at k i)"
  obtains code k' where "read_loop i owner n [] k = (Inl code, [], k')"
    "code \<in> {PIPE64_IO_BLOCKED, PIPE64_IO_ERROR}" "same_pipes k k'"
    "read_wait PIPE64_SPIN_WAIT_LIMIT i owner 0 k = (Some code, k')"
proof -
  obtain m where n: "n = Suc m" using \<open>0 < n\<close> by (cases n) auto
  have "pb_byte_count (pipe_at k i) = 0" using assms(3) by (simp add: content_empty)
  from read_wait_empty [OF i ok this assms(5), of PIPE64_SPIN_WAIT_LIMIT owner] that show thesis
    by (cases "read_wait PIPE64_SPIN_WAIT_LIMIT i owner 0 k") (auto simp: n)
qed

end
