(* ===== verification/Pipe_Props.thy ===== *)
theory Pipe_Props
  imports Pipe_Inv Capability_Props
begin

text \<open>
  What pipes promise: the bytes read are the bytes written, in order; a complete transfer wakes
  the task parked at the other end; which handles resolve; and two places where the code falls
  short of this.
\<close>

section \<open>The effect of one transfer\<close>

text \<open>The bytes a write with this result has put into the pipe.\<close>

definition accepted :: "u32 \<Rightarrow> u8 list \<Rightarrow> u8 list" where
  "accepted code bs = (if code = PIPE64_IO_BLOCKED \<or> code = PIPE64_IO_ERROR then [] else take (unat code) bs)"

lemma small_code:
  assumes "n \<le> 4096"
  shows "unat (of_nat n :: u32) = n" "(of_nat n :: u32) \<noteq> PIPE64_IO_BLOCKED"
    "(of_nat n :: u32) \<noteq> PIPE64_IO_ERROR"
proof -
  show u: "unat (of_nat n :: u32) = n"
    using assms by (simp add: unsigned_of_nat take_bit_nat_eq_self)
  show "(of_nat n :: u32) \<noteq> PIPE64_IO_BLOCKED" "(of_nat n :: u32) \<noteq> PIPE64_IO_ERROR"
    using assms by (auto simp: word_unat_eq_iff u)
qed

text \<open>The identity of a pipe: everything but its ring and its parking places.\<close>

definition pipe_identity :: "pipe64_buffer \<Rightarrow> pipe64_buffer" where
  "pipe_identity p = (unparked p)\<lparr>pb_bytes := [], pb_read_index := 0, pb_write_index := 0,
     pb_byte_count := 0, pb_byte_count_semaphore := 0\<rparr>"

lemma put_byte_identity [simp]: "pipe_identity (put_byte b p) = pipe_identity p"
  by (simp add: pipe_identity_def put_byte_def unparked_def)

lemma fold_put_identity [simp]: "pipe_identity (fold put_byte bs p) = pipe_identity p"
  by (induction bs arbitrary: p) simp_all

lemma get_all_identity [simp]: "pipe_identity (snd (get_all take_byte n p)) = pipe_identity p"
  by (induction n arbitrary: p)
    (simp_all add: case_prod_unfold Let_def pipe_identity_def take_byte_def unparked_def)

lemma unparked_identity: "unparked p = unparked q \<Longrightarrow> pipe_identity p = pipe_identity q"
  by (simp add: pipe_identity_def)

text \<open>
  \<open>moved k k' i out inn\<close>: from \<open>k\<close> to \<open>k'\<close> pipe \<open>i\<close> has lost \<open>out\<close> at the front and gained \<open>inn\<close>
  at the back, and nothing else has happened to any pipe but parking.
\<close>

definition moved ::
    "'a kernel_pipe_scheme \<Rightarrow> 'a kernel_pipe_scheme \<Rightarrow> nat \<Rightarrow> u8 list \<Rightarrow> u8 list \<Rightarrow> bool" where
  "moved k k' i out inn \<longleftrightarrow> pipes_ok k'
     \<and> (\<forall>j<16. pipe_identity (pipe_at k' j) = pipe_identity (pipe_at k j)
         \<and> (if j = i then content (pipe_at k j) @ inn = out @ content (pipe_at k' j)
            else content (pipe_at k' j) = content (pipe_at k j)))"

lemma moved_refl: "pipes_ok k \<Longrightarrow> moved k k i [] []"
  by (simp add: moved_def)

lemma movedD:
  assumes "moved k k' i out inn"
  shows "pipes_ok k'" "i < 16 \<Longrightarrow> content (pipe_at k i) @ inn = out @ content (pipe_at k' i)"
    "j < 16 \<Longrightarrow> pipe_identity (pipe_at k' j) = pipe_identity (pipe_at k j)"
  using assms by (auto simp: moved_def)

lemma moved_same:
  assumes "moved k k1 i out inn" and "same_pipes k1 k2"
  shows "moved k k2 i out inn"
proof -
  have ok: "pipes_ok k1" using assms(1) by (simp add: moved_def)
  have "unparked (pipe_at k2 j) = unparked (pipe_at k1 j)" if "j < 16" for j
    using same_pipesD(2) [OF assms(2)] pipes_okD(2) [OF ok] that by simp
  note u = this unparked_eqD(1) [OF this] unparked_identity [OF this]
  show ?thesis
    using assms(1) same_pipesD(3) [OF assms(2)] u(2,3) by (simp add: moved_def)
qed

lemma moved_put:
  assumes i: "i < 16" and ok: "pipes_ok k" and fit: "length (content (pipe_at k i)) + length bs \<le> 4096"
  shows "moved k (upd_pipe i (fold put_byte bs) k) i [] bs"
proof -
  note r = ring.put_all [OF pipes_okD(3) [OF ok i] fit]
  have "pipes_ok (upd_pipe i (fold put_byte bs) k)" by (rule upd_pipe_ok [OF ok]) (use r in simp)
  then show ?thesis
    using r i pipes_okD(2) [OF ok] by (auto simp: moved_def nth_list_update)
qed

lemma moved_get:
  assumes i: "i < 16" and ok: "pipes_ok k" and n: "n \<le> length (content (pipe_at k i))"
  shows "moved k (upd_pipe i (\<lambda>p. snd (get_all take_byte n p)) k) i (take n (content (pipe_at k i))) []"
proof -
  note r = ring.get_all [OF pipes_okD(3) [OF ok i] n]
  have "pipes_ok (upd_pipe i (\<lambda>p. snd (get_all take_byte n p)) k)"
    by (rule upd_pipe_ok [OF ok]) (use r in simp)
  then show ?thesis
    using r i pipes_okD(2) [OF ok] by (auto simp: moved_def nth_list_update)
qed

lemma moved_deny: "pipes_ok k \<Longrightarrow> moved k (pipe_deny k) i [] []"
  by (rule moved_same [OF moved_refl]) simp_all

lemma moved_deny2: "pipes_ok k \<Longrightarrow> moved k (pipe_deny (pipe_deny k)) i [] []"
  by (rule moved_same [OF moved_refl]) simp_all

text \<open>A write with a resolving handle, by how much room the ring has.\<close>

definition may_write :: "'a kernel_pipe_scheme \<Rightarrow> u32 \<Rightarrow> u32 \<Rightarrow> nat \<Rightarrow> bool" where
  "may_write k handle owner i \<longleftrightarrow> resolves k handle owner i
     \<and> pipe64_handle_kind handle = PIPE64_HANDLE_KIND_WRITE
     \<and> \<not> pb_writer_closed (pipe_at k i) \<and> \<not> pb_reader_closed (pipe_at k i)"

definition may_read :: "'a kernel_pipe_scheme \<Rightarrow> u32 \<Rightarrow> u32 \<Rightarrow> nat \<Rightarrow> bool" where
  "may_read k handle owner i \<longleftrightarrow> resolves k handle owner i
     \<and> pipe64_handle_kind handle = PIPE64_HANDLE_KIND_READ \<and> \<not> pb_reader_closed (pipe_at k i)"

lemma pipe64_write_unfold:
  assumes ok: "pipes_ok k" and m: "may_write k handle owner i" and n: "n \<noteq> 0"
  shows "pipe64_write handle (Some bs) n owner k =
    (case write_loop i owner 0 (take (unat n) bs) k of
       (Inl code, k2) \<Rightarrow> (code, k2)
     | (Inr c, k2) \<Rightarrow> (c, if c \<noteq> 0 then snd (pipe64_wake_blocked_task Reader i k2) else k2))"
proof -
  have "pipe64_find handle owner k = (Some i, k)"
    using m pipe64_find_eq [OF pipes_okD(1) [OF ok], of handle owner] resolvesD(2) [of k handle owner i]
    by (auto simp: may_write_def)
  then show ?thesis using m n by (simp add: pipe64_write_def may_write_def)
qed

lemma pipe64_read_unfold:
  assumes ok: "pipes_ok k" and m: "may_read k handle owner i" and n: "n \<noteq> 0"
  shows "pipe64_read handle True n owner k =
    (case read_loop i owner (unat n) [] k of
       (Inl code, got, k2) \<Rightarrow> (code, got, k2)
     | (Inr c, got, k2) \<Rightarrow>
         (c, got, if c \<noteq> 0 \<and> pb_byte_count (pipe_at k2 i) < pb_capacity (pipe_at k2 i)
                  then snd (pipe64_wake_blocked_task Writer i k2) else k2))"
proof -
  have "pipe64_find handle owner k = (Some i, k)"
    using m pipe64_find_eq [OF pipes_okD(1) [OF ok], of handle owner] resolvesD(2) [of k handle owner i]
    by (auto simp: may_read_def)
  then show ?thesis using m n by (simp add: pipe64_read_def may_read_def)
qed

lemma pipe64_write_refused:
  assumes ok: "pipes_ok k" and m: "\<not> may_write k handle owner (unat (pipe64_handle_index handle))"
    and n: "n \<noteq> 0"
  shows "fst (pipe64_write handle (Some bs) n owner k) = PIPE64_IO_ERROR
    \<and> moved k (snd (pipe64_write handle (Some bs) n owner k)) i [] []"
  using m n pipe64_find_eq [OF pipes_okD(1) [OF ok], of handle owner] moved_deny [OF ok] moved_deny2 [OF ok]
  by (auto simp: pipe64_write_def may_write_def)

lemma pipe64_read_refused:
  assumes ok: "pipes_ok k" and m: "\<not> may_read k handle owner (unat (pipe64_handle_index handle))"
    and n: "n \<noteq> 0"
  shows "fst (pipe64_read handle True n owner k) = PIPE64_IO_ERROR
    \<and> fst (snd (pipe64_read handle True n owner k)) = []
    \<and> moved k (snd (snd (pipe64_read handle True n owner k))) i [] []"
  using m n pipe64_find_eq [OF pipes_okD(1) [OF ok], of handle owner] moved_deny [OF ok] moved_deny2 [OF ok]
  by (auto simp: pipe64_read_def may_read_def)

lemma pipe64_transfer_0 [simp]:
  "pipe64_write handle input 0 owner k = (0, k)" "pipe64_read handle output 0 owner k = (0, [], k)"
  by (simp_all add: pipe64_write_def pipe64_read_def)

text \<open>The three ways a permitted transfer can go: it fits, it is cut short, or nothing moves.\<close>

lemma may_transfer_slot: "may_write k handle owner i \<Longrightarrow> i < 16" "may_read k handle owner i \<Longrightarrow> i < 16"
  "may_write k handle owner i \<Longrightarrow> i = unat (pipe64_handle_index handle)"
  "may_read k handle owner i \<Longrightarrow> i = unat (pipe64_handle_index handle)"
  using resolvesD(1,2) by (auto simp: may_write_def may_read_def)

lemma pipe64_write_fits:
  assumes ok: "pipes_ok k" and m: "may_write k handle owner i" and n: "n \<noteq> 0" "unat n \<le> length bs"
    and fit: "length (content (pipe_at k i)) + unat n \<le> 4096"
  shows "pipe64_write handle (Some bs) n owner k =
    (n, snd (pipe64_wake_blocked_task Reader i (upd_pipe i (fold put_byte (take (unat n) bs)) k)))"
  using pipe64_write_unfold [OF ok m n(1), of bs] n fit
    write_loop_all [OF may_transfer_slot(1) [OF m] ok, of "take (unat n) bs" owner 0]
  by simp

lemma pipe64_write_short:
  assumes ok: "pipes_ok k" and m: "may_write k handle owner i" and n: "unat n \<le> length bs"
    and short: "length (content (pipe_at k i)) < 4096" "4096 < length (content (pipe_at k i)) + unat n"
  shows "pipe64_write handle (Some bs) n owner k =
    (of_nat (4096 - length (content (pipe_at k i))),
     upd_pipe i (fold put_byte (take (4096 - length (content (pipe_at k i))) bs)) k)"
proof -
  define room where "room = 4096 - length (content (pipe_at k i))"
  have n0: "n \<noteq> 0" using short by auto
  have "room < length (take (unat n) bs)" "0 < room" using n short by (simp_all add: room_def)
  note w = write_loop_partial [OF may_transfer_slot(1) [OF m] ok room_def this, of owner]
  have "take room (take (unat n) bs) = take room bs" using short by (simp add: room_def min_def)
  then show ?thesis
    unfolding room_def [symmetric] using w pipe64_write_unfold [OF ok m n0, of bs] by simp
qed

lemma pipe64_write_full:
  assumes ok: "pipes_ok k" and m: "may_write k handle owner i" and n: "n \<noteq> 0" "unat n \<le> length bs"
    and full: "length (content (pipe_at k i)) = 4096"
  obtains code k' where "pipe64_write handle (Some bs) n owner k = (code, k')"
    "code \<in> {PIPE64_IO_BLOCKED, PIPE64_IO_ERROR}" "same_pipes k k'"
    "write_wait PIPE64_SPIN_WAIT_LIMIT i owner 0 k = (Some code, k')"
proof -
  have "take (unat n) bs \<noteq> []" using n by (auto simp: unat_eq_zero)
  from write_loop_full [OF may_transfer_slot(1) [OF m] ok full this, of owner]
  obtain code k' where w: "write_loop i owner 0 (take (unat n) bs) k = (Inl code, k')"
    "code \<in> {PIPE64_IO_BLOCKED, PIPE64_IO_ERROR}" "same_pipes k k'"
    "write_wait PIPE64_SPIN_WAIT_LIMIT i owner 0 k = (Some code, k')" .
  show thesis
    by (rule that [of code k']) (use pipe64_write_unfold [OF ok m n(1), of bs] w in simp_all)
qed

lemma pipe64_read_fits:
  assumes ok: "pipes_ok k" and m: "may_read k handle owner i" and n: "n \<noteq> 0"
    and fit: "unat n \<le> length (content (pipe_at k i))"
  shows "pipe64_read handle True n owner k =
    (n, take (unat n) (content (pipe_at k i)),
     snd (pipe64_wake_blocked_task Writer i (upd_pipe i (\<lambda>p. snd (get_all take_byte (unat n) p)) k)))"
proof -
  note i = may_transfer_slot(2) [OF m]
  define k2 where "k2 = upd_pipe i (\<lambda>p. snd (get_all take_byte (unat n) p)) k"
  note g = ring.get_all [OF pipes_okD(3) [OF ok i] fit]
  have p2: "pipe_at k2 i = snd (get_all take_byte (unat n) (pipe_at k i))"
    using i pipes_okD(2) [OF ok] by (simp add: k2_def)
  have "unat (pb_byte_count (pipe_at k2 i)) < 4096"
  proof -
    have "length (content (pipe_at k2 i)) = length (content (pipe_at k i)) - unat n"
      using g by (simp add: p2 del: length_content)
    moreover have "length (content (pipe_at k i)) \<le> 4096" "0 < unat n"
      using pipes_okD(3) [OF ok i] n by (simp_all add: ring_shape_def unat_gt_0)
    ultimately show ?thesis by simp
  qed
  then have "pb_byte_count (pipe_at k2 i) < pb_capacity (pipe_at k2 i)"
    using g by (simp add: p2 ring_shape_def word_less_nat_alt)
  then show ?thesis
    using pipe64_read_unfold [OF ok m n] read_loop_all [OF i ok fit, of owner "[]"] n
    by (simp add: k2_def [symmetric])
qed

lemma pipe64_read_short:
  assumes ok: "pipes_ok k" and m: "may_read k handle owner i"
    and short: "length (content (pipe_at k i)) < unat n"
    and some: "content (pipe_at k i) \<noteq> [] \<or> pb_writer_closed (pipe_at k i)"
  shows "pipe64_read handle True n owner k =
    (of_nat (length (content (pipe_at k i))), content (pipe_at k i),
     upd_pipe i (\<lambda>p. snd (get_all take_byte (length (content (pipe_at k i))) p)) k)"
proof -
  have n0: "n \<noteq> 0" using short by auto
  show ?thesis
    using pipe64_read_unfold [OF ok m n0] read_loop_partial [OF may_transfer_slot(2) [OF m] ok short some, of owner]
    by (simp del: length_content)
qed

lemma pipe64_read_empty:
  assumes ok: "pipes_ok k" and m: "may_read k handle owner i" and n: "n \<noteq> 0"
    and empty: "content (pipe_at k i) = []" "\<not> pb_writer_closed (pipe_at k i)"
  obtains code k' where "pipe64_read handle True n owner k = (code, [], k')"
    "code \<in> {PIPE64_IO_BLOCKED, PIPE64_IO_ERROR}" "same_pipes k k'"
    "read_wait PIPE64_SPIN_WAIT_LIMIT i owner 0 k = (Some code, k')"
proof -
  have "0 < unat n" using n by (simp add: unat_gt_0)
  from read_loop_empty [OF may_transfer_slot(2) [OF m] ok empty(1) this empty(2), of owner]
  obtain code k' where r: "read_loop i owner (unat n) [] k = (Inl code, [], k')"
    "code \<in> {PIPE64_IO_BLOCKED, PIPE64_IO_ERROR}" "same_pipes k k'"
    "read_wait PIPE64_SPIN_WAIT_LIMIT i owner 0 k = (Some code, k')" .
  show thesis
    by (rule that [of code k']) (use pipe64_read_unfold [OF ok m n] r in simp_all)
qed

lemma pipe64_write_moved:
  assumes ok: "pipes_ok k" and n: "unat n \<le> length bs"
    and i: "i = unat (pipe64_handle_index handle)"
    and res: "pipe64_write handle (Some bs) n owner k = (code, k')"
  shows "moved k k' i [] (accepted code bs)"
proof (cases "n = 0 \<or> \<not> may_write k handle owner i")
  case True
  then show ?thesis
    using res pipe64_write_refused [OF ok, of handle owner n bs i] moved_refl [OF ok]
    by (cases "n = 0") (auto simp: accepted_def i)
next
  case False
  then have m: "may_write k handle owner i" and n0: "n \<noteq> 0" by auto
  note i16 = may_transfer_slot(1) [OF m]
  define c where "c = length (content (pipe_at k i))"
  have c: "c \<le> 4096" using pipes_okD(3) [OF ok i16] by (simp add: c_def ring_shape_def)
  consider "c + unat n \<le> 4096" | "c < 4096" "4096 < c + unat n" | "c = 4096" using c by linarith
  then show ?thesis
  proof cases
    case 1
    have n4: "unat n \<le> 4096" using 1 by simp
    note w = pipe64_write_fits [OF ok m n0 n 1 [unfolded c_def]]
    have "accepted code bs = take (unat n) bs" using w res n4 by (auto simp: accepted_def)
    moreover have "moved k (upd_pipe i (fold put_byte (take (unat n) bs)) k) i [] (take (unat n) bs)"
      by (rule moved_put [OF i16 ok]) (use 1 n in \<open>simp add: c_def\<close>)
    ultimately show ?thesis using w res moved_same [OF _ wake_blocked_same] by auto
  next
    case 2
    note w = pipe64_write_short [OF ok m n 2 [unfolded c_def], folded c_def]
    have "accepted code bs = take (4096 - c) bs"
      using w res small_code [of "4096 - c"] by (simp add: accepted_def)
    moreover have "moved k (upd_pipe i (fold put_byte (take (4096 - c) bs)) k) i [] (take (4096 - c) bs)"
      by (rule moved_put [OF i16 ok]) (use 2 n in \<open>simp add: c_def\<close>)
    ultimately show ?thesis using w res by auto
  next
    case 3
    have "same_pipes k k' \<and> code \<in> {PIPE64_IO_BLOCKED, PIPE64_IO_ERROR}"
      by (rule pipe64_write_full [OF ok m n0 n 3 [unfolded c_def]]) (use res in simp)
    then show ?thesis using moved_same [OF moved_refl [OF ok]] by (auto simp: accepted_def)
  qed
qed

lemma pipe64_read_moved:
  assumes ok: "pipes_ok k" and i: "i = unat (pipe64_handle_index handle)"
    and res: "pipe64_read handle True n owner k = (code, got, k')"
  shows "moved k k' i got []"
proof (cases "n = 0 \<or> \<not> may_read k handle owner i")
  case True
  then show ?thesis
    using res pipe64_read_refused [OF ok, of handle owner n i] moved_refl [OF ok]
    by (cases "n = 0") (auto simp: i)
next
  case False
  then have m: "may_read k handle owner i" and n0: "n \<noteq> 0" by auto
  note i16 = may_transfer_slot(2) [OF m]
  consider "unat n \<le> length (content (pipe_at k i))"
    | "length (content (pipe_at k i)) < unat n" "content (pipe_at k i) \<noteq> [] \<or> pb_writer_closed (pipe_at k i)"
    | "content (pipe_at k i) = []" "\<not> pb_writer_closed (pipe_at k i)" by linarith
  then show ?thesis
  proof cases
    case 1
    show ?thesis
      using pipe64_read_fits [OF ok m n0 1] moved_get [OF i16 ok 1] moved_same [OF _ wake_blocked_same] res
      by auto
  next
    case 2
    show ?thesis
      using pipe64_read_short [OF ok m 2] moved_get [OF i16 ok order_refl] res by (simp del: length_content)
  next
    case 3
    have "same_pipes k k' \<and> got = []"
      by (rule pipe64_read_empty [OF ok m n0 3]) (use res in simp)
    then show ?thesis using moved_same [OF moved_refl [OF ok]] by auto
  qed
qed


section \<open>Example\<close>

text \<open>One open pipe, of principal 7, in slot 0 with generation 2.\<close>

definition demo_pipe :: pipe64_buffer where
  "demo_pipe = (cleared_pipe 2)\<lparr>pb_live := True, pb_owner_pid := 3, pb_owner_id := 7,
     pb_read_owner_id := 7, pb_write_owner_id := 7, pb_read_ref_count := 1, pb_write_ref_count := 1,
     pb_read_handle := pipe64_make_handle 0 2 PIPE64_HANDLE_KIND_READ,
     pb_write_handle := pipe64_make_handle 0 2 PIPE64_HANDLE_KIND_WRITE\<rparr>"

definition demo_pipes :: "pipe64_buffer \<Rightarrow> scheduler_state \<Rightarrow> kernel_pipe" where
  "demo_pipes p s = \<lparr>k_launch = [], k_proc = process64_seed_records,
     k_persona = \<lparr>g_persona64_contexts = [], g_persona64_context_used = [], g_persona64_initialized = True,
       g_persona64_native_count = 0, g_persona64_denial_count = 0\<rparr>,
     k_ticks = 0, k_audit = audit_bss, k_cap = capability64_init, k_sched = s,
     k_pipe = \<lparr>g_pipe64_objects = p # replicate 15 (cleared_pipe 1), g_pipe64_initialized = True,
       g_pipe64_denials = 0, g_pipe64_block_count = 0, g_pipe64_wake_count = 0,
       g_pipe64_replay_wake_count = 0\<rparr>\<rparr>"

lemma cleared_pipe_ring [simp]: "ring_shape (cleared_pipe g)" "content (cleared_pipe g) = []"
  by (simp_all add: ring_shape_def cleared_pipe_def PIPE64_BUFFER_BYTES_def content_def)

lemma demo_pipe_ring: "ring_shape demo_pipe" "content demo_pipe = []"
  by (simp_all add: ring_shape_def demo_pipe_def cleared_pipe_def PIPE64_BUFFER_BYTES_def content_def)

lemma pipe_identityD:
  assumes "pipe_identity p = pipe_identity q"
  shows "pb_live p = pb_live q" "pb_generation p = pb_generation q"
    "pb_read_handle p = pb_read_handle q" "pb_write_handle p = pb_write_handle q"
    "pb_reader_closed p = pb_reader_closed q" "pb_writer_closed p = pb_writer_closed q"
    "pipe64_endpoint_owner_matches p = pipe64_endpoint_owner_matches q"
  using arg_cong [OF assms, of pb_live] arg_cong [OF assms, of pb_generation]
    arg_cong [OF assms, of pb_read_handle] arg_cong [OF assms, of pb_write_handle]
    arg_cong [OF assms, of pb_reader_closed] arg_cong [OF assms, of pb_writer_closed]
    arg_cong [OF assms, of pb_read_owner_id] arg_cong [OF assms, of pb_write_owner_id]
    arg_cong [OF assms, of pb_read_grantee_owner_id] arg_cong [OF assms, of pb_write_grantee_owner_id]
  by (simp_all add: pipe_identity_def unparked_def pipe64_endpoint_owner_matches_def fun_eq_iff)

lemma may_read_identity:
  assumes "pipe_identity (pipe_at k1 i) = pipe_identity (pipe_at k i)"
  shows "may_read k1 handle owner i = may_read k handle owner i"
  using pipe_identityD [OF assms] by (simp add: may_read_def resolves_def)

lemma demo_may:
  assumes "pipe_identity (pipe_at k 0) = pipe_identity demo_pipe"
  shows "may_write k 0x0F000201 7 0" "may_read k 0x0F000200 7 0"
  using pipe_identityD [OF assms]
  by (simp_all add: may_write_def may_read_def resolves_def demo_pipe_def cleared_pipe_def
      pipe64_make_handle_def PIPE64_MAX_OBJECTS_def pipe64_handle_index_def
      pipe64_handle_generation_def pipe64_handle_kind_def pipe64_endpoint_owner_matches_def)

lemma demo_pipes_at [simp]: "pipe_at (demo_pipes p s) 0 = p"
  by (simp add: demo_pipes_def)

lemma demo_pipes_ok: "ring_shape p \<Longrightarrow> pipes_ok (demo_pipes p s)"
  by (auto simp: pipes_ok_def demo_pipes_def nth_Cons split: nat.split)


section \<open>A pipe refines a queue of bytes\<close>

text \<open>
  The specification: a queue of at most 4096 bytes. One step takes \<open>w\<close> in at the back or hands
  \<open>r\<close> out from the front.
\<close>

inductive queue_step :: "u8 list \<Rightarrow> u8 list \<Rightarrow> u8 list \<Rightarrow> u8 list \<Rightarrow> bool" where
  push: "length (q @ w) \<le> 4096 \<Longrightarrow> queue_step q w [] (q @ w)"
| pop: "queue_step (r @ q) [] r q"

inductive queue_run :: "u8 list \<Rightarrow> u8 list \<Rightarrow> u8 list \<Rightarrow> u8 list \<Rightarrow> bool" where
  run_nil: "queue_run q [] [] q"
| run_cons: "queue_step q w r q1 \<Longrightarrow> queue_run q1 ws rs q2 \<Longrightarrow> queue_run q (w @ ws) (r @ rs) q2"

lemma queue_step_stream: "queue_step q w r q1 \<Longrightarrow> q @ w = r @ q1"
  by (induction rule: queue_step.induct) simp_all

lemma queue_run_stream: "queue_run q ws rs q2 \<Longrightarrow> q @ ws = rs @ q2"
proof (induction rule: queue_run.induct)
  case (run_cons q w r q1 ws rs q2)
  then show ?case using queue_step_stream [OF run_cons.hyps(1)]
    by (metis append.assoc)
qed simp

text \<open>
  What processes do to the pipes: a write or a read through any handle under any principal, and
  anything at all to the scheduler in between.
\<close>

datatype pipe_event =
    Pipe_Write u32 "u8 list" u32
  | Pipe_Read u32 u32 u32
  | Reschedule scheduler_state

text \<open>One event: the bytes taken into pipe \<open>i\<close>, the bytes delivered from it and the kernel after it.\<close>

definition pipe_event_step ::
    "nat \<Rightarrow> pipe_event \<Rightarrow> 'a kernel_pipe_scheme \<Rightarrow> u8 list \<times> u8 list \<times> 'a kernel_pipe_scheme" where
  "pipe_event_step i e k =
    (case e of
       Pipe_Write handle bs owner \<Rightarrow>
         (case pipe64_write handle (Some bs) (of_nat (length bs)) owner k of
            (code, k') \<Rightarrow> (if unat (pipe64_handle_index handle) = i then accepted code bs else [], [], k'))
     | Pipe_Read handle n owner \<Rightarrow>
         (case pipe64_read handle True n owner k of
            (code, got, k') \<Rightarrow> ([], if unat (pipe64_handle_index handle) = i then got else [], k'))
     | Reschedule s \<Rightarrow> ([], [], k\<lparr>k_sched := s\<rparr>))"

fun pipe_events ::
    "nat \<Rightarrow> pipe_event list \<Rightarrow> 'a kernel_pipe_scheme \<Rightarrow> u8 list \<times> u8 list \<times> 'a kernel_pipe_scheme" where
  "pipe_events i [] k = ([], [], k)"
| "pipe_events i (e # es) k =
    (case pipe_event_step i e k of
       (w, r, k1) \<Rightarrow> (case pipe_events i es k1 of (ws, rs, k2) \<Rightarrow> (w @ ws, r @ rs, k2)))"

lemma moved_queue_step:
  assumes "moved k k' j out inn" and "i < 16" and "out = [] \<or> inn = []"
  shows "pipes_ok k'" "queue_step (content (pipe_at k i)) (if j = i then inn else [])
    (if j = i then out else []) (content (pipe_at k' i))"
proof -
  show ok: "pipes_ok k'" using assms(1) by (simp add: moved_def)
  have len: "length (content (pipe_at k' i)) \<le> 4096"
    using pipes_okD(3) [OF ok assms(2)] by (simp add: ring_shape_def)
  have eq: "content (pipe_at k i) @ (if j = i then inn else [])
      = (if j = i then out else []) @ content (pipe_at k' i)"
    using assms(1,2) by (auto simp: moved_def)
  show "queue_step (content (pipe_at k i)) (if j = i then inn else [])
    (if j = i then out else []) (content (pipe_at k' i))"
  proof (cases "j = i \<and> inn = []")
    case True
    then show ?thesis using eq queue_step.pop [of out] by simp
  next
    case False
    then have e: "content (pipe_at k i) @ (if j = i then inn else []) = content (pipe_at k' i)"
      "(if j = i then out else []) = []" using eq assms(3) by auto
    show ?thesis
      unfolding e(2) e(1) [symmetric] by (rule queue_step.push) (use len e(1) in simp)
  qed
qed

lemma pipe_event_step_refines:
  assumes ok: "pipes_ok k" and i: "i < 16" and step: "pipe_event_step i e k = (w, r, k')"
  shows "pipes_ok k'" "queue_step (content (pipe_at k i)) w r (content (pipe_at k' i))"
proof -
  have "pipes_ok k' \<and> queue_step (content (pipe_at k i)) w r (content (pipe_at k' i))"
  proof (cases e)
    case (Pipe_Write handle bs owner)
    obtain code k1 where res: "pipe64_write handle (Some bs) (of_nat (length bs)) owner k = (code, k1)"
      by fastforce
    have "unat (of_nat (length bs) :: u32) \<le> length bs" by (simp add: unsigned_of_nat take_bit_nat_def)
    note m = pipe64_write_moved [OF ok this refl res]
    show ?thesis
      using step res moved_queue_step [OF m i] by (simp add: Pipe_Write pipe_event_step_def)
  next
    case (Pipe_Read handle n owner)
    obtain code got k1 where res: "pipe64_read handle True n owner k = (code, got, k1)"
      by (metis prod_cases3)
    show ?thesis
      using step res moved_queue_step [OF pipe64_read_moved [OF ok refl res] i]
      by (simp add: Pipe_Read pipe_event_step_def)
  next
    case (Reschedule s)
    have "moved k (k\<lparr>k_sched := s\<rparr>) i [] []" by (rule moved_same [OF moved_refl [OF ok]]) simp
    then show ?thesis
      using step moved_queue_step [of k k' i "[]" "[]" i] i by (auto simp: Reschedule pipe_event_step_def)
  qed
  then show "pipes_ok k'" "queue_step (content (pipe_at k i)) w r (content (pipe_at k' i))" by auto
qed

text \<open>
  C1: A pipe implements a bounded queue of bytes. Whatever sequence of reads and writes, with
  whatever handles, principals, lengths and scheduling in between, the transfers of each pipe are a
  run of the abstract queue: the bytes handed to readers, followed by what is still in the
  ring, are exactly what was in the ring followed by the bytes the writers were told were
  accepted, in order, and the ring never holds more than 4096 of them.
\<close>

theorem pipe64_stream_refines_queue:
  assumes "pipes_ok k" and "i < 16" and "pipe_events i es k = (ws, rs, k')"
  shows "pipes_ok k' \<and> queue_run (content (pipe_at k i)) ws rs (content (pipe_at k' i))
    \<and> content (pipe_at k i) @ ws = rs @ content (pipe_at k' i)
    \<and> length (content (pipe_at k' i)) \<le> 4096"
proof -
  have "pipes_ok k' \<and> queue_run (content (pipe_at k i)) ws rs (content (pipe_at k' i))"
    using assms(1,3)
  proof (induction es arbitrary: k ws rs)
    case Nil
    then show ?case by (simp add: run_nil)
  next
    case (Cons e es)
    obtain w r k1 ws1 rs1 where step: "pipe_event_step i e k = (w, r, k1)"
      and rest: "pipe_events i es k1 = (ws1, rs1, k')" "ws = w @ ws1" "rs = r @ rs1"
      using Cons.prems(2) by (auto split: prod.splits)
    note s = pipe_event_step_refines [OF Cons.prems(1) assms(2) step]
    show ?case using Cons.IH [OF s(1) rest(1)] run_cons [OF s(2)] rest(2,3) by auto
  qed
  then show ?thesis
    using queue_run_stream pipes_okD(3) [of k' i] assms(2) by (auto simp: ring_shape_def)
qed


theorem pipe64_stream_refines_queue_witness:
  "case pipe_events 0 [Pipe_Write 0x0F000201 [1, 2, 3] 7, Pipe_Read 0x0F000200 2 7]
     (demo_pipes demo_pipe (fst demo_started)) of
     (ws, rs, k') \<Rightarrow> ws = [1, 2, 3] \<and> rs = [1, 2] \<and> content (pipe_at k' 0) = [3]"
proof -
  let ?k = "demo_pipes demo_pipe (fst demo_started)"
  note ok = demo_pipes_ok [OF demo_pipe_ring(1), of "fst demo_started"]
  have e: "content (pipe_at ?k 0) = []" by (simp add: demo_pipe_ring)
  obtain k1 where k1: "pipe64_write 0x0F000201 (Some [1, 2, 3]) 3 7 ?k = (3, k1)"
    using pipe64_write_fits [OF ok demo_may(1), of 3 "[1, 2, 3]"] e by (auto simp: content_empty)
  have "moved ?k k1 0 [] (accepted 3 [1, 2, 3])"
    by (rule pipe64_write_moved [OF ok _ _ k1]) (simp_all add: pipe64_handle_index_def)
  note m = movedD [OF this]
  have c1: "content (pipe_at k1 0) = [1, 2, 3]" "pipes_ok k1"
    and "pipe_identity (pipe_at k1 0) = pipe_identity demo_pipe"
    using m(1) m(2) m(3) [of 0] e by (simp_all add: accepted_def)
  then have "may_read k1 0x0F000200 7 0" by (intro demo_may(2))
  then obtain k2 where k2: "pipe64_read 0x0F000200 True 2 7 k1 = (2, [1, 2], k2)"
    using pipe64_read_fits [OF c1(2), of "0x0F000200" 7 0 2] c1(1) arg_cong [OF c1(1), of length] by auto
  have run: "pipe_events 0 [Pipe_Write 0x0F000201 [1, 2, 3] 7, Pipe_Read 0x0F000200 2 7] ?k
      = ([1, 2, 3], [1, 2], k2)"
    using k1 k2 by (simp add: pipe_event_step_def accepted_def pipe64_handle_index_def)
  show ?thesis
    using pipe64_stream_refines_queue [OF ok _ run] e unfolding run by simp
qed


section \<open>Waking the other end\<close>

text \<open>Task \<open>t\<close> is parked at one side of pipe \<open>i\<close>.\<close>

definition parked :: "'a kernel_pipe_scheme \<Rightarrow> pipe_side \<Rightarrow> nat \<Rightarrow> u32 \<Rightarrow> bool" where
  "parked k side i t \<longleftrightarrow> blocked_slot side (pipe_at k i) = t \<and> t \<noteq> SCHEDULER64_INVALID_TASK
     \<and> scheduler64_runqueue_task_state (k_sched k) t = SCHEDULER64_TASK_BLOCKED"

lemma upd_pipes_sched [simp]: "k_sched (upd_pipes f k) = k_sched k"
  by (simp add: upd_pipes_def)

lemma put_take_slots [simp]:
  "blocked_slot side (fold put_byte bs p) = blocked_slot side p"
  "blocked_slot side (snd (get_all take_byte n p)) = blocked_slot side p"
proof -
  show "blocked_slot side (fold put_byte bs p) = blocked_slot side p"
    by (induction bs arbitrary: p) (cases side; simp add: put_byte_def)+
  show "blocked_slot side (snd (get_all take_byte n p)) = blocked_slot side p"
    by (induction n arbitrary: p) (cases side; simp add: case_prod_unfold Let_def take_byte_def)+
qed

lemma blocked_slot_set [simp]:
  "blocked_slot side (set_blocked_slot side' t p) = (if side = side' then t else blocked_slot side p)"
  by (cases side; cases side') simp_all

lemma upd_pipes_counters [simp]:
  "g_pipe64_objects (k_pipe (upd_pipes (\<lambda>ps. ps\<lparr>g_pipe64_wake_count := f ps, g_pipe64_replay_wake_count := g ps\<rparr>) k))
     = g_pipe64_objects (k_pipe k)"
  "g_pipe64_objects (k_pipe (upd_pipes (\<lambda>ps. ps\<lparr>g_pipe64_block_count := f ps\<rparr>) k)) = g_pipe64_objects (k_pipe k)"
  by (simp_all add: upd_pipes_def)

lemma wake_parked:
  assumes inv: "sched_inv (k_sched k)" and i: "i < length (g_pipe64_objects (k_pipe k))"
    and p: "parked k side i t" and k': "k' = snd (pipe64_wake_blocked_task side i k)"
  shows "scheduler64_runqueue_task_state (k_sched k') t = SCHEDULER64_TASK_READY"
    "j \<noteq> t \<Longrightarrow> scheduler64_runqueue_task_state (k_sched k') j = scheduler64_runqueue_task_state (k_sched k) j"
    "blocked_slot side (pipe_at k' i) = SCHEDULER64_INVALID_TASK"
    "g_scheduler64_preferred_task (k_sched k') = t"
proof -
  note w = parking.wake_iff [OF inv, of t] parking.wake_readies [OF inv, of t]
  have woken: "fst (scheduler64_runqueue_wake_task_replay t (k_sched k))"
    using w(1) p by (simp add: parked_def)
  have s: "k_sched k' = snd (scheduler64_runqueue_wake_task_replay t (k_sched k))"
    and b: "blocked_slot side (pipe_at k' i) = SCHEDULER64_INVALID_TASK"
    using p woken i by (auto simp: k' parked_def pipe64_wake_blocked_task_def Let_def case_prod_unfold)
  show "scheduler64_runqueue_task_state (k_sched k') t = SCHEDULER64_TASK_READY"
    "j \<noteq> t \<Longrightarrow> scheduler64_runqueue_task_state (k_sched k') j = scheduler64_runqueue_task_state (k_sched k) j"
    using w(2) p by (simp_all add: s parked_def)
  show "blocked_slot side (pipe_at k' i) = SCHEDULER64_INVALID_TASK" by (rule b)
  show "g_scheduler64_preferred_task (k_sched k') = t"
    using woken by (auto simp: s scheduler64_runqueue_wake_task_replay_def prefer_woken_def upd_rq_def split: if_splits)
qed

lemma parked_upd_pipe:
  "i < length (g_pipe64_objects (k_pipe k)) \<Longrightarrow> blocked_slot side (f (pipe_at k i)) = blocked_slot side (pipe_at k i) \<Longrightarrow>
   parked (upd_pipe i f k) side i t = parked k side i t"
  by (simp add: parked_def)

text \<open>
  C36: A transfer that is carried out in full wakes the task parked at the other end: a write that
  fits into the ring makes a parked reader ready, and a read that finds all the bytes it asks
  for makes a parked writer ready. The result is the number of bytes asked for, the woken
  task is the scheduler's next choice, its parking place is free again, and no other task changes
  state.
\<close>

theorem pipe64_complete_transfer_wakes_peer:
  assumes ok: "pipes_ok k" and inv: "sched_inv (k_sched k)" and n: "n \<noteq> 0"
    and op: "side = Reader \<and> may_write k handle owner i \<and> unat n \<le> length bs
           \<and> length (content (pipe_at k i)) + unat n \<le> 4096
           \<and> pipe64_write handle (Some bs) n owner k = (code, k')
       \<or> side = Writer \<and> may_read k handle owner i \<and> unat n \<le> length (content (pipe_at k i))
           \<and> pipe64_read handle True n owner k = (code, got, k')"
    and p: "parked k side i t"
  shows "code = n
    \<and> scheduler64_runqueue_task_state (k_sched k') t = SCHEDULER64_TASK_READY
    \<and> g_scheduler64_preferred_task (k_sched k') = t
    \<and> blocked_slot side (pipe_at k' i) = SCHEDULER64_INVALID_TASK
    \<and> (\<forall>j. j \<noteq> t \<longrightarrow> scheduler64_runqueue_task_state (k_sched k') j
                      = scheduler64_runqueue_task_state (k_sched k) j)"
proof -
  have i: "i < length (g_pipe64_objects (k_pipe k))"
    using op may_transfer_slot(1,2) pipes_okD(2) [OF ok] by auto
  obtain f where f: "k' = snd (pipe64_wake_blocked_task side i (upd_pipe i f k))" "code = n"
    and slot: "blocked_slot side (f (pipe_at k i)) = blocked_slot side (pipe_at k i)"
    using op
  proof (elim disjE conjE)
    assume a: "side = Reader" "may_write k handle owner i" "unat n \<le> length bs"
      "length (content (pipe_at k i)) + unat n \<le> 4096" "pipe64_write handle (Some bs) n owner k = (code, k')"
    show thesis
      by (rule that [of "fold put_byte (take (unat n) bs)"])
        (use pipe64_write_fits [OF ok a(2) n a(3,4)] a(1,5) in simp_all)
  next
    assume a: "side = Writer" "may_read k handle owner i" "unat n \<le> length (content (pipe_at k i))"
      "pipe64_read handle True n owner k = (code, got, k')"
    show thesis
      by (rule that [of "\<lambda>p. snd (get_all take_byte (unat n) p)"])
        (use pipe64_read_fits [OF ok a(2) n a(3)] a(1,4) in simp_all)
  qed
  have i': "i < length (g_pipe64_objects (k_pipe (upd_pipe i f k)))" using i by simp
  have p': "parked (upd_pipe i f k) side i t" using p parked_upd_pipe [of i k side f t, OF i slot] by simp
  have inv': "sched_inv (k_sched (upd_pipe i f k))" using inv by simp
  show ?thesis using wake_parked [OF inv' i' p' f(1)] f(2) by simp
qed


text \<open>A second task, parked at one side of the pipe.\<close>

definition demo_parked :: scheduler_state where
  "demo_parked = snd (scheduler64_runqueue_block_task 1 (fst demo_started))"

lemma demo_parked_facts:
  "sched_inv demo_parked" "scheduler64_runqueue_task_state demo_parked 1 = SCHEDULER64_TASK_BLOCKED"
proof -
  show "sched_inv demo_parked"
    unfolding demo_parked_def by (rule parking.block_ok [OF demo_started_inv])
  have "fst (scheduler64_runqueue_block_task 1 (fst demo_started))" by code_simp
  then show "scheduler64_runqueue_task_state demo_parked 1 = SCHEDULER64_TASK_BLOCKED"
    by (simp add: demo_parked_def block_state [OF demo_started_inv])
qed

lemma demo_parked_pipe:
  fixes p :: pipe64_buffer and side :: pipe_side
  assumes "ring_shape p" and "pipe_identity p = pipe_identity demo_pipe"
  defines "k \<equiv> demo_pipes (set_blocked_slot side 1 p) demo_parked"
  shows "pipes_ok k" "sched_inv (k_sched k)" "parked k side 0 1" "content (pipe_at k 0) = content p"
    "may_write k 0x0F000201 7 0" "may_read k 0x0F000200 7 0"
proof -
  note u = unparked_set [of side 1 p]
  show "pipes_ok k" unfolding k_def by (rule demo_pipes_ok) (use assms(1) unparked_eqD(2) [OF u] in simp)
  show "content (pipe_at k 0) = content p" using unparked_eqD(1) [OF u] by (simp add: k_def)
  have "k_sched k = demo_parked" by (simp add: k_def demo_pipes_def)
  then show "sched_inv (k_sched k)" "parked k side 0 1"
    using demo_parked_facts by (simp_all add: parked_def k_def)
  have "pipe_identity (pipe_at k 0) = pipe_identity demo_pipe"
    using unparked_identity [OF u] assms(2) by (simp add: k_def)
  then show "may_write k 0x0F000201 7 0" "may_read k 0x0F000200 7 0" by (rule demo_may)+
qed

theorem pipe64_complete_transfer_wakes_peer_witness:
  "fst (pipe64_write 0x0F000201 (Some [5]) 1 7 (demo_pipes (set_blocked_slot Reader 1 demo_pipe) demo_parked)) = 1
   \<and> scheduler64_runqueue_task_state
       (k_sched (snd (pipe64_write 0x0F000201 (Some [5]) 1 7
         (demo_pipes (set_blocked_slot Reader 1 demo_pipe) demo_parked)))) 1 = SCHEDULER64_TASK_READY"
proof -
  let ?k = "demo_pipes (set_blocked_slot Reader 1 demo_pipe) demo_parked"
  obtain code k' where res: "pipe64_write 0x0F000201 (Some [5]) 1 7 ?k = (code, k')" by fastforce
  note d = demo_parked_pipe [OF demo_pipe_ring(1) refl, of Reader]
  have "length (content (pipe_at ?k 0)) + unat (1 :: u32) \<le> 4096"
    unfolding d(4) demo_pipe_ring(2) by simp
  then have "Reader = Reader \<and> may_write ?k 0x0F000201 7 0 \<and> unat (1 :: u32) \<le> length [5 :: u8]
      \<and> length (content (pipe_at ?k 0)) + unat (1 :: u32) \<le> 4096
      \<and> pipe64_write 0x0F000201 (Some [5]) 1 7 ?k = (code, k')"
    using d(5) res by simp
  from pipe64_complete_transfer_wakes_peer [OF d(1,2) _ disjI1 [OF this] d(3)] res show ?thesis by simp
qed


section \<open>A short transfer wakes nobody\<close>

lemma block_current_cases:
  obtains (refused) "pipe64_block_current_task owner side i k = (False, pipe_deny k)"
  | (failed) t where "pipe64_block_current_task owner side i k = (False, pipe_deny
      (upd_pipe i (set_blocked_slot side SCHEDULER64_INVALID_TASK) ((upd_pipe i (set_blocked_slot side t) k)
        \<lparr>k_sched := snd (scheduler64_runqueue_block_task t (k_sched k))\<rparr>)))"
      "\<not> fst (scheduler64_runqueue_block_task t (k_sched k))"
  | (blocked) t where "pipe64_block_current_task owner side i k = (True,
      upd_pipes (\<lambda>ps. ps\<lparr>g_pipe64_block_count := g_pipe64_block_count ps + 1\<rparr>)
        ((upd_pipe i (set_blocked_slot side t) k)
          \<lparr>k_sched := snd (scheduler64_runqueue_block_task t (k_sched k))\<rparr>))"
      "fst (scheduler64_runqueue_block_task t (k_sched k))" "t \<noteq> SCHEDULER64_INVALID_TASK"
      "scheduler64_runqueue_task_state (k_sched k) t = SCHEDULER64_TASK_RUNNING"
proof -
  define t where "t = pipe64_current_task_for_owner owner k"
  have t: "scheduler64_runqueue_task_state (k_sched k) t = SCHEDULER64_TASK_RUNNING"
    if "t \<noteq> SCHEDULER64_INVALID_TASK"
    using that by (auto simp: t_def pipe64_current_task_for_owner_def Let_def split: if_splits)
  show thesis
  proof (cases "blocked_slot side (pipe_at k i) \<noteq> SCHEDULER64_INVALID_TASK \<or> t = SCHEDULER64_INVALID_TASK")
    case True
    then show ?thesis by (intro refused) (auto simp: pipe64_block_current_task_def t_def [symmetric])
  next
    case False
    then show ?thesis
      using failed [of t] blocked [of t] t
      by (cases "fst (scheduler64_runqueue_block_task t (k_sched k))")
        (simp_all add: pipe64_block_current_task_def t_def [symmetric] Let_def case_prod_unfold)
  qed
qed

text \<open>Parking one side leaves a task parked at the other side where it is.\<close>

lemma block_current_parked:
  assumes inv: "sched_inv (k_sched k)" and i: "i < length (g_pipe64_objects (k_pipe k))"
    and p: "parked k other i t" and "side \<noteq> other"
    and res: "pipe64_block_current_task owner side i k = (b, k')"
  shows "sched_inv (k_sched k') \<and> parked k' other i t \<and> (b \<longrightarrow> (\<exists>r. r \<noteq> t \<and> parked k' side i r))"
proof -
  have t: "t \<noteq> SCHEDULER64_INVALID_TASK" "blocked_slot other (pipe_at k i) = t"
    "scheduler64_runqueue_task_state (k_sched k) t = SCHEDULER64_TASK_BLOCKED"
    using p by (simp_all add: parked_def)
  have st: "scheduler64_runqueue_task_state (snd (scheduler64_runqueue_block_task r (k_sched k))) t
      = SCHEDULER64_TASK_BLOCKED" for r
    using parking.block_parks [OF inv, of r t] t(3) by simp
  note ok = parking.block_ok [OF inv]
  have other: "other \<noteq> side" using \<open>side \<noteq> other\<close> by simp
  from block_current_cases [of owner side i k] show ?thesis
  proof cases
    case refused
    then have "b = False" "k' = pipe_deny k" using res by simp_all
    then show ?thesis using inv p by (simp add: parked_def)
  next
    case (failed r)
    have "\<not> b" using failed(1) res by simp
    moreover have "k_sched k' = snd (scheduler64_runqueue_block_task r (k_sched k))"
      "blocked_slot other (pipe_at k' i) = t"
      using failed(1) res i t(2) other by (simp_all add: prod_eq_iff)
    ultimately show ?thesis using ok st t(1) by (simp add: parked_def)
  next
    case (blocked r)
    have b: "b" and k': "k_sched k' = snd (scheduler64_runqueue_block_task r (k_sched k))"
      "blocked_slot other (pipe_at k' i) = t" "blocked_slot side (pipe_at k' i) = r"
      using blocked(1) res i t(2) other by (simp_all add: prod_eq_iff)
    have "r \<noteq> t" using blocked(4) t(3) by auto
    moreover have "scheduler64_runqueue_task_state (k_sched k') r = SCHEDULER64_TASK_BLOCKED"
      using parking.block_parks [OF inv, of r r] blocked(2) k'(1) by simp
    ultimately show ?thesis using b k' ok st t(1) blocked(3) by (auto simp: parked_def)
  qed
qed

lemma read_wait_open:
  assumes "pipe64_block_current_task owner Reader i k = (b, k1)" and "\<not> pb_writer_closed (pipe_at k i)"
  shows "read_wait n i owner 0 k =
    (if pb_byte_count (pipe_at k i) \<noteq> 0 then (None, k)
     else if b then (Some PIPE64_IO_BLOCKED, k1)
     else (case n of 0 \<Rightarrow> (Some PIPE64_IO_ERROR, k1) | Suc m \<Rightarrow> read_wait m i owner 0 k1))"
  using assms by (simp add: read_wait.simps [of n])

lemma read_wait_parked:
  assumes "sched_inv (k_sched k)" and "i < length (g_pipe64_objects (k_pipe k))"
    and "parked k Writer i t" and "read_wait n i owner 0 k = (Some code, k')" and "\<not> pb_writer_closed (pipe_at k i)"
  shows "parked k' Writer i t \<and> (code = PIPE64_IO_BLOCKED \<longrightarrow> (\<exists>r. r \<noteq> t \<and> parked k' Reader i r))"
  using assms
proof (induction n arbitrary: k)
  case 0
  obtain b k1 where b: "pipe64_block_current_task owner Reader i k = (b, k1)" by fastforce
  note bp = block_current_parked [OF 0(1,2,3) _ b, simplified]
  have "b \<and> code = PIPE64_IO_BLOCKED \<and> k' = k1 \<or> code = PIPE64_IO_ERROR \<and> k' = k1"
    using 0(4) unfolding read_wait_open [OF b 0(5)] by (auto split: if_splits)
  then show ?case using bp by auto
next
  case (Suc n)
  obtain b k1 where b: "pipe64_block_current_task owner Reader i k = (b, k1)" by fastforce
  note bp = block_current_parked [OF Suc.prems(1,2,3) _ b, simplified]
  have same: "same_pipes k k1" using block_current_same [of k owner Reader i] b by simp
  have k1: "i < length (g_pipe64_objects (k_pipe k1))" "\<not> pb_writer_closed (pipe_at k1 i)"
    using same_pipesD(1) [OF same] unparked_eqD(8) [OF same_pipesD(2) [OF same Suc.prems(2)]] Suc.prems(2,5)
    by simp_all
  have "b \<and> code = PIPE64_IO_BLOCKED \<and> k' = k1 \<or> read_wait n i owner 0 k1 = (Some code, k')"
    using Suc.prems(4) unfolding read_wait_open [OF b Suc.prems(5)] by (auto split: if_splits)
  then show ?case
  proof (elim disjE conjE)
    assume "read_wait n i owner 0 k1 = (Some code, k')"
    then show ?thesis using Suc.IH [of k1] k1 bp by blast
  qed (use bp in simp)
qed

text \<open>
  C37: A read that asks for more than the ring holds returns what is there and leaves the parked
  writer parked, although the ring is now empty: the wake-up at the end of the routine is
  only reached by a transfer that is carried out in full. When the reader comes back for more it
  gets nothing, the writer still sleeps, and if the reader is parked too then both ends of the
  pipe sleep with nobody left to wake them.
\<close>

theorem pipe64_short_read_strands_writer:
  assumes ok: "pipes_ok k" and inv: "sched_inv (k_sched k)" and m: "may_read k handle owner i"
    and some: "content (pipe_at k i) \<noteq> []" and more: "length (content (pipe_at k i)) < unat n"
    and open_end: "\<not> pb_writer_closed (pipe_at k i)" and p: "parked k Writer i t" and n2: "n2 \<noteq> 0"
    and first: "pipe64_read handle True n owner k = (code, got, k1)"
    and again: "pipe64_read handle True n2 owner k1 = (code2, got2, k2)"
  shows "got = content (pipe_at k i) \<and> code = of_nat (length got) \<and> content (pipe_at k1 i) = []
    \<and> parked k1 Writer i t
    \<and> code2 \<in> {PIPE64_IO_BLOCKED, PIPE64_IO_ERROR} \<and> got2 = [] \<and> parked k2 Writer i t
    \<and> (code2 = PIPE64_IO_BLOCKED \<longrightarrow> (\<exists>r. r \<noteq> t \<and> parked k2 Reader i r))"
proof -
  note i = may_transfer_slot(2) [OF m]
  have i': "i < length (g_pipe64_objects (k_pipe k))" using i pipes_okD(2) [OF ok] by simp
  define f where "f = (\<lambda>p. snd (get_all take_byte (length (content (pipe_at k i))) p))"
  have r: "got = content (pipe_at k i)" "code = of_nat (length got)" "k1 = upd_pipe i f k"
    using pipe64_read_short [OF ok m more disjI1 [OF some]] first by (auto simp: f_def simp del: length_content)
  have "moved k k1 i got []" by (rule pipe64_read_moved [OF ok may_transfer_slot(4) [OF m] first])
  note mv = movedD [OF this]
  have e: "content (pipe_at k1 i) = []" using mv(2) [OF i] r(1) by simp
  have slot: "blocked_slot Writer (f (pipe_at k i)) = blocked_slot Writer (pipe_at k i)" by (simp add: f_def)
  have p1: "parked k1 Writer i t" using p parked_upd_pipe [of i k Writer f t, OF i' slot] r(3) by simp
  have m1: "may_read k1 handle owner i" and open1: "\<not> pb_writer_closed (pipe_at k1 i)"
    using m open_end may_read_identity [OF mv(3) [OF i]] pipe_identityD(6) [OF mv(3) [OF i]] by simp_all
  obtain code' k' where 2: "pipe64_read handle True n2 owner k1 = (code', [], k')"
    "code' \<in> {PIPE64_IO_BLOCKED, PIPE64_IO_ERROR}"
    "read_wait PIPE64_SPIN_WAIT_LIMIT i owner 0 k1 = (Some code', k')"
    by (rule pipe64_read_empty [OF mv(1) m1 n2 e open1])
  have "sched_inv (k_sched k1)" "i < length (g_pipe64_objects (k_pipe k1))" using inv i' r(3) by simp_all
  from read_wait_parked [OF this p1 2(3) open1] show ?thesis using r(1,2) e p1 2 again by simp
qed


text \<open>A writer has filled the ring and is parked; the reader asks for more than the ring holds.\<close>

theorem pipe64_short_read_strands_writer_witness:
  "\<exists>k :: kernel_pipe. length (content (pipe_at k 0)) = 4096 \<and> parked k Writer 0 1
     \<and> fst (pipe64_read 0x0F000200 True 5000 7 k) = 4096
     \<and> parked (snd (snd (pipe64_read 0x0F000200 True 5000 7 k))) Writer 0 1
     \<and> fst (snd (pipe64_read 0x0F000200 True 1 7 (snd (snd (pipe64_read 0x0F000200 True 5000 7 k))))) = []"
proof -
  define p where "p = fold put_byte (replicate 4096 9) demo_pipe"
  define k where "k = demo_pipes (set_blocked_slot Writer 1 p) demo_parked"
  have r: "ring_shape p" "content p = replicate 4096 9"
    using ring.put_all [OF demo_pipe_ring(1), of "replicate 4096 9"] demo_pipe_ring(2) unfolding p_def by simp_all
  have i: "pipe_identity p = pipe_identity demo_pipe" unfolding p_def by (rule fold_put_identity)
  note d = demo_parked_pipe [OF r(1) i, of Writer, folded k_def]
  have len: "length (content (pipe_at k 0)) = 4096" unfolding d(4) r(2) by simp
  have o: "\<not> pb_writer_closed (pipe_at k 0)" using d(5) by (simp add: may_write_def)
  obtain code got k1 where first: "pipe64_read 0x0F000200 True 5000 7 k = (code, got, k1)" by (metis prod_cases3)
  obtain code2 got2 k2 where again: "pipe64_read 0x0F000200 True 1 7 k1 = (code2, got2, k2)" by (metis prod_cases3)
  have "content (pipe_at k 0) \<noteq> []" "length (content (pipe_at k 0)) < unat (5000 :: u32)"
    using len by (auto simp del: length_content)
  from pipe64_short_read_strands_writer [OF d(1,2,6) this o d(3) _ first again] len
  have "code = 4096 \<and> parked k1 Writer 0 1 \<and> got2 = []" by (simp del: length_content)
  then show ?thesis using len d(3) first again by (intro exI [of _ k]) (simp del: length_content)
qed


section \<open>Handles\<close>

lemma handle_masks:
  "(0x0F000000 :: u32) = push_bit 24 (mask 4)" "(0xFF000000 :: u32) = push_bit 24 (mask 8)"
  "(0x000FFF00 :: u32) = push_bit 8 (mask 12)" "(0x000000FE :: u32) = push_bit 1 (mask 7)"
  by (simp_all add: mask_eq_exp_minus_1)

text \<open>The bits of a handle, and the fields read off them.\<close>

definition handle_word :: "u32 \<Rightarrow> u32 \<Rightarrow> u32 \<Rightarrow> u32" where
  "handle_word index generation kind =
     PIPE64_HANDLE_BASE OR (push_bit 8 generation AND PIPE64_HANDLE_GENERATION_MASK)
       OR (push_bit 1 index AND PIPE64_HANDLE_INDEX_MASK) OR kind"

lemma handle_bits:
  fixes index generation kind :: u32
  assumes "take_bit 4 index = index" and kind: "kind = 0 \<or> kind = 1"
  shows "bit (handle_word index generation kind) n \<longleftrightarrow>
    24 \<le> n \<and> n < 28 \<or> 8 \<le> n \<and> n < 20 \<and> bit generation (n - 8)
      \<or> 1 \<le> n \<and> n < 5 \<and> bit index (n - 1) \<or> n = 0 \<and> kind = 1"
proof -
  have i: "bit index (n - 1) \<Longrightarrow> n - 1 < 4" using assms(1) by (metis bit_take_bit_iff)
  have k: "bit kind n = (n = 0 \<and> kind = 1)" using kind by (auto simp: bit_1_iff)
  have base: "bit PIPE64_HANDLE_BASE n = (24 \<le> n \<and> n < 28)"
    unfolding handle_masks by (auto simp: bit_simps)
  have gen: "bit (push_bit 8 generation AND PIPE64_HANDLE_GENERATION_MASK) n
      = (8 \<le> n \<and> n < 20 \<and> bit generation (n - 8))"
    unfolding handle_masks by (auto simp: bit_simps)
  have idx: "bit (push_bit 1 index AND PIPE64_HANDLE_INDEX_MASK) n = (1 \<le> n \<and> n < 5 \<and> bit index (n - 1))"
    unfolding handle_masks bit_and_iff bit_push_bit_iff bit_mask_iff using i by (auto simp: bit_simps)
  show ?thesis unfolding handle_word_def bit_or_iff base gen idx k by blast
qed

lemmas field_bits = handle_masks bit_and_iff bit_drop_bit_eq comp_def bit_push_bit_iff bit_mask_iff bit_take_bit_iff

lemma handle_fields:
  fixes index generation kind :: u32
  assumes index: "take_bit 4 index = index" and kind: "kind = 0 \<or> kind = 1"
  defines "h \<equiv> handle_word index generation kind"
  shows "h AND PIPE64_HANDLE_BASE_MASK = PIPE64_HANDLE_BASE"
    "pipe64_handle_index h = index" "h AND PIPE64_HANDLE_KIND_MASK = kind"
    "pipe64_handle_generation h = take_bit 12 generation"
proof -
  note bits = handle_bits [OF index kind, of generation, folded h_def]
  have small: "bit index n \<Longrightarrow> n < 4" for n using index by (metis bit_take_bit_iff)
  show "h AND PIPE64_HANDLE_BASE_MASK = PIPE64_HANDLE_BASE"
    by (rule bit_word_eqI) (unfold field_bits bits, auto)
  show "pipe64_handle_index h = index" unfolding pipe64_handle_index_def
    by (rule bit_word_eqI) (unfold field_bits bits, auto simp: bit_simps dest: small)
  show "h AND PIPE64_HANDLE_KIND_MASK = kind"
    using kind by (intro bit_word_eqI) (unfold bit_and_iff bits, auto simp: bit_1_iff)
  show "pipe64_handle_generation h = take_bit 12 generation" unfolding pipe64_handle_generation_def
    by (rule bit_word_eqI) (unfold field_bits bits, auto simp: bit_simps)
qed

lemma take_bit_word_eq_self_iff:
  "take_bit n (w :: u32) = w \<longleftrightarrow> unat w < 2 ^ n"
  by (metis take_bit_nat_eq_self_iff unsigned_take_bit_eq word_unat_eq_iff)

text \<open>
  C38: A handle determines the slot, the end and the generation it was made from, provided the
  generation is below 4096: the generation field is 12 bits wide while the counter of a slot is a
  32-bit word. From the 4096th generation on, the handles a slot hands out carry a
  truncated generation, and the pipe does not resolve for its own owner.
\<close>

theorem pipe64_handle_roundtrip:
  assumes i: "unat index < 16" and kind: "kind = PIPE64_HANDLE_KIND_READ \<or> kind = PIPE64_HANDLE_KIND_WRITE"
    and g: "generation \<noteq> 0" and h: "h = pipe64_make_handle index generation kind"
    and ok: "pipes_ok k" and live: "pb_live (pipe_at k (unat index))"
    and gen: "pb_generation (pipe_at k (unat index)) = generation"
    and own: "h = pb_read_handle (pipe_at k (unat index)) \<or> h = pb_write_handle (pipe_at k (unat index))"
    and owner: "owner \<noteq> 0" "pipe64_endpoint_owner_matches (pipe_at k (unat index)) kind owner"
  shows "pipe64_handle_index h = index \<and> pipe64_handle_kind h = kind
    \<and> (pipe64_handle_generation h = generation \<longleftrightarrow> unat generation < 4096)
    \<and> fst (pipe64_find h owner k) = (if unat generation < 4096 then Some (unat index) else None)"
proof -
  have t: "take_bit 4 index = index" using i by (simp add: take_bit_word_eq_self_iff)
  note f = handle_fields [OF t kind, of generation]
  have h': "h = handle_word index generation kind"
    using i kind g by (auto simp: h handle_word_def pipe64_make_handle_def PIPE64_MAX_OBJECTS_def)
  note f' = f [folded h']
  have idx: "pipe64_handle_index h = index" and knd: "pipe64_handle_kind h = kind"
    and gn: "pipe64_handle_generation h = generation \<longleftrightarrow> unat generation < 4096"
    using f' by (simp_all add: pipe64_handle_kind_def take_bit_word_eq_self_iff)
  have "resolves k h owner (unat index) \<longleftrightarrow> unat generation < 4096"
    using i live gen own owner f'(1) idx knd gn by (auto simp: resolves_def)
  then show ?thesis
    using idx knd gn pipe64_find_eq [OF pipes_okD(1) [OF ok], of h owner] by simp
qed

theorem pipe64_handle_roundtrip_witness:
  "fst (pipe64_find (pipe64_make_handle 0 2 PIPE64_HANDLE_KIND_READ) 7
      (demo_pipes demo_pipe (fst demo_started))) = Some 0
   \<and> (let p = demo_pipe\<lparr>pb_generation := 4096, pb_read_handle := pipe64_make_handle 0 4096 PIPE64_HANDLE_KIND_READ\<rparr>
      in fst (pipe64_find (pb_read_handle p) 7 (demo_pipes p (fst demo_started))) = None)"
proof -
  let ?p = "demo_pipe\<lparr>pb_generation := 4096, pb_read_handle := pipe64_make_handle 0 4096 PIPE64_HANDLE_KIND_READ\<rparr>"
  have r: "ring_shape ?p" using demo_pipe_ring(1) by (simp add: ring_shape_def)
  note ok = demo_pipes_ok [OF demo_pipe_ring(1), of "fst demo_started"] demo_pipes_ok [OF r, of "fst demo_started"]
  have fields: "pb_live demo_pipe" "pb_generation demo_pipe = 2"
    "pb_read_handle demo_pipe = pipe64_make_handle 0 2 PIPE64_HANDLE_KIND_READ"
    "pipe64_endpoint_owner_matches demo_pipe PIPE64_HANDLE_KIND_READ 7"
    "pipe64_endpoint_owner_matches ?p PIPE64_HANDLE_KIND_READ 7"
    by (simp_all add: demo_pipe_def cleared_pipe_def pipe64_endpoint_owner_matches_def)
  show ?thesis
    using pipe64_handle_roundtrip [OF _ _ _ refl ok(1), of 0 PIPE64_HANDLE_KIND_READ 2 7]
      pipe64_handle_roundtrip [OF _ _ _ refl ok(2), of 0 PIPE64_HANDLE_KIND_READ 4096 7] fields
    by (simp add: Let_def)
qed

end
