(* ===== verification/Fs_Props.thy ===== *)
theory Fs_Props
  imports Fs_Inv Pipe_Props
begin

text \<open>
  Properties of the file service: runs of requests by any number of principals keep the table of node
  capabilities and the tree well formed and leave the capabilities of uninvolved principals alone; and
  what a handle still reaches after its node was deleted.
\<close>

section \<open>Runs of requests\<close>

text \<open>A buffer is given by an address, in a system call, or by its bytes, in a call from the kernel.\<close>

datatype buffer = At u64 | Bytes "u8 list"

datatype fs_op =
    Fs_Open u32 buffer u32 u32
  | Fs_Create u32 buffer u32 u32 u32
  | Fs_List u32 "u64 option" u32 u32
  | Fs_Read u32 "u64 option" u32 u32 u32
  | Fs_Write u32 buffer u32 u32 u32
  | Fs_Stat u32 "u64 option" u32 u32
  | Fs_Revoke u32 u32
  | Fs_Rename u32 buffer u32 u32 u32
  | Fs_Move u32 u32 buffer u32 u32 u32
  | Fs_Delete u32 buffer u32 u32
  | Fs_Query u32 u32

fun fs_owner :: "fs_op \<Rightarrow> u32" where
  "fs_owner (Fs_Open h b n w) = w"
| "fs_owner (Fs_Create h b n ty w) = w"
| "fs_owner (Fs_List h a n w) = w"
| "fs_owner (Fs_Read h a off n w) = w"
| "fs_owner (Fs_Write h b off n w) = w"
| "fs_owner (Fs_Stat h a n w) = w"
| "fs_owner (Fs_Revoke h w) = w"
| "fs_owner (Fs_Rename h b n m w) = w"
| "fs_owner (Fs_Move h h2 b n m w) = w"
| "fs_owner (Fs_Delete h b n w) = w"
| "fs_owner (Fs_Query h w) = w"

fun fs_step :: "'d storage \<Rightarrow> fs_op \<Rightarrow> ('d, 'a) kernel_fs_scheme \<Rightarrow> ('d, 'a) kernel_fs_scheme option" where
  "fs_step sd (Fs_Open h (At a) n w) k = Some (snd (fs64_open sd h a n w k))"
| "fs_step sd (Fs_Open h (Bytes p) n w) k = Some (snd (fs64_open_kernel sd h (Some p) n w k))"
| "fs_step sd (Fs_Create h (At a) n ty w) k = Some (snd (fs64_create sd h a n ty w k))"
| "fs_step sd (Fs_Create h (Bytes p) n ty w) k = Some (snd (fs64_create_kernel sd h (Some p) n ty w k))"
| "fs_step sd (Fs_List h (Some a) n w) k = Some (snd (fs64_list h a n w k))"
| "fs_step sd (Fs_List h None n w) k = Some (snd (fs64_list_kernel h n w k))"
| "fs_step sd (Fs_Read h (Some a) off n w) k = Some (snd (fs64_read sd h a off n w k))"
| "fs_step sd (Fs_Read h None off n w) k = Some (snd (fs64_read_kernel sd h off n w k))"
| "fs_step sd (Fs_Write h (At a) off n w) k = Some (snd (fs64_write sd h a off n w k))"
| "fs_step sd (Fs_Write h (Bytes b) off n w) k = Some (snd (fs64_write_kernel sd h (Some b) off n w k))"
| "fs_step sd (Fs_Stat h (Some a) n w) k = Some (snd (fs64_stat h a n w k))"
| "fs_step sd (Fs_Stat h None n w) k = Some (snd (fs64_stat_kernel h n w k))"
| "fs_step sd (Fs_Revoke h w) k = Some (snd (fs64_revoke h w k))"
| "fs_step sd (Fs_Rename h (At a) n m w) k = map_option snd (fs64_rename sd h a n m w k)"
| "fs_step sd (Fs_Rename h (Bytes p) n m w) k = map_option snd (fs64_rename_kernel sd h (Some p) n m w k)"
| "fs_step sd (Fs_Move h h2 (At a) n m w) k = map_option snd (fs64_move sd h h2 a n m w k)"
| "fs_step sd (Fs_Move h h2 (Bytes p) n m w) k = map_option snd (fs64_move_kernel sd h h2 (Some p) n m w k)"
| "fs_step sd (Fs_Delete h (At a) n w) k = Some (snd (fs64_delete sd h a n w k))"
| "fs_step sd (Fs_Delete h (Bytes p) n w) k = Some (snd (fs64_delete_kernel sd h (Some p) n w k))"
| "fs_step sd (Fs_Query h w) k = Some (snd (fs64_node_rights h w (snd (fs64_node_owner h w k))))"

lemma step_served:
  assumes inv: "fs_inv k" and room: "fs_next_handle (k_fs k) < 0xFFFFFFFF"
  obtains k' where "fs_step sd op k = Some k'" "served (fs_owner op) k k'"
proof -
  have quiet: "quiet w k k' \<Longrightarrow> served w k k'" for w k' using quiet_retreed [OF inv] retreed_served by blast
  have open_ok: "served w k (snd (fs64_open_common sd h a t n w k))" for h a t n w
    using open_served [OF inv room] by (metis prod.collapse)
  have create_ok: "served w k (snd (fs64_create_common sd h a t n ty w k))" for h a t n ty w
    using create_served [OF inv room] by (metis prod.collapse)
  have delete_ok: "served w k (snd (fs64_delete_common sd h a t n w k))" for h a t n w
    using delete_served [OF inv] by (metis prod.collapse)
  have rename_ok: "\<exists>r k'. fs64_rename_common sd h a t n m w k = Some (r, k') \<and> served w k k'" for h a t n m w
    by (rule rename_served [OF inv]) blast
  have move_ok: "\<exists>r k'. fs64_move_common sd h h2 a t n m w k = Some (r, k') \<and> served w k k'" for h h2 a t n m w
    by (rule move_served [OF inv]) blast
  have query_ok: "quiet w k (snd (fs64_node_rights h w (snd (fs64_node_owner h w k))))" for h w
    unfolding fs64_node_rights_def fs64_node_owner_def
    by (rule quiet_trans [OF quiet_node_field [OF inv] quiet_node_field [OF quiet_inv [OF inv quiet_node_field [OF inv]]]])
  have "\<exists>k'. fs_step sd op k = Some k' \<and> served (fs_owner op) k k'"
  proof (cases op)
    case (Fs_Open h b n w)
    then show ?thesis using open_ok by (cases b) (simp_all add: fs64_open_def fs64_open_kernel_def)
  next
    case (Fs_Create h b n ty w)
    then show ?thesis using create_ok by (cases b) (simp_all add: fs64_create_def fs64_create_kernel_def)
  next
    case (Fs_List h a n w)
    then show ?thesis
      using quiet [OF quiet_out(1) [OF quiet_list_node [OF inv]]] quiet [OF quiet_out(2) [OF quiet_list_node [OF inv]]]
      by (cases a) (simp_all add: fs64_list_def fs64_list_kernel_def)
  next
    case (Fs_Read h a off n w)
    then show ?thesis
      using quiet [OF quiet_out(1) [OF quiet_read_node [OF inv]]] quiet [OF quiet_out(2) [OF quiet_read_node [OF inv]]]
      by (cases a) (simp_all add: fs64_read_def fs64_read_kernel_def)
  next
    case (Fs_Write h b off n w)
    then show ?thesis using write_served [OF inv] by (cases b) simp_all
  next
    case (Fs_Stat h a n w)
    then show ?thesis
      using quiet [OF quiet_out(1) [OF quiet_stat_node [OF inv]]] quiet [OF quiet_out(2) [OF quiet_stat_node [OF inv]]]
      by (cases a) (simp_all add: fs64_stat_def fs64_stat_kernel_def)
  next
    case (Fs_Revoke h w)
    then show ?thesis using quiet [OF quiet_revoke [OF inv]] by simp
  next
    case (Fs_Rename h b n m w)
    then show ?thesis using rename_ok by (cases b) (fastforce simp: fs64_rename_def fs64_rename_kernel_def)+
  next
    case (Fs_Move h h2 b n m w)
    then show ?thesis using move_ok by (cases b) (fastforce simp: fs64_move_def fs64_move_kernel_def)+
  next
    case (Fs_Delete h b n w)
    then show ?thesis using delete_ok by (cases b) (simp_all add: fs64_delete_def fs64_delete_kernel_def)
  next
    case (Fs_Query h w)
    then show ?thesis using quiet [OF query_ok] by simp
  qed
  then show ?thesis using that by blast
qed

text \<open>
  Requests in sequence; before each of them the rest of the kernel may do anything that leaves the
  file service's own state alone.
\<close>

fun fs_run ::
    "'d storage \<Rightarrow> ((('d, 'a) kernel_fs_scheme \<Rightarrow> ('d, 'a) kernel_fs_scheme) \<times> fs_op) list \<Rightarrow> ('d, 'a) kernel_fs_scheme
      \<Rightarrow> ('d, 'a) kernel_fs_scheme option" where
  "fs_run sd [] k = Some k"
| "fs_run sd ((elsewhere, op) # ops) k =
    (case fs_step sd op (elsewhere k) of None \<Rightarrow> None | Some k1 \<Rightarrow> fs_run sd ops k1)"

definition leaves_fs :: "(('d, 'a) kernel_fs_scheme \<Rightarrow> ('d, 'a) kernel_fs_scheme) \<Rightarrow> bool" where
  "leaves_fs f \<longleftrightarrow> (\<forall>k. k_fs (f k) = k_fs k \<and> k_ramfs (f k) = k_ramfs k)"

definition requesters :: "((('d, 'a) kernel_fs_scheme \<Rightarrow> ('d, 'a) kernel_fs_scheme) \<times> fs_op) list \<Rightarrow> u32 set" where
  "requesters ops = fs_owner ` snd ` set ops"

lemma run_served:
  assumes "fs_inv k" and "unat (fs_next_handle (k_fs k)) + length ops < 2 ^ 32"
    and "\<forall>(f, op)\<in>set ops. leaves_fs f"
  shows "\<exists>k'. fs_run sd ops k = Some k' \<and> fs_inv k'
    \<and> unat (fs_next_handle (k_fs k')) \<le> unat (fs_next_handle (k_fs k)) + length ops
    \<and> (\<forall>i<32. nc_active (node_cap k i) \<and> nc_owner_id (node_cap k i) \<notin> requesters ops
         \<longrightarrow> node_cap k' i = node_cap k i)"
  using assms
proof (induction ops arbitrary: k)
  case (Cons x ops)
  obtain f op where x: "x = (f, op)" by (cases x)
  have f: "k_fs (f k) = k_fs k" "k_ramfs (f k) = k_ramfs k" using Cons.prems(3) by (auto simp: x leaves_fs_def)
  have inv: "fs_inv (f k)" using Cons.prems(1) by (simp add: fs_inv_def f)
  have "fs_next_handle (k_fs (f k)) < 0xFFFFFFFF" using Cons.prems(2) by (simp add: f word_less_nat_alt)
  from step_served [OF inv this, of sd op] obtain k1
    where k1: "fs_step sd op (f k) = Some k1" "served (fs_owner op) (f k) k1" .
  have n: "unat (fs_next_handle (k_fs k1)) \<le> unat (fs_next_handle (k_fs k)) + 1" "fs_inv k1"
    using k1(2) f(1) by (simp_all add: served_def)
  then have "unat (fs_next_handle (k_fs k1)) + length ops < 2 ^ 32" using Cons.prems(2) by simp
  with Cons.IH [of k1] n(2) Cons.prems(3) obtain k'
    where k': "fs_run sd ops k1 = Some k'" "fs_inv k'"
      "unat (fs_next_handle (k_fs k')) \<le> unat (fs_next_handle (k_fs k1)) + length ops"
      "\<forall>i<32. nc_active (node_cap k1 i) \<and> nc_owner_id (node_cap k1 i) \<notin> requesters ops \<longrightarrow> node_cap k' i = node_cap k1 i"
    by auto
  have "node_cap k1 i = node_cap k i"
    if "i < 32" "nc_active (node_cap k i)" "nc_owner_id (node_cap k i) \<notin> requesters (x # ops)" for i
    using k1(2) that f by (auto simp: served_def spares_def requesters_def x)
  with k' n show ?case by (auto simp: x k1(1) requesters_def)
qed simp

lemma fs_init_inv:
  assumes "length (g_fs64_caps (k_fs k)) = 32"
  shows "fs_inv (fs64_init k)"
proof -
  have "node_caps_ok FS64_HANDLE_BASE (map (\<lambda>r. fs64_clear_capability (r\<lparr>nc_handle := 0\<rparr>)) (g_fs64_caps (k_fs k)))"
    using assms by (auto simp: node_caps_ok_def keys_distinct_def)
  then show ?thesis by (simp add: fs64_init_def fs_inv_def init_tree)
qed

text \<open>
  C3: From the initialised file service on, every sequence of requests, by whatever principals, with
  whatever handles, paths, addresses and answers of the disk, and interleaved with any activity of the
  rest of the kernel, is served to its end, as long as the 32-bit handle counter does not wrap. Afterwards
  the nodes form a tree, live handles are pairwise distinct, every live capability belongs to an active
  principal, has the rights of a file or of a directory and the owner of its parent. A principal that makes
  no request in the sequence finds each of its capabilities unchanged.
\<close>

theorem fs64_requests_isolated:
  assumes init: "length (g_fs64_caps (k_fs k0)) = 32" and room: "length before + length ops + 0x6600 < 2 ^ 32"
    and elsewhere: "\<forall>(f, op)\<in>set before. leaves_fs f" "\<forall>(f, op)\<in>set ops. leaves_fs f"
  shows "\<exists>k k'. fs_run sd before (fs64_init k0) = Some k \<and> fs_run sd ops k = Some k' \<and> fs_inv k \<and> fs_inv k'
    \<and> (\<forall>i<32. nc_active (node_cap k i) \<and> nc_owner_id (node_cap k i) \<notin> requesters ops
         \<longrightarrow> node_cap k' i = node_cap k i)"
proof -
  have next0: "unat (fs_next_handle (k_fs (fs64_init k0))) = 0x6600" by (simp add: fs64_init_def)
  then obtain k where k: "fs_run sd before (fs64_init k0) = Some k" "fs_inv k"
    "unat (fs_next_handle (k_fs k)) \<le> 0x6600 + length before"
    using run_served [OF fs_init_inv [OF init] _ elsewhere(1), of sd] room by auto
  then show ?thesis
    using run_served [OF k(2) _ elsewhere(2), of sd] room by auto
qed


text \<open>A small file service: no disk, the given tree, the given capabilities below the handle \<open>0x6610\<close>.\<close>

definition demo_storage :: "nat storage" where
  "demo_storage = \<lparr>mmio64_fs_shell_descriptor_selector_by_path = (\<lambda>_ _. 0),
     mmio64_nvme_fat_shell_read_file = (\<lambda>_ _ _ d. (None, d)),
     mmio64_fs_shell_read_descriptor = (\<lambda>_ _ _ _ d. (None, d)),
     mmio64_nvme_fat_shell_write_file = (\<lambda>_ _ _ d. (False, d)), runtime64_transfer_image_size = 0x1000\<rparr>"

definition demo_fs :: "ramfs \<Rightarrow> fs64_node_capability list \<Rightarrow> nat kernel_fs" where
  "demo_fs nodes rs = \<lparr>k_launch = [], k_proc = process64_seed_records,
     k_persona = \<lparr>g_persona64_contexts = [], g_persona64_context_used = [], g_persona64_initialized = True,
       g_persona64_native_count = 0, g_persona64_denial_count = 0\<rparr>,
     k_ticks = 0, k_audit = audit_bss, k_cap = capability64_init, k_sched = scheduler_bss,
     k_pipe = \<lparr>g_pipe64_objects = [], g_pipe64_initialized = True, g_pipe64_denials = 0, g_pipe64_block_count = 0,
       g_pipe64_wake_count = 0, g_pipe64_replay_wake_count = 0\<rparr>, k_ramfs = nodes,
     k_fs = \<lparr>g_fs64_caps = rs, fs_next_handle = 0x6610, fs_initialized = True, fs_open_count = 0,
       fs_create_count = 0, fs_list_count = 0, fs_read_count = 0, fs_write_count = 0, fs_stat_count = 0,
       fs_revoke_count = 0, fs_denial_count = 0, fs_stale_denial_count = 0\<rparr>,
     k_dev = 0, k_mem = (\<lambda>_. 0)\<rparr>"

definition zero_node_cap :: fs64_node_capability where
  "zero_node_cap = \<lparr>nc_active = False, nc_handle = 0, nc_node_id = 0, nc_rights = 0, nc_parent_handle = 0,
     nc_owner_id = 0, nc_runtime_generation = 0, nc_runtime_token = 0, nc_storage_descriptor_selector = 0,
     nc_path_byte_count = 0, nc_path = replicate 64 0\<rparr>"

lemma demo_fs_simps [simp]:
  "k_ramfs (demo_fs nodes rs) = nodes" "g_fs64_caps (k_fs (demo_fs nodes rs)) = rs"
  "fs_next_handle (k_fs (demo_fs nodes rs)) = 0x6610" "fs_initialized (k_fs (demo_fs nodes rs))"
  "k_launch (demo_fs nodes rs) = []" "k_dev (demo_fs nodes rs) = 0" "k_mem (demo_fs nodes rs) = (\<lambda>_. 0)"
  by (simp_all add: demo_fs_def)

theorem fs64_requests_isolated_witness:
  "\<exists>k k'. fs_run demo_storage [(\<lambda>k. k, Fs_Open 0x6400 (Bytes [0x61]) 1 PRINCIPAL64_ID_CONSOLE_CLIENT)]
      (fs64_init (demo_fs [] (replicate 32 zero_node_cap))) = Some k
    \<and> fs_run demo_storage [(\<lambda>k. k, Fs_Revoke 0x6600 PRINCIPAL64_ID_CONSOLE_WORKER)] k = Some k' \<and> fs_inv k'"
  using fs64_requests_isolated [of "demo_fs [] (replicate 32 zero_node_cap)"
      "[(\<lambda>k. k, Fs_Open 0x6400 (Bytes [0x61]) 1 PRINCIPAL64_ID_CONSOLE_CLIENT)]"
      "[(\<lambda>k. k, Fs_Revoke 0x6600 PRINCIPAL64_ID_CONSOLE_WORKER)]" demo_storage]
  by (auto simp: leaves_fs_def)


section \<open>Handles of deleted nodes\<close>

text \<open>A live capability of an active principal resolves when its node is there.\<close>

lemma resolve_live:
  assumes inv: "fs_inv k" and i: "i < 32" "nc_active (node_cap k i)"
    and token: "nc_runtime_token (node_cap k i) = 0" and rights: "nc_rights (node_cap k i) AND rights = rights"
  shows "fs64_resolve_node_capability (nc_handle (node_cap k i)) rights (nc_owner_id (node_cap k i)) k
    = (if ramfs_node_exists (k_ramfs k) (nc_node_id (node_cap k i)) then (Some i, k) else (None, count_fs_denial k))"
proof -
  note ok = fs_invD(4) [OF inv]
  have len: "i < length (g_fs64_caps (k_fs k))" using i fs_invD(5) [OF inv] by simp
  have "fs64_find_live (nc_handle (node_cap k i)) (k_fs k) = Some i"
    unfolding fs64_find_live_def using node_caps_okD(2) [OF ok] len i(2) by (rule slot_of_eq)
  moreover have "principal64_is_active (nc_owner_id (node_cap k i))"
    using node_caps_okD(3) [OF ok nth_mem [OF len] i(2)] by (simp add: node_cap_ok_def)
  ultimately show ?thesis
    using rights by (simp add: fs64_resolve_node_capability_def fs64_owner_is_valid_def fs64_runtime_is_current_def token)
qed

lemma served_keeps:
  assumes "served v k k'" and "i < 32" and "nc_active (node_cap k i)" and "nc_owner_id (node_cap k i) \<noteq> v"
  shows "node_cap k' i = node_cap k i"
  using assms by (simp add: served_def spares_def)

lemma write_succeeds:
  assumes "ramfs_write n off bytes nodes = (Some c, nodes')"
  obtains i where "ramfs_find_node nodes n = Some i" "rn_type (nodes ! i) = RAMFS_NODE_FILE" "unat off \<le> 256"
proof -
  have "\<not> (\<forall>i. ramfs_find_node nodes n = Some i \<longrightarrow> rn_type (nodes ! i) \<noteq> RAMFS_NODE_FILE \<or> unat off > 256)"
    using assms write_refused [of nodes n off bytes] by auto
  then show ?thesis using that by (auto simp: not_less)
qed

text \<open>What a kernel write of at most 256 bytes through a live handle leaves in the tree.\<close>

lemma write_kernel_contents:
  assumes inv: "fs_inv k" and live: "fs64_find_live h (k_fs k) = Some j"
    and len: "bytes \<noteq> []" "length bytes \<le> 256" and n: "n = of_nat (length bytes)"
    and res: "fs64_write_kernel sd h (Some bytes) 0 n v k = (n, k')"
  shows "fst (ramfs_write (nc_node_id (node_cap k j)) 0 bytes (k_ramfs k)) \<noteq> None"
    "k_ramfs k' = snd (ramfs_write (nc_node_id (node_cap k j)) 0 bytes (k_ramfs k))"
proof -
  obtain f k1 where r: "fs64_resolve_node_capability h FS64_RIGHT_WRITE v k = (f, k1)" by fastforce
  have un: "unat n = length bytes" using small_length [OF len(2)] by (simp add: n)
  have valid: "n \<noteq> FS64_INVALID_HANDLE" using un len(2) by auto
  have io: "io_bytes n = n" using un len by (auto simp: io_bytes_def word_less_nat_alt)
  have "f \<noteq> None" using res valid r inv by (cases f) (auto simp: fs64_write_kernel_def)
  then obtain i where "f = Some i" by blast
  then have f: "f = Some j" "k1 = k" using resolve_node(2) [OF r, of i] live by simp_all
  have w: "write_record sd j 0 bytes v k = (n, k')"
    using res r f inv un io by (simp add: fs64_write_kernel_def)
  obtain c nodes where c: "ramfs_write (nc_node_id (node_cap k j)) 0 bytes (k_ramfs k) = (c, nodes)" by fastforce
  have "c \<noteq> None" using w c valid by (cases c) (auto simp: write_record_def Let_def fs64_deny_def)
  then show "fst (ramfs_write (nc_node_id (node_cap k j)) 0 bytes (k_ramfs k)) \<noteq> None"
    and "k_ramfs k' = snd (ramfs_write (nc_node_id (node_cap k j)) 0 bytes (k_ramfs k))"
    using w c by (auto simp: write_record_def Let_def split: if_splits)
qed

text \<open>
  C39: A node capability does not follow the node it was granted for. Consider a live capability with
  the rights of a file for a node of the RAM file system (it has no storage descriptor) that is not bound
  to a runtime (its runtime token is zero), while the counter of handles is not at its end. When another
  principal deletes the file behind its handle, the owner of the handle cannot revoke it: the attempt
  is refused and the capability stays in the table. When the deleting principal then creates a new file
  that takes over the id of the old one and writes at most 256 bytes to its start, a read of as many
  bytes through the old handle returns what was written, although its owner never opened the new file.
\<close>

theorem fs64_stale_handle_reads_new_file:
  fixes k :: "('d, 'a) kernel_fs_scheme"
  assumes inv: "fs_inv k" and room: "unat (fs_next_handle (k_fs k)) + 2 < 2 ^ 32"
    and cap: "i < 32" "nc_active (node_cap k i)" "nc_handle (node_cap k i) = h" "nc_owner_id (node_cap k i) = w"
      "nc_rights (node_cap k i) = file_rights" "nc_runtime_token (node_cap k i) = 0"
      "nc_storage_descriptor_selector (node_cap k i) = 0" "nc_node_id (node_cap k i) = node"
    and other: "v \<noteq> w"
    and deleted: "fs64_delete_kernel sd b (Some p) np v k = (1, k1)" "\<not> ramfs_node_exists (k_ramfs k1) node"
    and created: "fs64_create_kernel sd b2 (Some q) nq RAMFS_NODE_FILE v k1 = (h2, k2)"
      "fs64_find_live h2 (k_fs k2) = Some j" "nc_node_id (node_cap k2 j) = node"
    and secret: "secret \<noteq> []" "length secret \<le> 256" "n = of_nat (length secret)"
      "fs64_write_kernel sd h2 (Some secret) 0 n v k2 = (n, k3)"
  shows "fs64_revoke h w k1 = (False, count_fs_denial k1) \<and> node_cap k1 i = node_cap k i
    \<and> fst (fs64_read_kernel sd h 0 n w k3) = Some secret"
proof -
  have s1: "served v k k1" using delete_served [OF inv] deleted(1) by (simp add: fs64_delete_kernel_def)
  then have inv1: "fs_inv k1" and n1: "unat (fs_next_handle (k_fs k1)) \<le> unat (fs_next_handle (k_fs k)) + 1"
    by (simp_all add: served_def)
  then have "fs_next_handle (k_fs k1) < 0xFFFFFFFF" using room by (simp add: word_less_nat_alt)
  then have s2: "served v k1 k2" using create_served [OF inv1] created(1) by (simp add: fs64_create_kernel_def)
  then have inv2: "fs_inv k2" by (simp add: served_def)
  have s3: "served v k2 k3" using write_served(2) [OF inv2, of v sd h2 "Some secret" 0 n] secret(4) by simp
  then have inv3: "fs_inv k3" by (simp add: served_def)
  have c1: "node_cap k1 i = node_cap k i" using served_keeps [OF s1] cap other by simp
  have c2: "node_cap k2 i = node_cap k i" using served_keeps [OF s2] cap other c1 by simp
  have c3: "node_cap k3 i = node_cap k i" using served_keeps [OF s3] cap other c2 by simp
  have "fs64_resolve_node_capability h 0 w k1 = (None, count_fs_denial k1)"
    using resolve_live [OF inv1 cap(1), of 0] c1 cap deleted(2) by simp
  then have revoke: "fs64_revoke h w k1 = (False, count_fs_denial k1)" using inv1 by (simp add: fs64_revoke_def)
  note wr = write_kernel_contents [OF inv2 created(2) secret, unfolded created(3)]
  obtain c nodes where c: "ramfs_write node 0 secret (k_ramfs k2) = (Some c, nodes)" "k_ramfs k3 = nodes"
    using wr by (cases "ramfs_write node 0 secret (k_ramfs k2)") auto
  from write_succeeds [OF c(1)] obtain l
    where l: "ramfs_find_node (k_ramfs k2) node = Some l" "rn_type (k_ramfs k2 ! l) = RAMFS_NODE_FILE" "unat (0 :: u32) \<le> 256"
    by auto
  note w = ramfs_write_file [OF fs_invD(2) [OF inv2] l refl c(1)]
  have un: "unat n = length secret" using small_length [OF secret(2)] by (simp add: secret(3))
  have io: "io_bytes n = n" using un secret(1,2) by (auto simp: io_bytes_def word_less_nat_alt)
  have "ramfs_read nodes node 0 n = Some secret"
    using ramfs_read_file [OF w(2,3,4), of 0 n] un secret(2) by (simp add: w(5) write_at_def)
  moreover have "fs64_resolve_node_capability h FS64_RIGHT_READ w k3 = (Some i, k3)"
    using resolve_live [OF inv3 cap(1), of FS64_RIGHT_READ] c3 cap w(3) c(2) by (simp add: ramfs_node_exists_def)
  ultimately have "fst (fs64_read_kernel sd h 0 n w k3) = Some secret"
    using inv3 cap c(2) by (simp add: fs64_read_kernel_def read_node_def hand_out_def c3 io Let_def)
  then show ?thesis using revoke c1 by simp
qed


text \<open>
  A tree with one file, whose capability the console client holds while the console worker holds one for
  the root.
\<close>

definition demo_tree :: ramfs where
  "demo_tree =
    zero_node\<lparr>rn_active := True, rn_id := 1, rn_type := RAMFS_NODE_DIRECTORY, rn_name := name_field [slash]\<rparr>
    # zero_node\<lparr>rn_active := True, rn_id := 2, rn_parent_id := 1, rn_type := RAMFS_NODE_FILE, rn_name := name_field [0x61]\<rparr>
    # replicate 62 zero_node"

definition demo_caps :: "fs64_node_capability list" where
  "demo_caps =
    zero_node_cap\<lparr>nc_active := True, nc_handle := 0x6600, nc_node_id := 2, nc_rights := file_rights,
      nc_owner_id := PRINCIPAL64_ID_CONSOLE_CLIENT\<rparr>
    # zero_node_cap\<lparr>nc_active := True, nc_handle := 0x6601, nc_node_id := 1, nc_rights := dir_rights,
      nc_owner_id := PRINCIPAL64_ID_CONSOLE_WORKER\<rparr>
    # replicate 30 zero_node_cap"

lemma demo_tree_ok: "tree_ok demo_tree"
proof -
  have n: "length demo_tree = 64" "rn_id (demo_tree ! 0) = 1" "rn_id (demo_tree ! 1) = 2" "rn_active (demo_tree ! 0)"
    "rn_active (demo_tree ! 1)" "rn_parent_id (demo_tree ! 0) = 0" "rn_parent_id (demo_tree ! 1) = 1"
    "rn_type (demo_tree ! 0) = RAMFS_NODE_DIRECTORY" "rn_type (demo_tree ! 1) = RAMFS_NODE_FILE"
    "node_ok demo_tree 0" "node_ok demo_tree 1"
    by (simp_all add: demo_tree_def node_ok_def name_field_def RAMFS_NAME_CAPACITY_def)
  have low: "i = 0 \<or> i = 1" if "i < 64" "rn_active (demo_tree ! i)" for i
  proof (rule ccontr)
    assume "\<not> (i = 0 \<or> i = 1)"
    then obtain j where "i = Suc (Suc j)" by (cases i; cases "i - 1") auto
    then show False using that by (simp add: demo_tree_def)
  qed
  have a0: "anchored demo_tree 0" using n by (intro anchored.root)
  have "anchored demo_tree 1" by (rule anchored.child [OF a0]) (use n in simp_all)
  with a0 low n show ?thesis by (auto simp: tree_ok_def)
qed

lemma demo_fs_inv: "fs_inv (demo_fs demo_tree demo_caps)"
proof -
  have low: "r = demo_caps ! 0 \<or> r = demo_caps ! 1" if "r \<in> set demo_caps" "nc_active r" for r
    using that by (auto simp: demo_caps_def zero_node_cap_def)
  have distinct: "keys_distinct nc_active nc_handle demo_caps"
  proof -
    have "i = 0 \<or> i = 1" if "i < 32" "nc_active (demo_caps ! i)" for i
    proof (rule ccontr)
      assume "\<not> (i = 0 \<or> i = 1)"
      then obtain j where "i = Suc (Suc j)" by (cases i; cases "i - 1") auto
      then show False using that by (simp add: demo_caps_def zero_node_cap_def)
    qed
    moreover have "nc_handle (demo_caps ! 0) \<noteq> nc_handle (demo_caps ! 1)" "length demo_caps = 32"
      by (simp_all add: demo_caps_def)
    ultimately show ?thesis unfolding keys_distinct_def by metis
  qed
  have ok: "node_cap_ok 0x6610 (demo_caps ! 0)" "node_cap_ok 0x6610 (demo_caps ! 1)"
    by (simp_all add: node_cap_ok_def demo_caps_def zero_node_cap_def) code_simp+
  have "nc_parent_handle r \<noteq> nc_handle p" if "r \<in> set demo_caps" "nc_active r" "p \<in> set demo_caps" "nc_active p" for r p
    using low [OF that(1,2)] low [OF that(3,4)] by (auto simp: demo_caps_def zero_node_cap_def)
  moreover have "length demo_caps = 32" by (simp add: demo_caps_def)
  moreover have "node_cap_ok 0x6610 r" if "r \<in> set demo_caps" "nc_active r" for r using low [OF that] ok by blast
  ultimately have "node_caps_ok 0x6610 demo_caps" using distinct unfolding node_caps_ok_def by blast
  then show ?thesis using demo_tree_ok by (simp add: fs_inv_def)
qed


text \<open>The worker deletes the file, creates another one and writes to it.\<close>

lemma demo_delete_tree: "ramfs_delete 1 [0x61] demo_tree = (True, demo_tree[1 := zero_node])"
  "ramfs_find_node (demo_tree[1 := zero_node]) 2 = None"
  by (simp_all add: ramfs_delete_def ramfs_walk_parent_def ramfs_find_node_def slot_of_def demo_tree_def
      walk_loop.simps Let_def skip_slashes_def after_segment_def segment_of_def ramfs_find_child_def
      text_equals_segment_def node_text_def name_field_def RAMFS_NAME_CAPACITY_def first_index_None_iff nth_append)

definition demo_file :: ramfs_node where
  "demo_file = zero_node\<lparr>rn_active := True, rn_id := 2, rn_parent_id := 1, rn_type := RAMFS_NODE_FILE,
     rn_name := name_field [0x62], rn_length := 0\<rparr>"

lemma demo_create_tree:
  "ramfs_create 1 [0x62] RAMFS_NODE_FILE (demo_tree[1 := zero_node]) = (Some 2, demo_tree[1 := demo_file])"
proof -
  have w: "ramfs_walk_parent (demo_tree[1 := zero_node]) 1 [0x62] = Some (0, [0x62])"
    by (simp add: ramfs_walk_parent_def ramfs_find_node_def slot_of_def demo_tree_def
        walk_loop.simps Let_def skip_slashes_def after_segment_def segment_of_def)
  have c: "ramfs_find_child (demo_tree[1 := zero_node]) 0 [0x62] = None"
    by (simp add: ramfs_find_child_def first_index_None_iff demo_tree_def)
  have a: "first_index (\<lambda>n. \<not> rn_active n) (demo_tree[1 := zero_node]) = Some 1"
    by (simp add: demo_tree_def)
  have l: "length demo_tree = 64" "rn_id (demo_tree[1 := zero_node] ! 0) = 1" by (simp_all add: demo_tree_def)
  show ?thesis
    using l by (simp del: One_nat_def add: ramfs_create_def w c ramfs_create_child_def ramfs_allocate_node_def a
        demo_file_def RAMFS_NAME_CAPACITY_def)
qed

lemma demo_file_found: "ramfs_find_node (demo_tree[1 := demo_file]) 2 = Some 1"
  "rn_type (demo_tree[1 := demo_file] ! 1) = RAMFS_NODE_FILE"
  by (simp_all add: ramfs_find_node_def slot_of_def demo_tree_def demo_file_def)

lemma short_path: "\<not> (256 :: u32) \<le> 1"
  by (simp add: word_le_nat_alt)

lemma demo_fs_ramfs: "(demo_fs nodes rs)\<lparr>k_ramfs := nodes'\<rparr> = demo_fs nodes' rs"
  by (simp add: demo_fs_def)

lemma demo_base:
  assumes "ramfs_find_node nodes 1 = Some 0" and "rn_type (nodes ! 0) = RAMFS_NODE_DIRECTORY" and "dir_rights AND rights = rights"
  shows "fs64_resolve_base_node 0x6601 rights PRINCIPAL64_ID_CONSOLE_WORKER (demo_fs nodes demo_caps)
    = (Some (1, 0, 0, 0x6601), demo_fs nodes demo_caps)"
  using assms by (simp add: fs64_resolve_base_node_def fs64_find_live_def slot_of_def demo_caps_def zero_node_cap_def
      ramfs_node_is_directory_def fs64_runtime_is_current_def)

lemma demo_workers: "principal64_is_active PRINCIPAL64_ID_CONSOLE_WORKER" "PRINCIPAL64_ID_CONSOLE_WORKER \<noteq> PRINCIPAL64_ID_CONSOLE_CLIENT"
  by code_simp+

lemma demo_root: "ramfs_find_node demo_tree 1 = Some 0" "ramfs_find_node (demo_tree[1 := zero_node]) 1 = Some 0"
  "rn_type (demo_tree ! 0) = RAMFS_NODE_DIRECTORY"
  by (simp_all add: ramfs_find_node_def slot_of_def demo_tree_def)

lemma demo_delete:
  "fs64_delete_kernel demo_storage 0x6601 (Some [0x61]) 1 PRINCIPAL64_ID_CONSOLE_WORKER (demo_fs demo_tree demo_caps)
    = (1, demo_fs (demo_tree[1 := zero_node]) demo_caps)"
  using demo_base [of demo_tree FS64_RIGHT_DELETE] demo_root demo_delete_tree(1)
  by (simp add: fs64_delete_kernel_def fs64_delete_common_def demo_fs_inv fs64_load_path_argument_def answer_def demo_fs_ramfs Let_def short_path)

text \<open>The capability the worker gets for its new file, and its write through it.\<close>

lemma demo_create_write:
  obtains k2 k3 where
    "fs64_create_kernel demo_storage 0x6601 (Some [0x62]) 1 RAMFS_NODE_FILE PRINCIPAL64_ID_CONSOLE_WORKER
       (demo_fs (demo_tree[1 := zero_node]) demo_caps) = (0x6610, k2)"
    "fs64_find_live 0x6610 (k_fs k2) = Some 2" "nc_node_id (node_cap k2 2) = 2"
    "fs64_write_kernel demo_storage 0x6610 (Some [0x73, 0x6B]) 0 2 PRINCIPAL64_ID_CONSOLE_WORKER k2 = (2, k3)"
proof -
  let ?k = "demo_fs (demo_tree[1 := zero_node]) demo_caps"
  have ready: "fs64_ensure_init ?k = ?k" by (simp add: fs64_ensure_init_def)
  define nodes where "nodes = demo_tree[1 := demo_file]"
  have nodes: "ramfs_create 1 [0x62] RAMFS_NODE_FILE (demo_tree[1 := zero_node]) = (Some 2, nodes)"
    "ramfs_find_node nodes 2 = Some 1" "rn_type (nodes ! 1) = RAMFS_NODE_FILE"
    unfolding nodes_def by (rule demo_create_tree demo_file_found)+
  let ?k1 = "upd_fs (\<lambda>s. s\<lparr>fs_create_count := fs_create_count s + 1\<rparr>) (demo_fs nodes demo_caps)"
  let ?g = "fs64_grant_node 2 PRINCIPAL64_ID_CONSOLE_WORKER 0x6601 0 0 0 [0x62] ?k1"
  have c: "fs64_create_kernel demo_storage 0x6601 (Some [0x62]) 1 RAMFS_NODE_FILE PRINCIPAL64_ID_CONSOLE_WORKER ?k = ?g"
    using demo_base [of "demo_tree[1 := zero_node]" FS64_RIGHT_CREATE] demo_root nodes(1)
    by (simp add: fs64_create_kernel_def fs64_create_common_def Let_def short_path ready [simplified]
        fs64_load_path_argument_def demo_fs_ramfs)
  have len: "length demo_caps = 32" by (simp add: demo_caps_def)
  have slots: "demo_caps ! 2 = zero_node_cap" "nc_active (demo_caps ! 0)" "nc_active (demo_caps ! 1)"
    "nc_handle (demo_caps ! 0) = 0x6600" "nc_handle (demo_caps ! 1) = 0x6601" "\<not> nc_active zero_node_cap"
    by (simp_all add: demo_caps_def zero_node_cap_def)
  have free: "fs64_find_free (k_fs ?k1) = Some 2"
    using slots len by (auto simp: fs64_find_free_def first_index_Some_iff less_2_cases_iff)
  obtain h2 k2 where g: "?g = (h2, k2)" by fastforce
  define r where "r = fs64_store_path [0x62] ((demo_caps ! 2)\<lparr>nc_active := True, nc_handle := 0x6610, nc_node_id := 2,
     nc_rights := file_rights, nc_parent_handle := 0x6601, nc_owner_id := PRINCIPAL64_ID_CONSOLE_WORKER,
     nc_runtime_generation := 0, nc_runtime_token := 0, nc_storage_descriptor_selector := 0\<rparr>)"
  have r: "nc_active r" "nc_handle r = 0x6610" "nc_node_id r = 2" "nc_rights r = file_rights"
    "nc_owner_id r = PRINCIPAL64_ID_CONSOLE_WORKER" "nc_runtime_token r = 0"
    by (simp_all add: r_def)
  have rights: "fs64_rights_for_node 2 nodes = file_rights"
    using nodes(2,3) by (simp add: fs64_rights_for_node_def ramfs_node_is_directory_def)
  have k2: "h2 = 0x6610" "k_ramfs k2 = nodes" "fs_initialized (k_fs k2)" "g_fs64_caps (k_fs k2) = demo_caps[2 := r]"
    using g nodes(2) free len
    by (auto simp: fs64_grant_node_def fs64_owner_is_valid_def demo_workers ramfs_node_exists_def
        upd_node_cap_def rights Let_def r_def)
  have live: "fs64_find_live 0x6610 (k_fs k2) = Some 2"
    using r(1,2) slots len by (auto simp: fs64_find_live_def k2(4) slot_of_def first_index_Some_iff less_2_cases_iff)
  have cap: "node_cap k2 2 = r" using len by (simp add: k2(4))
  have res: "fs64_resolve_node_capability 0x6610 FS64_RIGHT_WRITE PRINCIPAL64_ID_CONSOLE_WORKER k2 = (Some 2, k2)"
    using nodes(2) by (simp add: fs64_resolve_node_capability_def fs64_owner_is_valid_def demo_workers live cap r
        k2(2) ramfs_node_exists_def fs64_runtime_is_current_def)
  obtain nodes1 where "ramfs_write 2 0 [0x73, 0x6B] nodes = (Some 2, nodes1)"
    using nodes(2,3) by (simp add: ramfs_write_def Let_def RAMFS_FILE_CAPACITY_def)
  then have "fst (write_record demo_storage 2 0 [0x73, 0x6B] PRINCIPAL64_ID_CONSOLE_WORKER k2) = 2"
    by (simp add: write_record_def cap r(3) k2(2) Let_def)
  then obtain k3 where "fs64_write_kernel demo_storage 0x6610 (Some [0x73, 0x6B]) 0 2 PRINCIPAL64_ID_CONSOLE_WORKER k2 = (2, k3)"
    by (cases "write_record demo_storage 2 0 [0x73, 0x6B] PRINCIPAL64_ID_CONSOLE_WORKER k2")
      (auto simp: fs64_write_kernel_def fs64_ensure_init_def k2(3) res io_bytes_def)
  with c g k2(1) live cap r(3) show ?thesis by (intro that [of k2 k3]) simp_all
qed

theorem fs64_stale_handle_reads_new_file_witness:
  "\<exists>k. fst (fs64_read_kernel demo_storage 0x6600 0 2 PRINCIPAL64_ID_CONSOLE_CLIENT (k :: nat kernel_fs)) = Some [0x73, 0x6B]"
proof -
  obtain k2 k3 where e:
    "fs64_create_kernel demo_storage 0x6601 (Some [0x62]) 1 RAMFS_NODE_FILE PRINCIPAL64_ID_CONSOLE_WORKER
       (demo_fs (demo_tree[1 := zero_node]) demo_caps) = (0x6610, k2)"
    "fs64_find_live 0x6610 (k_fs k2) = Some 2" "nc_node_id (node_cap k2 2) = 2"
    "fs64_write_kernel demo_storage 0x6610 (Some [0x73, 0x6B]) 0 2 PRINCIPAL64_ID_CONSOLE_WORKER k2 = (2, k3)"
    by (rule demo_create_write)
  let ?k = "demo_fs demo_tree demo_caps"
  have cap: "nc_active (node_cap ?k 0)" "nc_handle (node_cap ?k 0) = 0x6600"
    "nc_owner_id (node_cap ?k 0) = PRINCIPAL64_ID_CONSOLE_CLIENT" "nc_rights (node_cap ?k 0) = file_rights"
    "nc_runtime_token (node_cap ?k 0) = 0" "nc_storage_descriptor_selector (node_cap ?k 0) = 0" "nc_node_id (node_cap ?k 0) = 2"
    by (simp_all add: demo_caps_def zero_node_cap_def)
  have gone: "\<not> ramfs_node_exists (k_ramfs (demo_fs (demo_tree[1 := zero_node]) demo_caps)) 2"
    using demo_delete_tree(2) by (simp add: ramfs_node_exists_def)
  have room: "unat (fs_next_handle (k_fs ?k)) + 2 < 2 ^ 32" by simp
  note stale = fs64_stale_handle_reads_new_file [OF demo_fs_inv room _ cap demo_workers(2) demo_delete gone e(1-3) _ _ _ e(4)]
  have "fst (fs64_read_kernel demo_storage 0x6600 0 2 PRINCIPAL64_ID_CONSOLE_CLIENT k3) = Some [0x73, 0x6B]"
    by (rule stale [THEN conjunct2, THEN conjunct2]) simp_all
  then show ?thesis by blast
qed

end
