(* ===== verification/Fd_Props.thy ===== *)
theory Fd_Props
  imports Fd_Inv Fs_Props
begin

text \<open>
  Properties of the descriptors: the typing of the tables in every run, and the text in which the file
  system hands out metadata and its reading.
\<close>

section \<open>Runs\<close>

datatype 's fd_op =
    Fd_Init_process u32 u32 u32 u32 u32 | Fd_Release_process u32 | Fd_Fork u32 u32
  | Fd_Alloc_at u32 u32 u32 u32 u32 | Fd_Alloc u32 u32 u32 u32 | Fd_Open_ramfs u32 "u8 list option" u32 u32
  | Fd_Close u32 u32 | Fd_Close_on_exec u32
  | Fd_Read u32 u32 bool u32 | Fd_Write u32 u32 "u8 list option" u32
  | Fd_Read_at u32 u32 u64 bool u32 | Fd_Write_at u32 u32 u64 "u8 list option" u32
  | Fd_Dup u32 u32 | Fd_Dup_min u32 u32 u32 | Fd_Dup2 u32 u32 u32 | Fd_Dup3 u32 u32 u32 u32
  | Fd_Set_flags u32 u32 u32 | Fd_Seek u32 u32 u32 u32 | Fd_Stat u32 u32 bool
  | Fd_Get u32 u32 | Fd_Put u32 "(nat \<times> nat) option"
  | Fd_Pipe u32 u32 bool bool | Fd_Grant u32 u32 u32 bool
  | Fd_Elsewhere "'s \<Rightarrow> 's"

fun fd_step ::
    "'d storage \<Rightarrow> 'd screen \<Rightarrow> (u32 \<Rightarrow> u32 \<Rightarrow> ('d, 'a) kernel_fd_scheme \<Rightarrow> fd64_stat_t option \<times> 'd)
      \<Rightarrow> ('d, 'a) kernel_fd_scheme fd_op \<Rightarrow> ('d, 'a) kernel_fd_scheme \<Rightarrow> ('d, 'a) kernel_fd_scheme" where
  "fd_step sd sc vfs (Fd_Init_process pid owner h0 h1 h2) k = snd (fd64_init_process pid owner h0 h1 h2 k)"
| "fd_step sd sc vfs (Fd_Release_process pid) k = snd (fd64_release_process pid k)"
| "fd_step sd sc vfs (Fd_Fork parent child) k = snd (fd64_fork_process parent child k)"
| "fd_step sd sc vfs (Fd_Alloc_at pid fd h ty flags) k = snd (fd64_alloc_at pid fd h ty flags k)"
| "fd_step sd sc vfs (Fd_Alloc pid h ty flags) k = snd (fd64_alloc pid h ty flags k)"
| "fd_step sd sc vfs (Fd_Open_ramfs pid path n flags) k = snd (fd64_open_ramfs sd pid path n flags k)"
| "fd_step sd sc vfs (Fd_Close pid fd) k = snd (fd64_close pid fd k)"
| "fd_step sd sc vfs (Fd_Close_on_exec pid) k = snd (fd64_close_on_exec pid k)"
| "fd_step sd sc vfs (Fd_Read pid fd out n) k = snd (fd64_read sd pid fd out n k)"
| "fd_step sd sc vfs (Fd_Write pid fd input n) k = snd (fd64_write sd sc pid fd input n k)"
| "fd_step sd sc vfs (Fd_Read_at pid fd off out n) k = snd (fd64_read_at sd pid fd off out n k)"
| "fd_step sd sc vfs (Fd_Write_at pid fd off input n) k = snd (fd64_write_at sd pid fd off input n k)"
| "fd_step sd sc vfs (Fd_Dup pid fd) k = snd (fd64_dup pid fd k)"
| "fd_step sd sc vfs (Fd_Dup_min pid fd m) k = snd (fd64_dup_min pid fd m k)"
| "fd_step sd sc vfs (Fd_Dup2 pid old new) k = snd (fd64_dup2 pid old new k)"
| "fd_step sd sc vfs (Fd_Dup3 pid old new flags) k = snd (fd64_dup3 pid old new flags k)"
| "fd_step sd sc vfs (Fd_Set_flags pid fd flags) k = snd (fd64_set_entry_flags pid fd flags k)"
| "fd_step sd sc vfs (Fd_Seek pid fd off whence) k = snd (fd64_seek vfs pid fd off whence k)"
| "fd_step sd sc vfs (Fd_Stat pid fd buf) k = snd (fd64_stat pid fd buf k)"
| "fd_step sd sc vfs (Fd_Get pid fd) k = snd (fd64_get pid fd k)"
| "fd_step sd sc vfs (Fd_Put pid e) k = snd (fd64_put pid e k)"
| "fd_step sd sc vfs (Fd_Pipe pid flags r w) k = snd (pipe64_create_flags pid flags r w k)"
| "fd_step sd sc vfs (Fd_Grant src fd dst out) k = snd (pipe64_grant_endpoint src fd dst out k)"
| "fd_step sd sc vfs (Fd_Elsewhere f) k = f k"

text \<open>A step of another part of the kernel leaves the tables and the processes' hold on them alone.\<close>

fun fd_step_ok :: "('d, 'a) kernel_fd_scheme fd_op \<Rightarrow> ('d, 'a) kernel_fd_scheme \<Rightarrow> bool" where
  "fd_step_ok (Fd_Elsewhere f) k \<longleftrightarrow>
     k_fd (f k) = k_fd k \<and> process64_fd_table (k_proc (f k)) = process64_fd_table (k_proc k)"
| "fd_step_ok _ k \<longleftrightarrow> True"

lemmas kept_ops = kept_alloc_at kept_alloc kept_open_ramfs kept_free kept_close_on_exec kept_read kept_write
  kept_read_at kept_write_at kept_dups kept_dup3 kept_set_entry_flags kept_seek kept_stat kept_get kept_put_entry
  kept_create kept_grant

interpretation fd_machine: op_machine "fd_step sd sc vfs" fd_step_ok fd_inv
proof
  fix k and x :: "('a, 'b) kernel_fd_scheme fd_op"
  assume inv: "fd_inv k" and ok: "fd_step_ok x k"
  show "fd_inv (fd_step sd sc vfs x k)"
  proof (cases x)
    case (Fd_Elsewhere f)
    then show ?thesis using inv ok by (simp add: fd_inv_def)
  qed (simp_all add: inv fd_inv_init_process fd_inv_release fd_inv_fork fd64_close_def pipe64_grant_endpoint_def
      kept_ops [THEN keptD(1)])
qed

lemma fd_inv_booted:
  assumes "\<not> g_fd64_initialized (k_fd k)" and "\<And>pid. process64_fd_table (k_proc k) pid = None"
  shows "fd_inv (fd64_init k)"
  using assms by (simp add: fd64_init_def fd_inv_def pool_inv_def)

text \<open>
  C6: Descriptor tables stay well typed. Start before the first use of the descriptors, when no
  process holds a table, and run any sequence of descriptor operations - opening, reading, writing,
  duplicating, seeking, pinning, closing, pipes, grants, fork and release, on any arguments and devices -
  and of steps elsewhere in the kernel that leave the tables alone. Then a table held by a process names
  this process, so no two processes share one, and every occupied slot of it carries its own number, one
  of the six descriptor types, a handle, no flag but close-on-exec and non-blocking, and lies at or below
  the high-water mark.
\<close>

theorem fd64_tables_well_typed:
  assumes "\<not> g_fd64_initialized (k_fd k)" and "\<And>pid. process64_fd_table (k_proc k) pid = None"
    and "all_ok fd_step_ok (fd_step sd sc vfs) ops (fd64_init k)"
    and k': "k' = run_ops (fd_step sd sc vfs) ops (fd64_init k)"
    and t: "process64_fd_table (k_proc k') pid = Some t" and n: "n < FD64_TABLE_LIMIT"
    and active: "fd64_entry_active (entry_at k' t n)"
  shows "ft_pid (table_at k' t) = pid \<and> fe_fd_number (entry_at k' t n) = of_nat n
    \<and> fd64_valid_type (fe_fd_type (entry_at k' t n))
    \<and> fe_capability_handle (entry_at k' t n) \<noteq> CAPABILITY64_INVALID_HANDLE
    \<and> \<not> foreign_flags (fe_flags (entry_at k' t n)) \<and> n \<le> unat (ft_high_water_fd (table_at k' t))"
proof -
  have inv: "fd_inv k'" unfolding k' by (rule fd_machine.inv_run [OF fd_inv_booted [OF assms(1,2)] assms(3)])
  have "entry_ok (ft_high_water_fd (table_at k' t)) n (entry_at k' t n)"
    by (rule table_okD(2) [OF fd_inv_table [OF inv fd_inv_slot [OF inv t]] n])
  then show ?thesis
    using pool_invD(4) [OF fd_invD(4) [OF inv] t] active cleared_inactive by (auto simp: entry_ok_def)
qed

text \<open>A new process gets a free table and its three standard descriptors.\<close>

definition roomy :: "nat \<Rightarrow> ('d, 'a) kernel_fd_scheme \<Rightarrow> bool" where
  "roomy t k \<longleftrightarrow> t < length (g_fd64_tables (k_fd k)) \<and> length (ft_entries (table_at k t)) = FD64_TABLE_LIMIT
     \<and> persona64_context_for_process k (ft_pid (table_at k t)) = None"

lemma install_ok:
  assumes room: "roomy t k" and fd: "unat fd < FD64_TABLE_LIMIT" "\<not> fd64_entry_active (entry_at k t (unat fd))"
    and e: "h \<noteq> CAPABILITY64_INVALID_HANDLE" "fd64_valid_type ty" "\<not> foreign_flags flags"
  obtains k' where "fd64_install_entry t fd h ty flags k = (True, k')" "roomy t k'" "k_proc k' = k_proc k"
    "fd64_entry_active (entry_at k' t (unat fd))"
    "\<forall>n. n \<noteq> unat fd \<longrightarrow> fd64_entry_active (entry_at k' t n) = fd64_entry_active (entry_at k t n)"
proof -
  let ?e = "\<lparr>fe_fd_number = fd, fe_capability_handle = h, fe_fd_type = ty, fe_flags = flags,
    fe_file_offset = 0, fe_ref_count = 1\<rparr>"
  let ?k = "upd_table t (occupy fd ?e) k"
  have r: "t < length (g_fd64_tables (k_fd k))" "length (ft_entries (table_at k t)) = FD64_TABLE_LIMIT"
    "persona64_context_for_process k (ft_pid (table_at k t)) = None"
    using room by (simp_all add: roomy_def)
  have i: "fd64_install_entry t fd h ty flags k = (True, ?k)"
    using fd e r(3) by (simp add: fd64_install_entry_def persona64_budget_check_fd_def budget_check_def)
  have tb: "table_at ?k t = occupy fd ?e (table_at k t)" "length (g_fd64_tables (k_fd ?k)) = length (g_fd64_tables (k_fd k))"
    "k_proc ?k = k_proc k"
    using r(1) by (simp_all add: upd_table_def upd_fd_def)
  have "roomy t ?k" unfolding roomy_def tb
    using r by (simp add: occupy_def put_entry_def persona64_context_for_process_def tb(3))
  moreover have "fd64_entry_active ?e" using e(1,2) by (auto simp: fd64_entry_active_def fd64_valid_type_def)
  then have "fd64_entry_active (entry_at ?k t (unat fd))" unfolding tb using fd(1) r(2) by (simp add: occupy_entry)
  moreover have "entry_at ?k t n = entry_at k t n" if "n \<noteq> unat fd" for n
    unfolding tb using that by (simp add: occupy_def put_entry_def)
  ultimately show ?thesis using that [OF i] tb(3) by simp
qed

lemma claim_ok:
  assumes inv: "fd_inv k" and pid: "pid \<noteq> PROCESS64_INVALID_PID" "owner \<noteq> 0" "process64_principal (k_proc k) pid \<noteq> 0"
    and none: "process64_fd_table (k_proc k) pid = None"
    and free: "first_index (\<lambda>used. \<not> used) (g_fd64_table_used (k_fd k)) = Some t"
    and a: "process64_attach_fd pid (Some t) (k_proc k) = (True, ps)" and p: "process64_persona_ctx ps pid = None"
  obtains k' where "fd64_claim_table pid owner k = (Some t, k')" "roomy t k'" "k_proc k' = ps"
    "ft_live_count (table_at k' t) = 0" "\<forall>n<FD64_TABLE_LIMIT. \<not> fd64_entry_active (entry_at k' t n)"
proof -
  let ?new = "fd64_clear_table\<lparr>ft_pid := pid, ft_owner_id := owner\<rparr>"
  obtain k1 where c: "fd64_claim_table pid owner k = (Some t, k1)" and k1: "k_proc k1 = ps"
    "g_fd64_tables (k_fd k1) = (g_fd64_tables (k_fd k))[t := ?new]"
    using inv pid none free a by (simp add: fd64_claim_table_def Let_def upd_table_def upd_fd_def)
  have t: "t < length (g_fd64_tables (k_fd k))"
    using first_index_SomeD [OF free] fd_invD(2,3) [OF inv] by simp
  then have tb: "table_at k1 t = ?new" by (simp add: k1(2))
  have "roomy t k1" unfolding roomy_def tb
    using t p by (simp add: k1 fd64_clear_table_def persona64_context_for_process_def)
  moreover have "\<not> fd64_entry_active (entry_at k1 t n)" if "n < FD64_TABLE_LIMIT" for n
    unfolding tb using that by (simp add: fd64_clear_table_def)
  moreover have "ft_live_count (table_at k1 t) = 0" unfolding tb by (simp add: fd64_clear_table_def)
  ultimately show ?thesis using that [OF c _ k1(1)] by simp
qed

lemma init_process_ok:
  assumes inv: "fd_inv k" and pid: "pid \<noteq> PROCESS64_INVALID_PID" "owner \<noteq> 0" "process64_principal (k_proc k) pid \<noteq> 0"
    and none: "process64_fd_table (k_proc k) pid = None"
    and free: "first_index (\<lambda>used. \<not> used) (g_fd64_table_used (k_fd k)) = Some t"
    and a: "process64_attach_fd pid (Some t) (k_proc k) = (True, ps)" and p: "process64_persona_ctx ps pid = None"
    and h: "h0 \<noteq> CAPABILITY64_INVALID_HANDLE" "h1 \<noteq> CAPABILITY64_INVALID_HANDLE" "h2 \<noteq> CAPABILITY64_INVALID_HANDLE"
  obtains k' where "fd64_init_process pid owner h0 h1 h2 k = (True, k')" "process64_fd_table (k_proc k') pid = Some t"
    "fd64_entry_active (entry_at k' t 2)"
proof -
  have lim: "unat FD64_STDIN < FD64_TABLE_LIMIT" "unat FD64_STDOUT < FD64_TABLE_LIMIT" "unat FD64_STDERR < FD64_TABLE_LIMIT"
    by (simp_all add: FD64_TABLE_LIMIT_def)
  have dev: "fd64_valid_type FD64_TYPE_DEVICE" "\<not> foreign_flags 0" by (simp_all add: foreign_flags_def fd64_valid_type_def)
  have ne: "unat FD64_STDOUT \<noteq> unat FD64_STDIN" "unat FD64_STDERR \<noteq> unat FD64_STDIN" "unat FD64_STDERR \<noteq> unat FD64_STDOUT"
    by simp_all
  obtain k1 where k1: "fd64_claim_table pid owner k = (Some t, k1)" "roomy t k1" "k_proc k1 = ps"
    "ft_live_count (table_at k1 t) = 0" "\<forall>n<FD64_TABLE_LIMIT. \<not> fd64_entry_active (entry_at k1 t n)"
    by (rule claim_ok [OF inv pid none free a p])
  obtain k2 where k2: "fd64_install_entry t FD64_STDIN h0 FD64_TYPE_DEVICE 0 k1 = (True, k2)" "roomy t k2" "k_proc k2 = k_proc k1"
    "\<forall>n. n \<noteq> unat FD64_STDIN \<longrightarrow> fd64_entry_active (entry_at k2 t n) = fd64_entry_active (entry_at k1 t n)"
    by (rule install_ok [OF k1(2) lim(1) k1(5) [rule_format, OF lim(1)] h(1) dev])
  have f2: "\<not> fd64_entry_active (entry_at k2 t (unat FD64_STDOUT))" "\<not> fd64_entry_active (entry_at k2 t (unat FD64_STDERR))"
    using k2(4) k1(5) ne lim by blast+
  obtain k3 where k3: "fd64_install_entry t FD64_STDOUT h1 FD64_TYPE_DEVICE 0 k2 = (True, k3)" "roomy t k3" "k_proc k3 = k_proc k2"
    "\<forall>n. n \<noteq> unat FD64_STDOUT \<longrightarrow> fd64_entry_active (entry_at k3 t n) = fd64_entry_active (entry_at k2 t n)"
    by (rule install_ok [OF k2(2) lim(2) f2(1) h(2) dev])
  have f3: "\<not> fd64_entry_active (entry_at k3 t (unat FD64_STDERR))" using k3(4) ne f2(2) by blast
  obtain k4 where k4: "fd64_install_entry t FD64_STDERR h2 FD64_TYPE_DEVICE 0 k3 = (True, k4)" "k_proc k4 = k_proc k3"
    "fd64_entry_active (entry_at k4 t (unat FD64_STDERR))"
    by (rule install_ok [OF k3(2) lim(3) f3 h(3) dev])
  have "fd64_init_process pid owner h0 h1 h2 k = (True, k4)"
    by (simp add: fd64_init_process_def k1(1,4) k2(1) k3(1) k4(1))
  moreover have "process64_fd_table (k_proc k4) pid = Some t"
    using process64_fd_table_attach [OF a, of pid] by (simp add: k1(3) k2(3) k3(3) k4(2))
  moreover have "fd64_entry_active (entry_at k4 t 2)" using k4(3) by simp
  ultimately show ?thesis by (rule that)
qed

definition demo_fd :: "process_state \<Rightarrow> persona_state \<Rightarrow> pipe_state \<Rightarrow> fd_state \<Rightarrow> nat kernel_fd" where
  "demo_fd ps cs qs fs = kernel_fs.extend ((demo_fs [] [])\<lparr>k_proc := ps, k_persona := cs, k_pipe := qs\<rparr>)
     \<lparr>k_con = \<lparr>con_write_count = 0, con_byte_count = 0, con_denial_count = 0, g_capture_active = False,
        g_capture_owner = 0, g_capture_capability = 0, g_capture_buffer = 0, g_capture_capacity = 0,
        g_capture_offset = 0, g_capture_truncated = False, g_capture_writes = 0\<rparr>, k_fd = fs\<rparr>"


lemma demo_fd_simps [simp]:
  "k_proc (demo_fd ps cs qs fs) = ps" "k_persona (demo_fd ps cs qs fs) = cs" "k_pipe (demo_fd ps cs qs fs) = qs"
  "k_fd (demo_fd ps cs qs fs) = fs"
  by (simp_all add: demo_fd_def kernel_fs.defs demo_fs_def)

definition fd_bss :: fd_state where
  "fd_bss = \<lparr>g_fd64_tables = [], g_fd64_table_used = [], g_fd64_initialized = False, g_fd64_fork_copy_count = 0,
     g_fd64_fork_copy_denial_count = 0, g_fd64_fork_copy_last_parent_pid = 0, g_fd64_fork_copy_last_child_pid = 0,
     g_fd64_fork_copy_last_entries = 0, g_fd64_fork_copy_last_stage = 0, g_fd64_fork_pipe_copy_count = 0,
     g_fd64_fork_pipe_denial_count = 0, g_fd64_fork_pipe_last_fd = 0\<rparr>"

definition demo_screen :: "nat screen" where
  "demo_screen = \<lparr>outb = (\<lambda>_ _ d. d), display64_write_console_stream = (\<lambda>_ _ d. d),
     display64_write_console_stream_kernel = (\<lambda>_ d. d)\<rparr>"

definition fd_boot :: "nat kernel_fd" where
  "fd_boot = demo_fd process64_seed_records persona_bss
     \<lparr>g_pipe64_objects = [], g_pipe64_initialized = True, g_pipe64_denials = 0, g_pipe64_block_count = 0,
      g_pipe64_wake_count = 0, g_pipe64_replay_wake_count = 0\<rparr> fd_bss"

lemma seed_fd_empty: "process64_fd_table process64_seed_records pid = None"
proof (cases "process_record process64_seed_records pid")
  case None
  then show ?thesis by (simp add: process64_fd_table_def record_field_def)
next
  case (Some r)
  then have "r \<in> set (g_processes process64_seed_records) \<union> set (g_process64_clone_records process64_seed_records)"
    by (auto simp: process_record_def process64_find_def first_index_Some_iff split: option.splits)
  then have "p_fd_table r = None"
    by (auto simp: process64_seed_records_def g_process_seeds_def process64_clear_record_def)
  with Some show ?thesis by (simp add: process64_fd_table_def record_field_def)
qed

theorem fd64_tables_well_typed_witness:
  "\<exists>t. process64_fd_table (k_proc (run_ops (fd_step demo_storage demo_screen (\<lambda>_ _ k. (None, k_dev k)))
       [Fd_Init_process 4 3 10 11 12] (fd64_init fd_boot))) 4 = Some t
     \<and> fd64_valid_type (fe_fd_type (entry_at (run_ops (fd_step demo_storage demo_screen (\<lambda>_ _ k. (None, k_dev k)))
       [Fd_Init_process 4 3 10 11 12] (fd64_init fd_boot)) t 2))"
proof -
  have boot: "\<not> g_fd64_initialized (k_fd fd_boot)" "process64_fd_table (k_proc fd_boot) pid = None" for pid
    by (simp_all add: fd_boot_def fd_bss_def seed_fd_empty)
  let ?k = "fd64_init fd_boot" and ?step = "fd_step demo_storage demo_screen (\<lambda>_ _ k. (None, k_dev k))"
  have k: "k_proc ?k = process64_seed_records" "g_fd64_table_used (k_fd ?k) = replicate FD64_MAX_PROCESS_TABLES False"
    using boot(1) by (simp_all add: fd64_init_def) (simp add: fd_boot_def)
  have free: "first_index (\<lambda>used. \<not> used) (g_fd64_table_used (k_fd ?k)) = Some 0"
    by (simp add: k first_index_Some_iff FD64_MAX_PROCESS_TABLES_def)
  obtain ps where a: "process64_attach_fd 4 (Some 0) (k_proc ?k) = (True, ps)"
    and p: "process64_persona_ctx ps 4 = None"
  proof -
    have "case process64_attach_fd 4 (Some 0) process64_seed_records of (ok, ps) \<Rightarrow> ok \<and> process64_persona_ctx ps 4 = None"
      by code_simp
    then show ?thesis using that k(1) by (cases "process64_attach_fd 4 (Some 0) process64_seed_records") simp
  qed
  have principal: "process64_principal (k_proc ?k) 4 \<noteq> 0" unfolding k(1) by code_simp
  have nums: "(4 :: u32) \<noteq> PROCESS64_INVALID_PID" "(3 :: u32) \<noteq> 0" "(10 :: u32) \<noteq> CAPABILITY64_INVALID_HANDLE"
    "(11 :: u32) \<noteq> CAPABILITY64_INVALID_HANDLE" "(12 :: u32) \<noteq> CAPABILITY64_INVALID_HANDLE" by simp_all
  have none: "process64_fd_table (k_proc ?k) 4 = None" unfolding k(1) by (rule seed_fd_empty)
  obtain k' where k': "fd64_init_process 4 3 10 11 12 ?k = (True, k')" "process64_fd_table (k_proc k') 4 = Some 0"
    "fd64_entry_active (entry_at k' 0 2)"
    by (rule init_process_ok [OF fd_inv_booted [OF boot] nums(1,2) principal none free a p nums(3-5)])
  have run: "run_ops ?step [Fd_Init_process 4 3 10 11 12] ?k = k'" by (simp add: k'(1))
  have "all_ok fd_step_ok ?step [Fd_Init_process 4 3 10 11 12] ?k" "2 < FD64_TABLE_LIMIT"
    by (simp_all add: FD64_TABLE_LIMIT_def)
  from fd64_tables_well_typed [OF boot this(1) run [symmetric] k'(2) this(2) k'(3)]
  show ?thesis unfolding run using k'(2) by blast
qed


section \<open>Metadata as text\<close>

lemma digit_byte:
  assumes "(d :: u32) < 10"
  shows "0x30 + (ucast d :: u8) \<noteq> 0x0A" "0x30 \<le> 0x30 + (ucast d :: u8)" "0x30 + (ucast d :: u8) \<le> 0x39"
    "(ucast (0x30 + (ucast d :: u8) - 0x30) :: u64) = ucast d"
proof -
  have "unat d < 10" using assms by (simp add: word_less_nat_alt)
  then have u: "unat (ucast d :: u8) = unat d" by (simp add: unsigned_ucast_eq take_bit_nat_eq_self)
  have sum: "unat (0x30 + (ucast d :: u8)) = 0x30 + unat d"
    using \<open>unat d < 10\<close> by (simp add: unat_word_ariths u)
  have "unat (0x30 + (ucast d :: u8)) \<noteq> unat (0x0A :: u8)" unfolding sum by simp
  then show "0x30 + (ucast d :: u8) \<noteq> 0x0A" by metis
  show "0x30 \<le> 0x30 + (ucast d :: u8)" "0x30 + (ucast d :: u8) \<le> 0x39"
    unfolding word_le_nat_alt sum using \<open>unat d < 10\<close> by simp_all
  show "(ucast (0x30 + (ucast d :: u8) - 0x30) :: u64) = ucast d"
    unfolding add_diff_cancel_left' word_unat_eq_iff unsigned_ucast_eq [of "ucast d :: u8"] u
    by (simp add: unsigned_ucast_eq)
qed

lemma unat_u32: "unat (v :: u32) < 4294967296"
  using unsigned_less [of v] by simp

lemma digit_value: "(ucast (v div 10) * 10 + ucast (v mod 10) :: u64) = ucast (v :: u32)"
proof -
  have b: "unat (v div 10) * 10 + unat (v mod 10) = unat v" by (simp add: unat_div unat_mod)
  show ?thesis using b unat_u32 [of v] by (simp add: word_unat_eq_iff unat_word_ariths unsigned_ucast_eq take_bit_nat_eq_self)
qed

lemma parse_digit_step:
  assumes "(d :: u32) < 10" and "w * 10 + ucast d \<le> (0xFFFFFFFF :: u64)"
  shows "parse_digits w saw ((0x30 + ucast d) # bs) = parse_digits (w * 10 + ucast d) True bs"
  using digit_byte [OF assms(1)] assms(2) by (auto simp: Let_def)


text \<open>Reading the digits of a number gives the number.\<close>

lemma parse_digit_loop:
  "parse_digits 0 saw (rev (digit_loop v) @ bs) = parse_digits (ucast v) (saw \<or> v \<noteq> 0) bs"
proof (induction v arbitrary: saw bs rule: digit_loop.induct)
  case (1 v)
  show ?case
  proof (cases "v = 0")
    case True
    then show ?thesis by (simp add: digit_loop.simps)
  next
    case False
    have d: "v mod 10 < 10" by (simp add: word_mod_less_divisor)
    have le: "(ucast v :: u64) \<le> 0xFFFFFFFF"
      using unat_u32 [of v] by (simp add: word_le_nat_alt unsigned_ucast_eq take_bit_nat_eq_self)
    have "parse_digits 0 saw (rev (digit_loop v) @ bs)
        = parse_digits 0 saw (rev (digit_loop (v div 10)) @ (0x30 + ucast (v mod 10)) # bs)"
      using False by (subst digit_loop.simps) simp
    also have "\<dots> = parse_digits (ucast v) True bs"
      using 1 [OF False] parse_digit_step [OF d, of "ucast (v div 10)"] digit_value [of v] le by simp
    finally show ?thesis using False by simp
  qed
qed

lemma parse_decimal: "parse_digits 0 False (decimal_digits v @ [0x0A]) = Some (ucast v)"
  using parse_digit_loop [of False v "[0x0A]"] by (cases "v = 0") (simp_all add: decimal_digits_def Let_def)

lemma digit_loop_length: "unat v < 10 ^ n \<Longrightarrow> length (digit_loop v) \<le> n"
proof (induction n arbitrary: v)
  case 0
  then show ?case by (simp add: digit_loop.simps unat_eq_0)
next
  case (Suc n)
  then have "unat (v div 10) < 10 ^ n" by (simp add: unat_div less_mult_imp_div_less mult.commute)
  then show ?case using Suc.IH [of "v div 10"] by (subst digit_loop.simps) simp
qed

lemma decimal_length: "length (decimal_digits v) \<le> 10"
  using digit_loop_length [of v 10] unat_u32 [of v] by (simp add: decimal_digits_def)

lemma labelled_text:
  assumes "length label \<le> 20"
  shows "(case text_append 32 [] label of None \<Rightarrow> None
      | Some w \<Rightarrow> (case decimal_append 32 w v of None \<Rightarrow> None | Some w1 \<Rightarrow> text_append 32 w1 [CHR 0x0A]))
    = Some (bytes_of label @ decimal_digits v @ [0x0A])"
  using assms decimal_length [of v]
  by (simp add: text_append_def decimal_append_def bytes_append_def bytes_of_def)

lemma span_matches_label: "fd64_span_matches (bytes_of label @ bs) label"
  by (simp add: fd64_span_matches_def bytes_of_def)

text \<open>
  C17: The metadata survive the way through text. For every file the file system renders its size into
  the 32 bytes that the descriptor layer offers, and the two readers of this layer, the one behind
  \<^verbatim>\<open>fd64_stat\<close> and the one behind seeking to the end, get the file type and exactly this size back; for
  every directory the rendering fits as well and is read as a directory of size 0, and the reader of file
  sizes refuses it.
\<close>

theorem fd64_stat_text_roundtrip:
  "(rs_node_type st = RAMFS_NODE_FILE \<longrightarrow>
     (\<exists>bytes. ramfs_format_stat st 32 = Some bytes
       \<and> fd64_parse_ramfs_stat bytes buf
           = Some (buf\<lparr>st_node_type := FD64_STAT_NODE_FILE, st_size := ucast (rs_byte_length st)\<rparr>)
       \<and> fd64_parse_file_stat_size bytes = Some (ucast (rs_byte_length st))))
   \<and> (rs_node_type st = RAMFS_NODE_DIRECTORY \<longrightarrow>
     (\<exists>bytes. ramfs_format_stat st 32 = Some bytes
       \<and> fd64_parse_ramfs_stat bytes buf = Some (buf\<lparr>st_node_type := FD64_STAT_NODE_DIRECTORY, st_size := 0\<rparr>)
       \<and> fd64_parse_file_stat_size bytes = None))"
proof -
  let ?f = "''type=file size=''" and ?d = "''type=dir entries=''"
  have "ramfs_format_stat st 32 = Some (bytes_of ?f @ decimal_digits (rs_byte_length st) @ [0x0A])"
    if "rs_node_type st = RAMFS_NODE_FILE"
    using that labelled_text [of ?f] by (simp add: ramfs_format_stat_def)
  moreover have "ramfs_format_stat st 32 = Some (bytes_of ?d @ decimal_digits (rs_child_count st) @ [0x0A])"
    if "rs_node_type st = RAMFS_NODE_DIRECTORY"
    using that labelled_text [of ?d] by (simp add: ramfs_format_stat_def)
  moreover have "\<not> fd64_span_matches (bytes_of ?d @ bs) ?f" for bs
    by (simp add: fd64_span_matches_def bytes_of_def)
  moreover have "length (bytes_of l) = length l" for l by (simp add: bytes_of_def)
  ultimately show ?thesis
    using span_matches_label [of ?f] span_matches_label [of ?d]
    by (simp add: fd64_parse_ramfs_stat_def fd64_parse_file_stat_size_def fd64_parse_decimal_tail_def parse_decimal)
qed


theorem fd64_stat_text_roundtrip_witness:
  "\<exists>bytes. ramfs_format_stat \<lparr>rs_node_type = RAMFS_NODE_FILE, rs_byte_length = 300, rs_child_count = 0\<rparr> 32 = Some bytes
     \<and> fd64_parse_file_stat_size bytes = Some 300"
  using fd64_stat_text_roundtrip [of "\<lparr>rs_node_type = RAMFS_NODE_FILE, rs_byte_length = 300, rs_child_count = 0\<rparr>"] by auto

end
