(* ===== verification/Spec2Isabelle.thy ===== *)
theory Spec2Isabelle
  imports Persona_Format Capability_Props Scheduler_Props Fd_Props
begin

text \<open>
  A verification development for the services of the 64-bit LimitlessOS kernel, in the configuration
  of the UEFI build (\<^verbatim>\<open>LIMITLESS_X64_UEFI_KERNEL\<close>). All paths are relative to \<^verbatim>\<open>src/kernel\<close>, and
  \<^verbatim>\<open>x86_64/\<close> stands for \<^verbatim>\<open>arch/x86_64/\<close>.

  \<^bold>\<open>The program.\<close> A process acts for a principal. It owns capabilities, which the broker grants,
  delegates, routes and revokes; a persona (native, Linux, Windows or macOS) with budgets and an audit
  log; and a descriptor table. Behind a descriptor is a node capability of the file service, which
  works on the RAM file system, an end of a pipe, or a console capability. Pipes park and wake tasks of
  the scheduler. All of it lives in static tables that are searched in loops, and one component holds
  the address of another's table element.

  \<^bold>\<open>The model.\<close> Every C function is a function on a record of the state it can reach, returning its
  result and the new state; every early return is a branch. The kernel state is one extensible record
  that grows along the order in which the components use each other: \<open>kernel_proc\<close>, \<open>kernel_persona\<close>,
  \<open>kernel_audit\<close>, \<open>kernel_cap\<close>, \<open>kernel_sched\<close>, \<open>kernel_pipe\<close>, \<open>kernel_fs\<close>, \<open>kernel_console\<close>,
  \<open>kernel_fd\<close>; an operation is polymorphic in what lies above it and so cannot touch it. \<^verbatim>\<open>u8\<close>, \<^verbatim>\<open>u16\<close>,
  \<^verbatim>\<open>u32\<close> and \<^verbatim>\<open>u64\<close> are words of their width and wrap as in C. A \<^verbatim>\<open>u32\<close> that is only ever 0 or 1 is a
  truth value. A pointer to an element of a static table is its index. A pointer with a length is the
  list of the bytes behind it, where the code distinguishes null an option; memory reached through an
  address of the caller is an explicit function from addresses to bytes. A macro constant keeps its name.

  \<^bold>\<open>Theories, sources and what is shown.\<close>

  \<^item> \<open>Prelude\<close>, \<open>Handle_Table\<close>: words, search loops, counts, tables as finite maps, the pool of contexts
    that processes hold (\<open>pool_inv\<close>), and the locale \<open>op_machine\<close> that lifts an invariant to runs of
    operations. It is interpreted for processes, personas, capabilities and descriptors.
  \<^item> \<open>Principal\<close>, \<open>Services\<close>, \<open>Launch\<close>: the directories of \<^verbatim>\<open>x86_64/principal.c\<close>, \<^verbatim>\<open>services.c\<close> and the
    manifest fields of \<^verbatim>\<open>launch.c\<close> that the others read.
  \<^item> \<open>Process\<close>, \<open>Process_Inv\<close>: the process table of \<^verbatim>\<open>x86_64/process.c\<close>. Pids stay unique and child counts
    exact in every run; spawn inherits, release undoes spawn; the locale \<open>process_slot\<close> is the contract of
    the four extension slots; a wrapped pid counter hands out a pid that is in use.
  \<^item> \<open>Persona\<close>, \<open>Persona_Format\<close>, \<open>Persona_Inv\<close>: \<^verbatim>\<open>x86_64/persona.c\<close>. Contexts are never shared, budgets
    are checked and charged exactly, signals stay in their group, the format sniffer equals its
    specification on prefixes and sublists; a reused context keeps fields of its previous process.
  \<^item> \<open>Persona_Audit\<close>, \<open>Persona_Audit_Inv\<close>: \<^verbatim>\<open>x86_64/persona_audit.c\<close>. The ring refines the list of the
    last 256 events (locale \<open>audit_sink\<close>); syscall names and tokens agree; crashes and unavailable calls
    are recorded as they happened.
  \<^item> \<open>Capability\<close>, \<open>Capability_Inv\<close>, \<open>Capability_Props\<close>: \<^verbatim>\<open>x86_64/capability.c\<close>. Handles are unique, a
    delegated capability is an attenuation of its root, routing succeeds exactly on authorised live
    handles, revocation leaves nothing derived behind, leases end exactly on time - except where the
    tick counter wraps onto the value that means no lease.
  \<^item> \<open>Scheduler\<close>, \<open>Scheduler_Inv\<close>, \<open>Scheduler_Props\<close>: \<^verbatim>\<open>x86_64/scheduler.c\<close>. A step relation over
    all calls in any order, and what its reachable states keep; at most one task is running as long as only
    idle queues are started, which the code does not check; every ready task is reached by the timer, which
    ends sleeps at their tick, but those of more than half the range of the counter too early; the spin
    loop of a sleeper ends; the locale \<open>task_parking\<close> is what pipes rely on.
  \<^item> \<open>Pipe\<close>, \<open>Pipe_Inv\<close>, \<open>Pipe_Props\<close>: \<^verbatim>\<open>x86_64/pipe.c\<close>. The ring is a bounded queue (locale
    \<open>bounded_fifo\<close>); any interleaving of reads and writes refines a queue of bytes; complete transfers
    wake the peer, short reads do not.
  \<^item> \<open>Ramfs\<close>, \<open>Ramfs_Inv\<close>: \<^verbatim>\<open>core/ramfs.c\<close>. The node table stays a tree, so the loop over parent links
    ends; what was written is read back.
  \<^item> \<open>Fs\<close>, \<open>Fs_Inv\<close>, \<open>Fs_Props\<close>: \<^verbatim>\<open>x86_64/fs.c\<close>. Requests of one principal leave the node capabilities
    of the others alone; a handle to a deleted node reaches the node created next in its slot.
  \<^item> \<open>Console\<close>: \<^verbatim>\<open>x86_64/console.c\<close>, writing and capturing.
  \<^item> \<open>Fd\<close>, \<open>Pipe_Fd\<close>, \<open>Fd_Frame\<close>, \<open>Fd_Inv\<close>, \<open>Fd_Props\<close>: \<^verbatim>\<open>x86_64/fd.c\<close> and the part of \<^verbatim>\<open>pipe.c\<close> that
    works on descriptors. The services below leave the tables alone; every operation keeps the typing of
    the tables; the metadata of a node survive the way through text.
  \<^item> This theory: what a refused pipe does to the budget of its process, across descriptors, pipes and
    personas.

  \<^bold>\<open>Bounds.\<close> Table sizes are those of the code: 7 seeded processes and 16 children, 32 persona and 16 audit
  contexts with 256 events each, 64 capabilities, 16 tasks, 16 pipes of 4096 bytes, 64 nodes of at most
  256 bytes, 32 node capabilities, 16 tables of 1024 descriptors. The waiting loops carry the limits the
  code gives them as fuel, 1024 rounds for a pipe and 1,000,000 for a sleeper, and running out is the
  code's own error result. \<^verbatim>\<open>ramfs_parent_chain_contains\<close> has no limit in the code; it is a partial
  function, \<open>None\<close> where it does not return, and is shown to return in every tree.

  \<^bold>\<open>Parameters.\<close> The storage drivers (\<open>storage\<close>), the debug port and display (\<open>screen\<close>), the hooks of the
  scheduler (\<open>sched_env\<close>), \<^verbatim>\<open>linux_vfs64_fstat\<close>, the results of image parsers and the address-space queries
  of a crash report are arguments of the definitions, and a property that assumes something of them says so.
  Readings of the tick counter are part of the state or arguments.

  \<^bold>\<open>Not modelled.\<close> Device drivers and \<^verbatim>\<open>mmio.c\<close> (registers and DMA), page tables and address spaces, image
  loaders, the Linux, Windows and macOS syscall layers (they act on user memory and page tables), the
  syscall dispatcher and shell, display and network, identity and packages, the UEFI loader, the bring-up
  checks, which only call the components, the 32-bit kernel and assembly. Planning and starting images in
  \<^verbatim>\<open>launch.c\<close>, binding processes to manifests, and the probes of \<^verbatim>\<open>services.c\<close> depend on these. Interrupts
  between the statements of one operation are not modelled: an operation is one step.
\<close>

section \<open>The charge of a refused pipe\<close>

definition pipes_of :: "u32 \<Rightarrow> 'a kernel_pipe_scheme \<Rightarrow> nat" where
  "pipes_of pid k = count_if (\<lambda>p. pb_live p \<and> pb_owner_pid p = pid) (g_pipe64_objects (k_pipe k))"

text \<open>Abandoning the pipe just opened for a process gives back one pipe of its charge.\<close>

lemma abandon_refunds:
  fixes k :: "('d, 'a) kernel_fd_scheme"
  assumes "persona64_context_for_process k pid = Some c" "c < length (g_persona64_contexts (k_persona k))"
    and "i < length (g_pipe64_objects (k_pipe k))" "pb_live (pipe_at k i)" "pb_owner_pid (pipe_at k i) = pid"
    and "pid \<noteq> PROCESS64_INVALID_PID" "pipe_count (pc_budget (ctx k c)) \<noteq> 0"
  shows "pipe_count (pc_budget (ctx (abandon_pipe i k) c)) = pipe_count (pc_budget (ctx k c)) - 1"
    "pipe_budget (pc_budget (ctx (abandon_pipe i k) c)) = pipe_budget (pc_budget (ctx k c))"
    "g_pipe64_objects (k_pipe (abandon_pipe i k))
       = (g_pipe64_objects (k_pipe k))[i := cleared_pipe (pb_generation (pipe_at k i))]"
    "k_proc (abandon_pipe i k) = k_proc k" "k_fd (abandon_pipe i k) = k_fd k"
    "g_pipe64_initialized (k_pipe (abandon_pipe i k)) = g_pipe64_initialized (k_pipe k)"
    "length (g_persona64_contexts (k_persona (abandon_pipe i k))) = length (g_persona64_contexts (k_persona k))"
proof -
  have "1 \<le> pipe_count (pc_budget (ctx k c))" using assms(7) by (simp add: word_le_nat_alt unat_gt_0 Suc_le_eq)
  then show "pipe_count (pc_budget (ctx (abandon_pipe i k) c)) = pipe_count (pc_budget (ctx k c)) - 1"
    "pipe_budget (pc_budget (ctx (abandon_pipe i k) c)) = pipe_budget (pc_budget (ctx k c))"
    using assms by (simp_all add: abandon_pipe_def pipe_deny_def pipe64_clear_object_def Let_def upd_pipe_def upd_pipes_def
      persona64_budget_release_pipe_def ctx_def upd_ctx_def)
  show "g_pipe64_objects (k_pipe (abandon_pipe i k))
      = (g_pipe64_objects (k_pipe k))[i := cleared_pipe (pb_generation (pipe_at k i))]"
    "k_proc (abandon_pipe i k) = k_proc k" "k_fd (abandon_pipe i k) = k_fd k"
    "g_pipe64_initialized (k_pipe (abandon_pipe i k)) = g_pipe64_initialized (k_pipe k)"
    "length (g_persona64_contexts (k_persona (abandon_pipe i k))) = length (g_persona64_contexts (k_persona k))"
    using assms by (simp_all add: abandon_pipe_def pipe_deny_def pipe64_clear_object_def Let_def upd_pipe_def upd_pipes_def
      persona64_budget_release_pipe_def upd_ctx_def)
qed

lemma alloc_full:
  assumes "g_fd64_initialized (k_fd k)" "process64_fd_table (k_proc k) pid = Some t"
    and "list_all fd64_entry_active (ft_entries (table_at k t))"
  shows "fd64_alloc pid h ty flags k = (FD64_INVALID_FD, table_deny t k)"
proof -
  have "first_index (\<lambda>e. \<not> fd64_entry_active e) (ft_entries (table_at k t)) = None"
    using assms(3) by (simp add: first_index_None_iff list_all_iff)
  then show ?thesis using assms(1,2) by (simp add: fd64_alloc_def fd64_table_for_process_def fd64_init_def)
qed

text \<open>
  A live process with a persona whose descriptor table is full, while it is charged for fewer pipes than
  its budget and some pipe object is free.
\<close>

definition starved :: "u32 \<Rightarrow> nat \<Rightarrow> nat \<Rightarrow> ('d, 'a) kernel_fd_scheme \<Rightarrow> bool" where
  "starved pid t c k \<longleftrightarrow> g_pipe64_initialized (k_pipe k) \<and> g_fd64_initialized (k_fd k)
   \<and> pid \<noteq> PROCESS64_INVALID_PID \<and> process64_principal (k_proc k) pid \<noteq> 0
   \<and> process64_fd_table (k_proc k) pid = Some t \<and> list_all fd64_entry_active (ft_entries (table_at k t))
   \<and> persona64_context_for_process k pid = Some c \<and> c < length (g_persona64_contexts (k_persona k))
   \<and> pipe_count (pc_budget (ctx k c)) < pipe_budget (pc_budget (ctx k c))
   \<and> \<not> list_all pb_live (g_pipe64_objects (k_pipe k))"

lemma refused_pipe_refunds:
  assumes st: "starved pid t c k" and n: "pipe_count (pc_budget (ctx k c)) \<noteq> 0"
    and res: "pipe64_create pid True True k = (r, k')"
  shows "r = None" "pipes_of pid k' = pipes_of pid k"
    "pipe_count (pc_budget (ctx k' c)) = pipe_count (pc_budget (ctx k c)) - 1" "starved pid t c k'"
proof -
  note h = st [unfolded starved_def]
  obtain i where free: "first_index (\<lambda>p. \<not> pb_live p) (g_pipe64_objects (k_pipe k)) = Some i"
    using h by (cases "first_index (\<lambda>p. \<not> pb_live p) (g_pipe64_objects (k_pipe k))")
      (auto simp: first_index_None_iff list_all_iff)
  have i: "i < length (g_pipe64_objects (k_pipe k))" "\<not> pb_live (pipe_at k i)" using first_index_SomeD [OF free] by simp_all
  let ?owner = "process64_principal (k_proc k) pid"
  define k1 where "k1 = upd_pipe i (open_pipe i pid ?owner) (pipe64_clear_object i k)"
  have k1: "k_proc k1 = k_proc k" "k_persona k1 = k_persona k" "k_fd k1 = k_fd k"
    "g_pipe64_objects (k_pipe k1)
       = (g_pipe64_objects (k_pipe k))[i := open_pipe i pid ?owner (cleared_pipe (pb_generation (pipe_at k i)))]"
    "g_pipe64_initialized (k_pipe k1) = g_pipe64_initialized (k_pipe k)"
    using i by (simp_all add: k1_def pipe64_clear_object_def upd_pipe_def upd_pipes_def)
  have at: "pb_live (pipe_at k1 i)" "pb_owner_pid (pipe_at k1 i) = pid" using i by (simp_all add: k1 open_pipe_def Let_def)
  have fits: "persona64_budget_check_pipe pid 1 k = (True, k)"
    using h
    by (auto simp: persona64_budget_check_pipe_def budget_check_def persona64_budget_sum_def Let_def)
      (metis inc_le leD)
  have "fd64_alloc pid f ty 0 k1 = (FD64_INVALID_FD, table_deny t k1)" for f ty
    using h by (intro alloc_full) (simp_all add: k1)
  then have r: "r = None" "k' = abandon_pipe i k1 \<or> k' = abandon_pipe i (table_deny t k1)"
    using res h fits free
    by (auto simp: pipe64_create_def pipe64_create_flags_def pipe64_init_def fd64_table_for_process_def fd64_init_def
      foreign_flags_def Let_def k1_def [symmetric] bind_pipe_def split: if_splits)
  show "r = None" by (rule r(1))
  obtain k2 where k2: "k' = abandon_pipe i k2" "k2 = k1 \<or> k2 = table_deny t k1" using r(2) by blast
  have same: "k_proc k2 = k_proc k" "k_persona k2 = k_persona k" "k_pipe k2 = k_pipe k1"
    "g_fd64_initialized (k_fd k2) = g_fd64_initialized (k_fd k)"
    using k2(2) by (auto simp: k1 table_deny_def upd_table_def upd_fd_def)
  have entries: "ft_entries (table_at k2 t) = ft_entries (table_at k t)"
    using k2(2) by (cases "t < length (g_fd64_tables (k_fd k))")
      (auto simp: k1 table_deny_def upd_table_def upd_fd_def list_update_beyond)
  have c: "ctx k2 c = ctx k c" "persona64_context_for_process k2 pid = Some c"
    using h by (simp_all add: ctx_def persona64_context_for_process_def same)
  have "c < length (g_persona64_contexts (k_persona k2))" "i < length (g_pipe64_objects (k_pipe k2))"
    "pb_live (pipe_at k2 i)" "pb_owner_pid (pipe_at k2 i) = pid" "pid \<noteq> PROCESS64_INVALID_PID"
    "pipe_count (pc_budget (ctx k2 c)) \<noteq> 0"
    using h n at i by (simp_all add: same k1 c)
  note ab = abandon_refunds [OF c(2) this]
  show count: "pipe_count (pc_budget (ctx k' c)) = pipe_count (pc_budget (ctx k c)) - 1"
    using ab(1) by (simp add: k2(1) c)
  have obj: "g_pipe64_objects (k_pipe k') = (g_pipe64_objects (k_pipe k))[i := cleared_pipe (pb_generation (pipe_at k1 i))]"
    using ab(3) by (simp add: k2(1) same k1)
  then show "pipes_of pid k' = pipes_of pid k"
    using i by (simp add: pipes_of_def count_if_update_same cleared_pipe_def)
  have "\<not> pb_live (g_pipe64_objects (k_pipe k') ! i)" "i < length (g_pipe64_objects (k_pipe k'))"
    using i by (simp_all add: obj cleared_pipe_def)
  then have "\<not> list_all pb_live (g_pipe64_objects (k_pipe k'))" by (auto simp: list_all_length)
  moreover have "pipe_count (pc_budget (ctx k c)) - 1 < pipe_budget (pc_budget (ctx k c))"
    using h unat_minus_one [OF n] by (auto simp: word_less_nat_alt intro: le_less_trans [OF diff_le_self])
  ultimately show "starved pid t c k'"
    using h ab(2,4-7) count entries
    by (simp add: starved_def k2(1) same k1 c persona64_context_for_process_def)
qed

text \<open>
  C40: A refused pipe is refunded though it was never charged. Let a live process with a persona be
  charged for fewer pipes than its budget, its descriptor table be full and some pipe object be free. Then
  each of its next \<open>m\<close> requests for a pipe fails, as long as \<open>m\<close> is at most its charge; it owns exactly
  as many live pipes as before, and yet is charged for \<open>m\<close> pipes less. With \<open>m\<close> the whole charge the
  charge is zero, whatever the process owns, so the budget no longer bounds its pipes.
\<close>

theorem pipe64_create_failure_refunds:
  fixes k :: "('d, 'a) kernel_fd_scheme"
  assumes "starved pid t c k" and "m \<le> unat (pipe_count (pc_budget (ctx k c)))"
    and "request = (\<lambda>k :: ('d, 'a) kernel_fd_scheme. snd (pipe64_create pid True True k))"
  shows "(\<forall>j<m. fst (pipe64_create pid True True ((request ^^ j) k)) = None)
    \<and> pipes_of pid ((request ^^ m) k) = pipes_of pid k
    \<and> unat (pipe_count (pc_budget (ctx ((request ^^ m) k) c))) = unat (pipe_count (pc_budget (ctx k c))) - m"
proof -
  have "(\<forall>j<m. fst (pipe64_create pid True True ((request ^^ j) k)) = None)
    \<and> pipes_of pid ((request ^^ m) k) = pipes_of pid k \<and> starved pid t c ((request ^^ m) k)
    \<and> unat (pipe_count (pc_budget (ctx ((request ^^ m) k) c))) = unat (pipe_count (pc_budget (ctx k c))) - m"
    using assms(2)
  proof (induction m)
    case 0
    then show ?case using assms(1) by simp
  next
    case (Suc m)
    let ?k = "(request ^^ m) k"
    have IH: "\<forall>j<m. fst (pipe64_create pid True True ((request ^^ j) k)) = None"
      "pipes_of pid ?k = pipes_of pid k" "starved pid t c ?k"
      "unat (pipe_count (pc_budget (ctx ?k c))) = unat (pipe_count (pc_budget (ctx k c))) - m"
      using Suc by simp_all
    then have pos: "0 < unat (pipe_count (pc_budget (ctx ?k c)))" using Suc.prems by simp
    then have nz: "pipe_count (pc_budget (ctx ?k c)) \<noteq> 0" by auto
    note step = refused_pipe_refunds [OF IH(3) nz prod.collapse [symmetric]]
    have after: "(request ^^ Suc m) k = snd (pipe64_create pid True True ?k)" by (simp add: assms(3))
    have "unat (pipe_count (pc_budget (ctx ?k c)) - 1) = unat (pipe_count (pc_budget (ctx ?k c))) - 1"
      using pos by (simp add: unat_minus_one nz)
    then show ?case
      using IH step by (auto simp: after less_Suc_eq simp del: funpow.simps)
  qed
  then show ?thesis by blast
qed


text \<open>The processes of the kernel with both slots of one of them taken.\<close>

definition crowded_processes :: process_state where
  "crowded_processes = snd (process64_attach_fd 4 (Some 0) (snd (process64_attach_persona 4 (Some 0) process64_seed_records)))"

text \<open>A process with one pipe of at most four and 1024 open descriptors.\<close>

definition crowded :: "nat kernel_fd" where
  "crowded = demo_fd crowded_processes
     \<lparr>g_persona64_contexts = [persona_zero\<lparr>pc_pid := 4, pc_budget :=
        (pc_budget persona_zero)\<lparr>fd_budget := 1024, pipe_budget := 4, pipe_count := 1\<rparr>\<rparr>],
      g_persona64_context_used = [True], g_persona64_initialized = True, g_persona64_native_count = 0,
      g_persona64_denial_count = 0\<rparr>
     \<lparr>g_pipe64_objects = [(cleared_pipe 2)\<lparr>pb_live := True, pb_owner_pid := 4\<rparr>, cleared_pipe 1],
      g_pipe64_initialized = True, g_pipe64_denials = 0, g_pipe64_block_count = 0,
      g_pipe64_wake_count = 0, g_pipe64_replay_wake_count = 0\<rparr>
     (fd_bss\<lparr>g_fd64_tables := [\<lparr>ft_pid = 4, ft_owner_id = 3, ft_live_count = 1024, ft_high_water_fd = 1023,
        ft_denial_count = 0, ft_entries = map (\<lambda>n. \<lparr>fe_fd_number = of_nat n, fe_capability_handle = 0x6600,
          fe_fd_type = FD64_TYPE_RAMFS_NODE, fe_flags = 0, fe_file_offset = 0, fe_ref_count = 1024\<rparr>)
          [0..<FD64_TABLE_LIMIT]\<rparr>],
      g_fd64_table_used := [True], g_fd64_initialized := True\<rparr>)"

theorem pipe64_create_failure_refunds_witness:
  "fst (pipe64_create 4 True True crowded) = None
   \<and> pipes_of 4 (snd (pipe64_create 4 True True crowded)) = 1
   \<and> pipe_count (pc_budget (ctx (snd (pipe64_create 4 True True crowded)) 0)) = 0"
proof -
  have ps: "process64_principal crowded_processes 4 \<noteq> 0" "process64_fd_table crowded_processes 4 = Some 0"
    "process64_persona_ctx crowded_processes 4 = Some 0"
    by code_simp+
  have a: "g_pipe64_initialized (k_pipe crowded)" "g_fd64_initialized (k_fd crowded)"
    "process64_principal (k_proc crowded) 4 \<noteq> 0" "process64_fd_table (k_proc crowded) 4 = Some 0"
    "persona64_context_for_process crowded 4 = Some 0" "0 < length (g_persona64_contexts (k_persona crowded))"
    using ps by (simp_all add: crowded_def persona64_context_for_process_def)
  have full: "list_all fd64_entry_active (ft_entries (table_at crowded 0))"
    by (simp add: crowded_def list_all_iff fd64_entry_active_def)
  have b: "pipe_count (pc_budget (ctx crowded 0)) = 1" "pipe_budget (pc_budget (ctx crowded 0)) = 4"
    by (simp_all add: crowded_def ctx_def)
  have free: "\<not> list_all pb_live (g_pipe64_objects (k_pipe crowded))" "pipes_of 4 crowded = 1"
    by (simp_all add: crowded_def pipes_of_def cleared_pipe_def)
  have nums: "(4 :: u32) \<noteq> PROCESS64_INVALID_PID" "(1 :: u32) < 4" "(1 :: nat) \<le> unat (1 :: u32)" by simp_all
  have st: "starved 4 0 0 crowded"
    unfolding starved_def b by (intro conjI a full free(1) nums(1,2))
  have one: "(\<lambda>k. snd (pipe64_create 4 True True k)) ^^ 1 = (\<lambda>k :: nat kernel_fd. snd (pipe64_create 4 True True k))"
    by simp
  note main = pipe64_create_failure_refunds [OF st _ refl, of 1, unfolded one b(1) free(2), OF nums(3)]
  have "fst (pipe64_create 4 True True crowded) = None"
    using main [THEN conjunct1, rule_format, of 0] by simp
  with main show ?thesis by (simp add: unat_eq_0)
qed

end
